(* ===== verification/Prelude.thy ===== *)
theory Prelude
  imports Complex_Main "HOL-Library.Word" "HOL-Library.AList" "HOL-Library.List_Lexorder"
    "HOL-Library.Char_ord" "HOL-Library.Code_Target_Numeral"
begin

text \<open>
  Shared vocabulary of the development: the Go scalar types (time instants and durations in
  nanoseconds, 64-bit wrap-around), the functions of the Go package \<open>strings\<close> that the broker uses,
  error values, and the generic lemmas on lists and maps that the component theories share.

  Conventions.  A Go \<open>string\<close> or byte slice is a HOL \<open>string\<close> (a list of bytes).  A \<open>time.Time\<close> is
  the number of nanoseconds since the Unix epoch, an unbounded integer; \<open>zero_time\<close> is the Go zero
  value (0001-01-01 UTC).  A \<open>float64\<close> is a rational (rounded to
  double precision where the code computes, see GoFloat).  A Go map is a HOL
  partial function, and every \<open>range\<close> loop over a map takes the order in which the runtime visits the
  keys as an explicit list argument, so that the theorems hold for every iteration order.
\<close>

section \<open>Collections of facts\<close>

named_theorems go_defs \<open>definitions of the Go library functions modelled here\<close>
named_theorems frame_simps \<open>what an operation leaves unchanged\<close>
named_theorems store_simps \<open>effects of the store operations\<close>

section \<open>Go scalars\<close>

type_synonym gotime = int
type_synonym duration = int
type_synonym err = string

definition zero_time :: gotime where
  "zero_time = -62135596800000000000"

definition is_zero :: "gotime \<Rightarrow> bool" where
  "is_zero t \<longleftrightarrow> t = zero_time"

definition second :: duration where "second = 1000000000"

definition minute :: duration where "minute = 60 * second"

definition unix_sec :: "gotime \<Rightarrow> int" where
  "unix_sec t = t div second"

definition from_unix :: "int \<Rightarrow> gotime" where
  "from_unix s = s * second"

lemma unix_sec_from_unix [simp]: "unix_sec (from_unix s) = s"
  by (simp add: unix_sec_def from_unix_def second_def)

lemma later_second: "unix_sec now < u \<Longrightarrow> now < from_unix u"
  unfolding unix_sec_def from_unix_def second_def by linarith

lemma unix_sec_mono: "t \<le> u \<Longrightarrow> unix_sec t \<le> unix_sec u"
  by (simp add: unix_sec_def second_def zdiv_mono1)

lemma before_from_unix: "t < from_unix x \<Longrightarrow> unix_sec t < x"
  unfolding unix_sec_def from_unix_def second_def by linarith

text \<open>Two's complement 64-bit wrap-around of an integer result.\<close>

definition wrap64 :: "int \<Rightarrow> int" where
  "wrap64 n = (n + 2 ^ 63) mod 2 ^ 64 - 2 ^ 63"

definition fits64 :: "int \<Rightarrow> bool" where
  "fits64 n \<longleftrightarrow> - (2 ^ 63) \<le> n \<and> n < 2 ^ 63"

lemma wrap64_id [simp]: "fits64 n \<Longrightarrow> wrap64 n = n"
  by (simp add: wrap64_def fits64_def)

lemma fits64_wrap64 [simp]: "fits64 (wrap64 n)"
proof -
  have "0 \<le> (n + 2 ^ 63) mod 2 ^ 64" and "(n + 2 ^ 63) mod 2 ^ 64 < (2 ^ 64 :: int)"
    by (rule pos_mod_sign, simp, rule pos_mod_bound, simp)
  then show ?thesis
    unfolding wrap64_def fits64_def by simp
qed

text \<open>Conversion of a float to an integer truncates towards zero.\<close>

definition go_trunc :: "rat \<Rightarrow> int" where
  "go_trunc q = (if 0 \<le> q then \<lfloor>q\<rfloor> else \<lceil>q\<rceil>)"

lemma go_trunc_mono: "p \<le> q \<Longrightarrow> go_trunc p \<le> go_trunc q"
proof -
  assume le: "p \<le> q"
  consider "0 \<le> p" | "p < 0" "0 \<le> q" | "p < 0" "q < 0" by linarith
  then show ?thesis
  proof cases
    case 1
    with le show ?thesis by (simp add: go_trunc_def floor_mono)
  next
    case 2
    then have "\<lceil>p\<rceil> \<le> 0" and "0 \<le> \<lfloor>q\<rfloor>" by simp_all
    then have "\<lceil>p\<rceil> \<le> \<lfloor>q\<rfloor>" by (rule order_trans)
    with 2 show ?thesis by (simp add: go_trunc_def)
  next
    case 3
    with le show ?thesis by (simp add: go_trunc_def ceiling_mono)
  qed
qed

lemma go_trunc_of_int [simp]: "go_trunc (of_int n) = n"
  by (simp add: go_trunc_def)

lemma go_trunc_bounds: "of_int lo \<le> q \<Longrightarrow> q \<le> of_int hi \<Longrightarrow> lo \<le> go_trunc q \<and> go_trunc q \<le> hi"
  using go_trunc_mono [of "of_int lo" q] go_trunc_mono [of q "of_int hi"] by simp

section \<open>The package strings\<close>

definition is_space :: "char \<Rightarrow> bool" where
  "is_space c \<longleftrightarrow> (let n = (of_char c :: nat) in n = 32 \<or> (9 \<le> n \<and> n \<le> 13))"

definition trim_space :: "string \<Rightarrow> string" where
  "trim_space s = rev (dropWhile is_space (rev (dropWhile is_space s)))"

definition char_lower :: "char \<Rightarrow> char" where
  "char_lower c = (let n = (of_char c :: nat) in if 65 \<le> n \<and> n \<le> 90 then char_of (n + 32) else c)"

definition to_lower :: "string \<Rightarrow> string" where
  "to_lower s = map char_lower s"

definition has_prefix :: "string \<Rightarrow> string \<Rightarrow> bool" where
  "has_prefix s p \<longleftrightarrow> take (length p) s = p"

definition trim_prefix :: "string \<Rightarrow> string \<Rightarrow> string" where
  "trim_prefix s p = (if has_prefix s p then drop (length p) s else s)"

definition has_suffix :: "string \<Rightarrow> string \<Rightarrow> bool" where
  "has_suffix s p \<longleftrightarrow> length p \<le> length s \<and> drop (length s - length p) s = p"

fun str_index :: "string \<Rightarrow> string \<Rightarrow> nat option" where
  "str_index [] sub = (if sub = [] then Some 0 else None)"
| "str_index (c # cs) sub =
     (if has_prefix (c # cs) sub then Some 0 else map_option Suc (str_index cs sub))"

definition contains :: "string \<Rightarrow> string \<Rightarrow> bool" where
  "contains s sub \<longleftrightarrow> str_index s sub \<noteq> None"

fun join :: "string \<Rightarrow> string list \<Rightarrow> string" where
  "join sep [] = []"
| "join sep [x] = x"
| "join sep (x # y # ys) = x @ sep @ join sep (y # ys)"

text \<open>\<open>split_char c s\<close> is \<open>strings.Split\<close> with a one-byte separator.\<close>

fun split_char :: "char \<Rightarrow> string \<Rightarrow> string list" where
  "split_char d [] = [[]]"
| "split_char d (c # cs) =
     (if c = d then [] # split_char d cs
      else (case split_char d cs of [] \<Rightarrow> [[c]] | w # ws \<Rightarrow> (c # w) # ws))"

definition truncate_with :: "string \<Rightarrow> nat \<Rightarrow> string" where
  "truncate_with s n = (if length s \<le> n then s else take n s @ ''...'')"

text \<open>Decimal digits of integers (\<open>strconv.Itoa\<close>).\<close>

definition digit_char :: "nat \<Rightarrow> char" where
  "digit_char d = char_of (48 + d)"

fun nat_digits :: "nat \<Rightarrow> string" where
  "nat_digits n = (if n < 10 then [digit_char n] else nat_digits (n div 10) @ [digit_char (n mod 10)])"

declare nat_digits.simps [simp del]

definition itoa :: "int \<Rightarrow> string" where
  "itoa i = (if i < 0 then CHR ''-'' # nat_digits (nat (- i)) else nat_digits (nat i))"

definition is_digit :: "char \<Rightarrow> bool" where
  "is_digit c \<longleftrightarrow> (let n = (of_char c :: nat) in 48 \<le> n \<and> n \<le> 57)"

definition digit_val :: "char \<Rightarrow> nat" where
  "digit_val c = (of_char c :: nat) - 48"

definition digits_val :: "string \<Rightarrow> nat" where
  "digits_val ds = foldl (\<lambda>a c. 10 * a + digit_val c) 0 ds"

text \<open>\<open>strconv.ParseInt(s, 10, 64)\<close> and \<open>strconv.Atoi\<close>: an optional sign, at least one digit, and a
  value that fits 64 bits; \<open>None\<close> is the error.\<close>

definition parse_int :: "string \<Rightarrow> int option" where
  "parse_int s =
     (let neg = (s \<noteq> [] \<and> hd s = CHR ''-'');
          ds = (if s \<noteq> [] \<and> (hd s = CHR ''-'' \<or> hd s = CHR ''+'') then tl s else s);
          v = (if neg then - int (digits_val ds) else int (digits_val ds))
      in if ds \<noteq> [] \<and> list_all is_digit ds \<and> fits64 v then Some v else None)"

lemma has_prefix_append [simp]: "has_prefix (p @ s) p"
  by (simp add: has_prefix_def)

lemma has_prefix_Nil [simp]: "has_prefix s []"
  by (simp add: has_prefix_def)

lemma str_index_append: "\<exists>n. str_index (s @ p @ t) p = Some n"
proof (induction s)
  case Nil
  show ?case
  proof (cases "p @ t")
    case Nil
    then show ?thesis by simp
  next
    case (Cons a list)
    then have "has_prefix (a # list) p" by (metis has_prefix_append)
    with Cons show ?thesis by simp
  qed
next
  case (Cons a s)
  then show ?case by auto
qed

lemma contains_append [simp]: "contains (s @ p @ t) p"
  using str_index_append [of s p t] by (auto simp: contains_def)

lemma length_truncate_with: "length (truncate_with s n) \<le> n + 3"
  by (simp add: truncate_with_def)

lemma dropWhile_idem: "dropWhile P (dropWhile P xs) = dropWhile P xs"
  by (induction xs) auto

lemma trim_space_Nil [simp]: "trim_space [] = []"
  by (simp add: trim_space_def)

lemma dropWhile_snoc: "\<not> P y \<Longrightarrow> dropWhile P (xs @ [y]) = dropWhile P xs @ [y]"
  by (induction xs) auto

lemma dropWhile_rev_dropWhile:
  "dropWhile P (rev (dropWhile P (rev (dropWhile P xs)))) = rev (dropWhile P (rev (dropWhile P xs)))"
proof (cases "dropWhile P xs")
  case Nil
  then have "rev (dropWhile P (rev (dropWhile P xs))) = []" by (simp only: rev.simps dropWhile.simps)
  then show ?thesis by (simp only: dropWhile.simps)
next
  case (Cons y ys)
  then have ny: "\<not> P y" by (metis dropWhile_eq_Cons_conv)
  have "rev (dropWhile P (rev (y # ys))) = y # rev (dropWhile P (rev ys))"
    using ny by (simp add: dropWhile_snoc)
  with Cons ny show ?thesis by simp
qed

lemma trim_space_idem [simp]: "trim_space (trim_space s) = trim_space s"
  unfolding trim_space_def by (simp add: dropWhile_rev_dropWhile dropWhile_idem)

lemma char_lower_idem [simp]: "char_lower (char_lower c) = char_lower c"
  by (auto simp: char_lower_def Let_def)

lemma to_lower_idem [simp]: "to_lower (to_lower s) = to_lower s"
  by (simp add: to_lower_def)

section \<open>Generic lemmas on lists and maps\<close>

lemma foldl_invariant:
  assumes "P a" and "\<And>a x. P a \<Longrightarrow> x \<in> set xs \<Longrightarrow> P (f a x)"
  shows "P (foldl f a xs)"
  using assms by (induction xs arbitrary: a) auto

lemma fold_invariant:
  assumes "P a" and "\<And>a x. P a \<Longrightarrow> x \<in> set xs \<Longrightarrow> P (f x a)"
  shows "P (fold f xs a)"
  using assms by (induction xs arbitrary: a) auto

lemma find_Some_mem: "List.find P xs = Some x \<Longrightarrow> x \<in> set xs \<and> P x"
  by (auto simp: find_Some_iff)

section \<open>Decimal integers\<close>

lemma is_digit_digit_char [simp]: "d < 10 \<Longrightarrow> is_digit (digit_char d)"
  by (simp add: is_digit_def digit_char_def Let_def)

lemma digit_val_digit_char [simp]: "d < 10 \<Longrightarrow> digit_val (digit_char d) = d"
  by (simp add: digit_val_def digit_char_def)

lemma digits_val_snoc [simp]: "digits_val (ds @ [c]) = 10 * digits_val ds + digit_val c"
  by (simp add: digits_val_def)

lemma digits_val_Nil [simp]: "digits_val [] = 0"
  by (simp add: digits_val_def)

lemma nat_digits_all: "list_all is_digit (nat_digits n)"
  by (induction n rule: nat_digits.induct) (subst nat_digits.simps, simp)

lemma nat_digits_ne [simp]: "nat_digits n \<noteq> []"
  by (subst nat_digits.simps) simp

lemma digits_val_nat_digits [simp]: "digits_val (nat_digits n) = n"
proof (induction n rule: nat_digits.induct)
  case (1 n)
  then show ?case
    using digits_val_snoc [of "[]" "digit_char n"] by (subst nat_digits.simps) simp
qed

lemma nat_digits_hd: "0 < n \<Longrightarrow> hd (nat_digits n) \<noteq> CHR ''0''"
proof (induction n rule: nat_digits.induct)
  case (1 n)
  show ?case
  proof (cases "n < 10")
    case True
    have "digit_char n \<noteq> CHR ''0''"
    proof
      assume "digit_char n = CHR ''0''"
      then have "digit_val (digit_char n) = digit_val CHR ''0''" by simp
      with True 1 show False by (simp add: digit_val_def digit_char_def)
    qed
    with True show ?thesis by (subst nat_digits.simps) simp
  next
    case False
    with 1 show ?thesis by (subst nat_digits.simps) simp
  qed
qed

lemma nat_digits_0 [simp]: "nat_digits 0 = ''0''"
  by code_simp

lemma is_digit_sign: "is_digit c \<Longrightarrow> c \<noteq> CHR ''-'' \<and> c \<noteq> CHR ''+''"
  by (auto simp: is_digit_def Let_def)

lemma nat_digits_hd_digit: "is_digit (hd (nat_digits n))"
  using nat_digits_all [of n] nat_digits_ne [of n] by (cases "nat_digits n") auto

lemma parse_int_itoa [simp]: "fits64 n \<Longrightarrow> parse_int (itoa n) = Some n"
  using nat_digits_all [of "nat n"] nat_digits_all [of "nat (- n)"] nat_digits_hd_digit [of "nat n"]
    is_digit_sign [of "hd (nat_digits (nat n))"]
  by (auto simp: parse_int_def itoa_def Let_def)

section \<open>RFC 3339 time stamps\<close>

text \<open>
  \<open>time.Time.Format(time.RFC3339)\<close> of an instant in UTC: the civil date of the day number (proleptic
  Gregorian calendar, eras of 400 years that start on 1 March) and the time of day.
\<close>

definition civil_date :: "int \<Rightarrow> int \<times> int \<times> int" where
  "civil_date days =
     (let z = days + 719468;
          era = z div 146097;
          doe = z mod 146097;
          yoe = (doe - doe div 1460 + doe div 36524 - doe div 146096) div 365;
          doy = doe - (365 * yoe + yoe div 4 - yoe div 100);
          mp = (5 * doy + 2) div 153;
          d = doy - (153 * mp + 2) div 5 + 1;
          m = (if mp < 10 then mp + 3 else mp - 9);
          y = yoe + era * 400 + (if m \<le> 2 then 1 else 0)
      in (y, m, d))"

definition pad_digits :: "nat \<Rightarrow> int \<Rightarrow> string" where
  "pad_digits w n = (let s = nat_digits (nat n) in replicate (w - length s) CHR ''0'' @ s)"

definition rfc3339 :: "gotime \<Rightarrow> string" where
  "rfc3339 t =
     (let s = unix_sec t; sod = s mod 86400 in
      case civil_date (s div 86400) of (y, m, d) \<Rightarrow>
        pad_digits 4 y @ ''-'' @ pad_digits 2 m @ ''-'' @ pad_digits 2 d @ ''T''
        @ pad_digits 2 (sod div 3600) @ '':'' @ pad_digits 2 (sod div 60 mod 60) @ '':''
        @ pad_digits 2 (sod mod 60) @ ''Z'')"

section \<open>Maps that a range loop visits in a given order\<close>

text \<open>
  \<open>ranges m ord\<close>: the list \<open>ord\<close> is one of the orders in which a \<open>range\<close> loop can visit the keys
  of the map \<open>m\<close>.  \<open>entries m ord\<close> are the values in that order.
\<close>

definition ranges :: "('k \<rightharpoonup> 'v) \<Rightarrow> 'k list \<Rightarrow> bool" where
  "ranges m ord \<longleftrightarrow> distinct ord \<and> set ord = dom m"

definition entries :: "('k \<rightharpoonup> 'v) \<Rightarrow> 'k list \<Rightarrow> 'v list" where
  "entries m ord = List.map_filter m ord"

lemma entries_Nil [simp]: "entries m [] = []"
  by (simp add: entries_def)

lemma entries_Cons [simp]:
  "entries m (k # ks) = (case m k of None \<Rightarrow> entries m ks | Some v \<Rightarrow> v # entries m ks)"
  by (simp add: entries_def map_filter_simps split: option.splits)

lemma set_entries: "set (entries m ord) = {v. \<exists>k \<in> set ord. m k = Some v}"
  by (induction ord) (auto split: option.splits)

lemma set_entries_ranges: "ranges m ord \<Longrightarrow> set (entries m ord) = ran m"
  by (auto simp: set_entries ranges_def ran_def dom_def)

text \<open>A Go map built by inserting a list of values under their keys.\<close>

definition map_by :: "('v \<Rightarrow> 'k) \<Rightarrow> 'v list \<Rightarrow> 'k \<rightharpoonup> 'v" where
  "map_by key vs = foldl (\<lambda>m v. m(key v \<mapsto> v)) Map.empty vs"

lemma map_by_snoc [simp]: "map_by key (vs @ [v]) = (map_by key vs)(key v \<mapsto> v)"
  by (simp add: map_by_def)

lemma map_by_Nil [simp]: "map_by key [] = Map.empty"
  by (simp add: map_by_def)

lemma map_by_Some: "map_by key vs k = Some v \<Longrightarrow> v \<in> set vs \<and> key v = k"
  by (induction vs rule: rev_induct) (auto split: if_splits)

lemma map_by_entries:
  assumes "ranges m ord" and "\<And>k v. m k = Some v \<Longrightarrow> key (f v) = k"
  shows "map_by key (map f (entries m ord)) = map_option f \<circ> m"
proof -
  have "map_by key (map f (entries m ks)) k = (if k \<in> set ks then map_option f (m k) else None)"
    for ks k
  proof (induction ks rule: rev_induct)
    case (snoc a ks)
    have e: "entries m (ks @ [a]) = entries m ks @ (case m a of None \<Rightarrow> [] | Some v \<Rightarrow> [v])"
      by (induction ks) (auto split: option.splits)
    show ?case
      using snoc by (auto simp: e assms(2) split: option.splits)
  qed simp
  then show ?thesis using assms(1) by (auto simp: ranges_def fun_eq_iff dom_def)
qed

section \<open>Early returns\<close>

definition and_then :: "'e + 'a \<Rightarrow> ('a \<Rightarrow> 'e + 'b) \<Rightarrow> 'e + 'b" where
  "and_then m f = (case m of Inl e \<Rightarrow> Inl e | Inr x \<Rightarrow> f x)"

lemma and_then_simps [simp]: "and_then (Inl e) f = Inl e" "and_then (Inr x) f = f x"
  by (simp_all add: and_then_def)

lemma and_then_Inr: "and_then m f = Inr y \<longleftrightarrow> (\<exists>x. m = Inr x \<and> f x = Inr y)"
  by (cases m) simp_all

definition ensure :: "bool \<Rightarrow> 'e \<Rightarrow> 'e + unit" where
  "ensure b e = (if b then Inr () else Inl e)"

lemma ensure_Inr [simp]: "ensure b e = Inr u \<longleftrightarrow> b"
  by (simp add: ensure_def)

end
