(* ===== verification/GoJson.thy ===== *)
theory GoJson
  imports Prelude
begin

text \<open>
  The part of \<open>encoding/json\<close> that the broker relies on: JSON documents as a datatype, the decoder
  (\<open>json.Unmarshal\<close> into \<open>any\<close>) as a recursive-descent parser that returns the rest of the input,
  and the encoder (\<open>json.Marshal\<close>) with its escaping.  A number keeps its literal, as the decoder does
  before it converts it to the type of the target field.  An object keeps its members in source
  order; \<open>jget\<close> reads it as a Go map (the last duplicate wins) and \<open>jfield\<close> as a Go struct (field
  names match without regard to case).  The main facts are the round trip \<open>json_parse_print\<close> and
  \<open>parse_value_fuel\<close>: the fuel that \<open>json_parse\<close> hands out is enough, more never changes the result.
\<close>

datatype json =
    JNull
  | JBool bool
  | JNum string
  | JStr string
  | JArr "json list"
  | JObj "(string \<times> json) list"

section \<open>Strings\<close>

definition quote_ch :: char where "quote_ch = CHR 0x22"

definition bslash_ch :: char where "bslash_ch = CHR 0x5C"

lemma quote_bslash [simp]: "bslash_ch \<noteq> quote_ch" "quote_ch \<noteq> bslash_ch" "quote_ch \<noteq> CHR ''}''"
  by (simp_all add: quote_ch_def bslash_ch_def)

definition hex_val :: "char \<Rightarrow> nat option" where
  "hex_val c = (let n = (of_char c :: nat) in
     if 48 \<le> n \<and> n \<le> 57 then Some (n - 48)
     else if 97 \<le> n \<and> n \<le> 102 then Some (n - 87)
     else if 65 \<le> n \<and> n \<le> 70 then Some (n - 55)
     else None)"

definition hex_digit :: "nat \<Rightarrow> char" where
  "hex_digit d = (if d < 10 then char_of (48 + d) else char_of (87 + d))"

fun hex4 :: "string \<Rightarrow> (nat \<times> string) option" where
  "hex4 (a # b # c # d # r) =
     (case (hex_val a, hex_val b, hex_val c, hex_val d) of
        (Some p, Some q, Some s, Some t) \<Rightarrow> Some (4096 * p + 256 * q + 16 * s + t, r)
      | _ \<Rightarrow> None)"
| "hex4 _ = None"

definition utf8 :: "nat \<Rightarrow> string" where
  "utf8 n =
     (if n < 128 then [char_of n]
      else if n < 2048 then [char_of (192 + n div 64), char_of (128 + n mod 64)]
      else if n < 65536 then
        [char_of (224 + n div 4096), char_of (128 + n div 64 mod 64), char_of (128 + n mod 64)]
      else
        [char_of (240 + n div 262144), char_of (128 + n div 4096 mod 64),
         char_of (128 + n div 64 mod 64), char_of (128 + n mod 64)])"

definition low_surrogate :: "string \<Rightarrow> (nat \<times> string) option" where
  "low_surrogate r =
     (case r of
        b # u # r' \<Rightarrow>
          (if b = bslash_ch \<and> u = CHR ''u'' then
             (case hex4 r' of
                Some (m, r'') \<Rightarrow> (if 56320 \<le> m \<and> m \<le> 57343 then Some (m, r'') else None)
              | None \<Rightarrow> None)
           else None)
      | _ \<Rightarrow> None)"

text \<open>The text after a backslash: the decoded bytes and the rest.\<close>

definition unescape :: "string \<Rightarrow> (string \<times> string) option" where
  "unescape s =
     (case s of
        [] \<Rightarrow> None
      | e # r \<Rightarrow>
          (if e = quote_ch \<or> e = bslash_ch \<or> e = CHR ''/'' then Some ([e], r)
           else if e = CHR ''b'' then Some ([char_of (8::nat)], r)
           else if e = CHR ''f'' then Some ([char_of (12::nat)], r)
           else if e = CHR ''n'' then Some ([char_of (10::nat)], r)
           else if e = CHR ''r'' then Some ([char_of (13::nat)], r)
           else if e = CHR ''t'' then Some ([char_of (9::nat)], r)
           else if e = CHR ''u'' then
             (case hex4 r of
                None \<Rightarrow> None
              | Some (n, r') \<Rightarrow>
                  (if 55296 \<le> n \<and> n \<le> 56319 then
                     (case low_surrogate r' of
                        Some (m, r'') \<Rightarrow> Some (utf8 (65536 + 1024 * (n - 55296) + (m - 56320)), r'')
                      | None \<Rightarrow> Some (utf8 65533, r'))
                   else if 56320 \<le> n \<and> n \<le> 57343 then Some (utf8 65533, r')
                   else Some (utf8 n, r')))
           else None))"

lemma hex4_length: "hex4 s = Some (n, r) \<Longrightarrow> length r < length s"
  by (cases s rule: hex4.cases) (auto split: option.splits)

lemma low_surrogate_length: "low_surrogate s = Some (n, r) \<Longrightarrow> length r < length s"
  by (auto simp: low_surrogate_def split: list.splits if_splits option.splits dest!: hex4_length)

lemma unescape_length: "unescape s = Some (t, r) \<Longrightarrow> length r < length s"
  by (auto simp: unescape_def split: list.splits if_splits option.splits
      dest!: hex4_length low_surrogate_length)

text \<open>The rest of a string literal, after its opening quote.\<close>

function parse_chars :: "string \<Rightarrow> (string \<times> string) option" where
  "parse_chars [] = None"
| "parse_chars (c # cs) =
     (if c = quote_ch then Some ([], cs)
      else if c = bslash_ch then
        (case unescape cs of
           None \<Rightarrow> None
         | Some (d, r) \<Rightarrow> map_option (\<lambda>(t, r'). (d @ t, r')) (parse_chars r))
      else if (of_char c :: nat) < 32 then None
      else map_option (\<lambda>(t, r'). (c # t, r')) (parse_chars cs))"
  by pat_completeness auto
termination
  by (relation "measure length") (auto dest: unescape_length)

lemma parse_chars_length: "parse_chars s = Some (t, r) \<Longrightarrow> length r < length s"
proof (induction s arbitrary: t r rule: parse_chars.induct)
  case (2 c cs)
  show ?case
  proof (cases "c = bslash_ch \<and> c \<noteq> quote_ch")
    case True
    with "2.prems" obtain d r1 t1 where u: "unescape cs = Some (d, r1)"
      and p: "parse_chars r1 = Some (t1, r)"
      by (auto split: option.splits)
    from True u p "2.IH"(1) [of "(d, r1)" d r1] have "length r < length r1" by simp
    with unescape_length [OF u] show ?thesis by simp
  next
    case False
    with "2.prems" "2.IH"(2) show ?thesis by (fastforce split: if_splits)
  qed
qed simp

definition escape_char :: "char \<Rightarrow> string" where
  "escape_char c =
     (let n = (of_char c :: nat) in
      if c = quote_ch \<or> c = bslash_ch then [bslash_ch, c]
      else if n = 8 then [bslash_ch, CHR ''b'']
      else if n = 12 then [bslash_ch, CHR ''f'']
      else if n = 10 then [bslash_ch, CHR ''n'']
      else if n = 13 then [bslash_ch, CHR ''r'']
      else if n = 9 then [bslash_ch, CHR ''t'']
      else if n < 32 \<or> n = 60 \<or> n = 62 \<or> n = 38
        then bslash_ch # ''u00'' @ [hex_digit (n div 16), hex_digit (n mod 16)]
      else [c])"

definition print_string :: "string \<Rightarrow> string" where
  "print_string s = quote_ch # concat (map escape_char s) @ [quote_ch]"

lemma hex_val_digit [simp]: "d < 16 \<Longrightarrow> hex_val (hex_digit d) = Some d"
  by (auto simp: hex_val_def hex_digit_def)

lemma unescape_u00: "n < 128 \<Longrightarrow>
    unescape (CHR ''u'' # CHR ''0'' # CHR ''0'' # hex_digit (n div 16) # hex_digit (n mod 16) # r)
    = Some ([char_of n], r)"
proof -
  assume n: "n < 128"
  have z: "hex_val CHR ''0'' = Some 0" by (simp add: hex_val_def)
  have "16 * (n div 16) + n mod 16 = n" by simp
  with n z show ?thesis
    by (simp add: unescape_def quote_ch_def bslash_ch_def utf8_def)
qed

lemma parse_escape_char:
  "parse_chars (escape_char c @ t) = map_option (\<lambda>(u, r). (c # u, r)) (parse_chars t)"
proof -
  let ?n = "of_char c :: nat"
  have c: "c = char_of ?n" by simp
  consider (q) "c = quote_ch \<or> c = bslash_ch"
    | (b) "c \<noteq> quote_ch" "c \<noteq> bslash_ch" "?n = 8 \<or> ?n = 12 \<or> ?n = 10 \<or> ?n = 13 \<or> ?n = 9"
    | (u) "c \<noteq> quote_ch" "c \<noteq> bslash_ch" "\<not> (?n = 8 \<or> ?n = 12 \<or> ?n = 10 \<or> ?n = 13 \<or> ?n = 9)"
        "?n < 32 \<or> ?n = 60 \<or> ?n = 62 \<or> ?n = 38"
    | (o) "c \<noteq> quote_ch" "c \<noteq> bslash_ch" "\<not> (?n = 8 \<or> ?n = 12 \<or> ?n = 10 \<or> ?n = 13 \<or> ?n = 9)"
        "\<not> (?n < 32 \<or> ?n = 60 \<or> ?n = 62 \<or> ?n = 38)"
    by blast
  then show ?thesis
  proof cases
    case q
    then show ?thesis
      by (auto simp: escape_char_def unescape_def quote_ch_def bslash_ch_def)
  next
    case b
    then have "c = char_of (8::nat) \<or> c = char_of (12::nat) \<or> c = char_of (10::nat)
      \<or> c = char_of (13::nat) \<or> c = char_of (9::nat)"
      by (metis c)
    then show ?thesis
      by (auto simp: escape_char_def unescape_def quote_ch_def bslash_ch_def)
  next
    case u
    then have lt: "?n < 128" by linarith
    have "escape_char c = bslash_ch # ''u00'' @ [hex_digit (?n div 16), hex_digit (?n mod 16)]"
      using u by (auto simp: escape_char_def Let_def)
    moreover have "bslash_ch \<noteq> quote_ch" by (simp add: bslash_ch_def quote_ch_def)
    ultimately show ?thesis using unescape_u00 [OF lt] by simp
  next
    case o
    then show ?thesis by (auto simp: escape_char_def Let_def)
  qed
qed

lemma parse_chars_escape:
  "parse_chars (concat (map escape_char s) @ quote_ch # r) = Some (s, r)"
  by (induction s) (simp_all add: parse_escape_char)

section \<open>Numbers\<close>

text \<open>
  A number literal: optional minus, integer part without leading zeros, optional fraction and
  exponent.  The scanner returns the literal and the rest.
\<close>

definition scan_int :: "string \<Rightarrow> (string \<times> string) option" where
  "scan_int s =
     (case s of
        [] \<Rightarrow> None
      | c # r \<Rightarrow>
          (if c = CHR ''0'' then Some ([c], r)
           else if is_digit c then Some (takeWhile is_digit s, dropWhile is_digit s)
           else None))"

definition scan_digits :: "string \<Rightarrow> (string \<times> string) option" where
  "scan_digits s =
     (if s \<noteq> [] \<and> is_digit (hd s) then Some (takeWhile is_digit s, dropWhile is_digit s) else None)"

definition scan_frac :: "string \<Rightarrow> (string \<times> string) option" where
  "scan_frac s =
     (if s \<noteq> [] \<and> hd s = CHR ''.''
      then map_option (\<lambda>(d, r). (CHR ''.'' # d, r)) (scan_digits (tl s))
      else Some ([], s))"

definition scan_exp :: "string \<Rightarrow> (string \<times> string) option" where
  "scan_exp s =
     (if s \<noteq> [] \<and> (hd s = CHR ''e'' \<or> hd s = CHR ''E'')
      then (let e = hd s; r = tl s in
            if r \<noteq> [] \<and> (hd r = CHR ''+'' \<or> hd r = CHR ''-'')
            then map_option (\<lambda>(d, r'). (e # hd r # d, r')) (scan_digits (tl r))
            else map_option (\<lambda>(d, r'). (e # d, r')) (scan_digits r))
      else Some ([], s))"

definition scan_number :: "string \<Rightarrow> (string \<times> string) option" where
  "scan_number s =
     (let sgn = (if s \<noteq> [] \<and> hd s = CHR ''-'' then [CHR ''-''] else []);
          s0 = drop (length sgn) s
      in case scan_int s0 of None \<Rightarrow> None
         | Some (ip, s1) \<Rightarrow>
             (case scan_frac s1 of None \<Rightarrow> None
              | Some (fp, s2) \<Rightarrow>
                  (case scan_exp s2 of None \<Rightarrow> None
                   | Some (ep, s3) \<Rightarrow> Some (sgn @ ip @ fp @ ep, s3))))"

definition num_end :: "string \<Rightarrow> bool" where
  "num_end r \<longleftrightarrow> (case r of [] \<Rightarrow> True
     | c # _ \<Rightarrow> \<not> is_digit c \<and> c \<noteq> CHR ''.'' \<and> c \<noteq> CHR ''e'' \<and> c \<noteq> CHR ''E'')"

lemma scan_int_length: "scan_int s = Some (d, r) \<Longrightarrow> length r < length s"
  by (cases s) (auto simp: scan_int_def is_digit_def split: if_splits
      intro: le_imp_less_Suc length_dropWhile_le)

lemma scan_digits_length: "scan_digits s = Some (d, r) \<Longrightarrow> length r \<le> length s"
  by (auto simp: scan_digits_def split: if_splits intro: length_dropWhile_le)

lemma scan_frac_length: "scan_frac s = Some (d, r) \<Longrightarrow> length r \<le> length s"
  by (cases s) (auto simp: scan_frac_def split: if_splits dest!: scan_digits_length)

lemma scan_exp_length: "scan_exp s = Some (d, r) \<Longrightarrow> length r \<le> length s"
  by (cases s; cases "tl s") (auto simp: scan_exp_def Let_def split: if_splits dest!: scan_digits_length)

lemma scan_number_length: "scan_number s = Some (d, r) \<Longrightarrow> length r < length s"
  by (fastforce simp: scan_number_def Let_def split: option.splits if_splits
      dest!: scan_int_length scan_frac_length scan_exp_length)

lemma digits_append:
  assumes "num_end t"
  shows "takeWhile is_digit (s @ t) = takeWhile is_digit s"
    and "dropWhile is_digit (s @ t) = dropWhile is_digit s @ t"
proof -
  have "takeWhile is_digit t = []" "dropWhile is_digit t = t"
    using assms by (auto simp: num_end_def split: list.splits)
  then show "takeWhile is_digit (s @ t) = takeWhile is_digit s"
    and "dropWhile is_digit (s @ t) = dropWhile is_digit s @ t"
    by (auto simp: takeWhile_append dropWhile_append takeWhile_eq_all_conv
        intro: takeWhile_eq_all_conv [THEN iffD2, symmetric])
qed

lemma scan_int_append:
  "scan_int s = Some (d, r) \<Longrightarrow> num_end t \<Longrightarrow> scan_int (s @ t) = Some (d, r @ t)"
  using digits_append [of t s] by (auto simp: scan_int_def split: list.splits if_splits)

lemma scan_digits_append:
  "scan_digits s = Some (d, r) \<Longrightarrow> num_end t \<Longrightarrow> scan_digits (s @ t) = Some (d, r @ t)"
  using digits_append [of t s] by (auto simp: scan_digits_def split: if_splits)

lemma scan_frac_append:
  "scan_frac s = Some (d, r) \<Longrightarrow> num_end t \<Longrightarrow> scan_frac (s @ t) = Some (d, r @ t)"
proof (cases s)
  case Nil
  assume "scan_frac s = Some (d, r)" "num_end t"
  with Nil show ?thesis by (cases t) (auto simp: scan_frac_def num_end_def)
next
  case (Cons c cs)
  assume a: "scan_frac s = Some (d, r)" and t: "num_end t"
  show ?thesis
  proof (cases "c = CHR ''.''")
    case True
    with a Cons obtain d1 where "scan_digits cs = Some (d1, r)" and d: "d = CHR ''.'' # d1"
      by (auto simp: scan_frac_def)
    from scan_digits_append [OF this(1) t] True Cons d show ?thesis by (simp add: scan_frac_def)
  next
    case False
    with a Cons have "d = [] \<and> r = s" by (simp add: scan_frac_def)
    with False Cons show ?thesis by (simp add: scan_frac_def)
  qed
qed

lemma scan_digits_Nil [simp]: "scan_digits [] = None"
  by (simp add: scan_digits_def)

lemma scan_exp_append:
  "scan_exp s = Some (d, r) \<Longrightarrow> num_end t \<Longrightarrow> scan_exp (s @ t) = Some (d, r @ t)"
proof (cases s)
  case Nil
  assume "scan_exp s = Some (d, r)" "num_end t"
  with Nil show ?thesis by (cases t) (auto simp: scan_exp_def num_end_def)
next
  case (Cons c cs)
  assume a: "scan_exp s = Some (d, r)" and t: "num_end t"
  consider (n) "\<not> (c = CHR ''e'' \<or> c = CHR ''E'')"
    | (s) e es where "c = CHR ''e'' \<or> c = CHR ''E''" "cs = e # es" "e = CHR ''+'' \<or> e = CHR ''-''"
    | (u) "c = CHR ''e'' \<or> c = CHR ''E''" "cs \<noteq> []" "\<not> (hd cs = CHR ''+'' \<or> hd cs = CHR ''-'')"
    | (z) "c = CHR ''e'' \<or> c = CHR ''E''" "cs = []"
    by (cases cs) auto
  then show ?thesis
  proof cases
    case n
    with a Cons have "d = [] \<and> r = s" by (simp add: scan_exp_def)
    with n Cons show ?thesis by (simp add: scan_exp_def)
  next
    case s
    with a Cons obtain d1 where "scan_digits es = Some (d1, r)" and d: "d = c # e # d1"
      by (auto simp: scan_exp_def Let_def)
    from scan_digits_append [OF this(1) t] s Cons d show ?thesis by (auto simp: scan_exp_def Let_def)
  next
    case u
    with a Cons obtain d1 where "scan_digits cs = Some (d1, r)" and d: "d = c # d1"
      by (auto simp: scan_exp_def Let_def)
    from scan_digits_append [OF this(1) t] u Cons d show ?thesis by (auto simp: scan_exp_def Let_def)
  next
    case z
    with a Cons show ?thesis by (auto simp: scan_exp_def Let_def)
  qed
qed

lemma scan_number_append:
  assumes "scan_number s = Some (d, r)" and "num_end t"
  shows "scan_number (s @ t) = Some (d, r @ t)"
proof -
  let ?sg = "if s \<noteq> [] \<and> hd s = CHR ''-'' then [CHR ''-''] else []"
  from assms(1) obtain ip s1 fp s2 ep where
    i: "scan_int (drop (length ?sg) s) = Some (ip, s1)" and f: "scan_frac s1 = Some (fp, s2)"
    and e: "scan_exp s2 = Some (ep, r)" and d: "d = ?sg @ ip @ fp @ ep"
    by (auto simp: scan_number_def Let_def split: option.splits)
  from i have ne: "s \<noteq> []" by (auto simp: scan_int_def)
  then have "drop (length ?sg) (s @ t) = drop (length ?sg) s @ t" by (cases s) auto
  with ne scan_int_append [OF i assms(2)] scan_frac_append [OF f assms(2)]
    scan_exp_append [OF e assms(2)] d
  show ?thesis by (simp add: scan_number_def Let_def)
qed

lemma scan_number_hd: "scan_number s = Some (d, r) \<Longrightarrow> \<exists>c cs. s = c # cs \<and> (is_digit c \<or> c = CHR ''-'')"
  by (cases s) (auto simp: scan_number_def Let_def scan_int_def is_digit_def split: option.splits if_splits)

text \<open>The value of a literal as an integer of 64 bits.\<close>

definition lit_int :: "string \<Rightarrow> int option" where
  "lit_int l = parse_int l"

section \<open>The decoder\<close>

definition json_ws :: "char \<Rightarrow> bool" where
  "json_ws c \<longleftrightarrow> (let n = (of_char c :: nat) in n = 32 \<or> n = 9 \<or> n = 10 \<or> n = 13)"

definition skip_ws :: "string \<Rightarrow> string" where
  "skip_ws s = dropWhile json_ws s"

lemma skip_ws_length: "length (skip_ws s) \<le> length s"
  by (simp add: skip_ws_def length_dropWhile_le)

definition strip_lit :: "string \<Rightarrow> string \<Rightarrow> string option" where
  "strip_lit l s = (if has_prefix s l then Some (drop (length l) s) else None)"

fun parse_value :: "nat \<Rightarrow> string \<Rightarrow> (json \<times> string) option"
  and parse_elems :: "nat \<Rightarrow> string \<Rightarrow> (json list \<times> string) option"
  and parse_members :: "nat \<Rightarrow> string \<Rightarrow> ((string \<times> json) list \<times> string) option"
where
  "parse_value 0 s = None"
| "parse_value (Suc n) s =
     (case skip_ws s of
        [] \<Rightarrow> None
      | c # cs \<Rightarrow>
          (if c = quote_ch then map_option (\<lambda>(t, r). (JStr t, r)) (parse_chars cs)
           else if c = CHR ''['' then
             (case skip_ws cs of
                [] \<Rightarrow> None
              | d # ds \<Rightarrow> (if d = CHR '']'' then Some (JArr [], ds)
                          else map_option (\<lambda>(xs, r). (JArr xs, r)) (parse_elems n cs)))
           else if c = CHR ''{'' then
             (case skip_ws cs of
                [] \<Rightarrow> None
              | d # ds \<Rightarrow> (if d = CHR ''}'' then Some (JObj [], ds)
                          else map_option (\<lambda>(xs, r). (JObj xs, r)) (parse_members n cs)))
           else if c = CHR ''n'' then map_option (\<lambda>r. (JNull, r)) (strip_lit ''ull'' cs)
           else if c = CHR ''t'' then map_option (\<lambda>r. (JBool True, r)) (strip_lit ''rue'' cs)
           else if c = CHR ''f'' then map_option (\<lambda>r. (JBool False, r)) (strip_lit ''alse'' cs)
           else map_option (\<lambda>(l, r). (JNum l, r)) (scan_number (c # cs))))"
| "parse_elems 0 s = None"
| "parse_elems (Suc n) s =
     (case parse_value n s of
        None \<Rightarrow> None
      | Some (v, r) \<Rightarrow>
          (case skip_ws r of
             [] \<Rightarrow> None
           | c # cs \<Rightarrow>
               (if c = CHR '','' then map_option (\<lambda>(vs, r'). (v # vs, r')) (parse_elems n cs)
                else if c = CHR '']'' then Some ([v], cs)
                else None)))"
| "parse_members 0 s = None"
| "parse_members (Suc n) s =
     (case skip_ws s of
        [] \<Rightarrow> None
      | q # qs \<Rightarrow>
          (if q \<noteq> quote_ch then None
           else (case parse_chars qs of
                   None \<Rightarrow> None
                 | Some (k, r) \<Rightarrow>
                     (case skip_ws r of
                        [] \<Rightarrow> None
                      | c # cs \<Rightarrow>
                          (if c \<noteq> CHR '':'' then None
                           else (case parse_value n cs of
                                   None \<Rightarrow> None
                                 | Some (v, r1) \<Rightarrow>
                                     (case skip_ws r1 of
                                        [] \<Rightarrow> None
                                      | d # ds \<Rightarrow>
                                          (if d = CHR '','' then
                                             map_option (\<lambda>(kvs, r'). ((k, v) # kvs, r')) (parse_members n ds)
                                           else if d = CHR ''}'' then Some ([(k, v)], ds)
                                           else None))))))))"

definition json_parse :: "string \<Rightarrow> json option" where
  "json_parse s =
     (case parse_value (2 * length s + 1) s of
        None \<Rightarrow> None
      | Some (v, r) \<Rightarrow> (if skip_ws r = [] then Some v else None))"

section \<open>The encoder\<close>

fun json_print :: "json \<Rightarrow> string" where
  "json_print JNull = ''null''"
| "json_print (JBool b) = (if b then ''true'' else ''false'')"
| "json_print (JNum l) = l"
| "json_print (JStr s) = print_string s"
| "json_print (JArr xs) = ''['' @ join '','' (map json_print xs) @ '']''"
| "json_print (JObj kvs) =
     ''{'' @ join '','' (map (\<lambda>kv. print_string (fst kv) @ '':'' @ json_print (snd kv)) kvs) @ ''}''"

text \<open>A document whose number literals are literals.\<close>

fun json_ok :: "json \<Rightarrow> bool" where
  "json_ok (JNum l) \<longleftrightarrow> scan_number l = Some (l, [])"
| "json_ok (JArr xs) \<longleftrightarrow> (\<forall>x \<in> set xs. json_ok x)"
| "json_ok (JObj kvs) \<longleftrightarrow> (\<forall>kv \<in> set kvs. json_ok (snd kv))"
| "json_ok _ \<longleftrightarrow> True"

section \<open>Round trip\<close>

lemma skip_ws_Cons: "\<not> json_ws c \<Longrightarrow> skip_ws (c # cs) = c # cs"
  by (simp add: skip_ws_def)

lemma punct_not_ws [simp]:
  "\<not> json_ws quote_ch" "\<not> json_ws CHR ''['' " "\<not> json_ws CHR ''{'' " "\<not> json_ws CHR '']'' "
  "\<not> json_ws CHR ''}'' " "\<not> json_ws CHR '','' " "\<not> json_ws CHR '':'' " "\<not> json_ws CHR ''n'' "
  "\<not> json_ws CHR ''t'' " "\<not> json_ws CHR ''f'' " "\<not> json_ws CHR ''-'' "
  by (simp_all add: json_ws_def quote_ch_def)

lemma digit_not_ws: "is_digit c \<Longrightarrow> \<not> json_ws c"
  by (auto simp: is_digit_def json_ws_def Let_def)

lemma digit_not_punct:
  "is_digit c \<or> c = CHR ''-'' \<Longrightarrow> c \<noteq> quote_ch \<and> c \<noteq> CHR ''['' \<and> c \<noteq> CHR ''{'' \<and> c \<noteq> CHR ''n''
     \<and> c \<noteq> CHR ''t'' \<and> c \<noteq> CHR ''f'' \<and> c \<noteq> CHR '']'' \<and> c \<noteq> CHR ''}''"
  by (auto simp: is_digit_def quote_ch_def)

lemma parse_value_num:
  assumes "scan_number l = Some (l, [])" and "num_end r"
  shows "parse_value (Suc n) (l @ r) = Some (JNum l, r)"
proof -
  from scan_number_hd [OF assms(1)] obtain c cs where l: "l = c # cs"
    and c: "is_digit c \<or> c = CHR ''-''" by blast
  from c have "\<not> json_ws c" by (auto dest: digit_not_ws)
  then have "skip_ws (l @ r) = c # cs @ r" using l by (simp add: skip_ws_Cons)
  with digit_not_punct [OF c] scan_number_append [OF assms] l show ?thesis by simp
qed

text \<open>The first byte of a printed document starts no closing bracket and no blank.\<close>

lemma json_print_hd:
  "json_ok j \<Longrightarrow> \<exists>c cs. json_print j = c # cs \<and> \<not> json_ws c \<and> c \<noteq> CHR '']''"
proof (cases j)
  case (JNum l)
  assume "json_ok j"
  with JNum have "scan_number l = Some (l, [])" by simp
  from scan_number_hd [OF this] obtain c cs where l: "l = c # cs"
    and c: "is_digit c \<or> c = CHR ''-''" by blast
  from c have "\<not> json_ws c" by (auto dest: digit_not_ws)
  with JNum l digit_not_punct [OF c] show ?thesis by simp
qed (simp_all add: print_string_def quote_ch_def json_ws_def)

lemma json_print_length: "json_ok j \<Longrightarrow> 1 \<le> length (json_print j)"
  using json_print_hd [of j] by (auto simp: Suc_le_eq)

definition print_member :: "string \<times> json \<Rightarrow> string" where
  "print_member kv = print_string (fst kv) @ '':'' @ json_print (snd kv)"

lemma json_print_obj: "json_print (JObj kvs) = ''{'' @ join '','' (map print_member kvs) @ ''}''"
proof -
  have "print_member = (\<lambda>kv. print_string (fst kv) @ '':'' @ json_print (snd kv))"
    by (rule ext) (rule print_member_def)
  then show ?thesis by simp
qed

lemma parse_elems_print:
  assumes "\<And>x n r. x \<in> set xs \<Longrightarrow> 2 * length (json_print x) \<le> n \<Longrightarrow> num_end r \<Longrightarrow>
      parse_value n (json_print x @ r) = Some (x, r)"
    and "xs \<noteq> []" and "2 * length (join '','' (map json_print xs)) + 1 \<le> n"
  shows "parse_elems n (join '','' (map json_print xs) @ CHR '']'' # r) = Some (xs, r)"
  using assms
proof (induction xs arbitrary: n)
  case (Cons x xs)
  from Cons.prems(3) obtain m where n: "n = Suc m" by (cases n) auto
  show ?case
  proof (cases xs)
    case Nil
    have "parse_value m (json_print x @ CHR '']'' # r) = Some (x, CHR '']'' # r)"
      using Cons.prems(1,3) n Nil by (simp add: num_end_def is_digit_def)
    with n Nil show ?thesis by (simp add: skip_ws_Cons)
  next
    case (Cons y ys)
    let ?rest = "join '','' (map json_print xs) @ CHR '']'' # r"
    have "parse_value m (json_print x @ CHR '','' # ?rest) = Some (x, CHR '','' # ?rest)"
      using Cons.prems(1,3) n Cons by (simp add: num_end_def is_digit_def)
    moreover have "parse_elems m ?rest = Some (xs, r)"
      using Cons.IH [of m] Cons.prems(1,3) n Cons by simp
    ultimately show ?thesis using n Cons by (simp add: skip_ws_Cons)
  qed
qed simp

lemma parse_members_print:
  assumes "\<And>kv n r. kv \<in> set kvs \<Longrightarrow> 2 * length (json_print (snd kv)) \<le> n \<Longrightarrow> num_end r \<Longrightarrow>
      parse_value n (json_print (snd kv) @ r) = Some (snd kv, r)"
    and "kvs \<noteq> []" and "2 * length (join '','' (map print_member kvs)) + 1 \<le> n"
  shows "parse_members n (join '','' (map print_member kvs) @ CHR ''}'' # r) = Some (kvs, r)"
  using assms
proof (induction kvs arbitrary: n)
  case (Cons kv kvs)
  from Cons.prems(3) obtain m where n: "n = Suc m" by (cases n) auto
  obtain k v where kv: "kv = (k, v)" by (cases kv)
  have str: "parse_chars (concat (map escape_char k) @ quote_ch # u) = Some (k, u)" for u
    by (rule parse_chars_escape)
  show ?case
  proof (cases kvs)
    case Nil
    have "parse_value m (json_print v @ CHR ''}'' # r) = Some (v, CHR ''}'' # r)"
      using Cons.prems(1) [of kv m] Cons.prems(3) n Nil kv
      by (simp add: num_end_def is_digit_def print_member_def print_string_def)
    with n Nil kv str show ?thesis by (simp add: skip_ws_Cons print_member_def print_string_def)
  next
    case (Cons y ys)
    let ?rest = "join '','' (map print_member kvs) @ CHR ''}'' # r"
    have "parse_value m (json_print v @ CHR '','' # ?rest) = Some (v, CHR '','' # ?rest)"
      using Cons.prems(1) [of kv m] Cons.prems(3) n Cons kv
      by (simp add: num_end_def is_digit_def print_member_def print_string_def)
    moreover have "parse_members m ?rest = Some (kvs, r)"
      using Cons.IH [of m] Cons.prems(1,3) n Cons by simp
    moreover have "join '','' (map print_member (kv # kvs)) @ CHR ''}'' # r
      = quote_ch # concat (map escape_char k) @ quote_ch # CHR '':'' # json_print v @ CHR '','' # ?rest"
      using Cons kv by (simp add: print_member_def [of "(k, v)"] print_string_def)
    ultimately show ?thesis using n kv str by (simp add: skip_ws_Cons)
  qed
qed simp

lemma parse_value_bracket:
  assumes "skip_ws cs = d # ds"
  shows "d \<noteq> CHR '']'' \<Longrightarrow> parse_value (Suc n) (CHR ''['' # cs) =
      map_option (\<lambda>(xs, r). (JArr xs, r)) (parse_elems n cs)"
    and "d \<noteq> CHR ''}'' \<Longrightarrow> parse_value (Suc n) (CHR ''{'' # cs) =
      map_option (\<lambda>(xs, r). (JObj xs, r)) (parse_members n cs)"
  using assms by (simp_all add: skip_ws_Cons quote_ch_def)

lemma join_map_hd: "xs \<noteq> [] \<Longrightarrow> f (hd xs) = c # cs \<Longrightarrow> \<exists>u. join '','' (map f xs) = c # u"
  by (cases xs; cases "tl xs") auto

lemma parse_value_print:
  "json_ok j \<Longrightarrow> 2 * length (json_print j) \<le> n \<Longrightarrow> num_end r \<Longrightarrow>
     parse_value n (json_print j @ r) = Some (j, r)"
proof (induction j arbitrary: n r)
  case JNull
  then obtain m where "n = Suc m" by (cases n) auto
  then show ?case by (simp add: skip_ws_Cons strip_lit_def has_prefix_def quote_ch_def)
next
  case (JBool b)
  then obtain m where "n = Suc m" by (cases n; cases b) auto
  then show ?case by (cases b) (simp_all add: skip_ws_Cons strip_lit_def has_prefix_def quote_ch_def)
next
  case (JNum l)
  from JNum.prems(1) scan_number_hd have "l \<noteq> []" by fastforce
  with JNum.prems(2) obtain m where "n = Suc m" by (cases n) auto
  with JNum.prems parse_value_num [of l r m] show ?case by simp
next
  case (JStr s)
  then obtain m where "n = Suc m" by (cases n) (auto simp: print_string_def)
  then show ?case by (simp add: print_string_def skip_ws_Cons parse_chars_escape)
next
  case (JArr xs)
  then obtain m where n: "n = Suc m" by (cases n) auto
  show ?case
  proof (cases "xs = []")
    case True
    with n show ?thesis by (simp add: skip_ws_Cons quote_ch_def)
  next
    case False
    then have "json_ok (hd xs)" using JArr.prems by simp
    from json_print_hd [OF this] obtain c cs where
      hd: "json_print (hd xs) = c # cs" "\<not> json_ws c" "c \<noteq> CHR '']''" by blast
    from join_map_hd [of xs json_print, OF False hd(1)] obtain u
      where u: "join '','' (map json_print xs) = c # u" by blast
    have "parse_elems m (join '','' (map json_print xs) @ CHR '']'' # r) = Some (xs, r)"
      using JArr.IH JArr.prems n False by (intro parse_elems_print) auto
    with u hd(2,3) n show ?thesis
      using parse_value_bracket(1) [of "(c # u) @ CHR '']'' # r" c "u @ CHR '']'' # r" m]
      by (simp add: skip_ws_Cons del: parse_value.simps)
  qed
next
  case (JObj kvs)
  then obtain m where n: "n = Suc m" by (cases n) auto
  show ?case
  proof (cases "kvs = []")
    case True
    with n show ?thesis by (simp add: skip_ws_Cons quote_ch_def)
  next
    case False
    have hd: "print_member (hd kvs) = quote_ch # tl (print_member (hd kvs))"
      by (simp add: print_member_def print_string_def)
    from join_map_hd [of kvs print_member, OF False hd] obtain u
      where u: "join '','' (map print_member kvs) = quote_ch # u" by blast
    have "parse_members m (join '','' (map print_member kvs) @ CHR ''}'' # r) = Some (kvs, r)"
    proof (rule parse_members_print)
      fix kv k q
      assume kv: "kv \<in> set kvs" and len: "2 * length (json_print (snd kv)) \<le> k" and q: "num_end q"
      have "snd kv \<in> Basic_BNFs.snds kv" by (simp add: snds.simps)
      from JObj.IH [OF kv this] JObj.prems(1) kv len q
      show "parse_value k (json_print (snd kv) @ q) = Some (snd kv, q)" by simp
    next
      show "kvs \<noteq> []" by fact
      show "2 * length (join '','' (map print_member kvs)) + 1 \<le> m"
        using JObj.prems(2) n by (simp only: json_print_obj) simp
    qed
    with u n show ?thesis
      using parse_value_bracket(2) [of "(quote_ch # u) @ CHR ''}'' # r" quote_ch "u @ CHR ''}'' # r" m]
      by (simp add: skip_ws_Cons json_print_obj del: parse_value.simps json_print.simps)
  qed
qed

lemma json_parse_print: "json_ok j \<Longrightarrow> json_parse (json_print j) = Some j"
  using parse_value_print [of j "2 * length (json_print j) + 1" "[]"]
  by (simp add: json_parse_def num_end_def skip_ws_def)

section \<open>Enough fuel\<close>

lemma strip_lit_length: "strip_lit l s = Some r \<Longrightarrow> length r \<le> length s"
  by (auto simp: strip_lit_def split: if_splits)

lemma skip_ws_Cons_length: "skip_ws s = c # cs \<Longrightarrow> length cs < length s"
  using skip_ws_length [of s] by simp

lemma parse_rest_length:
  "(\<forall>v r. parse_value n s = Some (v, r) \<longrightarrow> length r < length s)
   \<and> (\<forall>v r. parse_elems n s = Some (v, r) \<longrightarrow> length r < length s)
   \<and> (\<forall>v r. parse_members n s = Some (v, r) \<longrightarrow> length r < length s)"
proof (induction n arbitrary: s)
  case (Suc n)
  have IH: "parse_value n t = Some (v, r) \<Longrightarrow> length r < length t"
    "parse_elems n t = Some (vs, r) \<Longrightarrow> length r < length t"
    "parse_members n t = Some (kvs, r) \<Longrightarrow> length r < length t" for t v vs kvs r
    using Suc.IH by blast+
  show ?case
    by (fastforce split: list.splits if_splits option.splits
        dest!: skip_ws_Cons_length parse_chars_length scan_number_length strip_lit_length IH)
qed simp

definition fuel_stable :: "string \<Rightarrow> bool" where
  "fuel_stable s \<longleftrightarrow>
     (\<forall>n m. 2 * length s + 1 \<le> n \<longrightarrow> 2 * length s + 1 \<le> m \<longrightarrow> parse_value n s = parse_value m s)
   \<and> (\<forall>n m. 2 * length s + 2 \<le> n \<longrightarrow> 2 * length s + 2 \<le> m \<longrightarrow> parse_elems n s = parse_elems m s)
   \<and> (\<forall>n m. 2 * length s + 2 \<le> n \<longrightarrow> 2 * length s + 2 \<le> m \<longrightarrow> parse_members n s = parse_members m s)"

lemma fuel_stable_value:
  assumes IH: "\<And>t. length t < length s \<Longrightarrow> fuel_stable t"
    and n: "2 * length s + 1 \<le> n" and m: "2 * length s + 1 \<le> m"
  shows "parse_value n s = parse_value m s"
proof -
  from n m obtain n' m' where nm: "n = Suc n'" "m = Suc m'" by (cases n; cases m) auto
  show ?thesis
  proof (cases "skip_ws s")
    case (Cons c cs)
    then have lt: "length cs < length s" by (rule skip_ws_Cons_length)
    then have "parse_elems n' cs = parse_elems m' cs" "parse_members n' cs = parse_members m' cs"
      using IH [OF lt] n m nm unfolding fuel_stable_def by auto
    with Cons nm show ?thesis by (simp split: list.splits)
  qed (simp add: nm)
qed

lemma fuel_stable_elems:
  assumes IH: "\<And>t. length t < length s \<Longrightarrow> fuel_stable t"
    and n: "2 * length s + 2 \<le> n" and m: "2 * length s + 2 \<le> m"
  shows "parse_elems n s = parse_elems m s"
proof -
  from n m obtain n' m' where nm: "n = Suc n'" "m = Suc m'" by (cases n; cases m) auto
  have v: "parse_value n' s = parse_value m' s"
    using fuel_stable_value [of s n' m', OF IH] n m nm by simp
  have "parse_elems n' cs = parse_elems m' cs"
    if "parse_value m' s = Some (w, r)" "skip_ws r = c # cs" for w r c cs
  proof -
    have "length cs < length s"
      using that parse_rest_length [of m' s] skip_ws_Cons_length [OF that(2)] by force
    with IH [OF this] n m nm show ?thesis unfolding fuel_stable_def by auto
  qed
  with nm v show ?thesis by (auto split: option.splits list.splits)
qed

lemma fuel_stable_members:
  assumes IH: "\<And>t. length t < length s \<Longrightarrow> fuel_stable t"
    and n: "2 * length s + 2 \<le> n" and m: "2 * length s + 2 \<le> m"
  shows "parse_members n s = parse_members m s"
proof -
  from n m obtain n' m' where nm: "n = Suc n'" "m = Suc m'" by (cases n; cases m) auto
  have v: "parse_value n' cs = parse_value m' cs \<and> length cs < length s"
    if "skip_ws s = q # qs" "parse_chars qs = Some (k, r)" "skip_ws r = c # cs" for q qs k r c cs
  proof -
    have lt: "length cs < length s"
      using skip_ws_Cons_length [OF that(1)] parse_chars_length [OF that(2)]
        skip_ws_Cons_length [OF that(3)] by simp
    with IH [OF this] n m nm show ?thesis unfolding fuel_stable_def by auto
  qed
  have e: "parse_members n' ds = parse_members m' ds"
    if "length cs < length s" "parse_value m' cs = Some (w, r1)" "skip_ws r1 = d # ds" for cs w r1 d ds
  proof -
    have "length ds < length s"
      using that parse_rest_length [of m' cs] skip_ws_Cons_length [OF that(3)] by force
    with IH [OF this] n m nm show ?thesis unfolding fuel_stable_def by auto
  qed
  have step: "(case parse_value n' cs of None \<Rightarrow> None
       | Some (w, r1) \<Rightarrow> (case skip_ws r1 of [] \<Rightarrow> None
           | d # ds \<Rightarrow> if d = CHR '','' then map_option (\<lambda>(kvs, r'). ((k, w) # kvs, r')) (parse_members n' ds)
               else if d = CHR ''}'' then Some ([(k, w)], ds) else None))
     = (case parse_value m' cs of None \<Rightarrow> None
       | Some (w, r1) \<Rightarrow> (case skip_ws r1 of [] \<Rightarrow> None
           | d # ds \<Rightarrow> if d = CHR '','' then map_option (\<lambda>(kvs, r'). ((k, w) # kvs, r')) (parse_members m' ds)
               else if d = CHR ''}'' then Some ([(k, w)], ds) else None))"
    if "skip_ws s = q # qs" "parse_chars qs = Some (k, r)" "skip_ws r = c # cs" for q qs k r c cs
    using v [OF that] e [of cs] by (auto split: option.splits list.splits)
  show ?thesis
  proof (cases "skip_ws s")
    case (Cons q qs)
    show ?thesis
    proof (cases "parse_chars qs")
      case (Some kr)
      obtain k r where kr: "kr = (k, r)" by (cases kr)
      show ?thesis
      proof (cases "skip_ws r")
        case (Cons c cs)
        from step [OF \<open>skip_ws s = q # qs\<close> Some [unfolded kr] Cons] \<open>skip_ws s = q # qs\<close> Some kr Cons
        show ?thesis unfolding nm by simp
      qed (simp add: nm \<open>skip_ws s = q # qs\<close> Some kr)
    qed (simp add: nm Cons)
  qed (simp add: nm)
qed

lemma parse_fuel_stable: "fuel_stable s"
proof (induction s rule: measure_induct_rule [of length])
  case (less s)
  have IH: "\<And>t. length t < length s \<Longrightarrow> fuel_stable t" by (rule less)
  show ?case
    unfolding fuel_stable_def
    using fuel_stable_value [of s, OF IH] fuel_stable_elems [of s, OF IH]
      fuel_stable_members [of s, OF IH]
    by blast
qed

lemma parse_value_fuel:
  "2 * length s + 1 \<le> n \<Longrightarrow> parse_value n s = parse_value (2 * length s + 1) s"
  using parse_fuel_stable [of s] unfolding fuel_stable_def by blast

section \<open>Reading a document\<close>

text \<open>
  A member of an object read as a Go map (\<open>map[string]any\<close>): the last duplicate wins.  A member
  read as a struct field: the decoder compares names without regard to case, and again the last
  one wins.
\<close>

definition jget :: "string \<Rightarrow> (string \<times> json) list \<Rightarrow> json option" where
  "jget k kvs = map_of (rev kvs) k"

definition jfield :: "string \<Rightarrow> (string \<times> json) list \<Rightarrow> json option" where
  "jfield k kvs = map_of (rev (map (\<lambda>(n, v). (to_lower n, v)) kvs)) (to_lower k)"

text \<open>The members of a document that is an object; other documents have none.\<close>

definition jmembers :: "json \<Rightarrow> (string \<times> json) list" where
  "jmembers j = (case j of JObj kvs \<Rightarrow> kvs | _ \<Rightarrow> [])"

text \<open>Decoding into a string or boolean field: a value of another type leaves the zero value.\<close>

definition jstring :: "json option \<Rightarrow> string" where
  "jstring v = (case v of Some (JStr s) \<Rightarrow> s | _ \<Rightarrow> [])"

definition jbool :: "json option \<Rightarrow> bool" where
  "jbool v = (case v of Some (JBool b) \<Rightarrow> b | _ \<Rightarrow> False)"

lemma jget_Nil [simp]: "jget k [] = None"
  by (simp add: jget_def)

lemma jget_snoc [simp]: "jget k (kvs @ [(k', v)]) = (if k = k' then Some v else jget k kvs)"
  by (simp add: jget_def)

section \<open>Integers as literals\<close>

lemma scan_int_digits:
  assumes "list_all is_digit ds" and "ds \<noteq> []" and "hd ds = CHR ''0'' \<longrightarrow> ds = ''0''"
  shows "scan_int ds = Some (ds, [])"
  using assms by (cases ds) (auto simp: scan_int_def takeWhile_eq_all_conv list_all_iff is_digit_def)

lemma scan_number_itoa [simp]: "scan_number (itoa n) = Some (itoa n, [])"
proof -
  have d: "scan_int (nat_digits k) = Some (nat_digits k, [])" for k
  proof (rule scan_int_digits)
    show "hd (nat_digits k) = CHR ''0'' \<longrightarrow> nat_digits k = ''0''"
      by (cases "k = 0") (simp_all add: nat_digits_hd)
  qed (simp_all add: nat_digits_all)
  have h: "hd (nat_digits k) \<noteq> CHR ''-''" for k
    using nat_digits_hd_digit [of k] is_digit_sign by blast
  show ?thesis
    using d [of "nat n"] d [of "nat (- n)"] h [of "nat n"]
    by (simp add: scan_number_def itoa_def Let_def scan_frac_def scan_exp_def)
qed

lemma lit_int_itoa [simp]: "fits64 n \<Longrightarrow> lit_int (itoa n) = Some n"
  by (simp add: lit_int_def)

end
