(* ===== verification/Domain.thy ===== *)
theory Domain
  imports GoJson
begin

text \<open>
  The data model of the broker (src/internal/domain): accounts, egress cells, quota buckets, the
  durable bindings, sessions and locks, users, and the request surfaces.  The transient fields
  \<open>Proxy\<close>, \<open>Identity\<close> and \<open>Labels\<close> are decoded from, and encoded into, their JSON columns; the main
  facts are that \<open>PersistRuntime\<close> followed by \<open>HydrateRuntime\<close> restores them, and how a surface
  policy is compared with a requested surface.  A Go map from strings to strings is an association
  list with distinct keys, so that the encoder can list its keys in sorted order.
\<close>

type_synonym provider = string
type_synonym status = string
type_synonym surface = string
type_synonym str_map = "(string \<times> string) list"

definition ProviderClaude :: provider where "ProviderClaude = ''claude''"
definition ProviderCodex :: provider where "ProviderCodex = ''codex''"
definition ProviderGemini :: provider where "ProviderGemini = ''gemini''"

definition StatusActive :: status where "StatusActive = ''active''"
definition StatusCreated :: status where "StatusCreated = ''created''"
definition StatusError :: status where "StatusError = ''error''"
definition StatusDisabled :: status where "StatusDisabled = ''disabled''"
definition StatusBlocked :: status where "StatusBlocked = ''blocked''"

lemmas status_defs =
  StatusActive_def StatusCreated_def StatusError_def StatusDisabled_def StatusBlocked_def

lemma status_distinct [simp]:
  "StatusActive \<noteq> StatusBlocked" "StatusBlocked \<noteq> StatusActive"
  "StatusActive \<noteq> StatusError" "StatusError \<noteq> StatusActive"
  "StatusActive \<noteq> StatusDisabled" "StatusDisabled \<noteq> StatusActive"
  "StatusBlocked \<noteq> StatusError" "StatusError \<noteq> StatusBlocked"
  by (simp_all add: status_defs)

record proxy_config =
  pc_type :: string
  pc_host :: string
  pc_port :: int
  pc_username :: string
  pc_password :: string

definition empty_proxy :: proxy_config where
  "empty_proxy = \<lparr> pc_type = [], pc_host = [], pc_port = 0, pc_username = [], pc_password = [] \<rparr>"

record egress_cell =
  cl_id :: string
  cl_name :: string
  cl_status :: string
  cl_proxy_json :: string
  cl_labels_json :: string
  cl_state_json :: string
  cl_created_at :: gotime
  cl_updated_at :: gotime
  cl_cooldown_until :: "gotime option"
  cl_proxy :: "proxy_config option"
  cl_labels :: "str_map option"

definition EgressCellActive :: string where "EgressCellActive = ''active''"
definition EgressCellDisabled :: string where "EgressCellDisabled = ''disabled''"
definition EgressCellError :: string where "EgressCellError = ''error''"

record account =
  ac_id :: string
  ac_email :: string
  ac_provider :: provider
  ac_status :: status
  ac_priority :: int
  ac_priority_mode :: string
  ac_error_message :: string
  ac_bucket_key :: string
  ac_refresh_token_enc :: string
  ac_access_token_enc :: string
  ac_expires_at :: int
  ac_created_at :: gotime
  ac_last_used_at :: "gotime option"
  ac_last_refresh_at :: "gotime option"
  ac_proxy_json :: string
  ac_cell_id :: string
  ac_identity_json :: string
  ac_subject :: string
  ac_cooldown_until :: "gotime option"
  ac_provider_state_json :: string
  ac_proxy :: "proxy_config option"
  ac_identity :: "str_map option"
  ac_cell :: "egress_cell option"

record quota_bucket =
  bk_key :: string
  bk_provider :: provider
  bk_cooldown_until :: "gotime option"
  bk_state_json :: string
  bk_updated_at :: gotime

record session_binding =
  sb_session_uuid :: string
  sb_provider :: provider
  sb_subject :: string
  sb_created_at :: gotime
  sb_last_used_at :: gotime
  sb_expires_at :: gotime

record stainless_binding =
  st_account_id :: string
  st_headers_json :: string
  st_created_at :: gotime
  st_expires_at :: gotime

record oauth_session_state =
  os_session_id :: string
  os_data_json :: string
  os_created_at :: gotime
  os_expires_at :: gotime

record refresh_lock =
  rl_account_id :: string
  rl_lock_id :: string
  rl_created_at :: gotime
  rl_expires_at :: gotime

record user =
  us_id :: string
  us_name :: string
  us_token_hash :: string
  us_token_prefix :: string
  us_status :: string
  us_allowed_surface :: surface
  us_bound_account_id :: string
  us_created_at :: gotime
  us_last_active_at :: "gotime option"

record session_binding_info =
  si_session_uuid :: string
  si_account_id :: string
  si_created_at :: string
  si_last_used_at :: string
  si_expires_at :: gotime

definition binding_info :: "session_binding \<Rightarrow> string \<Rightarrow> session_binding_info" where
  "binding_info b accountID =
     \<lparr> si_session_uuid = sb_session_uuid b,
       si_account_id = accountID,
       si_created_at = rfc3339 (sb_created_at b),
       si_last_used_at = rfc3339 (sb_last_used_at b),
       si_expires_at = sb_expires_at b \<rparr>"

section \<open>Decoding the JSON columns\<close>

text \<open>
  \<open>json.Unmarshal\<close> into a struct of type \<open>ProxyConfig\<close>: every known member overwrites its field,
  \<open>null\<close> leaves it, and a member of the wrong type is skipped but makes the whole call return an
  error (the flag).
\<close>

definition set_string_field ::
  "(string \<Rightarrow> proxy_config \<Rightarrow> proxy_config) \<Rightarrow> json \<Rightarrow> proxy_config \<times> bool \<Rightarrow> proxy_config \<times> bool" where
  "set_string_field upd v pe =
     (case v of JStr s \<Rightarrow> (upd s (fst pe), snd pe) | JNull \<Rightarrow> pe | _ \<Rightarrow> (fst pe, False))"

definition set_port_field :: "json \<Rightarrow> proxy_config \<times> bool \<Rightarrow> proxy_config \<times> bool" where
  "set_port_field v pe =
     (case v of
        JNum l \<Rightarrow> (case lit_int l of Some n \<Rightarrow> ((fst pe)\<lparr>pc_port := n\<rparr>, snd pe) | None \<Rightarrow> (fst pe, False))
      | JNull \<Rightarrow> pe
      | _ \<Rightarrow> (fst pe, False))"

definition decode_proxy_member :: "proxy_config \<times> bool \<Rightarrow> string \<times> json \<Rightarrow> proxy_config \<times> bool" where
  "decode_proxy_member pe kv =
     (let k = to_lower (fst kv); v = snd kv in
      if k = ''type'' then set_string_field (\<lambda>s p. p\<lparr>pc_type := s\<rparr>) v pe
      else if k = ''host'' then set_string_field (\<lambda>s p. p\<lparr>pc_host := s\<rparr>) v pe
      else if k = ''port'' then set_port_field v pe
      else if k = ''username'' then set_string_field (\<lambda>s p. p\<lparr>pc_username := s\<rparr>) v pe
      else if k = ''password'' then set_string_field (\<lambda>s p. p\<lparr>pc_password := s\<rparr>) v pe
      else pe)"

definition decode_proxy :: "string \<Rightarrow> proxy_config option" where
  "decode_proxy s =
     (case json_parse s of
        Some (JObj kvs) \<Rightarrow>
          (case foldl decode_proxy_member (empty_proxy, True) kvs of
             (p, ok) \<Rightarrow> if ok then Some p else None)
      | Some JNull \<Rightarrow> Some empty_proxy
      | _ \<Rightarrow> None)"

text \<open>
  \<open>json.Unmarshal\<close> into a \<open>map[string]string\<close>: \<open>None\<close> is an error, \<open>Some None\<close> the nil map.
\<close>

definition decode_str_member :: "str_map \<times> bool \<Rightarrow> string \<times> json \<Rightarrow> str_map \<times> bool" where
  "decode_str_member me kv =
     (case snd kv of
        JStr s \<Rightarrow> (AList.update (fst kv) s (fst me), snd me)
      | JNull \<Rightarrow> (AList.update (fst kv) [] (fst me), snd me)
      | _ \<Rightarrow> (AList.update (fst kv) [] (fst me), False))"

definition decode_str_map :: "string \<Rightarrow> str_map option option" where
  "decode_str_map s =
     (case json_parse s of
        Some (JObj kvs) \<Rightarrow>
          (case foldl decode_str_member ([], True) kvs of (m, ok) \<Rightarrow> if ok then Some (Some m) else None)
      | Some JNull \<Rightarrow> Some None
      | _ \<Rightarrow> None)"

section \<open>Encoding the JSON columns\<close>

definition omit_empty :: "string \<Rightarrow> string \<Rightarrow> (string \<times> json) list" where
  "omit_empty k s = (if s = [] then [] else [(k, JStr s)])"

definition proxy_members :: "proxy_config \<Rightarrow> (string \<times> json) list" where
  "proxy_members p =
     [(''type'', JStr (pc_type p)), (''host'', JStr (pc_host p)), (''port'', JNum (itoa (pc_port p)))]
     @ omit_empty ''username'' (pc_username p) @ omit_empty ''password'' (pc_password p)"

definition encode_proxy :: "proxy_config \<Rightarrow> string" where
  "encode_proxy p = json_print (JObj (proxy_members p))"

definition encode_str_map :: "str_map \<Rightarrow> string" where
  "encode_str_map m = json_print (JObj (map (\<lambda>(k, v). (k, JStr v)) (sort_key fst m)))"

section \<open>Runtime fields\<close>

definition HydrateRuntime :: "account \<Rightarrow> account" where
  "HydrateRuntime a =
     (let a1 = (if ac_proxy_json a \<noteq> [] then
                  (case decode_proxy (ac_proxy_json a) of
                     Some p \<Rightarrow> if pc_host p \<noteq> [] then a\<lparr>ac_proxy := Some p\<rparr> else a
                   | None \<Rightarrow> a)
                else a)
      in if ac_identity_json a1 \<noteq> [] then
           (case decode_str_map (ac_identity_json a1) of
              Some m \<Rightarrow> a1\<lparr>ac_identity := m\<rparr>
            | None \<Rightarrow> a1)
         else a1)"

definition PersistRuntime :: "account \<Rightarrow> account" where
  "PersistRuntime a =
     (let a1 = (case ac_proxy a of
                  Some p \<Rightarrow> a\<lparr>ac_proxy_json := encode_proxy p\<rparr>
                | None \<Rightarrow> a\<lparr>ac_proxy_json := []\<rparr>)
      in case ac_identity a1 of
           Some m \<Rightarrow> a1\<lparr>ac_identity_json := encode_str_map m\<rparr>
         | None \<Rightarrow> a1\<lparr>ac_identity_json := []\<rparr>)"

definition IdentityString :: "account \<Rightarrow> string \<Rightarrow> string" where
  "IdentityString a key =
     (case ac_identity a of
        None \<Rightarrow> []
      | Some m \<Rightarrow> (case map_of m key of Some v \<Rightarrow> v | None \<Rightarrow> []))"

definition TransportProxy :: "account option \<Rightarrow> proxy_config option" where
  "TransportProxy oa =
     (case oa of
        None \<Rightarrow> None
      | Some a \<Rightarrow>
          (case ac_cell a of
             Some c \<Rightarrow> (case cl_proxy c of Some p \<Rightarrow> Some p | None \<Rightarrow> ac_proxy a)
           | None \<Rightarrow> ac_proxy a))"

definition CellHydrateRuntime :: "egress_cell \<Rightarrow> egress_cell" where
  "CellHydrateRuntime c =
     (let c1 = (if cl_proxy_json c \<noteq> [] then
                  (case decode_proxy (cl_proxy_json c) of
                     Some p \<Rightarrow> if pc_host p \<noteq> [] then c\<lparr>cl_proxy := Some p\<rparr> else c
                   | None \<Rightarrow> c)
                else c)
      in if cl_labels_json c1 \<noteq> [] then
           (case decode_str_map (cl_labels_json c1) of
              Some m \<Rightarrow> c1\<lparr>cl_labels := m\<rparr>
            | None \<Rightarrow> c1)
         else c1)"

definition CellPersistRuntime :: "egress_cell \<Rightarrow> egress_cell" where
  "CellPersistRuntime c =
     (let c1 = (case cl_proxy c of
                  Some p \<Rightarrow> c\<lparr>cl_proxy_json := encode_proxy p\<rparr>
                | None \<Rightarrow> c\<lparr>cl_proxy_json := []\<rparr>);
          c2 = (case cl_labels c1 of
                  Some m \<Rightarrow> c1\<lparr>cl_labels_json := encode_str_map m\<rparr>
                | None \<Rightarrow> c1\<lparr>cl_labels_json := []\<rparr>);
          c3 = (if cl_state_json c2 = [] then c2\<lparr>cl_state_json := ''{}''\<rparr> else c2)
      in if cl_status c3 = [] then c3\<lparr>cl_status := EgressCellActive\<rparr> else c3)"

section \<open>Surfaces\<close>

definition SurfaceNative :: surface where "SurfaceNative = ''native''"
definition SurfaceCompat :: surface where "SurfaceCompat = ''compat''"
definition SurfaceAll :: surface where "SurfaceAll = ''all''"

lemma surface_distinct [simp]:
  "SurfaceNative \<noteq> SurfaceCompat" "SurfaceCompat \<noteq> SurfaceNative" "SurfaceNative \<noteq> SurfaceAll"
  "SurfaceAll \<noteq> SurfaceNative" "SurfaceCompat \<noteq> SurfaceAll" "SurfaceAll \<noteq> SurfaceCompat"
  "SurfaceNative \<noteq> []" "SurfaceCompat \<noteq> []" "SurfaceAll \<noteq> []"
  by (simp_all add: SurfaceNative_def SurfaceCompat_def SurfaceAll_def)

definition NormalizeSurface :: "string \<Rightarrow> surface" where
  "NormalizeSurface value =
     (let v = to_lower (trim_space value) in
      if v = SurfaceNative then SurfaceNative
      else if v = SurfaceCompat then SurfaceCompat
      else if v = SurfaceAll then SurfaceAll
      else [])"

definition AllowsSurface :: "surface \<Rightarrow> surface \<Rightarrow> bool" where
  "AllowsSurface allowed requested =
     (let al = (if allowed = [] then SurfaceNative else allowed) in
      if al = SurfaceAll then True else requested \<noteq> [] \<and> al = requested)"

section \<open>Round trips\<close>

lemma parse_proxy_members:
  "json_parse (json_print (JObj (proxy_members p))) = Some (JObj (proxy_members p))"
  by (rule json_parse_print) (auto simp: proxy_members_def omit_empty_def)

lemma decode_encode_proxy:
  assumes "fits64 (pc_port p)"
  shows "decode_proxy (encode_proxy p) = Some p"
proof -
  have "foldl decode_proxy_member (empty_proxy, True) (proxy_members p) = (p, True)"
    using assms
    by (cases p) (auto simp: proxy_members_def omit_empty_def decode_proxy_member_def
        set_string_field_def set_port_field_def empty_proxy_def to_lower_def char_lower_def)
  then show ?thesis unfolding decode_proxy_def encode_proxy_def parse_proxy_members by simp
qed

lemma foldl_decode_str:
  "foldl decode_str_member (m0, True) (map (\<lambda>(k, v). (k, JStr v)) m)
   = (foldl (\<lambda>acc (k, v). AList.update k v acc) m0 m, True)"
  by (induction m arbitrary: m0) (auto simp: decode_str_member_def)

lemma foldl_update_fresh:
  "distinct (map fst m0 @ map fst m) \<Longrightarrow> foldl (\<lambda>acc (k, v). AList.update k v acc) m0 m = m0 @ m"
proof (induction m arbitrary: m0)
  case (Cons kv m)
  obtain k v where kv: "kv = (k, v)" by (cases kv)
  have "k \<notin> fst ` set m0" using Cons.prems by (auto simp: kv image_def)
  then have "AList.update k v m0 = m0 @ [(k, v)]" by (induction m0) auto
  with Cons show ?case by (simp add: kv)
qed simp

lemma distinct_fst_sort_key: "distinct (map fst m) \<Longrightarrow> distinct (map fst (sort_key fst m))"
  by (simp add: distinct_map inj_on_def)

lemma decode_encode_str_map:
  assumes "distinct (map fst m)"
  shows "decode_str_map (encode_str_map m) = Some (Some (sort_key fst m))"
proof -
  let ?j = "JObj (map (\<lambda>(k, v). (k, JStr v)) (sort_key fst m))"
  have "json_parse (json_print ?j) = Some ?j" by (rule json_parse_print) auto
  moreover have "foldl decode_str_member ([], True) (map (\<lambda>(k, v). (k, JStr v)) (sort_key fst m))
      = (sort_key fst m, True)"
    using foldl_update_fresh [of "[]" "sort_key fst m"] distinct_fst_sort_key [OF assms]
    by (simp add: foldl_decode_str)
  ultimately show ?thesis unfolding decode_str_map_def encode_str_map_def by (simp del: json_print.simps)
qed

lemma map_of_sort_key: "distinct (map fst m) \<Longrightarrow> map_of (sort_key fst m) = map_of m"
  by (rule map_of_inject_set [THEN iffD2]) (simp_all add: distinct_fst_sort_key)

lemma encode_str_map_ne [simp]: "encode_str_map m \<noteq> []"
  by (simp add: encode_str_map_def)

lemma encode_proxy_ne [simp]: "encode_proxy p \<noteq> []"
  by (simp add: encode_proxy_def)

text \<open>Hydration and persistence change nothing but the fields they are named after.\<close>

lemma Hydrate_frame [simp, frame_simps]:
  "ac_id (HydrateRuntime a) = ac_id a" "ac_email (HydrateRuntime a) = ac_email a"
  "ac_provider (HydrateRuntime a) = ac_provider a" "ac_status (HydrateRuntime a) = ac_status a"
  "ac_priority (HydrateRuntime a) = ac_priority a"
  "ac_priority_mode (HydrateRuntime a) = ac_priority_mode a"
  "ac_error_message (HydrateRuntime a) = ac_error_message a"
  "ac_bucket_key (HydrateRuntime a) = ac_bucket_key a"
  "ac_refresh_token_enc (HydrateRuntime a) = ac_refresh_token_enc a"
  "ac_access_token_enc (HydrateRuntime a) = ac_access_token_enc a"
  "ac_expires_at (HydrateRuntime a) = ac_expires_at a"
  "ac_last_used_at (HydrateRuntime a) = ac_last_used_at a"
  "ac_cell_id (HydrateRuntime a) = ac_cell_id a" "ac_subject (HydrateRuntime a) = ac_subject a"
  "ac_cooldown_until (HydrateRuntime a) = ac_cooldown_until a"
  by (auto simp: HydrateRuntime_def Let_def split: option.splits)

lemma Persist_frame [simp, frame_simps]:
  "ac_id (PersistRuntime a) = ac_id a" "ac_email (PersistRuntime a) = ac_email a"
  "ac_provider (PersistRuntime a) = ac_provider a" "ac_status (PersistRuntime a) = ac_status a"
  "ac_priority (PersistRuntime a) = ac_priority a"
  "ac_priority_mode (PersistRuntime a) = ac_priority_mode a"
  "ac_error_message (PersistRuntime a) = ac_error_message a"
  "ac_bucket_key (PersistRuntime a) = ac_bucket_key a"
  "ac_refresh_token_enc (PersistRuntime a) = ac_refresh_token_enc a"
  "ac_access_token_enc (PersistRuntime a) = ac_access_token_enc a"
  "ac_expires_at (PersistRuntime a) = ac_expires_at a"
  "ac_last_used_at (PersistRuntime a) = ac_last_used_at a"
  "ac_cell_id (PersistRuntime a) = ac_cell_id a" "ac_subject (PersistRuntime a) = ac_subject a"
  "ac_proxy (PersistRuntime a) = ac_proxy a" "ac_identity (PersistRuntime a) = ac_identity a"
  by (auto simp: PersistRuntime_def Let_def split: option.splits)

lemma CellHydrate_frame [simp, frame_simps]:
  "cl_id (CellHydrateRuntime c) = cl_id c" "cl_status (CellHydrateRuntime c) = cl_status c"
  "cl_cooldown_until (CellHydrateRuntime c) = cl_cooldown_until c"
  by (auto simp: CellHydrateRuntime_def Let_def split: option.splits)

lemma CellPersist_frame [simp, frame_simps]:
  "cl_id (CellPersistRuntime c) = cl_id c"
  "cl_cooldown_until (CellPersistRuntime c) = cl_cooldown_until c"
  "cl_proxy (CellPersistRuntime c) = cl_proxy c" "cl_labels (CellPersistRuntime c) = cl_labels c"
  by (auto simp: CellPersistRuntime_def Let_def split: option.splits)

lemma NormalizeSurface_idem: "NormalizeSurface (NormalizeSurface s) = NormalizeSurface s"
proof -
  have "NormalizeSurface SurfaceNative = SurfaceNative" "NormalizeSurface SurfaceCompat = SurfaceCompat"
    "NormalizeSurface SurfaceAll = SurfaceAll" "NormalizeSurface [] = []"
    by code_simp+
  then show ?thesis by (simp add: NormalizeSurface_def [of s] Let_def)
qed

end
