(* ===== verification/Store.thy ===== *)
theory Store
  imports Domain
begin

text \<open>
  The durable state of the broker behind the interface \<open>Store\<close> (src/internal/store/store.go), with the
  behaviour of its in-memory implementation (mock_store.go): one table per entity, error injection
  for the operations that can fail, and the clock as an argument of the operations that read it.
  Tables are maps from keys; a list operation takes the order of the rows.  The locales
  \<open>expiring_table\<close> and \<open>nx_table\<close> state what the session, OAuth, stainless and lock tables promise:
  a lookup returns what was stored until it expires and nothing afterwards, a purge is invisible to
  later lookups, and a conditional insert never replaces a live entry.
\<close>

record store =
  s_accounts :: "string \<rightharpoonup> account"
  s_cells :: "string \<rightharpoonup> egress_cell"
  s_buckets :: "string \<rightharpoonup> quota_bucket"
  s_sessions :: "string \<rightharpoonup> session_binding"
  s_stainless :: "string \<rightharpoonup> stainless_binding"
  s_oauth :: "string \<rightharpoonup> oauth_session_state"
  s_locks :: "string \<rightharpoonup> refresh_lock"
  s_users :: "string \<rightharpoonup> user"
  SaveAccountErr :: "err option"
  ListAccountsErr :: "err option"
  GetAccountErr :: "err option"
  DeleteAccountErr :: "err option"
  CreateUserErr :: "err option"

definition NewMockStore :: store where
  "NewMockStore =
     \<lparr> s_accounts = Map.empty, s_cells = Map.empty, s_buckets = Map.empty, s_sessions = Map.empty,
       s_stainless = Map.empty, s_oauth = Map.empty, s_locks = Map.empty, s_users = Map.empty,
       SaveAccountErr = None, ListAccountsErr = None, GetAccountErr = None,
       DeleteAccountErr = None, CreateUserErr = None \<rparr>"

section \<open>Accounts, cells and buckets\<close>

definition GetAccount :: "string \<Rightarrow> store \<Rightarrow> err + account option" where
  "GetAccount i s = (case GetAccountErr s of Some e \<Rightarrow> Inl e | None \<Rightarrow> Inr (s_accounts s i))"

definition ListAccounts :: "string list \<Rightarrow> store \<Rightarrow> err + account list" where
  "ListAccounts ord s =
     (case ListAccountsErr s of Some e \<Rightarrow> Inl e | None \<Rightarrow> Inr (entries (s_accounts s) ord))"

definition SaveAccount :: "account \<Rightarrow> store \<Rightarrow> err option \<times> store" where
  "SaveAccount a s =
     (case SaveAccountErr s of
        Some e \<Rightarrow> (Some e, s)
      | None \<Rightarrow> (None, s\<lparr>s_accounts := (s_accounts s)(ac_id a \<mapsto> a)\<rparr>))"

definition DeleteAccount :: "string \<Rightarrow> store \<Rightarrow> err option \<times> store" where
  "DeleteAccount i s =
     (case DeleteAccountErr s of
        Some e \<Rightarrow> (Some e, s)
      | None \<Rightarrow> (None, s\<lparr>s_accounts := (s_accounts s)(i := None)\<rparr>))"

definition GetEgressCell :: "string \<Rightarrow> store \<Rightarrow> egress_cell option" where
  "GetEgressCell i s = s_cells s i"

definition ListEgressCells :: "string list \<Rightarrow> store \<Rightarrow> egress_cell list" where
  "ListEgressCells ord s = entries (s_cells s) ord"

definition SaveEgressCell :: "egress_cell \<Rightarrow> store \<Rightarrow> store" where
  "SaveEgressCell c s = s\<lparr>s_cells := (s_cells s)(cl_id c \<mapsto> c)\<rparr>"

definition DeleteEgressCell :: "string \<Rightarrow> store \<Rightarrow> store" where
  "DeleteEgressCell i s = s\<lparr>s_cells := (s_cells s)(i := None)\<rparr>"

definition GetQuotaBucket :: "string \<Rightarrow> store \<Rightarrow> quota_bucket option" where
  "GetQuotaBucket k s = s_buckets s k"

definition ListQuotaBuckets :: "string list \<Rightarrow> store \<Rightarrow> quota_bucket list" where
  "ListQuotaBuckets ord s = entries (s_buckets s) ord"

definition SaveQuotaBucket :: "quota_bucket \<Rightarrow> store \<Rightarrow> store" where
  "SaveQuotaBucket b s = s\<lparr>s_buckets := (s_buckets s)(bk_key b \<mapsto> b)\<rparr>"

definition DeleteQuotaBucket :: "string \<Rightarrow> store \<Rightarrow> store" where
  "DeleteQuotaBucket k s = s\<lparr>s_buckets := (s_buckets s)(k := None)\<rparr>"

section \<open>Entries with an expiry\<close>

definition purge_map :: "('v \<Rightarrow> gotime) \<Rightarrow> gotime \<Rightarrow> (string \<rightharpoonup> 'v) \<Rightarrow> (string \<rightharpoonup> 'v)" where
  "purge_map expires before m =
     (\<lambda>k. case m k of Some v \<Rightarrow> (if before < expires v then Some v else None) | None \<Rightarrow> None)"

definition purge_count :: "('v \<Rightarrow> gotime) \<Rightarrow> gotime \<Rightarrow> (string \<rightharpoonup> 'v) \<Rightarrow> string list \<Rightarrow> nat" where
  "purge_count expires before m ord =
     length (filter (\<lambda>v. \<not> before < expires v) (entries m ord))"

text \<open>Session bindings.\<close>

definition GetSessionBinding :: "gotime \<Rightarrow> string \<Rightarrow> store \<Rightarrow> session_binding option" where
  "GetSessionBinding now k s =
     (case s_sessions s k of
        None \<Rightarrow> None
      | Some b \<Rightarrow> (if now < sb_expires_at b then Some b else None))"

definition ListSessionBindingsByTarget ::
  "gotime \<Rightarrow> string list \<Rightarrow> provider \<Rightarrow> string \<Rightarrow> store \<Rightarrow> session_binding list" where
  "ListSessionBindingsByTarget now ord provider subject s =
     filter (\<lambda>b. \<not> (sb_provider b \<noteq> provider \<or> sb_subject b \<noteq> subject \<or> \<not> now < sb_expires_at b))
       (entries (s_sessions s) ord)"

definition SaveSessionBinding :: "session_binding \<Rightarrow> store \<Rightarrow> store" where
  "SaveSessionBinding b s = s\<lparr>s_sessions := (s_sessions s)(sb_session_uuid b \<mapsto> b)\<rparr>"

definition DeleteSessionBinding :: "string \<Rightarrow> store \<Rightarrow> store" where
  "DeleteSessionBinding k s = s\<lparr>s_sessions := (s_sessions s)(k := None)\<rparr>"

definition PurgeExpiredSessionBindings :: "gotime \<Rightarrow> string list \<Rightarrow> store \<Rightarrow> nat \<times> store" where
  "PurgeExpiredSessionBindings before ord s =
     (purge_count sb_expires_at before (s_sessions s) ord,
      s\<lparr>s_sessions := purge_map sb_expires_at before (s_sessions s)\<rparr>)"

text \<open>Stainless bindings.\<close>

definition GetStainlessBinding :: "gotime \<Rightarrow> string \<Rightarrow> store \<Rightarrow> stainless_binding option" where
  "GetStainlessBinding now k s =
     (case s_stainless s k of
        None \<Rightarrow> None
      | Some b \<Rightarrow> (if now < st_expires_at b then Some b else None))"

definition SetStainlessBindingNX :: "stainless_binding \<Rightarrow> store \<Rightarrow> bool \<times> store" where
  "SetStainlessBindingNX b s =
     (case s_stainless s (st_account_id b) of
        Some existing \<Rightarrow>
          (if st_created_at b < st_expires_at existing then (False, s)
           else (True, s\<lparr>s_stainless := (s_stainless s)(st_account_id b \<mapsto> b)\<rparr>))
      | None \<Rightarrow> (True, s\<lparr>s_stainless := (s_stainless s)(st_account_id b \<mapsto> b)\<rparr>))"

definition DeleteStainlessBinding :: "string \<Rightarrow> store \<Rightarrow> store" where
  "DeleteStainlessBinding k s = s\<lparr>s_stainless := (s_stainless s)(k := None)\<rparr>"

definition PurgeExpiredStainlessBindings :: "gotime \<Rightarrow> string list \<Rightarrow> store \<Rightarrow> nat \<times> store" where
  "PurgeExpiredStainlessBindings before ord s =
     (purge_count st_expires_at before (s_stainless s) ord,
      s\<lparr>s_stainless := purge_map st_expires_at before (s_stainless s)\<rparr>)"

text \<open>OAuth sessions.\<close>

definition SaveOAuthSession :: "oauth_session_state \<Rightarrow> store \<Rightarrow> store" where
  "SaveOAuthSession os s = s\<lparr>s_oauth := (s_oauth s)(os_session_id os \<mapsto> os)\<rparr>"

definition GetOAuthSession :: "gotime \<Rightarrow> string \<Rightarrow> store \<Rightarrow> oauth_session_state option" where
  "GetOAuthSession now k s =
     (case s_oauth s k of
        None \<Rightarrow> None
      | Some b \<Rightarrow> (if now < os_expires_at b then Some b else None))"

definition DeleteOAuthSession :: "string \<Rightarrow> store \<Rightarrow> store" where
  "DeleteOAuthSession k s = s\<lparr>s_oauth := (s_oauth s)(k := None)\<rparr>"

definition GetAndDeleteOAuthSession ::
  "gotime \<Rightarrow> string \<Rightarrow> store \<Rightarrow> oauth_session_state option \<times> store" where
  "GetAndDeleteOAuthSession now k s =
     (case s_oauth s k of
        None \<Rightarrow> (None, s)
      | Some b \<Rightarrow>
          (if now < os_expires_at b then (Some b, s\<lparr>s_oauth := (s_oauth s)(k := None)\<rparr>)
           else (None, s)))"

definition PurgeExpiredOAuthSessions :: "gotime \<Rightarrow> string list \<Rightarrow> store \<Rightarrow> nat \<times> store" where
  "PurgeExpiredOAuthSessions before ord s =
     (purge_count os_expires_at before (s_oauth s) ord,
      s\<lparr>s_oauth := purge_map os_expires_at before (s_oauth s)\<rparr>)"

text \<open>Refresh locks.\<close>

definition AcquireRefreshLock :: "refresh_lock \<Rightarrow> store \<Rightarrow> bool \<times> store" where
  "AcquireRefreshLock l s =
     (case s_locks s (rl_account_id l) of
        Some existing \<Rightarrow>
          (if rl_created_at l < rl_expires_at existing then (False, s)
           else (True, s\<lparr>s_locks := (s_locks s)(rl_account_id l \<mapsto> l)\<rparr>))
      | None \<Rightarrow> (True, s\<lparr>s_locks := (s_locks s)(rl_account_id l \<mapsto> l)\<rparr>))"

definition ReleaseRefreshLock :: "string \<Rightarrow> string \<Rightarrow> store \<Rightarrow> store" where
  "ReleaseRefreshLock accountID lockID s =
     (case s_locks s accountID of
        Some existing \<Rightarrow>
          (if rl_lock_id existing = lockID then s\<lparr>s_locks := (s_locks s)(accountID := None)\<rparr> else s)
      | None \<Rightarrow> s)"

definition PurgeExpiredRefreshLocks :: "gotime \<Rightarrow> string list \<Rightarrow> store \<Rightarrow> nat \<times> store" where
  "PurgeExpiredRefreshLocks before ord s =
     (purge_count rl_expires_at before (s_locks s) ord,
      s\<lparr>s_locks := purge_map rl_expires_at before (s_locks s)\<rparr>)"

section \<open>Users\<close>

definition ErrNotFound :: err where "ErrNotFound = ''not found''"

definition CreateUser :: "user \<Rightarrow> store \<Rightarrow> err option \<times> store" where
  "CreateUser u s =
     (case CreateUserErr s of
        Some e \<Rightarrow> (Some e, s)
      | None \<Rightarrow> (None, s\<lparr>s_users := (s_users s)(us_id u \<mapsto> u)\<rparr>))"

definition GetUserByTokenHash :: "string list \<Rightarrow> string \<Rightarrow> store \<Rightarrow> user option" where
  "GetUserByTokenHash ord h s = List.find (\<lambda>u. us_token_hash u = h) (entries (s_users s) ord)"

definition ListUsers :: "string list \<Rightarrow> store \<Rightarrow> user list" where
  "ListUsers ord s = entries (s_users s) ord"

definition DeleteUser :: "string \<Rightarrow> store \<Rightarrow> err option \<times> store" where
  "DeleteUser i s =
     (if s_users s i = None then (Some ErrNotFound, s)
      else (None, s\<lparr>s_users := (s_users s)(i := None)\<rparr>))"

definition UpdateUserStatus :: "string \<Rightarrow> string \<Rightarrow> store \<Rightarrow> err option \<times> store" where
  "UpdateUserStatus i st s =
     (case s_users s i of
        None \<Rightarrow> (Some ErrNotFound, s)
      | Some u \<Rightarrow> (None, s\<lparr>s_users := (s_users s)(i \<mapsto> u\<lparr>us_status := st\<rparr>)\<rparr>))"

definition UpdateUserToken :: "string \<Rightarrow> string \<Rightarrow> string \<Rightarrow> store \<Rightarrow> err option \<times> store" where
  "UpdateUserToken i h p s =
     (case s_users s i of
        None \<Rightarrow> (Some ErrNotFound, s)
      | Some u \<Rightarrow>
          (None, s\<lparr>s_users := (s_users s)(i \<mapsto> u\<lparr>us_token_hash := h, us_token_prefix := p\<rparr>)\<rparr>))"

definition UpdateUserPolicy :: "string \<Rightarrow> surface \<Rightarrow> string \<Rightarrow> store \<Rightarrow> err option \<times> store" where
  "UpdateUserPolicy i allowed bound s =
     (case s_users s i of
        None \<Rightarrow> (Some ErrNotFound, s)
      | Some u \<Rightarrow>
          (let al = (if allowed = [] then SurfaceNative else allowed) in
           (None, s\<lparr>s_users := (s_users s)(i \<mapsto>
              u\<lparr>us_allowed_surface := al, us_bound_account_id := bound\<rparr>)\<rparr>)))"

definition UpdateUserLastActive :: "gotime \<Rightarrow> string \<Rightarrow> store \<Rightarrow> store" where
  "UpdateUserLastActive now i s =
     (case s_users s i of
        None \<Rightarrow> s
      | Some u \<Rightarrow> s\<lparr>s_users := (s_users s)(i \<mapsto> u\<lparr>us_last_active_at := Some now\<rparr>)\<rparr>)"

section \<open>The contracts of the expiring tables\<close>

locale expiring_table =
  fixes lookup :: "gotime \<Rightarrow> string \<Rightarrow> 's \<Rightarrow> 'v option"
    and save :: "'v \<Rightarrow> 's \<Rightarrow> 's" and delete :: "string \<Rightarrow> 's \<Rightarrow> 's" and purge :: "gotime \<Rightarrow> 's \<Rightarrow> 's"
    and key :: "'v \<Rightarrow> string" and expires :: "'v \<Rightarrow> gotime"
  assumes lookup_save:
      "lookup now k (save v s) = (if k = key v then (if now < expires v then Some v else None)
                                  else lookup now k s)"
    and lookup_delete: "lookup now k (delete k' s) = (if k = k' then None else lookup now k s)"
    and lookup_purge: "before \<le> now \<Longrightarrow> lookup now k (purge before s) = lookup now k s"
    and lookup_live: "lookup now k s = Some v \<Longrightarrow> now < expires v"
    and lookup_until: "lookup now k s = Some v \<Longrightarrow> now' < expires v \<Longrightarrow> lookup now' k s = Some v"
begin

text \<open>Operations that leave the entry of \<open>k\<close> alone, as seen at \<open>now\<close>.\<close>

definition others :: "gotime \<Rightarrow> string \<Rightarrow> ('s \<Rightarrow> 's) \<Rightarrow> bool" where
  "others now k f \<longleftrightarrow> (\<exists>v. f = save v \<and> key v \<noteq> k) \<or> (\<exists>k'. f = delete k' \<and> k' \<noteq> k)
     \<or> (\<exists>b. f = purge b \<and> b \<le> now)"

lemma others_lookup: "others now k f \<Longrightarrow> lookup now k (f s) = lookup now k s"
  by (auto simp: others_def lookup_save lookup_delete lookup_purge)

lemma kept_by_others:
  "list_all (others now k) fs \<Longrightarrow> lookup now k (fold (\<lambda>f. f) fs s) = lookup now k s"
  by (induction fs arbitrary: s) (auto simp: others_lookup)

lemma stored_until_expiry:
  assumes "list_all (others now (key v)) fs" and "now < expires v"
  shows "lookup now (key v) (fold (\<lambda>f. f) fs (save v s)) = Some v"
  using assms by (simp add: kept_by_others lookup_save)

lemma gone_after_expiry: "lookup now k s = Some v \<Longrightarrow> expires v \<le> now' \<Longrightarrow> lookup now' k s \<noteq> Some v"
  using lookup_live by fastforce

end

text \<open>A table whose insert only succeeds when no live entry is there.\<close>

locale nx_table =
  fixes lookup :: "gotime \<Rightarrow> string \<Rightarrow> 's \<Rightarrow> 'v option"
    and setnx :: "'v \<Rightarrow> 's \<Rightarrow> bool \<times> 's"
    and key :: "'v \<Rightarrow> string" and created :: "'v \<Rightarrow> gotime" and expires :: "'v \<Rightarrow> gotime"
  assumes setnx_busy: "lookup (created v) (key v) s \<noteq> None \<Longrightarrow> setnx v s = (False, s)"
    and setnx_free: "lookup (created v) (key v) s = None \<Longrightarrow> fst (setnx v s)"
    and lookup_setnx:
      "lookup (created v) (key v) s = None \<Longrightarrow>
       lookup now k (snd (setnx v s)) = (if k = key v then (if now < expires v then Some v else None)
                                         else lookup now k s)"
begin

lemma setnx_iff: "fst (setnx v s) \<longleftrightarrow> lookup (created v) (key v) s = None"
  using setnx_busy [of v s] setnx_free [of v s] by (cases "lookup (created v) (key v) s") auto

lemma second_loses:
  assumes "fst (setnx v s)" and "key w = key v" and "created w < expires v"
  shows "setnx w (snd (setnx v s)) = (False, snd (setnx v s))"
proof (rule setnx_busy)
  have "lookup (created v) (key v) s = None" using assms(1) by (simp add: setnx_iff)
  then show "lookup (created w) (key w) (snd (setnx v s)) \<noteq> None"
    using assms(2,3) by (simp add: lookup_setnx)
qed

lemma other_keys: "k \<noteq> key v \<Longrightarrow> lookup now k (snd (setnx v s)) = lookup now k s"
  using setnx_busy [of v s] lookup_setnx [of v s now k]
  by (cases "lookup (created v) (key v) s") auto

end

text \<open>A conditional insert with a release by the owner is a lock with a lease.\<close>

locale lease_lock = nx_table lookup setnx key created expires
  for lookup :: "gotime \<Rightarrow> string \<Rightarrow> 's \<Rightarrow> 'v option" and setnx :: "'v \<Rightarrow> 's \<Rightarrow> bool \<times> 's"
    and key :: "'v \<Rightarrow> string" and created :: "'v \<Rightarrow> gotime" and expires :: "'v \<Rightarrow> gotime" +
  fixes owner :: "'v \<Rightarrow> string" and release :: "string \<Rightarrow> string \<Rightarrow> 's \<Rightarrow> 's"
  assumes lookup_release:
      "lookup now k (release k' i s) =
         (if k = k' \<and> (\<exists>v. lookup now k s = Some v \<and> owner v = i) then None else lookup now k s)"
begin

lemma stranger_cannot_release:
  assumes "fst (setnx v s)" and "i \<noteq> owner v" and "now < expires v"
  shows "lookup now (key v) (release (key v) i (snd (setnx v s))) = Some v"
  using assms by (auto simp: lookup_release lookup_setnx setnx_iff)

lemma held_until:
  assumes "fst (setnx v s)" and "key w = key v" and "created w < expires v" and "i \<noteq> owner v"
  shows "\<not> fst (setnx w (release k i (snd (setnx v s))))"
  using assms by (auto simp: setnx_iff lookup_release lookup_setnx)

lemma owner_releases:
  assumes "fst (setnx v s)" and "key w = key v"
  shows "fst (setnx w (release (key v) (owner v) (snd (setnx v s))))"
  using assms by (auto simp: setnx_iff lookup_release lookup_setnx)

end

section \<open>The tables keep their contracts\<close>

interpretation sess: expiring_table GetSessionBinding SaveSessionBinding DeleteSessionBinding
  "\<lambda>before s. snd (PurgeExpiredSessionBindings before [] s)" sb_session_uuid sb_expires_at
  by unfold_locales
    (auto simp: GetSessionBinding_def SaveSessionBinding_def DeleteSessionBinding_def
      PurgeExpiredSessionBindings_def purge_map_def split: option.splits if_splits)

interpretation oauth: expiring_table GetOAuthSession SaveOAuthSession DeleteOAuthSession
  "\<lambda>before s. snd (PurgeExpiredOAuthSessions before [] s)" os_session_id os_expires_at
  by unfold_locales
    (auto simp: GetOAuthSession_def SaveOAuthSession_def DeleteOAuthSession_def
      PurgeExpiredOAuthSessions_def purge_map_def split: option.splits if_splits)

interpretation stain: nx_table GetStainlessBinding SetStainlessBindingNX st_account_id st_created_at st_expires_at
  by unfold_locales
    (auto simp: GetStainlessBinding_def SetStainlessBindingNX_def split: option.splits if_splits)

text \<open>The lock that is held for an account at an instant.\<close>

definition lock_held :: "gotime \<Rightarrow> string \<Rightarrow> store \<Rightarrow> refresh_lock option" where
  "lock_held now k s =
     (case s_locks s k of None \<Rightarrow> None | Some l \<Rightarrow> (if now < rl_expires_at l then Some l else None))"

interpretation lock: lease_lock lock_held AcquireRefreshLock rl_account_id rl_created_at rl_expires_at
  rl_lock_id ReleaseRefreshLock
  by unfold_locales
    (auto simp: lock_held_def AcquireRefreshLock_def ReleaseRefreshLock_def split: option.splits if_splits)

section \<open>Keys of the tables\<close>

text \<open>Every row is stored under its own key.\<close>

definition store_wf :: "store \<Rightarrow> bool" where
  "store_wf s \<longleftrightarrow>
     (\<forall>k a. s_accounts s k = Some a \<longrightarrow> ac_id a = k)
   \<and> (\<forall>k c. s_cells s k = Some c \<longrightarrow> cl_id c = k)
   \<and> (\<forall>k b. s_buckets s k = Some b \<longrightarrow> bk_key b = k)"

lemma store_wf_New: "store_wf NewMockStore"
  by (simp add: store_wf_def NewMockStore_def)

lemma store_wf_SaveAccount: "store_wf s \<Longrightarrow> store_wf (snd (SaveAccount a s))"
  by (simp add: store_wf_def SaveAccount_def split: option.splits)

lemma store_wf_DeleteAccount: "store_wf s \<Longrightarrow> store_wf (snd (DeleteAccount i s))"
  by (simp add: store_wf_def DeleteAccount_def split: option.splits)

lemma store_wf_SaveEgressCell: "store_wf s \<Longrightarrow> store_wf (SaveEgressCell c s)"
  by (simp add: store_wf_def SaveEgressCell_def)

lemma store_wf_SaveQuotaBucket: "store_wf s \<Longrightarrow> store_wf (SaveQuotaBucket b s)"
  by (simp add: store_wf_def SaveQuotaBucket_def)

lemma store_wf_DeleteQuotaBucket: "store_wf s \<Longrightarrow> store_wf (DeleteQuotaBucket k s)"
  by (simp add: store_wf_def DeleteQuotaBucket_def)

lemma store_wf_SaveSessionBinding: "store_wf s \<Longrightarrow> store_wf (SaveSessionBinding b s)"
  by (simp add: store_wf_def SaveSessionBinding_def)

lemmas store_wf_intros =
  store_wf_SaveAccount store_wf_DeleteAccount store_wf_SaveEgressCell store_wf_SaveQuotaBucket
  store_wf_DeleteQuotaBucket store_wf_SaveSessionBinding

text \<open>Each operation touches one table only.\<close>

lemma SaveQuotaBucket_frame [simp, store_simps]:
  "s_accounts (SaveQuotaBucket b s) = s_accounts s" "s_cells (SaveQuotaBucket b s) = s_cells s"
  "s_sessions (SaveQuotaBucket b s) = s_sessions s"
  "s_buckets (SaveQuotaBucket b s) = (s_buckets s)(bk_key b \<mapsto> b)"
  "SaveAccountErr (SaveQuotaBucket b s) = SaveAccountErr s"
  "ListAccountsErr (SaveQuotaBucket b s) = ListAccountsErr s"
  by (simp_all add: SaveQuotaBucket_def)

lemma DeleteQuotaBucket_frame [simp, store_simps]:
  "s_accounts (DeleteQuotaBucket k s) = s_accounts s" "s_cells (DeleteQuotaBucket k s) = s_cells s"
  "s_sessions (DeleteQuotaBucket k s) = s_sessions s"
  "s_buckets (DeleteQuotaBucket k s) = (s_buckets s)(k := None)"
  "SaveAccountErr (DeleteQuotaBucket k s) = SaveAccountErr s"
  "ListAccountsErr (DeleteQuotaBucket k s) = ListAccountsErr s"
  by (simp_all add: DeleteQuotaBucket_def)

lemma SaveAccount_frame [simp, store_simps]:
  "s_cells (snd (SaveAccount a s)) = s_cells s" "s_buckets (snd (SaveAccount a s)) = s_buckets s"
  "s_sessions (snd (SaveAccount a s)) = s_sessions s"
  "SaveAccountErr (snd (SaveAccount a s)) = SaveAccountErr s"
  "ListAccountsErr (snd (SaveAccount a s)) = ListAccountsErr s"
  "s_accounts (snd (SaveAccount a s)) =
     (if SaveAccountErr s = None then (s_accounts s)(ac_id a \<mapsto> a) else s_accounts s)"
  by (simp_all add: SaveAccount_def split: option.splits)

lemma SaveSessionBinding_frame [simp, store_simps]:
  "s_accounts (SaveSessionBinding b s) = s_accounts s" "s_cells (SaveSessionBinding b s) = s_cells s"
  "s_buckets (SaveSessionBinding b s) = s_buckets s"
  "SaveAccountErr (SaveSessionBinding b s) = SaveAccountErr s"
  "ListAccountsErr (SaveSessionBinding b s) = ListAccountsErr s"
  by (simp_all add: SaveSessionBinding_def)

lemma SaveEgressCell_frame [simp, store_simps]:
  "s_accounts (SaveEgressCell c s) = s_accounts s" "s_buckets (SaveEgressCell c s) = s_buckets s"
  "s_cells (SaveEgressCell c s) = (s_cells s)(cl_id c \<mapsto> c)"
  "s_sessions (SaveEgressCell c s) = s_sessions s"
  "SaveAccountErr (SaveEgressCell c s) = SaveAccountErr s"
  "ListAccountsErr (SaveEgressCell c s) = ListAccountsErr s"
  by (simp_all add: SaveEgressCell_def)

end
