(* ===== verification/GoTime.thy ===== *)
theory GoTime
  imports Prelude
begin

text \<open>
  The parsers of the Go package \<open>time\<close> that the drivers call: \<open>time.Parse\<close> with the layouts RFC3339 and
  RFC1123, and \<open>time.ParseDuration\<close>; \<open>time.Until\<close>, which saturates at 64 bits.  A zone abbreviation
  other than UTC denotes an offset of zero, as it does for Go when the zone of the process is UTC.
\<close>

definition days_of_civil :: "int \<Rightarrow> int \<Rightarrow> int \<Rightarrow> int" where
  "days_of_civil y0 m d =
     (let y = (if m \<le> 2 then y0 - 1 else y0);
          era = y div 400;
          yoe = y mod 400;
          mp = (m + 9) mod 12;
          doy = (153 * mp + 2) div 5 + d - 1;
          doe = yoe * 365 + yoe div 4 - yoe div 100 + doy
      in era * 146097 + doe - 719468)"

text \<open>The calendar inverts: the date of a day number denotes that day again.\<close>

lemma split_era_day:
  fixes doe :: int
  assumes "0 \<le> doe" "doe < 146097"
  obtains c a s where "doe = 36524 * c + 1461 * a + s" "0 \<le> c" "c \<le> 3" "0 \<le> a" "a \<le> 24" "0 \<le> s" "s \<le> 1460"
    "c < 3 \<Longrightarrow> 1461 * a + s < 36524"
proof -
  define c where "c = min 3 (doe div 36524)"
  define r where "r = doe - 36524 * c"
  have d: "doe = 36524 * (doe div 36524) + doe mod 36524" "0 \<le> doe mod 36524" "doe mod 36524 < 36524" by simp_all
  have "doe div 36524 \<le> 4" "0 \<le> doe div 36524" using assms d by linarith+
  then have c: "0 \<le> c" "c \<le> 3" "0 \<le> r" "r \<le> 36524" "c < 3 \<Longrightarrow> r < 36524"
    using assms d unfolding c_def r_def by (auto simp: min_def)
  have e: "r = 1461 * (r div 1461) + r mod 1461" "0 \<le> r mod 1461" "r mod 1461 < 1461" by simp_all
  then have "0 \<le> r div 1461" "r div 1461 \<le> 24" using c(3,4) by linarith+
  moreover have "doe = 36524 * c + 1461 * (r div 1461) + r mod 1461" using e(1) unfolding r_def by linarith
  moreover have "c < 3 \<Longrightarrow> 1461 * (r div 1461) + r mod 1461 < 36524" using c(5) e(1) by linarith
  ultimately show thesis using that [of c "r div 1461" "r mod 1461"] c(1,2) e(2,3) by linarith
qed

lemma year_of_era:
  fixes doe :: int
  assumes "doe = 36524 * c + 1461 * a + s" "0 \<le> c" "c \<le> 3" "0 \<le> a" "a \<le> 24" "0 \<le> s" "s \<le> 1460" "doe < 146097"
    "c < 3 \<Longrightarrow> 1461 * a + s < 36524"
  shows "(doe - doe div 1460 + doe div 36524 - doe div 146096) div 365 = 100 * c + 4 * a + min 3 (s div 365)"
proof -
  define d where "d = (if 24 * c + a + s < 1460 then 0 else 1 :: int)"
  define e where "e = (if doe = 146096 then 1 else 0 :: int)"
  have d1: "doe div 1460 = 25 * c + a + d"
    by (rule int_div_pos_eq [where r = "24 * c + a + s - 1460 * d"]) (use assms in \<open>auto simp: d_def\<close>)
  have e1: "doe div 146096 = e"
    by (rule int_div_pos_eq [where r = "doe - 146096 * e"]) (use assms in \<open>auto simp: e_def\<close>)
  have "c < 3 \<or> c = 3" using assms(3) by linarith
  then have c1: "doe div 36524 = c + e"
    by (intro int_div_pos_eq [where r = "doe - 36524 * (c + e)"]) (use assms in \<open>auto simp: e_def\<close>)
  have t: "s = 365 * (s div 365) + s mod 365" "0 \<le> s mod 365" "s mod 365 < 365" by simp_all
  show ?thesis
    unfolding d1 e1 c1
    by (rule int_div_pos_eq [where r = "s - d - 365 * min 3 (s div 365) "]) (use assms t in \<open>auto simp: d_def min_def\<close>)
qed

lemma civil_parts:
  fixes doe :: int
  assumes "0 \<le> doe" "doe < 146097" "yoe = (doe - doe div 1460 + doe div 36524 - doe div 146096) div 365"
    and "doy = doe - (365 * yoe + yoe div 4 - yoe div 100)"
  shows "0 \<le> yoe" "yoe < 400" "0 \<le> doy" "doy \<le> 365"
proof -
  obtain c a s where e: "doe = 36524 * c + 1461 * a + s" and r: "0 \<le> c" "c \<le> 3" "0 \<le> a" "a \<le> 24" "0 \<le> s" "s \<le> 1460"
    and l: "c < 3 \<Longrightarrow> 1461 * a + s < 36524" using split_era_day [OF assms(1,2)] by metis
  define t where "t = min 3 (s div 365)"
  have t: "0 \<le> t" "t \<le> 3" "365 * t \<le> s" "s - 365 * t \<le> 365"
    using r(5,6) div_mult_mod_eq [of s 365] unfolding t_def min_def by (auto split: if_splits)
  have y: "yoe = 100 * c + 4 * a + t" unfolding assms(3) t_def by (rule year_of_era [OF e r assms(2) l])
  then show "0 \<le> yoe" "yoe < 400" using r t by linarith+
  have "yoe div 4 = 25 * c + a" using y t by (intro int_div_pos_eq [where r = t]) auto
  moreover have "yoe div 100 = c" using y t r by (intro int_div_pos_eq [where r = "4 * a + t"]) auto
  ultimately have "doy = s - 365 * t" using assms(4) e y by linarith
  then show "0 \<le> doy" "doy \<le> 365" using t by linarith+
qed

lemma days_of_civil_date:
  assumes "civil_date n = (y, m, d)"
  shows "days_of_civil y m d = n" "1 \<le> m" "m \<le> 12" "1 \<le> d" "d \<le> 31"
proof -
  define era doe where "era = (n + 719468) div 146097" and "doe = (n + 719468) mod 146097"
  define yoe where "yoe = (doe - doe div 1460 + doe div 36524 - doe div 146096) div 365"
  define doy where "doy = doe - (365 * yoe + yoe div 4 - yoe div 100)"
  define mp where "mp = (5 * doy + 2) div 153"
  have doe: "0 \<le> doe" "doe < 146097" by (simp_all add: doe_def)
  note p = civil_parts [OF doe yoe_def doy_def]
  have q: "5 * doy + 2 = 153 * mp + (5 * doy + 2) mod 153" "0 \<le> (5 * doy + 2) mod 153" "(5 * doy + 2) mod 153 < 153"
    unfolding mp_def by (rule mult_div_mod_eq [symmetric], simp_all only: pos_mod_sign pos_mod_bound zero_less_numeral)
  have mp: "0 \<le> mp" "mp \<le> 11" using p(3,4) q by linarith+
  have "civil_date n = (let m = (if mp < 10 then mp + 3 else mp - 9)
      in (yoe + era * 400 + (if m \<le> 2 then 1 else 0), m, doy - (153 * mp + 2) div 5 + 1))"
    unfolding civil_date_def Let_def era_def doe_def yoe_def doy_def mp_def by (rule refl)
  then have c: "d = doy - (153 * mp + 2) div 5 + 1" "m = (if mp < 10 then mp + 3 else mp - 9)"
    "y = yoe + era * 400 + (if m \<le> 2 then 1 else 0)"
    using assms by (auto simp: Let_def)
  show "1 \<le> m" "m \<le> 12" using c(2) mp by (auto split: if_splits)
  have f: "153 * mp + 2 = 5 * ((153 * mp + 2) div 5) + (153 * mp + 2) mod 5" "0 \<le> (153 * mp + 2) mod 5" "(153 * mp + 2) mod 5 < 5"
    by (rule mult_div_mod_eq [symmetric], simp_all only: pos_mod_sign pos_mod_bound zero_less_numeral)
  show "1 \<le> d" "d \<le> 31" using c(1) q f by linarith+
  have y0: "(if m \<le> 2 then y - 1 else y) = yoe + era * 400" using c(3) by auto
  have m9: "(m + 9) mod 12 = mp" using c(2) mp by (auto split: if_splits)
  have "(yoe + era * 400) div 400 = era" "(yoe + era * 400) mod 400 = yoe" using p(1,2) by simp_all
  then have "days_of_civil y m d = era * 146097 + (yoe * 365 + yoe div 4 - yoe div 100 + ((153 * mp + 2) div 5 + d - 1)) - 719468"
    by (simp add: days_of_civil_def Let_def y0 m9)
  also have "\<dots> = era * 146097 + doe - 719468" using c(1) unfolding doy_def by linarith
  also have "\<dots> = n" unfolding era_def doe_def by (simp add: mult.commute)
  finally show "days_of_civil y m d = n" .
qed

definition leap_year :: "int \<Rightarrow> bool" where
  "leap_year y \<longleftrightarrow> y mod 4 = 0 \<and> (y mod 100 \<noteq> 0 \<or> y mod 400 = 0)"

definition days_in_month :: "int \<Rightarrow> int \<Rightarrow> int" where
  "days_in_month y m =
     (if m = 2 then (if leap_year y then 29 else 28) else if m \<in> {4, 6, 9, 11} then 30 else 31)"

definition mk_time :: "int \<Rightarrow> int \<Rightarrow> int \<Rightarrow> int \<Rightarrow> int \<Rightarrow> int \<Rightarrow> int \<Rightarrow> int \<Rightarrow> gotime option" where
  "mk_time y mo d h mi s ns off =
     (if 1 \<le> mo \<and> mo \<le> 12 \<and> 1 \<le> d \<and> d \<le> days_in_month y mo \<and> h < 24 \<and> mi < 60 \<and> s < 60
      then Some ((days_of_civil y mo d * 86400 + h * 3600 + mi * 60 + s - off) * second + ns) else None)"

definition is_digit_at :: "string \<Rightarrow> nat \<Rightarrow> bool" where
  "is_digit_at s i \<longleftrightarrow> i < length s \<and> is_digit (s ! i)"

text \<open>\<open>getnum\<close>: one or two digits (two when \<open>fixed\<close>).\<close>

definition getnum :: "bool \<Rightarrow> string \<Rightarrow> (int \<times> string) option" where
  "getnum fixed s =
     (if \<not> is_digit_at s 0 then None
      else if is_digit_at s 1 then Some (int (digits_val (take 2 s)), drop 2 s)
      else if fixed then None else Some (int (digit_val (hd s)), tl s))"

definition get_year :: "string \<Rightarrow> (int \<times> string) option" where
  "get_year s =
     (if 4 \<le> length s \<and> list_all is_digit (take 4 s) then Some (int (digits_val (take 4 s)), drop 4 s)
      else None)"

definition cut_space :: "string \<Rightarrow> string" where
  "cut_space s = dropWhile (\<lambda>c. c = CHR '' '') s"

text \<open>\<open>skip\<close>: a blank of the layout stands for at least one blank of the value (or its end).\<close>

definition skip_blank :: "string \<Rightarrow> string option" where
  "skip_blank s = (if s \<noteq> [] \<and> hd s \<noteq> CHR '' '' then None else Some (cut_space s))"

definition skip_char :: "char \<Rightarrow> string \<Rightarrow> string option" where
  "skip_char c s = (case s of [] \<Rightarrow> None | x # xs \<Rightarrow> (if x = c then Some xs else None))"

text \<open>An optional fraction of the seconds, in nanoseconds; digits after the ninth are ignored.\<close>

definition get_frac :: "string \<Rightarrow> int \<times> string" where
  "get_frac s =
     (if 2 \<le> length s \<and> (hd s = CHR ''.'' \<or> hd s = CHR '','') \<and> is_digit_at s 1
      then (let ds = take 9 (takeWhile is_digit (tl s))
            in (int (digits_val ds) * 10 ^ (9 - length ds), dropWhile is_digit (tl s)))
      else (0, s))"

definition get_clock :: "string \<Rightarrow> ((int \<times> int \<times> int \<times> int) \<times> string) option" where
  "get_clock s0 =
     Option.bind (getnum False s0) (\<lambda>(h, s1). Option.bind (skip_char CHR '':'' s1) (\<lambda>s2.
     Option.bind (getnum True s2) (\<lambda>(mi, s3). Option.bind (skip_char CHR '':'' s3) (\<lambda>s4.
     Option.bind (getnum True s4) (\<lambda>(se, s5). case get_frac s5 of (ns, s6) \<Rightarrow>
       Some ((h, mi, se, ns), s6))))))"

definition get_offset :: "string \<Rightarrow> int option" where
  "get_offset s =
     (if s = ''Z'' then Some 0
      else if length s = 6 \<and> (hd s = CHR ''+'' \<or> hd s = CHR ''-'') \<and> s ! 3 = CHR '':'' then
        (case (getnum True (take 2 (drop 1 s)), getnum True (drop 4 s)) of
           (Some (h, _), Some (m, _)) \<Rightarrow>
             (if h \<le> 24 \<and> m \<le> 60 then Some ((if hd s = CHR ''-'' then - 1 else 1) * (h * 3600 + m * 60)) else None)
         | _ \<Rightarrow> None)
      else None)"

definition parse_rfc3339 :: "string \<Rightarrow> gotime option" where
  "parse_rfc3339 s0 =
     Option.bind (get_year s0) (\<lambda>(y, s1). Option.bind (skip_char CHR ''-'' s1) (\<lambda>s2.
     Option.bind (getnum True s2) (\<lambda>(mo, s3). Option.bind (skip_char CHR ''-'' s3) (\<lambda>s4.
     Option.bind (getnum True s4) (\<lambda>(d, s5). Option.bind (skip_char CHR ''T'' s5) (\<lambda>s6.
     Option.bind (get_clock s6) (\<lambda>((h, mi, se, ns), s7). Option.bind (get_offset s7) (\<lambda>off.
       mk_time y mo d h mi se ns off))))))))"

definition short_days :: "string list" where
  "short_days = [''Sun'', ''Mon'', ''Tue'', ''Wed'', ''Thu'', ''Fri'', ''Sat'']"

definition short_months :: "string list" where
  "short_months = [''Jan'', ''Feb'', ''Mar'', ''Apr'', ''May'', ''Jun'',
                   ''Jul'', ''Aug'', ''Sep'', ''Oct'', ''Nov'', ''Dec'']"

text \<open>\<open>lookup\<close>: the index of the name (three bytes, any case) at the start of the value.\<close>

definition lookup_name :: "string list \<Rightarrow> string \<Rightarrow> (int \<times> string) option" where
  "lookup_name names s =
     (case List.find (\<lambda>p. to_lower (snd p) = to_lower (take 3 s)) (zip [0..<length names] names) of
        Some p \<Rightarrow> Some (int (fst p), drop 3 s) | None \<Rightarrow> None)"

definition is_upper :: "char \<Rightarrow> bool" where
  "is_upper c \<longleftrightarrow> (let n = (of_char c :: nat) in 65 \<le> n \<and> n \<le> 90)"

definition signed_offset_len :: "string \<Rightarrow> nat" where
  "signed_offset_len s =
     (if s \<noteq> [] \<and> (hd s = CHR ''+'' \<or> hd s = CHR ''-'') then
        (let ds = takeWhile is_digit (tl s)
         in if ds = [] \<or> 23 < digits_val ds then 0 else 1 + length ds)
      else 0)"

definition zone_len :: "string \<Rightarrow> nat option" where
  "zone_len s =
     (if length s < 3 then None
      else if take 4 s = ''ChST'' \<or> take 4 s = ''MeST'' then Some 4
      else if take 3 s = ''GMT'' then Some (3 + signed_offset_len (drop 3 s))
      else if hd s = CHR ''+'' \<or> hd s = CHR ''-'' then
        (let n = signed_offset_len s in if 0 < n then Some n else None)
      else (let n = length (takeWhile is_upper (take 6 s))
            in if n = 5 then (if s ! 4 = CHR ''T'' then Some 5 else None)
               else if n = 4 then (if s ! 3 = CHR ''T'' \<or> take 4 s = ''WITA'' then Some 4 else None)
               else if n = 3 then Some 3 else None))"

definition zone_ok :: "string \<Rightarrow> bool" where
  "zone_ok s \<longleftrightarrow> (if take 3 s = ''UTC'' then length s = 3 else zone_len s = Some (length s))"

definition parse_rfc1123 :: "string \<Rightarrow> gotime option" where
  "parse_rfc1123 s0 =
     Option.bind (lookup_name short_days s0) (\<lambda>(_, s1). Option.bind (skip_char CHR '','' s1) (\<lambda>s2.
     Option.bind (skip_blank s2) (\<lambda>s3. Option.bind (getnum True s3) (\<lambda>(d, s4).
     Option.bind (skip_blank s4) (\<lambda>s5. Option.bind (lookup_name short_months s5) (\<lambda>(mo, s6).
     Option.bind (skip_blank s6) (\<lambda>s7. Option.bind (get_year s7) (\<lambda>(y, s8).
     Option.bind (skip_blank s8) (\<lambda>s9. Option.bind (get_clock s9) (\<lambda>((h, mi, se, ns), s10).
     Option.bind (skip_blank s10) (\<lambda>s11.
       if zone_ok s11 then mk_time y (mo + 1) d h mi se ns 0 else None)))))))))))"

text \<open>\<open>time.Until\<close>: the difference, saturated to the range of a duration.\<close>

definition until :: "gotime \<Rightarrow> gotime \<Rightarrow> duration" where
  "until now t = max (- (2 ^ 63)) (min (2 ^ 63 - 1) (t - now))"

section \<open>Durations\<close>

definition unit_ns :: "string \<Rightarrow> int option" where
  "unit_ns u =
     (if u = ''ns'' then Some 1
      else if u = ''us'' \<or> u = map char_of [194 :: nat, 181] @ ''s'' \<or> u = map char_of [206 :: nat, 188] @ ''s''
        then Some 1000
      else if u = ''ms'' then Some 1000000
      else if u = ''s'' then Some second
      else if u = ''m'' then Some minute
      else if u = ''h'' then Some (60 * minute)
      else None)"

text \<open>One component: digits, an optional fraction, a unit; its nanoseconds (the fraction rounds down).\<close>

definition duration_part :: "string \<Rightarrow> (int \<times> string) option" where
  "duration_part s =
     (let ip = takeWhile is_digit s; s1 = dropWhile is_digit s;
          dot = (s1 \<noteq> [] \<and> hd s1 = CHR ''.'');
          fp = (if dot then takeWhile is_digit (tl s1) else []);
          s2 = (if dot then dropWhile is_digit (tl s1) else s1);
          u = takeWhile (\<lambda>c. c \<noteq> CHR ''.'' \<and> \<not> is_digit c) s2;
          s3 = dropWhile (\<lambda>c. c \<noteq> CHR ''.'' \<and> \<not> is_digit c) s2
      in if ip @ fp = [] then None
         else Option.bind (unit_ns u) (\<lambda>k.
           Some (int (digits_val ip) * k + int (digits_val fp) * k div 10 ^ length fp, s3)))"

text \<open>At most \<open>n\<close> components; each consumes a byte, so the length of the text is enough.\<close>

fun duration_parts :: "nat \<Rightarrow> string \<Rightarrow> int option" where
  "duration_parts 0 s = (if s = [] then Some 0 else None)"
| "duration_parts (Suc n) s =
     (if s = [] then Some 0
      else Option.bind (duration_part s) (\<lambda>(v, r). map_option (\<lambda>w. v + w) (duration_parts n r)))"

definition parse_duration :: "string \<Rightarrow> duration option" where
  "parse_duration s =
     (let neg = (s \<noteq> [] \<and> hd s = CHR ''-'');
          b = (if s \<noteq> [] \<and> (hd s = CHR ''-'' \<or> hd s = CHR ''+'') then tl s else s)
      in if b = ''0'' then Some 0
         else if b = [] then None
         else Option.bind (duration_parts (length b) b)
           (\<lambda>v. if neg then (if v \<le> 2 ^ 63 then Some (- v) else None)
                else (if v \<le> 2 ^ 63 - 1 then Some v else None)))"

end
