(* ===== verification/GoFloat.thy ===== *)
theory GoFloat
  imports GoJson "HOL-Library.Log_Nat"
begin

text \<open>
  The type \<open>float64\<close>: a value is the rational number it denotes, and every operation of the code is the
  exact operation followed by \<open>fl\<close>, the rounding of IEEE 754 double precision (53 bits, ties to even,
  gradual underflow).  \<open>parse_float\<close> is \<open>strconv.ParseFloat\<close> on decimal literals and \<open>print_float\<close> the
  encoder of \<open>encoding/json\<close> (the shortest decimal that reads back).  Infinities, NaN and the sign of
  zero are not represented: a literal that overflows is an error, as in Go; the words \<open>inf\<close> and
  \<open>nan\<close>, hexadecimal literals and underscores are treated as errors.
  The main facts are \<open>fl_idem\<close>, \<open>fl_mono\<close> and the round trip \<open>parse_print_float\<close>.
\<close>

section \<open>Rounding\<close>

definition pow2 :: "int \<Rightarrow> rat" where
  "pow2 e = 2 powi e"

lemma pow2_pos [simp]: "0 < pow2 e" by (simp add: pow2_def)

lemma pow2_nonneg [simp]: "0 \<le> pow2 e" by (simp add: pow2_def)

lemma pow2_nz [simp]: "pow2 e \<noteq> 0" by (simp add: pow2_def)

lemma pow2_add: "pow2 (a + b) = pow2 a * pow2 b" by (simp add: pow2_def power_int_add)

lemma pow2_diff: "pow2 (a - b) = pow2 a / pow2 b" by (simp add: pow2_def power_int_diff)

lemma pow2_mono: "a \<le> b \<Longrightarrow> pow2 a \<le> pow2 b" by (simp add: pow2_def power_int_increasing)

lemma pow2_nat: "0 \<le> e \<Longrightarrow> pow2 e = of_int (2 ^ nat e)" by (simp add: pow2_def power_int_def)

lemma pow2_strict: "a < b \<Longrightarrow> pow2 a < pow2 b" by (simp add: pow2_def power_int_strict_increasing)

lemma pow2_less_cancel: "pow2 a < pow2 b \<Longrightarrow> a < b"
  using pow2_mono by (metis linorder_not_le)

text \<open>The binary exponent of a positive number.\<close>

definition exp2 :: "rat \<Rightarrow> int" where
  "exp2 q = (case quotient_of q of (n, d) \<Rightarrow>
     (let k = bitlen n - bitlen d in if pow2 k \<le> q then k else k - 1))"

lemma exp2_bounds:
  assumes "0 < q" shows "pow2 (exp2 q) \<le> q" "q < pow2 (exp2 q + 1)"
proof -
  obtain n d where nd: "quotient_of q = (n, d)" by (cases "quotient_of q")
  from nd have q: "q = of_int n / of_int d" by (rule quotient_of_div)
  from nd have d: "0 < d" by (rule quotient_of_denom_pos)
  with q assms have n: "0 < n" by (simp add: zero_less_divide_iff)
  let ?k = "bitlen n - bitlen d"
  have bn: "0 < bitlen n" "0 < bitlen d" using n d by (simp_all add: bitlen_alt_def)
  have e: "of_int (2 ^ nat m) = pow2 m" if "0 \<le> m" for m using that by (simp add: pow2_nat)
  have nb: "pow2 (bitlen n - 1) \<le> of_int n" "of_int n < pow2 (bitlen n)"
    using bitlen_bounds [OF n] bn e [of "bitlen n - 1"] e [of "bitlen n"]
    by (metis diff_ge_0_iff_ge int_one_le_iff_zero_less of_int_le_iff,
        metis bn(1) less_imp_le of_int_less_iff)
  have db: "pow2 (bitlen d - 1) \<le> of_int d" "of_int d < pow2 (bitlen d)"
    using bitlen_bounds [OF d] bn e [of "bitlen d - 1"] e [of "bitlen d"]
    by (metis diff_ge_0_iff_ge int_one_le_iff_zero_less of_int_le_iff,
        metis bn(2) less_imp_le of_int_less_iff)
  have lo: "pow2 (?k - 1) \<le> q"
  proof -
    have "pow2 (?k - 1) * of_int d \<le> pow2 (?k - 1) * pow2 (bitlen d)"
      using db by (intro mult_left_mono) (auto simp: less_imp_le)
    also have "\<dots> = pow2 (bitlen n - 1)" by (simp flip: pow2_add)
    also have "\<dots> \<le> of_int n" by (rule nb)
    finally show ?thesis using d q by (simp add: pos_le_divide_eq)
  qed
  have hi: "q < pow2 (?k + 1)"
  proof -
    have "of_int n < pow2 (bitlen n)" by (rule nb)
    also have "\<dots> = pow2 (?k + 1) * pow2 (bitlen d - 1)" by (simp flip: pow2_add)
    also have "\<dots> \<le> pow2 (?k + 1) * of_int d"
      using db by (intro mult_left_mono) (auto simp: less_imp_le)
    finally show ?thesis using d q by (simp add: pos_divide_less_eq)
  qed
  show "pow2 (exp2 q) \<le> q" "q < pow2 (exp2 q + 1)"
    using lo hi by (auto simp: exp2_def nd Let_def)
qed

lemma exp2_le: "0 < q \<Longrightarrow> q < pow2 (k + 1) \<Longrightarrow> exp2 q \<le> k"
  using exp2_bounds(1) [of q] pow2_less_cancel [of "exp2 q" "k + 1"] by simp

lemma exp2_ge: "pow2 k \<le> q \<Longrightarrow> k \<le> exp2 q"
  using exp2_bounds(2) [of q] pow2_less_cancel [of k "exp2 q + 1"] pow2_pos [of k] by linarith

lemma exp2_mono: "0 < p \<Longrightarrow> p \<le> q \<Longrightarrow> exp2 p \<le> exp2 q"
  using exp2_bounds(1) [of p] by (intro exp2_ge) simp

text \<open>Round to the nearest integer, ties to even.\<close>

definition rnd :: "rat \<Rightarrow> int" where
  "rnd q = (let f = \<lfloor>q\<rfloor>; r = q - of_int f in
     if r < 1 / 2 then f else if 1 / 2 < r then f + 1 else if even f then f else f + 1)"

lemma rnd_of_int [simp]: "rnd (of_int n) = n"
  by (simp add: rnd_def)

lemma rnd_bounds: "\<lfloor>q\<rfloor> \<le> rnd q" "rnd q \<le> \<lfloor>q\<rfloor> + 1"
  by (simp_all add: rnd_def Let_def)

lemma rnd_mono: assumes "p \<le> q" shows "rnd p \<le> rnd q"
proof (cases "\<lfloor>p\<rfloor> = \<lfloor>q\<rfloor>")
  case True
  with assms show ?thesis by (auto simp: rnd_def Let_def)
next
  case False
  with assms floor_mono [of p q] have "\<lfloor>p\<rfloor> + 1 \<le> \<lfloor>q\<rfloor>" by simp
  with rnd_bounds [of p] rnd_bounds [of q] show ?thesis by linarith
qed

lemma rnd_minus: "rnd (- q) = - rnd q"
proof (cases "q = of_int \<lfloor>q\<rfloor>")
  case True
  then have "rnd q = \<lfloor>q\<rfloor>" "rnd (- q) = - \<lfloor>q\<rfloor>"
    by (metis rnd_of_int, metis of_int_minus rnd_of_int)
  then show ?thesis by simp
next
  case False
  have lt: "of_int \<lfloor>q\<rfloor> < q" using False of_int_floor_le [of q] by linarith
  have "\<lfloor>- q\<rfloor> = - \<lfloor>q\<rfloor> - 1"
    by (rule floor_unique) (use lt floor_correct [of q] in linarith)+
  then show ?thesis by (auto simp: rnd_def Let_def)
qed

lemma rnd_le: "q \<le> of_int n \<Longrightarrow> rnd q \<le> n"
  using rnd_mono [of q "of_int n"] by simp

lemma rnd_ge: "of_int n \<le> q \<Longrightarrow> n \<le> rnd q"
  using rnd_mono [of "of_int n" q] by simp

text \<open>The exponent of the last place, and rounding.\<close>

definition ulp_exp :: "rat \<Rightarrow> int" where
  "ulp_exp q = max (exp2 \<bar>q\<bar> - 52) (- 1074)"

definition fl :: "rat \<Rightarrow> rat" where
  "fl q = (if q = 0 then 0 else of_int (rnd (q / pow2 (ulp_exp q))) * pow2 (ulp_exp q))"

lemma fl_0 [simp]: "fl 0 = 0"
  by (simp add: fl_def)

lemma ulp_exp_minus [simp]: "ulp_exp (- q) = ulp_exp q"
  by (simp add: ulp_exp_def)

lemma fl_minus: "fl (- q) = - fl q"
  by (simp add: fl_def rnd_minus)

lemma fl_pos: "0 \<le> q \<Longrightarrow> 0 \<le> fl q"
  by (simp add: fl_def rnd_ge zero_le_mult_iff)

lemma ulp_scaled:
  assumes "0 < q" shows "q / pow2 (ulp_exp q) < 2 ^ 53"
    and "- 1074 < ulp_exp q \<Longrightarrow> 2 ^ 52 \<le> q / pow2 (ulp_exp q)"
proof -
  have "q < pow2 (exp2 q + 1)" by (rule exp2_bounds [OF assms])
  also have "\<dots> \<le> pow2 (53 + ulp_exp q)" using assms by (intro pow2_mono) (simp add: ulp_exp_def)
  finally show "q / pow2 (ulp_exp q) < 2 ^ 53"
    by (simp add: pos_divide_less_eq pow2_add) (simp add: pow2_def)
next
  assume n: "- 1074 < ulp_exp q"
  then have "ulp_exp q = exp2 q - 52" using assms by (simp add: ulp_exp_def)
  then have "pow2 (52 + ulp_exp q) \<le> q" using exp2_bounds(1) [OF assms] by simp
  then show "2 ^ 52 \<le> q / pow2 (ulp_exp q)"
    by (simp add: pos_le_divide_eq pow2_add) (simp add: pow2_def)
qed

lemma fl_mono_pos:
  assumes "0 < p" "p \<le> q" shows "fl p \<le> fl q"
proof (cases "ulp_exp p = ulp_exp q")
  case True
  with assms have "rnd (p / pow2 (ulp_exp q)) \<le> rnd (q / pow2 (ulp_exp q))"
    by (intro rnd_mono divide_right_mono) (auto simp: less_imp_le)
  with assms True show ?thesis by (simp add: fl_def)
next
  case False
  have "ulp_exp p \<le> ulp_exp q" using assms exp2_mono [of p q] by (auto simp: ulp_exp_def)
  with False have lt: "ulp_exp p + 1 \<le> ulp_exp q" by simp
  have q: "0 < q" using assms by simp
  have "rnd (p / pow2 (ulp_exp p)) \<le> 2 ^ 53"
    using ulp_scaled(1) [OF assms(1)] by (intro rnd_le) simp
  then have "fl p \<le> of_int (2 ^ 53) * pow2 (ulp_exp p)"
    unfolding fl_def using assms(1) of_int_le_iff [of "rnd (p / pow2 (ulp_exp p))" "2 ^ 53", where 'a = rat]
    by (auto intro!: mult_right_mono)
  also have "\<dots> = of_int (2 ^ 52) * pow2 (ulp_exp p + 1)"
    by (simp add: pow2_add) (simp add: pow2_def)
  also have "\<dots> \<le> of_int (2 ^ 52) * pow2 (ulp_exp q)"
    using pow2_mono [OF lt] by (intro mult_left_mono) auto
  also have "\<dots> \<le> of_int (rnd (q / pow2 (ulp_exp q))) * pow2 (ulp_exp q)"
  proof -
    have "- 1074 < ulp_exp q" using lt by (simp add: ulp_exp_def)
    then have "2 ^ 52 \<le> rnd (q / pow2 (ulp_exp q))"
      using ulp_scaled(2) [OF q] by (intro rnd_ge) simp
    then show ?thesis by (intro mult_right_mono) (auto simp: less_imp_le)
  qed
  finally show ?thesis using q by (simp add: fl_def)
qed

lemma fl_mono: assumes "p \<le> q" shows "fl p \<le> fl q"
proof -
  consider "0 < p" | "p \<le> 0" "0 \<le> q" | "q < 0" using assms by linarith
  then show ?thesis
  proof cases
    case 1
    with assms show ?thesis by (simp add: fl_mono_pos)
  next
    case 2
    have "fl p \<le> 0" using fl_pos [of "- p"] 2 by (simp add: fl_minus)
    with fl_pos [of q] 2 show ?thesis by linarith
  next
    case 3
    with assms fl_mono_pos [of "- q" "- p"] show ?thesis by (simp add: fl_minus)
  qed
qed

lemma fl_fixed:
  assumes "q = of_int m * pow2 e" and "\<bar>m\<bar> \<le> 2 ^ 53" and "- 1074 \<le> e" shows "fl q = q"
proof (cases "q = 0")
  case False
  let ?u = "ulp_exp q"
  have pos: "0 < \<bar>q\<bar>" using False by simp
  have "\<exists>n. q = of_int n * pow2 ?u"
  proof (cases "?u \<le> e")
    case True
    then have "pow2 e = of_int (2 ^ nat (e - ?u)) * pow2 ?u"
      using pow2_nat [of "e - ?u"] pow2_add [of "e - ?u" ?u] by simp
    with assms(1) show ?thesis by (intro exI [of _ "m * 2 ^ nat (e - ?u)"]) simp
  next
    case False
    have abs: "\<bar>q\<bar> = of_int \<bar>m\<bar> * pow2 e" using assms(1) by (simp add: abs_mult abs_of_nonneg)
    also have "\<dots> \<le> of_int (2 ^ 53) * pow2 e"
      using assms(2) by (intro mult_right_mono) (auto simp only: of_int_le_iff pow2_nonneg)
    also have "\<dots> = pow2 (53 + e)" by (simp add: pow2_add) (simp add: pow2_def)
    finally have le: "\<bar>q\<bar> \<le> pow2 (53 + e)" .
    have u: "?u = exp2 \<bar>q\<bar> - 52" "e + 1 \<le> ?u" using False assms(3) by (auto simp: ulp_exp_def)
    have "pow2 (53 + e) \<le> \<bar>q\<bar>"
    proof -
      have "pow2 (53 + e) \<le> pow2 (exp2 \<bar>q\<bar>)" using u by (intro pow2_mono) simp
      with exp2_bounds(1) [OF pos] show ?thesis by linarith
    qed
    with le have eq: "\<bar>q\<bar> = pow2 (53 + e)" by simp
    have "exp2 \<bar>q\<bar> \<le> 53 + e" using pos eq pow2_strict [of "53 + e" "53 + e + 1"] by (intro exp2_le) simp_all
    with u have "?u = e + 1" by simp
    then have "pow2 (53 + e) = of_int (2 ^ 52) * pow2 ?u"
      by (simp add: pow2_add) (simp add: pow2_def)
    with eq show ?thesis
      by (cases "0 \<le> q") (auto intro: exI [of _ "2 ^ 52"] exI [of _ "- (2 ^ 52)"])
  qed
  then obtain n where "q = of_int n * pow2 ?u" ..
  then have "q / pow2 ?u = of_int n" by (simp add: nonzero_divide_eq_eq)
  with \<open>q = of_int n * pow2 ?u\<close> show ?thesis using False by (simp add: fl_def)
qed simp

lemma fl_form: "\<exists>m e. fl q = of_int m * pow2 e \<and> \<bar>m\<bar> \<le> 2 ^ 53 \<and> - 1074 \<le> e"
proof (cases "q = 0")
  case False
  let ?s = "q / pow2 (ulp_exp q)"
  have "\<bar>q\<bar> / pow2 (ulp_exp q) < 2 ^ 53"
    using ulp_scaled(1) [of "\<bar>q\<bar>"] False by (simp add: ulp_exp_def)
  then have "- (2 ^ 53) \<le> ?s \<and> ?s \<le> 2 ^ 53"
    by (simp add: pos_divide_less_eq pos_le_divide_eq pos_divide_le_eq abs_less_iff)
  then have "\<bar>rnd ?s\<bar> \<le> 2 ^ 53"
    using rnd_le [of ?s "2 ^ 53"] rnd_ge [of "- (2 ^ 53)" ?s] by (simp add: abs_le_iff)
  moreover have "- 1074 \<le> ulp_exp q" by (simp add: ulp_exp_def)
  ultimately show ?thesis using False unfolding fl_def by auto
qed (auto intro: exI [of _ 0])

lemma fl_idem [simp]: "fl (fl q) = fl q"
  using fl_form [of q] fl_fixed by blast

lemma fl_of_int: "\<bar>n\<bar> \<le> 2 ^ 53 \<Longrightarrow> fl (of_int n) = of_int n"
  using fl_fixed [of "of_int n" n 0] by (simp add: pow2_def)

lemma fl_le: "q \<le> of_int n \<Longrightarrow> \<bar>n\<bar> \<le> 2 ^ 53 \<Longrightarrow> fl q \<le> of_int n"
  using fl_mono [of q "of_int n"] by (simp add: fl_of_int)

lemma fl_ge: "of_int n \<le> q \<Longrightarrow> \<bar>n\<bar> \<le> 2 ^ 53 \<Longrightarrow> of_int n \<le> fl q"
  using fl_mono [of "of_int n" q] by (simp add: fl_of_int)

section \<open>Reading a decimal literal\<close>

definition pow10 :: "int \<Rightarrow> rat" where
  "pow10 e = 10 powi e"

lemma pow10_add: "pow10 (a + b) = pow10 a * pow10 b" by (simp add: pow10_def power_int_add)

lemma pow10_nat: "0 \<le> e \<Longrightarrow> pow10 e = of_nat (10 ^ nat e)" by (simp add: pow10_def power_int_def)

lemma pow10_0 [simp]: "pow10 0 = 1" by (simp add: pow10_def)

definition exp_value :: "string \<Rightarrow> int option" where
  "exp_value s =
     (if s = [] then Some 0
      else if hd s = CHR ''e'' \<or> hd s = CHR ''E'' then
        (let r = tl s;
             neg = (r \<noteq> [] \<and> hd r = CHR ''-'');
             ds = (if r \<noteq> [] \<and> (hd r = CHR ''-'' \<or> hd r = CHR ''+'') then tl r else r)
         in if ds \<noteq> [] \<and> list_all is_digit ds
            then Some (if neg then - int (digits_val ds) else int (digits_val ds)) else None)
      else None)"

text \<open>The exact value of an unsigned literal.\<close>

definition udecimal :: "string \<Rightarrow> rat option" where
  "udecimal b =
     (let ip = takeWhile is_digit b;
          b1 = dropWhile is_digit b;
          frac = (b1 \<noteq> [] \<and> hd b1 = CHR ''.'');
          fp = (if frac then takeWhile is_digit (tl b1) else []);
          b2 = (if frac then dropWhile is_digit (tl b1) else b1)
      in if ip @ fp = [] then None
         else map_option (\<lambda>x. of_nat (digits_val (ip @ fp)) * pow10 (x - int (length fp))) (exp_value b2))"

definition parse_float :: "string \<Rightarrow> rat option" where
  "parse_float s =
     (let neg = (s \<noteq> [] \<and> hd s = CHR ''-'');
          b = (if s \<noteq> [] \<and> (hd s = CHR ''-'' \<or> hd s = CHR ''+'') then tl s else s)
      in case udecimal b of
           None \<Rightarrow> None
         | Some v \<Rightarrow> (let w = fl (if neg then - v else v) in if \<bar>w\<bar> < pow2 1024 then Some w else None))"

lemma parse_float_fl: "parse_float s = Some v \<Longrightarrow> fl v = v \<and> \<bar>v\<bar> < pow2 1024"
  by (auto simp: parse_float_def Let_def split: option.splits if_splits)

section \<open>Printing\<close>

text \<open>The exponent of the leading decimal digit, and the nearest decimal with \<open>n\<close> digits, as a number
  of digits and a power of ten.\<close>

definition exp10 :: "rat \<Rightarrow> int" where
  "exp10 q = (case quotient_of q of (n, d) \<Rightarrow>
     (let k = int (length (nat_digits (nat n))) - int (length (nat_digits (nat d)))
      in if pow10 k \<le> q then k else k - 1))"

definition round_dec :: "rat \<Rightarrow> nat \<Rightarrow> nat \<times> int" where
  "round_dec q n =
     (let k = exp10 q - int n + 1; d = nat (rnd (q / pow10 k))
      in if d = 10 ^ n then (10 ^ (n - 1), k + 1) else (d, k))"

definition reads_back :: "rat \<Rightarrow> nat \<times> int \<Rightarrow> bool" where
  "reads_back q dk = (0 < fst dk \<and> fl (of_nat (fst dk) * pow10 (snd dk)) = q)"

text \<open>All digits of a double: never more than 17 are needed, so this is the value of no search.\<close>

definition all_digits :: "rat \<Rightarrow> nat \<times> int" where
  "all_digits q = (let e = ulp_exp q; m = nat (rnd (q / pow2 e))
     in if 0 \<le> e then (m * 2 ^ nat e, 0) else (m * 5 ^ nat (- e), e))"

definition shortest :: "rat \<Rightarrow> nat \<times> int" where
  "shortest q = (case List.find (reads_back q) (map (round_dec q) [1..<18]) of
     Some dk \<Rightarrow> dk | None \<Rightarrow> all_digits q)"

definition format_f :: "nat \<Rightarrow> int \<Rightarrow> string" where
  "format_f d k =
     (let ds = nat_digits d; p = nat (- k) in
      if 0 \<le> k then ds @ replicate (nat k) CHR ''0''
      else if p < length ds then take (length ds - p) ds @ ''.'' @ drop (length ds - p) ds
      else ''0.'' @ replicate (p - length ds) CHR ''0'' @ ds)"

definition format_e :: "nat \<Rightarrow> int \<Rightarrow> string" where
  "format_e d k =
     (let ds = nat_digits d; x = k + int (length ds) - 1 in
      [hd ds] @ (if tl ds = [] then [] else ''.'' @ tl ds)
      @ ''e'' @ (if x < 0 then ''-'' else ''+'') @ nat_digits (nat \<bar>x\<bar>))"

definition print_float :: "rat \<Rightarrow> string" where
  "print_float q =
     (if q = 0 then ''0''
      else (let a = \<bar>q\<bar>; dk = shortest a;
                t = (if a < fl (pow10 (- 6)) \<or> pow10 21 \<le> a then format_e (fst dk) (snd dk)
                     else format_f (fst dk) (snd dk))
            in if q < 0 then ''-'' @ t else t))"

text \<open>\<open>strconv.FormatFloat(v, 'f', -1, 64)\<close>.\<close>

definition format_float_f :: "rat \<Rightarrow> string" where
  "format_float_f q =
     (if q = 0 then ''0''
      else (let dk = shortest \<bar>q\<bar>; t = format_f (fst dk) (snd dk) in if q < 0 then ''-'' @ t else t))"

lemma shortest_reads_back:
  assumes "fl q = q" and "0 < q" shows "reads_back q (shortest q)"
proof (cases "List.find (reads_back q) (map (round_dec q) [1..<18])")
  case (Some dk)
  then show ?thesis by (auto simp: shortest_def dest: find_Some_mem)
next
  case None
  let ?e = "ulp_exp q" let ?m = "rnd (q / pow2 ?e)"
  have q: "of_int ?m * pow2 ?e = q" using assms by (simp add: fl_def)
  then have "0 < of_int ?m * pow2 ?e" using assms(2) by simp
  then have m: "0 < ?m" using pow2_pos [of ?e] by (simp only: zero_less_mult_iff of_int_0_less_iff) auto
  have "of_nat (fst (all_digits q)) * pow10 (snd (all_digits q)) = q"
  proof (cases "0 \<le> ?e")
    case True
    with m q show ?thesis by (simp add: all_digits_def Let_def pow2_nat)
  next
    case False
    then have e: "?e = - int (nat (- ?e))" by simp
    have "pow2 ?e = 1 / 2 ^ nat (- ?e)" "pow10 ?e = 1 / 10 ^ nat (- ?e)"
      by (subst e, simp only: pow2_def pow10_def power_int_minus_divide power_int_of_nat)+
    moreover have "(10 :: rat) ^ nat (- ?e) = 2 ^ nat (- ?e) * 5 ^ nat (- ?e)"
      by (simp flip: power_mult_distrib)
    ultimately have "of_int (5 ^ nat (- ?e)) * pow10 ?e = pow2 ?e" by simp
    with False m q show ?thesis by (simp add: all_digits_def Let_def mult.assoc)
  qed
  moreover have "0 < fst (all_digits q)"
    using m by (simp add: all_digits_def Let_def)
  ultimately show ?thesis using None assms(1) by (simp add: shortest_def reads_back_def)
qed

subsection \<open>Reading back what is printed\<close>

lemma digits_span:
  assumes "list_all is_digit ds" and "t = [] \<or> \<not> is_digit (hd t)"
  shows "takeWhile is_digit (ds @ t) = ds" "dropWhile is_digit (ds @ t) = t"
proof -
  have "takeWhile is_digit t = []" "dropWhile is_digit t = t" using assms(2) by (cases t; simp)+
  then show "takeWhile is_digit (ds @ t) = ds" "dropWhile is_digit (ds @ t) = t"
    using assms(1) by (auto simp: takeWhile_append dropWhile_append list_all_iff)
qed

lemma digits_val_append: "digits_val (ds @ es) = digits_val ds * 10 ^ length es + digits_val es"
  by (induction es rule: rev_induct) (simp_all flip: append_assoc add: algebra_simps)

lemma digits_val_zeros [simp]: "digits_val (replicate n CHR ''0'') = 0"
  by (induction n) (simp_all add: replicate_append_same [symmetric] digit_val_def)

lemma list_all_replicate_digit [simp]: "list_all is_digit (replicate n CHR ''0'')"
  by (simp add: list_all_iff is_digit_def)

lemma is_digit_0 [simp]: "is_digit CHR ''0''"
  by (simp add: is_digit_def)

lemma not_digit [simp]: "\<not> is_digit CHR ''.''" "\<not> is_digit CHR ''e''" "\<not> is_digit CHR ''-''" "\<not> is_digit CHR ''+''"
  by (simp_all add: is_digit_def)

text \<open>An unsigned literal with the digits \<open>ip\<close>, the fraction \<open>fp\<close> and an optional exponent.\<close>

lemma udecimal_parts:
  assumes "list_all is_digit ip" "list_all is_digit fp" "ip \<noteq> []"
    and "t = [] \<or> hd t = CHR ''e''" and "exp_value t = Some x"
  shows "udecimal (ip @ ''.'' @ fp @ t) = Some (of_nat (digits_val (ip @ fp)) * pow10 (x - int (length fp)))"
    and "udecimal (ip @ t) = Some (of_nat (digits_val ip) * pow10 x)"
proof -
  have t: "t = [] \<or> \<not> is_digit (hd t)" using assms(4) by auto
  show "udecimal (ip @ ''.'' @ fp @ t) = Some (of_nat (digits_val (ip @ fp)) * pow10 (x - int (length fp)))"
    using assms(3,5) digits_span [OF assms(1), of "''.'' @ fp @ t"] digits_span [OF assms(2) t]
    by (simp add: udecimal_def Let_def)
  show "udecimal (ip @ t) = Some (of_nat (digits_val ip) * pow10 x)"
    using assms(3-5) digits_span [OF assms(1) t] by (auto simp: udecimal_def Let_def)
qed

lemma list_all_take_drop: "list_all P xs \<Longrightarrow> list_all P (take n xs)" "list_all P xs \<Longrightarrow> list_all P (drop n xs)"
  by (auto simp: list_all_iff dest: in_set_takeD in_set_dropD)

lemma udecimal_format_f: "udecimal (format_f d k) = Some (of_nat d * pow10 k)"
proof -
  let ?ds = "nat_digits d" let ?p = "nat (- k)"
  have ex: "exp_value [] = Some 0" by (simp add: exp_value_def)
  consider "0 \<le> k" | "k < 0" "?p < length ?ds" | "k < 0" "\<not> ?p < length ?ds" by linarith
  then show ?thesis
  proof cases
    case 1
    then show ?thesis
      using udecimal_parts(2) [of "?ds @ replicate (nat k) CHR ''0''" "[]" "[]" 0] ex nat_digits_all [of d]
      by (simp add: format_f_def Let_def digits_val_append pow10_nat)
  next
    case 2
    then show ?thesis
      using udecimal_parts(1) [of "take (length ?ds - ?p) ?ds" "drop (length ?ds - ?p) ?ds" "[]" 0] ex
        list_all_take_drop [OF nat_digits_all [of d]]
      by (simp add: format_f_def Let_def)
  next
    case 3
    then show ?thesis
      using udecimal_parts(1) [of "''0''" "replicate (?p - length ?ds) CHR ''0'' @ ?ds" "[]" 0] ex
        nat_digits_all [of d] digits_val_append [of "''0''" "replicate (?p - length ?ds) CHR ''0'' @ ?ds"]
        digits_val_append [of "replicate (?p - length ?ds) CHR ''0''" ?ds] digits_val_zeros [of 1]
      by (simp add: format_f_def Let_def)
  qed
qed

lemma exp_value_print:
  "exp_value (''e'' @ (if x < 0 then ''-'' else ''+'') @ nat_digits (nat \<bar>x\<bar>)) = Some x"
  using nat_digits_all [of "nat \<bar>x\<bar>"] by (simp add: exp_value_def Let_def)

lemma udecimal_format_e: "udecimal (format_e d k) = Some (of_nat d * pow10 k)"
proof -
  let ?ds = "nat_digits d" let ?x = "k + int (length ?ds) - 1"
  let ?t = "''e'' @ (if ?x < 0 then ''-'' else ''+'') @ nat_digits (nat \<bar>?x\<bar>)"
  obtain c cs where ds: "?ds = c # cs" by (cases ?ds) auto
  have c: "list_all is_digit [c]" "list_all is_digit cs" using nat_digits_all [of d] ds by auto
  have dv: "digits_val (c # cs) = d" using digits_val_nat_digits [of d] ds by simp
  have lx: "?x = k + int (length cs)" using ds by simp
  note parts = udecimal_parts [OF c, of ?t ?x, OF _ _ exp_value_print]
  show ?thesis
  proof (cases "cs = []")
    case True
    then show ?thesis using parts(2) ds dv by (simp add: format_e_def Let_def)
  next
    case False
    then show ?thesis using parts(1) ds dv lx by (simp add: format_e_def Let_def)
  qed
qed

lemma format_hd: "\<exists>c cs. format_f d k = c # cs \<and> is_digit c" "\<exists>c cs. format_e d k = c # cs \<and> is_digit c"
proof -
  obtain c cs where ds: "nat_digits d = c # cs" by (cases "nat_digits d") auto
  then have "is_digit c" using nat_digits_all [of d] by simp
  with ds show "\<exists>c cs. format_f d k = c # cs \<and> is_digit c" "\<exists>c cs. format_e d k = c # cs \<and> is_digit c"
    by (auto simp: format_f_def format_e_def Let_def take_Cons')
qed

lemma parse_float_body:
  assumes "udecimal t = Some v" "t = c # cs" "is_digit c"
  shows "parse_float t = (if \<bar>fl v\<bar> < pow2 1024 then Some (fl v) else None)"
    and "parse_float (''-'' @ t) = (if \<bar>fl v\<bar> < pow2 1024 then Some (- fl v) else None)"
  using assms is_digit_sign [of c] by (auto simp: parse_float_def Let_def fl_minus)

text \<open>The round trip of a double.\<close>

lemma parse_print_float:
  assumes "fl q = q" and "\<bar>q\<bar> < pow2 1024"
  shows "parse_float (print_float q) = Some q"
proof (cases "q = 0")
  case True
  then show ?thesis
    by (simp add: print_float_def parse_float_def udecimal_def exp_value_def Let_def digits_val_def digit_val_def)
next
  case False
  let ?a = "\<bar>q\<bar>" let ?dk = "shortest ?a"
  let ?t = "if ?a < fl (pow10 (- 6)) \<or> pow10 21 \<le> ?a then format_e (fst ?dk) (snd ?dk) else format_f (fst ?dk) (snd ?dk)"
  have a: "fl ?a = ?a" using assms(1) by (cases "0 \<le> q") (simp_all add: fl_minus)
  then have rb: "fl (of_nat (fst ?dk) * pow10 (snd ?dk)) = ?a"
    using shortest_reads_back [of ?a] False by (simp add: reads_back_def)
  have "\<exists>c cs. ?t = c # cs \<and> is_digit c"
    using format_hd [of "fst ?dk" "snd ?dk"] by (simp only: split: if_split) blast
  then obtain c cs where t: "?t = c # cs" "is_digit c" by blast
  have u: "udecimal ?t = Some (of_nat (fst ?dk) * pow10 (snd ?dk))"
    by (simp add: udecimal_format_f udecimal_format_e)
  have p: "print_float q = (if q < 0 then ''-'' @ ?t else ?t)"
    using False by (simp only: print_float_def Let_def if_False)
  show ?thesis
    unfolding p using parse_float_body [OF u t] assms(2)
    by (simp only: rb abs_abs if_True split: if_split) auto
qed

text \<open>What is printed is a number literal of JSON.\<close>

lemma scan_int_span:
  assumes "list_all is_digit ip" "ip \<noteq> []" "hd ip = CHR ''0'' \<longrightarrow> ip = ''0''" "r = [] \<or> \<not> is_digit (hd r)"
  shows "scan_int (ip @ r) = Some (ip, r)"
  using assms digits_span [OF assms(1,4)] by (cases ip) (auto simp: scan_int_def)

lemma scan_digits_span:
  assumes "list_all is_digit fp" "fp \<noteq> []" "r = [] \<or> \<not> is_digit (hd r)"
  shows "scan_digits (fp @ r) = Some (fp, r)"
  using assms digits_span [OF assms(1,3)] by (cases fp) (auto simp: scan_digits_def)

definition exp_part :: "string \<Rightarrow> bool" where
  "exp_part t \<longleftrightarrow> t = [] \<or> (\<exists>sg ds. (sg = CHR ''+'' \<or> sg = CHR ''-'') \<and> list_all is_digit ds \<and> ds \<noteq> []
     \<and> t = CHR ''e'' # sg # ds)"

lemma exp_part_scan: "exp_part t \<Longrightarrow> scan_exp t = Some (t, [])"
  using scan_digits_span [of _ "[]"] by (auto simp: exp_part_def scan_exp_def)

lemma exp_part_hd: "exp_part t \<Longrightarrow> t = [] \<or> \<not> is_digit (hd t)" "exp_part t \<Longrightarrow> scan_frac t = Some ([], t)"
  by (auto simp: exp_part_def scan_frac_def)

lemma scan_number_parts:
  assumes ip: "list_all is_digit ip" "ip \<noteq> []" "hd ip = CHR ''0'' \<longrightarrow> ip = ''0''" and t: "exp_part t"
  shows "scan_number (ip @ t) = Some (ip @ t, [])" "scan_number (''-'' @ ip @ t) = Some (''-'' @ ip @ t, [])"
    and "list_all is_digit fp \<Longrightarrow> fp \<noteq> [] \<Longrightarrow> scan_number (ip @ ''.'' @ fp @ t) = Some (ip @ ''.'' @ fp @ t, [])"
    and "list_all is_digit fp \<Longrightarrow> fp \<noteq> [] \<Longrightarrow>
      scan_number (''-'' @ ip @ ''.'' @ fp @ t) = Some (''-'' @ ip @ ''.'' @ fp @ t, [])"
proof -
  have h: "hd (ip @ r) \<noteq> CHR ''-''" for r using ip(1,2) by (cases ip) (auto simp: is_digit_def)
  note e = exp_part_scan [OF t] exp_part_hd [OF t]
  show "scan_number (ip @ t) = Some (ip @ t, [])" "scan_number (''-'' @ ip @ t) = Some (''-'' @ ip @ t, [])"
    using scan_int_span [OF ip e(2)] h e by (simp_all add: scan_number_def Let_def)
  assume fp: "list_all is_digit fp" "fp \<noteq> []"
  have f: "scan_frac (''.'' @ fp @ t) = Some (''.'' @ fp, t)"
    using scan_digits_span [OF fp e(2)] by (simp add: scan_frac_def)
  show "scan_number (ip @ ''.'' @ fp @ t) = Some (ip @ ''.'' @ fp @ t, [])"
    "scan_number (''-'' @ ip @ ''.'' @ fp @ t) = Some (''-'' @ ip @ ''.'' @ fp @ t, [])"
    using scan_int_span [OF ip, of "''.'' @ fp @ t"] h e f by (simp_all add: scan_number_def Let_def)
qed

lemma scan_number_format:
  assumes "0 < d"
  shows "scan_number (format_f d k) = Some (format_f d k, [])" "scan_number (''-'' @ format_f d k) = Some (''-'' @ format_f d k, [])"
    and "scan_number (format_e d k) = Some (format_e d k, [])" "scan_number (''-'' @ format_e d k) = Some (''-'' @ format_e d k, [])"
proof -
  let ?ds = "nat_digits d" let ?p = "nat (- k)"
  have z: "exp_part []" by (simp add: exp_part_def)
  have hd: "hd ?ds \<noteq> CHR ''0''" using nat_digits_hd [OF assms] .
  have all: "list_all is_digit ?ds" by (rule nat_digits_all)
  note td = list_all_take_drop [OF all]
  note a = scan_number_parts [of "?ds @ replicate (nat k) CHR ''0''", OF _ _ _ z]
  note b = scan_number_parts [of "take (length ?ds - ?p) ?ds", OF _ _ _ z]
  note c = scan_number_parts [of "''0''", OF _ _ _ z]
  show "scan_number (format_f d k) = Some (format_f d k, [])" "scan_number (''-'' @ format_f d k) = Some (''-'' @ format_f d k, [])"
    using a b(3-4) [of "drop (length ?ds - ?p) ?ds"] c(3-4) [of "replicate (?p - length ?ds) CHR ''0'' @ ?ds"] hd all td
    by (auto simp: format_f_def Let_def)
  obtain x xs where ds: "?ds = x # xs" by (cases ?ds) auto
  have e: "exp_part (''e'' @ (if y < 0 then ''-'' else ''+'') @ nat_digits n)" for y :: int and n
    using nat_digits_all [of n] by (auto simp: exp_part_def)
  show "scan_number (format_e d k) = Some (format_e d k, [])" "scan_number (''-'' @ format_e d k) = Some (''-'' @ format_e d k, [])"
    using scan_number_parts [of "[x]", OF _ _ _ e] ds hd all by (auto simp: format_e_def Let_def)
qed

lemma scan_print_float:
  assumes "fl q = q" shows "scan_number (print_float q) = Some (print_float q, [])"
proof (cases "q = 0")
  case False
  define a dk where "a = \<bar>q\<bar>" and "dk = shortest a"
  have "fl a = a" using assms by (cases "0 \<le> q") (simp_all add: fl_minus a_def)
  then have "0 < fst dk" using shortest_reads_back [of a] False by (simp add: reads_back_def dk_def a_def)
  note sc = scan_number_format [OF this, of "snd dk"]
  have p: "print_float q = (let t = (if a < fl (pow10 (- 6)) \<or> pow10 21 \<le> a then format_e (fst dk) (snd dk)
      else format_f (fst dk) (snd dk)) in if q < 0 then ''-'' @ t else t)"
    using False by (simp only: print_float_def Let_def if_False a_def dk_def)
  show ?thesis unfolding p using sc by (auto simp: Let_def)
qed (simp add: print_float_def scan_number_def scan_int_def scan_frac_def scan_exp_def)

end
