(* ===== verification/GoStruct.thy ===== *)
theory GoStruct
  imports GoFloat
begin

text \<open>
  \<open>json.Unmarshal\<close> into a Go struct: a table of fields, each with the action that decodes a JSON value
  into the state.  The flag of a decoding is false once an error was recorded.  A member of the wrong
  type is skipped and recorded, later members are still decoded; \<open>null\<close> leaves a scalar or a nested
  struct and clears a pointer; an unknown member is ignored; a member name matches a field exactly or
  up to case.  A text that is not a document decodes nothing.
\<close>

type_synonym 's decoding = "'s \<times> bool"
type_synonym 's field = "json \<Rightarrow> 's decoding \<Rightarrow> 's decoding"

definition fail :: "'s decoding \<Rightarrow> 's decoding" where
  "fail sb = (fst sb, False)"

definition string_field :: "(string \<Rightarrow> 's \<Rightarrow> 's) \<Rightarrow> 's field" where
  "string_field upd v sb =
     (case v of JStr s \<Rightarrow> (upd s (fst sb), snd sb) | JNull \<Rightarrow> sb | _ \<Rightarrow> fail sb)"

definition int_field :: "(int \<Rightarrow> 's \<Rightarrow> 's) \<Rightarrow> 's field" where
  "int_field upd v sb =
     (case v of
        JNum l \<Rightarrow> (case lit_int l of Some n \<Rightarrow> (upd n (fst sb), snd sb) | None \<Rightarrow> fail sb)
      | JNull \<Rightarrow> sb | _ \<Rightarrow> fail sb)"

definition float_field :: "(rat \<Rightarrow> 's \<Rightarrow> 's) \<Rightarrow> 's field" where
  "float_field upd v sb =
     (case v of
        JNum l \<Rightarrow> (case parse_float l of Some x \<Rightarrow> (upd x (fst sb), snd sb) | None \<Rightarrow> fail sb)
      | JNull \<Rightarrow> sb | _ \<Rightarrow> fail sb)"

definition bool_field :: "(bool \<Rightarrow> 's \<Rightarrow> 's) \<Rightarrow> 's field" where
  "bool_field upd v sb =
     (case v of JBool b \<Rightarrow> (upd b (fst sb), snd sb) | JNull \<Rightarrow> sb | _ \<Rightarrow> fail sb)"

text \<open>A field of type \<open>any\<close>: every document, \<open>null\<close> as nil.\<close>

definition any_field :: "(json option \<Rightarrow> 's \<Rightarrow> 's) \<Rightarrow> 's field" where
  "any_field upd v sb =
     (case v of
        JNull \<Rightarrow> (upd None (fst sb), snd sb)
      | JNum l \<Rightarrow> (case parse_float l of Some _ \<Rightarrow> (upd (Some v) (fst sb), snd sb) | None \<Rightarrow> fail sb)
      | _ \<Rightarrow> (upd (Some v) (fst sb), snd sb))"

definition find_field :: "(string \<times> 's field) list \<Rightarrow> string \<Rightarrow> 's field option" where
  "find_field fs k =
     (case map_of fs k of Some f \<Rightarrow> Some f | None \<Rightarrow> map_of (map (apfst to_lower) fs) (to_lower k))"

definition decode_member :: "(string \<times> 's field) list \<Rightarrow> 's decoding \<Rightarrow> string \<times> json \<Rightarrow> 's decoding" where
  "decode_member fs sb kv =
     (case find_field fs (fst kv) of Some f \<Rightarrow> f (snd kv) sb | None \<Rightarrow> sb)"

definition decode_struct :: "(string \<times> 's field) list \<Rightarrow> 's field" where
  "decode_struct fs v sb =
     (case v of JObj kvs \<Rightarrow> foldl (decode_member fs) sb kvs | JNull \<Rightarrow> sb | _ \<Rightarrow> fail sb)"

text \<open>An action on a component of the state; a nested struct, a pointer to a struct, a slice of structs.\<close>

definition on_field :: "('s \<Rightarrow> 't) \<Rightarrow> ('t \<Rightarrow> 's \<Rightarrow> 's) \<Rightarrow> 't field \<Rightarrow> 's field" where
  "on_field get upd f v sb = (case f v (get (fst sb), snd sb) of (x, ok) \<Rightarrow> (upd x (fst sb), ok))"

definition struct_field :: "('s \<Rightarrow> 't) \<Rightarrow> ('t \<Rightarrow> 's \<Rightarrow> 's) \<Rightarrow> (string \<times> 't field) list \<Rightarrow> 's field" where
  "struct_field get upd fs v sb =
     (case decode_struct fs v (get (fst sb), snd sb) of (t, ok) \<Rightarrow> (upd t (fst sb), ok))"

definition ptr_field ::
  "('s \<Rightarrow> 't option) \<Rightarrow> ('t option \<Rightarrow> 's \<Rightarrow> 's) \<Rightarrow> 't \<Rightarrow> (string \<times> 't field) list \<Rightarrow> 's field" where
  "ptr_field get upd zero fs v sb =
     (case v of
        JNull \<Rightarrow> (upd None (fst sb), snd sb)
      | _ \<Rightarrow> (case decode_struct fs v (case get (fst sb) of Some t \<Rightarrow> t | None \<Rightarrow> zero, snd sb) of
               (t, ok) \<Rightarrow> (upd (Some t) (fst sb), ok)))"

definition decode_list :: "'t \<Rightarrow> (string \<times> 't field) list \<Rightarrow> json \<Rightarrow> 't list decoding \<Rightarrow> 't list decoding" where
  "decode_list zero fs v sb =
     (case v of
        JArr xs \<Rightarrow>
          foldl (\<lambda>(ts, ok) x. case decode_struct fs x (zero, ok) of (t, ok') \<Rightarrow> (ts @ [t], ok')) ([], snd sb) xs
      | JNull \<Rightarrow> ([], snd sb)
      | _ \<Rightarrow> fail sb)"

definition list_field ::
  "('s \<Rightarrow> 't list) \<Rightarrow> ('t list \<Rightarrow> 's \<Rightarrow> 's) \<Rightarrow> 't \<Rightarrow> (string \<times> 't field) list \<Rightarrow> 's field" where
  "list_field get upd zero fs v sb =
     (case decode_list zero fs v (get (fst sb), snd sb) of (ts, ok) \<Rightarrow> (upd ts (fst sb), ok))"

definition unmarshal :: "(string \<times> 's field) list \<Rightarrow> string \<Rightarrow> 's \<Rightarrow> 's decoding" where
  "unmarshal fs text s =
     (case json_parse text of None \<Rightarrow> (s, False) | Some v \<Rightarrow> decode_struct fs v (s, True))"

text \<open>The common use: the decoded value, or \<open>None\<close> when an error was recorded.\<close>

definition unmarshal_ok :: "(string \<times> 's field) list \<Rightarrow> string \<Rightarrow> 's \<Rightarrow> 's option" where
  "unmarshal_ok fs text s = (case unmarshal fs text s of (t, ok) \<Rightarrow> if ok then Some t else None)"

text \<open>Every number of a document fits a double.\<close>

fun numbers_ok :: "json \<Rightarrow> bool" where
  "numbers_ok (JNum l) \<longleftrightarrow> parse_float l \<noteq> None"
| "numbers_ok (JArr xs) \<longleftrightarrow> (\<forall>x \<in> set xs. numbers_ok x)"
| "numbers_ok (JObj kvs) \<longleftrightarrow> (\<forall>kv \<in> set kvs. numbers_ok (snd kv))"
| "numbers_ok _ \<longleftrightarrow> True"

text \<open>The members of an object as a Go map (the last duplicate wins), in the order of the encoder, which
  sorts the keys; a value of type \<open>any\<close> as the encoder prints it again, numbers as doubles.\<close>

definition go_members :: "(string \<times> 'v) list \<Rightarrow> (string \<times> 'v) list" where
  "go_members kvs = sort_key fst (foldl (\<lambda>m kv. AList.update (fst kv) (snd kv) m) [] kvs)"

fun any_norm :: "json \<Rightarrow> json" where
  "any_norm (JNum l) = JNum (case parse_float l of Some x \<Rightarrow> print_float x | None \<Rightarrow> l)"
| "any_norm (JArr xs) = JArr (map any_norm xs)"
| "any_norm (JObj kvs) = JObj (go_members (map (\<lambda>kv. (fst kv, any_norm (snd kv))) kvs))"
| "any_norm v = v"

text \<open>\<open>json.Unmarshal\<close> into a \<open>map[string]any\<close>: the members, or an error; \<open>null\<close> gives the nil map.\<close>

definition unmarshal_map :: "string \<Rightarrow> (string \<times> json) list option option" where
  "unmarshal_map text =
     (case json_parse text of
        Some (JObj kvs) \<Rightarrow>
          (if numbers_ok (JObj kvs) then Some (Some (jmembers (any_norm (JObj kvs)))) else None)
      | Some JNull \<Rightarrow> Some None
      | _ \<Rightarrow> None)"

definition map_value :: "(string \<times> json) list option \<Rightarrow> (string \<times> json) list" where
  "map_value om = (case om of Some m \<Rightarrow> m | None \<Rightarrow> [])"

section \<open>Facts\<close>

lemmas field_defs = string_field_def int_field_def float_field_def bool_field_def any_field_def fail_def
  struct_field_def ptr_field_def list_field_def

lemma decode_struct_simps [simp]:
  "decode_struct fs JNull sb = sb"
  "decode_struct fs (JObj kvs) sb = foldl (decode_member fs) sb kvs"
  by (simp_all add: decode_struct_def)

lemma string_field_str [simp]: "string_field upd (JStr s) sb = (upd s (fst sb), snd sb)"
  by (simp add: string_field_def)

lemma int_field_itoa [simp]: "fits64 n \<Longrightarrow> int_field upd (JNum (itoa n)) sb = (upd n (fst sb), snd sb)"
  by (simp add: int_field_def)

lemma float_field_print [simp]:
  "fl x = x \<Longrightarrow> \<bar>x\<bar> < pow2 1024 \<Longrightarrow> float_field upd (JNum (print_float x)) sb = (upd x (fst sb), snd sb)"
  by (simp add: float_field_def parse_print_float)

lemma unmarshal_print: "json_ok v \<Longrightarrow> unmarshal fs (json_print v) s = decode_struct fs v (s, True)"
  by (simp add: unmarshal_def json_parse_print)

lemma unmarshal_empty [simp]: "unmarshal fs [] s = (s, False)"
  by (simp add: unmarshal_def json_parse_def skip_ws_def)

lemma unmarshal_ok_empty [simp]: "unmarshal_ok fs [] s = None"
  by (simp add: unmarshal_ok_def)

lemma find_field_mem: "find_field fs k = Some f \<Longrightarrow> f \<in> snd ` set fs"
  by (force simp: find_field_def split: option.splits dest: map_of_SomeD)

text \<open>A property of the state that every field action keeps is kept by the decoder.\<close>

lemma decode_struct_invariant:
  assumes "P (fst sb)" and step: "\<And>f v sb. f \<in> snd ` set fs \<Longrightarrow> P (fst sb) \<Longrightarrow> P (fst (f v sb))"
  shows "P (fst (decode_struct fs v sb))"
proof -
  have "P (fst (foldl (decode_member fs) sb kvs))" for kvs
    using assms(1)
  proof (induction kvs arbitrary: sb)
    case (Cons kv kvs)
    have "P (fst (decode_member fs sb kv))"
    proof (cases "find_field fs (fst kv)")
      case (Some f)
      with step [OF find_field_mem [OF Some] Cons.prems] show ?thesis by (simp add: decode_member_def)
    qed (simp add: decode_member_def Cons.prems)
    then show ?case using Cons.IH by simp
  qed simp
  with assms(1) show ?thesis by (simp add: decode_struct_def fail_def split: json.splits)
qed

lemma unmarshal_invariant:
  assumes "P s" and "\<And>f v sb. f \<in> snd ` set fs \<Longrightarrow> P (fst sb) \<Longrightarrow> P (fst (f v sb))"
  shows "P (fst (unmarshal fs text s))"
  using assms decode_struct_invariant [of P "(s, True)" fs]
  by (auto simp: unmarshal_def split: option.splits)

text \<open>What a decoded number satisfies.\<close>

definition double :: "rat \<Rightarrow> bool" where
  "double x \<longleftrightarrow> fl x = x \<and> \<bar>x\<bar> < pow2 1024"

lemma double_0 [simp]: "double 0"
  by (simp add: double_def)

lemma double_parse: "parse_float l = Some x \<Longrightarrow> double x"
  by (auto simp: double_def dest: parse_float_fl)

lemma lit_int_fits: "lit_int l = Some n \<Longrightarrow> fits64 n"
  by (auto simp: lit_int_def parse_int_def Let_def split: if_splits)

lemma float_field_invariant:
  "P (fst sb) \<Longrightarrow> (\<And>x s. double x \<Longrightarrow> P s \<Longrightarrow> P (upd x s)) \<Longrightarrow> P (fst (float_field upd v sb))"
  by (auto simp: float_field_def fail_def split: json.splits option.splits dest: double_parse)

lemma int_field_invariant:
  "P (fst sb) \<Longrightarrow> (\<And>x s. fits64 x \<Longrightarrow> P s \<Longrightarrow> P (upd x s)) \<Longrightarrow> P (fst (int_field upd v sb))"
  by (auto simp: int_field_def fail_def split: json.splits option.splits dest: lit_int_fits)

lemma string_field_invariant:
  "P (fst sb) \<Longrightarrow> (\<And>x s. P s \<Longrightarrow> P (upd x s)) \<Longrightarrow> P (fst (string_field upd v sb))"
  by (auto simp: string_field_def fail_def split: json.splits)

lemmas field_invariants = float_field_invariant int_field_invariant string_field_invariant

text \<open>The same as a property of a field table, checked field by field.\<close>

definition keeps :: "('s \<Rightarrow> bool) \<Rightarrow> 's field \<Rightarrow> bool" where
  "keeps P f \<longleftrightarrow> (\<forall>v sb. P (fst sb) \<longrightarrow> P (fst (f v sb)))"

lemma keeps_float: "(\<And>x s. double x \<Longrightarrow> P s \<Longrightarrow> P (upd x s)) \<Longrightarrow> keeps P (float_field upd)"
  unfolding keeps_def by (blast intro: float_field_invariant)

lemma keeps_int: "(\<And>x s. fits64 x \<Longrightarrow> P s \<Longrightarrow> P (upd x s)) \<Longrightarrow> keeps P (int_field upd)"
  unfolding keeps_def by (blast intro: int_field_invariant)

lemma keeps_string: "(\<And>x s. P s \<Longrightarrow> P (upd x s)) \<Longrightarrow> keeps P (string_field upd)"
  unfolding keeps_def by (blast intro: string_field_invariant)

lemmas keeps_intros = keeps_float keeps_int keeps_string

lemma unmarshal_keeps:
  assumes "P s" and "list_all (\<lambda>kf. keeps P (snd kf)) fs"
  shows "P (fst (unmarshal fs text s))"
  by (rule unmarshal_invariant) (use assms in \<open>auto simp: list_all_iff keeps_def\<close>)

text \<open>Members that are left out when zero, and reading them back into a zero field.\<close>

definition omit_float :: "string \<Rightarrow> rat \<Rightarrow> (string \<times> json) list" where
  "omit_float k x = (if x = 0 then [] else [(k, JNum (print_float x))])"

definition omit_int :: "string \<Rightarrow> int \<Rightarrow> (string \<times> json) list" where
  "omit_int k n = (if n = 0 then [] else [(k, JNum (itoa n))])"

lemma json_ok_omit:
  "double x \<Longrightarrow> kv \<in> set (omit_float k x) \<Longrightarrow> json_ok (snd kv)"
  "kv \<in> set (omit_int k n) \<Longrightarrow> json_ok (snd kv)"
  by (auto simp: omit_float_def omit_int_def double_def scan_print_float split: if_splits)

lemma decode_omit_float:
  assumes "find_field fs k = Some (float_field upd)" and "double x" and "x = 0 \<Longrightarrow> upd 0 (fst sb) = fst sb"
  shows "foldl (decode_member fs) sb (omit_float k x) = (upd x (fst sb), snd sb)"
  using assms by (cases "x = 0") (simp_all add: omit_float_def decode_member_def double_def)

lemma decode_omit_int:
  assumes "find_field fs k = Some (int_field upd)" and "fits64 n" and "n = 0 \<Longrightarrow> upd 0 (fst sb) = fst sb"
  shows "foldl (decode_member fs) sb (omit_int k n) = (upd n (fst sb), snd sb)"
  using assms by (cases "n = 0") (simp_all add: omit_int_def decode_member_def)

end
