(* ===== verification/GoHttp.thy ===== *)
theory GoHttp
  imports GoTime GoStruct
begin

text \<open>
  HTTP headers (\<open>net/http\<close>) and the helpers of src/internal/driver/http_helpers.go.  A header is an
  association list from canonical keys to values, with distinct keys; the order of the list is the
  order in which a \<open>range\<close> loop visits it.  The nil header is \<open>None\<close> where the code tests for it.
\<close>

type_synonym header = "(string \<times> string list) list"

definition char_upper :: "char \<Rightarrow> char" where
  "char_upper c = (let n = (of_char c :: nat) in if 97 \<le> n \<and> n \<le> 122 then char_of (n - 32) else c)"

text \<open>\<open>CanonicalMIMEHeaderKey\<close>: a key with a byte that is no token byte is left alone.\<close>

definition token_char :: "char \<Rightarrow> bool" where
  "token_char c \<longleftrightarrow>
     (let n = (of_char c :: nat) in
      is_digit c \<or> (65 \<le> n \<and> n \<le> 90) \<or> (97 \<le> n \<and> n \<le> 122) \<or> c \<in> set ''!#$%&*+-.^_|~'' \<or> n = 39 \<or> n = 96)"

fun canon_chars :: "bool \<Rightarrow> string \<Rightarrow> string" where
  "canon_chars up [] = []"
| "canon_chars up (c # cs) =
     (if up then char_upper c else char_lower c) # canon_chars (c = CHR ''-'') cs"

definition canonical_key :: "string \<Rightarrow> string" where
  "canonical_key k = (if list_all token_char k then canon_chars True k else k)"

definition h_get :: "header \<Rightarrow> string \<Rightarrow> string" where
  "h_get h k = (case map_of h (canonical_key k) of Some (v # _) \<Rightarrow> v | _ \<Rightarrow> [])"

definition oh_get :: "header option \<Rightarrow> string \<Rightarrow> string" where
  "oh_get oh k = (case oh of None \<Rightarrow> [] | Some h \<Rightarrow> h_get h k)"

definition h_set :: "string \<Rightarrow> string \<Rightarrow> header \<Rightarrow> header" where
  "h_set k v h = AList.update (canonical_key k) [v] h"

definition h_add :: "string \<Rightarrow> string \<Rightarrow> header \<Rightarrow> header" where
  "h_add k v h =
     (let c = canonical_key k in
      AList.update c ((case map_of h c of Some vs \<Rightarrow> vs | None \<Rightarrow> []) @ [v]) h)"

definition h_del :: "string \<Rightarrow> header \<Rightarrow> header" where
  "h_del k h = AList.delete (canonical_key k) h"

lemma h_get_set [simp]: "h_get (h_set k v h) j = (if canonical_key j = canonical_key k then v else h_get h j)"
  by (simp add: h_get_def h_set_def update_conv')

lemma h_get_del [simp]: "h_get (h_del k h) j = (if canonical_key j = canonical_key k then [] else h_get h j)"
  by (simp add: h_get_def h_del_def delete_conv')

section \<open>Helpers of the drivers\<close>

definition parseRetryAfter :: "gotime \<Rightarrow> string \<Rightarrow> duration" where
  "parseRetryAfter now value =
     (if value = [] then 0
      else (case parse_int (trim_space value) of
              Some secs \<Rightarrow>
                (if 0 < secs then wrap64 (secs * second)
                 else (case parse_rfc1123 (trim_space value) of
                         Some ts \<Rightarrow> (if 0 < until now ts then until now ts else 0) | None \<Rightarrow> 0))
            | None \<Rightarrow>
                (case parse_rfc1123 (trim_space value) of
                   Some ts \<Rightarrow> (if 0 < until now ts then until now ts else 0) | None \<Rightarrow> 0)))"

definition ensureBetaParam :: "string \<Rightarrow> string" where
  "ensureBetaParam rawQuery =
     (if contains rawQuery ''beta=true'' then rawQuery
      else if rawQuery = [] then ''beta=true''
      else rawQuery @ ''&beta=true'')"

text \<open>A regular expression \<open>(?i)(a|b|...)\<close> of plain words: one of them occurs, in any case.\<close>

definition matches_any_case :: "string list \<Rightarrow> string \<Rightarrow> bool" where
  "matches_any_case alts s \<longleftrightarrow> list_ex (\<lambda>a. contains (to_lower s) (to_lower a)) alts"

text \<open>\<open>strings.LastIndex\<close>.\<close>

fun last_index :: "string \<Rightarrow> string \<Rightarrow> nat option" where
  "last_index [] sub = (if sub = [] then Some 0 else None)"
| "last_index (c # cs) sub =
     (case last_index cs sub of Some n \<Rightarrow> Some (Suc n)
      | None \<Rightarrow> if has_prefix (c # cs) sub then Some 0 else None)"

text \<open>\<open>%q\<close>: a quoted string; bytes of multi-byte characters are printed as they are.\<close>

definition quote_char :: "char \<Rightarrow> string" where
  "quote_char c =
     (let n = (of_char c :: nat) in
      if c = quote_ch \<or> c = bslash_ch then [bslash_ch, c]
      else if n = 7 then bslash_ch # ''a'' else if n = 8 then bslash_ch # ''b''
      else if n = 9 then bslash_ch # ''t'' else if n = 10 then bslash_ch # ''n''
      else if n = 11 then bslash_ch # ''v'' else if n = 12 then bslash_ch # ''f''
      else if n = 13 then bslash_ch # ''r''
      else if n < 32 \<or> n = 127 then bslash_ch # ''x'' @ [hex_digit (n div 16), hex_digit (n mod 16)]
      else [c])"

definition go_quote :: "string \<Rightarrow> string" where
  "go_quote s = quote_ch # concat (map quote_char s) @ [quote_ch]"

section \<open>Query strings (\<open>net/url\<close>)\<close>

fun query_unescape :: "string \<Rightarrow> string option" where
  "query_unescape [] = Some []"
| "query_unescape (c # cs) =
     (if c = CHR ''%'' then
        (case cs of
           a # b # r \<Rightarrow>
             (case (hex_val a, hex_val b) of
                (Some p, Some q) \<Rightarrow> map_option (\<lambda>t. char_of (16 * p + q) # t) (query_unescape r)
              | _ \<Rightarrow> None)
         | _ \<Rightarrow> None)
      else map_option (\<lambda>t. (if c = CHR ''+'' then CHR '' '' else c) # t) (query_unescape cs))"

definition upper_hex :: "nat \<Rightarrow> char" where
  "upper_hex d = (if d < 10 then char_of (48 + d) else char_of (55 + d))"

definition query_escape :: "string \<Rightarrow> string" where
  "query_escape s =
     concat (map (\<lambda>c. let n = (of_char c :: nat) in
       if is_digit c \<or> (65 \<le> n \<and> n \<le> 90) \<or> (97 \<le> n \<and> n \<le> 122) \<or> c \<in> set ''-_.~'' then [c]
       else if c = CHR '' '' then ''+''
       else [CHR ''%'', upper_hex (n div 16), upper_hex (n mod 16)]) s)"

definition cut_at :: "char \<Rightarrow> string \<Rightarrow> string \<times> string" where
  "cut_at c s = (takeWhile (\<lambda>x. x \<noteq> c) s, tl (dropWhile (\<lambda>x. x \<noteq> c) s))"

type_synonym query = "(string \<times> string list) list"

definition q_add :: "string \<Rightarrow> string \<Rightarrow> query \<Rightarrow> query" where
  "q_add k v q = AList.update k ((case map_of q k of Some vs \<Rightarrow> vs | None \<Rightarrow> []) @ [v]) q"

text \<open>\<open>url.ParseQuery\<close>: a malformed pair is skipped and makes the call return an error (the flag).\<close>

definition parse_pair :: "query \<times> bool \<Rightarrow> string \<Rightarrow> query \<times> bool" where
  "parse_pair qb part =
     (if CHR '';'' \<in> set part then (fst qb, False)
      else if part = [] then qb
      else (case cut_at CHR ''='' part of (k, v) \<Rightarrow>
              (case (query_unescape k, query_unescape v) of
                 (Some k', Some v') \<Rightarrow> (q_add k' v' (fst qb), snd qb)
               | _ \<Rightarrow> (fst qb, False))))"

definition parse_query :: "string \<Rightarrow> query \<times> bool" where
  "parse_query s = foldl parse_pair ([], True) (split_char CHR ''&'' s)"

definition query_encode :: "query \<Rightarrow> string" where
  "query_encode q =
     join ''&'' (concat (map (\<lambda>(k, vs). map (\<lambda>v. query_escape k @ ''='' @ query_escape v) vs) (sort_key fst q)))"

text \<open>\<open>appendRawQuery\<close> on a URL that parses: the query of the URL and the additional pairs, encoded anew.
  The part before the query is kept as it is.\<close>

definition appendRawQuery :: "string \<Rightarrow> string \<Rightarrow> err + string" where
  "appendRawQuery rawURL rawQuery =
     (if rawQuery = [] then Inr rawURL
      else (case cut_at CHR ''?'' rawURL of (base, q0) \<Rightarrow>
              (case parse_query rawQuery of
                 (additional, ok) \<Rightarrow>
                   (if \<not> ok then Inl ''invalid query''
                    else (let q = foldl (\<lambda>q (k, v). q_add k v q) (fst (parse_query q0))
                                    (concat (map (\<lambda>(k, vs). map (Pair k) vs) additional))
                          in Inr (base @ ''?'' @ query_encode q))))))"

end
