(* ===== verification/DriverApi.thy ===== *)
theory DriverApi
  imports Domain GoHttp
begin

text \<open>
  The provider-agnostic vocabulary of src/internal/driver: effects of an upstream request, error
  pauses, capacity assessments, route affinity, and the interface \<open>SchedulerDriver\<close> as a record of
  functions.  The locale \<open>scheduler\<close> is the contract that the pool's theorems need from a driver: the
  bucket key is computed from the identity and the quota state and carries the provider's name, and
  an exhausted cooldown lies in a later second and stays the same until it has passed.  The driver
  theories interpret it on the functions of the three providers.
\<close>

record error_pauses =
  Pause401 :: duration
  Pause401Refresh :: duration
  Pause403 :: duration
  Pause429 :: duration
  Pause529 :: duration

datatype effect_kind =
    EffectSuccess | EffectCooldown | EffectReject | EffectOverload | EffectBlock | EffectAuthFail
  | EffectServerError

datatype effect_scope = EffectScopeAccount | EffectScopeBucket

record effect =
  ef_kind :: effect_kind
  ef_scope :: effect_scope
  ef_cooldown_until :: gotime
  ef_error_message :: string
  ef_upstream_status :: int
  ef_upstream_error_type :: string
  ef_upstream_error_message :: string
  ef_updated_state :: string

definition new_effect :: "effect_kind \<Rightarrow> effect_scope \<Rightarrow> effect" where
  "new_effect k sc =
     \<lparr> ef_kind = k, ef_scope = sc, ef_cooldown_until = zero_time, ef_error_message = [],
       ef_upstream_status = 0, ef_upstream_error_type = [], ef_upstream_error_message = [],
       ef_updated_state = [] \<rparr>"

lemma new_effect_simps [simp]:
  "ef_kind (new_effect k sc) = k" "ef_scope (new_effect k sc) = sc"
  "ef_cooldown_until (new_effect k sc) = zero_time" "ef_updated_state (new_effect k sc) = []"
  "ef_upstream_status (new_effect k sc) = 0"
  by (simp_all add: new_effect_def)

datatype affinity_continuity = AffinityNone | AffinityPrefer | AffinityRequire

record route_affinity =
  ra_raw_key :: string
  ra_kind :: string
  ra_continuity :: affinity_continuity

record capacity_assessment =
  cap_eligible :: bool
  cap_priority :: int
  cap_class :: string

record token_usage =
  InputTokens :: int
  OutputTokens :: int
  CacheReadTokens :: int
  CacheCreateTokens :: int

record util_window =
  uw_label :: string
  uw_pct :: int
  uw_reset :: int
  uw_sub_label :: string
  uw_sub_pct :: int
  uw_sub_reset :: int

record scheduler_driver =
  sd_provider :: provider
  sd_bucket_key :: "account \<Rightarrow> string"
  sd_assess :: "string \<Rightarrow> string \<Rightarrow> gotime \<Rightarrow> capacity_assessment"
  sd_is_stale :: "string \<Rightarrow> gotime \<Rightarrow> bool"
  sd_exhausted_cooldown :: "string \<Rightarrow> gotime \<Rightarrow> gotime"

locale scheduler =
  fixes sd :: scheduler_driver
  assumes key_same: "ac_id a = ac_id a' \<Longrightarrow> ac_subject a = ac_subject a' \<Longrightarrow>
      ac_provider_state_json a = ac_provider_state_json a' \<Longrightarrow> sd_bucket_key sd a = sd_bucket_key sd a'"
    and key_prefix: "has_prefix (sd_bucket_key sd a) (sd_provider sd @ '':'')"
    and later: "is_zero (sd_exhausted_cooldown sd st t) \<or> unix_sec t < unix_sec (sd_exhausted_cooldown sd st t)"
    and stable: "\<not> is_zero (sd_exhausted_cooldown sd st t) \<Longrightarrow> t \<le> u \<Longrightarrow> u < sd_exhausted_cooldown sd st t \<Longrightarrow>
      sd_exhausted_cooldown sd st u = sd_exhausted_cooldown sd st t"
begin

lemma key_not_empty: "sd_bucket_key sd a \<noteq> []"
  using key_prefix [of a] by (auto simp: has_prefix_def)

lemma exhausted_after_now:
  assumes "\<not> is_zero (sd_exhausted_cooldown sd st t)"
  shows "t < sd_exhausted_cooldown sd st t"
proof (rule ccontr)
  assume "\<not> ?thesis"
  then have "unix_sec (sd_exhausted_cooldown sd st t) \<le> unix_sec t"
    by (simp add: unix_sec_def second_def zdiv_mono1)
  with later [of st t] assms show False by simp
qed

text \<open>Asked again at any time before it ends, a driver never moves an exhausted cooldown.\<close>

lemma exhausted_again:
  assumes "\<not> is_zero (sd_exhausted_cooldown sd st t)" and "t \<le> u" and "u < sd_exhausted_cooldown sd st t"
  shows "\<not> is_zero (sd_exhausted_cooldown sd st u)" "u < sd_exhausted_cooldown sd st u"
  using stable [OF assms] assms by simp_all

end

text \<open>Keys of different providers never collide, whatever the accounts.\<close>

lemma prefixes_disjoint:
  assumes "has_prefix k (p @ '':'')" "has_prefix k (q @ '':'')" "CHR '':'' \<notin> set p" "CHR '':'' \<notin> set q"
  shows "p = q"
proof -
  from assms(1,2) obtain r r' where "k = p @ '':'' @ r" "k = q @ '':'' @ r'"
    by (metis append.assoc append_take_drop_id has_prefix_def)
  then have "takeWhile (\<lambda>c. c \<noteq> CHR '':'') (p @ '':'' @ r) = takeWhile (\<lambda>c. c \<noteq> CHR '':'') (q @ '':'' @ r')" by simp
  moreover have "takeWhile (\<lambda>c. c \<noteq> CHR '':'') (w @ '':'' @ z) = w" if "CHR '':'' \<notin> set w" for w z
    using that by (induction w) auto
  ultimately show ?thesis using assms(3,4) by metis
qed

section \<open>Requests\<close>

text \<open>The parsed client request; the body is the decoded object (\<open>[]\<close> for the nil map).\<close>

record relay_input =
  ri_body :: "(string \<times> json) list"
  ri_raw_body :: string
  ri_headers :: header
  ri_path :: string
  ri_raw_query :: string
  ri_model :: string
  ri_user_id :: string
  ri_is_stream :: bool
  ri_is_count_tokens :: bool

record relay_plan =
  rp_is_stream :: bool
  rp_is_count_tokens :: bool
  rp_affinity :: route_affinity

definition no_affinity :: route_affinity where
  "no_affinity = \<lparr> ra_raw_key = [], ra_kind = [], ra_continuity = AffinityNone \<rparr>"

record upstream_request =
  ur_url :: string
  ur_body :: string
  ur_headers :: header

record model_info =
  mi_id :: string
  mi_object :: string
  mi_created :: int
  mi_owned_by :: string
  mi_context_window :: int

text \<open>A price per million tokens, and the estimated cost in double precision.\<close>

record model_pricing =
  mp_input :: rat
  mp_output :: rat
  mp_cache_read :: rat
  mp_cache_create :: rat

definition fl_int :: "int \<Rightarrow> rat" where
  "fl_int n = fl (of_int n)"

definition weighted_cost :: "model_pricing \<Rightarrow> int \<Rightarrow> int \<Rightarrow> int \<Rightarrow> int \<Rightarrow> rat" where
  "weighted_cost p i out r c =
     fl (fl (fl (fl (fl (fl_int i * mp_input p) + fl (fl_int out * mp_output p)) + fl (fl_int r * mp_cache_read p))
       + fl (fl_int c * mp_cache_create p)) / 1000000)"

lemma weighted_cost_nonneg:
  assumes "0 \<le> i" "0 \<le> out" "0 \<le> r" "0 \<le> c"
    and "0 \<le> mp_input p" "0 \<le> mp_output p" "0 \<le> mp_cache_read p" "0 \<le> mp_cache_create p"
  shows "0 \<le> weighted_cost p i out r c"
  using assms unfolding weighted_cost_def fl_int_def
  by (intro fl_pos divide_nonneg_pos add_nonneg_nonneg mult_nonneg_nonneg) simp_all

lemma weighted_cost_mono:
  assumes "i \<le> i'" "out \<le> out'" "r \<le> r'" "c \<le> c'"
    and "0 \<le> mp_input p" "0 \<le> mp_output p" "0 \<le> mp_cache_read p" "0 \<le> mp_cache_create p"
  shows "weighted_cost p i out r c \<le> weighted_cost p i' out' r' c'"
  using assms unfolding weighted_cost_def fl_int_def
  by (intro fl_mono divide_right_mono add_mono mult_right_mono) simp_all

end
