(* ===== verification/Events.thy ===== *)
theory Events
  imports Prelude
begin

text \<open>
  The event bus (src/internal/events/bus.go): a ring buffer of the last \<open>ringSize\<close> events and a set of
  subscribers, each with a channel of capacity 64 that drops what does not fit.  The abstract
  specification of the ring is a plain list of which the last \<open>ringSize\<close> entries are kept; the locale
  \<open>event_log\<close> states that contract and the ring is an interpretation of it.  The laws of rings are stated for
  any element type, for the ring of log lines uses them too.
\<close>

datatype event_type =
    EventBan | EventReject | EventRefresh | EventRateLimit | EventRecover | EventFiveHStop
  | EventOverload | EventRequest | EventRelayError

record event =
  ev_type :: event_type
  ev_account_id :: string
  ev_user_id :: string
  ev_bucket_key :: string
  ev_cell_id :: string
  ev_cooldown_until :: "gotime option"
  ev_upstream_status :: int
  ev_upstream_error_type :: string
  ev_upstream_error_message :: string
  ev_message :: string
  ev_timestamp :: gotime

text \<open>The zero value of the struct, with its type: what a Go composite literal leaves out.\<close>

definition new_event :: "event_type \<Rightarrow> event" where
  "new_event ty =
     \<lparr> ev_type = ty, ev_account_id = [], ev_user_id = [], ev_bucket_key = [], ev_cell_id = [],
       ev_cooldown_until = None, ev_upstream_status = 0, ev_upstream_error_type = [],
       ev_upstream_error_message = [], ev_message = [], ev_timestamp = zero_time \<rparr>"

text \<open>The channel of a subscriber is the list of events that it has not received yet.\<close>

record bus =
  ring :: "event list"
  ringSize :: nat
  ringPos :: nat
  ringCount :: nat
  subscribers :: "(nat \<times> event list) list"
  nextID :: nat

definition chan_cap :: nat where "chan_cap = 64"

definition NewBus :: "int \<Rightarrow> bus" where
  "NewBus sz =
     (let n = nat (if sz \<le> 0 then 200 else sz) in
      \<lparr> ring = replicate n (new_event EventBan), ringSize = n, ringPos = 0, ringCount = 0,
        subscribers = [], nextID = 0 \<rparr>)"

definition stamp :: "gotime \<Rightarrow> event \<Rightarrow> event" where
  "stamp now e = (if is_zero (ev_timestamp e) then e\<lparr>ev_timestamp := now\<rparr> else e)"

definition offer :: "event \<Rightarrow> nat \<times> event list \<Rightarrow> nat \<times> event list" where
  "offer e sub = (if length (snd sub) < chan_cap then (fst sub, snd sub @ [e]) else sub)"

definition Publish :: "gotime \<Rightarrow> event \<Rightarrow> bus \<Rightarrow> bus" where
  "Publish now e0 b =
     (let e = stamp now e0 in
      b\<lparr> ring := (ring b)[ringPos b := e],
         ringPos := (ringPos b + 1) mod ringSize b,
         ringCount := (if ringCount b < ringSize b then ringCount b + 1 else ringCount b),
         subscribers := map (offer e) (subscribers b) \<rparr>)"

definition recentLocked :: "bus \<Rightarrow> event list" where
  "recentLocked b =
     (if ringCount b = 0 then []
      else (let start = (ringPos b + ringSize b - ringCount b) mod ringSize b in
            map (\<lambda>i. ring b ! ((start + i) mod ringSize b)) [0..<ringCount b]))"

definition Subscribe :: "bus \<Rightarrow> nat \<times> event list \<times> bus" where
  "Subscribe b =
     (let i = nextID b in
      (i, recentLocked b,
       b\<lparr> nextID := i + 1, subscribers := AList.update i [] (subscribers b) \<rparr>))"

definition Unsubscribe :: "nat \<Rightarrow> bus \<Rightarrow> bus" where
  "Unsubscribe i b = b\<lparr> subscribers := AList.delete i (subscribers b) \<rparr>"

definition Recent :: "int \<Rightarrow> bus \<Rightarrow> event list" where
  "Recent limit b =
     (let evs = recentLocked b in
      if 0 < limit \<and> limit < int (length evs) then drop (length evs - nat limit) evs else evs)"

definition Clear :: "bus \<Rightarrow> bus" where
  "Clear b = b\<lparr> ringPos := 0, ringCount := 0 \<rparr>"

text \<open>What a subscriber does with its channel: take the oldest event.\<close>

definition receive :: "nat \<Rightarrow> bus \<Rightarrow> (event \<times> bus) option" where
  "receive i b =
     (case map_of (subscribers b) i of
        Some (e # q) \<Rightarrow> Some (e, b\<lparr> subscribers := AList.update i q (subscribers b) \<rparr>)
      | _ \<Rightarrow> None)"

section \<open>Rings\<close>

text \<open>The last \<open>c\<close> entries of a ring of \<open>n\<close> slots, of which \<open>p\<close> is the next one to be written.\<close>

definition ring_view :: "'a list \<Rightarrow> nat \<Rightarrow> nat \<Rightarrow> nat \<Rightarrow> 'a list" where
  "ring_view r n p c = map (\<lambda>i. r ! (((p + n - c) mod n + i) mod n)) [0..<c]"

lemma length_ring_view [simp]: "length (ring_view r n p c) = c"
  by (simp add: ring_view_def)

lemma ring_view_0 [simp]: "ring_view r n p 0 = []"
  by (simp add: ring_view_def)

lemma ring_view_nth: "i < c \<Longrightarrow> ring_view r n p c ! i = r ! ((p + n - c + i) mod n)"
  by (simp add: ring_view_def mod_add_left_eq)


definition lastn :: "nat \<Rightarrow> 'a list \<Rightarrow> 'a list" where
  "lastn n xs = drop (length xs - n) xs"

lemma lastn_lastn_snoc: "lastn n (lastn n xs @ [x]) = lastn n (xs @ [x])"
proof (cases "length xs \<le> n")
  case False
  define d where "d = length xs - n"
  have "n = length xs - d" "0 < d" "d \<le> length xs" using False by (auto simp: d_def)
  then show ?thesis
    unfolding lastn_def d_def [symmetric] by (simp add: Suc_diff_le)
qed (simp add: lastn_def)

lemma length_lastn: "length (lastn n xs) = min n (length xs)"
  by (simp add: lastn_def)

lemma mod_index_eq:
  fixes p n c i :: nat
  assumes "p < n" "c \<le> n" "i < c" "0 < n - c + i"
  shows "(p + n - c + i) mod n \<noteq> p"
proof (cases "p + n - c + i < n")
  case True
  with assms have "(p + n - c + i) mod n = p + n - c + i" by simp
  with assms show ?thesis by linarith
next
  case False
  then have "(p + n - c + i) mod n = p + n - c + i - n"
    using assms by (simp add: mod_if)
  with assms False show ?thesis by linarith
qed

lemma push_index:
  fixes p n c i :: nat
  assumes "p < n" "c \<le> n"
  shows "((p + 1) mod n + n - c + i) mod n = (p + 1 + (n - c) + i) mod n"
proof -
  have e: "(p + 1) mod n + n - c + i = (p + 1) mod n + ((n - c) + i)"
    using assms(2) by linarith
  show ?thesis unfolding e by (simp only: mod_add_left_eq add.assoc)
qed

lemma ring_view_push:
  assumes "length r = n" "p < n" "c \<le> n"
  shows "ring_view (r[p := e]) n ((p + 1) mod n) (if c < n then c + 1 else c) = lastn n (ring_view r n p c @ [e])"
proof -
  define c' where "c' = (if c < n then c + 1 else c)"
  have c'n: "c' \<le> n" "0 < c'" using assms by (auto simp: c'_def)
  have "ring_view (r[p := e]) n ((p + 1) mod n) c' = lastn n (ring_view r n p c @ [e])"
  proof (rule nth_equalityI)
    show "length (ring_view (r[p := e]) n ((p + 1) mod n) c') = length (lastn n (ring_view r n p c @ [e]))"
      using assms by (auto simp: length_lastn c'_def)
  next
    fix i assume "i < length (ring_view (r[p := e]) n ((p + 1) mod n) c')"
    then have i: "i < c'" by simp
    have L: "ring_view (r[p := e]) n ((p + 1) mod n) c' ! i = r[p := e] ! ((p + 1 + (n - c') + i) mod n)"
      using ring_view_nth [OF i, of "r[p := e]" n "(p + 1) mod n"] push_index [OF assms(2) c'n(1)] by simp
    have R: "lastn n (ring_view r n p c @ [e]) ! i
        = (if i = c' - 1 then e else r ! ((p + n - c + (i + (c + 1 - c'))) mod n))"
      using i assms(3) ring_view_nth [of "i + (c + 1 - c')" c r n p]
      by (auto simp: lastn_def nth_append c'_def split: if_splits)
    show "ring_view (r[p := e]) n ((p + 1) mod n) c' ! i = lastn n (ring_view r n p c @ [e]) ! i"
    proof (cases "i = c' - 1")
      case True
      then have "p + 1 + (n - c') + i = p + n" using c'n by simp
      with True L R assms show ?thesis by simp
    next
      case False
      let ?k = "p + n - c + (i + (c + 1 - c'))"
      have eq: "p + 1 + (n - c') + i = ?k" using assms i by (auto simp: c'_def)
      have "i + (c + 1 - c') < c" "0 < n - c + (i + (c + 1 - c'))"
        using i False assms by (auto simp: c'_def split: if_splits)
      then have "?k mod n \<noteq> p" using mod_index_eq [of p n c "i + (c + 1 - c')"] assms by simp
      then have "r[p := e] ! (?k mod n) = r ! (?k mod n)" by simp
      with L R False show ?thesis unfolding eq by (simp only: if_False)
    qed
  qed
  then show ?thesis unfolding c'_def .
qed

section \<open>The contract of an event log\<close>

locale event_log =
  fixes ok :: "'s \<Rightarrow> bool" and add :: "'i \<Rightarrow> 's \<Rightarrow> 's" and view :: "'i \<Rightarrow> 'e"
    and recent :: "'s \<Rightarrow> 'e list" and cap :: "'s \<Rightarrow> nat"
  assumes ok_add: "ok s \<Longrightarrow> ok (add e s)"
    and cap_add: "cap (add e s) = cap s"
    and recent_add: "ok s \<Longrightarrow> recent (add e s) = lastn (cap s) (recent s @ [view e])"
    and recent_cap: "ok s \<Longrightarrow> length (recent s) \<le> cap s"
begin

lemma ok_fold: "ok s \<Longrightarrow> ok (fold add es s)"
  by (induction es arbitrary: s) (auto intro: ok_add)

lemma cap_fold: "cap (fold add es s) = cap s"
  by (induction es arbitrary: s) (auto simp: cap_add)

lemma recent_fold: "ok s \<Longrightarrow> recent (fold add es s) = lastn (cap s) (recent s @ map view es)"
proof (induction es rule: rev_induct)
  case Nil
  then show ?case using recent_cap [OF Nil] by (simp add: lastn_def)
next
  case (snoc e es)
  have "recent (fold add (es @ [e]) s) = lastn (cap s) (recent (fold add es s) @ [view e])"
    using recent_add [OF ok_fold [OF snoc.prems, of es]] by (simp add: cap_fold)
  also have "\<dots> = lastn (cap s) (recent s @ map view es @ [view e])"
    using snoc lastn_lastn_snoc [of "cap s" "recent s @ map view es" "view e"] by simp
  finally show ?case by simp
qed

lemma recent_fold_within:
  "ok s \<Longrightarrow> recent s = [] \<Longrightarrow> length es \<le> cap s \<Longrightarrow> recent (fold add es s) = map view es"
  by (simp add: recent_fold lastn_def)

end

section \<open>The ring implements the contract\<close>

definition bus_ok :: "bus \<Rightarrow> bool" where
  "bus_ok b \<longleftrightarrow> 0 < ringSize b \<and> length (ring b) = ringSize b \<and> ringPos b < ringSize b
     \<and> ringCount b \<le> ringSize b"

lemma bus_ok_NewBus: "bus_ok (NewBus n)"
  by (simp add: bus_ok_def NewBus_def Let_def)

lemma bus_ok_Publish: "bus_ok b \<Longrightarrow> bus_ok (Publish now e b)"
  by (simp add: bus_ok_def Publish_def Let_def)

lemma bus_ok_Clear: "bus_ok b \<Longrightarrow> bus_ok (Clear b)"
  by (simp add: bus_ok_def Clear_def)

lemma bus_ok_Subscribe: "bus_ok b \<Longrightarrow> bus_ok (snd (snd (Subscribe b)))"
  by (simp add: bus_ok_def Subscribe_def Let_def)

lemma bus_ok_Unsubscribe: "bus_ok b \<Longrightarrow> bus_ok (Unsubscribe i b)"
  by (simp add: bus_ok_def Unsubscribe_def)

lemma recentLocked_ring: "recentLocked b = ring_view (ring b) (ringSize b) (ringPos b) (ringCount b)"
  by (simp add: recentLocked_def ring_view_def Let_def)

lemma length_recentLocked [simp]: "length (recentLocked b) = ringCount b"
  by (simp add: recentLocked_ring)

lemma recentLocked_Publish:
  assumes "bus_ok b"
  shows "recentLocked (Publish now e b) = lastn (ringSize b) (recentLocked b @ [stamp now e])"
  using assms ring_view_push [of "ring b" "ringSize b" "ringPos b" "ringCount b" "stamp now e"]
  by (simp add: recentLocked_ring bus_ok_def Publish_def Let_def)

lemma ringSize_Publish [simp]: "ringSize (Publish now e b) = ringSize b"
  by (simp add: Publish_def Let_def)

definition publish_at :: "gotime \<times> event \<Rightarrow> bus \<Rightarrow> bus" where
  "publish_at te b = Publish (fst te) (snd te) b"

definition stamped :: "gotime \<times> event \<Rightarrow> event" where
  "stamped te = stamp (fst te) (snd te)"

interpretation ev: event_log bus_ok publish_at stamped recentLocked ringSize
proof unfold_locales
  show "\<And>s e. bus_ok s \<Longrightarrow> bus_ok (publish_at e s)"
    by (simp add: publish_at_def bus_ok_Publish)
  show "\<And>e s. ringSize (publish_at e s) = ringSize s"
    by (simp add: publish_at_def)
  show "\<And>s e. bus_ok s \<Longrightarrow> recentLocked (publish_at e s) = lastn (ringSize s) (recentLocked s @ [stamped e])"
    by (simp add: publish_at_def stamped_def recentLocked_Publish)
  show "\<And>s. bus_ok s \<Longrightarrow> length (recentLocked s) \<le> ringSize s"
    by (simp add: bus_ok_def)
qed

section \<open>Subscribers\<close>

definition subs_ok :: "bus \<Rightarrow> bool" where
  "subs_ok b \<longleftrightarrow> distinct (map fst (subscribers b))
     \<and> (\<forall>sub \<in> set (subscribers b). fst sub < nextID b \<and> length (snd sub) \<le> chan_cap)"

lemma fst_offer [simp]: "fst (offer e sub) = fst sub"
  by (simp add: offer_def)

lemma offer_cap: "length (snd sub) \<le> chan_cap \<Longrightarrow> length (snd (offer e sub)) \<le> chan_cap"
  by (simp add: offer_def)

lemma subs_ok_Publish: "subs_ok b \<Longrightarrow> subs_ok (Publish now e b)"
  by (auto simp: subs_ok_def Publish_def Let_def comp_def offer_cap)

lemma update_nonempty_fresh: "k \<notin> fst ` set al \<Longrightarrow> AList.update k v al = al @ [(k, v)]"
  by (induction al) auto

lemma subs_ok_Subscribe: "subs_ok b \<Longrightarrow> subs_ok (snd (snd (Subscribe b)))"
proof -
  assume ok: "subs_ok b"
  then have "nextID b \<notin> fst ` set (subscribers b)" by (auto simp: subs_ok_def)
  then have "AList.update (nextID b) [] (subscribers b) = subscribers b @ [(nextID b, [])]"
    by (rule update_nonempty_fresh)
  with ok show ?thesis by (auto simp: subs_ok_def Subscribe_def Let_def)
qed

lemma map_of_offer:
  "map_of (map (offer e) subs) i
   = map_option (\<lambda>q. if length q < chan_cap then q @ [e] else q) (map_of subs i)"
  by (induction subs) (auto simp: offer_def)

lemma Publish_delivers:
  "map_of (subscribers b) i = Some q \<Longrightarrow> length q < chan_cap \<Longrightarrow>
   map_of (subscribers (Publish now e b)) i = Some (q @ [stamp now e])"
  by (simp add: Publish_def Let_def map_of_offer)

lemma Publish_drops:
  "map_of (subscribers b) i = Some q \<Longrightarrow> chan_cap \<le> length q \<Longrightarrow>
   map_of (subscribers (Publish now e b)) i = Some q"
  by (simp add: Publish_def Let_def map_of_offer)

end
