(* ===== verification/Pool.thy ===== *)
theory Pool
  imports Store DriverApi Events
begin

text \<open>
  The account pool (src/internal/pool): its state, the reload from the store that starts every
  operation, and the bucket helpers.  The pool keeps pointers to accounts, cells and buckets; in the
  model an object is the value under its key, so a write through a pointer is an update of the map
  entry.  Every exported operation holds the pool's mutex for its whole body, so each is one atomic
  function on the state; the clock reading of the operation and the visit order of its map loops are
  arguments.
\<close>

record cooldown_result =
  cr_applied :: bool
  cr_actual :: gotime

type_synonym route_load_key = "provider \<times> string \<times> string"

record route_load =
  ld_inflight :: int
  ld_last_assigned :: "64 word"

record pool =
  p_accounts :: "string \<rightharpoonup> account"
  p_cells :: "string \<rightharpoonup> egress_cell"
  p_buckets :: "string \<rightharpoonup> quota_bucket"
  p_server_err :: "string \<rightharpoonup> int"
  p_store :: store
  p_bus :: bus
  p_on_auth_failure :: bool
  p_auth_failures :: "string list"
  p_drivers :: "(provider \<rightharpoonup> scheduler_driver) option"
  p_loads :: "route_load_key \<rightharpoonup> route_load"
  p_seq :: "64 word"
  p_claims :: "string \<rightharpoonup> nat"
  p_next_claim :: nat
  p_closed :: "nat list"

text \<open>
  \<open>p_auth_failures\<close> is the trace of the background calls \<open>go p.onAuthFailure(id)\<close>.  A claim is a
  pointer to a struct that holds a channel: its identity is a number, drawn from \<open>p_next_claim\<close>, and
  \<open>p_closed\<close> lists the channels that have been closed, in the order of the calls of \<open>close\<close>.
\<close>

text \<open>The orders in which the rows and map entries of the pool are visited.\<close>

record map_order =
  mo_accounts :: "string list"
  mo_cells :: "string list"
  mo_buckets :: "string list"

definition order_ok :: "store \<Rightarrow> map_order \<Rightarrow> bool" where
  "order_ok s mo \<longleftrightarrow> ranges (s_accounts s) (mo_accounts mo) \<and> ranges (s_cells s) (mo_cells mo)
     \<and> ranges (s_buckets s) (mo_buckets mo)"

section \<open>Bucket keys\<close>

definition defaultBucketKey :: "account \<Rightarrow> string" where
  "defaultBucketKey a =
     (if ac_subject a \<noteq> [] then ac_provider a @ '':'' @ ac_subject a
      else ac_provider a @ '':'' @ ac_id a)"

definition bucketKeyLocked :: "account \<Rightarrow> string" where
  "bucketKeyLocked a = (if ac_bucket_key a \<noteq> [] then ac_bucket_key a else defaultBucketKey a)"

lemma bucketKey_ne [simp]: "bucketKeyLocked a \<noteq> []"
  by (simp add: bucketKeyLocked_def defaultBucketKey_def)

lemma bucketKey_Hydrate [simp]: "bucketKeyLocked (HydrateRuntime a) = bucketKeyLocked a"
  by (simp add: bucketKeyLocked_def defaultBucketKey_def)

lemma bucketKey_Persist [simp]: "bucketKeyLocked (PersistRuntime a) = bucketKeyLocked a"
  by (simp add: bucketKeyLocked_def defaultBucketKey_def)

section \<open>Loading the state\<close>

definition new_bucket :: "gotime \<Rightarrow> string \<Rightarrow> provider \<Rightarrow> quota_bucket" where
  "new_bucket now key prov =
     \<lparr> bk_key = key, bk_provider = prov, bk_cooldown_until = None, bk_state_json = ''{}'',
       bk_updated_at = now \<rparr>"

text \<open>An empty state string stands for the empty object.\<close>

definition state_or_empty :: "string \<Rightarrow> string" where
  "state_or_empty s = (if s = [] then ''{}'' else s)"

definition default_state :: "quota_bucket \<Rightarrow> quota_bucket" where
  "default_state b = (if bk_state_json b = [] then b\<lparr>bk_state_json := ''{}''\<rparr> else b)"

definition add_default_bucket ::
  "gotime \<Rightarrow> (string \<rightharpoonup> quota_bucket) \<Rightarrow> account \<Rightarrow> (string \<rightharpoonup> quota_bucket)" where
  "add_default_bucket now m a =
     (let key = bucketKeyLocked a in
      if key = [] then m
      else if m key \<noteq> None then m
      else m(key \<mapsto> new_bucket now key (ac_provider a)))"

definition reloadStateLocked :: "map_order \<Rightarrow> gotime \<Rightarrow> pool \<Rightarrow> err option \<times> pool" where
  "reloadStateLocked mo now p =
     (case ListAccounts (mo_accounts mo) (p_store p) of
        Inl e \<Rightarrow> (Some (''list accounts: '' @ e), p)
      | Inr accounts \<Rightarrow>
          (let accountMap = map_by ac_id (map HydrateRuntime accounts);
               cellMap = map_by cl_id (map CellHydrateRuntime (ListEgressCells (mo_cells mo) (p_store p)));
               bucketMap = map_by bk_key (map default_state (ListQuotaBuckets (mo_buckets mo) (p_store p)));
               bucketMap' = foldl (add_default_bucket now) bucketMap (entries accountMap (mo_accounts mo))
           in (None, p\<lparr> p_accounts := accountMap, p_cells := cellMap, p_buckets := bucketMap' \<rparr>)))"

definition refreshState :: "map_order \<Rightarrow> gotime \<Rightarrow> pool \<Rightarrow> err option \<times> pool" where
  "refreshState mo now p = reloadStateLocked mo now p"

definition empty_pool :: "store \<Rightarrow> bus \<Rightarrow> pool" where
  "empty_pool s b =
     \<lparr> p_accounts = Map.empty, p_cells = Map.empty, p_buckets = Map.empty, p_server_err = Map.empty,
       p_store = s, p_bus = b, p_on_auth_failure = False, p_auth_failures = [], p_drivers = None,
       p_loads = Map.empty, p_seq = 0, p_claims = Map.empty, p_next_claim = 0, p_closed = [] \<rparr>"

definition New :: "map_order \<Rightarrow> gotime \<Rightarrow> store \<Rightarrow> bus \<Rightarrow> err + pool" where
  "New mo now s b =
     (case refreshState mo now (empty_pool s b) of
        (Some e, _) \<Rightarrow> Inl (''load pool state: '' @ e)
      | (None, p) \<Rightarrow> Inr p)"

definition SetOnAuthFailure :: "pool \<Rightarrow> pool" where
  "SetOnAuthFailure p = p\<lparr> p_on_auth_failure := True \<rparr>"

section \<open>Bucket state\<close>

definition bucketLocked :: "pool \<Rightarrow> account \<Rightarrow> quota_bucket option" where
  "bucketLocked p a = p_buckets p (bucketKeyLocked a)"

definition bucketStateLocked :: "pool \<Rightarrow> account \<Rightarrow> string" where
  "bucketStateLocked p a =
     (case bucketLocked p a of
        None \<Rightarrow> ''{}''
      | Some b \<Rightarrow> (if bk_state_json b = [] then ''{}'' else bk_state_json b))"

definition bucketCooldownLocked :: "pool \<Rightarrow> account \<Rightarrow> gotime option" where
  "bucketCooldownLocked p a =
     (case bucketLocked p a of None \<Rightarrow> None | Some b \<Rightarrow> bk_cooldown_until b)"

text \<open>A write through the pointer to the bucket that the map holds under a key.\<close>

definition write_bucket :: "string \<Rightarrow> quota_bucket \<Rightarrow> pool \<Rightarrow> pool" where
  "write_bucket key b p = p\<lparr> p_buckets := (p_buckets p)(key \<mapsto> b) \<rparr>"

definition write_account :: "account \<Rightarrow> pool \<Rightarrow> pool" where
  "write_account a p = p\<lparr> p_accounts := (p_accounts p)(ac_id a \<mapsto> a) \<rparr>"

definition persistable :: "gotime \<Rightarrow> quota_bucket \<Rightarrow> quota_bucket" where
  "persistable now b =
     (let b1 = default_state b in
      if is_zero (bk_updated_at b1) then b1\<lparr>bk_updated_at := now\<rparr> else b1)"

definition persistBucketLocked :: "gotime \<Rightarrow> string \<Rightarrow> pool \<Rightarrow> pool" where
  "persistBucketLocked now key p =
     (case p_buckets p key of
        None \<Rightarrow> p
      | Some b \<Rightarrow>
          (let b' = persistable now b in
           (write_bucket key b' p)\<lparr> p_store := SaveQuotaBucket b' (p_store p) \<rparr>))"

definition ensureBucketLocked :: "gotime \<Rightarrow> account \<Rightarrow> pool \<Rightarrow> quota_bucket option \<times> pool" where
  "ensureBucketLocked now a p =
     (let key = bucketKeyLocked a in
      if key = [] then (None, p)
      else (case p_buckets p key of
              Some b \<Rightarrow> (Some b, p)
            | None \<Rightarrow>
                (let p' = persistBucketLocked now key
                            (write_bucket key (new_bucket now key (ac_provider a)) p)
                 in (p_buckets p' key, p'))))"

definition derivedBucketKeyLocked :: "pool \<Rightarrow> account \<Rightarrow> string \<Rightarrow> string" where
  "derivedBucketKeyLocked p a stateJSON =
     (case p_drivers p of
        None \<Rightarrow> bucketKeyLocked a
      | Some drvs \<Rightarrow>
          (case drvs (ac_provider a) of
             None \<Rightarrow> bucketKeyLocked a
           | Some drv \<Rightarrow>
               (let key = sd_bucket_key drv
                            (a\<lparr>ac_bucket_key := bucketKeyLocked a, ac_provider_state_json := stateJSON\<rparr>)
                in if key \<noteq> [] then key else bucketKeyLocked a)))"

text \<open>The account comes back with its new key; the caller writes it where the pointer lives.\<close>

definition refreshBucketKeyLocked :: "gotime \<Rightarrow> account \<Rightarrow> string \<Rightarrow> pool \<Rightarrow> account \<times> pool" where
  "refreshBucketKeyLocked now a stateJSON p =
     (let oldKey = bucketKeyLocked a;
          newKey = derivedBucketKeyLocked p a stateJSON;
          a' = a\<lparr>ac_bucket_key := newKey\<rparr>
      in if oldKey = newKey then (a', p)
         else (case p_buckets p oldKey of
                 None \<Rightarrow> (a', p)
               | Some b \<Rightarrow>
                   (let p1 = p\<lparr> p_buckets := (p_buckets p)(oldKey := None) \<rparr>;
                        p2 = (if p_buckets p1 newKey = None
                              then persistBucketLocked now newKey
                                     (write_bucket newKey (b\<lparr>bk_key := newKey\<rparr>) p1)
                              else p1)
                    in (a', p2\<lparr> p_store := DeleteQuotaBucket oldKey (p_store p2) \<rparr>))))"

definition bucketAccountsLocked :: "string list \<Rightarrow> account \<Rightarrow> pool \<Rightarrow> account list" where
  "bucketAccountsLocked ord a p =
     (let key = bucketKeyLocked a in
      if key = [] then [a]
      else (let members = filter (\<lambda>c. ac_provider c = ac_provider a \<and> bucketKeyLocked c = key)
                            (entries (p_accounts p) ord)
            in if members = [] then [a] else members))"

section \<open>Cells of accounts\<close>

definition cloneLabels :: "str_map option \<Rightarrow> str_map option" where
  "cloneLabels src = (case src of None \<Rightarrow> None | Some m \<Rightarrow> (if m = [] then None else Some m))"

definition cloneCell :: "egress_cell option \<Rightarrow> egress_cell option" where
  "cloneCell src = map_option (\<lambda>c. c\<lparr>cl_labels := cloneLabels (cl_labels c)\<rparr>) src"

definition cellLocked :: "pool \<Rightarrow> string \<Rightarrow> egress_cell option" where
  "cellLocked p i = (if i = [] then None else p_cells p i)"

definition cellForAccountLocked :: "pool \<Rightarrow> account \<Rightarrow> egress_cell option" where
  "cellForAccountLocked p a = (if ac_cell_id a = [] then None else cellLocked p (ac_cell_id a))"

definition projectAccountLocked :: "pool \<Rightarrow> account \<Rightarrow> account" where
  "projectAccountLocked p a =
     (let c = a\<lparr> ac_bucket_key := bucketKeyLocked a, ac_cooldown_until := None,
                 ac_provider_state_json := ''{}'', ac_cell := cloneCell (cellForAccountLocked p a) \<rparr>
      in case bucketLocked p a of
           None \<Rightarrow> c
         | Some b \<Rightarrow>
             (let c1 = c\<lparr> ac_cooldown_until := bk_cooldown_until b \<rparr>
              in if bk_state_json b \<noteq> [] then c1\<lparr> ac_provider_state_json := bk_state_json b \<rparr> else c1))"

definition Get :: "map_order \<Rightarrow> gotime \<Rightarrow> string \<Rightarrow> pool \<Rightarrow> account option \<times> pool" where
  "Get mo now i p0 =
     (let p = snd (refreshState mo now p0) in
      (map_option (projectAccountLocked p) (p_accounts p i), p))"

definition List_accounts :: "map_order \<Rightarrow> gotime \<Rightarrow> string list \<Rightarrow> pool \<Rightarrow> account list \<times> pool" where
  "List_accounts mo now ord p0 =
     (let p = snd (refreshState mo now p0) in
      (map (projectAccountLocked p) (entries (p_accounts p) ord), p))"

end
