(* ===== verification/PoolAccounts.thy ===== *)
theory PoolAccounts
  imports Pool
begin

text \<open>
  Account lifecycle of the pool (src/internal/pool/pool_accounts.go): cooldowns of buckets, update,
  add, delete, token storage, bucket recovery, error marking and lookup by subject.
\<close>

definition sameTime :: "gotime option \<Rightarrow> gotime option \<Rightarrow> bool" where
  "sameTime a b \<longleftrightarrow>
     (case (a, b) of
        (Some s, Some t) \<Rightarrow> s = t
      | _ \<Rightarrow> a = None \<and> b = None)"

lemma sameTime_eq [simp]: "sameTime a b \<longleftrightarrow> a = b"
  by (auto simp: sameTime_def split: option.splits)

definition applyBucketCooldown ::
  "quota_bucket option \<Rightarrow> gotime \<Rightarrow> cooldown_result \<times> quota_bucket option" where
  "applyBucketCooldown ob proposed =
     (case ob of
        None \<Rightarrow> (\<lparr> cr_applied = False, cr_actual = zero_time \<rparr>, None)
      | Some b \<Rightarrow>
          (case bk_cooldown_until b of
             Some t \<Rightarrow>
               (if proposed < t then (\<lparr> cr_applied = False, cr_actual = t \<rparr>, ob)
                else (\<lparr> cr_applied = True, cr_actual = proposed \<rparr>,
                      Some (b\<lparr>bk_cooldown_until := Some proposed\<rparr>)))
           | None \<Rightarrow>
               (\<lparr> cr_applied = True, cr_actual = proposed \<rparr>,
                Some (b\<lparr>bk_cooldown_until := Some proposed\<rparr>))))"

definition persistLocked :: "string \<Rightarrow> pool \<Rightarrow> pool" where
  "persistLocked i p =
     (case p_accounts p i of
        None \<Rightarrow> p
      | Some a \<Rightarrow>
          (let a' = PersistRuntime a in
           p\<lparr> p_accounts := (p_accounts p)(i \<mapsto> a'), p_store := snd (SaveAccount a' (p_store p)) \<rparr>))"

definition publish :: "gotime \<Rightarrow> event \<Rightarrow> pool \<Rightarrow> pool" where
  "publish now e p = p\<lparr> p_bus := Publish now e (p_bus p) \<rparr>"

definition clear_bucket_cooldown :: "gotime \<Rightarrow> string \<Rightarrow> quota_bucket \<Rightarrow> pool \<Rightarrow> pool" where
  "clear_bucket_cooldown now key b p =
     persistBucketLocked now key
       (write_bucket key (b\<lparr> bk_cooldown_until := None, bk_updated_at := now \<rparr>) p)"

definition ClearCooldown :: "map_order \<Rightarrow> gotime \<Rightarrow> string \<Rightarrow> pool \<Rightarrow> pool" where
  "ClearCooldown mo now accountID p0 =
     (let p = snd (reloadStateLocked mo now p0) in
      case p_accounts p accountID of
        None \<Rightarrow> p
      | Some a \<Rightarrow>
          (case ensureBucketLocked now a p of
             (None, p1) \<Rightarrow> p1
           | (Some b, p1) \<Rightarrow>
               (if bk_cooldown_until b = None then p1
                else publish now
                       ((new_event EventRecover)\<lparr> ev_account_id := ac_id a, ev_bucket_key := bk_key b,
                                                  ev_message := ''admin cleared cooldown'' \<rparr>)
                       (clear_bucket_cooldown now (bucketKeyLocked a) b p1))))"

text \<open>The fields that \<open>Update\<close> copies back from the edited projection.\<close>

definition copy_back :: "account \<Rightarrow> account \<Rightarrow> account" where
  "copy_back a pr =
     a\<lparr> ac_email := ac_email pr, ac_provider := ac_provider pr, ac_status := ac_status pr,
        ac_priority := ac_priority pr, ac_priority_mode := ac_priority_mode pr,
        ac_error_message := ac_error_message pr, ac_refresh_token_enc := ac_refresh_token_enc pr,
        ac_access_token_enc := ac_access_token_enc pr, ac_expires_at := ac_expires_at pr,
        ac_created_at := ac_created_at pr, ac_last_used_at := ac_last_used_at pr,
        ac_last_refresh_at := ac_last_refresh_at pr, ac_proxy := ac_proxy pr,
        ac_proxy_json := ac_proxy_json pr, ac_cell_id := ac_cell_id pr, ac_identity := ac_identity pr,
        ac_identity_json := ac_identity_json pr, ac_subject := ac_subject pr \<rparr>"

definition Update ::
  "map_order \<Rightarrow> gotime \<Rightarrow> string \<Rightarrow> (account \<Rightarrow> account) \<Rightarrow> pool \<Rightarrow> err option \<times> pool" where
  "Update mo now accountID fn p0 =
     (case reloadStateLocked mo now p0 of
        (Some e, p) \<Rightarrow> (Some (''refresh pool state: '' @ e), p)
      | (None, p) \<Rightarrow>
          (case p_accounts p accountID of
             None \<Rightarrow> (Some (''account '' @ accountID @ '' not found''), p)
           | Some a \<Rightarrow>
               (let projected = fn (projectAccountLocked p a);
                    a1 = copy_back a projected;
                    p1 = p\<lparr> p_accounts := (p_accounts p)(accountID \<mapsto> a1) \<rparr>;
                    stateJSON = state_or_empty (ac_provider_state_json projected);
                    (a2, p2) = refreshBucketKeyLocked now a1 stateJSON p1;
                    p3 = p2\<lparr> p_accounts := (p_accounts p2)(accountID \<mapsto> a2) \<rparr>;
                    (ob, p4) = ensureBucketLocked now a2 p3;
                    p5 = (case ob of
                            None \<Rightarrow> p4
                          | Some b \<Rightarrow>
                              (if bk_state_json b \<noteq> stateJSON
                                  \<or> \<not> sameTime (bk_cooldown_until b) (ac_cooldown_until projected)
                               then persistBucketLocked now (bucketKeyLocked a2)
                                      (write_bucket (bucketKeyLocked a2)
                                        (b\<lparr> bk_state_json := stateJSON,
                                            bk_cooldown_until := ac_cooldown_until projected,
                                            bk_updated_at := now \<rparr>) p4)
                               else p4))
                in (None, persistLocked accountID p5))))"

definition Add :: "map_order \<Rightarrow> gotime \<Rightarrow> account \<Rightarrow> pool \<Rightarrow> err option \<times> pool" where
  "Add mo now a0 p0 =
     (case reloadStateLocked mo now p0 of
        (Some e, p) \<Rightarrow> (Some (''refresh pool state: '' @ e), p)
      | (None, p) \<Rightarrow>
          (let stateJSON = state_or_empty (ac_provider_state_json a0);
               (a1, p1) = refreshBucketKeyLocked now a0 stateJSON p;
               (ob, p2) = ensureBucketLocked now a1 p1;
               p3 = (case ob of
                       None \<Rightarrow> p2
                     | Some b \<Rightarrow>
                         persistBucketLocked now (bucketKeyLocked a1)
                           (write_bucket (bucketKeyLocked a1)
                             (b\<lparr> bk_state_json := stateJSON, bk_cooldown_until := ac_cooldown_until a1,
                                 bk_updated_at := now \<rparr>) p2));
               a2 = PersistRuntime a1
           in case SaveAccount a2 (p_store p3) of
                (Some e, _) \<Rightarrow> (Some e, p3)
              | (None, st) \<Rightarrow>
                  (let a3 = (HydrateRuntime a2)\<lparr> ac_cooldown_until := None, ac_provider_state_json := [] \<rparr>
                   in (None, p3\<lparr> p_store := st, p_accounts := (p_accounts p3)(ac_id a3 \<mapsto> a3) \<rparr>))))"

definition bucketHasMembersLocked :: "string list \<Rightarrow> string \<Rightarrow> pool \<Rightarrow> bool" where
  "bucketHasMembersLocked ord key p =
     list_ex (\<lambda>a. bucketKeyLocked a = key) (entries (p_accounts p) ord)"

definition Delete :: "map_order \<Rightarrow> gotime \<Rightarrow> string \<Rightarrow> pool \<Rightarrow> err option \<times> pool" where
  "Delete mo now accountID p0 =
     (case reloadStateLocked mo now p0 of
        (Some e, p) \<Rightarrow> (Some (''refresh pool state: '' @ e), p)
      | (None, p) \<Rightarrow>
          (case p_accounts p accountID of
             None \<Rightarrow> (Some (''account '' @ accountID @ '' not found''), p)
           | Some a \<Rightarrow>
               (case DeleteAccount accountID (p_store p) of
                  (Some e, _) \<Rightarrow> (Some e, p)
                | (None, st) \<Rightarrow>
                    (let p1 = p\<lparr> p_store := st, p_accounts := (p_accounts p)(accountID := None) \<rparr>;
                         key = bucketKeyLocked a
                     in if \<not> bucketHasMembersLocked (mo_accounts mo) key p1
                        then (None, p1\<lparr> p_buckets := (p_buckets p1)(key := None),
                                        p_store := DeleteQuotaBucket key (p_store p1) \<rparr>)
                        else (None, p1)))))"

definition StoreTokens ::
  "map_order \<Rightarrow> gotime \<Rightarrow> string \<Rightarrow> string \<Rightarrow> string \<Rightarrow> int \<Rightarrow> pool \<Rightarrow> err option \<times> pool" where
  "StoreTokens mo now accountID accessTokenEnc refreshTokenEnc expiresAt p0 =
     (case reloadStateLocked mo now p0 of
        (Some e, p) \<Rightarrow> (Some (''refresh pool state: '' @ e), p)
      | (None, p) \<Rightarrow>
          (case p_accounts p accountID of
             None \<Rightarrow> (Some (''account '' @ accountID @ '' not found''), p)
           | Some a \<Rightarrow>
               (let a1 = a\<lparr> ac_access_token_enc := accessTokenEnc, ac_refresh_token_enc := refreshTokenEnc,
                            ac_expires_at := expiresAt, ac_last_refresh_at := Some now,
                            ac_status := StatusActive, ac_error_message := [] \<rparr>;
                    p1 = p\<lparr> p_accounts := (p_accounts p)(accountID \<mapsto> a1) \<rparr>;
                    (ob, p2) = ensureBucketLocked now a1 p1;
                    p3 = (case ob of
                            None \<Rightarrow> p2
                          | Some b \<Rightarrow>
                              (if bk_cooldown_until b = None then p2
                               else clear_bucket_cooldown now (bucketKeyLocked a1) b p2))
                in (None, persistLocked accountID p3))))"

definition recover_member :: "gotime \<Rightarrow> string \<Rightarrow> nat \<times> pool \<Rightarrow> string \<Rightarrow> nat \<times> pool" where
  "recover_member now key np i =
     (case p_accounts (snd np) i of
        None \<Rightarrow> np
      | Some m \<Rightarrow>
          (if bucketKeyLocked m \<noteq> key \<or> ac_status m \<noteq> StatusBlocked then np
           else (let p = snd np;
                     m' = m\<lparr> ac_status := StatusActive, ac_error_message := [] \<rparr>;
                     p1 = persistLocked i (p\<lparr> p_accounts := (p_accounts p)(i \<mapsto> m') \<rparr>);
                     p2 = publish now
                            ((new_event EventRecover)\<lparr> ev_account_id := ac_id m, ev_bucket_key := key,
                               ev_message := ''blocked account recovered via probe'' \<rparr>) p1
                 in (fst np + 1, p2))))"

definition RecoverBucket :: "map_order \<Rightarrow> gotime \<Rightarrow> string list \<Rightarrow> string \<Rightarrow> pool \<Rightarrow> nat \<times> pool" where
  "RecoverBucket mo now ord accountID p0 =
     (let p = snd (reloadStateLocked mo now p0) in
      case p_accounts p accountID of
        None \<Rightarrow> (0, p)
      | Some a \<Rightarrow>
          (let key = bucketKeyLocked a;
               (n, p1) = foldl (recover_member now key) (0, p) ord
           in (n, case p_buckets p1 key of
                    None \<Rightarrow> p1
                  | Some b \<Rightarrow> (if bk_cooldown_until b = None then p1
                             else clear_bucket_cooldown now key b p1))))"

definition MarkError :: "map_order \<Rightarrow> gotime \<Rightarrow> string \<Rightarrow> string \<Rightarrow> pool \<Rightarrow> pool" where
  "MarkError mo now accountID msg p0 =
     (let p = snd (reloadStateLocked mo now p0) in
      case p_accounts p accountID of
        None \<Rightarrow> p
      | Some a \<Rightarrow>
          persistLocked accountID
            (p\<lparr> p_accounts := (p_accounts p)(accountID \<mapsto>
                  a\<lparr> ac_status := StatusError, ac_error_message := msg \<rparr>) \<rparr>))"

definition FindBySubject ::
  "map_order \<Rightarrow> gotime \<Rightarrow> string list \<Rightarrow> provider \<Rightarrow> string \<Rightarrow> pool \<Rightarrow> account option \<times> pool" where
  "FindBySubject mo now ord prov subject p0 =
     (if subject = [] then (None, p0)
      else (let p = snd (refreshState mo now p0) in
            (List.find (\<lambda>a. ac_provider a = prov \<and> ac_subject a = subject) (entries (p_accounts p) ord), p)))"

end
