(* ===== verification/PoolCells.thy ===== *)
theory PoolCells
  imports PoolAccounts
begin

text \<open>
  Egress cells (src/internal/pool/pool_cells.go): availability, saving, and cooldowns.  A cell with an
  empty status counts as active.
\<close>

text \<open>
  \<open>cellAvailableLocked\<close> also writes the status \<open>active\<close> into a cell whose status is empty; the write
  is \<open>default_status\<close>.
\<close>

definition default_status :: "egress_cell \<Rightarrow> egress_cell" where
  "default_status c = (if cl_status c = [] then c\<lparr>cl_status := EgressCellActive\<rparr> else c)"

definition cellAvailableLocked :: "egress_cell option \<Rightarrow> gotime \<Rightarrow> bool" where
  "cellAvailableLocked oc now =
     (case oc of
        None \<Rightarrow> False
      | Some c0 \<Rightarrow>
          (let c = default_status c0 in
           if cl_status c \<noteq> EgressCellActive then False
           else if (case cl_cooldown_until c of Some t \<Rightarrow> now < t | None \<Rightarrow> False) then False
           else (case cl_proxy c of None \<Rightarrow> False | Some p \<Rightarrow> pc_host p \<noteq> [] \<and> 0 < pc_port p)))"

definition GetCell :: "map_order \<Rightarrow> gotime \<Rightarrow> string \<Rightarrow> pool \<Rightarrow> egress_cell option \<times> pool" where
  "GetCell mo now i p0 =
     (let p = snd (refreshState mo now p0) in (cloneCell (cellLocked p i), p))"

definition ListCells :: "map_order \<Rightarrow> gotime \<Rightarrow> string list \<Rightarrow> pool \<Rightarrow> egress_cell option list \<times> pool" where
  "ListCells mo now ord p0 =
     (let p = snd (refreshState mo now p0) in
      (map (\<lambda>c. cloneCell (Some c)) (entries (p_cells p) ord), p))"

definition SaveCell :: "map_order \<Rightarrow> gotime \<Rightarrow> egress_cell option \<Rightarrow> pool \<Rightarrow> err option \<times> pool" where
  "SaveCell mo now oc p0 =
     (case cloneCell oc of
        None \<Rightarrow> (Some ''cell id is required'', p0)
      | Some c0 \<Rightarrow>
          (if cl_id c0 = [] then (Some ''cell id is required'', p0)
           else (case reloadStateLocked mo now p0 of
                   (Some e, p) \<Rightarrow> (Some (''refresh pool state: '' @ e), p)
                 | (None, p) \<Rightarrow>
                     (let c1 = CellPersistRuntime c0;
                          c2 = (if cl_state_json c1 = [] then c1\<lparr>cl_state_json := ''{}''\<rparr> else c1);
                          c3 = (if is_zero (cl_created_at c2) then c2\<lparr>cl_created_at := now\<rparr> else c2);
                          c4 = c3\<lparr>cl_updated_at := now\<rparr>;
                          c5 = CellHydrateRuntime c4
                      in (None, p\<lparr> p_store := SaveEgressCell c4 (p_store p),
                                   p_cells := (p_cells p)(cl_id c5 \<mapsto> c5) \<rparr>)))))"

definition persistable_cell :: "gotime \<Rightarrow> egress_cell \<Rightarrow> egress_cell" where
  "persistable_cell now c =
     (let c1 = CellPersistRuntime c;
          c2 = (if cl_state_json c1 = [] then c1\<lparr>cl_state_json := ''{}''\<rparr> else c1);
          c3 = (if is_zero (cl_created_at c2) then c2\<lparr>cl_created_at := now\<rparr> else c2)
      in if is_zero (cl_updated_at c3) then c3\<lparr>cl_updated_at := now\<rparr> else c3)"

definition persistCellLocked :: "gotime \<Rightarrow> string \<Rightarrow> pool \<Rightarrow> pool" where
  "persistCellLocked now i p =
     (case p_cells p i of
        None \<Rightarrow> p
      | Some c \<Rightarrow>
          (let c' = persistable_cell now c in
           p\<lparr> p_cells := (p_cells p)(i \<mapsto> c'), p_store := SaveEgressCell c' (p_store p) \<rparr>))"

definition applyCellCooldownLocked :: "gotime \<Rightarrow> string \<Rightarrow> gotime \<Rightarrow> pool \<Rightarrow> cooldown_result \<times> pool" where
  "applyCellCooldownLocked now i proposed p =
     (case cellLocked p i of
        None \<Rightarrow> (\<lparr> cr_applied = False, cr_actual = zero_time \<rparr>, p)
      | Some c \<Rightarrow>
          (case cl_cooldown_until c of
             Some t \<Rightarrow>
               (if proposed < t then (\<lparr> cr_applied = False, cr_actual = t \<rparr>, p)
                else (\<lparr> cr_applied = True, cr_actual = proposed \<rparr>,
                      persistCellLocked now i
                        (p\<lparr> p_cells := (p_cells p)(i \<mapsto>
                              c\<lparr> cl_cooldown_until := Some proposed, cl_updated_at := now \<rparr>) \<rparr>)))
           | None \<Rightarrow>
               (\<lparr> cr_applied = True, cr_actual = proposed \<rparr>,
                persistCellLocked now i
                  (p\<lparr> p_cells := (p_cells p)(i \<mapsto>
                        c\<lparr> cl_cooldown_until := Some proposed, cl_updated_at := now \<rparr>) \<rparr>))))"

definition CooldownCell :: "map_order \<Rightarrow> gotime \<Rightarrow> string \<Rightarrow> gotime \<Rightarrow> string \<Rightarrow> pool \<Rightarrow> bool \<times> pool" where
  "CooldownCell mo now cellID proposed message p0 =
     (let p = snd (reloadStateLocked mo now p0);
          (r, p1) = applyCellCooldownLocked now cellID proposed p
      in if \<not> cr_applied r then (False, p1)
         else if message \<noteq> []
         then (True, publish now
                ((new_event EventRelayError)\<lparr> ev_cell_id := cellID, ev_cooldown_until := Some (cr_actual r),
                   ev_message := ''cell '' @ cellID @ '' cooldown until '' @ rfc3339 (cr_actual r)
                                 @ '': '' @ message \<rparr>) p1)
         else (True, p1))"

definition CooldownCellForAccount ::
  "map_order \<Rightarrow> gotime \<Rightarrow> string \<Rightarrow> gotime \<Rightarrow> string \<Rightarrow> pool \<Rightarrow> bool \<times> pool" where
  "CooldownCellForAccount mo now accountID proposed message p =
     (let cellID = (case p_accounts p accountID of Some a \<Rightarrow> ac_cell_id a | None \<Rightarrow> []) in
      if cellID = [] then (False, p) else CooldownCell mo now cellID proposed message p)"

definition ClearCellCooldown :: "map_order \<Rightarrow> gotime \<Rightarrow> string \<Rightarrow> pool \<Rightarrow> bool \<times> pool" where
  "ClearCellCooldown mo now cellID p0 =
     (let p = snd (reloadStateLocked mo now p0) in
      case cellLocked p cellID of
        None \<Rightarrow> (False, p)
      | Some c \<Rightarrow>
          (if cl_cooldown_until c = None then (False, p)
           else (True, publish now
                   ((new_event EventRecover)\<lparr> ev_cell_id := cellID,
                      ev_message := ''cell '' @ cellID @ '' cooldown cleared'' \<rparr>)
                   (persistCellLocked now cellID
                     (p\<lparr> p_cells := (p_cells p)(cellID \<mapsto>
                           c\<lparr> cl_cooldown_until := None, cl_updated_at := now \<rparr>) \<rparr>)))))"

end
