(* ===== verification/PoolObserve.thy ===== *)
theory PoolObserve
  imports PoolCells
begin

text \<open>
  What the pool learns from the outcome of an upstream request (\<open>Observe\<close>), the periodic clean-up and
  the registration of drivers (src/internal/pool/pool_observe.go).  \<open>Observe\<close> works on the shared
  bucket of the account: it joins cooldowns, counts consecutive server errors for the circuit
  breaker, blocks the account, records the new provider state, moves the bucket when the state
  changes its key, and emits one event.
\<close>

definition cooldownEventType :: "int \<Rightarrow> event_type" where
  "cooldownEventType st = (if st = 400 \<or> st = 403 then EventReject else EventRateLimit)"

definition cooldownEventMessage :: "int \<Rightarrow> string" where
  "cooldownEventMessage st = (if st = 400 \<or> st = 403 then ''rejected request'' else ''cooldown'')"

definition eventMessage :: "string \<Rightarrow> int \<Rightarrow> string \<Rightarrow> string" where
  "eventMessage base0 st sfx =
     (let base = (if base0 = [] then ''event'' else base0) in
      if 0 < st then ''upstream '' @ itoa st @ '' '' @ base @ sfx else base @ sfx)"

definition truncateEffectDetail :: "string \<Rightarrow> int \<Rightarrow> string" where
  "truncateEffectDetail txt maxLen =
     (if maxLen \<le> 0 \<or> int (length txt) \<le> maxLen then txt else take (nat maxLen) txt @ ''...'')"

definition effectErrorDetail :: "effect \<Rightarrow> string" where
  "effectErrorDetail e =
     (let parts = (if ef_upstream_error_type e \<noteq> [] then [ef_upstream_error_type e] else [])
                  @ (if ef_upstream_error_message e \<noteq> [] then [ef_upstream_error_message e] else [])
      in if parts = [] then [] else '' | '' @ truncateEffectDetail (join '': '' parts) 180)"

definition cooldownPtr :: "cooldown_result \<Rightarrow> gotime option" where
  "cooldownPtr r = (if is_zero (cr_actual r) then None else Some (cr_actual r))"

definition cooldownSuffix :: "cooldown_result \<Rightarrow> string" where
  "cooldownSuffix r =
     (if is_zero (cr_actual r) then [] else '' (cooldown until '' @ rfc3339 (cr_actual r) @ '')'')"

text \<open>The error fields that the events of \<open>Observe\<close> copy from the effect.\<close>

definition with_upstream :: "effect \<Rightarrow> event \<Rightarrow> event" where
  "with_upstream e ev =
     ev\<lparr> ev_upstream_status := ef_upstream_status e,
         ev_upstream_error_type := ef_upstream_error_type e,
         ev_upstream_error_message := ef_upstream_error_message e \<rparr>"

text \<open>Join a cooldown into the bucket of an account, stamp the bucket and save it.\<close>

definition cool_bucket :: "gotime \<Rightarrow> string \<Rightarrow> gotime \<Rightarrow> pool \<Rightarrow> cooldown_result \<times> pool" where
  "cool_bucket now key proposed p =
     (case applyBucketCooldown (p_buckets p key) proposed of
        (r, None) \<Rightarrow> (r, p)
      | (r, Some b) \<Rightarrow> (r, persistBucketLocked now key (write_bucket key (b\<lparr>bk_updated_at := now\<rparr>) p)))"

definition touch_account :: "string \<Rightarrow> (account \<Rightarrow> account) \<Rightarrow> pool \<Rightarrow> pool" where
  "touch_account i f p =
     (case p_accounts p i of None \<Rightarrow> p | Some a \<Rightarrow> p\<lparr> p_accounts := (p_accounts p)(i \<mapsto> f a) \<rparr>)"

definition circuit_cooldown :: duration where "circuit_cooldown = 30 * second"

definition server_error :: "gotime \<Rightarrow> string \<Rightarrow> string \<Rightarrow> string \<Rightarrow> pool \<Rightarrow> event option \<times> pool" where
  "server_error now accountID key bkey p =
     (let n = (case p_server_err p bkey of Some k \<Rightarrow> k | None \<Rightarrow> 0) + 1;
          p1 = p\<lparr> p_server_err := (p_server_err p)(bkey \<mapsto> n) \<rparr>
      in if 3 \<le> n
         then (let (r, p2) = cool_bucket now key (now + circuit_cooldown) p1 in
               (Some ((new_event EventOverload)\<lparr> ev_account_id := accountID,
                        ev_cooldown_until := cooldownPtr r,
                        ev_message := ''circuit breaker: 3 consecutive upstream 500s'' @ cooldownSuffix r \<rparr>),
                p2\<lparr> p_server_err := (p_server_err p2)(bkey := None) \<rparr>))
         else (None, p1))"

text \<open>
  The switch of \<open>Observe\<close>: the pending event, whether the account is marked for persisting, and the
  state.  \<open>key\<close> is the key of the account's bucket in the map, \<open>bkey\<close> the key the bucket itself
  carries.
\<close>

definition apply_effect ::
  "gotime \<Rightarrow> string \<Rightarrow> string \<Rightarrow> string \<Rightarrow> effect \<Rightarrow> pool \<Rightarrow> event option \<times> bool \<times> pool" where
  "apply_effect now i key bkey e p =
     (case ef_kind e of
        EffectSuccess \<Rightarrow> (None, True, touch_account i (\<lambda>a. a\<lparr>ac_last_used_at := Some now\<rparr>) p)
      | EffectServerError \<Rightarrow>
          (let p1 = touch_account i (\<lambda>a. a\<lparr>ac_last_used_at := Some now\<rparr>) p;
               (ev, p2) = server_error now i key bkey p1
           in (ev, True, p2))
      | EffectCooldown \<Rightarrow>
          (let (r, p1) = cool_bucket now key (ef_cooldown_until e) p in
           (Some (with_upstream e ((new_event (cooldownEventType (ef_upstream_status e)))
                    \<lparr> ev_account_id := i, ev_cooldown_until := cooldownPtr r,
                      ev_message := eventMessage (cooldownEventMessage (ef_upstream_status e))
                          (ef_upstream_status e) (cooldownSuffix r) @ effectErrorDetail e \<rparr>)),
            False, p1))
      | EffectReject \<Rightarrow>
          (Some (with_upstream e ((new_event EventReject)
                    \<lparr> ev_account_id := i,
                      ev_message := eventMessage ''rejected request'' (ef_upstream_status e) []
                                    @ effectErrorDetail e \<rparr>)),
           False, p)
      | EffectOverload \<Rightarrow>
          (let (r, p1) = cool_bucket now key (ef_cooldown_until e) p in
           (Some (with_upstream e ((new_event EventOverload)
                    \<lparr> ev_account_id := i, ev_cooldown_until := cooldownPtr r,
                      ev_message := eventMessage ''overloaded'' (ef_upstream_status e) (cooldownSuffix r)
                                    @ effectErrorDetail e \<rparr>)),
            False, p1))
      | EffectBlock \<Rightarrow>
          (let p1 = touch_account i
                      (\<lambda>a. a\<lparr>ac_status := StatusBlocked, ac_error_message := ef_error_message e\<rparr>) p;
               (r, p2) = cool_bucket now key (ef_cooldown_until e) p1
           in (Some (with_upstream e ((new_event EventBan)
                    \<lparr> ev_account_id := i, ev_cooldown_until := cooldownPtr r,
                      ev_message := eventMessage (ef_error_message e) (ef_upstream_status e)
                                      (cooldownSuffix r) @ effectErrorDetail e \<rparr>)),
               True, p2))
      | EffectAuthFail \<Rightarrow>
          (let (r, p1) = cool_bucket now key (ef_cooldown_until e) p in
           (Some (with_upstream e ((new_event EventRefresh)
                    \<lparr> ev_account_id := i, ev_cooldown_until := cooldownPtr r,
                      ev_message := eventMessage ''auth failed, background refresh triggered''
                                      (ef_upstream_status e) [] @ effectErrorDetail e \<rparr>)),
            False,
            (if p_on_auth_failure p1 then p1\<lparr> p_auth_failures := p_auth_failures p1 @ [i] \<rparr> else p1))))"

text \<open>
  The new provider state: written to the bucket, then every credential of the bucket refreshes its
  key.  The result lists the members whose key changed.
\<close>

definition rekey_member ::
  "gotime \<Rightarrow> string \<Rightarrow> string list \<times> pool \<Rightarrow> string \<Rightarrow> string list \<times> pool" where
  "rekey_member now stateJSON acc i =
     (case p_accounts (snd acc) i of
        None \<Rightarrow> acc
      | Some m \<Rightarrow>
          (let (m', p1) = refreshBucketKeyLocked now m stateJSON (snd acc);
               p2 = p1\<lparr> p_accounts := (p_accounts p1)(i \<mapsto> m') \<rparr>
           in (if ac_bucket_key m' \<noteq> ac_bucket_key m then fst acc @ [i] else fst acc, p2)))"

definition apply_state ::
  "gotime \<Rightarrow> string list \<Rightarrow> string \<Rightarrow> string \<Rightarrow> string \<Rightarrow> pool \<Rightarrow> string list \<times> pool" where
  "apply_state now ord i key stateJSON p =
     (case p_accounts p i of
        None \<Rightarrow> ([], p)
      | Some a \<Rightarrow>
          (let members = map ac_id (bucketAccountsLocked ord a p);
               p1 = (case p_buckets p key of
                       None \<Rightarrow> p
                     | Some b \<Rightarrow> persistBucketLocked now key
                                 (write_bucket key (b\<lparr>bk_state_json := stateJSON, bk_updated_at := now\<rparr>) p))
           in foldl (rekey_member now stateJSON) ([], p1) members))"

text \<open>Any outcome but a server error resets the circuit breaker of the bucket.\<close>

definition reset_errors :: "string \<Rightarrow> effect \<Rightarrow> pool \<Rightarrow> pool" where
  "reset_errors bkey e p =
     (if ef_kind e \<noteq> EffectServerError then p\<lparr> p_server_err := (p_server_err p)(bkey := None) \<rparr> else p)"

definition update_state ::
  "gotime \<Rightarrow> string list \<Rightarrow> string \<Rightarrow> string \<Rightarrow> effect \<Rightarrow> pool \<Rightarrow> string list \<times> pool" where
  "update_state now ord i key e p =
     (if ef_updated_state e \<noteq> [] then apply_state now ord i key (ef_updated_state e) p else ([], p))"

definition emit :: "gotime \<Rightarrow> string \<Rightarrow> event option \<Rightarrow> pool \<Rightarrow> pool" where
  "emit now i ev p =
     (case ev of
        None \<Rightarrow> p
      | Some evt \<Rightarrow>
          publish now (evt\<lparr> ev_bucket_key := (case p_accounts p i of
             Some a \<Rightarrow> bucketKeyLocked a | None \<Rightarrow> []) \<rparr>) p)"

definition persist_marked :: "string set \<Rightarrow> string list \<Rightarrow> pool \<Rightarrow> pool" where
  "persist_marked marked ords p = foldl (\<lambda>q i. if i \<in> marked then persistLocked i q else q) p ords"

text \<open>
  \<open>om\<close> is the order in which the members of the bucket are visited, \<open>ords\<close> the order of the final
  loop over the accounts marked for persisting (filtered to those marked).
\<close>

definition Observe ::
  "map_order \<Rightarrow> gotime \<Rightarrow> string list \<Rightarrow> string list \<Rightarrow> string \<Rightarrow> effect \<Rightarrow> pool \<Rightarrow> pool" where
  "Observe mo now om ords accountID e p0 =
     (let p = snd (reloadStateLocked mo now p0) in
      case p_accounts p accountID of
        None \<Rightarrow> p
      | Some a \<Rightarrow>
          (let key = bucketKeyLocked a;
               (ob, p1) = ensureBucketLocked now a p;
               bkey = (case ob of Some b \<Rightarrow> bk_key b | None \<Rightarrow> []);
               p2 = reset_errors bkey e p1;
               (ev, mark, p3) = apply_effect now accountID key bkey e p2;
               (rekeyed, p4) = update_state now om accountID key e p3;
               p5 = emit now accountID ev p4;
               marked = (if mark then {accountID} else {}) \<union> set rekeyed
           in persist_marked marked ords p5))"

section \<open>Clean-up\<close>

definition computeExhaustedCooldown :: "pool \<Rightarrow> account \<Rightarrow> int \<Rightarrow> int" where
  "computeExhaustedCooldown p a now =
     (case p_drivers p of
        None \<Rightarrow> 0
      | Some drvs \<Rightarrow>
          (case drvs (ac_provider a) of
             None \<Rightarrow> 0
           | Some drv \<Rightarrow>
               (let t = sd_exhausted_cooldown drv (bucketStateLocked p a) (from_unix now) in
                if \<not> is_zero t then unix_sec t else 0)))"

definition expire_bucket :: "gotime \<Rightarrow> pool \<Rightarrow> string \<Rightarrow> pool" where
  "expire_bucket now p key =
     (case p_buckets p key of
        None \<Rightarrow> p
      | Some b \<Rightarrow>
          (case bk_cooldown_until b of
             None \<Rightarrow> p
           | Some t \<Rightarrow>
               (if t < now
                then publish now
                       ((new_event EventRecover)\<lparr> ev_bucket_key := bk_key b,
                                                  ev_message := ''cooldown expired'' \<rparr>)
                       (clear_bucket_cooldown now key b p)
                else p)))"

definition exhaust_bucket :: "gotime \<Rightarrow> (string \<Rightarrow> string list) \<Rightarrow> pool \<Rightarrow> string \<Rightarrow> pool" where
  "exhaust_bucket now oa p key =
     (case p_buckets p key of
        None \<Rightarrow> p
      | Some b \<Rightarrow>
          (if bk_cooldown_until b \<noteq> None then p
           else (case List.find (\<lambda>a. bucketKeyLocked a = bk_key b \<and> ac_status a = StatusActive)
                        (entries (p_accounts p) (oa key)) of
                   None \<Rightarrow> p
                 | Some a \<Rightarrow>
                     (let u = computeExhaustedCooldown p a (unix_sec now) in
                      if 0 < u
                      then (let (r, p1) = cool_bucket now key (from_unix u) p in
                            if cr_applied r
                            then publish now
                                   ((new_event EventRateLimit)\<lparr> ev_bucket_key := bk_key b,
                                      ev_cooldown_until := Some (cr_actual r),
                                      ev_message := ''exhausted cooldown enforced'' \<rparr>) p1
                            else p1)
                      else p))))"

text \<open>
  \<open>o1\<close> and \<open>o2\<close> are the orders of the two loops over the buckets, \<open>oa key\<close> the order in which the
  second loop looks for an active member of the bucket \<open>key\<close>.
\<close>

definition cleanup ::
  "map_order \<Rightarrow> gotime \<Rightarrow> string list \<Rightarrow> string list \<Rightarrow> (string \<Rightarrow> string list) \<Rightarrow> pool \<Rightarrow> pool" where
  "cleanup mo now o1 o2 oa p0 =
     (let p = snd (reloadStateLocked mo now p0);
          p1 = foldl (expire_bucket now) p o1
      in foldl (exhaust_bucket now oa) p1 o2)"

definition purge_tick :: "gotime \<Rightarrow> pool \<Rightarrow> pool" where
  "purge_tick now p =
     (let s1 = snd (PurgeExpiredSessionBindings now [] (p_store p));
          s2 = snd (PurgeExpiredStainlessBindings now [] s1);
          s3 = snd (PurgeExpiredOAuthSessions now [] s2);
          s4 = snd (PurgeExpiredRefreshLocks now [] s3)
      in p\<lparr> p_store := s4 \<rparr>)"

section \<open>Drivers\<close>

definition set_driver_member :: "gotime \<Rightarrow> pool \<Rightarrow> string \<Rightarrow> pool" where
  "set_driver_member now p i =
     (case p_accounts p i of
        None \<Rightarrow> p
      | Some a \<Rightarrow>
          (let (a', p1) = refreshBucketKeyLocked now a (bucketStateLocked p a) p;
               p2 = p1\<lparr> p_accounts := (p_accounts p1)(i \<mapsto> a') \<rparr>;
               p3 = snd (ensureBucketLocked now a' p2)
           in if ac_bucket_key a' \<noteq> ac_bucket_key a then persistLocked i p3 else p3))"

definition SetDrivers ::
  "map_order \<Rightarrow> gotime \<Rightarrow> string list \<Rightarrow> (provider \<rightharpoonup> scheduler_driver) \<Rightarrow> pool \<Rightarrow> pool" where
  "SetDrivers mo now ord drvs p0 =
     (let p = (snd (reloadStateLocked mo now p0))\<lparr> p_drivers := Some drvs \<rparr> in
      foldl (set_driver_member now) p ord)"

end
