(* ===== verification/PoolSchedule.thy ===== *)
theory PoolSchedule
  imports PoolObserve
begin

text \<open>
  Route acquisition (src/internal/pool/pool_schedule.go): which accounts are available for a request,
  the choice of a bucket by weighted in-flight load and of the least recently used account in it,
  affinity claims, and the lease that an attempt holds.  Scores are exact real numbers (the code's
  are floats).  The nil lease of the code is the absence of a lease.
\<close>

datatype route_error =
    RefreshFailed err
  | ErrAffinityOwnerMissing
  | ErrAffinityOwnerUnavailable "route_error option"
  | BoundAccountExcluded string
  | BoundBucketExcluded string
  | BoundAccountUnavailable string string
  | BoundAccountNotFound string
  | NoAvailableAccounts

record exclusion =
  ex_account_id :: string
  ex_bucket_key :: string

definition ExcludeAccount :: "string \<Rightarrow> exclusion" where
  "ExcludeAccount i = \<lparr> ex_account_id = i, ex_bucket_key = [] \<rparr>"

definition ExcludeBucket :: "string \<Rightarrow> exclusion" where
  "ExcludeBucket k = \<lparr> ex_account_id = [], ex_bucket_key = k \<rparr>"

record route_request =
  rq_exclusions :: "exclusion list"
  rq_model :: string
  rq_surface :: surface
  rq_hard_account_id :: string
  rq_affinity_key :: string
  rq_continuity :: affinity_continuity

record attempt_lease =
  ls_load_key :: route_load_key
  ls_account :: account
  ls_affinity_key :: string
  ls_claim :: "nat option"
  ls_accepted :: bool
  ls_terminal :: bool

record surface_availability =
  sa_native :: bool
  sa_compat :: bool

record bucket_candidate =
  bc_key :: string
  bc_accts :: "account list"
  bc_priority :: int
  bc_class :: string

section \<open>Availability\<close>

definition structurallyAvailableLocked :: "pool \<Rightarrow> account \<Rightarrow> gotime \<Rightarrow> bool" where
  "structurallyAvailableLocked p a now =
     (if ac_status a \<noteq> StatusActive then False
      else if ac_cell_id a \<noteq> [] \<and> \<not> cellAvailableLocked (cellForAccountLocked p a) now then False
      else if (case bucketCooldownLocked p a of Some t \<Rightarrow> now < t | None \<Rightarrow> False) then False
      else True)"

definition isAvailable :: "pool \<Rightarrow> account \<Rightarrow> scheduler_driver \<Rightarrow> string \<Rightarrow> gotime \<Rightarrow> bool" where
  "isAvailable p a drv model now \<longleftrightarrow>
     structurallyAvailableLocked p a now
     \<and> cap_eligible (sd_assess drv (bucketStateLocked p a) model now)"

definition cellLane :: "egress_cell option \<Rightarrow> surface" where
  "cellLane oc =
     (case oc of
        None \<Rightarrow> []
      | Some c \<Rightarrow>
          (case cl_labels c of
             None \<Rightarrow> []
           | Some m \<Rightarrow> (if m = [] then []
                       else NormalizeSurface (case map_of m ''lane'' of Some v \<Rightarrow> v | None \<Rightarrow> []))))"

definition allowedOnSurfaceLocked :: "pool \<Rightarrow> account \<Rightarrow> surface \<Rightarrow> bool" where
  "allowedOnSurfaceLocked p a surface0 =
     (let surface = NormalizeSurface surface0 in
      if surface = [] \<or> surface = SurfaceAll then True
      else if ac_provider a = ProviderClaude then surface = SurfaceNative \<or> surface = SurfaceCompat
      else (let cell = cellForAccountLocked p a; lane = cellLane cell in
            if surface = SurfaceCompat then
              (if cell = None then False else lane = SurfaceCompat \<or> lane = SurfaceAll)
            else if surface = SurfaceNative then
              (if cell = None then True else lane = [] \<or> lane = SurfaceNative \<or> lane = SurfaceAll)
            else False))"

definition matchesProvider :: "account \<Rightarrow> provider \<Rightarrow> bool" where
  "matchesProvider a prov \<longleftrightarrow> ac_provider a = prov"

definition timeOrZero :: "gotime option \<Rightarrow> gotime" where
  "timeOrZero t = (case t of None \<Rightarrow> zero_time | Some x \<Rightarrow> x)"

definition capacityAssessmentLocked ::
  "pool \<Rightarrow> account \<Rightarrow> scheduler_driver \<Rightarrow> string \<Rightarrow> gotime \<Rightarrow> capacity_assessment" where
  "capacityAssessmentLocked p a drv model now =
     (let asm = sd_assess drv (bucketStateLocked p a) model now in
      if ac_priority_mode a \<noteq> ''auto'' then asm\<lparr>cap_priority := ac_priority a\<rparr> else asm)"

definition surface_availability_of :: "pool \<Rightarrow> gotime \<Rightarrow> account \<Rightarrow> surface_availability" where
  "surface_availability_of p now a =
     (case (case p_drivers p of None \<Rightarrow> None | Some ds \<Rightarrow> ds (ac_provider a)) of
        None \<Rightarrow> \<lparr> sa_native = False, sa_compat = False \<rparr>
      | Some drv \<Rightarrow>
          \<lparr> sa_native = allowedOnSurfaceLocked p a SurfaceNative \<and> isAvailable p a drv [] now,
            sa_compat = allowedOnSurfaceLocked p a SurfaceCompat \<and> isAvailable p a drv [] now \<rparr>)"

definition SurfaceAvailabilityMap ::
  "map_order \<Rightarrow> gotime \<Rightarrow> pool \<Rightarrow> (string \<rightharpoonup> surface_availability) \<times> pool" where
  "SurfaceAvailabilityMap mo now p0 =
     (case refreshState mo now p0 of
        (Some e, p) \<Rightarrow> (Map.empty, p)
      | (None, p) \<Rightarrow>
          (foldl (\<lambda>m a. m(ac_id a \<mapsto> surface_availability_of p now a)) Map.empty
             (entries (p_accounts p) (mo_accounts mo)), p))"

section \<open>Choosing a bucket and an account\<close>

definition bucketPriorityWeight :: "int \<Rightarrow> real" where
  "bucketPriorityWeight pri = 1 + sqrt (of_int (if pri < 0 then 0 else pri))"

definition load_of :: "pool \<Rightarrow> route_load_key \<Rightarrow> route_load" where
  "load_of p k = (case p_loads p k of None \<Rightarrow> \<lparr> ld_inflight = 0, ld_last_assigned = 0 \<rparr> | Some l \<Rightarrow> l)"

definition candidate_load :: "pool \<Rightarrow> provider \<Rightarrow> bucket_candidate \<Rightarrow> route_load" where
  "candidate_load p prov c = load_of p (prov, bc_key c, bc_class c)"

definition candidate_score :: "pool \<Rightarrow> provider \<Rightarrow> bucket_candidate \<Rightarrow> real" where
  "candidate_score p prov c =
     of_int (ld_inflight (candidate_load p prov c) + 1) / bucketPriorityWeight (bc_priority c)"

definition better_candidate :: "pool \<Rightarrow> provider \<Rightarrow> bucket_candidate \<Rightarrow> bucket_candidate \<Rightarrow> bool" where
  "better_candidate p prov c best \<longleftrightarrow>
     candidate_score p prov c < candidate_score p prov best
     \<or> (candidate_score p prov c = candidate_score p prov best
        \<and> (ld_last_assigned (candidate_load p prov c) < ld_last_assigned (candidate_load p prov best)
           \<or> (ld_last_assigned (candidate_load p prov c) = ld_last_assigned (candidate_load p prov best)
              \<and> bc_key c < bc_key best)))"

text \<open>The slice is never empty where the code calls it; indexing an empty one panics (\<open>None\<close>).\<close>

definition leastInflightCandidateLocked ::
  "pool \<Rightarrow> provider \<Rightarrow> bucket_candidate list \<Rightarrow> bucket_candidate option" where
  "leastInflightCandidateLocked p prov cs =
     (case cs of
        [] \<Rightarrow> None
      | c # rest \<Rightarrow> Some (foldl (\<lambda>best d. if better_candidate p prov d best then d else best) c rest))"

definition leastRecentlyUsed :: "account list \<Rightarrow> account option" where
  "leastRecentlyUsed as =
     (case as of
        [] \<Rightarrow> None
      | a # rest \<Rightarrow>
          Some (foldl (\<lambda>best c. if timeOrZero (ac_last_used_at c) < timeOrZero (ac_last_used_at best)
                                then c else best) a rest))"

section \<open>Leases\<close>

text \<open>
  The account handed out with its cell: \<open>cellAvailableLocked\<close> has just written the default status
  into that cell.
\<close>

definition mark_cell :: "account \<Rightarrow> pool \<Rightarrow> pool" where
  "mark_cell a p =
     (case cellForAccountLocked p a of
        None \<Rightarrow> p
      | Some c \<Rightarrow> p\<lparr> p_cells := (p_cells p)(ac_cell_id a \<mapsto> default_status c) \<rparr>)"

definition leaseAccountLocked ::
  "account \<Rightarrow> string \<Rightarrow> string \<Rightarrow> nat option \<Rightarrow> pool \<Rightarrow> (account \<times> attempt_lease) \<times> pool" where
  "leaseAccountLocked a cls affinityKey claim p0 =
     (let p = mark_cell a p0;
          key = (ac_provider a, bucketKeyLocked a, cls);
          l = load_of p key;
          s = p_seq p + 1;
          p1 = p\<lparr> p_seq := s,
                  p_loads := (p_loads p)(key \<mapsto>
                    \<lparr> ld_inflight = ld_inflight l + 1, ld_last_assigned = s \<rparr>) \<rparr>;
          projected = projectAccountLocked p1 a
      in ((projected,
           \<lparr> ls_load_key = key, ls_account = projected, ls_affinity_key = affinityKey,
             ls_claim = claim, ls_accepted = False, ls_terminal = False \<rparr>), p1))"

definition releaseAffinityClaimLocked :: "string \<Rightarrow> nat option \<Rightarrow> pool \<Rightarrow> pool" where
  "releaseAffinityClaimLocked key claim p =
     (if key = [] \<or> claim = None \<or> p_claims p key \<noteq> claim then p
      else p\<lparr> p_claims := (p_claims p)(key := None), p_closed := p_closed p @ [the claim] \<rparr>)"

definition SetSessionBinding ::
  "gotime \<Rightarrow> string \<Rightarrow> account \<Rightarrow> duration \<Rightarrow> pool \<Rightarrow> err option \<times> pool" where
  "SetSessionBinding now sessionUUID a ttl p =
     (if ac_subject a = [] then (Some ''session binding target missing provider identity'', p)
      else (None, p\<lparr> p_store := SaveSessionBinding
              \<lparr> sb_session_uuid = sessionUUID, sb_provider = ac_provider a, sb_subject = ac_subject a,
                sb_created_at = now, sb_last_used_at = now, sb_expires_at = now + ttl \<rparr> (p_store p) \<rparr>))"

definition Accept ::
  "gotime \<Rightarrow> duration \<Rightarrow> attempt_lease \<Rightarrow> pool \<Rightarrow> err option \<times> attempt_lease \<times> pool" where
  "Accept now ttl l p =
     (if ls_terminal l then (Some ''attempt lease already finished'', l, p)
      else if ls_accepted l then (None, l, p)
      else if ls_affinity_key l \<noteq> [] then
        (case SetSessionBinding now (ls_affinity_key l) (ls_account l) ttl p of
           (Some e, p1) \<Rightarrow> (Some e, l, releaseAffinityClaimLocked (ls_affinity_key l) (ls_claim l) p1)
         | (None, p1) \<Rightarrow>
             (None, l\<lparr>ls_accepted := True\<rparr>,
              releaseAffinityClaimLocked (ls_affinity_key l) (ls_claim l) p1))
      else (None, l\<lparr>ls_accepted := True\<rparr>,
            releaseAffinityClaimLocked (ls_affinity_key l) (ls_claim l) p))"

definition finish :: "attempt_lease \<Rightarrow> pool \<Rightarrow> attempt_lease \<times> pool" where
  "finish l p =
     (if ls_terminal l then (l, p)
      else (let p1 = (case p_loads p (ls_load_key l) of
                        None \<Rightarrow> p
                      | Some ld \<Rightarrow>
                          (if 0 < ld_inflight ld
                           then p\<lparr> p_loads := (p_loads p)(ls_load_key l \<mapsto>
                                     ld\<lparr>ld_inflight := ld_inflight ld - 1\<rparr>) \<rparr>
                           else p))
            in (l\<lparr>ls_terminal := True\<rparr>,
                releaseAffinityClaimLocked (ls_affinity_key l) (ls_claim l) p1)))"

definition Finish :: "attempt_lease \<Rightarrow> pool \<Rightarrow> attempt_lease \<times> pool" where
  "Finish l p = finish l p"

definition Abort :: "attempt_lease \<Rightarrow> pool \<Rightarrow> attempt_lease \<times> pool" where
  "Abort l p = finish l p"

section \<open>Acquiring a route\<close>

definition excludedAccounts :: "exclusion list \<Rightarrow> string set" where
  "excludedAccounts exs = set (filter (\<lambda>i. i \<noteq> []) (map ex_account_id exs))"

definition excludedBuckets :: "exclusion list \<Rightarrow> string set" where
  "excludedBuckets exs = set (filter (\<lambda>k. k \<noteq> []) (map ex_bucket_key exs))"

definition candidate_account ::
  "pool \<Rightarrow> scheduler_driver \<Rightarrow> route_request \<Rightarrow> gotime \<Rightarrow> account \<Rightarrow> bool" where
  "candidate_account p drv req now a \<longleftrightarrow>
     ac_id a \<notin> excludedAccounts (rq_exclusions req)
     \<and> matchesProvider a (sd_provider drv)
     \<and> bucketKeyLocked a \<notin> excludedBuckets (rq_exclusions req)
     \<and> allowedOnSurfaceLocked p a (rq_surface req)
     \<and> structurallyAvailableLocked p a now
     \<and> cap_eligible (capacityAssessmentLocked p a drv (rq_model req) now)"

definition add_candidate ::
  "pool \<Rightarrow> scheduler_driver \<Rightarrow> route_request \<Rightarrow> gotime \<Rightarrow>
   (string \<times> bucket_candidate) list \<Rightarrow> account \<Rightarrow> (string \<times> bucket_candidate) list" where
  "add_candidate p drv req now bs a =
     (if \<not> candidate_account p drv req now a then bs
      else (let asm = capacityAssessmentLocked p a drv (rq_model req) now;
                key = bucketKeyLocked a;
                pri = cap_priority asm
            in case map_of bs key of
                 None \<Rightarrow> AList.update key
                   \<lparr> bc_key = key, bc_accts = [a], bc_priority = pri, bc_class = cap_class asm \<rparr> bs
               | Some c \<Rightarrow> AList.update key
                   (c\<lparr> bc_priority := (if bc_priority c < pri then pri else bc_priority c),
                       bc_accts := bc_accts c @ [a] \<rparr>) bs))"

definition candidates ::
  "pool \<Rightarrow> scheduler_driver \<Rightarrow> route_request \<Rightarrow> gotime \<Rightarrow> string list \<Rightarrow> bucket_candidate list" where
  "candidates p drv req now ord =
     sort_key bc_key
       (map snd (foldl (add_candidate p drv req now) [] (entries (p_accounts p) ord)))"

definition acquire_scan ::
  "gotime \<Rightarrow> string list \<Rightarrow> scheduler_driver \<Rightarrow> route_request \<Rightarrow> nat option \<Rightarrow> pool \<Rightarrow>
   (route_error + account \<times> attempt_lease) \<times> pool" where
  "acquire_scan now ord drv req claim p =
     (case leastInflightCandidateLocked p (sd_provider drv) (candidates p drv req now ord) of
        None \<Rightarrow> (Inl NoAvailableAccounts, p)
      | Some chosen \<Rightarrow>
          (case leastRecentlyUsed (bc_accts chosen) of
             None \<Rightarrow> (Inl NoAvailableAccounts, p)
           | Some selected \<Rightarrow>
               (case leaseAccountLocked selected (bc_class chosen) (rq_affinity_key req) claim p of
                  (r, p1) \<Rightarrow> (Inr r, p1))))"

definition acquireLocked ::
  "gotime \<Rightarrow> string list \<Rightarrow> scheduler_driver \<Rightarrow> route_request \<Rightarrow> string \<Rightarrow> nat option \<Rightarrow> pool \<Rightarrow>
   (route_error + account \<times> attempt_lease) \<times> pool" where
  "acquireLocked now ord drv req bound claim p =
     (if bound = [] then acquire_scan now ord drv req claim p
      else (case p_accounts p bound of
              None \<Rightarrow> (Inl (BoundAccountNotFound bound), p)
            | Some a \<Rightarrow>
                (if ac_provider a \<noteq> sd_provider drv then acquire_scan now ord drv req claim p
                 else if ac_id a \<in> excludedAccounts (rq_exclusions req)
                 then (Inl (BoundAccountExcluded bound), p)
                 else if bucketKeyLocked a \<in> excludedBuckets (rq_exclusions req)
                 then (Inl (BoundBucketExcluded (bucketKeyLocked a)), p)
                 else if allowedOnSurfaceLocked p a (rq_surface req) \<and> structurallyAvailableLocked p a now
                         \<and> cap_eligible (capacityAssessmentLocked p a drv (rq_model req) now)
                 then (case leaseAccountLocked a
                              (cap_class (capacityAssessmentLocked p a drv (rq_model req) now))
                              (rq_affinity_key req) claim p of
                         (r, p1) \<Rightarrow> (Inr r, p1))
                 else (Inl (BoundAccountUnavailable bound (ac_status a)), p))))"

definition accountIDForBindingLocked :: "string list \<Rightarrow> session_binding \<Rightarrow> pool \<Rightarrow> string" where
  "accountIDForBindingLocked ord b p =
     (case List.find (\<lambda>a. ac_provider a = sb_provider b \<and> ac_subject a = sb_subject b)
             (entries (p_accounts p) ord) of
        Some a \<Rightarrow> ac_id a
      | None \<Rightarrow> [])"

text \<open>
  One turn of the loop of \<open>AcquireRoute\<close>: it returns an error or a lease, or it has to wait until the
  pending claim of another request is closed and then starts over.
\<close>

datatype route_result =
    RouteError route_error
  | RouteLeased account attempt_lease
  | RouteWait nat

text \<open>A new claim, registered under the affinity key.\<close>

definition issue_claim :: "string \<Rightarrow> pool \<Rightarrow> pool" where
  "issue_claim key p =
     p\<lparr> p_claims := (p_claims p)(key \<mapsto> p_next_claim p), p_next_claim := p_next_claim p + 1 \<rparr>"

definition scan_or_wait ::
  "gotime \<Rightarrow> string list \<Rightarrow> scheduler_driver \<Rightarrow> route_request \<Rightarrow> pool \<Rightarrow> route_result \<times> pool" where
  "scan_or_wait now ord drv req p =
     (if rq_affinity_key req = [] then
        (case acquireLocked now ord drv req [] None p of
           (Inl e, p1) \<Rightarrow> (RouteError e, p1)
         | (Inr (a, l), p1) \<Rightarrow> (RouteLeased a l, p1))
      else (case p_claims p (rq_affinity_key req) of
              Some pending \<Rightarrow> (RouteWait pending, p)
            | None \<Rightarrow>
                (let claim = Some (p_next_claim p);
                     p1 = issue_claim (rq_affinity_key req) p
                 in case acquireLocked now ord drv req [] claim p1 of
                      (Inl e, p2) \<Rightarrow>
                        (RouteError e, releaseAffinityClaimLocked (rq_affinity_key req) claim p2)
                    | (Inr (a, l), p2) \<Rightarrow> (RouteLeased a l, p2))))"

text \<open>The section of the loop that holds the lock; \<open>binding\<close> is what was read before.\<close>

definition route_section ::
  "gotime \<Rightarrow> string list \<Rightarrow> scheduler_driver \<Rightarrow> route_request \<Rightarrow> session_binding option \<Rightarrow> pool \<Rightarrow>
   route_result \<times> pool" where
  "route_section now ord drv req binding0 p =
     (let require = (rq_continuity req = AffinityRequire);
          pinned = p_accounts p (rq_hard_account_id req)
      in if require \<and> rq_affinity_key req = []
            \<and> (case pinned of None \<Rightarrow> True | Some a \<Rightarrow> ac_provider a \<noteq> sd_provider drv)
         then (RouteError ErrAffinityOwnerMissing, p)
         else if (case binding0 of Some b \<Rightarrow> sb_provider b \<noteq> sd_provider drv | None \<Rightarrow> False) \<and> require
         then (RouteError (ErrAffinityOwnerUnavailable None), p)
         else (let binding = (case binding0 of
                                Some b \<Rightarrow> (if sb_provider b \<noteq> sd_provider drv then None else Some b)
                              | None \<Rightarrow> None);
                   boundID = (if rq_hard_account_id req \<noteq> [] then rq_hard_account_id req
                              else (case binding of Some b \<Rightarrow> accountIDForBindingLocked ord b p
                                                  | None \<Rightarrow> []))
               in if rq_hard_account_id req = [] \<and> binding \<noteq> None \<and> boundID = [] \<and> require
                  then (RouteError (ErrAffinityOwnerUnavailable None), p)
                  else (let missing = (rq_affinity_key req \<noteq> [] \<and> binding = None \<and> require) in
                        if boundID \<noteq> [] then
                          (case acquireLocked now ord drv req boundID None p of
                             (Inr (a, l), p1) \<Rightarrow> (RouteLeased a l, p1)
                           | (Inl e, p1) \<Rightarrow>
                               (if rq_hard_account_id req \<noteq> [] then (RouteError e, p1)
                                else if require then (RouteError (ErrAffinityOwnerUnavailable (Some e)), p1)
                                else if missing then (RouteError ErrAffinityOwnerMissing, p1)
                                else scan_or_wait now ord drv req p1))
                        else if missing then (RouteError ErrAffinityOwnerMissing, p)
                        else scan_or_wait now ord drv req p)))"

definition AcquireRoute_turn ::
  "map_order \<Rightarrow> gotime \<Rightarrow> string list \<Rightarrow> scheduler_driver \<Rightarrow> route_request \<Rightarrow> pool \<Rightarrow>
   route_result \<times> pool" where
  "AcquireRoute_turn mo now ord drv req p0 =
     (case refreshState mo now p0 of
        (Some e, p) \<Rightarrow> (RouteError (RefreshFailed e), p)
      | (None, p) \<Rightarrow>
          (let binding = (if rq_hard_account_id req = [] \<and> rq_affinity_key req \<noteq> []
                          then GetSessionBinding now (rq_affinity_key req) (p_store p) else None)
           in route_section now ord drv req binding p))"

definition PickForSurface ::
  "map_order \<Rightarrow> gotime \<Rightarrow> string list \<Rightarrow> scheduler_driver \<Rightarrow> exclusion list \<Rightarrow> string \<Rightarrow> string \<Rightarrow>
   surface \<Rightarrow> pool \<Rightarrow> route_result \<times> pool" where
  "PickForSurface mo now ord drv exs model bound surface p0 =
     (case AcquireRoute_turn mo now ord drv
             \<lparr> rq_exclusions = exs, rq_model = model, rq_surface = surface,
               rq_hard_account_id = bound, rq_affinity_key = [], rq_continuity = AffinityNone \<rparr> p0 of
        (RouteLeased a l, p) \<Rightarrow> (let (l', p') = Finish l p in (RouteLeased a l', p'))
      | (r, p) \<Rightarrow> (r, p))"

definition Pick ::
  "map_order \<Rightarrow> gotime \<Rightarrow> string list \<Rightarrow> scheduler_driver \<Rightarrow> exclusion list \<Rightarrow> string \<Rightarrow> string \<Rightarrow>
   pool \<Rightarrow> route_result \<times> pool" where
  "Pick mo now ord drv exs model bound p0 =
     PickForSurface mo now ord drv exs model bound SurfaceNative p0"

end
