(* ===== verification/PoolWf.thy ===== *)
theory PoolWf
  imports PoolSchedule
begin

text \<open>
  The well-formedness of the pool: every account, cell and bucket is stored under its own key, in
  memory and in the store.  Every operation of the pool keeps it; the reload lemmas say what the
  in-memory maps are after the reload that starts an operation.
\<close>

definition pool_wf :: "pool \<Rightarrow> bool" where
  "pool_wf p \<longleftrightarrow> store_wf (p_store p)
     \<and> (\<forall>k a. p_accounts p k = Some a \<longrightarrow> ac_id a = k)
     \<and> (\<forall>k c. p_cells p k = Some c \<longrightarrow> cl_id c = k)
     \<and> (\<forall>k b. p_buckets p k = Some b \<longrightarrow> bk_key b = k)"

lemma pool_wfI:
  assumes "store_wf (p_store p)" and "\<And>k a. p_accounts p k = Some a \<Longrightarrow> ac_id a = k"
    and "\<And>k c. p_cells p k = Some c \<Longrightarrow> cl_id c = k" and "\<And>k b. p_buckets p k = Some b \<Longrightarrow> bk_key b = k"
  shows "pool_wf p"
  using assms by (simp add: pool_wf_def)

lemma pool_wf_account: "pool_wf p \<Longrightarrow> p_accounts p k = Some a \<Longrightarrow> ac_id a = k"
  by (simp add: pool_wf_def)

lemma pool_wf_bucket: "pool_wf p \<Longrightarrow> p_buckets p k = Some b \<Longrightarrow> bk_key b = k"
  by (simp add: pool_wf_def)

lemma pool_wf_cell: "pool_wf p \<Longrightarrow> p_cells p k = Some c \<Longrightarrow> cl_id c = k"
  by (simp add: pool_wf_def)

section \<open>Small steps\<close>

lemma bk_key_default_state [simp]: "bk_key (default_state b) = bk_key b"
  by (simp add: default_state_def)

lemma bk_cooldown_default_state [simp]: "bk_cooldown_until (default_state b) = bk_cooldown_until b"
  by (simp add: default_state_def)

lemma persistable_simps [simp]:
  "bk_key (persistable now b) = bk_key b"
  "bk_cooldown_until (persistable now b) = bk_cooldown_until b"
  "bk_provider (persistable now b) = bk_provider b"
  by (simp_all add: persistable_def Let_def default_state_def)

lemma bk_key_new_bucket [simp]: "bk_key (new_bucket now k pr) = k"
  by (simp add: new_bucket_def)

lemma bk_cooldown_new_bucket [simp]: "bk_cooldown_until (new_bucket now k pr) = None"
  by (simp add: new_bucket_def)

lemma refreshBucketKey_account:
  "fst (refreshBucketKeyLocked now a st p) = a\<lparr>ac_bucket_key := derivedBucketKeyLocked p a st\<rparr>"
  by (simp add: refreshBucketKeyLocked_def Let_def split: option.splits)

section \<open>The reload\<close>

lemma add_default_bucket_keep: "m k = Some b \<Longrightarrow> add_default_bucket now m a k = Some b"
  by (auto simp: add_default_bucket_def Let_def)

lemma foldl_add_default_keep: "m k = Some b \<Longrightarrow> foldl (add_default_bucket now) m as k = Some b"
  by (induction as arbitrary: m) (auto simp: add_default_bucket_keep)

lemma foldl_add_default_has:
  "a \<in> set as \<Longrightarrow> foldl (add_default_bucket now) m as (bucketKeyLocked a) \<noteq> None"
proof (induction as arbitrary: m)
  case (Cons x as)
  show ?case
  proof (cases "a = x")
    case True
    have "\<exists>b. add_default_bucket now m x (bucketKeyLocked x) = Some b"
      by (cases "m (bucketKeyLocked x)") (auto simp: add_default_bucket_def Let_def)
    with True show ?thesis by (auto dest: foldl_add_default_keep)
  next
    case False
    with Cons show ?thesis by simp
  qed
qed simp

lemma foldl_add_default_key:
  "(\<And>k b. m k = Some b \<Longrightarrow> bk_key b = k) \<Longrightarrow> foldl (add_default_bucket now) m as k = Some b \<Longrightarrow> bk_key b = k"
proof (induction as arbitrary: m)
  case (Cons x as)
  have "\<And>k b. add_default_bucket now m x k = Some b \<Longrightarrow> bk_key b = k"
    using Cons.prems(1) by (auto simp: add_default_bucket_def Let_def split: if_splits)
  from Cons.IH [OF this] Cons.prems(2) show ?case by simp
qed simp

lemma foldl_add_default_new:
  assumes "foldl (add_default_bucket now) m as k = Some b" and "m k = None"
  shows "\<exists>a \<in> set as. k = bucketKeyLocked a \<and> b = new_bucket now k (ac_provider a)"
  using assms
proof (induction as arbitrary: m)
  case (Cons x as)
  show ?case
  proof (cases "add_default_bucket now m x k")
    case None
    with Cons show ?thesis by auto
  next
    case (Some b')
    then have "b' = b"
      using Cons.prems(1) foldl_add_default_keep [where m = "add_default_bucket now m x" and k = k] by fastforce
    moreover have "k = bucketKeyLocked x \<and> b' = new_bucket now k (ac_provider x)"
      using Some Cons.prems(2) by (auto simp: add_default_bucket_def Let_def split: if_splits)
    ultimately show ?thesis by auto
  qed
qed simp

lemma reload_error:
  "fst (reloadStateLocked mo now p) \<noteq> None \<Longrightarrow> snd (reloadStateLocked mo now p) = p"
  by (simp add: reloadStateLocked_def Let_def split: sum.splits)

lemma reload_ok_iff: "fst (reloadStateLocked mo now p) = None \<longleftrightarrow> ListAccountsErr (p_store p) = None"
  by (simp add: reloadStateLocked_def Let_def ListAccounts_def split: option.splits)

lemma reload_frame [simp, frame_simps]:
  "p_store (snd (reloadStateLocked mo now p)) = p_store p"
  "p_server_err (snd (reloadStateLocked mo now p)) = p_server_err p"
  "p_bus (snd (reloadStateLocked mo now p)) = p_bus p"
  "p_on_auth_failure (snd (reloadStateLocked mo now p)) = p_on_auth_failure p"
  "p_auth_failures (snd (reloadStateLocked mo now p)) = p_auth_failures p"
  "p_drivers (snd (reloadStateLocked mo now p)) = p_drivers p"
  "p_loads (snd (reloadStateLocked mo now p)) = p_loads p"
  "p_seq (snd (reloadStateLocked mo now p)) = p_seq p"
  "p_claims (snd (reloadStateLocked mo now p)) = p_claims p"
  "p_next_claim (snd (reloadStateLocked mo now p)) = p_next_claim p"
  "p_closed (snd (reloadStateLocked mo now p)) = p_closed p"
  by (simp_all add: reloadStateLocked_def Let_def split: sum.splits)

definition loadable :: "map_order \<Rightarrow> pool \<Rightarrow> bool" where
  "loadable mo p \<longleftrightarrow> ListAccountsErr (p_store p) = None \<and> store_wf (p_store p) \<and> order_ok (p_store p) mo"

lemma reload_accounts:
  assumes "loadable mo p"
  shows "p_accounts (snd (reloadStateLocked mo now p)) = map_option HydrateRuntime \<circ> s_accounts (p_store p)"
  using assms map_by_entries [of "s_accounts (p_store p)" "mo_accounts mo" ac_id HydrateRuntime]
  by (simp add: loadable_def reloadStateLocked_def Let_def ListAccounts_def order_ok_def store_wf_def)

lemma reload_cells:
  assumes "loadable mo p"
  shows "p_cells (snd (reloadStateLocked mo now p)) = map_option CellHydrateRuntime \<circ> s_cells (p_store p)"
  using assms map_by_entries [of "s_cells (p_store p)" "mo_cells mo" cl_id CellHydrateRuntime]
  by (simp add: loadable_def reloadStateLocked_def Let_def ListAccounts_def ListEgressCells_def
      order_ok_def store_wf_def)

lemma reload_bucket_map:
  assumes "loadable mo p"
  shows "p_buckets (snd (reloadStateLocked mo now p)) =
    foldl (add_default_bucket now) (map_option default_state \<circ> s_buckets (p_store p))
      (entries (p_accounts (snd (reloadStateLocked mo now p))) (mo_accounts mo))"
  using assms map_by_entries [of "s_buckets (p_store p)" "mo_buckets mo" bk_key default_state]
  by (simp add: loadable_def reloadStateLocked_def Let_def ListAccounts_def ListQuotaBuckets_def
      order_ok_def store_wf_def)

lemma reload_bucket_stored:
  assumes "loadable mo p" and "s_buckets (p_store p) k = Some b"
  shows "p_buckets (snd (reloadStateLocked mo now p)) k = Some (default_state b)"
  unfolding reload_bucket_map [OF assms(1)]
  by (rule foldl_add_default_keep) (simp add: assms(2))

lemma reload_bucket_new:
  assumes "loadable mo p" and "s_buckets (p_store p) k = None"
    and "p_buckets (snd (reloadStateLocked mo now p)) k = Some b"
  shows "bk_cooldown_until b = None \<and> bk_state_json b = ''{}''"
  using foldl_add_default_new [OF assms(3) [unfolded reload_bucket_map [OF assms(1)]]] assms(2)
  by (auto simp: new_bucket_def)

text \<open>After a reload every account has a bucket.\<close>

lemma reload_has_bucket:
  assumes "loadable mo p" and "p_accounts (snd (reloadStateLocked mo now p)) i = Some a"
  shows "\<exists>b. p_buckets (snd (reloadStateLocked mo now p)) (bucketKeyLocked a) = Some b"
proof -
  have "i \<in> set (mo_accounts mo)"
    using assms reload_accounts [OF assms(1), of now]
    by (auto simp: loadable_def order_ok_def ranges_def dom_def)
  with assms(2) have "a \<in> set (entries (p_accounts (snd (reloadStateLocked mo now p))) (mo_accounts mo))"
    by (auto simp: set_entries)
  from foldl_add_default_has [OF this, of now] show ?thesis
    unfolding reload_bucket_map [OF assms(1)] by blast
qed

lemma pool_wf_reload:
  assumes "pool_wf p"
  shows "pool_wf (snd (reloadStateLocked mo now p))"
proof (cases "ListAccounts (mo_accounts mo) (p_store p)")
  case (Inl e)
  with assms show ?thesis by (simp add: reloadStateLocked_def)
next
  case (Inr accts)
  have "\<And>k b. map_by bk_key (map default_state bs) k = Some b \<Longrightarrow> bk_key b = k" for bs
    by (auto dest: map_by_Some)
  with Inr assms show ?thesis
    unfolding pool_wf_def reloadStateLocked_def Let_def
    by (auto dest: map_by_Some foldl_add_default_key [rotated])
qed

lemma store_wf_pool: "pool_wf p \<Longrightarrow> store_wf (p_store p)"
  by (simp add: pool_wf_def)

end
