(* ===== verification/PoolInvariant.thy ===== *)
theory PoolInvariant
  imports PoolWf
begin

text \<open>
  The locale \<open>pool_invariant\<close>: a predicate that the primitive writes of the pool keep is kept by every
  operation of the pool, proved once.  It is interpreted twice: with the well-formedness, and with the
  frame that says that the account, cell and effect operations never touch the route loads, the
  sequence number or the affinity claims.
\<close>

locale pool_invariant =
  fixes I :: "pool \<Rightarrow> bool"
  assumes I_wf: "I p \<Longrightarrow> pool_wf p"
    and I_bucket: "I p \<Longrightarrow> bk_key b = k \<Longrightarrow> I (p\<lparr> p_buckets := (p_buckets p)(k \<mapsto> b) \<rparr>)"
    and I_drop_bucket: "I p \<Longrightarrow> I (p\<lparr> p_buckets := (p_buckets p)(k := None) \<rparr>)"
    and I_account: "I p \<Longrightarrow> ac_id a = i \<Longrightarrow> I (p\<lparr> p_accounts := (p_accounts p)(i \<mapsto> a) \<rparr>)"
    and I_drop_account: "I p \<Longrightarrow> I (p\<lparr> p_accounts := (p_accounts p)(i := None) \<rparr>)"
    and I_cell: "I p \<Longrightarrow> cl_id c = i \<Longrightarrow> I (p\<lparr> p_cells := (p_cells p)(i \<mapsto> c) \<rparr>)"
    and I_store: "I p \<Longrightarrow> store_wf s \<Longrightarrow> I (p\<lparr> p_store := s \<rparr>)"
    and I_bus: "I p \<Longrightarrow> I (p\<lparr> p_bus := eb \<rparr>)"
    and I_server_err: "I p \<Longrightarrow> I (p\<lparr> p_server_err := m \<rparr>)"
    and I_auth: "I p \<Longrightarrow> I (p\<lparr> p_auth_failures := fs \<rparr>)"
    and I_drivers: "I p \<Longrightarrow> I (p\<lparr> p_drivers := ds \<rparr>)"
    and I_reload: "I p \<Longrightarrow> I (snd (reloadStateLocked mo now p))"
begin

lemma I_store_wf: "I p \<Longrightarrow> store_wf (p_store p)"
  by (rule store_wf_pool) (rule I_wf)

lemma I_account_id: "I p \<Longrightarrow> p_accounts p i = Some a \<Longrightarrow> ac_id a = i"
  by (rule pool_wf_account [OF I_wf])

lemma I_bucket_key: "I p \<Longrightarrow> p_buckets p k = Some b \<Longrightarrow> bk_key b = k"
  by (rule pool_wf_bucket [OF I_wf])

lemma I_cell_id: "I p \<Longrightarrow> p_cells p k = Some b \<Longrightarrow> cl_id b = k"
  by (rule pool_wf_cell [OF I_wf])

lemma I_write_bucket: "I p \<Longrightarrow> bk_key b = k \<Longrightarrow> I (write_bucket k b p)"
  by (simp add: write_bucket_def I_bucket)

lemma I_persistBucket: "I p \<Longrightarrow> I (persistBucketLocked now k p)"
  by (cases "p_buckets p k")
    (simp_all add: persistBucketLocked_def Let_def write_bucket_def I_bucket_key I_store_wf
      I_bucket I_store store_wf_intros)

lemma I_publish: "I p \<Longrightarrow> I (publish now e p)"
  by (simp add: publish_def I_bus)

lemma I_clear: "I p \<Longrightarrow> bk_key b = k \<Longrightarrow> I (clear_bucket_cooldown now k b p)"
  by (simp add: clear_bucket_cooldown_def I_persistBucket I_write_bucket)

lemma I_ensure_pair: "ensureBucketLocked now a p = (ob, q) \<Longrightarrow> I p \<Longrightarrow> I q"
  by (auto simp: ensureBucketLocked_def Let_def I_persistBucket I_write_bucket
      split: option.splits if_splits)

lemma ensure_key:
  "ensureBucketLocked now a p = (Some b, q) \<Longrightarrow> I p \<Longrightarrow> bk_key b = bucketKeyLocked a"
  by (frule (1) I_ensure_pair)
    (auto simp: ensureBucketLocked_def Let_def I_bucket_key split: option.splits if_splits)

lemma I_refresh_pair: "refreshBucketKeyLocked now a st p = (a', q) \<Longrightarrow> I p \<Longrightarrow> I q"
  by (auto simp: refreshBucketKeyLocked_def Let_def I_persistBucket I_write_bucket I_drop_bucket
      I_store store_wf_intros I_store_wf split: option.splits if_splits)

lemma refresh_id: "refreshBucketKeyLocked now a st p = (a', q) \<Longrightarrow> ac_id a' = ac_id a"
  using refreshBucketKey_account [of now a st p] by simp

lemma I_persistLocked: "I p \<Longrightarrow> I (persistLocked i p)"
  by (cases "p_accounts p i")
    (simp_all add: persistLocked_def Let_def I_account_id I_account I_store I_store_wf store_wf_intros)

lemma I_reload_pair: "reloadStateLocked mo now p = (oe, q) \<Longrightarrow> I p \<Longrightarrow> I q"
  using I_reload [of p mo now] by simp

section \<open>Accounts\<close>

lemma I_ClearCooldown: "I p \<Longrightarrow> I (ClearCooldown mo now i p)"
  unfolding ClearCooldown_def Let_def
  by (auto split: option.splits prod.splits dest: I_ensure_pair ensure_key
      intro!: I_publish I_clear I_reload)

lemma copy_back_id [simp]: "ac_id (copy_back a b) = ac_id a"
  by (simp add: copy_back_def)

lemma I_Update: "I p \<Longrightarrow> I (snd (Update mo now i fn p))"
proof -
  assume I: "I p"
  obtain oe q where r: "reloadStateLocked mo now p = (oe, q)" by fastforce
  with I have q: "I q" by (blast dest: I_reload_pair)
  show ?thesis
  proof (cases "oe = None \<and> p_accounts q i \<noteq> None")
    case False
    with q show ?thesis by (auto simp: Update_def r split: option.splits)
  next
    case True
    then obtain a where a: "p_accounts q i = Some a" by blast
    define pr where "pr = fn (projectAccountLocked q a)"
    define a1 where "a1 = copy_back a pr"
    define st where "st = state_or_empty (ac_provider_state_json pr)"
    obtain a2 p2 where r2: "refreshBucketKeyLocked now a1 st (q\<lparr>p_accounts := (p_accounts q)(i \<mapsto> a1)\<rparr>) = (a2, p2)"
      by fastforce
    have id: "ac_id a1 = i" "ac_id a2 = i"
      using I_account_id [OF q a] refresh_id [OF r2] by (simp_all add: a1_def)
    have "I p2" by (rule I_refresh_pair [OF r2]) (simp add: I_account q id)
    then have p3: "I (p2\<lparr>p_accounts := (p_accounts p2)(i \<mapsto> a2)\<rparr>)" by (simp add: I_account id)
    obtain ob p4 where r4: "ensureBucketLocked now a2 (p2\<lparr>p_accounts := (p_accounts p2)(i \<mapsto> a2)\<rparr>) = (ob, p4)"
      by fastforce
    have p4: "I p4" by (rule I_ensure_pair [OF r4 p3])
    have upd: "Update mo now i fn p = (None, persistLocked i (case ob of None \<Rightarrow> p4
        | Some b \<Rightarrow> if bk_state_json b \<noteq> st \<or> \<not> sameTime (bk_cooldown_until b) (ac_cooldown_until pr)
           then persistBucketLocked now (bucketKeyLocked a2) (write_bucket (bucketKeyLocked a2)
              (b\<lparr>bk_state_json := st, bk_cooldown_until := ac_cooldown_until pr, bk_updated_at := now\<rparr>) p4)
           else p4))"
      using r a r2 r4 True unfolding a1_def st_def pr_def by (simp add: Update_def Let_def)
    show ?thesis
    proof (cases ob)
      case (Some b)
      then have "bk_key b = bucketKeyLocked a2" using ensure_key r4 p3 by blast
      with Some p4 show ?thesis by (simp add: upd I_persistLocked I_persistBucket I_write_bucket)
    qed (simp add: upd I_persistLocked p4)
  qed
qed

lemma I_Add: "I p \<Longrightarrow> I (snd (Add mo now a0 p))"
proof -
  assume I: "I p"
  obtain oe q where r: "reloadStateLocked mo now p = (oe, q)" by fastforce
  with I have q: "I q" by (blast dest: I_reload_pair)
  show ?thesis
  proof (cases oe)
    case (Some e)
    with q show ?thesis by (simp add: Add_def r)
  next
    case None
    define st where "st = state_or_empty (ac_provider_state_json a0)"
    obtain a1 p1 where r1: "refreshBucketKeyLocked now a0 st q = (a1, p1)" by fastforce
    obtain ob p2 where r2: "ensureBucketLocked now a1 p1 = (ob, p2)" by fastforce
    have p2: "I p2" using q r1 r2 by (blast dest: I_refresh_pair I_ensure_pair)
    define p3 where "p3 = (case ob of None \<Rightarrow> p2
        | Some b \<Rightarrow> persistBucketLocked now (bucketKeyLocked a1) (write_bucket (bucketKeyLocked a1)
           (b\<lparr>bk_state_json := st, bk_cooldown_until := ac_cooldown_until a1, bk_updated_at := now\<rparr>) p2))"
    have p3: "I p3"
    proof (cases ob)
      case (Some b)
      have "I p1" using q r1 by (blast dest: I_refresh_pair)
      then have "bk_key b = bucketKeyLocked a1" using ensure_key r2 Some by blast
      with Some p2 show ?thesis by (simp add: p3_def I_persistBucket I_write_bucket)
    qed (simp add: p3_def p2)
    have "store_wf (snd (SaveAccount (PersistRuntime a1) (p_store p3)))"
      using p3 by (simp add: I_store_wf store_wf_intros)
    then have p4: "ac_id a = ac_id a1 \<Longrightarrow> I (p3\<lparr>p_store := snd (SaveAccount (PersistRuntime a1) (p_store p3)),
        p_accounts := (p_accounts p3)(ac_id a1 \<mapsto> a)\<rparr>)" for a
      using I_account [OF I_store [OF p3]] by simp
    obtain e s' where sv: "SaveAccount (PersistRuntime a1) (p_store p3) = (e, s')" by fastforce
    have add: "Add mo now a0 p = (case e of Some err \<Rightarrow> (Some err, p3)
        | None \<Rightarrow> (None, p3\<lparr>p_store := s', p_accounts := (p_accounts p3)(ac_id a1 \<mapsto>
           (HydrateRuntime (PersistRuntime a1))\<lparr>ac_cooldown_until := None, ac_provider_state_json := []\<rparr>)\<rparr>))"
      using None r r1 r2 sv unfolding st_def p3_def by (cases e) (simp_all add: Add_def Let_def)
    show ?thesis
    proof (cases e)
      case (Some err)
      with p3 show ?thesis by (simp add: add)
    next
      case None
      with p4 sv show ?thesis by (simp add: add)
    qed
  qed
qed

lemma I_Delete: "I p \<Longrightarrow> I (snd (Delete mo now i p))"
proof -
  assume I: "I p"
  obtain oe q where r: "reloadStateLocked mo now p = (oe, q)" by fastforce
  with I have q: "I q" by (blast dest: I_reload_pair)
  obtain e st where d: "DeleteAccount i (p_store q) = (e, st)" by fastforce
  have st: "store_wf st" using d store_wf_DeleteAccount [OF I_store_wf [OF q], of i] by simp
  define p1 where "p1 = q\<lparr>p_store := st, p_accounts := (p_accounts q)(i := None)\<rparr>"
  have p1: "I p1" using I_drop_account [OF I_store [OF q st]] by (simp add: p1_def)
  have p2: "I (p1\<lparr>p_buckets := (p_buckets p1)(k := None), p_store := DeleteQuotaBucket k (p_store p1)\<rparr>)" for k
    using I_store [OF I_drop_bucket [OF p1, of k] store_wf_DeleteQuotaBucket [OF I_store_wf [OF p1], of k]]
    by simp
  show ?thesis
  proof (cases "oe = None \<and> p_accounts q i \<noteq> None \<and> e = None")
    case False
    with q d r show ?thesis by (auto simp: Delete_def split: option.splits)
  next
    case True
    then obtain a where a: "p_accounts q i = Some a" by blast
    have "Delete mo now i p = (None, if \<not> bucketHasMembersLocked (mo_accounts mo) (bucketKeyLocked a) p1
        then p1\<lparr>p_buckets := (p_buckets p1)(bucketKeyLocked a := None),
                 p_store := DeleteQuotaBucket (bucketKeyLocked a) (p_store p1)\<rparr> else p1)"
      using True a d r unfolding p1_def by (simp add: Delete_def Let_def)
    with p1 p2 show ?thesis by simp
  qed
qed

lemma I_StoreTokens: "I p \<Longrightarrow> I (snd (StoreTokens mo now i tok rt ex p))"
proof -
  assume I: "I p"
  obtain oe q where r: "reloadStateLocked mo now p = (oe, q)" by fastforce
  with I have q: "I q" by (blast dest: I_reload_pair)
  show ?thesis
  proof (cases "oe = None \<and> p_accounts q i \<noteq> None")
    case False
    with q show ?thesis by (auto simp: StoreTokens_def r split: option.splits)
  next
    case True
    then obtain a where a: "p_accounts q i = Some a" by blast
    define a1 where "a1 = a\<lparr>ac_access_token_enc := tok, ac_refresh_token_enc := rt, ac_expires_at := ex,
      ac_last_refresh_at := Some now, ac_status := StatusActive, ac_error_message := []\<rparr>"
    have p1: "I (q\<lparr>p_accounts := (p_accounts q)(i \<mapsto> a1)\<rparr>)"
      by (simp add: I_account q a1_def I_account_id [OF q a])
    obtain ob p2 where r2: "ensureBucketLocked now a1 (q\<lparr>p_accounts := (p_accounts q)(i \<mapsto> a1)\<rparr>) = (ob, p2)"
      by fastforce
    have p2: "I p2" by (rule I_ensure_pair [OF r2 p1])
    show ?thesis
    proof (cases ob)
      case (Some b)
      then have "bk_key b = bucketKeyLocked a1" using ensure_key r2 p1 by blast
      with Some p2 r a r2 True show ?thesis
        by (auto simp: StoreTokens_def Let_def a1_def intro!: I_persistLocked I_clear)
    qed (use p2 r a r2 True in \<open>auto simp: StoreTokens_def Let_def a1_def intro!: I_persistLocked\<close>)
  qed
qed

lemma I_recover_member: "I (snd np) \<Longrightarrow> I (snd (recover_member now key np i))"
  by (auto simp: recover_member_def Let_def I_account_id split: option.splits
      intro!: I_publish I_persistLocked I_account)

lemma I_RecoverBucket: "I p \<Longrightarrow> I (snd (RecoverBucket mo now ord i p))"
proof -
  assume I: "I p"
  let ?q = "snd (reloadStateLocked mo now p)"
  have q: "I ?q" using I by (rule I_reload)
  show ?thesis
  proof (cases "p_accounts ?q i")
    case None
    with q show ?thesis by (simp add: RecoverBucket_def Let_def)
  next
    case (Some a)
    obtain n p1 where f: "foldl (recover_member now (bucketKeyLocked a)) (0, ?q) ord = (n, p1)" by fastforce
    have "I (snd (foldl (recover_member now (bucketKeyLocked a)) (0, ?q) ord))"
      by (rule foldl_invariant [where P = "\<lambda>np. I (snd np)"]) (simp_all add: q I_recover_member)
    with f have "I p1" by simp
    with Some f show ?thesis
      by (auto simp: RecoverBucket_def Let_def I_bucket_key I_clear split: option.splits)
  qed
qed

lemma I_MarkError: "I p \<Longrightarrow> I (MarkError mo now i msg p)"
proof -
  assume "I p"
  then have "I (snd (reloadStateLocked mo now p))" by (rule I_reload)
  then show ?thesis
    by (auto simp: MarkError_def Let_def I_account_id split: option.splits intro!: I_persistLocked I_account)
qed

section \<open>Cells\<close>

lemma cl_id_clone: "cloneCell oc = Some c \<Longrightarrow> \<exists>c'. oc = Some c' \<and> cl_id c = cl_id c'"
  by (auto simp: cloneCell_def)

lemma I_SaveCell: "I p \<Longrightarrow> I (snd (SaveCell mo now oc p))"
proof -
  assume I: "I p"
  have upd: "I q \<Longrightarrow> cl_id d = cl_id c \<Longrightarrow>
      I (q\<lparr>p_store := SaveEgressCell c (p_store q), p_cells := (p_cells q)(cl_id c \<mapsto> d)\<rparr>)" for q c d
    using I_cell [OF I_store [OF _ store_wf_SaveEgressCell [OF I_store_wf]]] by simp
  show ?thesis
  proof (cases "cloneCell oc")
    case None
    with I show ?thesis by (simp add: SaveCell_def)
  next
    case (Some c0)
    obtain oe q where r: "reloadStateLocked mo now p = (oe, q)" by fastforce
    with I have q: "I q" by (blast dest: I_reload_pair)
    define c1 where "c1 = CellPersistRuntime c0"
    define c2 where "c2 = (if cl_state_json c1 = [] then c1\<lparr>cl_state_json := ''{}''\<rparr> else c1)"
    define c3 where "c3 = (if is_zero (cl_created_at c2) then c2\<lparr>cl_created_at := now\<rparr> else c2)"
    define c4 where "c4 = c3\<lparr>cl_updated_at := now\<rparr>"
    have "snd (SaveCell mo now oc p) = (if cl_id c0 = [] then p else case oe of Some e \<Rightarrow> q
        | None \<Rightarrow> q\<lparr>p_store := SaveEgressCell c4 (p_store q),
             p_cells := (p_cells q)(cl_id c4 \<mapsto> CellHydrateRuntime c4)\<rparr>)"
      using Some r unfolding c4_def c3_def c2_def c1_def by (cases oe) (simp_all add: SaveCell_def Let_def)
    with I q upd [OF q, of "CellHydrateRuntime c4" c4] show ?thesis by (simp split: option.splits)
  qed
qed

lemma cl_id_persistable [simp]: "cl_id (persistable_cell now c) = cl_id c"
  by (simp add: persistable_cell_def Let_def)

lemma I_persistCell: "I p \<Longrightarrow> I (persistCellLocked now i p)"
proof -
  assume I: "I p"
  show ?thesis
  proof (cases "p_cells p i")
    case (Some c)
    have "I (p\<lparr>p_cells := (p_cells p)(i \<mapsto> persistable_cell now c)\<rparr>)"
      by (simp add: I_cell I I_cell_id [OF I Some])
    from I_store [OF this store_wf_SaveEgressCell [OF I_store_wf [OF this]]] Some show ?thesis
      by (simp add: persistCellLocked_def Let_def)
  qed (simp add: persistCellLocked_def I)
qed

lemma I_applyCellCooldown: "I p \<Longrightarrow> I (snd (applyCellCooldownLocked now i t p))"
  by (auto simp: applyCellCooldownLocked_def cellLocked_def I_cell_id
      split: option.splits if_splits intro!: I_persistCell I_cell)

lemma I_CooldownCell: "I p \<Longrightarrow> I (snd (CooldownCell mo now i t m p))"
  using I_applyCellCooldown [OF I_reload, of p now i t mo now]
  by (auto simp: CooldownCell_def Let_def I_publish split: prod.splits)

lemma I_CooldownCellForAccount: "I p \<Longrightarrow> I (snd (CooldownCellForAccount mo now i t m p))"
  by (simp add: CooldownCellForAccount_def Let_def I_CooldownCell)

lemma I_ClearCellCooldown: "I p \<Longrightarrow> I (snd (ClearCellCooldown mo now i p))"
proof -
  assume "I p"
  then have q: "I (snd (reloadStateLocked mo now p))" by (rule I_reload)
  then show ?thesis
    by (auto simp: ClearCellCooldown_def Let_def cellLocked_def I_cell_id [OF q]
        split: option.splits if_splits intro!: I_publish I_persistCell I_cell)
qed

section \<open>Effects\<close>

lemma applyBucketCooldown_key:
  "applyBucketCooldown (Some b) t = (r, Some b') \<Longrightarrow> bk_key b' = bk_key b"
  by (auto simp: applyBucketCooldown_def split: option.splits if_splits)

lemma applyBucketCooldown_None: "applyBucketCooldown None t = (r, ob) \<Longrightarrow> ob = None"
  by (simp add: applyBucketCooldown_def)

lemma I_cool_bucket: "I p \<Longrightarrow> cool_bucket now k t p = (r, q) \<Longrightarrow> I q"
  by (cases "p_buckets p k")
    (auto simp: cool_bucket_def I_bucket_key split: prod.splits option.splits
      dest: applyBucketCooldown_None applyBucketCooldown_key intro!: I_persistBucket I_write_bucket)

lemma I_touch: "(\<And>a. ac_id (f a) = ac_id a) \<Longrightarrow> I p \<Longrightarrow> I (touch_account i f p)"
  by (simp add: touch_account_def I_account I_account_id split: option.splits)

lemma I_server_error: "I p \<Longrightarrow> I (snd (server_error now i k bk p))"
  by (auto simp: server_error_def Let_def split: prod.splits
      intro!: I_server_err dest: I_cool_bucket [rotated])

lemma I_apply_effect: "I p \<Longrightarrow> I (snd (snd (apply_effect now i k bk e p)))"
proof -
  assume I: "I p"
  have t: "I (touch_account i (\<lambda>a. a\<lparr>ac_last_used_at := Some now\<rparr>) p)"
    "I (touch_account i (\<lambda>a. a\<lparr>ac_status := StatusBlocked, ac_error_message := m\<rparr>) p)" for m
    by (rule I_touch, simp, rule I)+
  show ?thesis
  proof (cases "ef_kind e")
    case EffectServerError
    with I_server_error [OF t(1), of now i k bk] show ?thesis
      by (auto simp: apply_effect_def Let_def split: prod.splits)
  qed (use I t in \<open>auto simp: apply_effect_def Let_def split: prod.splits
      dest: I_cool_bucket [rotated] intro!: I_auth\<close>)
qed

lemma I_rekey: "I (snd acc) \<Longrightarrow> I (snd (rekey_member now st acc i))"
proof -
  assume I: "I (snd acc)"
  show ?thesis
  proof (cases "p_accounts (snd acc) i")
    case (Some m)
    obtain m' p1 where r: "refreshBucketKeyLocked now m st (snd acc) = (m', p1)" by fastforce
    have "I p1" by (rule I_refresh_pair [OF r I])
    moreover have "ac_id m' = i" using refresh_id [OF r] I_account_id [OF I Some] by simp
    ultimately show ?thesis using Some r by (simp add: rekey_member_def Let_def I_account)
  qed (simp add: rekey_member_def I)
qed

lemma I_apply_state: "I p \<Longrightarrow> I (snd (apply_state now ord i k st p))"
proof -
  assume I: "I p"
  have "I (case p_buckets p k of None \<Rightarrow> p | Some b \<Rightarrow> persistBucketLocked now k
      (write_bucket k (b\<lparr>bk_state_json := st, bk_updated_at := now\<rparr>) p))"
    using I by (auto simp: I_bucket_key intro!: I_persistBucket I_write_bucket split: option.splits)
  then show ?thesis
    using I by (auto simp: apply_state_def Let_def split: option.splits
        intro!: foldl_invariant [where P = "\<lambda>acc. I (snd acc)"] I_rekey)
qed

lemma I_Observe: "I p \<Longrightarrow> I (Observe mo now om ords i e p)"
proof -
  assume "I p"
  then have q: "I (snd (reloadStateLocked mo now p))" (is "I ?q") by (rule I_reload)
  show ?thesis
  proof (cases "p_accounts ?q i")
    case None
    with q show ?thesis by (simp add: Observe_def Let_def)
  next
    case (Some a)
    obtain ob p1 where r1: "ensureBucketLocked now a ?q = (ob, p1)" by fastforce
    define bk where "bk = (case ob of Some b \<Rightarrow> bk_key b | None \<Rightarrow> [])"
    define p2 where "p2 = reset_errors bk e p1"
    obtain ev mark p3 where r3: "apply_effect now i (bucketKeyLocked a) bk e p2 = (ev, mark, p3)"
      by (metis prod_cases3)
    obtain rk p4 where r4: "update_state now om i (bucketKeyLocked a) e p3 = (rk, p4)"
      by fastforce
    have "I p1" by (rule I_ensure_pair [OF r1 q])
    then have "I p2" by (simp add: p2_def reset_errors_def I_server_err)
    then have "I p3" using I_apply_effect [of p2 now i "bucketKeyLocked a" bk e] r3 by simp
    then have "I p4" using r4 I_apply_state [of p3 now om i "bucketKeyLocked a" "ef_updated_state e"]
      by (auto simp: update_state_def split: if_splits)
    then have p5: "I (emit now i ev p4)" by (simp add: emit_def I_publish split: option.splits)
    have "Observe mo now om ords i e p = persist_marked ((if mark then {i} else {}) \<union> set rk) ords (emit now i ev p4)"
      using Some r1 r3 r4 unfolding Observe_def Let_def bk_def p2_def by simp
    also have "I \<dots>"
      unfolding persist_marked_def
      by (rule foldl_invariant [where P = I]) (auto simp: p5 intro: I_persistLocked)
    finally show ?thesis .
  qed
qed

lemma I_expire: "I p \<Longrightarrow> I (expire_bucket now p k)"
  by (auto simp: expire_bucket_def I_bucket_key split: option.splits intro!: I_publish I_clear)

lemma I_exhaust: "I p \<Longrightarrow> I (exhaust_bucket now oa p k)"
  by (auto simp: exhaust_bucket_def Let_def split: option.splits prod.splits
      intro!: I_publish dest: I_cool_bucket [rotated])

lemma I_cleanup: "I p \<Longrightarrow> I (cleanup mo now o1 o2 oa p)"
proof -
  assume "I p"
  then have "I (snd (reloadStateLocked mo now p))" by (rule I_reload)
  then have "I (foldl (expire_bucket now) (snd (reloadStateLocked mo now p)) o1)"
    by (rule foldl_invariant [where P = I]) (rule I_expire)
  then have "I (foldl (exhaust_bucket now oa) (foldl (expire_bucket now) (snd (reloadStateLocked mo now p)) o1) o2)"
    by (rule foldl_invariant [where P = I]) (rule I_exhaust)
  then show ?thesis by (simp add: cleanup_def Let_def)
qed

lemma I_purge_tick: "I p \<Longrightarrow> I (purge_tick now p)"
  unfolding purge_tick_def Let_def
  by (rule I_store)
    (auto simp: PurgeExpiredSessionBindings_def PurgeExpiredStainlessBindings_def
      PurgeExpiredOAuthSessions_def PurgeExpiredRefreshLocks_def store_wf_def dest: I_store_wf)

lemma I_set_driver_member: "I p \<Longrightarrow> I (set_driver_member now p i)"
proof -
  assume I: "I p"
  show ?thesis
  proof (cases "p_accounts p i")
    case (Some a)
    obtain a' p1 where r: "refreshBucketKeyLocked now a (bucketStateLocked p a) p = (a', p1)" by fastforce
    have "I p1" by (rule I_refresh_pair [OF r I])
    moreover have "ac_id a' = i" using refresh_id [OF r] I_account_id [OF I Some] by simp
    ultimately have "I (p1\<lparr>p_accounts := (p_accounts p1)(i \<mapsto> a')\<rparr>)" by (simp add: I_account)
    then have "I (snd (ensureBucketLocked now a' (p1\<lparr>p_accounts := (p_accounts p1)(i \<mapsto> a')\<rparr>)))"
      by (rule I_ensure_pair [OF prod.collapse [symmetric]])
    with Some r show ?thesis by (simp add: set_driver_member_def Let_def I_persistLocked)
  qed (simp add: set_driver_member_def I)
qed

lemma I_SetDrivers: "I p \<Longrightarrow> I (SetDrivers mo now ord ds p)"
proof -
  assume "I p"
  then have "I ((snd (reloadStateLocked mo now p))\<lparr>p_drivers := Some ds\<rparr>)" by (intro I_drivers I_reload)
  then have "I (foldl (set_driver_member now) ((snd (reloadStateLocked mo now p))\<lparr>p_drivers := Some ds\<rparr>) ord)"
    by (rule foldl_invariant [where P = I]) (rule I_set_driver_member)
  then show ?thesis by (simp add: SetDrivers_def Let_def)
qed

lemmas I_operations =
  I_ClearCooldown I_Update I_Add I_Delete I_StoreTokens I_RecoverBucket I_MarkError I_SaveCell
  I_CooldownCell I_CooldownCellForAccount I_ClearCellCooldown I_Observe I_cleanup I_purge_tick
  I_SetDrivers

end

section \<open>Instances\<close>

interpretation wfi: pool_invariant pool_wf
  by unfold_locales (auto simp: pool_wf_reload, auto simp: pool_wf_def)

definition same_routing :: "pool \<Rightarrow> pool \<Rightarrow> bool" where
  "same_routing p q \<longleftrightarrow> p_loads q = p_loads p \<and> p_seq q = p_seq p \<and> p_claims q = p_claims p
     \<and> p_next_claim q = p_next_claim p \<and> p_closed q = p_closed p"

interpretation routing: pool_invariant "\<lambda>q. pool_wf q \<and> same_routing p q" for p
  by unfold_locales (auto simp: same_routing_def pool_wf_reload, auto simp: pool_wf_def)

end
