(* ===== verification/Effects.thy ===== *)
theory Effects
  imports PoolInvariant
begin

text \<open>
  What \<open>Observe\<close> and the clean-up do to the shared bucket and to the account, in memory and in the
  store: cooldowns are joined and written through, the circuit breaker trips on the third server
  error in a row, a block is durable and takes the account out of scheduling, and the clean-up only
  lifts cooldowns that are over.
\<close>

section \<open>Frames of the small steps\<close>

lemma publish_frame [simp, frame_simps]:
  "p_accounts (publish now e p) = p_accounts p" "p_buckets (publish now e p) = p_buckets p"
  "p_cells (publish now e p) = p_cells p" "p_store (publish now e p) = p_store p"
  "p_server_err (publish now e p) = p_server_err p" "p_drivers (publish now e p) = p_drivers p"
  "p_auth_failures (publish now e p) = p_auth_failures p"
  by (simp_all add: publish_def)

lemma write_bucket_frame [simp, frame_simps]:
  "p_accounts (write_bucket k b p) = p_accounts p" "p_buckets (write_bucket k b p) = (p_buckets p)(k \<mapsto> b)"
  "p_cells (write_bucket k b p) = p_cells p" "p_store (write_bucket k b p) = p_store p"
  "p_server_err (write_bucket k b p) = p_server_err p" "p_drivers (write_bucket k b p) = p_drivers p"
  "p_auth_failures (write_bucket k b p) = p_auth_failures p" "p_bus (write_bucket k b p) = p_bus p"
  "p_on_auth_failure (write_bucket k b p) = p_on_auth_failure p"
  by (simp_all add: write_bucket_def)

lemma persistBucket_frame [simp, frame_simps]:
  "p_accounts (persistBucketLocked now k p) = p_accounts p"
  "p_cells (persistBucketLocked now k p) = p_cells p"
  "p_server_err (persistBucketLocked now k p) = p_server_err p"
  "p_drivers (persistBucketLocked now k p) = p_drivers p"
  "p_auth_failures (persistBucketLocked now k p) = p_auth_failures p"
  "p_bus (persistBucketLocked now k p) = p_bus p"
  "p_on_auth_failure (persistBucketLocked now k p) = p_on_auth_failure p"
  "s_accounts (p_store (persistBucketLocked now k p)) = s_accounts (p_store p)"
  "s_cells (p_store (persistBucketLocked now k p)) = s_cells (p_store p)"
  "SaveAccountErr (p_store (persistBucketLocked now k p)) = SaveAccountErr (p_store p)"
  by (simp_all add: persistBucketLocked_def Let_def split: option.splits)

lemma persistBucket_present:
  assumes "p_buckets p k = Some b"
  shows "p_buckets (persistBucketLocked now k p) = (p_buckets p)(k \<mapsto> persistable now b)"
    and "s_buckets (p_store (persistBucketLocked now k p)) = (s_buckets (p_store p))(bk_key b \<mapsto> persistable now b)"
  using assms by (simp_all add: persistBucketLocked_def Let_def)

lemma persistLocked_frame [simp, frame_simps]:
  "p_buckets (persistLocked i p) = p_buckets p" "p_cells (persistLocked i p) = p_cells p"
  "s_buckets (p_store (persistLocked i p)) = s_buckets (p_store p)"
  "p_server_err (persistLocked i p) = p_server_err p" "p_drivers (persistLocked i p) = p_drivers p"
  "SaveAccountErr (p_store (persistLocked i p)) = SaveAccountErr (p_store p)"
  "p_bus (persistLocked i p) = p_bus p"
  "p_auth_failures (persistLocked i p) = p_auth_failures p"
  by (simp_all add: persistLocked_def Let_def split: option.splits)

text \<open>Persisting an account changes nothing about it but its JSON columns.\<close>

lemma persistLocked_account:
  "p_accounts (persistLocked i p) j = (if i = j then map_option PersistRuntime (p_accounts p j) else p_accounts p j)"
  by (simp add: persistLocked_def Let_def split: option.splits)

lemma persistLocked_saves:
  assumes "p_accounts p i = Some a" and "ac_id a = i" and "SaveAccountErr (p_store p) = None"
  shows "s_accounts (p_store (persistLocked i p)) = (s_accounts (p_store p))(i \<mapsto> PersistRuntime a)"
  using assms by (simp add: persistLocked_def Let_def)

section \<open>Joining cooldowns\<close>

definition cooldown_join :: "gotime option \<Rightarrow> gotime \<Rightarrow> gotime" where
  "cooldown_join old t = (case old of None \<Rightarrow> t | Some u \<Rightarrow> max u t)"

lemma applyBucketCooldown_join:
  "applyBucketCooldown (Some b) t =
     (\<lparr> cr_applied = (cooldown_join (bk_cooldown_until b) t = t), cr_actual = cooldown_join (bk_cooldown_until b) t \<rparr>,
      Some (b\<lparr>bk_cooldown_until := Some (cooldown_join (bk_cooldown_until b) t)\<rparr>))"
  by (cases b) (auto simp: applyBucketCooldown_def cooldown_join_def max_def split: option.splits)

definition cooled :: "gotime \<Rightarrow> gotime \<Rightarrow> quota_bucket \<Rightarrow> quota_bucket" where
  "cooled now t b =
     persistable now (b\<lparr>bk_cooldown_until := Some (cooldown_join (bk_cooldown_until b) t), bk_updated_at := now\<rparr>)"

lemma cooled_simps [simp]:
  "bk_key (cooled now t b) = bk_key b"
  "bk_cooldown_until (cooled now t b) = Some (cooldown_join (bk_cooldown_until b) t)"
  by (simp_all add: cooled_def)

lemma cool_bucket_result:
  assumes "p_buckets p k = Some b"
  shows "fst (cool_bucket now k t p) =
      \<lparr> cr_applied = (cooldown_join (bk_cooldown_until b) t = t), cr_actual = cooldown_join (bk_cooldown_until b) t \<rparr>"
    and "p_buckets (snd (cool_bucket now k t p)) = (p_buckets p)(k \<mapsto> cooled now t b)"
    and "s_buckets (p_store (snd (cool_bucket now k t p))) = (s_buckets (p_store p))(bk_key b \<mapsto> cooled now t b)"
  using assms
  by (simp_all add: cool_bucket_def applyBucketCooldown_join persistBucket_present cooled_def)

lemma cool_bucket_frame [simp, frame_simps]:
  "p_accounts (snd (cool_bucket now k t p)) = p_accounts p"
  "p_cells (snd (cool_bucket now k t p)) = p_cells p"
  "p_server_err (snd (cool_bucket now k t p)) = p_server_err p"
  "p_drivers (snd (cool_bucket now k t p)) = p_drivers p"
  "p_auth_failures (snd (cool_bucket now k t p)) = p_auth_failures p"
  "p_on_auth_failure (snd (cool_bucket now k t p)) = p_on_auth_failure p"
  "p_bus (snd (cool_bucket now k t p)) = p_bus p"
  "s_accounts (p_store (snd (cool_bucket now k t p))) = s_accounts (p_store p)"
  "SaveAccountErr (p_store (snd (cool_bucket now k t p))) = SaveAccountErr (p_store p)"
  by (simp_all add: cool_bucket_def split: prod.splits option.splits)

lemma touch_frame [simp, frame_simps]:
  "p_buckets (touch_account i f p) = p_buckets p" "p_store (touch_account i f p) = p_store p"
  "p_server_err (touch_account i f p) = p_server_err p" "p_drivers (touch_account i f p) = p_drivers p"
  "p_cells (touch_account i f p) = p_cells p"
  by (simp_all add: touch_account_def split: option.splits)

lemma touch_accounts:
  "p_accounts (touch_account i f p) j = (if i = j then map_option f (p_accounts p j) else p_accounts p j)"
  by (simp add: touch_account_def split: option.splits)

section \<open>The parts of Observe\<close>

text \<open>What \<open>Observe\<close> has in hand after the reload: the account and its bucket.\<close>

definition observed :: "map_order \<Rightarrow> gotime \<Rightarrow> pool \<Rightarrow> string \<Rightarrow> account \<Rightarrow> quota_bucket \<Rightarrow> bool" where
  "observed mo now p0 i a b \<longleftrightarrow> loadable mo p0 \<and> pool_wf p0
     \<and> p_accounts (snd (reloadStateLocked mo now p0)) i = Some a
     \<and> p_buckets (snd (reloadStateLocked mo now p0)) (bucketKeyLocked a) = Some b"

lemma observed_exists:
  "loadable mo p0 \<Longrightarrow> pool_wf p0 \<Longrightarrow> p_accounts (snd (reloadStateLocked mo now p0)) i = Some a \<Longrightarrow>
   \<exists>b. observed mo now p0 i a b"
  using reload_has_bucket by (fastforce simp: observed_def)

lemma ensureBucket_present: "p_buckets p (bucketKeyLocked a) = Some b \<Longrightarrow> ensureBucketLocked now a p = (Some b, p)"
  by (simp add: ensureBucketLocked_def Let_def)

lemma observed_key: "observed mo now p0 i a b \<Longrightarrow> bk_key b = bucketKeyLocked a"
  using pool_wf_bucket [OF pool_wf_reload] by (fastforce simp: observed_def)

lemma observed_id: "observed mo now p0 i a b \<Longrightarrow> ac_id a = i"
  using pool_wf_account [OF pool_wf_reload] by (fastforce simp: observed_def)

text \<open>The state after the counter reset.\<close>

definition obs_start :: "map_order \<Rightarrow> gotime \<Rightarrow> string \<Rightarrow> effect \<Rightarrow> pool \<Rightarrow> pool" where
  "obs_start mo now key e p0 = reset_errors key e (snd (reloadStateLocked mo now p0))"

lemma obs_start_frame [simp]:
  "p_accounts (obs_start mo now k e p0) = p_accounts (snd (reloadStateLocked mo now p0))"
  "p_buckets (obs_start mo now k e p0) = p_buckets (snd (reloadStateLocked mo now p0))"
  "p_cells (obs_start mo now k e p0) = p_cells (snd (reloadStateLocked mo now p0))"
  "p_store (obs_start mo now k e p0) = p_store p0"
  "p_drivers (obs_start mo now k e p0) = p_drivers p0"
  "p_server_err (obs_start mo now k e p0) =
     (if ef_kind e \<noteq> EffectServerError then (p_server_err p0)(k := None) else p_server_err p0)"
  by (simp_all add: obs_start_def reset_errors_def)

lemma Observe_unfold:
  assumes ob: "observed mo now p0 i a b"
    and ae: "apply_effect now i (bucketKeyLocked a) (bucketKeyLocked a) e (obs_start mo now (bucketKeyLocked a) e p0)
             = (ev, mark, p3)"
    and st: "update_state now om i (bucketKeyLocked a) e p3 = (rk, p4)"
  shows "Observe mo now om ords i e p0 =
    persist_marked ((if mark then {i} else {}) \<union> set rk) ords (emit now i ev p4)"
proof -
  have "ensureBucketLocked now a (snd (reloadStateLocked mo now p0)) = (Some b, snd (reloadStateLocked mo now p0))"
    using ob by (simp add: observed_def ensureBucket_present)
  then show ?thesis
    using ob ae st observed_key [OF ob]
    unfolding Observe_def obs_start_def Let_def observed_def by simp
qed

lemma persist_marked_frame [simp, frame_simps]:
  "p_buckets (persist_marked S ords p) = p_buckets p"
  "s_buckets (p_store (persist_marked S ords p)) = s_buckets (p_store p)"
  "p_server_err (persist_marked S ords p) = p_server_err p"
  "p_bus (persist_marked S ords p) = p_bus p"
  "p_drivers (persist_marked S ords p) = p_drivers p"
  "p_auth_failures (persist_marked S ords p) = p_auth_failures p"
  unfolding persist_marked_def by (induction ords arbitrary: p) auto

lemma emit_frame [simp, frame_simps]:
  "p_buckets (emit now i ev p) = p_buckets p" "p_store (emit now i ev p) = p_store p"
  "p_accounts (emit now i ev p) = p_accounts p" "p_server_err (emit now i ev p) = p_server_err p"
  "p_drivers (emit now i ev p) = p_drivers p" "p_auth_failures (emit now i ev p) = p_auth_failures p"
  by (simp_all add: emit_def split: option.splits)

lemma PersistRuntime_idem [simp]: "PersistRuntime (PersistRuntime a) = PersistRuntime a"
  by (cases "ac_proxy a"; cases "ac_identity a") (simp_all add: PersistRuntime_def)

lemma persist_marked_account:
  "p_accounts (persist_marked S ords p) j =
     (if j \<in> S \<inter> set ords then map_option PersistRuntime (p_accounts p j) else p_accounts p j)"
  unfolding persist_marked_def
  by (induction ords arbitrary: p) (auto simp: persistLocked_account option.map_comp comp_def)

text \<open>The accounts marked for persisting are in the store afterwards.\<close>

lemma persist_marked_saves:
  assumes "p_accounts p j = Some a" and "ac_id a = j" and "SaveAccountErr (p_store p) = None"
    and "\<And>k x. p_accounts p k = Some x \<Longrightarrow> ac_id x = k"
    and "j \<in> S" and "j \<in> set ords \<or> s_accounts (p_store p) j = Some (PersistRuntime a)"
  shows "s_accounts (p_store (persist_marked S ords p)) j = Some (PersistRuntime a)"
  using assms
proof (induction ords arbitrary: p a)
  case Nil
  then show ?case by (simp add: persist_marked_def)
next
  case (Cons k ords)
  let ?q = "if k \<in> S then persistLocked k p else p"
  have step: "persist_marked S (k # ords) p = persist_marked S ords ?q" by (simp add: persist_marked_def)
  have ids: "p_accounts ?q m = Some x \<Longrightarrow> ac_id x = m" for m x
    using Cons.prems(4) by (auto simp: persistLocked_account split: if_splits)
  have err: "SaveAccountErr (p_store ?q) = None" using Cons.prems(3) by simp
  show ?case
  proof (cases "k = j")
    case True
    have "p_accounts ?q j = Some (PersistRuntime a)" "s_accounts (p_store ?q) j = Some (PersistRuntime a)"
      using True Cons.prems persistLocked_saves [of p j a] by (simp_all add: persistLocked_account)
    then show ?thesis unfolding step
      using Cons.IH [of ?q "PersistRuntime a"] ids err Cons.prems(2,5) by simp
  next
    case False
    have "p_accounts ?q j = Some a" using False Cons.prems(1) by (simp add: persistLocked_account)
    moreover have "s_accounts (p_store ?q) j = s_accounts (p_store p) j"
    proof (cases "p_accounts p k")
      case (Some x)
      then show ?thesis
        using False Cons.prems(3) Cons.prems(4) [OF Some] persistLocked_saves [OF Some] by simp
    qed (simp add: persistLocked_def)
    ultimately show ?thesis unfolding step
      using Cons.IH [of ?q a] ids err Cons.prems(2,5,6) False by auto
  qed
qed

section \<open>New provider state\<close>

text \<open>
  The keys of the accounts do not depend on the provider state (as with the three drivers of the
  broker once an account carries the key its driver computes).
\<close>

definition keys_stable :: "string \<Rightarrow> pool \<Rightarrow> bool" where
  "keys_stable st p \<longleftrightarrow>
     (\<forall>i a. p_accounts p i = Some a \<longrightarrow> derivedBucketKeyLocked p a st = bucketKeyLocked a)"

definition with_key :: "account \<Rightarrow> account" where
  "with_key a = a\<lparr>ac_bucket_key := bucketKeyLocked a\<rparr>"

lemma with_key_simps [simp]:
  "bucketKeyLocked (with_key a) = bucketKeyLocked a" "with_key (with_key a) = with_key a"
  "ac_id (with_key a) = ac_id a" "ac_status (with_key a) = ac_status a"
  "ac_provider (with_key a) = ac_provider a" "ac_cell_id (with_key a) = ac_cell_id a"
  "ac_last_used_at (with_key a) = ac_last_used_at a" "ac_subject (with_key a) = ac_subject a"
  by (simp_all add: with_key_def bucketKeyLocked_def defaultBucketKey_def)

definition same_but_keys :: "pool \<Rightarrow> pool \<Rightarrow> bool" where
  "same_but_keys p q \<longleftrightarrow> p_buckets q = p_buckets p \<and> p_store q = p_store p \<and> p_drivers q = p_drivers p
     \<and> p_server_err q = p_server_err p \<and> p_auth_failures q = p_auth_failures p \<and> p_cells q = p_cells p
     \<and> (\<forall>j. p_accounts q j = p_accounts p j \<or> p_accounts q j = map_option with_key (p_accounts p j))"

lemma derived_with_key:
  "p_drivers q = p_drivers p \<Longrightarrow> derivedBucketKeyLocked q (with_key a) st = derivedBucketKeyLocked p a st"
  by (simp add: derivedBucketKeyLocked_def with_key_def bucketKeyLocked_def defaultBucketKey_def
      Let_def split: option.splits)

lemma derived_drivers:
  "p_drivers q = p_drivers p \<Longrightarrow> derivedBucketKeyLocked q a st = derivedBucketKeyLocked p a st"
  by (simp add: derivedBucketKeyLocked_def)

lemma same_but_keys_refl [simp]: "same_but_keys p p"
  by (simp add: same_but_keys_def)

lemma same_but_keys_stable:
  assumes s: "same_but_keys p q" and k: "keys_stable st p"
  shows "keys_stable st q"
  unfolding keys_stable_def
proof (intro allI impI)
  fix i a assume a: "p_accounts q i = Some a"
  have d: "p_drivers q = p_drivers p" using s by (simp add: same_but_keys_def)
  from s a consider "p_accounts p i = Some a" | a0 where "p_accounts p i = Some a0" "a = with_key a0"
    unfolding same_but_keys_def by (metis map_option_eq_Some)
  then show "derivedBucketKeyLocked q a st = bucketKeyLocked a"
  proof cases
    case 1
    with k derived_drivers [OF d] show ?thesis by (simp add: keys_stable_def)
  next
    case 2
    with k derived_with_key [OF d] show ?thesis by (simp add: keys_stable_def)
  qed
qed

lemma rekey_stable:
  assumes "keys_stable st (snd acc)"
  shows "same_but_keys (snd acc) (snd (rekey_member now st acc i))"
proof (cases "p_accounts (snd acc) i")
  case (Some m)
  then have "derivedBucketKeyLocked (snd acc) m st = bucketKeyLocked m"
    using assms by (simp add: keys_stable_def)
  then have "refreshBucketKeyLocked now m st (snd acc) = (with_key m, snd acc)"
    by (simp add: refreshBucketKeyLocked_def Let_def with_key_def)
  with Some show ?thesis by (simp add: rekey_member_def Let_def same_but_keys_def)
qed (simp add: rekey_member_def)

lemma same_but_keys_trans:
  assumes "same_but_keys p q" and "same_but_keys q r"
  shows "same_but_keys p r"
proof -
  have w: "map_option with_key (map_option with_key x) = map_option with_key x" for x
    by (cases x) simp_all
  have "p_accounts r j = p_accounts p j \<or> p_accounts r j = map_option with_key (p_accounts p j)" for j
  proof -
    have "p_accounts q j = p_accounts p j \<or> p_accounts q j = map_option with_key (p_accounts p j)"
      using assms(1) by (simp add: same_but_keys_def)
    moreover have "p_accounts r j = p_accounts q j \<or> p_accounts r j = map_option with_key (p_accounts q j)"
      using assms(2) by (simp add: same_but_keys_def)
    ultimately show ?thesis by (elim disjE) (simp_all add: w)
  qed
  with assms show ?thesis by (simp add: same_but_keys_def)
qed

lemma foldl_rekey_stable:
  "keys_stable st (snd acc) \<Longrightarrow> same_but_keys (snd acc) (snd (foldl (rekey_member now st) acc is))"
proof (induction "is" arbitrary: acc)
  case (Cons i "is")
  have s: "same_but_keys (snd acc) (snd (rekey_member now st acc i))" by (rule rekey_stable [OF Cons.prems])
  from same_but_keys_trans [OF s Cons.IH [OF same_but_keys_stable [OF s Cons.prems]]] show ?case by simp
qed simp

definition stated :: "gotime \<Rightarrow> string \<Rightarrow> quota_bucket \<Rightarrow> quota_bucket" where
  "stated now st b = (if st = [] then b else persistable now (b\<lparr>bk_state_json := st, bk_updated_at := now\<rparr>))"

lemma stated_simps [simp]:
  "bk_key (stated now st b) = bk_key b" "bk_cooldown_until (stated now st b) = bk_cooldown_until b"
  by (simp_all add: stated_def)

lemma update_state_stable:
  assumes k: "ef_updated_state e \<noteq> [] \<Longrightarrow> keys_stable (ef_updated_state e) p"
    and a: "p_accounts p i = Some a" and b: "p_buckets p key = Some b" "bk_key b = key"
    and u: "update_state now om i key e p = (rk, q)"
  shows "p_buckets q = (p_buckets p)(key \<mapsto> stated now (ef_updated_state e) b)"
    and "ef_updated_state e \<noteq> [] \<Longrightarrow>
         s_buckets (p_store q) = (s_buckets (p_store p))(key \<mapsto> stated now (ef_updated_state e) b)"
    and "ef_updated_state e = [] \<Longrightarrow> p_store q = p_store p"
    and "p_server_err q = p_server_err p" and "p_drivers q = p_drivers p" and "p_cells q = p_cells p"
    and "p_auth_failures q = p_auth_failures p"
    and "s_accounts (p_store q) = s_accounts (p_store p)"
    and "SaveAccountErr (p_store q) = SaveAccountErr (p_store p)"
    and "p_accounts q j = p_accounts p j \<or> p_accounts q j = map_option with_key (p_accounts p j)"
proof -
  let ?st = "ef_updated_state e"
  define p1 where "p1 = (if ?st = [] then p
    else persistBucketLocked now key (write_bucket key (b\<lparr>bk_state_json := ?st, bk_updated_at := now\<rparr>) p))"
  have p1: "p_buckets p1 = (p_buckets p)(key \<mapsto> stated now ?st b)"
    "?st \<noteq> [] \<Longrightarrow> s_buckets (p_store p1) = (s_buckets (p_store p))(key \<mapsto> stated now ?st b)"
    "?st = [] \<Longrightarrow> p_store p1 = p_store p"
    "p_server_err p1 = p_server_err p" "p_drivers p1 = p_drivers p" "p_cells p1 = p_cells p"
    "p_auth_failures p1 = p_auth_failures p"
    "s_accounts (p_store p1) = s_accounts (p_store p)" "SaveAccountErr (p_store p1) = SaveAccountErr (p_store p)"
    "p_accounts p1 = p_accounts p"
    using b by (auto simp: p1_def persistBucket_present stated_def)
  have "same_but_keys p1 q"
  proof (cases "?st = []")
    case True
    with u show ?thesis by (simp add: update_state_def p1_def)
  next
    case False
    have st: "keys_stable ?st p1"
      using k [OF False] p1(5,10) derived_drivers [of p1 p] by (simp add: keys_stable_def)
    have "q = snd (foldl (rekey_member now ?st) ([], p1) (map ac_id (bucketAccountsLocked om a p)))"
      using u a b False by (simp add: update_state_def apply_state_def Let_def p1_def)
    then show ?thesis using foldl_rekey_stable [of ?st "([], p1)"] st by simp
  qed
  then show "p_buckets q = (p_buckets p)(key \<mapsto> stated now ?st b)"
    "?st \<noteq> [] \<Longrightarrow> s_buckets (p_store q) = (s_buckets (p_store p))(key \<mapsto> stated now ?st b)"
    "?st = [] \<Longrightarrow> p_store q = p_store p"
    "p_server_err q = p_server_err p" "p_drivers q = p_drivers p" "p_cells q = p_cells p"
    "p_auth_failures q = p_auth_failures p"
    "s_accounts (p_store q) = s_accounts (p_store p)" "SaveAccountErr (p_store q) = SaveAccountErr (p_store p)"
    "p_accounts q j = p_accounts p j \<or> p_accounts q j = map_option with_key (p_accounts p j)"
    using p1 by (simp_all add: same_but_keys_def)
qed

section \<open>Observe on the bucket\<close>

definition cooling :: "effect_kind \<Rightarrow> bool" where
  "cooling k \<longleftrightarrow> k \<in> {EffectCooldown, EffectOverload, EffectBlock, EffectAuthFail}"

lemma apply_effect_bucket:
  assumes "p_buckets p key = Some b" and "bk_key b = key"
  shows "cooling (ef_kind e) \<Longrightarrow>
      p_buckets (snd (snd (apply_effect now i key key e p))) = (p_buckets p)(key \<mapsto> cooled now (ef_cooldown_until e) b)"
    and "cooling (ef_kind e) \<Longrightarrow>
      s_buckets (p_store (snd (snd (apply_effect now i key key e p))))
        = (s_buckets (p_store p))(key \<mapsto> cooled now (ef_cooldown_until e) b)"
    and "ef_kind e \<in> {EffectSuccess, EffectReject} \<Longrightarrow>
      p_buckets (snd (snd (apply_effect now i key key e p))) = p_buckets p"
    and "ef_kind e \<in> {EffectSuccess, EffectReject} \<Longrightarrow>
      p_store (snd (snd (apply_effect now i key key e p))) = p_store p"
  using assms cool_bucket_result [of p key b now "ef_cooldown_until e"]
    cool_bucket_result [of "touch_account i (\<lambda>a. a\<lparr>ac_status := StatusBlocked, ac_error_message := ef_error_message e\<rparr>) p"
      key b now "ef_cooldown_until e"]
  by (auto simp: cooling_def apply_effect_def Let_def split: prod.splits)

lemma apply_effect_accounts:
  "p_accounts (snd (snd (apply_effect now i key bk e p))) j =
     (if i = j then map_option (case ef_kind e of
          EffectSuccess \<Rightarrow> (\<lambda>a. a\<lparr>ac_last_used_at := Some now\<rparr>)
        | EffectServerError \<Rightarrow> (\<lambda>a. a\<lparr>ac_last_used_at := Some now\<rparr>)
        | EffectBlock \<Rightarrow> (\<lambda>a. a\<lparr>ac_status := StatusBlocked, ac_error_message := ef_error_message e\<rparr>)
        | _ \<Rightarrow> id) (p_accounts p j) else p_accounts p j)"
proof -
  have c: "p_accounts q = p_accounts p'" if "cool_bucket now key t p' = (r, q)" for t r q p'
    using cool_bucket_frame(1) [of now key t p'] that by simp
  show ?thesis
    by (cases "ef_kind e")
      (auto simp: apply_effect_def Let_def server_error_def touch_accounts option.map_id split: prod.splits dest!: c)
qed

text \<open>A driver computes the key from the identity of the account and the quota state.\<close>

definition key_by_identity :: "pool \<Rightarrow> bool" where
  "key_by_identity p \<longleftrightarrow>
     (\<forall>drvs prov drv a a'. p_drivers p = Some drvs \<longrightarrow> drvs prov = Some drv \<longrightarrow>
        ac_id a = ac_id a' \<longrightarrow> ac_subject a = ac_subject a' \<longrightarrow> ac_provider a = ac_provider a' \<longrightarrow>
        ac_provider_state_json a = ac_provider_state_json a' \<longrightarrow> sd_bucket_key drv a = sd_bucket_key drv a')"

lemma key_by_identityD:
  "key_by_identity p \<Longrightarrow> p_drivers p = Some drvs \<Longrightarrow> drvs prov = Some drv \<Longrightarrow> ac_id a = ac_id a' \<Longrightarrow>
   ac_subject a = ac_subject a' \<Longrightarrow> ac_provider a = ac_provider a' \<Longrightarrow>
   ac_provider_state_json a = ac_provider_state_json a' \<Longrightarrow> sd_bucket_key drv a = sd_bucket_key drv a'"
  unfolding key_by_identity_def by blast

lemma key_by_identity_drivers: "p_drivers q = p_drivers p \<Longrightarrow> key_by_identity q = key_by_identity p"
  by (simp only: key_by_identity_def)

definition same_identity :: "account \<Rightarrow> account \<Rightarrow> bool" where
  "same_identity a b \<longleftrightarrow> ac_id a = ac_id b \<and> ac_subject a = ac_subject b \<and> ac_provider a = ac_provider b
     \<and> ac_bucket_key a = ac_bucket_key b"

lemma same_identity_key: "same_identity a b \<Longrightarrow> bucketKeyLocked a = bucketKeyLocked b"
  by (simp add: same_identity_def bucketKeyLocked_def defaultBucketKey_def)

lemma derived_same_identity:
  assumes "key_by_identity p" and "p_drivers q = p_drivers p" and "same_identity a b"
  shows "derivedBucketKeyLocked q a st = derivedBucketKeyLocked p b st"
proof (cases "p_drivers p")
  case (Some drvs)
  show ?thesis
  proof (cases "drvs (ac_provider b)")
    case (Some drv)
    have "sd_bucket_key drv (a\<lparr>ac_bucket_key := bucketKeyLocked a, ac_provider_state_json := st\<rparr>)
        = sd_bucket_key drv (b\<lparr>ac_bucket_key := bucketKeyLocked b, ac_provider_state_json := st\<rparr>)"
      by (rule key_by_identityD [OF assms(1) \<open>p_drivers p = Some drvs\<close> Some])
        (use assms(3) in \<open>simp_all add: same_identity_def\<close>)
    with \<open>p_drivers p = Some drvs\<close> Some assms same_identity_key [OF assms(3)] show ?thesis
      by (simp add: derivedBucketKeyLocked_def same_identity_def Let_def)
  qed (use Some assms same_identity_key [OF assms(3)] in \<open>simp add: derivedBucketKeyLocked_def same_identity_def\<close>)
qed (use assms same_identity_key [OF assms(3)] in \<open>simp add: derivedBucketKeyLocked_def\<close>)

lemma keys_stable_apply_effect:
  assumes "key_by_identity p" and "keys_stable st p" and "p_drivers q = p_drivers p"
    and "\<And>j x. p_accounts q j = Some x \<Longrightarrow> \<exists>y. p_accounts p j = Some y \<and> same_identity x y"
  shows "keys_stable st q"
  unfolding keys_stable_def
proof (intro allI impI)
  fix i x assume "p_accounts q i = Some x"
  then obtain y where "p_accounts p i = Some y" and xy: "same_identity x y" using assms(4) by blast
  then have "derivedBucketKeyLocked p y st = bucketKeyLocked y" using assms(2) by (simp add: keys_stable_def)
  then show "derivedBucketKeyLocked q x st = bucketKeyLocked x"
    using derived_same_identity [OF assms(1,3) xy] same_identity_key [OF xy] by simp
qed

lemma apply_effect_drivers: "p_drivers (snd (snd (apply_effect now i key bk e p))) = p_drivers p"
proof -
  have c: "p_drivers q = p_drivers p'" if "cool_bucket now key t p' = (r, q)" for t r q p'
    using cool_bucket_frame(4) [of now key t p'] that by simp
  show ?thesis
    by (cases "ef_kind e")
      (auto simp: apply_effect_def Let_def server_error_def split: prod.splits dest!: c)
qed

lemma apply_effect_identity:
  assumes "p_accounts (snd (snd (apply_effect now i key bk e p))) j = Some x"
  shows "\<exists>y. p_accounts p j = Some y \<and> same_identity x y"
  using assms unfolding apply_effect_accounts
  by (cases "p_accounts p j"; cases "ef_kind e") (auto simp: same_identity_def split: if_splits)

text \<open>Everything \<open>Observe\<close> needs to know about the reloaded state, in one hypothesis.\<close>

definition observable ::
  "map_order \<Rightarrow> gotime \<Rightarrow> pool \<Rightarrow> string \<Rightarrow> effect \<Rightarrow> account \<Rightarrow> quota_bucket \<Rightarrow> bool" where
  "observable mo now p0 i e a b \<longleftrightarrow> observed mo now p0 i a b
     \<and> (ef_updated_state e \<noteq> [] \<longrightarrow>
          key_by_identity p0 \<and> keys_stable (ef_updated_state e) (snd (reloadStateLocked mo now p0)))"

lemma observable_parts:
  assumes o: "observable mo now p0 i e a b"
    and ae: "apply_effect now i (bucketKeyLocked a) (bucketKeyLocked a) e
               (obs_start mo now (bucketKeyLocked a) e p0) = (ev, mark, p3)"
  shows "ef_updated_state e \<noteq> [] \<Longrightarrow> keys_stable (ef_updated_state e) p3"
    and "\<exists>x. p_accounts p3 i = Some x \<and> same_identity x a"
proof -
  let ?p = "obs_start mo now (bucketKeyLocked a) e p0"
  have p3: "p3 = snd (snd (apply_effect now i (bucketKeyLocked a) (bucketKeyLocked a) e ?p))" using ae by simp
  show "keys_stable (ef_updated_state e) p3" if "ef_updated_state e \<noteq> []"
  proof (rule keys_stable_apply_effect [of ?p])
    show "key_by_identity ?p"
      using o that key_by_identity_drivers [of ?p p0] by (simp add: observable_def)
    show "keys_stable (ef_updated_state e) ?p"
      using o that derived_drivers [of ?p "snd (reloadStateLocked mo now p0)"]
      by (simp add: observable_def keys_stable_def)
    show "p_drivers p3 = p_drivers ?p" unfolding p3 by (rule apply_effect_drivers)
    show "\<exists>y. p_accounts ?p j = Some y \<and> same_identity x y" if "p_accounts p3 j = Some x" for j x
      using apply_effect_identity that unfolding p3 by blast
  qed
  have "p_accounts ?p i = Some a" using o by (simp add: observable_def observed_def)
  then obtain x where "p_accounts p3 i = Some x" unfolding p3 apply_effect_accounts by auto
  moreover from this apply_effect_identity [of now i "bucketKeyLocked a" "bucketKeyLocked a" e ?p i x]
  have "same_identity x a" using \<open>p_accounts ?p i = Some a\<close> unfolding p3 by auto
  ultimately show "\<exists>x. p_accounts p3 i = Some x \<and> same_identity x a" by blast
qed

lemma observe_cooling:
  assumes o: "observable mo now p0 i e a b" and k: "cooling (ef_kind e)"
  shows "\<exists>b'. p_buckets (Observe mo now om ords i e p0) (bucketKeyLocked a) = Some b'
     \<and> s_buckets (p_store (Observe mo now om ords i e p0)) (bucketKeyLocked a) = Some b'
     \<and> bk_cooldown_until b' = Some (cooldown_join (bk_cooldown_until b) (ef_cooldown_until e))"
proof -
  let ?k = "bucketKeyLocked a" and ?p = "obs_start mo now (bucketKeyLocked a) e p0"
  have ob: "observed mo now p0 i a b" using o by (simp add: observable_def)
  obtain ev mark p3 where ae: "apply_effect now i ?k ?k e ?p = (ev, mark, p3)" by (metis prod_cases3)
  obtain rk p4 where u: "update_state now om i ?k e p3 = (rk, p4)" by fastforce
  have b: "p_buckets ?p ?k = Some b" "bk_key b = ?k"
    using ob observed_key [OF ob] by (simp_all add: observed_def)
  have p3: "p_buckets p3 ?k = Some (cooled now (ef_cooldown_until e) b)"
    "s_buckets (p_store p3) ?k = Some (cooled now (ef_cooldown_until e) b)"
    using apply_effect_bucket(1,2) [OF b k, of now i] ae b by simp_all
  obtain x where x: "p_accounts p3 i = Some x" using observable_parts(2) [OF o ae] by blast
  note us = update_state_stable [OF observable_parts(1) [OF o ae] x p3(1) _ u]
  have "p_buckets p4 ?k = Some (stated now (ef_updated_state e) (cooled now (ef_cooldown_until e) b))"
    using us(1) b by simp
  moreover have "s_buckets (p_store p4) ?k = Some (stated now (ef_updated_state e) (cooled now (ef_cooldown_until e) b))"
    using us(2,3) b p3 by (cases "ef_updated_state e = []") (simp_all add: stated_def)
  ultimately show ?thesis unfolding Observe_unfold [OF ob ae u] by simp
qed

lemma observe_neutral:
  assumes o: "observable mo now p0 i e a b" and k: "ef_kind e \<in> {EffectSuccess, EffectReject}"
  shows "\<exists>b'. p_buckets (Observe mo now om ords i e p0) (bucketKeyLocked a) = Some b'
     \<and> bk_cooldown_until b' = bk_cooldown_until b"
    and "p_server_err (Observe mo now om ords i e p0) (bucketKeyLocked a) = None"
proof -
  let ?k = "bucketKeyLocked a" and ?p = "obs_start mo now (bucketKeyLocked a) e p0"
  have ob: "observed mo now p0 i a b" using o by (simp add: observable_def)
  obtain ev mark p3 where ae: "apply_effect now i ?k ?k e ?p = (ev, mark, p3)" by (metis prod_cases3)
  obtain rk p4 where u: "update_state now om i ?k e p3 = (rk, p4)" by fastforce
  have b: "p_buckets ?p ?k = Some b" "bk_key b = ?k"
    using ob observed_key [OF ob] by (simp_all add: observed_def)
  have p3: "p_buckets p3 ?k = Some b"
    using apply_effect_bucket(3) [OF b k, of now i] ae b by simp
  have err: "p_server_err p3 ?k = None"
    using ae k by (auto simp: apply_effect_def)
  obtain x where x: "p_accounts p3 i = Some x" using observable_parts(2) [OF o ae] by blast
  note us = update_state_stable [OF observable_parts(1) [OF o ae] x p3 _ u]
  show "\<exists>b'. p_buckets (Observe mo now om ords i e p0) ?k = Some b' \<and> bk_cooldown_until b' = bk_cooldown_until b"
    using us(1) b unfolding Observe_unfold [OF ob ae u] by simp
  show "p_server_err (Observe mo now om ords i e p0) ?k = None"
    using us(4) b err unfolding Observe_unfold [OF ob ae u] by simp
qed

section \<open>The circuit breaker\<close>

definition error_count :: "pool \<Rightarrow> string \<Rightarrow> int" where
  "error_count p key = (case p_server_err p key of Some n \<Rightarrow> n | None \<Rightarrow> 0)"

lemma server_error_below:
  assumes "error_count p k + 1 < 3"
  shows "server_error now i k k p = (None, p\<lparr>p_server_err := (p_server_err p)(k \<mapsto> error_count p k + 1)\<rparr>)"
  using assms by (simp add: server_error_def error_count_def Let_def split: option.splits)

lemma server_error_trips:
  assumes "2 \<le> error_count p k"
  shows "p_buckets (snd (server_error now i k k p)) = p_buckets (snd (cool_bucket now k (now + circuit_cooldown) p))"
    and "p_store (snd (server_error now i k k p)) = p_store (snd (cool_bucket now k (now + circuit_cooldown) p))"
    and "p_server_err (snd (server_error now i k k p)) k = None"
    and "\<exists>ev. fst (server_error now i k k p) = Some ev \<and> ev_type ev = EventOverload \<and> ev_account_id ev = i"
proof -
  let ?p1 = "p\<lparr>p_server_err := (p_server_err p)(k \<mapsto> error_count p k + 1)\<rparr>"
  have c: "p_buckets (snd (cool_bucket now k t ?p1)) = p_buckets (snd (cool_bucket now k t p))"
    "p_store (snd (cool_bucket now k t ?p1)) = p_store (snd (cool_bucket now k t p))" for t
    by (simp_all add: cool_bucket_def persistBucketLocked_def write_bucket_def Let_def
        split: prod.splits option.splits)
  have "server_error now i k k p =
      (let (r, p2) = cool_bucket now k (now + circuit_cooldown) ?p1 in
       (Some ((new_event EventOverload)\<lparr>ev_account_id := i, ev_cooldown_until := cooldownPtr r,
          ev_message := ''circuit breaker: 3 consecutive upstream 500s'' @ cooldownSuffix r\<rparr>),
        p2\<lparr>p_server_err := (p_server_err p2)(k := None)\<rparr>))"
    using assms by (simp add: server_error_def error_count_def Let_def split: option.splits)
  then show "p_buckets (snd (server_error now i k k p)) = p_buckets (snd (cool_bucket now k (now + circuit_cooldown) p))"
    "p_store (snd (server_error now i k k p)) = p_store (snd (cool_bucket now k (now + circuit_cooldown) p))"
    "p_server_err (snd (server_error now i k k p)) k = None"
    "\<exists>ev. fst (server_error now i k k p) = Some ev \<and> ev_type ev = EventOverload \<and> ev_account_id ev = i"
    using c [of "now + circuit_cooldown"] by (auto simp: new_event_def split: prod.splits)
qed

lemma observe_server_error:
  assumes o: "observable mo now p0 i e a b" and k: "ef_kind e = EffectServerError"
    and q_def: "q = Observe mo now om ords i e p0"
  shows "error_count p0 (bucketKeyLocked a) + 1 < 3 \<Longrightarrow>
      p_server_err q (bucketKeyLocked a) = Some (error_count p0 (bucketKeyLocked a) + 1)
      \<and> (\<exists>b'. p_buckets q (bucketKeyLocked a) = Some b' \<and> bk_cooldown_until b' = bk_cooldown_until b)"
    and "2 \<le> error_count p0 (bucketKeyLocked a) \<Longrightarrow>
      p_server_err q (bucketKeyLocked a) = None
      \<and> (\<exists>b'. p_buckets q (bucketKeyLocked a) = Some b'
           \<and> s_buckets (p_store q) (bucketKeyLocked a) = Some b'
           \<and> bk_cooldown_until b' = Some (cooldown_join (bk_cooldown_until b) (now + circuit_cooldown)))"
proof -
  let ?k = "bucketKeyLocked a" and ?p = "obs_start mo now (bucketKeyLocked a) e p0"
  let ?t = "touch_account i (\<lambda>a. a\<lparr>ac_last_used_at := Some now\<rparr>) ?p"
  have ob: "observed mo now p0 i a b" using o by (simp add: observable_def)
  obtain ev mark p3 where ae: "apply_effect now i ?k ?k e ?p = (ev, mark, p3)" by (metis prod_cases3)
  obtain rk p4 where u: "update_state now om i ?k e p3 = (rk, p4)" by fastforce
  have b: "p_buckets ?t ?k = Some b" "bk_key b = ?k"
    using ob observed_key [OF ob] by (simp_all add: observed_def)
  have p3: "p3 = snd (server_error now i ?k ?k ?t)"
    using ae k by (auto simp: apply_effect_def Let_def split: prod.splits)
  have cnt: "error_count ?t ?k = error_count p0 ?k" using k by (simp add: error_count_def)
  obtain x where x: "p_accounts p3 i = Some x" using observable_parts(2) [OF o ae] by blast
  note us = update_state_stable [OF observable_parts(1) [OF o ae] x _ _ u]
  show "p_server_err q ?k = Some (error_count p0 ?k + 1)
      \<and> (\<exists>b'. p_buckets q ?k = Some b' \<and> bk_cooldown_until b' = bk_cooldown_until b)"
    if "error_count p0 ?k + 1 < 3"
  proof -
    have "p3 = ?t\<lparr>p_server_err := (p_server_err ?t)(?k \<mapsto> error_count p0 ?k + 1)\<rparr>"
      using server_error_below [of ?t ?k now i] that cnt by (simp add: p3)
    then have "p_buckets p3 ?k = Some b" "p_server_err p3 ?k = Some (error_count p0 ?k + 1)" using b by simp_all
    with us(1,4) b(2) show ?thesis unfolding q_def Observe_unfold [OF ob ae u] by simp
  qed
  show "p_server_err q ?k = None \<and> (\<exists>b'. p_buckets q ?k = Some b' \<and> s_buckets (p_store q) ?k = Some b'
      \<and> bk_cooldown_until b' = Some (cooldown_join (bk_cooldown_until b) (now + circuit_cooldown)))"
    if "2 \<le> error_count p0 ?k"
  proof -
    have "2 \<le> error_count ?t ?k" using that cnt by simp
    note tr = server_error_trips [OF this, of now i] cool_bucket_result(2,3) [OF b(1), of now "now + circuit_cooldown"]
    have c: "p_buckets p3 ?k = Some (cooled now (now + circuit_cooldown) b)"
      "s_buckets (p_store p3) ?k = Some (cooled now (now + circuit_cooldown) b)" "p_server_err p3 ?k = None"
      using tr b by (simp_all add: p3)
    have "p_buckets p4 ?k = Some (stated now (ef_updated_state e) (cooled now (now + circuit_cooldown) b))"
      using us(1) [OF _ c(1)] b by simp
    moreover have "s_buckets (p_store p4) ?k
        = Some (stated now (ef_updated_state e) (cooled now (now + circuit_cooldown) b))"
      using us(2,3) [OF _ c(1)] b c(2) by (cases "ef_updated_state e = []") (simp_all add: stated_def)
    ultimately show ?thesis
      using us(4) [OF _ c(1)] b(2) c(3) unfolding q_def Observe_unfold [OF ob ae u] by simp
  qed
qed

section \<open>Blocking\<close>

lemma observe_block_memory:
  assumes o: "observable mo now p0 i e a b" and k: "ef_kind e = EffectBlock"
  shows "\<exists>x. p_accounts (Observe mo now om ords i e p0) i = Some x \<and> ac_status x = StatusBlocked"
proof -
  let ?k = "bucketKeyLocked a" and ?p = "obs_start mo now (bucketKeyLocked a) e p0"
  have ob: "observed mo now p0 i a b" using o by (simp add: observable_def)
  obtain ev mark p3 where ae: "apply_effect now i ?k ?k e ?p = (ev, mark, p3)" by (metis prod_cases3)
  obtain rk p4 where u: "update_state now om i ?k e p3 = (rk, p4)" by fastforce
  have b: "p_buckets ?p ?k = Some b" "bk_key b = ?k"
    using ob observed_key [OF ob] by (simp_all add: observed_def)
  have p3b: "p_buckets p3 ?k = Some (cooled now (ef_cooldown_until e) b)"
    using apply_effect_bucket(1) [OF b, of e now i] ae b k by (simp add: cooling_def)
  obtain x where x: "p_accounts p3 i = Some x" using observable_parts(2) [OF o ae] by blast
  have "p_accounts ?p i = Some a" using ob by (simp add: observed_def)
  then have "ac_status x = StatusBlocked"
    using x ae apply_effect_accounts [of now i ?k ?k e ?p i] k by auto
  moreover have "p_accounts p4 i = Some x \<or> p_accounts p4 i = Some (with_key x)"
    using update_state_stable(10) [OF observable_parts(1) [OF o ae] x p3b _ u, of i] x b by simp
  ultimately show ?thesis
    unfolding Observe_unfold [OF ob ae u] persist_marked_account by auto
qed

lemma observe_block_store:
  assumes o: "observable mo now p0 i e a b" and k: "ef_kind e = EffectBlock"
    and save: "SaveAccountErr (p_store p0) = None" and ord: "i \<in> set ords"
  shows "\<exists>x. s_accounts (p_store (Observe mo now om ords i e p0)) i = Some x \<and> ac_status x = StatusBlocked"
proof -
  let ?k = "bucketKeyLocked a" and ?p = "obs_start mo now (bucketKeyLocked a) e p0"
  have ob: "observed mo now p0 i a b" using o by (simp add: observable_def)
  obtain ev mark p3 where ae: "apply_effect now i ?k ?k e ?p = (ev, mark, p3)" by (metis prod_cases3)
  obtain rk p4 where u: "update_state now om i ?k e p3 = (rk, p4)" by fastforce
  have b: "p_buckets ?p ?k = Some b" "bk_key b = ?k"
    using ob observed_key [OF ob] by (simp_all add: observed_def)
  have p3b: "p_buckets p3 ?k = Some (cooled now (ef_cooldown_until e) b)"
    using apply_effect_bucket(1) [OF b, of e now i] ae b k by (simp add: cooling_def)
  obtain x where x: "p_accounts p3 i = Some x" using observable_parts(2) [OF o ae] by blast
  note us = update_state_stable [OF observable_parts(1) [OF o ae] x p3b _ u]
  have "p_accounts ?p i = Some a" using ob by (simp add: observed_def)
  then have blocked: "ac_status x = StatusBlocked"
    using x ae apply_effect_accounts [of now i ?k ?k e ?p i] k by auto
  have err3: "SaveAccountErr (p_store p3) = None"
    using ae k save cool_bucket_frame(9)
    by (auto simp: apply_effect_def Let_def split: prod.splits) (metis cool_bucket_frame(9) obs_start_frame(4) snd_conv touch_frame(2))
  have mark: "mark" using ae k by (auto simp: apply_effect_def Let_def split: prod.splits)
  have wfp: "pool_wf ?p"
    using ob pool_wf_reload [of p0 mo now] by (simp add: observed_def obs_start_def reset_errors_def pool_wf_def)
  then have "pool_wf p3" using wfi.I_apply_effect [OF wfp, of now i ?k ?k e] ae by simp
  then have wf4: "pool_wf p4"
    using u wfi.I_apply_state by (auto simp: update_state_def split: if_splits) (metis snd_conv)
  obtain y where y: "p_accounts p4 i = Some y" "ac_status y = StatusBlocked"
    using us(10) [of i] x b blocked by auto
  have "s_accounts (p_store (persist_marked ({i} \<union> set rk) ords (emit now i ev p4))) i = Some (PersistRuntime y)"
    by (rule persist_marked_saves)
      (use y us(9) b err3 wf4 ord in \<open>auto simp: pool_wf_def\<close>)
  then show ?thesis unfolding Observe_unfold [OF ob ae u] using mark y by simp
qed

section \<open>Clean-up\<close>

definition expired :: "gotime \<Rightarrow> gotime option \<Rightarrow> bool" where
  "expired now c \<longleftrightarrow> (case c of Some t \<Rightarrow> t < now | None \<Rightarrow> False)"

text \<open>The contract of a driver: an exhausted cooldown lies in a later second.\<close>

definition exhausted_later :: "pool \<Rightarrow> bool" where
  "exhausted_later p \<longleftrightarrow>
     (\<forall>drvs prov drv st t. p_drivers p = Some drvs \<longrightarrow> drvs prov = Some drv \<longrightarrow>
        is_zero (sd_exhausted_cooldown drv st t)
        \<or> unix_sec t < unix_sec (sd_exhausted_cooldown drv st t))"

lemma expire_frame [simp, frame_simps]:
  "p_accounts (expire_bucket now p k) = p_accounts p" "p_drivers (expire_bucket now p k) = p_drivers p"
  "s_accounts (p_store (expire_bucket now p k)) = s_accounts (p_store p)"
  by (simp_all add: expire_bucket_def clear_bucket_cooldown_def split: option.splits)

lemma expire_bucket_at:
  "p_buckets (expire_bucket now p k) j =
     (if j = k then map_option (\<lambda>b. if expired now (bk_cooldown_until b)
                                    then persistable now (b\<lparr>bk_cooldown_until := None, bk_updated_at := now\<rparr>)
                                    else b) (p_buckets p j)
      else p_buckets p j)"
  by (auto simp: expire_bucket_def clear_bucket_cooldown_def expired_def persistBucket_present
      split: option.splits)

lemma foldl_expire:
  "p_accounts (foldl (expire_bucket now) p ks) = p_accounts p"
  "p_drivers (foldl (expire_bucket now) p ks) = p_drivers p"
  "s_accounts (p_store (foldl (expire_bucket now) p ks)) = s_accounts (p_store p)"
  "map_option bk_cooldown_until (p_buckets (foldl (expire_bucket now) p ks) j) =
     map_option (\<lambda>b. if j \<in> set ks \<and> expired now (bk_cooldown_until b) then None else bk_cooldown_until b)
       (p_buckets p j)"
  by (induction ks arbitrary: p)
    (auto simp: expire_bucket_at option.map_comp comp_def expired_def intro!: option.map_cong0 split: option.splits)

lemma exhaust_frame [simp, frame_simps]:
  "p_accounts (exhaust_bucket now oa p k) = p_accounts p" "p_drivers (exhaust_bucket now oa p k) = p_drivers p"
  "s_accounts (p_store (exhaust_bucket now oa p k)) = s_accounts (p_store p)"
proof -
  have c: "p_accounts q = p_accounts p \<and> p_drivers q = p_drivers p \<and> s_accounts (p_store q) = s_accounts (p_store p)"
    if "cool_bucket now k t p = (r, q)" for t r q
    using cool_bucket_frame [of now k t p] that by simp
  then show "p_accounts (exhaust_bucket now oa p k) = p_accounts p" "p_drivers (exhaust_bucket now oa p k) = p_drivers p"
    "s_accounts (p_store (exhaust_bucket now oa p k)) = s_accounts (p_store p)"
    by (auto simp: exhaust_bucket_def Let_def split: option.splits prod.splits)
qed

lemma computeExhausted_later:
  assumes "exhausted_later p" and "0 < computeExhaustedCooldown p a s"
  shows "s < computeExhaustedCooldown p a s"
proof -
  obtain drvs drv where d: "p_drivers p = Some drvs" "drvs (ac_provider a) = Some drv"
    using assms(2) by (auto simp: computeExhaustedCooldown_def split: option.splits)
  with assms(1) have "is_zero (sd_exhausted_cooldown drv st (from_unix s))
      \<or> s < unix_sec (sd_exhausted_cooldown drv st (from_unix s))" for st
    unfolding exhausted_later_def by (metis unix_sec_from_unix)
  with d assms(2) show ?thesis
    by (auto simp: computeExhaustedCooldown_def Let_def split: if_splits)
qed

lemma exhaust_bucket_at:
  assumes d: "exhausted_later p"
  shows "j \<noteq> k \<Longrightarrow> p_buckets (exhaust_bucket now oa p k) j = p_buckets p j" (is "_ \<Longrightarrow> ?other")
    and "p_buckets p k = Some b \<Longrightarrow>
      \<exists>b'. p_buckets (exhaust_bucket now oa p k) k = Some b'
         \<and> (bk_cooldown_until b' = bk_cooldown_until b
            \<or> (bk_cooldown_until b = None \<and> (\<exists>t. bk_cooldown_until b' = Some t \<and> now < t)))"
proof -
  show ?other if "j \<noteq> k"
  proof -
    have "p_buckets q j = p_buckets p j" if "cool_bucket now k t p = (r, q)" for t r q
      using that \<open>j \<noteq> k\<close>
      by (auto simp: cool_bucket_def persistBucketLocked_def Let_def applyBucketCooldown_def
          split: prod.splits option.splits if_splits)
    then show ?thesis by (auto simp: exhaust_bucket_def Let_def split: option.splits prod.splits)
  qed
  show "\<exists>b'. p_buckets (exhaust_bucket now oa p k) k = Some b'
      \<and> (bk_cooldown_until b' = bk_cooldown_until b
         \<or> (bk_cooldown_until b = None \<and> (\<exists>t. bk_cooldown_until b' = Some t \<and> now < t)))"
    if b: "p_buckets p k = Some b"
  proof (cases "p_buckets (exhaust_bucket now oa p k) = p_buckets p")
    case True
    with b show ?thesis by simp
  next
    case False
    then obtain a where none: "bk_cooldown_until b = None" and u: "0 < computeExhaustedCooldown p a (unix_sec now)"
      and e: "p_buckets (exhaust_bucket now oa p k)
        = p_buckets (snd (cool_bucket now k (from_unix (computeExhaustedCooldown p a (unix_sec now))) p))"
      using b by (auto simp: exhaust_bucket_def Let_def split: option.splits if_splits prod.splits)
    have "now < from_unix (computeExhaustedCooldown p a (unix_sec now))"
      by (rule later_second) (rule computeExhausted_later [OF d u])
    then show ?thesis
      unfolding e cool_bucket_result(2) [OF b] using none by (simp add: cooldown_join_def)
  qed
qed

text \<open>Neither loop can leave an expired cooldown behind, and the second never touches a live one.\<close>

lemma foldl_exhaust:
  assumes "exhausted_later p" and "p_buckets p j = Some b"
  shows "p_accounts (foldl (exhaust_bucket now oa) p ks) = p_accounts p \<and>
    s_accounts (p_store (foldl (exhaust_bucket now oa) p ks)) = s_accounts (p_store p) \<and>
    (\<exists>b'. p_buckets (foldl (exhaust_bucket now oa) p ks) j = Some b'
       \<and> (bk_cooldown_until b' = bk_cooldown_until b
          \<or> (bk_cooldown_until b = None \<and> (\<exists>t. bk_cooldown_until b' = Some t \<and> now < t))))"
  using assms
proof (induction ks arbitrary: p b)
  case (Cons k ks)
  have d: "exhausted_later (exhaust_bucket now oa p k)" using Cons.prems(1) by (simp add: exhausted_later_def)
  obtain b1 where b1: "p_buckets (exhaust_bucket now oa p k) j = Some b1"
    "bk_cooldown_until b1 = bk_cooldown_until b
     \<or> (bk_cooldown_until b = None \<and> (\<exists>t. bk_cooldown_until b1 = Some t \<and> now < t))"
  proof (cases "j = k")
    case True
    with exhaust_bucket_at(2) [OF Cons.prems(1), of k b now oa] Cons.prems(2) that show ?thesis by blast
  next
    case False
    with exhaust_bucket_at(1) [OF Cons.prems(1) False, of now oa] Cons.prems(2) that show ?thesis by auto
  qed
  from Cons.IH [OF d b1(1)] b1(2) show ?case by auto
qed simp

lemma foldl_exhaust_dom:
  assumes "exhausted_later p"
  shows "p_buckets (foldl (exhaust_bucket now oa) p ks) j = None \<longleftrightarrow> p_buckets p j = None"
proof (cases "p_buckets p j")
  case None
  have "p_buckets (foldl (exhaust_bucket now oa) q ks) j = None" if "p_buckets q j = None" "exhausted_later q" for q
    using that
  proof (induction ks arbitrary: q)
    case (Cons k ks)
    have "p_buckets (exhaust_bucket now oa q k) j = None"
      using Cons.prems exhaust_bucket_at(1) [OF Cons.prems(2), of j k now oa]
      by (cases "j = k") (simp_all add: exhaust_bucket_def)
    moreover have "exhausted_later (exhaust_bucket now oa q k)" using Cons.prems(2) by (simp add: exhausted_later_def)
    ultimately show ?case using Cons.IH by simp
  qed simp
  with None assms show ?thesis by blast
next
  case (Some b)
  with foldl_exhaust [OF assms Some, of now oa ks] show ?thesis by auto
qed

lemma cleanup_buckets:
  assumes d: "exhausted_later p0" and o1: "\<And>k. p_buckets (snd (reloadStateLocked mo now p0)) k \<noteq> None \<Longrightarrow> k \<in> set o1"
    and b': "p_buckets (cleanup mo now o1 o2 oa p0) k = Some b'"
  obtains b where "p_buckets (snd (reloadStateLocked mo now p0)) k = Some b"
    "\<not> expired now (bk_cooldown_until b')"
    "\<not> expired now (bk_cooldown_until b) \<Longrightarrow> bk_cooldown_until b \<noteq> None \<Longrightarrow> bk_cooldown_until b' = bk_cooldown_until b"
proof -
  let ?r = "snd (reloadStateLocked mo now p0)"
  let ?p = "foldl (expire_bucket now) ?r o1"
  have dp: "exhausted_later ?p" using d by (simp add: exhausted_later_def foldl_expire)
  have c: "cleanup mo now o1 o2 oa p0 = foldl (exhaust_bucket now oa) ?p o2"
    by (simp add: cleanup_def Let_def)
  have "p_buckets ?p k \<noteq> None" using b' foldl_exhaust_dom [OF dp, of now oa o2 k] by (auto simp: c)
  then obtain b1 where b1: "p_buckets ?p k = Some b1" by auto
  have ex: "map_option bk_cooldown_until (p_buckets ?p k) =
      map_option (\<lambda>b. if k \<in> set o1 \<and> expired now (bk_cooldown_until b) then None else bk_cooldown_until b)
        (p_buckets ?r k)" by (rule foldl_expire(4))
  then obtain b where b: "p_buckets ?r k = Some b"
    and b1c: "bk_cooldown_until b1 = (if k \<in> set o1 \<and> expired now (bk_cooldown_until b) then None else bk_cooldown_until b)"
    using b1 by (cases "p_buckets ?r k") auto
  have k: "k \<in> set o1" using o1 b by auto
  have rel: "bk_cooldown_until b' = bk_cooldown_until b1
      \<or> (bk_cooldown_until b1 = None \<and> (\<exists>t. bk_cooldown_until b' = Some t \<and> now < t))"
    using foldl_exhaust [OF dp b1, of now oa o2] b' by (simp add: c)
  show thesis
  proof (rule that [OF b])
    show "\<not> expired now (bk_cooldown_until b')" using rel b1c k by (auto simp: expired_def split: if_splits)
    show "\<not> expired now (bk_cooldown_until b) \<Longrightarrow> bk_cooldown_until b \<noteq> None \<Longrightarrow>
        bk_cooldown_until b' = bk_cooldown_until b" using rel b1c by auto
  qed
qed

lemma foldl_exhaust_accounts:
  "p_accounts (foldl (exhaust_bucket now oa) p ks) = p_accounts p"
  "s_accounts (p_store (foldl (exhaust_bucket now oa) p ks)) = s_accounts (p_store p)"
  by (induction ks arbitrary: p) auto

lemma cleanup_accounts:
  "p_accounts (cleanup mo now o1 o2 oa p0) = p_accounts (snd (reloadStateLocked mo now p0))"
  "s_accounts (p_store (cleanup mo now o1 o2 oa p0)) = s_accounts (p_store p0)"
  by (simp_all add: cleanup_def Let_def foldl_exhaust_accounts foldl_expire)

end
