(* ===== verification/Leases.thy ===== *)
theory Leases
  imports PoolInvariant
begin

text \<open>
  The pool together with the attempt leases that relays hold, as a transition system: routes are
  acquired, leases accepted and finished, and every other operation of the pool runs in between, in
  any order.  The invariant \<open>lease_inv\<close> says that the in-flight count of a route load is the number of
  unfinished leases on it, that a pending affinity claim belongs to an unfinished lease, and that
  every claim that was ever issued is either pending or was closed exactly once.
\<close>

section \<open>What an acquisition can do\<close>

lemma acquire_scan_cases:
  assumes "acquire_scan now ord drv req claim p = (r, q)"
  obtains (err) e where "r = Inl e" "q = p"
    | (lease) x cls a l where "r = Inr (a, l)"
        "leaseAccountLocked x cls (rq_affinity_key req) claim p = ((a, l), q)"
  using assms by (auto simp: acquire_scan_def split: option.splits prod.splits)

lemma acquireLocked_cases:
  assumes "acquireLocked now ord drv req bound claim p = (r, q)"
  obtains (err) e where "r = Inl e" "q = p"
    | (lease) x cls a l where "r = Inr (a, l)"
        "leaseAccountLocked x cls (rq_affinity_key req) claim p = ((a, l), q)"
  using assms
  by (auto simp: acquireLocked_def split: option.splits if_splits prod.splits elim!: acquire_scan_cases)

lemma scan_or_wait_cases:
  assumes "scan_or_wait now ord drv req p = (r, q)"
  obtains (same) "q = p" "\<forall>a l. r \<noteq> RouteLeased a l"
    | (failed) "\<forall>a l. r \<noteq> RouteLeased a l" "rq_affinity_key req \<noteq> []"
        "p_claims p (rq_affinity_key req) = None"
        "q = releaseAffinityClaimLocked (rq_affinity_key req) (Some (p_next_claim p))
               (issue_claim (rq_affinity_key req) p)"
    | (plain) x cls a l where "r = RouteLeased a l" "rq_affinity_key req = []"
        "leaseAccountLocked x cls [] None p = ((a, l), q)"
    | (claimed) x cls a l where "r = RouteLeased a l" "rq_affinity_key req \<noteq> []"
        "p_claims p (rq_affinity_key req) = None"
        "leaseAccountLocked x cls (rq_affinity_key req) (Some (p_next_claim p))
           (issue_claim (rq_affinity_key req) p) = ((a, l), q)"
proof (cases "rq_affinity_key req = []")
  case True
  obtain r1 q1 where a: "acquireLocked now ord drv req [] None p = (r1, q1)" by fastforce
  then show thesis
    using assms True that(1,3) by (cases rule: acquireLocked_cases) (auto simp: scan_or_wait_def a)
next
  case False
  show thesis
  proof (cases "p_claims p (rq_affinity_key req)")
    case (Some c)
    with assms False that(1) show thesis by (auto simp: scan_or_wait_def)
  next
    case None
    obtain r1 q1 where a: "acquireLocked now ord drv req [] (Some (p_next_claim p))
        (issue_claim (rq_affinity_key req) p) = (r1, q1)" by fastforce
    then show thesis
      using assms False None that(2,4)
      by (cases rule: acquireLocked_cases) (auto simp: scan_or_wait_def a Let_def)
  qed
qed

lemma route_section_cases:
  assumes "route_section now ord drv req b p = (r, q)"
  obtains (same) "q = p" "\<forall>a l. r \<noteq> RouteLeased a l"
    | (bound) x cls a l where "r = RouteLeased a l"
        "leaseAccountLocked x cls (rq_affinity_key req) None p = ((a, l), q)"
    | (scan) "scan_or_wait now ord drv req p = (r, q)"
proof -
  consider "q = p" "\<forall>a l. r \<noteq> RouteLeased a l"
    | "scan_or_wait now ord drv req p = (r, q)"
    | i r1 q1 where "acquireLocked now ord drv req i None p = (r1, q1)"
        "(case r1 of Inr (a, l) \<Rightarrow> (r, q) = (RouteLeased a l, q1)
          | Inl e \<Rightarrow> (q = q1 \<and> (\<forall>a l. r \<noteq> RouteLeased a l)) \<or> scan_or_wait now ord drv req q1 = (r, q))"
    using assms
    by (auto simp: route_section_def Let_def split: if_splits option.splits prod.splits sum.splits)
  then show thesis
  proof cases
    case 3
    from 3(1) show thesis
      using 3(2) that by (cases rule: acquireLocked_cases) auto
  qed (use that in auto)
qed

section \<open>The transition system\<close>

record routing_sys =
  rs_pool :: pool
  rs_leases :: "attempt_lease list"

text \<open>The other operations of the pool, each with its arguments.\<close>

inductive pool_op :: "pool \<Rightarrow> pool \<Rightarrow> bool" where
  op_refresh: "pool_op p (snd (refreshState mo now p))"
| op_observe: "pool_op p (Observe mo now om ords i e p)"
| op_cleanup: "pool_op p (cleanup mo now o1 o2 oa p)"
| op_purge: "pool_op p (purge_tick now p)"
| op_clear: "pool_op p (ClearCooldown mo now i p)"
| op_update: "pool_op p (snd (Update mo now i fn p))"
| op_add: "pool_op p (snd (Add mo now a p))"
| op_delete: "pool_op p (snd (Delete mo now i p))"
| op_tokens: "pool_op p (snd (StoreTokens mo now i acc ref ex p))"
| op_recover: "pool_op p (snd (RecoverBucket mo now ord i p))"
| op_error: "pool_op p (MarkError mo now i msg p)"
| op_save_cell: "pool_op p (snd (SaveCell mo now oc p))"
| op_cool_cell: "pool_op p (snd (CooldownCell mo now i t msg p))"
| op_cool_cell_for: "pool_op p (snd (CooldownCellForAccount mo now i t msg p))"
| op_clear_cell: "pool_op p (snd (ClearCellCooldown mo now i p))"
| op_drivers: "pool_op p (SetDrivers mo now ord ds p)"

inductive lease_step :: "routing_sys \<Rightarrow> routing_sys \<Rightarrow> bool" where
  step_route:
    "route_section now ord drv req binding (rs_pool s) = (RouteLeased a l, p) \<Longrightarrow>
     lease_step s (s\<lparr> rs_pool := p, rs_leases := rs_leases s @ [l] \<rparr>)"
| step_no_route:
    "route_section now ord drv req binding (rs_pool s) = (r, p) \<Longrightarrow> \<forall>a l. r \<noteq> RouteLeased a l \<Longrightarrow>
     lease_step s (s\<lparr> rs_pool := p \<rparr>)"
| step_accept:
    "i < length (rs_leases s) \<Longrightarrow> Accept now ttl (rs_leases s ! i) (rs_pool s) = (e, l, p) \<Longrightarrow>
     lease_step s (s\<lparr> rs_pool := p, rs_leases := (rs_leases s)[i := l] \<rparr>)"
| step_finish:
    "i < length (rs_leases s) \<Longrightarrow> finish (rs_leases s ! i) (rs_pool s) = (l, p) \<Longrightarrow>
     lease_step s (s\<lparr> rs_pool := p, rs_leases := (rs_leases s)[i := l] \<rparr>)"
| step_op:
    "pool_op (rs_pool s) p \<Longrightarrow> lease_step s (s\<lparr> rs_pool := p \<rparr>)"

inductive lease_reach :: "routing_sys \<Rightarrow> bool" where
  reach_init: "New mo now st b = Inr p \<Longrightarrow> store_wf st \<Longrightarrow> lease_reach \<lparr> rs_pool = p, rs_leases = [] \<rparr>"
| reach_step: "lease_reach s \<Longrightarrow> lease_step s t \<Longrightarrow> lease_reach t"

section \<open>The invariant\<close>

definition live_on :: "route_load_key \<Rightarrow> attempt_lease \<Rightarrow> bool" where
  "live_on k l \<longleftrightarrow> \<not> ls_terminal l \<and> ls_load_key l = k"

definition loads_inv :: "pool \<Rightarrow> attempt_lease list \<Rightarrow> bool" where
  "loads_inv p ls \<longleftrightarrow> (\<forall>k. ld_inflight (load_of p k) = int (length (filter (live_on k) ls)))"

definition claims_inv :: "pool \<Rightarrow> attempt_lease list \<Rightarrow> bool" where
  "claims_inv p ls \<longleftrightarrow>
     (\<forall>k c. p_claims p k = Some c \<longrightarrow> k \<noteq> [] \<and>
        (\<exists>l \<in> set ls. \<not> ls_terminal l \<and> ls_affinity_key l = k \<and> ls_claim l = Some c))
   \<and> (\<forall>k k' c. p_claims p k = Some c \<longrightarrow> p_claims p k' = Some c \<longrightarrow> k = k')
   \<and> distinct (p_closed p)
   \<and> set (p_closed p) \<union> ran (p_claims p) = {..<p_next_claim p}
   \<and> set (p_closed p) \<inter> ran (p_claims p) = {}"

definition lease_inv :: "routing_sys \<Rightarrow> bool" where
  "lease_inv s \<longleftrightarrow> pool_wf (rs_pool s) \<and> loads_inv (rs_pool s) (rs_leases s)
     \<and> claims_inv (rs_pool s) (rs_leases s)"

section \<open>Leasing\<close>

lemma pool_wf_mark_cell: "pool_wf p \<Longrightarrow> pool_wf (mark_cell a p)"
  by (auto simp: mark_cell_def pool_wf_def cellForAccountLocked_def cellLocked_def default_status_def
      split: option.splits if_splits)

lemma mark_cell_frame [simp]:
  "p_loads (mark_cell a p) = p_loads p" "p_claims (mark_cell a p) = p_claims p"
  "p_next_claim (mark_cell a p) = p_next_claim p" "p_closed (mark_cell a p) = p_closed p"
  "p_accounts (mark_cell a p) = p_accounts p" "p_buckets (mark_cell a p) = p_buckets p"
  "p_store (mark_cell a p) = p_store p" "p_seq (mark_cell a p) = p_seq p"
  by (simp_all add: mark_cell_def split: option.splits)

lemma load_of_mark_cell [simp]: "load_of (mark_cell a p) k = load_of p k"
  by (simp add: load_of_def)

lemma lease_effect:
  assumes "leaseAccountLocked x cls key claim p = ((a, l), q)"
  shows "ls_affinity_key l = key" "ls_claim l = claim" "\<not> ls_terminal l" "\<not> ls_accepted l"
    "ls_load_key l = (ac_provider x, bucketKeyLocked x, cls)" "ls_account l = a"
    "p_claims q = p_claims p" "p_next_claim q = p_next_claim p" "p_closed q = p_closed p"
    "\<And>k. ld_inflight (load_of q k) = ld_inflight (load_of p k) + (if k = ls_load_key l then 1 else 0)"
    "ac_id a = ac_id x" "ac_provider a = ac_provider x" "p_store q = p_store p"
    "p_accounts q = p_accounts p"
proof -
  show "ls_affinity_key l = key" "ls_claim l = claim" "\<not> ls_terminal l" "\<not> ls_accepted l"
    "ls_load_key l = (ac_provider x, bucketKeyLocked x, cls)" "ls_account l = a"
    "p_claims q = p_claims p" "p_next_claim q = p_next_claim p" "p_closed q = p_closed p"
    "ac_id a = ac_id x" "ac_provider a = ac_provider x" "p_store q = p_store p"
    "p_accounts q = p_accounts p"
    using assms by (auto simp: leaseAccountLocked_def Let_def projectAccountLocked_def split: option.splits)
  show "ld_inflight (load_of q k) = ld_inflight (load_of p k) + (if k = ls_load_key l then 1 else 0)" for k
    using assms by (auto simp: leaseAccountLocked_def Let_def load_of_def split: option.splits)
qed

lemma pool_wf_lease: "leaseAccountLocked x cls key claim p = (r, q) \<Longrightarrow> pool_wf p \<Longrightarrow> pool_wf q"
  using pool_wf_mark_cell [of p x] by (auto simp: leaseAccountLocked_def Let_def pool_wf_def)

lemma loads_inv_lease:
  assumes "leaseAccountLocked x cls key claim p = ((a, l), q)" and "loads_inv p ls"
  shows "loads_inv q (ls @ [l])"
  using lease_effect [OF assms(1)] assms(2) by (auto simp: loads_inv_def live_on_def)

lemma claims_inv_more: "claims_inv p ls \<Longrightarrow> claims_inv p (ls @ [l])"
  by (auto simp: claims_inv_def)

lemma claims_inv_cong:
  assumes "p_claims q = p_claims p" "p_next_claim q = p_next_claim p" "p_closed q = p_closed p"
  shows "claims_inv q ls \<longleftrightarrow> claims_inv p ls"
  using assms by (simp add: claims_inv_def)

lemma loads_inv_cong: "p_loads q = p_loads p \<Longrightarrow> loads_inv q ls \<longleftrightarrow> loads_inv p ls"
  by (simp add: loads_inv_def load_of_def)

lemma claims_inv_issue:
  assumes inv: "claims_inv p ls" and free: "p_claims p k = None" and k: "k \<noteq> []"
    and l: "\<not> ls_terminal l" "ls_affinity_key l = k" "ls_claim l = Some (p_next_claim p)"
  shows "claims_inv (issue_claim k p) (ls @ [l])"
proof -
  have fresh: "p_next_claim p \<notin> ran (p_claims p)" "p_next_claim p \<notin> set (p_closed p)"
    using inv by (auto simp: claims_inv_def)
  have ran: "ran ((p_claims p)(k \<mapsto> p_next_claim p)) = insert (p_next_claim p) (ran (p_claims p))"
    using free by (rule ran_map_upd)
  from inv fresh show ?thesis
    unfolding claims_inv_def issue_claim_def
    by (auto simp: ran ranI l k lessThan_Suc split: if_splits)
qed

lemma claims_inv_failed:
  assumes inv: "claims_inv p ls" and free: "p_claims p k = None" and k: "k \<noteq> []"
  shows "claims_inv (releaseAffinityClaimLocked k (Some (p_next_claim p)) (issue_claim k p)) ls"
proof -
  have fresh: "p_next_claim p \<notin> ran (p_claims p)" "p_next_claim p \<notin> set (p_closed p)"
    using inv by (auto simp: claims_inv_def)
  have "(p_claims p)(k := None) = p_claims p" using free by auto
  with inv fresh k show ?thesis
    unfolding claims_inv_def issue_claim_def releaseAffinityClaimLocked_def
    by (auto simp: lessThan_Suc)
qed

lemma ran_upd_None_inj:
  assumes "m k = Some c" and "\<And>k'. m k' = Some c \<Longrightarrow> k' = k"
  shows "ran (m(k := None)) = ran m - {c}"
proof (rule set_eqI)
  fix x
  have "x \<in> ran (m(k := None)) \<longleftrightarrow> (\<exists>k'. k' \<noteq> k \<and> m k' = Some x)" by (auto simp: ran_def)
  also have "\<dots> \<longleftrightarrow> (\<exists>k'. m k' = Some x) \<and> x \<noteq> c" using assms by (metis option.inject)
  also have "\<dots> \<longleftrightarrow> x \<in> ran m \<and> x \<noteq> c" by (simp add: ran_def)
  finally show "x \<in> ran (m(k := None)) \<longleftrightarrow> x \<in> ran m - {c}" by simp
qed

lemma claims_inv_release:
  assumes inv: "claims_inv p ls"
  shows "claims_inv (releaseAffinityClaimLocked k cl p) ls"
proof (cases "k = [] \<or> cl = None \<or> p_claims p k \<noteq> cl")
  case True
  with inv show ?thesis by (auto simp: releaseAffinityClaimLocked_def)
next
  case False
  then obtain c where c: "cl = Some c" "p_claims p k = Some c" "k \<noteq> []" by auto
  have inj: "p_claims p k' = Some c \<Longrightarrow> k' = k" for k'
    using inv c by (auto simp: claims_inv_def)
  have cr: "c \<in> ran (p_claims p)" using c by (auto intro: ranI)
  let ?q = "releaseAffinityClaimLocked k cl p"
  have q: "p_claims ?q = (p_claims p)(k := None)" "p_closed ?q = p_closed p @ [c]"
    "p_next_claim ?q = p_next_claim p"
    using c by (simp_all add: releaseAffinityClaimLocked_def)
  have ran: "ran (p_claims ?q) = ran (p_claims p) - {c}"
    unfolding q(1) by (rule ran_upd_None_inj [where m = "p_claims p" and k = k, OF c(2)]) (rule inj)
  have sub: "p_claims ?q k' = Some x \<Longrightarrow> p_claims p k' = Some x" for k' x
    by (simp add: q split: if_splits)
  have old: "distinct (p_closed p)" "set (p_closed p) \<union> ran (p_claims p) = {..<p_next_claim p}"
    "set (p_closed p) \<inter> ran (p_claims p) = {}"
    using inv by (simp_all add: claims_inv_def)
  show ?thesis unfolding claims_inv_def
  proof (intro conjI)
    show "\<forall>k c. p_claims ?q k = Some c \<longrightarrow> k \<noteq> [] \<and>
        (\<exists>l \<in> set ls. \<not> ls_terminal l \<and> ls_affinity_key l = k \<and> ls_claim l = Some c)"
      using inv sub unfolding claims_inv_def by blast
    show "\<forall>k k' c. p_claims ?q k = Some c \<longrightarrow> p_claims ?q k' = Some c \<longrightarrow> k = k'"
      using inv sub unfolding claims_inv_def by blast
    show "distinct (p_closed ?q)" using old cr by (auto simp: q)
    show "set (p_closed ?q) \<union> ran (p_claims ?q) = {..<p_next_claim ?q}"
      unfolding ran q(2,3) using old(2) cr by auto
    show "set (p_closed ?q) \<inter> ran (p_claims ?q) = {}"
      unfolding ran q(2) using old(3) by auto
  qed
qed

lemma release_frame [simp]:
  "p_loads (releaseAffinityClaimLocked k c p) = p_loads p"
  "p_store (releaseAffinityClaimLocked k c p) = p_store p"
  "p_accounts (releaseAffinityClaimLocked k c p) = p_accounts p"
  "pool_wf (releaseAffinityClaimLocked k c p) = pool_wf p"
  "load_of (releaseAffinityClaimLocked k c p) = load_of p"
  by (auto simp: releaseAffinityClaimLocked_def pool_wf_def load_of_def fun_eq_iff)

section \<open>Accepting and finishing\<close>

lemma length_filter_update:
  assumes "i < length xs" and "P (xs ! i)" and "\<not> P x"
  shows "Suc (length (filter P (xs[i := x]))) = length (filter P xs)"
  using assms
proof (induction xs arbitrary: i)
  case (Cons y ys)
  then show ?case by (cases i) auto
qed simp

lemma length_filter_update_same:
  assumes "i < length xs" and "P (xs ! i) = P x"
  shows "length (filter P (xs[i := x])) = length (filter P xs)"
  using assms
proof (induction xs arbitrary: i)
  case (Cons y ys)
  then show ?case by (cases i) auto
qed simp

lemma loads_inv_finish:
  assumes inv: "loads_inv p ls" and i: "i < length ls" and f: "finish (ls ! i) p = (l', q)"
  shows "loads_inv q (ls[i := l'])"
proof (cases "ls_terminal (ls ! i)")
  case True
  with f i have "l' = ls ! i" "q = p" by (auto simp: finish_def)
  with inv i show ?thesis by simp
next
  case False
  let ?l = "ls ! i" and ?k = "ls_load_key (ls ! i)"
  have l': "l' = ?l\<lparr>ls_terminal := True\<rparr>" using f False by (simp add: finish_def Let_def)
  have cnt: "length (filter (live_on k) (ls[i := l'])) + (if k = ?k then 1 else 0)
      = length (filter (live_on k) ls)" for k
    using length_filter_update [OF i, of "live_on k" l'] length_filter_update_same [OF i, of "live_on k" l']
    by (auto simp: live_on_def l' False)
  have "0 < ld_inflight (load_of p ?k)"
  proof -
    have "ld_inflight (load_of p ?k) = int (length (filter (live_on ?k) ls))"
      using inv unfolding loads_inv_def by blast
    moreover have "0 < length (filter (live_on ?k) ls)" using cnt [of ?k] by (cases "filter (live_on ?k) ls") simp_all
    ultimately show ?thesis by linarith
  qed
  then obtain ld where ld: "p_loads p ?k = Some ld" "0 < ld_inflight ld"
    by (auto simp: load_of_def split: option.splits)
  have "ld_inflight (load_of q k) = ld_inflight (load_of p k) - (if k = ?k then 1 else 0)" for k
    using f False ld by (auto simp: finish_def Let_def load_of_def)
  moreover have "ld_inflight (load_of p k) = int (length (filter (live_on k) ls))" for k
    using inv unfolding loads_inv_def by blast
  ultimately have "ld_inflight (load_of q k) = int (length (filter (live_on k) (ls[i := l'])))" for k
    using cnt [of k] by (cases "k = ?k") (simp_all split: if_splits)
  then show ?thesis unfolding loads_inv_def by blast
qed

lemma claims_inv_finish:
  assumes inv: "claims_inv p ls" and i: "i < length ls" and f: "finish (ls ! i) p = (l', q)"
  shows "claims_inv q (ls[i := l'])"
proof (cases "ls_terminal (ls ! i)")
  case True
  with f i have "l' = ls ! i" "q = p" by (auto simp: finish_def)
  with inv i show ?thesis by simp
next
  case False
  let ?l = "ls ! i"
  define p1 where "p1 = (case p_loads p (ls_load_key ?l) of None \<Rightarrow> p
    | Some ld \<Rightarrow> if 0 < ld_inflight ld then p\<lparr>p_loads := (p_loads p)(ls_load_key ?l \<mapsto>
        ld\<lparr>ld_inflight := ld_inflight ld - 1\<rparr>)\<rparr> else p)"
  have q: "q = releaseAffinityClaimLocked (ls_affinity_key ?l) (ls_claim ?l) p1"
    using f False by (simp add: finish_def Let_def p1_def)
  have "claims_inv p1 ls" using inv by (simp add: p1_def claims_inv_def split: option.splits)
  then have inv1: "claims_inv q ls" unfolding q by (rule claims_inv_release)
  have gone: "p_claims q (ls_affinity_key ?l) \<noteq> Some c" if "ls_claim ?l = Some c" "ls_affinity_key ?l \<noteq> []" for c
    using that by (auto simp: q releaseAffinityClaimLocked_def)
  have "\<exists>m \<in> set (ls[i := l']). \<not> ls_terminal m \<and> ls_affinity_key m = k \<and> ls_claim m = Some c"
    if kc: "p_claims q k = Some c" for k c
  proof -
    from inv1 kc obtain m where m: "m \<in> set ls" "\<not> ls_terminal m" "ls_affinity_key m = k" "ls_claim m = Some c"
      and k: "k \<noteq> []" unfolding claims_inv_def by blast
    have "m \<noteq> ?l" using gone [of c] m k kc by auto
    with m(1) have "m \<in> set (ls[i := l'])" by (metis in_set_conv_nth length_list_update nth_list_update_neq)
    with m show ?thesis by blast
  qed
  with inv1 show ?thesis unfolding claims_inv_def by blast
qed

lemma pool_wf_loads [simp]: "pool_wf (p\<lparr>p_loads := m\<rparr>) = pool_wf p"
  by (simp add: pool_wf_def)

lemma pool_wf_finish: "finish l p = (l', q) \<Longrightarrow> pool_wf p \<Longrightarrow> pool_wf q"
  by (auto simp: finish_def Let_def split: if_splits option.splits)

lemma SetSessionBinding_frame:
  assumes "SetSessionBinding now k a ttl p = (e, q)"
  shows "p_loads q = p_loads p" "p_claims q = p_claims p" "p_next_claim q = p_next_claim p"
    "p_closed q = p_closed p" "pool_wf p \<Longrightarrow> pool_wf q"
  using assms by (auto simp: SetSessionBinding_def pool_wf_def store_wf_intros split: if_splits)

lemma Accept_cases:
  assumes "Accept now ttl l p = (e, l', q)"
  obtains (idle) "l' = l" "q = p"
    | (released) p1 where "l' = l \<or> l' = l\<lparr>ls_accepted := True\<rparr>"
        "q = releaseAffinityClaimLocked (ls_affinity_key l) (ls_claim l) p1"
        "p1 = p \<or> (\<exists>e1. SetSessionBinding now (ls_affinity_key l) (ls_account l) ttl p = (e1, p1))"
  using assms that by (auto simp: Accept_def split: if_splits prod.splits option.splits)

lemma Accept_lease:
  "Accept now ttl l p = (e, l', q) \<Longrightarrow> ls_terminal l' = ls_terminal l \<and> ls_load_key l' = ls_load_key l
     \<and> ls_affinity_key l' = ls_affinity_key l \<and> ls_claim l' = ls_claim l"
  by (erule Accept_cases) auto

lemma lease_inv_accept:
  assumes inv: "lease_inv s" and i: "i < length (rs_leases s)"
    and a: "Accept now ttl (rs_leases s ! i) (rs_pool s) = (e, l', q)"
  shows "lease_inv (s\<lparr>rs_pool := q, rs_leases := (rs_leases s)[i := l']\<rparr>)"
proof -
  let ?p = "rs_pool s" and ?ls = "rs_leases s"
  have fr: "p_loads q = p_loads ?p \<and> (pool_wf ?p \<longrightarrow> pool_wf q) \<and> (claims_inv ?p ?ls \<longrightarrow> claims_inv q ?ls)"
    using a
  proof (cases rule: Accept_cases)
    case (released p1)
    then have "p_loads p1 = p_loads ?p \<and> (pool_wf ?p \<longrightarrow> pool_wf p1) \<and> (claims_inv ?p ?ls \<longrightarrow> claims_inv p1 ?ls)"
      using SetSessionBinding_frame claims_inv_cong by metis
    with released show ?thesis by (auto intro: claims_inv_release)
  qed simp
  have l': "live_on k l' = live_on k (?ls ! i)" for k using Accept_lease [OF a] by (simp add: live_on_def)
  have "loads_inv q (?ls[i := l'])"
    using inv fr length_filter_update_same [OF i] l'
    by (simp add: lease_inv_def loads_inv_def load_of_def)
  moreover have "claims_inv q (?ls[i := l'])"
  proof -
    have c: "claims_inv q ?ls" using inv fr by (simp add: lease_inv_def)
    have "\<exists>m \<in> set (?ls[i := l']). \<not> ls_terminal m \<and> ls_affinity_key m = k \<and> ls_claim m = Some x"
      if kc: "p_claims q k = Some x" for k x
    proof -
      from c kc obtain j where j: "j < length ?ls" "\<not> ls_terminal (?ls ! j)" "ls_affinity_key (?ls ! j) = k"
        "ls_claim (?ls ! j) = Some x" unfolding claims_inv_def by (metis in_set_conv_nth)
      then have "?ls[i := l'] ! j \<in> set (?ls[i := l'])" by simp
      moreover have "\<not> ls_terminal (?ls[i := l'] ! j) \<and> ls_affinity_key (?ls[i := l'] ! j) = k
          \<and> ls_claim (?ls[i := l'] ! j) = Some x"
        using j Accept_lease [OF a] by (cases "i = j") auto
      ultimately show ?thesis by blast
    qed
    with c show ?thesis unfolding claims_inv_def by blast
  qed
  ultimately show ?thesis using inv fr by (simp add: lease_inv_def)
qed

section \<open>The invariant is inductive\<close>

lemma lease_inv_same_routing:
  assumes "lease_inv s" and "pool_wf q" and "same_routing (rs_pool s) q"
  shows "lease_inv (s\<lparr>rs_pool := q\<rparr>)"
  using assms loads_inv_cong [of q "rs_pool s"] claims_inv_cong [of q "rs_pool s"]
  by (simp add: lease_inv_def same_routing_def)

lemma same_routing_refl [simp]: "same_routing p p"
  by (simp add: same_routing_def)

lemma pool_op_routing:
  assumes "pool_op p q" and "pool_wf p"
  shows "pool_wf q \<and> same_routing p q"
  using assms
proof (induction rule: pool_op.induct)
  case (op_refresh p mo now)
  then show ?case using routing.I_reload [of p p mo now] by (simp add: refreshState_def)
qed (rule routing.I_operations, simp)+

lemma lease_inv_leased:
  assumes inv: "lease_inv s" and l: "leaseAccountLocked x cls key None (rs_pool s) = ((a, l), q)"
  shows "lease_inv (s\<lparr>rs_pool := q, rs_leases := rs_leases s @ [l]\<rparr>)"
  using inv loads_inv_lease [OF l] pool_wf_lease [OF l] lease_effect(7,8,9) [OF l]
    claims_inv_cong [of q "rs_pool s" "rs_leases s @ [l]"] claims_inv_more [of "rs_pool s" "rs_leases s" l]
  by (simp add: lease_inv_def)

lemma issue_claim_frame [simp]:
  "p_loads (issue_claim k p) = p_loads p" "load_of (issue_claim k p) = load_of p"
  "p_accounts (issue_claim k p) = p_accounts p" "p_buckets (issue_claim k p) = p_buckets p"
  "p_cells (issue_claim k p) = p_cells p" "p_store (issue_claim k p) = p_store p"
  "pool_wf (issue_claim k p) = pool_wf p"
  by (auto simp: issue_claim_def load_of_def pool_wf_def fun_eq_iff)

lemma lease_inv_claimed:
  assumes inv: "lease_inv s" and free: "p_claims (rs_pool s) key = None" and k: "key \<noteq> []"
    and l: "leaseAccountLocked x cls key (Some (p_next_claim (rs_pool s))) (issue_claim key (rs_pool s)) = ((a, l), q)"
  shows "lease_inv (s\<lparr>rs_pool := q, rs_leases := rs_leases s @ [l]\<rparr>)"
proof -
  let ?p = "issue_claim key (rs_pool s)"
  have "loads_inv ?p (rs_leases s)" using inv loads_inv_cong [of ?p "rs_pool s"] by (simp add: lease_inv_def)
  then have "loads_inv q (rs_leases s @ [l])" by (rule loads_inv_lease [OF l])
  moreover have "claims_inv ?p (rs_leases s @ [l])"
    using inv lease_effect [OF l] by (intro claims_inv_issue free k) (simp_all add: lease_inv_def)
  then have "claims_inv q (rs_leases s @ [l])"
    using claims_inv_cong [of q ?p] lease_effect(7,8,9) [OF l] by simp
  ultimately show ?thesis using pool_wf_lease [OF l] inv by (simp add: lease_inv_def)
qed

lemma lease_inv_failed:
  assumes inv: "lease_inv s" and free: "p_claims (rs_pool s) key = None" and k: "key \<noteq> []"
  shows "lease_inv (s\<lparr>rs_pool := releaseAffinityClaimLocked key (Some (p_next_claim (rs_pool s)))
                                  (issue_claim key (rs_pool s))\<rparr>)"
  using inv claims_inv_failed [OF _ free k] unfolding lease_inv_def
  by (simp add: loads_inv_def)

lemma lease_inv_step:
  assumes "lease_step s t" and inv: "lease_inv s"
  shows "lease_inv t"
  using assms(1)
proof cases
  case (step_route now ord drv req binding a l p)
  from step_route(2) show ?thesis
  proof (cases rule: route_section_cases)
    case same
    then show ?thesis by simp
  next
    case (bound x cls a' l')
    then show ?thesis using lease_inv_leased [OF inv] step_route(1) by simp
  next
    case scan
    then show ?thesis
    proof (cases rule: scan_or_wait_cases)
      case (plain x cls a' l')
      then show ?thesis using lease_inv_leased [OF inv] step_route(1) by simp
    next
      case (claimed x cls a' l')
      then show ?thesis using lease_inv_claimed [OF inv] step_route(1) by simp
    qed auto
  qed
next
  case (step_no_route now ord drv req binding r p)
  from step_no_route(2) show ?thesis
  proof (cases rule: route_section_cases)
    case same
    then show ?thesis using inv step_no_route(1) by simp
  next
    case (bound x cls a' l')
    then show ?thesis using step_no_route(3) by simp
  next
    case scan
    then show ?thesis
    proof (cases rule: scan_or_wait_cases)
      case same
      then show ?thesis using inv step_no_route(1) by simp
    next
      case failed
      then show ?thesis using lease_inv_failed [OF inv] step_no_route(1) by simp
    qed (use step_no_route(3) in simp_all)
  qed
next
  case (step_accept i now ttl e l p)
  then show ?thesis using lease_inv_accept [OF inv] by simp
next
  case (step_finish i l p)
  then show ?thesis
    using inv loads_inv_finish [OF _ step_finish(2,3)] claims_inv_finish [OF _ step_finish(2,3)]
      pool_wf_finish [OF step_finish(3)]
    by (simp add: lease_inv_def)
next
  case (step_op p)
  then show ?thesis
    using pool_op_routing [of "rs_pool s" p] inv lease_inv_same_routing [OF inv, of p]
    by (simp add: lease_inv_def)
qed

lemma pool_wf_empty: "store_wf st \<Longrightarrow> pool_wf (empty_pool st b)"
  by (simp add: pool_wf_def empty_pool_def)

lemma lease_inv_init:
  assumes "New mo now st b = Inr p" and "store_wf st"
  shows "lease_inv \<lparr>rs_pool = p, rs_leases = []\<rparr>"
proof -
  have "refreshState mo now (empty_pool st b) = (None, p)"
    using assms(1) by (auto simp: New_def split: prod.splits option.splits)
  then have p: "p = snd (reloadStateLocked mo now (empty_pool st b))" by (simp add: refreshState_def)
  have "pool_wf p" unfolding p by (rule pool_wf_reload) (rule pool_wf_empty [OF assms(2)])
  then show ?thesis
    by (simp add: lease_inv_def loads_inv_def claims_inv_def load_of_def p empty_pool_def)
qed

lemma lease_inv_reach: "lease_reach s \<Longrightarrow> lease_inv s"
  by (induction rule: lease_reach.induct) (auto intro: lease_inv_init lease_inv_step)

section \<open>Waiting\<close>

lemma scan_or_wait_wait:
  assumes "scan_or_wait now ord drv req p = (RouteWait c, q)"
  shows "q = p \<and> rq_affinity_key req \<noteq> [] \<and> p_claims p (rq_affinity_key req) = Some c"
  using assms by (auto simp: scan_or_wait_def Let_def split: if_splits option.splits prod.splits sum.splits)

lemma acquireLocked_error_frame: "acquireLocked now ord drv req i cl p = (Inl e, q) \<Longrightarrow> q = p"
  by (erule acquireLocked_cases) auto

lemma route_section_wait:
  assumes "route_section now ord drv req binding p = (RouteWait c, q)"
  shows "q = p \<and> rq_affinity_key req \<noteq> [] \<and> p_claims p (rq_affinity_key req) = Some c"
  using assms
  by (auto simp: route_section_def Let_def scan_or_wait_wait
      split: if_splits option.splits prod.splits sum.splits
      dest!: acquireLocked_error_frame scan_or_wait_wait)

lemma finish_releases:
  assumes "\<not> ls_terminal l" and "ls_claim l = Some c" and "ls_affinity_key l \<noteq> []"
    and "p_claims p (ls_affinity_key l) = Some c"
  shows "c \<in> set (p_closed (snd (finish l p)))" "p_claims (snd (finish l p)) (ls_affinity_key l) = None"
  using assms by (auto simp: finish_def Let_def releaseAffinityClaimLocked_def split: option.splits)

lemma Accept_binds:
  assumes "Accept t ttl l p = (None, l', q)" and "\<not> ls_terminal l" and "\<not> ls_accepted l"
    and "ls_affinity_key l \<noteq> []" and "now < t + ttl"
  shows "\<exists>b. GetSessionBinding now (ls_affinity_key l) (p_store q) = Some b
    \<and> sb_provider b = ac_provider (ls_account l) \<and> sb_subject b = ac_subject (ls_account l)"
  using assms
  by (auto simp: Accept_def SetSessionBinding_def SaveSessionBinding_def GetSessionBinding_def
      split: if_splits prod.splits option.splits)

end
