(* ===== verification/Scheduling.thy ===== *)
theory Scheduling
  imports Leases "HOL-Library.Product_Lexorder"
begin

text \<open>
  What an acquired route satisfies: the leased account passes every filter of the request, its bucket
  has the least weighted load among the candidate buckets, and it is the least recently used account
  of that bucket.  The choice functions are folds; both are instances of a first-minimum fold.
\<close>

section \<open>First minimum of a list\<close>

definition first_min :: "('a \<Rightarrow> 'b::linorder) \<Rightarrow> 'a \<Rightarrow> 'a list \<Rightarrow> 'a" where
  "first_min f x xs = foldl (\<lambda>best d. if f d < f best then d else best) x xs"

lemma first_min_mem: "first_min f x xs \<in> set (x # xs)"
  by (induction xs arbitrary: x) (auto simp: first_min_def)

lemma first_min_le: "y \<in> set (x # xs) \<Longrightarrow> f (first_min f x xs) \<le> f y"
proof (induction xs arbitrary: x y)
  case (Cons z xs)
  let ?w = "if f z < f x then z else x"
  have step: "first_min f x (z # xs) = first_min f ?w xs" by (simp add: first_min_def)
  have "f (first_min f ?w xs) \<le> f ?w" by (rule Cons.IH) simp
  moreover have "f ?w \<le> f x" "f ?w \<le> f z" by auto
  moreover have "y \<in> set xs \<Longrightarrow> f (first_min f ?w xs) \<le> f y" by (rule Cons.IH) simp
  ultimately show ?case unfolding step using Cons.prems by (auto intro: order_trans)
qed (simp add: first_min_def)

section \<open>The choice of a bucket\<close>

definition candidate_rank :: "pool \<Rightarrow> provider \<Rightarrow> bucket_candidate \<Rightarrow> real \<times> 64 word \<times> string" where
  "candidate_rank p prov c =
     (candidate_score p prov c, ld_last_assigned (candidate_load p prov c), bc_key c)"

lemma better_candidate_rank:
  "better_candidate p prov c d \<longleftrightarrow> candidate_rank p prov c < candidate_rank p prov d"
  by (auto simp: better_candidate_def candidate_rank_def)

lemma leastInflight_first_min:
  "leastInflightCandidateLocked p prov (c # cs) = Some (first_min (candidate_rank p prov) c cs)"
  by (simp add: leastInflightCandidateLocked_def first_min_def better_candidate_rank)

lemma leastInflight_Some:
  assumes "leastInflightCandidateLocked p prov cs = Some c"
  shows "c \<in> set cs" and "d \<in> set cs \<Longrightarrow> candidate_rank p prov c \<le> candidate_rank p prov d"
proof -
  obtain x xs where cs: "cs = x # xs"
    using assms by (cases cs) (auto simp: leastInflightCandidateLocked_def)
  with assms have c: "c = first_min (candidate_rank p prov) x xs" by (simp add: leastInflight_first_min)
  show "c \<in> set cs" unfolding c cs by (rule first_min_mem)
  show "d \<in> set cs \<Longrightarrow> candidate_rank p prov c \<le> candidate_rank p prov d"
    unfolding c cs by (rule first_min_le)
qed

lemma leastRecentlyUsed_first_min:
  "leastRecentlyUsed (a # as) = Some (first_min (\<lambda>x. timeOrZero (ac_last_used_at x)) a as)"
  by (simp add: leastRecentlyUsed_def first_min_def)

lemma leastRecentlyUsed_Some:
  assumes "leastRecentlyUsed as = Some a"
  shows "a \<in> set as"
    and "b \<in> set as \<Longrightarrow> timeOrZero (ac_last_used_at a) \<le> timeOrZero (ac_last_used_at b)"
proof -
  obtain x xs where as: "as = x # xs" using assms by (cases as) (auto simp: leastRecentlyUsed_def)
  with assms have a: "a = first_min (\<lambda>x. timeOrZero (ac_last_used_at x)) x xs"
    by (simp add: leastRecentlyUsed_first_min)
  show "a \<in> set as" unfolding a as by (rule first_min_mem)
  show "b \<in> set as \<Longrightarrow> timeOrZero (ac_last_used_at a) \<le> timeOrZero (ac_last_used_at b)"
    unfolding a as by (rule first_min_le)
qed

section \<open>The candidates\<close>

text \<open>
  The invariant of the loop that collects the candidate buckets, over the accounts visited so far:
  a bucket is present exactly when one of them is a candidate in it, and it holds those accounts.
\<close>

definition eligible_on ::
  "pool \<Rightarrow> scheduler_driver \<Rightarrow> route_request \<Rightarrow> gotime \<Rightarrow> string \<Rightarrow> account list \<Rightarrow> account list" where
  "eligible_on p drv req now key as =
     filter (\<lambda>a. candidate_account p drv req now a \<and> bucketKeyLocked a = key) as"

lemma add_candidate_accts:
  assumes "\<And>k. (case map_of bs k of None \<Rightarrow> eligible_on p drv req now k as = []
                 | Some c \<Rightarrow> bc_key c = k \<and> bc_accts c = eligible_on p drv req now k as \<and> bc_accts c \<noteq> [])"
  shows "(case map_of (add_candidate p drv req now bs a) k of
            None \<Rightarrow> eligible_on p drv req now k (as @ [a]) = []
          | Some c \<Rightarrow> bc_key c = k \<and> bc_accts c = eligible_on p drv req now k (as @ [a]) \<and> bc_accts c \<noteq> [])"
  using assms [of k] assms [of "bucketKeyLocked a"]
  by (auto simp: add_candidate_def Let_def eligible_on_def update_conv' split: option.splits if_splits)

lemma foldl_candidates:
  "(case map_of (foldl (add_candidate p drv req now) [] as) k of
      None \<Rightarrow> eligible_on p drv req now k as = []
    | Some c \<Rightarrow> bc_key c = k \<and> bc_accts c = eligible_on p drv req now k as \<and> bc_accts c \<noteq> [])"
proof (induction as arbitrary: k rule: rev_induct)
  case (snoc a as)
  show ?case using add_candidate_accts [OF snoc] by simp
qed (simp add: eligible_on_def)

lemma distinct_foldl_candidates: "distinct (map fst (foldl (add_candidate p drv req now) [] as))"
proof (induction as rule: rev_induct)
  case (snoc a as)
  then show ?case
    by (auto simp: add_candidate_def Let_def distinct_update split: option.splits)
qed simp

lemma candidates_mem:
  "c \<in> set (candidates p drv req now ord) \<longleftrightarrow>
   (let as = entries (p_accounts p) ord in
    map_of (foldl (add_candidate p drv req now) [] as) (bc_key c) = Some c)"
proof -
  let ?bs = "foldl (add_candidate p drv req now) [] (entries (p_accounts p) ord)"
  have "c \<in> set (candidates p drv req now ord) \<longleftrightarrow> (\<exists>k. map_of ?bs k = Some c)"
    using distinct_foldl_candidates [of p drv req now "entries (p_accounts p) ord"]
    by (auto simp: candidates_def map_of_eq_Some_iff image_iff) (metis fst_conv snd_conv)+
  moreover have "map_of ?bs k = Some c \<Longrightarrow> bc_key c = k" for k
    using foldl_candidates [of p drv req now k "entries (p_accounts p) ord"] by simp
  ultimately show ?thesis by (auto simp: Let_def)
qed

lemma candidates_accts:
  assumes "c \<in> set (candidates p drv req now ord)"
  shows "bc_accts c = eligible_on p drv req now (bc_key c) (entries (p_accounts p) ord)" "bc_accts c \<noteq> []"
  using assms foldl_candidates [of p drv req now "bc_key c" "entries (p_accounts p) ord"]
  by (auto simp: candidates_mem Let_def)

lemma candidates_complete:
  assumes "candidate_account p drv req now a" and "a \<in> set (entries (p_accounts p) ord)"
  shows "\<exists>c \<in> set (candidates p drv req now ord). bc_key c = bucketKeyLocked a \<and> a \<in> set (bc_accts c)"
proof -
  have "a \<in> set (eligible_on p drv req now (bucketKeyLocked a) (entries (p_accounts p) ord))"
    using assms by (simp add: eligible_on_def)
  then obtain c where "map_of (foldl (add_candidate p drv req now) [] (entries (p_accounts p) ord))
      (bucketKeyLocked a) = Some c" "bc_key c = bucketKeyLocked a" "a \<in> set (bc_accts c)"
    using foldl_candidates [of p drv req now "bucketKeyLocked a" "entries (p_accounts p) ord"]
    by (auto split: option.splits)
  then show ?thesis by (auto simp: candidates_mem Let_def)
qed

section \<open>The scan\<close>

lemma acquire_scan_leased:
  assumes "acquire_scan now ord drv req claim p = (Inr (a, l), q)"
  obtains x c where "c \<in> set (candidates p drv req now ord)" "x \<in> set (bc_accts c)"
    "\<And>d. d \<in> set (candidates p drv req now ord) \<Longrightarrow>
       candidate_rank p (sd_provider drv) c \<le> candidate_rank p (sd_provider drv) d"
    "\<And>y. y \<in> set (bc_accts c) \<Longrightarrow> timeOrZero (ac_last_used_at x) \<le> timeOrZero (ac_last_used_at y)"
    "leaseAccountLocked x (bc_class c) (rq_affinity_key req) claim p = ((a, l), q)"
proof -
  obtain c x where c: "leastInflightCandidateLocked p (sd_provider drv) (candidates p drv req now ord) = Some c"
    and x: "leastRecentlyUsed (bc_accts c) = Some x"
    and l: "leaseAccountLocked x (bc_class c) (rq_affinity_key req) claim p = ((a, l), q)"
    using assms by (auto simp: acquire_scan_def split: option.splits prod.splits)
  show thesis
    by (rule that [OF leastInflight_Some(1) [OF c] leastRecentlyUsed_Some(1) [OF x]
          leastInflight_Some(2) [OF c] leastRecentlyUsed_Some(2) [OF x] l])
qed

text \<open>The scan fails only when there is no candidate at all.\<close>

lemma acquire_scan_error:
  assumes "acquire_scan now ord drv req claim p = (Inl e, q)"
  shows "e = NoAvailableAccounts \<and> q = p \<and>
    (\<forall>a \<in> set (entries (p_accounts p) ord). \<not> candidate_account p drv req now a)"
proof -
  have none: "candidates p drv req now ord = []"
  proof (rule ccontr)
    assume "candidates p drv req now ord \<noteq> []"
    then obtain c where c: "leastInflightCandidateLocked p (sd_provider drv) (candidates p drv req now ord) = Some c"
      by (cases "candidates p drv req now ord") (simp_all add: leastInflightCandidateLocked_def)
    have "bc_accts c \<noteq> []" by (rule candidates_accts(2) [OF leastInflight_Some(1) [OF c]])
    then obtain x where "leastRecentlyUsed (bc_accts c) = Some x"
      by (cases "bc_accts c") (simp_all add: leastRecentlyUsed_def)
    with assms c show False by (simp add: acquire_scan_def split: prod.splits)
  qed
  have "\<not> candidate_account p drv req now a" if "a \<in> set (entries (p_accounts p) ord)" for a
    using candidates_complete [OF _ that, of drv req now] none by fastforce
  with assms none show ?thesis
    by (auto simp: acquire_scan_def leastInflightCandidateLocked_def)
qed

section \<open>The route\<close>

text \<open>Issuing a claim does not change what the filters see.\<close>

lemma filters_issue_claim [simp]:
  "bucketStateLocked (issue_claim k p) a = bucketStateLocked p a"
  "cellForAccountLocked (issue_claim k p) a = cellForAccountLocked p a"
  "structurallyAvailableLocked (issue_claim k p) a now = structurallyAvailableLocked p a now"
  "allowedOnSurfaceLocked (issue_claim k p) a sf = allowedOnSurfaceLocked p a sf"
  "capacityAssessmentLocked (issue_claim k p) a drv m now = capacityAssessmentLocked p a drv m now"
  "candidate_account (issue_claim k p) drv req now a = candidate_account p drv req now a"
  by (simp_all add: bucketStateLocked_def bucketLocked_def cellForAccountLocked_def cellLocked_def
      structurallyAvailableLocked_def bucketCooldownLocked_def allowedOnSurfaceLocked_def
      capacityAssessmentLocked_def candidate_account_def matchesProvider_def)

lemma add_candidate_issue_claim [simp]:
  "add_candidate (issue_claim k p) drv req now = add_candidate p drv req now"
  by (simp add: add_candidate_def fun_eq_iff)

lemma candidates_issue_claim [simp]:
  "candidates (issue_claim k p) drv req now ord = candidates p drv req now ord"
  by (simp add: candidates_def)

lemma rank_issue_claim [simp]: "candidate_rank (issue_claim k p) prov c = candidate_rank p prov c"
  by (simp add: candidate_rank_def candidate_score_def candidate_load_def)

lemma candidate_scan:
  assumes "c \<in> set (candidates p drv req now ord)" and "x \<in> set (bc_accts c)"
  shows "candidate_account p drv req now x" "bucketKeyLocked x = bc_key c"
    "x \<in> set (entries (p_accounts p) ord)"
  using assms(2) unfolding candidates_accts(1) [OF assms(1)] by (auto simp: eligible_on_def)

lemma acquire_scan_sound:
  assumes "acquire_scan now ord drv req claim p = (Inr (a, l), q)"
  shows "\<exists>x cls. x \<in> ran (p_accounts p) \<and> candidate_account p drv req now x
     \<and> leaseAccountLocked x cls (rq_affinity_key req) claim p = ((a, l), q)"
  using assms
proof (rule acquire_scan_leased)
  fix x c
  assume c: "c \<in> set (candidates p drv req now ord)" "x \<in> set (bc_accts c)"
    and "leaseAccountLocked x (bc_class c) (rq_affinity_key req) claim p = ((a, l), q)"
  moreover have "x \<in> ran (p_accounts p)"
    using candidate_scan(3) [OF c] by (auto simp: set_entries ran_def)
  ultimately show ?thesis using candidate_scan(1) [OF c] by blast
qed

lemma acquireLocked_bound:
  assumes "acquireLocked now ord drv req bound claim p = (r, q)" and "bound \<noteq> []"
  obtains (leased) x a l where "p_accounts p bound = Some x" "candidate_account p drv req now x"
      "r = Inr (a, l)"
      "leaseAccountLocked x (cap_class (capacityAssessmentLocked p x drv (rq_model req) now))
         (rq_affinity_key req) claim p = ((a, l), q)"
    | (foreign) x where "p_accounts p bound = Some x" "ac_provider x \<noteq> sd_provider drv"
        "acquire_scan now ord drv req claim p = (r, q)"
    | (failed) e where "r = Inl e" "q = p"
  using assms that
  by (auto simp: acquireLocked_def candidate_account_def matchesProvider_def
      split: option.splits if_splits prod.splits)

lemma acquireLocked_sound:
  assumes "acquireLocked now ord drv req bound claim p = (Inr (a, l), q)"
  shows "\<exists>x cls. x \<in> ran (p_accounts p) \<and> candidate_account p drv req now x
     \<and> leaseAccountLocked x cls (rq_affinity_key req) claim p = ((a, l), q)"
proof (cases "bound = []")
  case True
  with assms acquire_scan_sound show ?thesis by (simp add: acquireLocked_def)
next
  case False
  from assms False show ?thesis
  proof (cases rule: acquireLocked_bound)
    case (leased x a' l')
    then show ?thesis by (auto simp: ran_def)
  next
    case (foreign x)
    with acquire_scan_sound show ?thesis by simp
  qed simp
qed

lemma scan_or_wait_sound:
  assumes "scan_or_wait now ord drv req p = (RouteLeased a l, q)"
  shows "\<exists>x cls claim p1. x \<in> ran (p_accounts p) \<and> candidate_account p drv req now x
     \<and> leaseAccountLocked x cls (rq_affinity_key req) claim p1 = ((a, l), q)"
proof (cases "rq_affinity_key req = []")
  case True
  then have "acquireLocked now ord drv req [] None p = (Inr (a, l), q)"
    using assms by (auto simp: scan_or_wait_def split: sum.splits prod.splits)
  from acquireLocked_sound [OF this] show ?thesis by blast
next
  case False
  with assms have "acquireLocked now ord drv req [] (Some (p_next_claim p))
      (issue_claim (rq_affinity_key req) p) = (Inr (a, l), q)"
    by (auto simp: scan_or_wait_def Let_def split: sum.splits prod.splits option.splits)
  from acquireLocked_sound [OF this] show ?thesis by (simp, blast)
qed

lemma route_section_sound:
  assumes "route_section now ord drv req binding p = (RouteLeased a l, q)"
  shows "\<exists>x cls claim p1. x \<in> ran (p_accounts p) \<and> candidate_account p drv req now x
     \<and> leaseAccountLocked x cls (rq_affinity_key req) claim p1 = ((a, l), q)"
proof -
  consider i where "acquireLocked now ord drv req i None p = (Inr (a, l), q)"
    | i p1 e where "acquireLocked now ord drv req i None p = (Inl e, p1)"
        "scan_or_wait now ord drv req p1 = (RouteLeased a l, q)"
    | "scan_or_wait now ord drv req p = (RouteLeased a l, q)"
    using assms
    by (auto simp: route_section_def Let_def split: if_splits option.splits prod.splits sum.splits)
  then show ?thesis
  proof cases
    case 1
    from acquireLocked_sound [OF this] show ?thesis by blast
  next
    case (2 i p1 e)
    from 2(1) have "p1 = p" by (cases rule: acquireLocked_cases) auto
    with 2(2) scan_or_wait_sound show ?thesis by blast
  next
    case 3
    from scan_or_wait_sound [OF this] show ?thesis .
  qed
qed

text \<open>What the filters say, condition by condition.\<close>

lemma candidate_account_parts:
  assumes "candidate_account p drv req now x"
  shows "ac_status x = StatusActive" "ac_provider x = sd_provider drv"
    "\<forall>e \<in> set (rq_exclusions req). ex_account_id e \<noteq> [] \<longrightarrow> ex_account_id e \<noteq> ac_id x"
    "\<forall>e \<in> set (rq_exclusions req). ex_bucket_key e \<noteq> bucketKeyLocked x"
    "allowedOnSurfaceLocked p x (rq_surface req)"
    "ac_cell_id x \<noteq> [] \<longrightarrow> cellAvailableLocked (cellForAccountLocked p x) now"
    "\<forall>t. bucketCooldownLocked p x = Some t \<longrightarrow> t \<le> now"
    "cap_eligible (sd_assess drv (bucketStateLocked p x) (rq_model req) now)"
proof -
  have s: "structurallyAvailableLocked p x now"
    using assms by (simp add: candidate_account_def)
  show "ac_status x = StatusActive" "ac_cell_id x \<noteq> [] \<longrightarrow> cellAvailableLocked (cellForAccountLocked p x) now"
    "\<forall>t. bucketCooldownLocked p x = Some t \<longrightarrow> t \<le> now"
    using s by (auto simp: structurallyAvailableLocked_def split: if_splits option.splits)
  show "\<forall>e \<in> set (rq_exclusions req). ex_account_id e \<noteq> [] \<longrightarrow> ex_account_id e \<noteq> ac_id x"
    "\<forall>e \<in> set (rq_exclusions req). ex_bucket_key e \<noteq> bucketKeyLocked x"
    using assms bucketKey_ne [of x]
    by (auto simp: candidate_account_def excludedAccounts_def excludedBuckets_def simp del: bucketKey_ne)
      (metis imageI)+
  show "ac_provider x = sd_provider drv" "allowedOnSurfaceLocked p x (rq_surface req)"
    "cap_eligible (sd_assess drv (bucketStateLocked p x) (rq_model req) now)"
    using assms by (auto simp: candidate_account_def matchesProvider_def capacityAssessmentLocked_def
        Let_def split: if_splits)
qed

section \<open>Sessions\<close>

lemma accountIDForBinding_Some:
  assumes "accountIDForBindingLocked ord b p = i" and "i \<noteq> []" and "pool_wf p"
  shows "\<exists>x. p_accounts p i = Some x \<and> ac_provider x = sb_provider b \<and> ac_subject x = sb_subject b"
proof -
  let ?P = "\<lambda>a. ac_provider a = sb_provider b \<and> ac_subject a = sb_subject b"
  obtain x where x: "List.find ?P (entries (p_accounts p) ord) = Some x" "ac_id x = i"
    using assms by (auto simp: accountIDForBindingLocked_def split: option.splits)
  then have "?P x" "x \<in> set (entries (p_accounts p) ord)" by (auto simp: find_Some_iff)
  moreover from this(2) obtain k where "p_accounts p k = Some x" by (auto simp: set_entries)
  ultimately show ?thesis using pool_wf_account [OF assms(3)] x(2) by blast
qed

lemma require_bound:
  assumes r: "route_section now ord drv req binding p = (RouteLeased a l, q)"
    and req: "rq_continuity req = AffinityRequire" "rq_hard_account_id req = []" "rq_affinity_key req \<noteq> []"
  obtains b where "binding = Some b" "sb_provider b = sd_provider drv" "accountIDForBindingLocked ord b p \<noteq> []"
    "acquireLocked now ord drv req (accountIDForBindingLocked ord b p) None p = (Inr (a, l), q)"
proof (cases binding)
  case None
  with r req show thesis by (simp add: route_section_def)
next
  case (Some b)
  have pr: "sb_provider b = sd_provider drv"
    using r req Some by (auto simp: route_section_def Let_def split: if_splits)
  have i: "accountIDForBindingLocked ord b p \<noteq> []"
    using r req Some pr by (auto simp: route_section_def Let_def split: if_splits)
  have "acquireLocked now ord drv req (accountIDForBindingLocked ord b p) None p = (Inr (a, l), q)"
    using r req Some pr i by (auto simp: route_section_def Let_def split: prod.splits sum.splits)
  with Some pr i that show thesis by blast
qed

text \<open>The filters read the buckets and the cells of the pool and nothing else.\<close>

lemma candidate_cong:
  assumes "p_buckets q = p_buckets p" and "p_cells q = p_cells p"
  shows "candidate_account q drv req now a = candidate_account p drv req now a"
  by (simp add: candidate_account_def structurallyAvailableLocked_def bucketCooldownLocked_def bucketLocked_def
      allowedOnSurfaceLocked_def cellForAccountLocked_def cellLocked_def capacityAssessmentLocked_def
      bucketStateLocked_def assms)

lemma AcquireRoute_section:
  assumes "AcquireRoute_turn mo now ord drv req p0 = (r, q)" and "\<And>e. r \<noteq> RouteError (RefreshFailed e)"
  shows "route_section now ord drv req
      (if rq_hard_account_id req = [] \<and> rq_affinity_key req \<noteq> []
       then GetSessionBinding now (rq_affinity_key req) (p_store p0) else None)
      (snd (refreshState mo now p0)) = (r, q)"
proof -
  obtain e p where rf: "refreshState mo now p0 = (e, p)" by fastforce
  have "p_store p = p_store p0" using rf reload_frame(1) [of mo now p0] by (simp add: refreshState_def)
  with assms rf show ?thesis by (auto simp: AcquireRoute_turn_def Let_def split: option.splits)
qed

text \<open>A free candidate is enough for a lease.\<close>

lemma candidate_leased:
  assumes "fst (refreshState mo now p0) = None" and "snd (refreshState mo now p0) = p"
    and "rq_hard_account_id req = []" and "rq_affinity_key req = []" and "rq_continuity req \<noteq> AffinityRequire"
    and "x \<in> set (entries (p_accounts p) ord)" and "candidate_account p drv req now x"
  shows "\<exists>a l q. AcquireRoute_turn mo now ord drv req p0 = (RouteLeased a l, q)"
proof -
  obtain r q where r: "acquire_scan now ord drv req None p = (r, q)" by fastforce
  have "\<forall>e. r \<noteq> Inl e" using acquire_scan_error r assms(6,7) by blast
  then obtain a l where "r = Inr (a, l)" by (metis old.sum.exhaust surj_pair)
  moreover have "refreshState mo now p0 = (None, p)" using assms(1,2) by (simp add: prod_eq_iff)
  ultimately show ?thesis using r assms(3-5)
    by (simp add: AcquireRoute_turn_def route_section_def scan_or_wait_def acquireLocked_def Let_def)
qed

end
