(* ===== verification/Samples.thy ===== *)
theory Samples
  imports Effects Scheduling
begin

text \<open>
  Concrete states on which the theorems about the pool are exercised: two Codex accounts and a Claude
  account in a store, the pool loaded from it, and a scheduler driver that always finds capacity.
\<close>

definition sample_account :: "string \<Rightarrow> provider \<Rightarrow> string \<Rightarrow> account" where
  "sample_account i prov subject =
     \<lparr> ac_id = i, ac_email = i, ac_provider = prov, ac_status = StatusActive, ac_priority = 0,
       ac_priority_mode = ''manual'', ac_error_message = [], ac_bucket_key = [],
       ac_refresh_token_enc = ''r'', ac_access_token_enc = ''a'', ac_expires_at = 0,
       ac_created_at = 0, ac_last_used_at = None, ac_last_refresh_at = None, ac_proxy_json = [],
       ac_cell_id = [], ac_identity_json = [], ac_subject = subject, ac_cooldown_until = None,
       ac_provider_state_json = [], ac_proxy = None, ac_identity = None, ac_cell = None \<rparr>"

definition acct_a :: account where "acct_a = sample_account ''a'' ProviderCodex ''sa''"
definition acct_b :: account where "acct_b = sample_account ''b'' ProviderCodex ''sb''"
definition acct_c :: account where "acct_c = sample_account ''c'' ProviderClaude ''sc''"

definition sample_bucket :: "string \<Rightarrow> provider \<Rightarrow> gotime option \<Rightarrow> quota_bucket" where
  "sample_bucket k prov cool =
     \<lparr> bk_key = k, bk_provider = prov, bk_cooldown_until = cool, bk_state_json = ''{}'', bk_updated_at = 1 \<rparr>"

definition bucket_a :: quota_bucket where "bucket_a = sample_bucket ''codex:sa'' ProviderCodex (Some 50)"
definition bucket_b :: quota_bucket where "bucket_b = sample_bucket ''codex:sb'' ProviderCodex None"
definition bucket_c :: quota_bucket where "bucket_c = sample_bucket ''claude:sc'' ProviderClaude None"

definition sample_store :: store where
  "sample_store = NewMockStore
     \<lparr> s_accounts := [''a'' \<mapsto> acct_a, ''b'' \<mapsto> acct_b, ''c'' \<mapsto> acct_c],
       s_buckets := [''codex:sa'' \<mapsto> bucket_a, ''codex:sb'' \<mapsto> bucket_b, ''claude:sc'' \<mapsto> bucket_c] \<rparr>"

definition sample_order :: map_order where
  "sample_order = \<lparr> mo_accounts = [''a'', ''b'', ''c''], mo_cells = [],
                    mo_buckets = [''codex:sa'', ''codex:sb'', ''claude:sc''] \<rparr>"

definition sample_driver :: "provider \<Rightarrow> scheduler_driver" where
  "sample_driver prov =
     \<lparr> sd_provider = prov, sd_bucket_key = defaultBucketKey,
       sd_assess = (\<lambda>st m now. \<lparr> cap_eligible = True, cap_priority = 0, cap_class = ''full'' \<rparr>),
       sd_is_stale = (\<lambda>st now. False), sd_exhausted_cooldown = (\<lambda>st now. zero_time) \<rparr>"

text \<open>The pool before and after its first reload, with the drivers \<open>d\<close> registered.\<close>

definition sample_pool0 :: "(provider \<rightharpoonup> scheduler_driver) option \<Rightarrow> pool" where
  "sample_pool0 d = (empty_pool sample_store (NewBus 4))\<lparr> p_drivers := d \<rparr>"

definition sample_pool :: "(provider \<rightharpoonup> scheduler_driver) option \<Rightarrow> pool" where
  "sample_pool d = (sample_pool0 d)
     \<lparr> p_accounts := [''a'' \<mapsto> acct_a, ''b'' \<mapsto> acct_b, ''c'' \<mapsto> acct_c],
       p_buckets := [''codex:sa'' \<mapsto> bucket_a, ''codex:sb'' \<mapsto> bucket_b, ''claude:sc'' \<mapsto> bucket_c] \<rparr>"

lemmas acct_defs = acct_a_def acct_b_def acct_c_def sample_account_def
lemmas bucket_defs = bucket_a_def bucket_b_def bucket_c_def sample_bucket_def

lemma provider_strings [simp]:
  "ProviderCodex = ''codex''" "ProviderClaude = ''claude''" "ProviderGemini = ''gemini''"
  by (simp_all add: ProviderCodex_def ProviderClaude_def ProviderGemini_def)

lemma sample_ids [simp]:
  "ac_id acct_a = ''a''" "ac_id acct_b = ''b''" "ac_id acct_c = ''c''"
  "bk_key bucket_a = ''codex:sa''" "bk_key bucket_b = ''codex:sb''" "bk_key bucket_c = ''claude:sc''"
  by (simp_all add: acct_defs bucket_defs)

lemma sample_store_wf: "store_wf sample_store"
  unfolding store_wf_def sample_store_def NewMockStore_def
  by (simp add: store_wf_def)

lemma sample_pool0_frame [simp]:
  "p_store (sample_pool0 d) = sample_store" "p_drivers (sample_pool0 d) = d"
  by (simp_all add: sample_pool0_def empty_pool_def)

lemma sample_store_frame [simp]:
  "s_accounts sample_store = [''a'' \<mapsto> acct_a, ''b'' \<mapsto> acct_b, ''c'' \<mapsto> acct_c]"
  "s_cells sample_store = Map.empty"
  "s_buckets sample_store = [''codex:sa'' \<mapsto> bucket_a, ''codex:sb'' \<mapsto> bucket_b, ''claude:sc'' \<mapsto> bucket_c]"
  "ListAccountsErr sample_store = None"
  by (simp_all add: sample_store_def NewMockStore_def)

lemma sample_order_ok: "order_ok sample_store sample_order"
  by (auto simp: order_ok_def ranges_def sample_order_def split: if_splits)

lemma sample_loadable: "loadable sample_order (sample_pool0 d)"
  by (simp add: loadable_def sample_store_wf sample_order_ok)

lemma sample_hydrate [simp]:
  "HydrateRuntime acct_a = acct_a" "HydrateRuntime acct_b = acct_b" "HydrateRuntime acct_c = acct_c"
  by (simp_all add: HydrateRuntime_def acct_defs)

lemma sample_state [simp]:
  "default_state bucket_a = bucket_a" "default_state bucket_b = bucket_b" "default_state bucket_c = bucket_c"
  by (simp_all add: default_state_def bucket_defs)

lemma sample_keys [simp]:
  "bucketKeyLocked acct_a = ''codex:sa''" "bucketKeyLocked acct_b = ''codex:sb''"
  "bucketKeyLocked acct_c = ''claude:sc''"
  by (simp_all add: bucketKeyLocked_def defaultBucketKey_def acct_defs)

lemma sample_reload: "reloadStateLocked sample_order now (sample_pool0 d) = (None, (sample_pool d))"
  by (simp add: reloadStateLocked_def ListAccounts_def ListEgressCells_def ListQuotaBuckets_def Let_def
      sample_pool0_def empty_pool_def sample_store_def NewMockStore_def sample_order_def map_by_def
      add_default_bucket_def sample_pool_def)

lemma sample_pool0_wf: "pool_wf (sample_pool0 d)"
  unfolding sample_pool0_def using pool_wf_empty [OF sample_store_wf] by (simp add: pool_wf_def)

lemma sample_pool_wf: "pool_wf (sample_pool d)"
  using pool_wf_reload [OF sample_pool0_wf, of sample_order 0] by (simp add: sample_reload)

section \<open>A route on the sample\<close>

definition sample_request :: "string \<Rightarrow> string \<Rightarrow> affinity_continuity \<Rightarrow> route_request" where
  "sample_request hard key c =
     \<lparr> rq_exclusions = [], rq_model = ''m'', rq_surface = ''native'', rq_hard_account_id = hard,
       rq_affinity_key = key, rq_continuity = c \<rparr>"

definition sample_lease :: "(provider \<rightharpoonup> scheduler_driver) option \<Rightarrow> attempt_lease" where
  "sample_lease d =
     \<lparr> ls_load_key = (''codex'', ''codex:sb'', ''full''), ls_account = projectAccountLocked (sample_pool d) acct_b,
       ls_affinity_key = ''k'', ls_claim = Some 0, ls_accepted = False, ls_terminal = False \<rparr>"

definition sample_routed :: "(provider \<rightharpoonup> scheduler_driver) option \<Rightarrow> pool" where
  "sample_routed d = (sample_pool d)
     \<lparr> p_loads := [(''codex'', ''codex:sb'', ''full'') \<mapsto> \<lparr> ld_inflight = 1, ld_last_assigned = 1 \<rparr>],
       p_seq := 1, p_claims := [''k'' \<mapsto> 0], p_next_claim := 1 \<rparr>"

lemma sample_pool_frame [simp]:
  "p_accounts (sample_pool d) = [''a'' \<mapsto> acct_a, ''b'' \<mapsto> acct_b, ''c'' \<mapsto> acct_c]"
  "p_buckets (sample_pool d) = [''codex:sa'' \<mapsto> bucket_a, ''codex:sb'' \<mapsto> bucket_b, ''claude:sc'' \<mapsto> bucket_c]"
  "p_cells (sample_pool d) = Map.empty" "p_loads (sample_pool d) = Map.empty" "p_claims (sample_pool d) = Map.empty"
  "p_next_claim (sample_pool d) = 0" "p_seq (sample_pool d) = 0" "p_closed (sample_pool d) = []"
  "p_store (sample_pool d) = sample_store" "p_drivers (sample_pool d) = d"
  "p_server_err (sample_pool d) = Map.empty"
  by (simp_all add: sample_pool_def sample_pool0_def empty_pool_def)

lemma sample_fields [simp]:
  "ac_status acct_a = ''active''" "ac_status acct_b = ''active''" "ac_status acct_c = ''active''"
  "ac_provider acct_a = ''codex''" "ac_provider acct_b = ''codex''" "ac_provider acct_c = ''claude''"
  "ac_cell_id acct_a = []" "ac_cell_id acct_b = []" "ac_cell_id acct_c = []"
  "ac_subject acct_a = ''sa''" "ac_subject acct_b = ''sb''" "ac_subject acct_c = ''sc''"
  "ac_priority_mode acct_a = ''manual''" "ac_priority_mode acct_b = ''manual''"
  "ac_priority acct_a = 0" "ac_priority acct_b = 0"
  "bk_cooldown_until bucket_a = Some 50" "bk_cooldown_until bucket_b = None"
  "bk_cooldown_until bucket_c = None"
  by (simp_all add: acct_defs bucket_defs StatusActive_def)

lemma sample_request_fields [simp]:
  "rq_exclusions (sample_request h k c) = []" "rq_model (sample_request h k c) = ''m''"
  "rq_surface (sample_request h k c) = ''native''" "rq_hard_account_id (sample_request h k c) = h"
  "rq_affinity_key (sample_request h k c) = k" "rq_continuity (sample_request h k c) = c"
  "sd_provider (sample_driver pr) = pr"
  by (simp_all add: sample_request_def sample_driver_def)

lemma native_normal [simp]: "NormalizeSurface ''native'' = ''native''"
  by code_simp

lemma sample_candidate:
  "candidate_account (sample_pool d) (sample_driver ''codex'') (sample_request h k c) 10 acct_b"
  "\<not> candidate_account (sample_pool d) (sample_driver ''codex'') (sample_request h k c) 10 acct_a"
  "\<not> candidate_account (sample_pool d) (sample_driver ''codex'') (sample_request h k c) 10 acct_c"
  by (simp_all add: candidate_account_def sample_request_def sample_driver_def excludedAccounts_def
      excludedBuckets_def matchesProvider_def allowedOnSurfaceLocked_def
      structurallyAvailableLocked_def bucketCooldownLocked_def bucketLocked_def cellForAccountLocked_def
      capacityAssessmentLocked_def SurfaceNative_def SurfaceCompat_def SurfaceAll_def StatusActive_def
      Let_def)

lemma sample_assess:
  "capacityAssessmentLocked p acct_b (sample_driver pr) m now
     = \<lparr> cap_eligible = True, cap_priority = 0, cap_class = ''full'' \<rparr>"
  by (simp add: capacityAssessmentLocked_def sample_driver_def)

lemma sample_candidates:
  "candidates (sample_pool d) (sample_driver ''codex'') (sample_request h k c) 10 [''a'', ''b'', ''c''] =
     [\<lparr> bc_key = ''codex:sb'', bc_accts = [acct_b], bc_priority = 0, bc_class = ''full'' \<rparr>]"
  by (simp add: candidates_def add_candidate_def sample_candidate sample_assess sample_assess [simplified] Let_def)

lemma sample_projected:
  "projectAccountLocked ((issue_claim ''k'' (sample_pool d))\<lparr>p_seq := s, p_loads := m\<rparr>) acct_b
    = projectAccountLocked (sample_pool d) acct_b"
  by (simp add: projectAccountLocked_def cellForAccountLocked_def bucketLocked_def)

lemma sample_lease_step:
  "leaseAccountLocked acct_b ''full'' ''k'' (Some 0) (issue_claim ''k'' (sample_pool d))
     = ((projectAccountLocked (sample_pool d) acct_b, (sample_lease d)), (sample_routed d))"
proof -
  have "mark_cell acct_b (issue_claim ''k'' (sample_pool d)) = issue_claim ''k'' (sample_pool d)"
    by (simp add: mark_cell_def cellForAccountLocked_def)
  then show ?thesis
    by (simp add: leaseAccountLocked_def Let_def sample_projected load_of_def sample_lease_def
        sample_routed_def) (simp add: issue_claim_def)
qed

lemma sample_scan:
  "acquire_scan 10 [''a'', ''b'', ''c''] (sample_driver ''codex'') (sample_request h ''k'' c) (Some 0)
     (issue_claim ''k'' (sample_pool d))
   = (Inr (projectAccountLocked (sample_pool d) acct_b, (sample_lease d)), (sample_routed d))"
  by (simp add: acquire_scan_def sample_candidates leastInflightCandidateLocked_def
      leastRecentlyUsed_def sample_lease_step)

lemma sample_route:
  "route_section 10 [''a'', ''b'', ''c''] (sample_driver ''codex'') (sample_request [] ''k'' AffinityPrefer) None
     (sample_pool d) = (RouteLeased (projectAccountLocked (sample_pool d) acct_b) (sample_lease d), (sample_routed d))"
  by (simp add: route_section_def scan_or_wait_def acquireLocked_def sample_scan)

lemma sample_New: "New sample_order now sample_store (NewBus 4) = Inr (sample_pool None)"
  using sample_reload [of now None] by (simp add: New_def refreshState_def sample_pool0_def empty_pool_def)

lemma sample_sessions [simp]: "s_sessions sample_store = Map.empty"
  by (simp add: sample_store_def NewMockStore_def)

lemma sample_refresh: "refreshState sample_order now (sample_pool0 d) = (None, sample_pool d)"
  by (simp add: refreshState_def sample_reload)

lemma sample_acquire:
  "AcquireRoute_turn sample_order 10 [''a'', ''b'', ''c''] (sample_driver ''codex'')
     (sample_request [] ''k'' AffinityPrefer) (sample_pool0 d)
   = (RouteLeased (projectAccountLocked (sample_pool d) acct_b) (sample_lease d), sample_routed d)"
  by (simp add: AcquireRoute_turn_def sample_refresh GetSessionBinding_def sample_route Let_def)

text \<open>The sample with a session bound to the subject of the account \<open>b\<close>.\<close>

definition sample_binding :: session_binding where
  "sample_binding = \<lparr> sb_session_uuid = ''k'', sb_provider = ''codex'', sb_subject = ''sb'',
                      sb_created_at = 5, sb_last_used_at = 5, sb_expires_at = 100 \<rparr>"

definition sample_bound0 :: "(provider \<rightharpoonup> scheduler_driver) option \<Rightarrow> pool" where
  "sample_bound0 d = (sample_pool0 d)\<lparr> p_store := SaveSessionBinding sample_binding sample_store \<rparr>"

definition sample_bound :: "(provider \<rightharpoonup> scheduler_driver) option \<Rightarrow> pool" where
  "sample_bound d = (sample_pool d)\<lparr> p_store := SaveSessionBinding sample_binding sample_store \<rparr>"

lemma sample_bound_refresh: "refreshState sample_order now (sample_bound0 d) = (None, sample_bound d)"
  by (simp add: refreshState_def reloadStateLocked_def ListAccounts_def ListEgressCells_def
      ListQuotaBuckets_def Let_def sample_bound0_def sample_pool0_def empty_pool_def sample_store_def
      NewMockStore_def sample_order_def map_by_def SaveSessionBinding_def
      add_default_bucket_def sample_pool_def sample_bound_def)

lemma sample_bound0_wf: "pool_wf (sample_bound0 d)"
  using sample_pool0_wf [of d] by (simp add: sample_bound0_def pool_wf_def store_wf_intros sample_store_wf)

end
