(* ===== verification/RouteProps.thy ===== *)
theory RouteProps
  imports Samples
begin

text \<open>
  The properties of route acquisition and of the leases: the accounting of in-flight requests, the
  affinity claims that serialise the first request of a session, the soundness, fairness and
  completeness of the choice of an account, and what the continuity of a session promises.
\<close>

section \<open>Leases\<close>

text \<open>A system in which one route was acquired on the sample.\<close>

definition sample_sys :: routing_sys where
  "sample_sys = \<lparr> rs_pool = sample_routed None, rs_leases = [sample_lease None] \<rparr>"

lemma sample_reach0: "lease_reach \<lparr> rs_pool = sample_pool None, rs_leases = [] \<rparr>"
  by (rule reach_init [OF sample_New sample_store_wf])

lemma sample_reach: "lease_reach sample_sys"
  using reach_step [OF sample_reach0 step_route [of 10 "[''a'', ''b'', ''c'']" "sample_driver ''codex''"
        "sample_request [] ''k'' AffinityPrefer" None]]
  by (simp add: sample_route sample_sys_def)

lemma claim_fresh_or_closed:
  assumes "claims_inv p ls"
  shows "c \<in> set (p_closed p) \<longleftrightarrow> c < p_next_claim p \<and> (\<forall>k. p_claims p k \<noteq> Some c)"
  using assms unfolding claims_inv_def by (auto simp: ran_def set_eq_iff)

text \<open>C2: In every reachable state of the pool, with requests acquiring, accepting and finishing
  leases and every other operation of the pool in between in any order, the in-flight count of each
  route load is the number of unfinished leases on it.  When every lease is finished, no count is
  left over and no affinity claim is pending.\<close>

theorem lease_accounting:
  assumes "lease_reach s"
  shows "ld_inflight (load_of (rs_pool s) k) = int (length (filter (live_on k) (rs_leases s)))
    \<and> ((\<forall>l \<in> set (rs_leases s). ls_terminal l) \<longrightarrow>
         ld_inflight (load_of (rs_pool s) k) = 0 \<and> p_claims (rs_pool s) = Map.empty)"
proof -
  have inv: "loads_inv (rs_pool s) (rs_leases s)" "claims_inv (rs_pool s) (rs_leases s)"
    using lease_inv_reach [OF assms] by (simp_all add: lease_inv_def)
  have count: "ld_inflight (load_of (rs_pool s) k) = int (length (filter (live_on k) (rs_leases s)))"
    using inv(1) unfolding loads_inv_def by blast
  have "ld_inflight (load_of (rs_pool s) k) = 0 \<and> p_claims (rs_pool s) = Map.empty"
    if fin: "\<forall>l \<in> set (rs_leases s). ls_terminal l"
  proof -
    have "filter (live_on k) (rs_leases s) = []" using fin by (auto simp: live_on_def filter_empty_conv)
    moreover have "p_claims (rs_pool s) i = None" for i
      using inv(2) fin unfolding claims_inv_def by (metis not_None_eq)
    ultimately show ?thesis using count by auto
  qed
  with count show ?thesis by blast
qed

theorem lease_accounting_witness:
  "ld_inflight (load_of (rs_pool sample_sys) (''codex'', ''codex:sb'', ''full'')) = 1
   \<and> p_claims (sample_pool None) = Map.empty"
  using lease_accounting [OF sample_reach, of "(''codex'', ''codex:sb'', ''full'')"]
    lease_accounting [OF sample_reach0]
  by (simp add: sample_sys_def sample_lease_def live_on_def)

text \<open>C3: In every reachable state an affinity claim that is pending belongs to an unfinished lease
  for its key, no claim is pending for two keys, and every claim that was ever issued is either
  pending or its channel has been closed, exactly once: the code never closes a channel twice
  (which would panic) and never drops a claim that others wait on.\<close>

theorem claims_closed_once:
  assumes "lease_reach s"
  shows "distinct (p_closed (rs_pool s))
    \<and> (\<forall>c < p_next_claim (rs_pool s). c \<in> set (p_closed (rs_pool s)) \<longleftrightarrow> (\<forall>k. p_claims (rs_pool s) k \<noteq> Some c))
    \<and> (\<forall>k c. p_claims (rs_pool s) k = Some c \<longrightarrow>
         (\<exists>l \<in> set (rs_leases s). \<not> ls_terminal l \<and> ls_affinity_key l = k \<and> ls_claim l = Some c))"
proof -
  have inv: "claims_inv (rs_pool s) (rs_leases s)"
    using lease_inv_reach [OF assms] by (simp add: lease_inv_def)
  then show ?thesis using claim_fresh_or_closed [OF inv] unfolding claims_inv_def by blast
qed

theorem claims_closed_once_witness:
  "p_claims (rs_pool sample_sys) ''k'' = Some 0 \<and> p_closed (rs_pool sample_sys) = []
   \<and> (\<exists>l \<in> set (rs_leases sample_sys). \<not> ls_terminal l \<and> ls_claim l = Some 0)"
proof -
  have "p_claims (rs_pool sample_sys) ''k'' = Some 0"
    by (simp add: sample_sys_def sample_routed_def)
  moreover have "p_closed (rs_pool sample_sys) = []" by (simp add: sample_sys_def sample_routed_def)
  ultimately show ?thesis using claims_closed_once [OF sample_reach] by blast
qed

text \<open>C4: A request that has to wait, waits for the claim of an unfinished lease with the same
  affinity key; the pool is left unchanged, and as soon as that lease is finished the channel is
  closed and the key is free, so the waiting request goes on.\<close>

theorem wait_ends_with_owner:
  assumes reach: "lease_reach s"
    and wait: "route_section now ord drv req binding (rs_pool s) = (RouteWait c, q)"
  shows "q = rs_pool s \<and> (\<exists>i < length (rs_leases s).
    \<not> ls_terminal (rs_leases s ! i) \<and> ls_claim (rs_leases s ! i) = Some c \<and>
    (let q' = snd (finish (rs_leases s ! i) (rs_pool s)) in
       c \<in> set (p_closed q') \<and> p_claims q' (rq_affinity_key req) = None))"
proof -
  have pend: "q = rs_pool s \<and> rq_affinity_key req \<noteq> [] \<and> p_claims (rs_pool s) (rq_affinity_key req) = Some c"
    using route_section_wait [OF wait] .
  then obtain i where i: "i < length (rs_leases s)" "\<not> ls_terminal (rs_leases s ! i)"
    "ls_affinity_key (rs_leases s ! i) = rq_affinity_key req" "ls_claim (rs_leases s ! i) = Some c"
    using lease_inv_reach [OF reach] unfolding lease_inv_def claims_inv_def by (metis in_set_conv_nth)
  have "c \<in> set (p_closed (snd (finish (rs_leases s ! i) (rs_pool s))))"
    "p_claims (snd (finish (rs_leases s ! i) (rs_pool s))) (rq_affinity_key req) = None"
    using finish_releases [OF i(2,4)] i(3) pend by simp_all
  with pend i show ?thesis by (auto simp: Let_def)
qed

theorem wait_ends_with_owner_witness:
  "\<exists>q'. 0 \<in> set (p_closed q') \<and> p_claims q' ''k'' = None
     \<and> snd (finish (sample_lease None) (sample_routed None)) = q'"
proof -
  have "route_section 11 [] (sample_driver ''codex'') (sample_request [] ''k'' AffinityPrefer) None
      (rs_pool sample_sys) = (RouteWait 0, sample_routed None)"
    by (simp add: route_section_def scan_or_wait_def sample_sys_def sample_routed_def)
  from wait_ends_with_owner [OF sample_reach this] show ?thesis
    by (simp add: sample_sys_def Let_def)
qed

section \<open>The choice of an account\<close>

lemma leased_route_facts:
  assumes "AcquireRoute_turn mo now ord drv req p0 = (RouteLeased a l, q)"
    and p: "snd (refreshState mo now p0) = p"
  obtains x where "x \<in> ran (p_accounts p)" "ac_id a = ac_id x" "candidate_account p drv req now x"
    "ls_account l = a" "ls_affinity_key l = rq_affinity_key req" "\<not> ls_terminal l"
    "\<forall>e \<in> set (rq_exclusions req). ex_account_id e \<noteq> [] \<longrightarrow> ex_account_id e \<noteq> ac_id x"
    "\<forall>e \<in> set (rq_exclusions req). ex_bucket_key e \<noteq> bucketKeyLocked x"
proof -
  obtain b where "route_section now ord drv req b p = (RouteLeased a l, q)"
    using AcquireRoute_section [OF assms(1)] unfolding p by blast
  then obtain x cls claim p1 where x: "x \<in> ran (p_accounts p)" "candidate_account p drv req now x"
    and l: "leaseAccountLocked x cls (rq_affinity_key req) claim p1 = ((a, l), q)"
    using route_section_sound by blast
  show thesis
    using that [OF x(1) _ x(2)] candidate_account_parts [OF x(2)] lease_effect(1,3,6,11) [OF l] by blast
qed




lemma sample_ran: "ran (p_accounts (sample_pool d)) = {acct_a, acct_b, acct_c}"
  by (simp add: ran_map_upd insert_commute)


text \<open>C34: Under required continuity a session is never moved.  When a route is leased for a session
  key without a pin, there is a live binding of the session, it is a binding of the driver's provider,
  and the account leased has the provider and the subject of the binding.\<close>

theorem required_session_sticks:
  assumes "AcquireRoute_turn mo now ord drv req p0 = (RouteLeased a l, q)"
    and "rq_continuity req = AffinityRequire" and "rq_hard_account_id req = []"
    and "rq_affinity_key req \<noteq> []" and "pool_wf p0"
  shows "\<exists>b. GetSessionBinding now (rq_affinity_key req) (p_store p0) = Some b
    \<and> sb_provider b = sd_provider drv \<and> ac_provider a = sb_provider b
    \<and> (\<exists>x. p_accounts (snd (refreshState mo now p0)) (ac_id a) = Some x \<and> ac_subject x = sb_subject b)"
proof -
  let ?p = "snd (refreshState mo now p0)"
  have "route_section now ord drv req (GetSessionBinding now (rq_affinity_key req) (p_store p0)) ?p
      = (RouteLeased a l, q)"
    using AcquireRoute_section [OF assms(1)] assms(3,4) by simp
  then obtain b where b: "GetSessionBinding now (rq_affinity_key req) (p_store p0) = Some b"
    "sb_provider b = sd_provider drv" "accountIDForBindingLocked ord b ?p \<noteq> []"
    and acq: "acquireLocked now ord drv req (accountIDForBindingLocked ord b ?p) None ?p = (Inr (a, l), q)"
    by (rule require_bound) (use assms in simp_all)
  have "pool_wf ?p" using pool_wf_reload [OF assms(5)] by (simp add: refreshState_def)
  then obtain x where x: "p_accounts ?p (accountIDForBindingLocked ord b ?p) = Some x"
    "ac_provider x = sb_provider b" "ac_subject x = sb_subject b"
    using accountIDForBinding_Some b(3) by blast
  from acq b(3) show ?thesis
  proof (cases rule: acquireLocked_bound)
    case (leased y a' l')
    then show ?thesis
      using x b lease_effect(11,12) [OF leased(4)] pool_wf_account [OF \<open>pool_wf ?p\<close>] by fastforce
  next
    case (foreign y)
    with x b show ?thesis by simp
  qed simp
qed

lemma sample_bound_candidate:
  "candidate_account (sample_bound d) (sample_driver ''codex'') (sample_request h k c) 10 acct_b"
  using sample_candidate(1) [of d h k c] candidate_cong [of "sample_bound d" "sample_pool d"]
  by (simp add: sample_bound_def)

lemma acquireLocked_available:
  assumes "p_accounts p i = Some x" and "candidate_account p drv req now x" and "i \<noteq> []"
  shows "\<exists>a l q. acquireLocked now ord drv req i None p = (Inr (a, l), q) \<and> ac_id a = ac_id x
     \<and> ac_provider a = ac_provider x"
proof -
  obtain a l q where l: "leaseAccountLocked x (cap_class (capacityAssessmentLocked p x drv (rq_model req) now))
      (rq_affinity_key req) None p = ((a, l), q)"
    by (metis prod.exhaust)
  with assms have "acquireLocked now ord drv req i None p = (Inr (a, l), q)"
    by (simp add: acquireLocked_def candidate_account_def matchesProvider_def)
  with lease_effect(11,12) [OF l] show ?thesis by blast
qed

lemma bound_available:
  assumes "accountIDForBindingLocked ord b p = i" and "i \<noteq> []" and "p_accounts p i = Some x"
    and "candidate_account p drv req now x" and "sb_provider b = sd_provider drv"
    and "rq_hard_account_id req = []" and "rq_affinity_key req \<noteq> []"
  shows "\<exists>a l q. route_section now ord drv req (Some b) p = (RouteLeased a l, q) \<and> ac_id a = ac_id x
     \<and> ac_provider a = ac_provider x"
  using acquireLocked_available [OF assms(3,4,2), of ord] assms
  by (auto simp: route_section_def Let_def)

theorem required_session_sticks_witness:
  "\<exists>a l q. AcquireRoute_turn sample_order 10 [''a'', ''b'', ''c''] (sample_driver ''codex'')
       (sample_request [] ''k'' AffinityRequire) (sample_bound0 None) = (RouteLeased a l, q)
     \<and> ac_provider a = ''codex''"
proof -
  let ?req = "sample_request [] ''k'' AffinityRequire" and ?ord = "[''a'', ''b'', ''c'']"
  have g: "GetSessionBinding 10 ''k'' (p_store (sample_bound None)) = Some sample_binding"
    by (simp add: GetSessionBinding_def sample_bound_def SaveSessionBinding_def sample_binding_def)
  have i: "accountIDForBindingLocked ?ord sample_binding (sample_bound None) = ''b''"
    by (simp add: accountIDForBindingLocked_def sample_bound_def sample_binding_def)
  have x: "p_accounts (sample_bound None) ''b'' = Some acct_b" by (simp add: sample_bound_def)
  obtain a l q where t: "route_section 10 ?ord (sample_driver ''codex'') ?req (Some sample_binding) (sample_bound None)
      = (RouteLeased a l, q)"
    using bound_available [OF i _ x sample_bound_candidate [of None "[]" "''k''" AffinityRequire]]
    by (auto simp: sample_binding_def)
  then have "AcquireRoute_turn sample_order 10 ?ord (sample_driver ''codex'') ?req (sample_bound0 None) = (RouteLeased a l, q)"
    by (simp add: AcquireRoute_turn_def sample_bound_refresh g Let_def)
  with required_session_sticks [OF this] sample_bound0_wf [of None] show ?thesis by auto
qed

text \<open>A pin to an account of another provider switches the protection of C6 off: with required
  continuity and a session key, the session binding is not even read, and the route is taken from the
  whole pool by load.\<close>

theorem foreign_pin_drops_session:
  assumes "refreshState mo now p0 = (None, p)" and "rq_hard_account_id req \<noteq> []"
    and "p_accounts p (rq_hard_account_id req) = Some x" and "ac_provider x \<noteq> sd_provider drv"
    and "rq_continuity req = AffinityRequire" and "rq_affinity_key req \<noteq> []"
  shows "AcquireRoute_turn mo now ord drv req p0 =
    (case acquire_scan now ord drv req None p of
       (Inl e, q) \<Rightarrow> (RouteError e, q)
     | (Inr (a, l), q) \<Rightarrow> (RouteLeased a l, q))"
  using assms
  by (simp add: AcquireRoute_turn_def route_section_def acquireLocked_def Let_def
      split: prod.splits sum.splits)

theorem foreign_pin_drops_session_witness:
  "\<exists>a l q. AcquireRoute_turn sample_order 10 [''a'', ''b'', ''c''] (sample_driver ''codex'')
       (sample_request ''c'' ''k'' AffinityRequire) (sample_pool0 None) = (RouteLeased a l, q)"
proof -
  have "\<exists>a l q. acquire_scan 10 [''a'', ''b'', ''c''] (sample_driver ''codex'')
      (sample_request ''c'' ''k'' AffinityRequire) None (sample_pool None) = (Inr (a, l), q)"
    by (simp add: acquire_scan_def sample_candidates leastInflightCandidateLocked_def
        leastRecentlyUsed_def split: prod.splits)
  then show ?thesis
    using foreign_pin_drops_session [OF sample_refresh, of "sample_request ''c'' ''k'' AffinityRequire"]
    by fastforce
qed

text \<open>Once a lease with a session key was accepted, the session stays on its account until the
  binding expires: as long as every account with the provider and subject of that account can serve
  the request, a route for the session is leased on such an account, whatever the loads are.\<close>

theorem accepted_session_sticks:
  assumes acc: "Accept t ttl l p = (None, l', p1)" and live: "\<not> ls_terminal l" "\<not> ls_accepted l"
    and key: "rq_affinity_key req = ls_affinity_key l" "rq_affinity_key req \<noteq> []" "rq_hard_account_id req = []"
    and drv: "ac_provider (ls_account l) = sd_provider drv" and before: "now < t + ttl"
    and refreshed: "refreshState mo now p1 = (None, p2)" and wf: "pool_wf p1"
    and owner: "x \<in> set (entries (p_accounts p2) ord)" "ac_provider x = sd_provider drv"
      "ac_subject x = ac_subject (ls_account l)" "ac_id x \<noteq> []"
    and avail: "\<And>y. y \<in> ran (p_accounts p2) \<Longrightarrow> ac_provider y = sd_provider drv \<Longrightarrow>
      ac_subject y = ac_subject (ls_account l) \<Longrightarrow> ac_id y \<noteq> [] \<and> candidate_account p2 drv req now y"
  shows "\<exists>a l2 q y. AcquireRoute_turn mo now ord drv req p1 = (RouteLeased a l2, q)
    \<and> p_accounts p2 (ac_id a) = Some y \<and> ac_subject y = ac_subject (ls_account l)
    \<and> ac_provider a = ac_provider (ls_account l)"
proof -
  obtain b where b: "GetSessionBinding now (rq_affinity_key req) (p_store p1) = Some b"
    "sb_provider b = sd_provider drv" "sb_subject b = ac_subject (ls_account l)"
    using Accept_binds [OF acc live _ before] key drv by auto
  have p2: "p_store p2 = p_store p1" "pool_wf p2"
    using refreshed reload_frame(1) [of mo now p1] pool_wf_reload [OF wf, of mo now]
    by (simp_all add: refreshState_def)
  let ?P = "\<lambda>a. ac_provider a = sb_provider b \<and> ac_subject a = sb_subject b"
  have "List.find ?P (entries (p_accounts p2) ord) \<noteq> None"
    using owner b by (auto simp: find_None_iff)
  then obtain y where y: "List.find ?P (entries (p_accounts p2) ord) = Some y" by blast
  then have P: "?P y" "y \<in> set (entries (p_accounts p2) ord)" by (auto simp: find_Some_iff)
  then obtain k where k: "p_accounts p2 k = Some y" by (auto simp: set_entries)
  then have y2: "p_accounts p2 (ac_id y) = Some y" using pool_wf_account [OF p2(2)] by blast
  have cand: "ac_id y \<noteq> []" "candidate_account p2 drv req now y"
    using avail [of y] k P b by (auto simp: ran_def)
  have i: "accountIDForBindingLocked ord b p2 = ac_id y" by (simp add: accountIDForBindingLocked_def y)
  obtain a l2 q where r: "route_section now ord drv req (Some b) p2 = (RouteLeased a l2, q)"
    "ac_id a = ac_id y" "ac_provider a = ac_provider y"
    using bound_available [OF i cand(1) y2 cand(2) b(2) key(3,2)] by blast
  moreover from r(1) have "AcquireRoute_turn mo now ord drv req p1 = (RouteLeased a l2, q)"
    using key b(1) p2(1) by (simp add: AcquireRoute_turn_def refreshed Let_def)
  ultimately show ?thesis using y2 P b drv by metis
qed

definition sample_accepted :: "(provider \<rightharpoonup> scheduler_driver) option \<Rightarrow> pool" where
  "sample_accepted d = snd (snd (Accept 5 95 (sample_lease d) (sample_routed d)))"

lemma sample_accept:
  "Accept 5 95 (sample_lease d) (sample_routed d)
     = (None, (sample_lease d)\<lparr>ls_accepted := True\<rparr>, sample_accepted d)"
  "sample_accepted d = (sample_routed d)\<lparr>p_store := SaveSessionBinding sample_binding sample_store,
     p_claims := Map.empty, p_closed := [0]\<rparr>"
  by (simp_all add: sample_accepted_def Accept_def SetSessionBinding_def sample_lease_def projectAccountLocked_def
      releaseAffinityClaimLocked_def bucketLocked_def sample_routed_def sample_binding_def Let_def)

lemma sample_accepted_refresh:
  "refreshState sample_order now (sample_accepted d) = (None, sample_accepted d)"
  by (simp add: refreshState_def reloadStateLocked_def ListAccounts_def ListEgressCells_def
      ListQuotaBuckets_def Let_def sample_accept(2) sample_routed_def sample_pool0_def empty_pool_def
      sample_store_def NewMockStore_def sample_order_def map_by_def SaveSessionBinding_def
      add_default_bucket_def sample_pool_def)

lemma sample_accepted_frame [simp]:
  "p_accounts (sample_accepted d) = p_accounts (sample_pool d)"
  "p_buckets (sample_accepted d) = p_buckets (sample_pool d)"
  "p_cells (sample_accepted d) = p_cells (sample_pool d)"
  by (simp_all add: sample_accept(2) sample_routed_def)

lemma sample_accepted_candidate:
  "candidate_account (sample_accepted d) (sample_driver ''codex'') (sample_request h k c) 10 acct_b"
  using sample_candidate(1) [of d h k c] candidate_cong [of "sample_accepted d" "sample_pool d"] by simp

lemma sample_lease_fields [simp]:
  "\<not> ls_terminal (sample_lease d)" "\<not> ls_accepted (sample_lease d)"
  "ls_affinity_key (sample_lease d) = ''k''" "ac_provider (ls_account (sample_lease d)) = ''codex''"
  "ac_subject (ls_account (sample_lease d)) = ''sb''"
  by (simp_all add: sample_lease_def projectAccountLocked_def Let_def split: option.splits)

theorem accepted_session_sticks_witness:
  "\<exists>a l2 q. AcquireRoute_turn sample_order 10 [''a'', ''b'', ''c''] (sample_driver ''codex'')
     (sample_request [] ''k'' AffinityPrefer) (sample_accepted None) = (RouteLeased a l2, q)"
proof -
  let ?req = "sample_request [] ''k'' AffinityPrefer" and ?drv = "sample_driver ''codex''"
  have wf: "pool_wf (sample_accepted None)"
    using sample_pool_wf [of None] by (simp add: pool_wf_def sample_accept(2) sample_routed_def
        store_wf_intros sample_store_wf)
  have avail: "ac_id y \<noteq> [] \<and> candidate_account (sample_accepted None) ?drv ?req 10 y"
    if "y \<in> ran (p_accounts (sample_accepted None))" "ac_provider y = sd_provider ?drv"
      "ac_subject y = ac_subject (ls_account (sample_lease None))" for y
  proof -
    have "y = acct_b" using that sample_ran [of None] by auto
    then show ?thesis by (simp add: sample_accepted_candidate)
  qed
  have req: "rq_affinity_key ?req = ls_affinity_key (sample_lease None)" "rq_affinity_key ?req \<noteq> []"
    "rq_hard_account_id ?req = []" "ac_provider (ls_account (sample_lease None)) = sd_provider ?drv"
    "(10::gotime) < 5 + 95"
    by simp_all
  have owner: "acct_b \<in> set (entries (p_accounts (sample_accepted None)) [''a'', ''b'', ''c''])"
    "ac_provider acct_b = sd_provider ?drv" "ac_subject acct_b = ac_subject (ls_account (sample_lease None))"
    "ac_id acct_b \<noteq> []"
    by simp_all
  show ?thesis
    using accepted_session_sticks [OF sample_accept(1) sample_lease_fields(1,2) req sample_accepted_refresh wf
        owner avail] by blast
qed

lemma finish_lease:
  assumes l: "leaseAccountLocked x cls [] None p = ((a, l), q)" and pos: "0 \<le> ld_inflight (load_of p (ls_load_key l))"
  shows "ld_inflight (load_of (snd (finish l q)) k) = ld_inflight (load_of p k)"
    "p_claims (snd (finish l q)) = p_claims p" "p_store (snd (finish l q)) = p_store p"
    "ls_terminal (fst (finish l q))"
proof -
  note e = lease_effect [OF l]
  have "0 < ld_inflight (load_of q (ls_load_key l))" using e(10) [of "ls_load_key l"] pos by simp
  then obtain ld where ld: "p_loads q (ls_load_key l) = Some ld" "0 < ld_inflight ld"
    by (auto simp: load_of_def split: option.splits)
  have f: "finish l q = (l\<lparr>ls_terminal := True\<rparr>,
      q\<lparr>p_loads := (p_loads q)(ls_load_key l \<mapsto> ld\<lparr>ld_inflight := ld_inflight ld - 1\<rparr>)\<rparr>)"
    using ld e(1,2,3) by (simp add: finish_def Let_def releaseAffinityClaimLocked_def)
  show "ld_inflight (load_of (snd (finish l q)) k) = ld_inflight (load_of p k)"
    using e(10) [of k] ld by (simp add: f) (auto simp: load_of_def)
  show "p_claims (snd (finish l q)) = p_claims p" "p_store (snd (finish l q)) = p_store p"
    "ls_terminal (fst (finish l q))"
    using e(7,13) by (simp_all add: f)
qed

lemma section_without_key:
  assumes "route_section now ord drv req b p = (r, q)" and "rq_affinity_key req = []"
  shows "(q = p \<and> (\<exists>e. r = RouteError e)) \<or>
    (\<exists>x cls a l. r = RouteLeased a l \<and> leaseAccountLocked x cls [] None p = ((a, l), q))"
  using assms(1)
proof (cases rule: route_section_cases)
  case same
  then show ?thesis using route_section_wait [of now ord drv req b p] assms by (cases r) auto
next
  case (bound x cls a l)
  then show ?thesis using assms(2) by auto
next
  case scan
  then show ?thesis
  proof (cases rule: scan_or_wait_cases)
    case same
    then show ?thesis using scan_or_wait_wait [of now ord drv req p] scan assms by (cases r) auto
  qed (use assms(2) in auto)
qed

text \<open>\<open>Pick\<close>, which hands out an account without a lease, never waits, and it leaves the in-flight
  counts, the affinity claims and the store as they were: the lease it takes inside is finished.\<close>

theorem pick_leaves_loads:
  assumes "\<forall>k. 0 \<le> ld_inflight (load_of p0 k)"
    and "Pick mo now ord drv exs model bound p0 = (r, q)"
  shows "(\<forall>c. r \<noteq> RouteWait c) \<and> ld_inflight (load_of q k) = ld_inflight (load_of p0 k)
    \<and> p_claims q = p_claims p0 \<and> p_store q = p_store p0"
proof -
  let ?req = "\<lparr> rq_exclusions = exs, rq_model = model, rq_surface = SurfaceNative,
               rq_hard_account_id = bound, rq_affinity_key = [], rq_continuity = AffinityNone \<rparr>"
  obtain r1 p1 where t: "AcquireRoute_turn mo now ord drv ?req p0 = (r1, p1)" by fastforce
  obtain e p where rf: "refreshState mo now p0 = (e, p)" by fastforce
  have p: "p_claims p = p_claims p0" "p_store p = p_store p0" "load_of p = load_of p0"
    using rf reload_frame [of mo now p0] by (auto simp: refreshState_def load_of_def)
  show ?thesis
  proof (cases e)
    case (Some m)
    with assms(2) rf p show ?thesis
      by (auto simp: Pick_def PickForSurface_def AcquireRoute_turn_def)
  next
    case None
    have sec: "route_section now ord drv ?req None p = (r1, p1)"
      using t rf None by (simp add: AcquireRoute_turn_def)
    from section_without_key [OF this, simplified] show ?thesis
    proof (elim disjE exE conjE)
      fix x cls a l
      assume r1: "r1 = RouteLeased a l" and l: "leaseAccountLocked x cls [] None p = ((a, l), p1)"
      have "0 \<le> ld_inflight (load_of p (ls_load_key l))" unfolding p(3) by (rule assms(1) [rule_format])
      note fl = finish_lease [OF l this]
      show ?thesis using assms(2) t r1 fl p
        by (auto simp: Pick_def PickForSurface_def Finish_def split: prod.splits)
    next
      fix er
      assume "p1 = p" "r1 = RouteError er"
      then show ?thesis using assms(2) t p by (auto simp: Pick_def PickForSurface_def)
    qed
  qed
qed

theorem pick_leaves_loads_witness:
  "p_claims (snd (Pick sample_order 10 [''a'', ''b'', ''c''] (sample_driver ''codex'') [] ''m'' [] (sample_pool0 None)))
     = Map.empty"
proof -
  have "\<forall>k. 0 \<le> ld_inflight (load_of (sample_pool0 None) k)"
    by (simp add: load_of_def sample_pool0_def empty_pool_def)
  from pick_leaves_loads [OF this, of sample_order 10 "[''a'', ''b'', ''c'']" "sample_driver ''codex''" "[]" "''m''" "[]"]
  show ?thesis by (simp add: sample_pool0_def empty_pool_def prod_eq_iff)
qed

end
