(* ===== verification/EffectProps.thy ===== *)
theory EffectProps
  imports Samples
begin

text \<open>
  The properties of the pool's reaction to upstream outcomes: cooldowns, the circuit breaker, blocks,
  the clean-up, token storage, and the well-formedness of the state.
\<close>

lemma sample_identity: "key_by_identity (sample_pool0 (Some (\<lambda>p. Some (sample_driver p))))"
  by (simp add: key_by_identity_def sample_driver_def defaultBucketKey_def)

lemma sample_reload_snd [simp]: "snd (reloadStateLocked sample_order now (sample_pool0 d)) = sample_pool d"
  by (simp add: sample_reload)

lemma sample_pool0_errors: "p_server_err (sample_pool0 d) = Map.empty"
  by (simp add: sample_pool0_def empty_pool_def)

lemma sample_observed:
  "observed sample_order now (sample_pool0 d) ''a'' acct_a bucket_a"
  "observed sample_order now (sample_pool0 d) ''b'' acct_b bucket_b"
  by (simp_all add: observed_def sample_loadable sample_pool0_wf)

definition sample_effect :: "effect_kind \<Rightarrow> gotime \<Rightarrow> effect" where
  "sample_effect k t = (new_effect k EffectScopeBucket)\<lparr> ef_cooldown_until := t \<rparr>"

lemma sample_effect_fields [simp]:
  "ef_kind (sample_effect k t) = k" "ef_cooldown_until (sample_effect k t) = t"
  "ef_updated_state (sample_effect k t) = []"
  by (simp_all add: sample_effect_def)

lemma sample_observable:
  "observable sample_order now (sample_pool0 d) ''a'' (sample_effect k t) acct_a bucket_a"
  "observable sample_order now (sample_pool0 d) ''b'' (sample_effect k t) acct_b bucket_b"
  by (simp_all add: observable_def sample_observed)



text \<open>The circuit breaker: the first and the second server error in a row only count, and leave the
  cooldown of the bucket alone; the third puts the bucket into a cooldown of at least thirty seconds,
  in memory and in the store, and starts the count over.\<close>

theorem circuit_breaker:
  assumes "observable mo now p0 i e a b" and "ef_kind e = EffectServerError"
  shows "let q = Observe mo now om ords i e p0; k = bucketKeyLocked a; n = error_count p0 k in
     (n \<le> 1 \<longrightarrow> p_server_err q k = Some (n + 1)
        \<and> (\<exists>b'. p_buckets q k = Some b' \<and> bk_cooldown_until b' = bk_cooldown_until b))
   \<and> (2 \<le> n \<longrightarrow> p_server_err q k = None
        \<and> (\<exists>b' t. p_buckets q k = Some b' \<and> s_buckets (p_store q) k = Some b'
             \<and> bk_cooldown_until b' = Some t \<and> now + 30 * second \<le> t))"
proof -
  let ?q = "Observe mo now om ords i e p0" and ?k = "bucketKeyLocked a"
  note ob = observe_server_error [OF assms, of ?q om ords, OF refl]
  have le: "now + 30 * second \<le> cooldown_join (bk_cooldown_until b) (now + circuit_cooldown)"
    by (simp add: cooldown_join_def circuit_cooldown_def split: option.splits)
  show ?thesis unfolding Let_def using ob le by fastforce
qed

theorem circuit_breaker_witness:
  "p_server_err (Observe sample_order 10 [''b''] [''b''] ''b'' (sample_effect EffectServerError 0) (sample_pool0 None))
      ''codex:sb'' = Some 1"
  using circuit_breaker [OF sample_observable(2) [of 10 None EffectServerError 0], of "[''b'']" "[''b'']"]
  by (simp add: error_count_def sample_pool0_errors Let_def)

text \<open>A success or a rejected request never changes the cooldown of the bucket, and it clears the
  count of consecutive server errors.\<close>

theorem success_neutral:
  assumes "observable mo now p0 i e a b" and "ef_kind e \<in> {EffectSuccess, EffectReject}"
  shows "(\<exists>b'. p_buckets (Observe mo now om ords i e p0) (bucketKeyLocked a) = Some b'
       \<and> bk_cooldown_until b' = bk_cooldown_until b)
   \<and> p_server_err (Observe mo now om ords i e p0) (bucketKeyLocked a) = None"
  using observe_neutral [OF assms] by blast

theorem success_neutral_witness:
  "p_server_err (Observe sample_order 10 [''b''] [''b''] ''b'' (sample_effect EffectSuccess 0)
     ((sample_pool0 None)\<lparr>p_server_err := [''codex:sb'' \<mapsto> 2]\<rparr>)) ''codex:sb'' = None"
proof -
  let ?p = "(sample_pool0 None)\<lparr>p_server_err := [''codex:sb'' \<mapsto> 2]\<rparr>"
  have r: "snd (reloadStateLocked sample_order 10 ?p) = (sample_pool None)\<lparr>p_server_err := [''codex:sb'' \<mapsto> 2]\<rparr>"
    by (simp add: reloadStateLocked_def ListAccounts_def ListEgressCells_def ListQuotaBuckets_def Let_def
        sample_pool0_def empty_pool_def sample_store_def NewMockStore_def sample_order_def map_by_def
        add_default_bucket_def sample_pool_def)
  have "loadable sample_order ?p" "pool_wf ?p"
    using sample_loadable [of None] sample_pool0_wf [of None] by (simp_all add: loadable_def pool_wf_def)
  then have "observable sample_order 10 ?p ''b'' (sample_effect EffectSuccess 0) acct_b bucket_b"
    by (simp add: observable_def observed_def r)
  from success_neutral [OF this] show ?thesis by simp
qed

text \<open>An account that is not active in the store is never leased after a reload.\<close>

lemma stored_inactive_not_routed:
  assumes "s_accounts (p_store p) i = Some s" and "ac_status s \<noteq> StatusActive"
    and "loadable mo p" and "pool_wf p"
    and "AcquireRoute_turn mo now ord drv req p = (RouteLeased a l, q)"
  shows "ac_id a \<noteq> i"
proof
  let ?r = "snd (refreshState mo now p)"
  assume same: "ac_id a = i"
  have r: "p_accounts ?r i = Some (HydrateRuntime s)"
    using assms(1) reload_accounts [OF assms(3)] by (simp add: refreshState_def)
  obtain bn where "route_section now ord drv req bn ?r = (RouteLeased a l, q)"
    using AcquireRoute_section [OF assms(5)] by blast
  then obtain x cls cl p1 where x: "x \<in> ran (p_accounts ?r)" "candidate_account ?r drv req now x"
    and l: "leaseAccountLocked x cls (rq_affinity_key req) cl p1 = ((a, l), q)"
    using route_section_sound by blast
  have wf: "pool_wf ?r" using pool_wf_reload [OF assms(4)] by (simp add: refreshState_def)
  have "ac_id x = i" using lease_effect(11) [OF l] same by simp
  moreover obtain j where j: "p_accounts ?r j = Some x" using x(1) by (auto simp: ran_def)
  ultimately have "p_accounts ?r i = Some x" using pool_wf_account [OF wf j] by simp
  then have "x = HydrateRuntime s" using r by simp
  then have "ac_status x = ac_status s" by simp
  with candidate_account_parts(1) [OF x(2)] assms(2) show False by simp
qed


definition sample_blocked :: "(provider \<rightharpoonup> scheduler_driver) option \<Rightarrow> pool" where
  "sample_blocked d =
     Observe sample_order 10 [''b''] [''b''] ''b'' (sample_effect EffectBlock 60) (sample_pool0 d)"

definition sample_blocked_store :: store where
  "sample_blocked_store = sample_store
     \<lparr> s_accounts := [''a'' \<mapsto> acct_a, ''b'' \<mapsto> acct_b\<lparr>ac_status := ''blocked''\<rparr>, ''c'' \<mapsto> acct_c],
       s_buckets := [''codex:sa'' \<mapsto> bucket_a,
                     ''codex:sb'' \<mapsto> bucket_b\<lparr>bk_cooldown_until := Some 60, bk_updated_at := 10\<rparr>,
                     ''claude:sc'' \<mapsto> bucket_c] \<rparr>"

lemma sample_block_simps [simp]:
  "bk_state_json bucket_a = ''{}''" "bk_state_json bucket_b = ''{}''" "bk_state_json bucket_c = ''{}''"
  "\<not> is_zero 10" "SaveAccountErr sample_store = None" "ef_error_message (sample_effect k t) = []"
  "PersistRuntime (acct_b\<lparr>ac_status := s, ac_error_message := []\<rparr>) = acct_b\<lparr>ac_status := s\<rparr>"
  by (simp_all add: bucket_defs is_zero_def sample_store_def NewMockStore_def sample_effect_def
      new_effect_def PersistRuntime_def acct_defs zero_time_def)

lemma sample_blocked_saved: "p_store (sample_blocked d) = sample_blocked_store"
  unfolding sample_blocked_store_def
  by (simp add: sample_blocked_def Observe_def ensureBucketLocked_def reset_errors_def apply_effect_def
      touch_account_def cool_bucket_def applyBucketCooldown_def persistBucketLocked_def write_bucket_def
      persistable_def update_state_def persist_marked_def persistLocked_def SaveQuotaBucket_def
      SaveAccount_def Let_def default_state_def emit_def publish_def StatusBlocked_def fun_upd_twist)

lemma sample_blocked_wf: "pool_wf (sample_blocked d)"
  unfolding sample_blocked_def by (rule wfi.I_operations) (rule sample_pool0_wf)

lemma sample_blocked_loadable: "loadable sample_order (sample_blocked d)"
proof -
  have "order_ok sample_blocked_store sample_order"
    by (simp add: order_ok_def ranges_def sample_order_def sample_blocked_store_def insert_commute)
  then show ?thesis
    using wfi.I_store_wf [OF sample_blocked_wf [of d]]
    by (simp add: loadable_def sample_blocked_saved) (simp add: sample_blocked_store_def)
qed

lemma sample_blocked_candidate:
  "candidate_account (snd (refreshState sample_order 70 (sample_blocked d))) (sample_driver ''codex'')
     (sample_request [] [] AffinityNone) 70 acct_a"
proof -
  have "p_buckets (snd (reloadStateLocked sample_order 70 (sample_blocked d))) ''codex:sa'' = Some bucket_a"
    using reload_bucket_stored [OF sample_blocked_loadable, of d "''codex:sa''"]
    by (simp add: sample_blocked_saved sample_blocked_store_def default_state_def)
  then show ?thesis
    by (simp add: candidate_account_def excludedAccounts_def
        excludedBuckets_def matchesProvider_def allowedOnSurfaceLocked_def
        structurallyAvailableLocked_def bucketCooldownLocked_def bucketLocked_def cellForAccountLocked_def
        capacityAssessmentLocked_def SurfaceNative_def SurfaceCompat_def SurfaceAll_def StatusActive_def
        Let_def sample_driver_def refreshState_def)
qed


text \<open>The clean-up lifts exactly the cooldowns that are over: afterwards no bucket has a cooldown
  that ended before now, a cooldown that has not ended is kept as it is, and no account is changed.\<close>

theorem cleanup_lifts_expired:
  assumes "exhausted_later p0"
    and "\<And>k. p_buckets (snd (reloadStateLocked mo now p0)) k \<noteq> None \<Longrightarrow> k \<in> set o1"
    and "p_buckets (cleanup mo now o1 o2 oa p0) k = Some b'"
  shows "\<exists>b. p_buckets (snd (reloadStateLocked mo now p0)) k = Some b
    \<and> (\<forall>t. bk_cooldown_until b' = Some t \<longrightarrow> now \<le> t)
    \<and> (\<forall>t. bk_cooldown_until b = Some t \<longrightarrow> now \<le> t \<longrightarrow> bk_cooldown_until b' = Some t)
    \<and> p_accounts (cleanup mo now o1 o2 oa p0) = p_accounts (snd (reloadStateLocked mo now p0))
    \<and> s_accounts (p_store (cleanup mo now o1 o2 oa p0)) = s_accounts (p_store p0)"
  using assms
proof (rule cleanup_buckets)
  fix b
  assume b: "p_buckets (snd (reloadStateLocked mo now p0)) k = Some b"
    and ne: "\<not> expired now (bk_cooldown_until b')"
    and keep: "\<not> expired now (bk_cooldown_until b) \<Longrightarrow> bk_cooldown_until b \<noteq> None \<Longrightarrow>
      bk_cooldown_until b' = bk_cooldown_until b"
  have "\<forall>t. bk_cooldown_until b' = Some t \<longrightarrow> now \<le> t" using ne by (auto simp: expired_def)
  moreover have "\<forall>t. bk_cooldown_until b = Some t \<longrightarrow> now \<le> t \<longrightarrow> bk_cooldown_until b' = Some t"
    using keep by (auto simp: expired_def)
  ultimately show ?thesis using b by (intro exI [of _ b] conjI cleanup_accounts)
qed

lemma cleanup_dom:
  assumes "exhausted_later p0"
  shows "p_buckets (cleanup mo now o1 o2 oa p0) k = None
    \<longleftrightarrow> p_buckets (snd (reloadStateLocked mo now p0)) k = None"
proof -
  let ?p = "foldl (expire_bucket now) (snd (reloadStateLocked mo now p0)) o1"
  have "exhausted_later ?p" using assms by (simp add: exhausted_later_def foldl_expire)
  then have "p_buckets (cleanup mo now o1 o2 oa p0) k = None \<longleftrightarrow> p_buckets ?p k = None"
    by (simp add: cleanup_def Let_def foldl_exhaust_dom)
  also have "\<dots> \<longleftrightarrow> map_option bk_cooldown_until (p_buckets ?p k) = None" by simp
  also have "\<dots> \<longleftrightarrow> p_buckets (snd (reloadStateLocked mo now p0)) k = None"
    by (subst foldl_expire(4)) simp
  finally show ?thesis .
qed

theorem cleanup_lifts_expired_witness:
  "\<exists>b'. p_buckets (cleanup sample_order 60 [''codex:sa'', ''codex:sb'', ''claude:sc''] [] (\<lambda>_. []) (sample_pool0 None))
     ''codex:sa'' = Some b' \<and> bk_cooldown_until b' \<noteq> Some 50"
proof -
  let ?o = "[''codex:sa'', ''codex:sb'', ''claude:sc'']"
  have later: "exhausted_later (sample_pool0 None)" by (simp add: exhausted_later_def)
  have o: "k \<in> set ?o" if "p_buckets (snd (reloadStateLocked sample_order 60 (sample_pool0 None))) k \<noteq> None" for k
    using that by (simp split: if_splits)
  obtain b' where b': "p_buckets (cleanup sample_order 60 ?o [] (\<lambda>_. []) (sample_pool0 None)) ''codex:sa'' = Some b'"
    using cleanup_dom [OF later, of sample_order 60 ?o "[]" "\<lambda>_. []" "''codex:sa''"] by auto
  from cleanup_lifts_expired [OF later o b'] have "bk_cooldown_until b' \<noteq> Some 50" by auto
  with b' show ?thesis by blast
qed

text \<open>What \<open>StoreTokens\<close> leaves in the store.\<close>

lemma store_tokens_saved:
  assumes "loadable mo p0" and "pool_wf p0" and "SaveAccountErr (p_store p0) = None"
    and "p_accounts (snd (reloadStateLocked mo now p0)) i = Some a"
  shows "\<exists>x. s_accounts (p_store (snd (StoreTokens mo now i acc ref ex p0))) i = Some x
    \<and> fst (StoreTokens mo now i acc ref ex p0) = None
    \<and> ac_status x = StatusActive \<and> ac_error_message x = []
    \<and> ac_access_token_enc x = acc \<and> ac_refresh_token_enc x = ref \<and> ac_expires_at x = ex
    \<and> (\<forall>b. p_buckets (snd (StoreTokens mo now i acc ref ex p0)) (bucketKeyLocked a) = Some b \<longrightarrow>
          bk_cooldown_until b = None)"
proof -
  define P where "P = snd (reloadStateLocked mo now p0)"
  have "fst (reloadStateLocked mo now p0) = None" using assms(1) reload_ok_iff [of mo now p0] by (simp add: loadable_def)
  then have rl: "reloadStateLocked mo now p0 = (None, P)" unfolding P_def by (metis prod.collapse)
  have a: "p_accounts P i = Some a" using assms(4) by (simp add: P_def)
  have store: "p_store P = p_store p0" by (simp add: P_def)
  have id: "ac_id a = i" using pool_wf_account [OF pool_wf_reload [OF assms(2)] assms(4)] .
  obtain b where b: "p_buckets P (bucketKeyLocked a) = Some b"
    using observed_exists [OF assms(1,2,4)] unfolding observed_def P_def by blast
  define a1 where "a1 = a\<lparr>ac_access_token_enc := acc, ac_refresh_token_enc := ref, ac_expires_at := ex,
    ac_last_refresh_at := Some now, ac_status := StatusActive, ac_error_message := []\<rparr>"
  define p1 where "p1 = P\<lparr>p_accounts := (p_accounts P)(i \<mapsto> a1)\<rparr>"
  have k: "bucketKeyLocked a1 = bucketKeyLocked a"
    by (simp add: a1_def bucketKeyLocked_def defaultBucketKey_def)
  have en: "ensureBucketLocked now a1 p1 = (Some b, p1)"
    by (rule ensureBucket_present) (simp add: p1_def k b)
  define p3 where "p3 = (if bk_cooldown_until b = None then p1
    else clear_bucket_cooldown now (bucketKeyLocked a) b p1)"
  have st: "StoreTokens mo now i acc ref ex p0 = (None, persistLocked i p3)"
    using en rl a k by (simp add: StoreTokens_def a1_def [symmetric] p1_def [symmetric] p3_def Let_def)
  have p3: "p_accounts p3 i = Some a1" "SaveAccountErr (p_store p3) = None"
    using assms(3) store by (simp_all add: p3_def p1_def clear_bucket_cooldown_def)
  have cool: "p_buckets p3 (bucketKeyLocked a) = Some c \<Longrightarrow> bk_cooldown_until c = None" for c
    using b persistBucket_present(1) [of "write_bucket (bucketKeyLocked a)
        (b\<lparr>bk_cooldown_until := None, bk_updated_at := now\<rparr>) p1" "bucketKeyLocked a"]
    by (auto simp: p3_def p1_def clear_bucket_cooldown_def persistable_def default_state_def Let_def split: if_splits)
  have "s_accounts (p_store (persistLocked i p3)) = (s_accounts (p_store p3))(i \<mapsto> PersistRuntime a1)"
    using p3 id by (intro persistLocked_saves) (simp_all add: a1_def)
  then show ?thesis using st cool by (simp add: a1_def)
qed

text \<open>Storing refreshed tokens re-activates the account whatever its status was, a block by the
  upstream or a manual disabling included, erases the error message and lifts the cooldown of its
  bucket, all of it durably.\<close>

theorem store_tokens_reactivates:
  assumes "loadable mo p0" and "pool_wf p0" and "SaveAccountErr (p_store p0) = None"
    and "p_accounts (snd (reloadStateLocked mo now p0)) i = Some a"
  shows "\<exists>x. s_accounts (p_store (snd (StoreTokens mo now i acc ref ex p0))) i = Some x
    \<and> fst (StoreTokens mo now i acc ref ex p0) = None
    \<and> ac_status x = StatusActive \<and> ac_error_message x = []
    \<and> ac_access_token_enc x = acc \<and> ac_refresh_token_enc x = ref \<and> ac_expires_at x = ex
    \<and> (\<forall>b. p_buckets (snd (StoreTokens mo now i acc ref ex p0)) (bucketKeyLocked a) = Some b \<longrightarrow>
          bk_cooldown_until b = None)"
  using store_tokens_saved [OF assms] .

theorem store_tokens_reactivates_witness:
  "\<exists>x. s_accounts (p_store (snd (StoreTokens sample_order 70 ''b'' ''A'' ''R'' 99 (sample_blocked None)))) ''b'' = Some x
     \<and> ac_status x = StatusActive"
proof -
  have "p_accounts (snd (reloadStateLocked sample_order 70 (sample_blocked None))) ''b''
      = Some (HydrateRuntime (acct_b\<lparr>ac_status := ''blocked''\<rparr>))"
    using reload_accounts [OF sample_blocked_loadable, of 70 None]
    by (simp add: sample_blocked_saved sample_blocked_store_def)
  moreover have "SaveAccountErr (p_store (sample_blocked None)) = None"
    by (simp add: sample_blocked_saved) (simp add: sample_blocked_store_def)
  ultimately show ?thesis
    using store_tokens_reactivates [OF sample_blocked_loadable sample_blocked_wf, of None 70 "''b''" _ "''A''" "''R''" 99]
    by blast
qed

end
