(* ===== verification/StoreProps.thy ===== *)
theory StoreProps
  imports Samples
begin

text \<open>
  The properties of the shared tables and of the data model: the refresh lock, the one-time OAuth
  session, the event ring, the round trip of the runtime columns, and the well-formedness that every
  operation of the pool keeps.
\<close>



text \<open>The refresh lock is exclusive and leased: after an acquisition, no other acquisition for the
  account succeeds before the lock expires, not even after a release with a foreign lock id; after
  the owner's release the next acquisition succeeds.\<close>

theorem refresh_lock_exclusive:
  assumes "fst (AcquireRefreshLock v s)" and "rl_account_id w = rl_account_id v"
  shows "(rl_created_at w < rl_expires_at v \<and> i \<noteq> rl_lock_id v \<longrightarrow>
      \<not> fst (AcquireRefreshLock w (ReleaseRefreshLock k i (snd (AcquireRefreshLock v s)))))
    \<and> fst (AcquireRefreshLock w (ReleaseRefreshLock (rl_account_id v) (rl_lock_id v) (snd (AcquireRefreshLock v s))))"
  using lock.held_until [OF assms] lock.owner_releases [OF assms] by blast

definition sample_lock :: "string \<Rightarrow> gotime \<Rightarrow> refresh_lock" where
  "sample_lock i t = \<lparr> rl_account_id = ''a'', rl_lock_id = i, rl_created_at = t, rl_expires_at = t + 30 \<rparr>"

theorem refresh_lock_exclusive_witness:
  "\<not> fst (AcquireRefreshLock (sample_lock ''y'' 29)
      (ReleaseRefreshLock ''a'' ''z'' (snd (AcquireRefreshLock (sample_lock ''x'' 0) NewMockStore))))"
proof -
  have "fst (AcquireRefreshLock (sample_lock ''x'' 0) NewMockStore)"
    by (simp add: AcquireRefreshLock_def NewMockStore_def)
  from refresh_lock_exclusive [OF this, of "sample_lock ''y'' 29" "''z''" "''a''"]
  show ?thesis by (simp add: sample_lock_def)
qed

text \<open>An OAuth session can be redeemed once: it is only returned before it expires, and once it
  was returned, no lookup and no second redemption finds it again at any time.\<close>

theorem oauth_session_once:
  assumes "GetAndDeleteOAuthSession now k s = (Some v, t)"
  shows "now < os_expires_at v \<and> GetOAuthSession now k s = Some v
    \<and> GetOAuthSession later k t = None \<and> GetAndDeleteOAuthSession later k t = (None, t)"
  using assms
  by (auto simp: GetAndDeleteOAuthSession_def GetOAuthSession_def split: option.splits if_splits)

theorem oauth_session_once_witness:
  "GetOAuthSession 5 ''s'' (snd (GetAndDeleteOAuthSession 5 ''s''
     (SaveOAuthSession \<lparr> os_session_id = ''s'', os_data_json = ''{}'', os_created_at = 1, os_expires_at = 9 \<rparr> NewMockStore))) = None"
proof -
  let ?v = "\<lparr> os_session_id = ''s'', os_data_json = ''{}'', os_created_at = 1, os_expires_at = 9 \<rparr>"
  let ?s = "SaveOAuthSession ?v NewMockStore"
  have "GetAndDeleteOAuthSession 5 ''s'' ?s = (Some ?v, snd (GetAndDeleteOAuthSession 5 ''s'' ?s))"
    by (simp add: GetAndDeleteOAuthSession_def SaveOAuthSession_def)
  from oauth_session_once [OF this] show ?thesis by blast
qed

text \<open>The event ring keeps the newest events: after publishing any sequence of events on a new
  bus, \<open>Recent\<close> without a limit returns the last of them, as many as the ring holds, in order.\<close>

theorem ring_keeps_newest:
  "Recent 0 (fold (\<lambda>te. Publish (fst te) (snd te)) es (NewBus n))
     = lastn (nat (if n \<le> 0 then 200 else n)) (map (\<lambda>te. stamp (fst te) (snd te)) es)"
proof -
  have pub: "publish_at = (\<lambda>te. Publish (fst te) (snd te))" and st: "stamped = (\<lambda>te. stamp (fst te) (snd te))"
    by (simp_all add: publish_at_def stamped_def fun_eq_iff)
  have new: "recentLocked (NewBus n) = []" "ringSize (NewBus n) = nat (if n \<le> 0 then 200 else n)"
    by (simp_all add: recentLocked_def NewBus_def Let_def)
  show ?thesis
    using ev.recent_fold [OF bus_ok_NewBus, of es n] unfolding pub st new by (simp add: Recent_def)
qed

section \<open>Round trips of the JSON columns\<close>

lemma hydrate_proxy:
  "ac_proxy (HydrateRuntime a) =
     (if ac_proxy_json a \<noteq> [] then
        (case decode_proxy (ac_proxy_json a) of
           Some p \<Rightarrow> if pc_host p \<noteq> [] then Some p else ac_proxy a
         | None \<Rightarrow> ac_proxy a)
      else ac_proxy a)"
  by (simp add: HydrateRuntime_def Let_def split: option.splits)

lemma hydrate_identity:
  "ac_identity (HydrateRuntime a) =
     (if ac_identity_json a \<noteq> [] then
        (case decode_str_map (ac_identity_json a) of Some m \<Rightarrow> m | None \<Rightarrow> ac_identity a)
      else ac_identity a)"
  by (simp add: HydrateRuntime_def Let_def split: option.splits)

lemma persist_columns:
  "ac_proxy_json (PersistRuntime a) = (case ac_proxy a of Some p \<Rightarrow> encode_proxy p | None \<Rightarrow> [])"
  "ac_identity_json (PersistRuntime a) = (case ac_identity a of Some m \<Rightarrow> encode_str_map m | None \<Rightarrow> [])"
  by (simp_all add: PersistRuntime_def Let_def split: option.splits)

text \<open>A row read back: the columns of the account, without its runtime fields.\<close>

definition saved_row :: "account \<Rightarrow> account" where
  "saved_row a = (PersistRuntime a)\<lparr>ac_proxy := None, ac_identity := None\<rparr>"

text \<open>What is persisted of an account is hydrated back: reading the row of a persisted account
  into a fresh record restores its proxy (a proxy without a host, which cannot be dialled, is
  dropped) and its identity, as a map.\<close>

theorem persist_hydrate_roundtrip:
  assumes "\<And>p. ac_proxy a = Some p \<Longrightarrow> fits64 (pc_port p)"
    and "\<And>m. ac_identity a = Some m \<Longrightarrow> distinct (map fst m)"
  shows "ac_proxy (HydrateRuntime (saved_row a)) =
      (case ac_proxy a of Some p \<Rightarrow> if pc_host p = [] then None else Some p | None \<Rightarrow> None)
    \<and> map_option map_of (ac_identity (HydrateRuntime (saved_row a))) = map_option map_of (ac_identity a)"
  using assms(1,2)
  by (auto simp: saved_row_def hydrate_proxy hydrate_identity persist_columns decode_encode_proxy
      decode_encode_str_map map_of_sort_key split: option.splits)

theorem persist_hydrate_roundtrip_witness:
  "ac_proxy (HydrateRuntime (saved_row (acct_a\<lparr>ac_proxy := Some (empty_proxy\<lparr>pc_host := ''h''\<rparr>)\<rparr>)))
     = Some (empty_proxy\<lparr>pc_host := ''h''\<rparr>)"
  using persist_hydrate_roundtrip [of "acct_a\<lparr>ac_proxy := Some (empty_proxy\<lparr>pc_host := ''h''\<rparr>)\<rparr>"]
  by (simp add: acct_defs empty_proxy_def fits64_def)

end
