(* ===== verification/PoolRuntime.thy ===== *)
theory PoolRuntime
  imports PoolSchedule
begin

text \<open>
  The runtime tables of the pool (src/internal/pool/pool_runtime.go): session bindings, stainless
  headers, OAuth sessions and refresh locks, as thin operations on the store that stamp the clock.
  The operations carry the prefix \<open>p_\<close> (for the receiver) where the store has one of the same name.
  A result \<open>(value, found)\<close> of the code is an option.
\<close>

definition p_GetSessionBinding ::
  "map_order \<Rightarrow> gotime \<Rightarrow> string list \<Rightarrow> string \<Rightarrow> pool \<Rightarrow> (err + string option) \<times> pool" where
  "p_GetSessionBinding mo now ord sessionUUID p0 =
     (case GetSessionBinding now sessionUUID (p_store p0) of
        None \<Rightarrow> (Inr None, p0)
      | Some b \<Rightarrow>
          (case refreshState mo now p0 of
             (Some e, p) \<Rightarrow> (Inl e, p)
           | (None, p) \<Rightarrow>
               (case List.find (\<lambda>a. ac_provider a = sb_provider b \<and> ac_subject a = sb_subject b)
                       (entries (p_accounts p) ord) of
                  Some a \<Rightarrow> (Inr (Some (ac_id a)), p)
                | None \<Rightarrow> (Inr None, p))))"

definition ListSessionBindingsForAccount ::
  "map_order \<Rightarrow> gotime \<Rightarrow> string list \<Rightarrow> string \<Rightarrow> pool \<Rightarrow> (err + session_binding_info list) \<times> pool" where
  "ListSessionBindingsForAccount mo now ords accountID p0 =
     (case Get mo now accountID p0 of
        (None, p) \<Rightarrow> (Inl (''account '' @ accountID @ '' not found''), p)
      | (Some a, p) \<Rightarrow>
          (Inr (map (\<lambda>b. binding_info b accountID)
                 (ListSessionBindingsByTarget now ords (ac_provider a) (ac_subject a) (p_store p))), p))"

definition UnbindSession :: "string \<Rightarrow> pool \<Rightarrow> pool" where
  "UnbindSession sessionUUID p = p\<lparr> p_store := DeleteSessionBinding sessionUUID (p_store p) \<rparr>"

definition GetStainless :: "gotime \<Rightarrow> string \<Rightarrow> pool \<Rightarrow> string option" where
  "GetStainless now accountID p =
     map_option st_headers_json (GetStainlessBinding now accountID (p_store p))"

definition SetStainlessNX :: "gotime \<Rightarrow> string \<Rightarrow> string \<Rightarrow> duration \<Rightarrow> pool \<Rightarrow> bool \<times> pool" where
  "SetStainlessNX now accountID headersJSON ttl p =
     (case SetStainlessBindingNX
             \<lparr> st_account_id = accountID, st_headers_json = headersJSON,
               st_created_at = now, st_expires_at = now + ttl \<rparr> (p_store p) of
        (ok, s) \<Rightarrow> (ok, p\<lparr> p_store := s \<rparr>))"

definition SetOAuthSession :: "gotime \<Rightarrow> string \<Rightarrow> string \<Rightarrow> duration \<Rightarrow> pool \<Rightarrow> pool" where
  "SetOAuthSession now state data ttl p =
     p\<lparr> p_store := SaveOAuthSession
          \<lparr> os_session_id = state, os_data_json = data,
            os_created_at = now, os_expires_at = now + ttl \<rparr> (p_store p) \<rparr>"

definition p_GetOAuthSession :: "gotime \<Rightarrow> string \<Rightarrow> pool \<Rightarrow> string option" where
  "p_GetOAuthSession now state p = map_option os_data_json (GetOAuthSession now state (p_store p))"

definition DelOAuthSession :: "string \<Rightarrow> pool \<Rightarrow> pool" where
  "DelOAuthSession state p = p\<lparr> p_store := DeleteOAuthSession state (p_store p) \<rparr>"

definition GetDelOAuthSession :: "gotime \<Rightarrow> string \<Rightarrow> pool \<Rightarrow> string option \<times> pool" where
  "GetDelOAuthSession now state p =
     (case GetAndDeleteOAuthSession now state (p_store p) of
        (v, s) \<Rightarrow> (map_option os_data_json v, p\<lparr> p_store := s \<rparr>))"

definition p_AcquireRefreshLock :: "gotime \<Rightarrow> string \<Rightarrow> string \<Rightarrow> pool \<Rightarrow> bool \<times> pool" where
  "p_AcquireRefreshLock now accountID lockID p =
     (case AcquireRefreshLock
             \<lparr> rl_account_id = accountID, rl_lock_id = lockID,
               rl_created_at = now, rl_expires_at = now + 30 * second \<rparr> (p_store p) of
        (ok, s) \<Rightarrow> (ok, p\<lparr> p_store := s \<rparr>))"

definition p_ReleaseRefreshLock :: "string \<Rightarrow> string \<Rightarrow> pool \<Rightarrow> pool" where
  "p_ReleaseRefreshLock accountID lockID p =
     p\<lparr> p_store := ReleaseRefreshLock accountID lockID (p_store p) \<rparr>"

end
