(* ===== verification/TtlMap.thy ===== *)
theory TtlMap
  imports Prelude
begin

text \<open>
  The generic map with a time to live per entry (src/internal/store/mem.go).  Every operation holds
  the lock; the clock reading is an argument.  An entry is visible up to and including its expiry
  instant; \<open>SetNX\<close> alone treats the instant itself as expired.
\<close>

record 'v ttl_entry =
  te_value :: 'v
  te_expires_at :: gotime

type_synonym 'v ttl_map = "string \<rightharpoonup> 'v ttl_entry"

definition NewTTLMap :: "'v ttl_map" where
  "NewTTLMap = Map.empty"

definition ttl_Get :: "gotime \<Rightarrow> string \<Rightarrow> 'v ttl_map \<Rightarrow> 'v option" where
  "ttl_Get now k m =
     (case m k of None \<Rightarrow> None | Some e \<Rightarrow> (if te_expires_at e < now then None else Some (te_value e)))"

definition ttl_Set :: "gotime \<Rightarrow> string \<Rightarrow> 'v \<Rightarrow> duration \<Rightarrow> 'v ttl_map \<Rightarrow> 'v ttl_map" where
  "ttl_Set now k v ttl m = m(k \<mapsto> \<lparr> te_value = v, te_expires_at = now + ttl \<rparr>)"

definition ttl_Delete :: "string \<Rightarrow> 'v ttl_map \<Rightarrow> 'v ttl_map" where
  "ttl_Delete k m = m(k := None)"

definition ttl_GetAndDelete :: "gotime \<Rightarrow> string \<Rightarrow> 'v ttl_map \<Rightarrow> 'v option \<times> 'v ttl_map" where
  "ttl_GetAndDelete now k m =
     (case m k of
        None \<Rightarrow> (None, m)
      | Some e \<Rightarrow> (if te_expires_at e < now then (None, m) else (Some (te_value e), m(k := None))))"

definition ttl_Update :: "gotime \<Rightarrow> string \<Rightarrow> ('v \<Rightarrow> 'v) \<Rightarrow> duration \<Rightarrow> 'v ttl_map \<Rightarrow> bool \<times> 'v ttl_map" where
  "ttl_Update now k fn ttl m =
     (case m k of
        None \<Rightarrow> (False, m)
      | Some e \<Rightarrow>
          (if te_expires_at e < now then (False, m)
           else (True, m(k \<mapsto> e\<lparr> te_value := fn (te_value e), te_expires_at := now + ttl \<rparr>))))"

definition ttl_Entries :: "gotime \<Rightarrow> string list \<Rightarrow> 'v ttl_map \<Rightarrow> (string \<times> 'v \<times> gotime) list" where
  "ttl_Entries now ord m =
     List.map_filter
       (\<lambda>k. case m k of
              None \<Rightarrow> None
            | Some e \<Rightarrow> (if te_expires_at e < now then None else Some (k, te_value e, te_expires_at e))) ord"

definition ttl_SetNX :: "gotime \<Rightarrow> string \<Rightarrow> 'v \<Rightarrow> duration \<Rightarrow> 'v ttl_map \<Rightarrow> bool \<times> 'v ttl_map" where
  "ttl_SetNX now k v ttl m =
     (if (case m k of Some e \<Rightarrow> now < te_expires_at e | None \<Rightarrow> False) then (False, m)
      else (True, m(k \<mapsto> \<lparr> te_value = v, te_expires_at = now + ttl \<rparr>)))"

definition ttl_DeleteIf :: "gotime \<Rightarrow> string \<Rightarrow> ('v \<Rightarrow> bool) \<Rightarrow> 'v ttl_map \<Rightarrow> bool \<times> 'v ttl_map" where
  "ttl_DeleteIf now k match m =
     (case m k of
        None \<Rightarrow> (False, m)
      | Some e \<Rightarrow>
          (if te_expires_at e < now then (False, m)
           else if match (te_value e) then (True, m(k := None)) else (False, m)))"

definition ttl_cleanup_key :: "gotime \<Rightarrow> 'v ttl_map \<Rightarrow> string \<Rightarrow> 'v ttl_map" where
  "ttl_cleanup_key now m k =
     (case m k of None \<Rightarrow> m | Some e \<Rightarrow> (if te_expires_at e < now then m(k := None) else m))"

definition ttl_Cleanup :: "gotime \<Rightarrow> string list \<Rightarrow> 'v ttl_map \<Rightarrow> 'v ttl_map" where
  "ttl_Cleanup now ord m = foldl (ttl_cleanup_key now) m ord"

section \<open>What the operations do to what is visible\<close>

lemma ttl_cleanup_key_visible: "now \<le> t \<Longrightarrow> ttl_Get t j (ttl_cleanup_key now m k) = ttl_Get t j m"
  by (auto simp: ttl_cleanup_key_def ttl_Get_def split: option.splits)

lemma ttl_Cleanup_visible: "now \<le> t \<Longrightarrow> ttl_Get t j (ttl_Cleanup now ord m) = ttl_Get t j m"
  unfolding ttl_Cleanup_def
  by (induction ord arbitrary: m) (simp_all add: ttl_cleanup_key_visible)

lemma ttl_cleanup_key_other: "j \<noteq> k \<Longrightarrow> ttl_cleanup_key now m k j = m j"
  by (simp add: ttl_cleanup_key_def split: option.splits)

lemma foldl_cleanup_other: "j \<notin> set ord \<Longrightarrow> foldl (ttl_cleanup_key now) m ord j = m j"
  by (induction ord arbitrary: m) (simp_all add: ttl_cleanup_key_other)

lemma foldl_cleanup_sub: "foldl (ttl_cleanup_key now) m ord j = Some e \<Longrightarrow> m j = Some e"
proof (induction ord arbitrary: m)
  case (Cons k ord)
  then have "ttl_cleanup_key now m k j = Some e" by simp
  then show ?case by (auto simp: ttl_cleanup_key_def split: option.splits if_splits)
qed simp

lemma ttl_Cleanup_live:
  assumes "ranges m ord" and "ttl_Cleanup now ord m j = Some e"
  shows "now \<le> te_expires_at e"
proof -
  have "foldl (ttl_cleanup_key now) m ord j = Some e \<Longrightarrow> j \<in> set ord \<Longrightarrow> now \<le> te_expires_at e" for m
  proof (induction ord arbitrary: m)
    case (Cons k ord)
    show ?case
    proof (cases "j \<in> set ord")
      case True
      with Cons show ?thesis by simp
    next
      case False
      with Cons.prems have "ttl_cleanup_key now m j j = Some e" by (simp add: foldl_cleanup_other)
      then show ?thesis by (auto simp: ttl_cleanup_key_def split: option.splits if_splits)
    qed
  qed simp
  moreover have "j \<in> set ord"
    using assms foldl_cleanup_sub [of now m ord j e] by (auto simp: ranges_def ttl_Cleanup_def)
  ultimately show ?thesis using assms(2) by (simp add: ttl_Cleanup_def)
qed

section \<open>Refinement of a map that forgets at once\<close>

text \<open>The abstract map keeps the live entries only: every operation first drops the entries whose
  expiry has passed.\<close>

datatype 'v ttl_op =
    TGet string | TSet string 'v duration | TDelete string | TGetAndDelete string
  | TUpdate string "'v \<Rightarrow> 'v" duration | TSetNX string 'v duration | TDeleteIf string "'v \<Rightarrow> bool"
  | TCleanup "string list"

datatype 'v ttl_result = TDone | TValue "'v option" | TBool bool

fun ttl_exec :: "gotime \<Rightarrow> 'v ttl_op \<Rightarrow> 'v ttl_map \<Rightarrow> 'v ttl_result \<times> 'v ttl_map" where
  "ttl_exec now (TGet k) m = (TValue (ttl_Get now k m), m)"
| "ttl_exec now (TSet k v ttl) m = (TDone, ttl_Set now k v ttl m)"
| "ttl_exec now (TDelete k) m = (TDone, ttl_Delete k m)"
| "ttl_exec now (TGetAndDelete k) m = apfst TValue (ttl_GetAndDelete now k m)"
| "ttl_exec now (TUpdate k fn ttl) m = apfst TBool (ttl_Update now k fn ttl m)"
| "ttl_exec now (TSetNX k v ttl) m = apfst TBool (ttl_SetNX now k v ttl m)"
| "ttl_exec now (TDeleteIf k f) m = apfst TBool (ttl_DeleteIf now k f m)"
| "ttl_exec now (TCleanup ord) m = (TDone, ttl_Cleanup now ord m)"

definition live :: "gotime \<Rightarrow> 'v ttl_map \<Rightarrow> 'v ttl_map" where
  "live now m k = (case m k of None \<Rightarrow> None | Some e \<Rightarrow> (if te_expires_at e < now then None else Some e))"

definition entry_at :: "gotime \<Rightarrow> 'v \<Rightarrow> duration \<Rightarrow> 'v ttl_entry" where
  "entry_at now v ttl = \<lparr> te_value = v, te_expires_at = now + ttl \<rparr>"

fun spec_op :: "gotime \<Rightarrow> 'v ttl_op \<Rightarrow> 'v ttl_map \<Rightarrow> 'v ttl_result \<times> 'v ttl_map" where
  "spec_op now (TGet k) a = (TValue (map_option te_value (a k)), a)"
| "spec_op now (TSet k v ttl) a = (TDone, a(k \<mapsto> entry_at now v ttl))"
| "spec_op now (TDelete k) a = (TDone, a(k := None))"
| "spec_op now (TGetAndDelete k) a = (TValue (map_option te_value (a k)), a(k := None))"
| "spec_op now (TUpdate k fn ttl) a =
     (case a k of None \<Rightarrow> (TBool False, a) | Some e \<Rightarrow> (TBool True, a(k \<mapsto> entry_at now (fn (te_value e)) ttl)))"
| "spec_op now (TSetNX k v ttl) a =
     (case a k of
        None \<Rightarrow> (TBool True, a(k \<mapsto> entry_at now v ttl))
      | Some e \<Rightarrow> (if te_expires_at e = now then (TBool True, a(k \<mapsto> entry_at now v ttl)) else (TBool False, a)))"
| "spec_op now (TDeleteIf k f) a =
     (case a k of None \<Rightarrow> (TBool False, a)
      | Some e \<Rightarrow> (if f (te_value e) then (TBool True, a(k := None)) else (TBool False, a)))"
| "spec_op now (TCleanup ord) a = (TDone, a)"

fun ttl_run :: "(gotime \<times> 'v ttl_op) list \<Rightarrow> 'v ttl_map \<Rightarrow> 'v ttl_result list" where
  "ttl_run [] m = []"
| "ttl_run ((now, x) # xs) m = (case ttl_exec now x m of (r, m') \<Rightarrow> r # ttl_run xs m')"

fun spec_run :: "(gotime \<times> 'v ttl_op) list \<Rightarrow> 'v ttl_map \<Rightarrow> 'v ttl_result list" where
  "spec_run [] a = []"
| "spec_run ((now, x) # xs) a = (case spec_op now x (live now a) of (r, a') \<Rightarrow> r # spec_run xs a')"

lemma live_live: "s \<le> t \<Longrightarrow> live t (live s m) = live t m"
  by (auto simp: live_def fun_eq_iff split: option.splits)

lemma live_upd: "live t (m(k \<mapsto> e)) = (if te_expires_at e < t then (live t m)(k := None) else (live t m)(k \<mapsto> e))"
  by (auto simp: live_def fun_eq_iff split: option.splits)

lemma live_del: "live t (m(k := None)) = (live t m)(k := None)"
  by (auto simp: live_def fun_eq_iff)

lemma live_cleanup_key: "now \<le> t \<Longrightarrow> live t (ttl_cleanup_key now m k) = live t m"
  by (auto simp: ttl_cleanup_key_def live_def fun_eq_iff split: option.splits)

lemma live_Cleanup: "now \<le> t \<Longrightarrow> live t (ttl_Cleanup now ord m) = live t m"
  unfolding ttl_Cleanup_def by (induction ord arbitrary: m) (simp_all add: live_cleanup_key)

lemmas ttl_ops = ttl_Get_def ttl_Set_def ttl_Delete_def ttl_GetAndDelete_def ttl_Update_def ttl_SetNX_def
  ttl_DeleteIf_def entry_at_def

text \<open>One step: the same answer, and the same live entries from then on.\<close>

lemma ttl_step_result: "fst (ttl_exec now x m) = fst (spec_op now x (live now m))"
  by (cases x) (auto simp: ttl_ops live_def split: option.splits)

lemma live_None: "live now m k = None \<Longrightarrow> now \<le> t \<Longrightarrow> live t m k = None"
  by (auto simp: live_def split: option.splits if_splits)

lemma ttl_step_live: "now \<le> t \<Longrightarrow> live t (snd (ttl_exec now x m)) = live t (snd (spec_op now x (live now m)))"
proof (cases x)
  case (TCleanup ord)
  assume "now \<le> t"
  then show ?thesis by (simp add: TCleanup live_Cleanup live_live)
qed (auto simp: ttl_ops live_upd live_del live_live live_def fun_eq_iff split: option.splits)

lemma ttl_run_live:
  assumes "sorted (map fst xs)" and "\<And>t. (\<exists>x \<in> set xs. fst x \<le> t) \<Longrightarrow> live t m = live t a"
  shows "ttl_run xs m = spec_run xs a"
  using assms
proof (induction xs arbitrary: m a)
  case (Cons y xs)
  obtain now x where y: "y = (now, x)" by (cases y)
  have same: "live now m = live now a" by (rule Cons.prems(2)) (auto simp: y)
  have "ttl_run xs (snd (ttl_exec now x m)) = spec_run xs (snd (spec_op now x (live now a)))"
  proof (rule Cons.IH)
    show "sorted (map fst xs)" using Cons.prems(1) by simp
    fix t assume "\<exists>z \<in> set xs. fst z \<le> t"
    with Cons.prems(1) have "now \<le> t" by (fastforce simp: y)
    then show "live t (snd (ttl_exec now x m)) = live t (snd (spec_op now x (live now a)))"
      using ttl_step_live [of now t x m] by (simp add: same)
  qed
  moreover have "fst (ttl_exec now x m) = fst (spec_op now x (live now a))"
    using ttl_step_result [of now x m] by (simp add: same)
  ultimately show ?case by (simp add: y case_prod_beta)
qed simp



end
