(* ===== verification/RateLimit.thy ===== *)
theory RateLimit
  imports Prelude
begin

text \<open>
  The rate limiter of the compat surface (src/internal/server/compat_rate_limit.go): per key, a
  window of one minute of start times and a count of running requests.  A nil limiter is \<open>None\<close>.  The
  closure that \<open>Acquire\<close> returns is the operation \<open>Release\<close>, run with its own clock reading.  The
  second half is a transition system of the permits that are out and the times at which they were
  granted, whose invariants are the two limits.
\<close>

record rate_state =
  rs_started :: "gotime list"
  rs_inflight :: int

record rate_limiter =
  maxPerMinute :: int
  maxConcurrent :: int
  rl_state :: "string \<rightharpoonup> rate_state"

definition newCompatRateLimiter :: "int \<Rightarrow> int \<Rightarrow> rate_limiter option" where
  "newCompatRateLimiter perMinute concurrent =
     (let m = (if perMinute < 0 then 0 else perMinute);
          c = (if concurrent < 0 then 0 else concurrent)
      in if m = 0 \<and> c = 0 then None
         else Some \<lparr> maxPerMinute = m, maxConcurrent = c, rl_state = Map.empty \<rparr>)"

definition keep_since :: "gotime \<Rightarrow> gotime list \<Rightarrow> gotime list" where
  "keep_since cutoff ts = filter (\<lambda>t. \<not> t < cutoff) ts"

definition rate_entry :: "rate_limiter \<Rightarrow> string \<Rightarrow> rate_state" where
  "rate_entry l key = (case rl_state l key of None \<Rightarrow> \<lparr> rs_started = [], rs_inflight = 0 \<rparr> | Some e \<Rightarrow> e)"

datatype permit = Unlimited | Permit string

definition Acquire :: "string \<Rightarrow> gotime \<Rightarrow> rate_limiter option \<Rightarrow> (err + permit) \<times> rate_limiter option" where
  "Acquire key now ol =
     (case ol of
        None \<Rightarrow> (Inr Unlimited, None)
      | Some l \<Rightarrow>
          (if key = [] then (Inr Unlimited, Some l)
           else (let e0 = rate_entry l key;
                     e = e0\<lparr> rs_started := keep_since (now - minute) (rs_started e0) \<rparr>;
                     l1 = l\<lparr> rl_state := (rl_state l)(key \<mapsto> e) \<rparr>
                 in if 0 < maxConcurrent l \<and> maxConcurrent l \<le> rs_inflight e
                    then (Inl (''compat concurrency limit reached ('' @ itoa (maxConcurrent l) @ '')''), Some l1)
                    else if 0 < maxPerMinute l \<and> maxPerMinute l \<le> int (length (rs_started e))
                    then (Inl (''compat request rate limit reached ('' @ itoa (maxPerMinute l) @ ''/min)''), Some l1)
                    else (Inr (Permit key),
                          Some (l\<lparr> rl_state := (rl_state l)(key \<mapsto>
                            e\<lparr> rs_inflight := rs_inflight e + 1,
                               rs_started := (if 0 < maxPerMinute l then rs_started e @ [now]
                                              else rs_started e) \<rparr>) \<rparr>)))))"

definition Release :: "permit \<Rightarrow> gotime \<Rightarrow> rate_limiter option \<Rightarrow> rate_limiter option" where
  "Release pm now ol =
     (case (pm, ol) of
        (Permit key, Some l) \<Rightarrow>
          (case rl_state l key of
             None \<Rightarrow> Some l
           | Some e0 \<Rightarrow>
               (let e1 = (if 0 < rs_inflight e0 then e0\<lparr> rs_inflight := rs_inflight e0 - 1 \<rparr> else e0);
                    e = (if 0 < maxPerMinute l
                         then e1\<lparr> rs_started := keep_since (now - minute) (rs_started e1) \<rparr> else e1)
                in if rs_inflight e = 0 \<and> rs_started e = []
                   then Some (l\<lparr> rl_state := (rl_state l)(key := None) \<rparr>)
                   else Some (l\<lparr> rl_state := (rl_state l)(key \<mapsto> e) \<rparr>)))
      | _ \<Rightarrow> ol)"

section \<open>Permits in circulation\<close>

text \<open>\<open>rt_out\<close> are the permits not yet released, \<open>rt_granted\<close> the grants so far, \<open>rt_now\<close> the last
  clock reading (the clock does not run backwards).\<close>

record rate_sys =
  rt_limiter :: rate_limiter
  rt_out :: "string list"
  rt_granted :: "(string \<times> gotime) list"
  rt_now :: gotime

inductive rate_step :: "rate_sys \<Rightarrow> rate_sys \<Rightarrow> bool" where
  rate_grant:
    "rt_now s \<le> now \<Longrightarrow> Acquire key now (Some (rt_limiter s)) = (Inr (Permit key), Some l) \<Longrightarrow>
     rate_step s (s\<lparr> rt_limiter := l, rt_out := key # rt_out s,
                     rt_granted := rt_granted s @ [(key, now)], rt_now := now \<rparr>)"
| rate_refuse:
    "rt_now s \<le> now \<Longrightarrow> Acquire key now (Some (rt_limiter s)) = (Inl e, Some l) \<Longrightarrow>
     rate_step s (s\<lparr> rt_limiter := l, rt_now := now \<rparr>)"
| rate_release:
    "rt_now s \<le> now \<Longrightarrow> key \<in> set (rt_out s) \<Longrightarrow> Release (Permit key) now (Some (rt_limiter s)) = Some l \<Longrightarrow>
     rate_step s (s\<lparr> rt_limiter := l, rt_out := remove1 key (rt_out s), rt_now := now \<rparr>)"

inductive rate_reach :: "int \<Rightarrow> int \<Rightarrow> rate_sys \<Rightarrow> bool" for m c where
  rate_init: "newCompatRateLimiter m c = Some l \<Longrightarrow>
    rate_reach m c \<lparr> rt_limiter = l, rt_out = [], rt_granted = [], rt_now = t \<rparr>"
| rate_next: "rate_reach m c s \<Longrightarrow> rate_step s t \<Longrightarrow> rate_reach m c t"

section \<open>The invariant\<close>

definition grants_of :: "rate_sys \<Rightarrow> string \<Rightarrow> gotime list" where
  "grants_of s key = map snd (filter (\<lambda>g. fst g = key) (rt_granted s))"

definition out_of :: "rate_sys \<Rightarrow> string \<Rightarrow> nat" where
  "out_of s key = length (filter (\<lambda>k. k = key) (rt_out s))"

text \<open>The number of grants of a key in a window of one minute that starts at \<open>t\<close>.\<close>

definition in_window :: "rate_sys \<Rightarrow> string \<Rightarrow> gotime \<Rightarrow> nat" where
  "in_window s key t = length (filter (\<lambda>g. t \<le> g \<and> g \<le> t + minute) (grants_of s key))"

definition rate_inv :: "rate_sys \<Rightarrow> bool" where
  "rate_inv s \<longleftrightarrow>
     (\<forall>key. rs_inflight (rate_entry (rt_limiter s) key) = int (out_of s key))
   \<and> (0 < maxConcurrent (rt_limiter s) \<longrightarrow> (\<forall>key. int (out_of s key) \<le> maxConcurrent (rt_limiter s)))
   \<and> (\<forall>key. \<forall>g \<in> set (grants_of s key). g \<le> rt_now s)
   \<and> (0 < maxPerMinute (rt_limiter s) \<longrightarrow>
        (\<forall>key t. rt_now s - minute \<le> t \<longrightarrow>
           filter (\<lambda>g. t \<le> g) (rs_started (rate_entry (rt_limiter s) key))
           = filter (\<lambda>g. t \<le> g) (grants_of s key))
      \<and> (\<forall>key t. int (in_window s key t) \<le> maxPerMinute (rt_limiter s)))"

lemma keep_since_filter: "cutoff \<le> t \<Longrightarrow> filter (\<lambda>g. t \<le> g) (keep_since cutoff ts) = filter (\<lambda>g. t \<le> g) ts"
  by (induction ts) (auto simp: keep_since_def)

lemma grants_of_grant:
  "grants_of (s\<lparr>rt_limiter := l, rt_out := ks, rt_granted := rt_granted s @ [(key, now)], rt_now := t\<rparr>) k
   = (if k = key then grants_of s k @ [now] else grants_of s k)"
  by (simp add: grants_of_def)

lemma Acquire_granted:
  assumes "Acquire key now (Some l) = (Inr (Permit k), Some l')"
  shows "k = key" "maxPerMinute l' = maxPerMinute l" "maxConcurrent l' = maxConcurrent l"
    "0 < maxConcurrent l \<Longrightarrow> rs_inflight (rate_entry l key) < maxConcurrent l"
    "0 < maxPerMinute l \<Longrightarrow> int (length (keep_since (now - minute) (rs_started (rate_entry l key)))) < maxPerMinute l"
    "rate_entry l' j = (if j = key then
       \<lparr> rs_started = keep_since (now - minute) (rs_started (rate_entry l key))
           @ (if 0 < maxPerMinute l then [now] else []),
         rs_inflight = rs_inflight (rate_entry l key) + 1 \<rparr> else rate_entry l j)"
  using assms by (auto simp: Acquire_def Let_def rate_entry_def split: if_splits option.splits)

lemma Acquire_refused:
  assumes "Acquire key now (Some l) = (Inl e, Some l')"
  shows "maxPerMinute l' = maxPerMinute l" "maxConcurrent l' = maxConcurrent l"
    "rate_entry l' j = (if j = key then
       (rate_entry l key)\<lparr> rs_started := keep_since (now - minute) (rs_started (rate_entry l key)) \<rparr>
       else rate_entry l j)"
  using assms by (auto simp: Acquire_def Let_def rate_entry_def split: if_splits option.splits)

lemma Release_effect:
  assumes "Release (Permit key) now (Some l) = Some l'" and "0 < rs_inflight (rate_entry l key)"
  shows "maxPerMinute l' = maxPerMinute l" "maxConcurrent l' = maxConcurrent l"
    "rate_entry l' j = (if j = key then
       \<lparr> rs_started = (if 0 < maxPerMinute l then keep_since (now - minute) (rs_started (rate_entry l key))
                      else rs_started (rate_entry l key)),
         rs_inflight = rs_inflight (rate_entry l key) - 1 \<rparr> else rate_entry l j)"
  using assms by (auto simp: Release_def Let_def rate_entry_def split: if_splits option.splits)

text \<open>A window that contains the new grant lies after the cut-off, so the pruned list counts it.\<close>

lemma window_after_grant:
  assumes old: "\<And>t. T - minute \<le> t \<Longrightarrow> filter (\<lambda>g. t \<le> g) st = filter (\<lambda>g. t \<le> g) gs"
    and small: "int (length (keep_since (now - minute) st)) < m"
    and mono: "T \<le> now" and win: "now \<le> t + minute"
  shows "int (length (filter (\<lambda>g. t \<le> g \<and> g \<le> t + minute) (gs @ [now]))) \<le> m"
proof -
  have "filter (\<lambda>g. now - minute \<le> g) gs = keep_since (now - minute) st"
    using old [of "now - minute"] mono by (simp add: keep_since_def not_less)
  moreover have "length (filter (\<lambda>g. t \<le> g \<and> g \<le> t + minute) gs) \<le> length (filter (\<lambda>g. now - minute \<le> g) gs)"
    using win by (induction gs) auto
  ultimately show ?thesis using small by (auto split: if_splits)
qed

lemma rate_inv_grant:
  assumes inv: "rate_inv s" and mono: "rt_now s \<le> now"
    and a: "Acquire key now (Some (rt_limiter s)) = (Inr (Permit k), Some l)"
  shows "rate_inv (s\<lparr> rt_limiter := l, rt_out := k # rt_out s,
                     rt_granted := rt_granted s @ [(k, now)], rt_now := now \<rparr>)" (is "rate_inv ?t")
proof -
  let ?l = "rt_limiter s"
  note eff = Acquire_granted [OF a]
  have gr: "grants_of ?t j = (if j = key then grants_of s j @ [now] else grants_of s j)" for j
    by (simp add: eff(1) grants_of_grant)
  have out: "out_of ?t j = (if j = key then out_of s j + 1 else out_of s j)" for j
    by (simp add: out_of_def eff(1))
  have infl: "rs_inflight (rate_entry ?l j) = int (out_of s j)" for j
    using inv by (simp add: rate_inv_def)
  have old: "filter (\<lambda>g. t \<le> g) (rs_started (rate_entry ?l j)) = filter (\<lambda>g. t \<le> g) (grants_of s j)"
    if "0 < maxPerMinute ?l" "rt_now s - minute \<le> t" for j t
    using inv that by (simp add: rate_inv_def)
  show ?thesis unfolding rate_inv_def
  proof (intro conjI impI allI ballI)
    fix j show "rs_inflight (rate_entry (rt_limiter ?t) j) = int (out_of ?t j)"
      using infl by (simp add: eff(6) out)
  next
    fix j assume "0 < maxConcurrent (rt_limiter ?t)"
    then show "int (out_of ?t j) \<le> maxConcurrent (rt_limiter ?t)"
      using inv eff(3,4) infl [of key] by (auto simp: out rate_inv_def)
  next
    fix j g assume "g \<in> set (grants_of ?t j)"
    then show "g \<le> rt_now ?t" using inv mono by (fastforce simp: gr rate_inv_def split: if_splits)
  next
    fix j t assume m: "0 < maxPerMinute (rt_limiter ?t)" and t: "rt_now ?t - minute \<le> t"
    then show "filter (\<lambda>g. t \<le> g) (rs_started (rate_entry (rt_limiter ?t) j)) = filter (\<lambda>g. t \<le> g) (grants_of ?t j)"
      using old [of t j] old [of t key] mono by (auto simp: eff(2,6) gr keep_since_filter)
  next
    fix j t assume m: "0 < maxPerMinute (rt_limiter ?t)"
    have w: "int (in_window s j t) \<le> maxPerMinute ?l" using inv m eff(2) by (simp add: rate_inv_def)
    show "int (in_window ?t j t) \<le> maxPerMinute (rt_limiter ?t)"
    proof (cases "j = key \<and> now \<le> t + minute")
      case True
      have pos: "0 < maxPerMinute ?l" using m eff(2) by simp
      show ?thesis
        using window_after_grant [OF old [OF pos, of _ key] eff(5) [OF pos] mono, of t] True
        by (simp add: in_window_def gr eff(2))
    next
      case False
      with w show ?thesis by (auto simp: in_window_def gr eff(2))
    qed
  qed
qed

text \<open>Steps that only prune and count down keep the invariant.\<close>

lemma rate_inv_prune:
  assumes inv: "rate_inv s" and mono: "rt_now s \<le> now"
    and same: "maxPerMinute l = maxPerMinute (rt_limiter s)" "maxConcurrent l = maxConcurrent (rt_limiter s)"
    and le: "\<And>j. out_of (s\<lparr>rt_out := ks\<rparr>) j \<le> out_of s j"
    and infl: "\<And>j. rs_inflight (rate_entry l j) = int (out_of (s\<lparr>rt_out := ks\<rparr>) j)"
    and st: "\<And>j. 0 < maxPerMinute l \<Longrightarrow> rs_started (rate_entry l j) = rs_started (rate_entry (rt_limiter s) j)
      \<or> rs_started (rate_entry l j) = keep_since (now - minute) (rs_started (rate_entry (rt_limiter s) j))"
  shows "rate_inv (s\<lparr> rt_limiter := l, rt_out := ks, rt_now := now \<rparr>)" (is "rate_inv ?t")
proof -
  have gr: "grants_of ?t j = grants_of s j" for j by (simp add: grants_of_def)
  have out: "out_of ?t j = out_of (s\<lparr>rt_out := ks\<rparr>) j" for j by (simp add: out_of_def)
  show ?thesis unfolding rate_inv_def
  proof (intro conjI impI allI ballI)
    fix j show "rs_inflight (rate_entry (rt_limiter ?t) j) = int (out_of ?t j)" by (simp add: infl out)
  next
    fix j assume "0 < maxConcurrent (rt_limiter ?t)"
    then have "int (out_of s j) \<le> maxConcurrent (rt_limiter s)" using inv same by (simp add: rate_inv_def)
    then show "int (out_of ?t j) \<le> maxConcurrent (rt_limiter ?t)"
      using le [of j] same by (simp add: out)
  next
    fix j g assume "g \<in> set (grants_of ?t j)"
    then show "g \<le> rt_now ?t" using inv mono by (fastforce simp: gr rate_inv_def)
  next
    fix j t assume m: "0 < maxPerMinute (rt_limiter ?t)" and t: "rt_now ?t - minute \<le> t"
    have "filter (\<lambda>g. t \<le> g) (rs_started (rate_entry (rt_limiter s) j)) = filter (\<lambda>g. t \<le> g) (grants_of s j)"
      using inv m t mono same by (simp add: rate_inv_def)
    then show "filter (\<lambda>g. t \<le> g) (rs_started (rate_entry (rt_limiter ?t) j)) = filter (\<lambda>g. t \<le> g) (grants_of ?t j)"
      using st [of j] m t by (auto simp: gr keep_since_filter)
  next
    fix j t assume "0 < maxPerMinute (rt_limiter ?t)"
    then show "int (in_window ?t j t) \<le> maxPerMinute (rt_limiter ?t)"
      using inv same by (simp add: rate_inv_def in_window_def gr)
  qed
qed

lemma out_of_remove1: "key \<in> set (rt_out s) \<Longrightarrow>
  out_of (s\<lparr>rt_out := remove1 key (rt_out s)\<rparr>) j = (if j = key then out_of s j - 1 else out_of s j)"
  by (simp add: out_of_def filter_remove1 length_remove1)

lemma out_of_pos: "key \<in> set (rt_out s) \<Longrightarrow> 0 < out_of s key"
  by (auto simp: out_of_def filter_empty_conv)

lemma rate_inv_step:
  assumes "rate_step s t" and inv: "rate_inv s"
  shows "rate_inv t"
  using assms(1)
proof cases
  case (rate_grant now key l)
  then show ?thesis using rate_inv_grant [OF inv rate_grant(2,3)] by simp
next
  case (rate_refuse now key e l)
  note eff = Acquire_refused [OF rate_refuse(3)]
  have "rate_inv (s\<lparr> rt_limiter := l, rt_out := rt_out s, rt_now := now \<rparr>)"
  proof (rule rate_inv_prune [OF inv rate_refuse(2) eff(1,2)])
    show "rs_inflight (rate_entry l j) = int (out_of (s\<lparr>rt_out := rt_out s\<rparr>) j)" for j
      using inv by (simp add: eff(3) rate_inv_def)
  qed (simp_all add: eff(3))
  then show ?thesis using rate_refuse(1) by simp
next
  case (rate_release now key l)
  have "0 < rs_inflight (rate_entry (rt_limiter s) key)"
    using inv out_of_pos [OF rate_release(3)] by (simp add: rate_inv_def)
  note eff = Release_effect [OF rate_release(4) this]
  have "rate_inv (s\<lparr> rt_limiter := l, rt_out := remove1 key (rt_out s), rt_now := now \<rparr>)"
  proof (rule rate_inv_prune [OF inv rate_release(2) eff(1,2)])
    show "rs_inflight (rate_entry l j) = int (out_of (s\<lparr>rt_out := remove1 key (rt_out s)\<rparr>) j)" for j
      using inv out_of_pos [OF rate_release(3)] by (simp add: eff(3) rate_inv_def out_of_remove1 [OF rate_release(3)] of_nat_diff)
  qed (simp_all add: eff out_of_remove1 [OF rate_release(3)])
  then show ?thesis using rate_release(1) by simp
qed

lemma rate_inv_init:
  assumes "newCompatRateLimiter m c = Some l"
  shows "rate_inv \<lparr> rt_limiter = l, rt_out = [], rt_granted = [], rt_now = t \<rparr>"
  using assms
  by (auto simp: rate_inv_def newCompatRateLimiter_def Let_def rate_entry_def out_of_def grants_of_def
      in_window_def split: if_splits)

lemma rate_inv_reach: "rate_reach m c s \<Longrightarrow> rate_inv s"
  by (induction rule: rate_reach.induct) (auto intro: rate_inv_init rate_inv_step)

lemma limits_step: "rate_step s t \<Longrightarrow> maxPerMinute (rt_limiter t) = maxPerMinute (rt_limiter s)
    \<and> maxConcurrent (rt_limiter t) = maxConcurrent (rt_limiter s)"
proof (induction rule: rate_step.induct)
  case (rate_release s now key l)
  then show ?case by (auto simp: Release_def Let_def split: option.splits if_splits)
qed (simp_all add: Acquire_granted Acquire_refused)

lemma limits_reach: "rate_reach m c s \<Longrightarrow> maxPerMinute (rt_limiter s) = max 0 m
    \<and> maxConcurrent (rt_limiter s) = max 0 c"
proof (induction rule: rate_reach.induct)
  case (rate_init l t)
  then show ?case by (auto simp: newCompatRateLimiter_def Let_def split: if_splits)
next
  case (rate_next s t)
  then show ?case using limits_step by simp
qed


definition sample_limiter :: rate_limiter where
  "sample_limiter = \<lparr> maxPerMinute = 1, maxConcurrent = 2, rl_state = Map.empty \<rparr>"


end
