(* ===== verification/Codex.thy ===== *)
theory Codex
  imports DriverApi
begin

text \<open>
  The Codex driver (src/internal/driver/codex.go, codex_support.go, codex_admin.go,
  codex_descriptor.go, codex_models.go).  The quota state is kept per family of models; the functions
  read it from, and write it to, its JSON document.  \<open>time.Now\<close> is an argument, read once per call.
  The driver's only mutable field, the last model that worked, is threaded through \<open>codex_Interpret\<close>.
\<close>

section \<open>Models and prices\<close>

record codex_model_entry =
  ce_public_id :: string
  ce_context_window :: int
  ce_advertise :: bool
  ce_family :: string
  ce_pricing :: model_pricing

definition pricing :: "rat \<Rightarrow> rat \<Rightarrow> rat \<Rightarrow> rat \<Rightarrow> model_pricing" where
  "pricing i out r c =
     \<lparr> mp_input = fl i, mp_output = fl out, mp_cache_read = fl r, mp_cache_create = fl c \<rparr>"

definition codexGPT6AstraPricing :: model_pricing where "codexGPT6AstraPricing = pricing 20 100 2 25"
definition codexGPT56SolPricing :: model_pricing where "codexGPT56SolPricing = pricing 10 60 1 (25/2)"
definition codexGPT56TerraPricing :: model_pricing where "codexGPT56TerraPricing = pricing 5 30 (1/2) (25/4)"
definition codexGPT56LunaPricing :: model_pricing where "codexGPT56LunaPricing = pricing 2 12 (1/5) (5/2)"
definition codexGPT55Pricing :: model_pricing where "codexGPT55Pricing = pricing (25/2) 75 (5/4) (25/2)"
definition codexGPT54Pricing :: model_pricing where "codexGPT54Pricing = pricing 5 30 (1/2) 5"
definition codexGPT54MiniPricing :: model_pricing where "codexGPT54MiniPricing = pricing (3/2) 9 (3/20) (3/2)"
definition codexDefaultPricing :: model_pricing where "codexDefaultPricing = pricing 2 8 (1/2) 2"

definition codex_entry :: "string \<Rightarrow> int \<Rightarrow> bool \<Rightarrow> string \<Rightarrow> model_pricing \<Rightarrow> codex_model_entry" where
  "codex_entry i w adv fam pr =
     \<lparr> ce_public_id = i, ce_context_window = w, ce_advertise = adv, ce_family = fam, ce_pricing = pr \<rparr>"

definition codexModelEntries :: "codex_model_entry list" where
  "codexModelEntries =
     [codex_entry ''gpt-5.6-sol'' 1050000 True [] codexGPT56SolPricing,
      codex_entry ''gpt-5.6-terra'' 1050000 True [] codexGPT56TerraPricing,
      codex_entry ''gpt-5.6-luna'' 400000 True [] codexGPT56LunaPricing,
      codex_entry ''gpt-6-astra'' 1050000 True [] codexGPT6AstraPricing,
      codex_entry ''gpt-5.6'' 1050000 False [] codexGPT56SolPricing,
      codex_entry ''gpt-5.5'' 400000 True [] codexGPT55Pricing,
      codex_entry ''gpt-5.4'' 1050000 True [] codexGPT54Pricing,
      codex_entry ''gpt-5.4-mini'' 1050000 True [] codexGPT54MiniPricing,
      codex_entry ''gpt-5.3-codex'' 400000 True [] codexDefaultPricing,
      codex_entry ''gpt-5.3-codex-spark'' 128000 True ''bengalfox'' codexDefaultPricing,
      codex_entry ''gpt-5.2-codex'' 400000 True [] codexDefaultPricing,
      codex_entry ''gpt-5.2'' 400000 True [] codexDefaultPricing,
      codex_entry ''gpt-5.1-codex-max'' 400000 True [] codexDefaultPricing,
      codex_entry ''gpt-5.1-codex'' 400000 True [] codexDefaultPricing,
      codex_entry ''gpt-5.1-codex-mini'' 400000 True [] codexDefaultPricing,
      codex_entry ''gpt-5.1'' 400000 True [] codexDefaultPricing,
      codex_entry ''gpt-5-codex'' 192000 True [] codexDefaultPricing,
      codex_entry ''gpt-5-codex-mini'' 192000 True [] codexDefaultPricing,
      codex_entry ''gpt-5'' 192000 True [] codexDefaultPricing,
      codex_entry ''codex-1'' 192000 True [] codexDefaultPricing]"

definition codexSupportedModels :: "model_info list" where
  "codexSupportedModels =
     map (\<lambda>e. \<lparr> mi_id = ce_public_id e, mi_object = ''model'', mi_created = 1709164800,
                mi_owned_by = ''openai'', mi_context_window = ce_context_window e \<rparr>)
       (filter ce_advertise codexModelEntries)"

definition codexModelEntryForID :: "string \<Rightarrow> codex_model_entry option" where
  "codexModelEntryForID model =
     List.find (\<lambda>e. to_lower (trim_space model) = ce_public_id e) codexModelEntries"

definition legacyCodexPassthroughPricing :: "string \<Rightarrow> model_pricing" where
  "legacyCodexPassthroughPricing model =
     (let lower = to_lower model in
      if contains lower ''o3'' then pricing 2 8 (1/2) 2
      else if contains lower ''o4-mini'' then pricing (11/10) (22/5) (11/40) (11/10)
      else if contains lower ''codex-mini'' then pricing (3/2) 6 (3/8) (3/2)
      else if contains lower ''4.1-nano'' then pricing (1/10) (2/5) (1/40) (1/10)
      else if contains lower ''4.1-mini'' then pricing (2/5) (8/5) (1/10) (2/5)
      else if contains lower ''4.1'' then pricing 2 8 (1/2) 2
      else codexDefaultPricing)"

definition codexPricingForModel :: "string \<Rightarrow> model_pricing" where
  "codexPricingForModel model =
     (case codexModelEntryForID model of Some e \<Rightarrow> ce_pricing e | None \<Rightarrow> legacyCodexPassthroughPricing model)"

definition codex_cost :: "model_pricing \<Rightarrow> token_usage option \<Rightarrow> rat" where
  "codex_cost p ou =
     (case ou of
        None \<Rightarrow> 0
      | Some u \<Rightarrow>
          (let uncached = InputTokens u - CacheReadTokens u - CacheCreateTokens u;
               uncachedInput = (if uncached < 0 then 0 else uncached)
           in weighted_cost p uncachedInput (OutputTokens u) (CacheReadTokens u) (CacheCreateTokens u)))"

definition codex_CalcCost :: "string \<Rightarrow> token_usage option \<Rightarrow> rat" where
  "codex_CalcCost model usage = codex_cost (codexPricingForModel model) usage"

section \<open>The quota state\<close>

record codex_family_limits =
  cf_primary_util :: rat
  cf_primary_reset :: int
  cf_secondary_util :: rat
  cf_secondary_reset :: int
  cf_limit_name :: string

record codex_state =
  cs_families :: "(string \<times> codex_family_limits) list"
  cs_primary_util :: rat
  cs_primary_reset :: int
  cs_secondary_util :: rat
  cs_secondary_reset :: int

definition no_limits :: codex_family_limits where
  "no_limits = \<lparr> cf_primary_util = 0, cf_primary_reset = 0, cf_secondary_util = 0, cf_secondary_reset = 0,
                 cf_limit_name = [] \<rparr>"

definition empty_codex_state :: codex_state where
  "empty_codex_state = \<lparr> cs_families = [], cs_primary_util = 0, cs_primary_reset = 0,
                         cs_secondary_util = 0, cs_secondary_reset = 0 \<rparr>"

text \<open>The JSON form: field tables for decoding, members for encoding.\<close>

definition family_fields :: "(string \<times> codex_family_limits field) list" where
  "family_fields =
     [(''pu'', float_field (\<lambda>x f. f\<lparr>cf_primary_util := x\<rparr>)),
      (''pr'', int_field (\<lambda>x f. f\<lparr>cf_primary_reset := x\<rparr>)),
      (''su'', float_field (\<lambda>x f. f\<lparr>cf_secondary_util := x\<rparr>)),
      (''sr'', int_field (\<lambda>x f. f\<lparr>cf_secondary_reset := x\<rparr>)),
      (''name'', string_field (\<lambda>x f. f\<lparr>cf_limit_name := x\<rparr>))]"

definition family_step :: "codex_state decoding \<Rightarrow> string \<times> json \<Rightarrow> codex_state decoding" where
  "family_step sb kw =
     (case decode_struct family_fields (snd kw) (no_limits, snd sb) of
        (f, ok) \<Rightarrow> ((fst sb)\<lparr>cs_families := AList.update (fst kw) f (cs_families (fst sb))\<rparr>, ok))"

definition families_field :: "codex_state field" where
  "families_field v sb =
     (case v of
        JNull \<Rightarrow> ((fst sb)\<lparr>cs_families := []\<rparr>, snd sb)
      | JObj kvs \<Rightarrow> foldl family_step sb kvs
      | _ \<Rightarrow> fail sb)"

definition codex_fields :: "(string \<times> codex_state field) list" where
  "codex_fields =
     [(''families'', families_field),
      (''primary_util'', float_field (\<lambda>x s. s\<lparr>cs_primary_util := x\<rparr>)),
      (''primary_reset'', int_field (\<lambda>x s. s\<lparr>cs_primary_reset := x\<rparr>)),
      (''secondary_util'', float_field (\<lambda>x s. s\<lparr>cs_secondary_util := x\<rparr>)),
      (''secondary_reset'', int_field (\<lambda>x s. s\<lparr>cs_secondary_reset := x\<rparr>))]"

definition family_members :: "codex_family_limits \<Rightarrow> (string \<times> json) list" where
  "family_members f =
     [(''pu'', JNum (print_float (cf_primary_util f))), (''pr'', JNum (itoa (cf_primary_reset f))),
      (''su'', JNum (print_float (cf_secondary_util f))), (''sr'', JNum (itoa (cf_secondary_reset f)))]
     @ omit_empty ''name'' (cf_limit_name f)"

definition codex_members :: "codex_state \<Rightarrow> (string \<times> json) list" where
  "codex_members s =
     (if cs_families s = [] then []
      else [(''families'', JObj (map (\<lambda>(k, f). (k, JObj (family_members f))) (sort_key fst (cs_families s))))])
     @ omit_float ''primary_util'' (cs_primary_util s) @ omit_int ''primary_reset'' (cs_primary_reset s)
     @ omit_float ''secondary_util'' (cs_secondary_util s) @ omit_int ''secondary_reset'' (cs_secondary_reset s)"

definition encode_codex :: "codex_state \<Rightarrow> string" where
  "encode_codex s = json_print (JObj (codex_members s))"

text \<open>What \<open>json.Unmarshal\<close> leaves in a zero state, and the state when it reports no error.\<close>

definition decode_codex :: "string \<Rightarrow> codex_state" where
  "decode_codex text = fst (unmarshal codex_fields text empty_codex_state)"

definition codex_state_of :: "string \<Rightarrow> codex_state option" where
  "codex_state_of text = unmarshal_ok codex_fields text empty_codex_state"

definition legacy_limits :: "codex_state \<Rightarrow> codex_family_limits" where
  "legacy_limits s =
     \<lparr> cf_primary_util = cs_primary_util s, cf_primary_reset = cs_primary_reset s,
       cf_secondary_util = cs_secondary_util s, cf_secondary_reset = cs_secondary_reset s, cf_limit_name = [] \<rparr>"

definition has_legacy :: "codex_state \<Rightarrow> bool" where
  "has_legacy s \<longleftrightarrow> 0 < cs_primary_util s \<or> 0 < cs_primary_reset s
     \<or> 0 < cs_secondary_util s \<or> 0 < cs_secondary_reset s"

definition codex_family :: "codex_state \<Rightarrow> string \<Rightarrow> codex_family_limits" where
  "codex_family s prefix =
     (case map_of (cs_families s) prefix of
        Some f \<Rightarrow> f
      | None \<Rightarrow> (if prefix = [] \<and> has_legacy s then legacy_limits s else no_limits))"

definition allFamilies :: "codex_state \<Rightarrow> string list" where
  "allFamilies s =
     (if cs_families s \<noteq> [] then sort (map fst (cs_families s))
      else if has_legacy s then [[]] else [])"

definition codexModelFamily :: "string \<Rightarrow> string" where
  "codexModelFamily model =
     (case codexModelEntryForID model of
        Some e \<Rightarrow> ce_family e
      | None \<Rightarrow> (if contains (to_lower model) ''spark'' then ''bengalfox'' else []))"

definition codexFamilyDisplayName :: "string \<Rightarrow> codex_family_limits \<Rightarrow> string" where
  "codexFamilyDisplayName prefix f =
     (if cf_limit_name f \<noteq> [] then cf_limit_name f else if prefix = [] then [] else prefix)"

section \<open>Capturing the rate-limit headers\<close>

definition family_of_header :: "string \<Rightarrow> string option" where
  "family_of_header key =
     (let lower = to_lower key in
      if \<not> has_prefix lower ''x-codex-'' then None
      else (let rest = drop 8 lower in
            if rest = ''primary-used-percent'' \<or> rest = ''secondary-used-percent'' then Some []
            else (case str_index rest ''-primary-used-percent'' of
                    Some (Suc i) \<Rightarrow> Some (take (Suc i) rest)
                  | _ \<Rightarrow> (case str_index rest ''-secondary-used-percent'' of
                            Some (Suc i) \<Rightarrow> Some (take (Suc i) rest)
                          | _ \<Rightarrow> None))))"

definition discoverCodexFamilyPrefixes :: "header \<Rightarrow> string list" where
  "discoverCodexFamilyPrefixes h = sort (remdups (List.map_filter (\<lambda>kv. family_of_header (fst kv)) h))"

definition percent_header :: "string \<Rightarrow> rat" where
  "percent_header v =
     (if v = [] then 0 else (case parse_float v of Some pct \<Rightarrow> fl (pct / 100) | None \<Rightarrow> 0))"

definition reset_header :: "int \<Rightarrow> string \<Rightarrow> int" where
  "reset_header nowUnix v =
     (if v = [] then 0 else (case parse_int v of Some secs \<Rightarrow> wrap64 (nowUnix + secs) | None \<Rightarrow> 0))"

definition parseCodexFamilyHeaders :: "header \<Rightarrow> string \<Rightarrow> int \<Rightarrow> codex_family_limits" where
  "parseCodexFamilyHeaders h prefix nowUnix =
     (let hp = (if prefix \<noteq> [] then ''x-codex-'' @ prefix @ ''-'' else ''x-codex-'') in
      \<lparr> cf_primary_util = percent_header (h_get h (hp @ ''primary-used-percent'')),
        cf_primary_reset = reset_header nowUnix (h_get h (hp @ ''primary-reset-after-seconds'')),
        cf_secondary_util = percent_header (h_get h (hp @ ''secondary-used-percent'')),
        cf_secondary_reset = reset_header nowUnix (h_get h (hp @ ''secondary-reset-after-seconds'')),
        cf_limit_name = [] \<rparr>)"

definition migrate_legacy :: "codex_state \<Rightarrow> codex_state" where
  "migrate_legacy s =
     (if has_legacy s then
        \<lparr> cs_families = (if map_of (cs_families s) [] = None
                         then AList.update [] (legacy_limits s) (cs_families s) else cs_families s),
          cs_primary_util = 0, cs_primary_reset = 0, cs_secondary_util = 0, cs_secondary_reset = 0 \<rparr>
      else s)"

definition captured_family :: "header \<Rightarrow> int \<Rightarrow> string \<Rightarrow> codex_family_limits" where
  "captured_family h nowUnix prefix =
     (let f = parseCodexFamilyHeaders h prefix nowUnix;
          name = h_get h (''x-codex-'' @ prefix @ ''-limit-name'')
      in if prefix \<noteq> [] \<and> name \<noteq> [] then f\<lparr>cf_limit_name := name\<rparr> else f)"

definition captureHeaders :: "gotime \<Rightarrow> header option \<Rightarrow> string \<Rightarrow> string" where
  "captureHeaders now oh prevState =
     (case oh of
        None \<Rightarrow> prevState
      | Some h \<Rightarrow>
          (let s0 = (if prevState \<noteq> [] then decode_codex prevState else empty_codex_state);
               s1 = migrate_legacy s0;
               s2 = foldl (\<lambda>s prefix. s\<lparr>cs_families :=
                       AList.update prefix (captured_family h (unix_sec now) prefix) (cs_families s)\<rparr>)
                      s1 (discoverCodexFamilyPrefixes h)
           in encode_codex s2))"

section \<open>Scheduling\<close>

definition near_full :: rat where "near_full = fl (99 / 100)"

definition remaining_pct :: "rat \<Rightarrow> rat" where
  "remaining_pct util = (if 0 < util then fl (fl (1 - util) * 100) else 100)"

definition worst_remaining :: "codex_family_limits \<Rightarrow> rat" where
  "worst_remaining f =
     (let primaryRemain = remaining_pct (cf_primary_util f); secondaryRemain = remaining_pct (cf_secondary_util f)
      in if secondaryRemain < primaryRemain then secondaryRemain else primaryRemain)"

definition codex_AutoPriority :: "string \<Rightarrow> int" where
  "codex_AutoPriority text =
     (case codex_state_of text of
        None \<Rightarrow> 50
      | Some s \<Rightarrow>
          (let best = foldl (\<lambda>best prefix. let w = go_trunc (worst_remaining (codex_family s prefix))
                               in if best < w then w else best) 0 (allFamilies s)
           in if best = 0 \<and> allFamilies s = [] then 50 else best))"

definition codexFamilyPriority :: "string \<Rightarrow> string \<Rightarrow> int" where
  "codexFamilyPriority text family =
     (case codex_state_of text of
        None \<Rightarrow> 50
      | Some s \<Rightarrow> go_trunc (worst_remaining (codex_family s family)))"

definition family_stale :: "codex_family_limits \<Rightarrow> int \<Rightarrow> bool" where
  "family_stale f nowUnix \<longleftrightarrow>
     (0 < cf_primary_reset f \<and> cf_primary_reset f < nowUnix)
   \<or> (0 < cf_secondary_reset f \<and> cf_secondary_reset f < nowUnix)
   \<or> (0 < cf_primary_util f \<and> cf_primary_reset f = 0)
   \<or> (0 < cf_secondary_util f \<and> cf_secondary_reset f = 0)"

definition codex_IsStale :: "string \<Rightarrow> gotime \<Rightarrow> bool" where
  "codex_IsStale text now =
     (case codex_state_of text of
        None \<Rightarrow> False
      | Some s \<Rightarrow> list_ex (\<lambda>prefix. family_stale (codex_family s prefix) (unix_sec now)) (allFamilies s))"

definition computeFamilyCooldown :: "codex_family_limits \<Rightarrow> int \<Rightarrow> int" where
  "computeFamilyCooldown f nowUnix =
     (let cd = (if near_full \<le> cf_primary_util f \<and> nowUnix < cf_primary_reset f
                then cf_primary_reset f else 0)
      in if near_full \<le> cf_secondary_util f \<and> nowUnix < cf_secondary_reset f \<and> cd < cf_secondary_reset f
         then cf_secondary_reset f else cd)"

text \<open>The loop over the families: \<open>None\<close> is the early return for a family with capacity.\<close>

fun earliest_cooldown :: "int \<Rightarrow> int list \<Rightarrow> int option" where
  "earliest_cooldown earliest [] = Some earliest"
| "earliest_cooldown earliest (cd # cds) =
     (if cd = 0 then None
      else earliest_cooldown (if earliest = 0 \<or> cd < earliest then cd else earliest) cds)"

definition codex_ComputeExhaustedCooldown :: "string \<Rightarrow> gotime \<Rightarrow> gotime" where
  "codex_ComputeExhaustedCooldown text now =
     (case codex_state_of text of
        None \<Rightarrow> zero_time
      | Some s \<Rightarrow>
          (if allFamilies s = [] then zero_time
           else (case earliest_cooldown 0
                        (map (\<lambda>prefix. computeFamilyCooldown (codex_family s prefix) (unix_sec now)) (allFamilies s)) of
                   None \<Rightarrow> zero_time
                 | Some earliest \<Rightarrow> (if 0 < earliest then from_unix earliest else zero_time))))"

definition family_full :: "codex_family_limits \<Rightarrow> int \<Rightarrow> bool" where
  "family_full f nowUnix \<longleftrightarrow>
     (near_full \<le> cf_primary_util f \<and> nowUnix < cf_primary_reset f)
   \<or> (near_full \<le> cf_secondary_util f \<and> nowUnix < cf_secondary_reset f)"

definition codex_CanServe :: "string \<Rightarrow> string \<Rightarrow> gotime \<Rightarrow> bool" where
  "codex_CanServe text model now =
     (case codex_state_of text of
        None \<Rightarrow> True
      | Some s \<Rightarrow> \<not> family_full (codex_family s (codexModelFamily model)) (unix_sec now))"

definition codex_AssessCapacity :: "string \<Rightarrow> string \<Rightarrow> gotime \<Rightarrow> capacity_assessment" where
  "codex_AssessCapacity text model now =
     (let family = codexModelFamily model in
      \<lparr> cap_eligible = codex_CanServe text model now,
        cap_priority = codexFamilyPriority text family,
        cap_class = family \<rparr>)"

definition util_pct :: "rat \<Rightarrow> int" where
  "util_pct u = go_trunc (fl (u * 100))"

definition single_window :: "string \<Rightarrow> rat \<Rightarrow> int \<Rightarrow> util_window list" where
  "single_window label util reset =
     (if 0 < util \<or> 0 < reset then
        [\<lparr> uw_label = label, uw_pct = util_pct util, uw_reset = reset,
           uw_sub_label = [], uw_sub_pct = - 1, uw_sub_reset = 0 \<rparr>]
      else [])"

definition double_window :: "string \<Rightarrow> string \<Rightarrow> rat \<Rightarrow> int \<Rightarrow> rat \<Rightarrow> int \<Rightarrow> util_window list" where
  "double_window label subName util reset sutil sreset =
     (if 0 < util \<or> 0 < reset \<or> 0 < sutil \<or> 0 < sreset then
        [\<lparr> uw_label = label, uw_pct = util_pct util, uw_reset = reset,
           uw_sub_label = subName, uw_sub_pct = util_pct sutil, uw_sub_reset = sreset \<rparr>]
      else [])"

definition codex_GetUtilization :: "string \<Rightarrow> util_window list" where
  "codex_GetUtilization text =
     (case codex_state_of text of
        None \<Rightarrow> []
      | Some s \<Rightarrow>
          (case allFamilies s of
             [] \<Rightarrow> []
           | [p] \<Rightarrow>
               (let f = codex_family s p in
                single_window ''primary'' (cf_primary_util f) (cf_primary_reset f)
                @ single_window ''secondary'' (cf_secondary_util f) (cf_secondary_reset f))
           | ps \<Rightarrow>
               (let std = codex_family s [];
                    subPrefix = (case List.find (\<lambda>p. p \<noteq> []) ps of Some p \<Rightarrow> p | None \<Rightarrow> []);
                    sub = codex_family s subPrefix;
                    name = codexFamilyDisplayName subPrefix sub;
                    subName = (if name = [] then ''spark'' else name)
                in double_window ''primary'' subName (cf_primary_util std) (cf_primary_reset std)
                     (cf_primary_util sub) (cf_primary_reset sub)
                   @ double_window ''secondary'' subName (cf_secondary_util std) (cf_secondary_reset std)
                     (cf_secondary_util sub) (cf_secondary_reset sub))))"

definition codex_BucketKey :: "account option \<Rightarrow> string" where
  "codex_BucketKey oa =
     (case oa of
        None \<Rightarrow> []
      | Some a \<Rightarrow> (if ac_subject a \<noteq> [] then ProviderCodex @ '':'' @ ac_subject a
                  else ProviderCodex @ '':'' @ ac_id a))"

definition codex_scheduler :: scheduler_driver where
  "codex_scheduler =
     \<lparr> sd_provider = ProviderCodex, sd_bucket_key = (\<lambda>a. codex_BucketKey (Some a)),
       sd_assess = codex_AssessCapacity, sd_is_stale = codex_IsStale,
       sd_exhausted_cooldown = codex_ComputeExhaustedCooldown \<rparr>"

section \<open>The contract of a scheduler\<close>

lemma family_cooldown_positive:
  "0 < computeFamilyCooldown f n \<Longrightarrow> n < computeFamilyCooldown f n \<and> family_full f n"
  by (auto simp: computeFamilyCooldown_def family_full_def Let_def split: if_splits)

lemma family_cooldown_stable:
  "0 < computeFamilyCooldown f n \<Longrightarrow> n \<le> m \<Longrightarrow> m < computeFamilyCooldown f n \<Longrightarrow>
   computeFamilyCooldown f m = computeFamilyCooldown f n"
  by (auto simp: computeFamilyCooldown_def Let_def split: if_splits)

lemma earliest_cooldown_Some:
  assumes "earliest_cooldown e cds = Some x" and "e = 0 \<or> 0 < e"
    and "0 < x"
  shows "(\<forall>cd \<in> set cds. x \<le> cd) \<and> (e \<noteq> 0 \<longrightarrow> x \<le> e) \<and> (x = e \<or> x \<in> set cds)"
  using assms
proof (induction cds arbitrary: e)
  case (Cons cd cds)
  let ?e = "if e = 0 \<or> cd < e then cd else e"
  have nz: "cd \<noteq> 0" and rest: "earliest_cooldown ?e cds = Some x"
    using Cons.prems(1) by (auto split: if_splits)
  have "0 < ?e"
  proof (rule ccontr)
    assume "\<not> 0 < ?e"
    then have neg: "?e < 0" using nz Cons.prems(2) by auto
    have "earliest_cooldown e' cds' = Some y \<Longrightarrow> e' < 0 \<Longrightarrow> y < 0" for e' cds' y
      by (induction cds' arbitrary: e') (auto split: if_splits)
    with rest neg Cons.prems(3) show False by fastforce
  qed
  with Cons.IH [OF rest _ Cons.prems(3)] show ?case by (auto split: if_splits)
qed simp

text \<open>A positive answer is the least cooldown of all families, each of which is exhausted.\<close>

lemma codex_exhausted_cases:
  assumes "codex_ComputeExhaustedCooldown text now \<noteq> zero_time"
  obtains s x where "codex_state_of text = Some s" "codex_ComputeExhaustedCooldown text now = from_unix x"
    "0 < x" "allFamilies s \<noteq> []"
    "\<forall>p \<in> set (allFamilies s). x \<le> computeFamilyCooldown (codex_family s p) (unix_sec now)"
    "\<exists>p \<in> set (allFamilies s). x = computeFamilyCooldown (codex_family s p) (unix_sec now)"
proof -
  from assms obtain s x where s: "codex_state_of text = Some s" "allFamilies s \<noteq> []"
    and e: "earliest_cooldown 0 (map (\<lambda>p. computeFamilyCooldown (codex_family s p) (unix_sec now)) (allFamilies s)) = Some x"
    and x: "0 < x" and r: "codex_ComputeExhaustedCooldown text now = from_unix x"
    by (auto simp: codex_ComputeExhaustedCooldown_def split: option.splits if_splits)
  from earliest_cooldown_Some [OF e _ x] x s r show ?thesis by (intro that [of s x]) auto
qed

lemma codex_exhausted_from:
  assumes "codex_state_of text = Some s" "allFamilies s \<noteq> []" "0 < x"
    and all: "\<forall>p \<in> set (allFamilies s). x \<le> computeFamilyCooldown (codex_family s p) (unix_sec now)"
    and ex: "\<exists>p \<in> set (allFamilies s). x = computeFamilyCooldown (codex_family s p) (unix_sec now)"
  shows "codex_ComputeExhaustedCooldown text now = from_unix x"
proof -
  have "earliest_cooldown e cds = Some y"
    if "\<forall>cd \<in> set cds. y \<le> cd" "0 < y" "e = 0 \<or> y \<le> e" "y = e \<or> y \<in> set cds" for e cds and y :: int
    using that
  proof (induction cds arbitrary: e)
    case (Cons cd cds)
    then show ?case by (auto intro: Cons.IH split: if_splits)
  qed simp
  from this [of "map (\<lambda>p. computeFamilyCooldown (codex_family s p) (unix_sec now)) (allFamilies s)" x 0]
  show ?thesis using assms by (auto simp: codex_ComputeExhaustedCooldown_def)
qed

lemma codex_key_prefix: "has_prefix (codex_BucketKey (Some a)) (ProviderCodex @ '':'')"
  using has_prefix_append [of "ProviderCodex @ '':''"] by (simp add: codex_BucketKey_def)

lemma codex_exhausted_later:
  "codex_ComputeExhaustedCooldown text t = zero_time \<or> unix_sec t < unix_sec (codex_ComputeExhaustedCooldown text t)"
proof (cases "codex_ComputeExhaustedCooldown text t = zero_time")
  case False
  then show ?thesis by (rule codex_exhausted_cases) (auto dest: family_cooldown_positive)
qed simp

lemma codex_exhausted_stable:
  assumes "codex_ComputeExhaustedCooldown text t \<noteq> zero_time" "t \<le> u" "u < codex_ComputeExhaustedCooldown text t"
  shows "codex_ComputeExhaustedCooldown text u = codex_ComputeExhaustedCooldown text t"
  using assms(1)
proof (rule codex_exhausted_cases)
  fix s x
  assume s: "codex_state_of text = Some s" "allFamilies s \<noteq> []" and x: "0 < x"
    and r: "codex_ComputeExhaustedCooldown text t = from_unix x"
    and all: "\<forall>p \<in> set (allFamilies s). x \<le> computeFamilyCooldown (codex_family s p) (unix_sec t)"
    and ex: "\<exists>p \<in> set (allFamilies s). x = computeFamilyCooldown (codex_family s p) (unix_sec t)"
  have u: "unix_sec t \<le> unix_sec u" "unix_sec u < x"
    using assms(2,3) r by (auto intro: unix_sec_mono before_from_unix)
  have "computeFamilyCooldown (codex_family s p) (unix_sec u) = computeFamilyCooldown (codex_family s p) (unix_sec t)"
    if "p \<in> set (allFamilies s)" for p
    using that all x u by (intro family_cooldown_stable) force+
  with codex_exhausted_from [OF s x] all ex r show ?thesis by simp
qed

interpretation codex_sched: scheduler codex_scheduler
proof (unfold_locales, goal_cases)
  case (1 a a')
  then show ?case by (simp add: codex_scheduler_def codex_BucketKey_def)
next
  case (2 a)
  then show ?case by (simp add: codex_scheduler_def codex_key_prefix)
next
  case (3 st t)
  then show ?case using codex_exhausted_later [of st t] by (simp add: codex_scheduler_def is_zero_def)
next
  case (4 st t u)
  then show ?case using codex_exhausted_stable [of st t u] by (simp add: codex_scheduler_def is_zero_def)
qed

end
