(* ===== verification/CodexState.thy ===== *)
theory CodexState
  imports Codex
begin

text \<open>
  Facts on the quota state of the Codex driver: what the decoder can produce, that a stored state reads
  back, and what the capture of rate-limit headers does to each family.
\<close>

definition wf_limits :: "codex_family_limits \<Rightarrow> bool" where
  "wf_limits f \<longleftrightarrow> double (cf_primary_util f) \<and> double (cf_secondary_util f)
     \<and> fits64 (cf_primary_reset f) \<and> fits64 (cf_secondary_reset f)"

definition wf_codex :: "codex_state \<Rightarrow> bool" where
  "wf_codex s \<longleftrightarrow> distinct (map fst (cs_families s)) \<and> (\<forall>kf \<in> set (cs_families s). wf_limits (snd kf))
     \<and> double (cs_primary_util s) \<and> double (cs_secondary_util s)
     \<and> fits64 (cs_primary_reset s) \<and> fits64 (cs_secondary_reset s)"

lemma fits64_0 [simp]: "fits64 0"
  by (simp add: fits64_def)

lemma wf_no_limits [simp]: "wf_limits no_limits"
  by (simp add: wf_limits_def no_limits_def)

lemma wf_empty_codex [simp]: "wf_codex empty_codex_state"
  by (simp add: wf_codex_def empty_codex_state_def)

lemma wf_update:
  assumes "wf_codex s" "wf_limits f"
  shows "wf_codex (s\<lparr>cs_families := AList.update k f (cs_families s)\<rparr>)"
proof -
  have "kf \<in> set (AList.update k f al) \<Longrightarrow> kf = (k, f) \<or> kf \<in> set al" for kf al
    by (induction al) (auto split: if_splits)
  then have "\<forall>kf \<in> set (AList.update k f (cs_families s)). wf_limits (snd kf)"
    using assms by (force simp: wf_codex_def)
  with assms show ?thesis by (simp add: wf_codex_def distinct_update)
qed

section \<open>What the decoder produces\<close>

lemma wf_limits_fields:
  assumes "wf_limits (fst sb)"
  shows "wf_limits (fst (float_field (\<lambda>x f. f\<lparr>cf_primary_util := x\<rparr>) v sb))"
    "wf_limits (fst (float_field (\<lambda>x f. f\<lparr>cf_secondary_util := x\<rparr>) v sb))"
    "wf_limits (fst (int_field (\<lambda>x f. f\<lparr>cf_primary_reset := x\<rparr>) v sb))"
    "wf_limits (fst (int_field (\<lambda>x f. f\<lparr>cf_secondary_reset := x\<rparr>) v sb))"
    "wf_limits (fst (string_field (\<lambda>x f. f\<lparr>cf_limit_name := x\<rparr>) v sb))"
  by (rule float_field_invariant [where P = wf_limits] int_field_invariant [where P = wf_limits]
      string_field_invariant [where P = wf_limits], rule assms, simp add: wf_limits_def)+

lemma wf_decode_limits: "wf_limits (fst sb) \<Longrightarrow> wf_limits (fst (decode_struct family_fields v sb))"
proof (rule decode_struct_invariant [where P = wf_limits])
  fix f :: "codex_family_limits field" and v and sb :: "codex_family_limits decoding"
  assume f: "f \<in> snd ` set family_fields" and wf: "wf_limits (fst sb)"
  from f have "f = float_field (\<lambda>x f. f\<lparr>cf_primary_util := x\<rparr>) \<or> f = int_field (\<lambda>x f. f\<lparr>cf_primary_reset := x\<rparr>)
      \<or> f = float_field (\<lambda>x f. f\<lparr>cf_secondary_util := x\<rparr>) \<or> f = int_field (\<lambda>x f. f\<lparr>cf_secondary_reset := x\<rparr>)
      \<or> f = string_field (\<lambda>x f. f\<lparr>cf_limit_name := x\<rparr>)"
    by (simp add: family_fields_def)
  then show "wf_limits (fst (f v sb))"
    using wf_limits_fields [OF wf] by (elim disjE) simp_all
qed

lemma wf_family_step: "wf_codex (fst sb) \<Longrightarrow> wf_codex (fst (family_step sb kw))"
proof -
  assume wf: "wf_codex (fst sb)"
  obtain f ok where f: "decode_struct family_fields (snd kw) (no_limits, snd sb) = (f, ok)" by fastforce
  with wf_decode_limits [of "(no_limits, snd sb)" "snd kw"] have "wf_limits f" by simp
  from wf_update [OF wf this] show ?thesis by (simp add: family_step_def f)
qed

lemma wf_families_field: "wf_codex (fst sb) \<Longrightarrow> wf_codex (fst (families_field v sb))"
proof (cases v)
  case (JObj kvs)
  assume "wf_codex (fst sb)"
  then have "wf_codex (fst (foldl family_step sb kvs))"
    by (rule foldl_invariant [where P = "\<lambda>sb. wf_codex (fst sb)"]) (rule wf_family_step)
  with JObj show ?thesis by (simp add: families_field_def)
qed (simp_all add: families_field_def fail_def wf_codex_def)

lemma wf_scalar_fields:
  assumes "wf_codex (fst sb)"
  shows "wf_codex (fst (float_field (\<lambda>x s. s\<lparr>cs_primary_util := x\<rparr>) v sb))"
    "wf_codex (fst (float_field (\<lambda>x s. s\<lparr>cs_secondary_util := x\<rparr>) v sb))"
    "wf_codex (fst (int_field (\<lambda>x s. s\<lparr>cs_primary_reset := x\<rparr>) v sb))"
    "wf_codex (fst (int_field (\<lambda>x s. s\<lparr>cs_secondary_reset := x\<rparr>) v sb))"
  by (rule float_field_invariant [where P = wf_codex] int_field_invariant [where P = wf_codex], rule assms,
      simp add: wf_codex_def)+

lemma wf_decode_codex: "wf_codex (decode_codex text)"
  unfolding decode_codex_def
proof (rule unmarshal_invariant [where P = wf_codex])
  fix f :: "codex_state field" and v and sb :: "codex_state decoding"
  assume f: "f \<in> snd ` set codex_fields" and wf: "wf_codex (fst sb)"
  from f have "f = families_field \<or> f = float_field (\<lambda>x s. s\<lparr>cs_primary_util := x\<rparr>)
      \<or> f = int_field (\<lambda>x s. s\<lparr>cs_primary_reset := x\<rparr>) \<or> f = float_field (\<lambda>x s. s\<lparr>cs_secondary_util := x\<rparr>)
      \<or> f = int_field (\<lambda>x s. s\<lparr>cs_secondary_reset := x\<rparr>)"
    by (simp add: codex_fields_def)
  with wf show "wf_codex (fst (f v sb))"
    using wf_families_field [OF wf] wf_scalar_fields [OF wf] by (elim disjE) simp_all
qed (rule wf_empty_codex)

section \<open>A stored state reads back\<close>

lemma decode_family_members:
  assumes "wf_limits f"
  shows "decode_struct family_fields (JObj (family_members f)) (no_limits, ok) = (f, ok)"
  using assms
  by (cases f) (simp add: wf_limits_def double_def family_members_def omit_empty_def decode_member_def
      find_field_def family_fields_def no_limits_def)

lemma AList_update_new: "k \<notin> fst ` set al \<Longrightarrow> AList.update k v al = al @ [(k, v)]"
  by (induction al) auto

lemma family_step_members:
  assumes "wf_limits f" "k \<notin> fst ` set (cs_families s)"
  shows "family_step (s, ok) (k, JObj (family_members f)) = (s\<lparr>cs_families := cs_families s @ [(k, f)]\<rparr>, ok)"
  using decode_family_members [OF assms(1), of ok] assms(2)
  by (simp add: family_step_def AList_update_new del: decode_struct_simps)

lemma foldl_family_step:
  assumes "\<forall>kf \<in> set L. wf_limits (snd kf)" "distinct (map fst (cs_families s @ L))"
  shows "foldl family_step (s, ok) (map (\<lambda>(k, f). (k, JObj (family_members f))) L)
    = (s\<lparr>cs_families := cs_families s @ L\<rparr>, ok)"
  using assms
proof (induction L arbitrary: s)
  case (Cons kf L)
  obtain k f where kf: "kf = (k, f)" by (cases kf)
  have "family_step (s, ok) (k, JObj (family_members f)) = (s\<lparr>cs_families := cs_families s @ [(k, f)]\<rparr>, ok)"
    using Cons.prems by (intro family_step_members) (auto simp: kf)
  with Cons.IH [of "s\<lparr>cs_families := cs_families s @ [(k, f)]\<rparr>"] Cons.prems show ?case
    by (simp add: kf)
qed simp

lemma families_field_members:
  assumes "\<forall>kf \<in> set L. wf_limits (snd kf)" "distinct (map fst (cs_families s @ L))"
  shows "families_field (JObj (map (\<lambda>(k, f). (k, JObj (family_members f))) L)) (s, ok)
    = (s\<lparr>cs_families := cs_families s @ L\<rparr>, ok)"
  using foldl_family_step [OF assms] by (simp add: families_field_def)

lemma sorted_families:
  assumes "wf_codex s"
  shows "\<forall>kf \<in> set (sort_key fst (cs_families s)). wf_limits (snd kf)"
    "distinct (map fst (sort_key fst (cs_families s)))"
  using assms
  by (simp_all add: wf_codex_def distinct_map)

lemma map_of_sort: "distinct (map fst al) \<Longrightarrow> map_of (sort_key fst al) = map_of al"
  by (rule map_of_inject_set [THEN iffD2]) (simp_all add: distinct_map)

lemma codex_fields_find:
  "find_field codex_fields ''families'' = Some families_field"
  "find_field codex_fields ''primary_util'' = Some (float_field (\<lambda>x s. s\<lparr>cs_primary_util := x\<rparr>))"
  "find_field codex_fields ''primary_reset'' = Some (int_field (\<lambda>x s. s\<lparr>cs_primary_reset := x\<rparr>))"
  "find_field codex_fields ''secondary_util'' = Some (float_field (\<lambda>x s. s\<lparr>cs_secondary_util := x\<rparr>))"
  "find_field codex_fields ''secondary_reset'' = Some (int_field (\<lambda>x s. s\<lparr>cs_secondary_reset := x\<rparr>))"
  by (simp_all add: find_field_def codex_fields_def)

lemma json_ok_family: "wf_limits f \<Longrightarrow> json_ok (JObj (family_members f))"
  by (simp add: family_members_def omit_empty_def wf_limits_def double_def scan_print_float)

lemma json_ok_codex:
  assumes wf: "wf_codex s" shows "json_ok (JObj (codex_members s))"
proof -
  have w: "double (cs_primary_util s)" "double (cs_secondary_util s)" using wf by (simp_all add: wf_codex_def)
  have f: "\<forall>kf \<in> set (sort_key fst (cs_families s)). json_ok (JObj (family_members (snd kf)))"
    using sorted_families(1) [OF wf] by (blast intro: json_ok_family)
  have "json_ok (JObj (map (\<lambda>(k, f). (k, JObj (family_members f))) (sort_key fst (cs_families s))))"
    using f by (simp add: case_prod_beta del: set_sort)
  then have "\<forall>kv \<in> set (if cs_families s = [] then []
      else [(''families'', JObj (map (\<lambda>(k, f). (k, JObj (family_members f))) (sort_key fst (cs_families s))))]).
      json_ok (snd kv)" by (simp del: json_ok.simps)
  then show ?thesis
    unfolding codex_members_def json_ok.simps
    using json_ok_omit(1) [OF w(1)] json_ok_omit(1) [OF w(2)] json_ok_omit(2)
    by (simp only: set_append ball_Un) blast
qed

lemma decode_families_member:
  assumes "wf_codex s"
  shows "foldl (decode_member codex_fields) (empty_codex_state, ok)
      (if cs_families s = [] then []
       else [(''families'', JObj (map (\<lambda>(k, f). (k, JObj (family_members f))) (sort_key fst (cs_families s))))])
    = (empty_codex_state\<lparr>cs_families := sort_key fst (cs_families s)\<rparr>, ok)"
proof (cases "cs_families s = []")
  case False
  have e: "cs_families empty_codex_state = []" by (simp add: empty_codex_state_def)
  show ?thesis
    using families_field_members [of "sort_key fst (cs_families s)" empty_codex_state ok]
      sorted_families [OF assms] False e
    by (simp add: decode_member_def codex_fields_find)
qed (simp add: empty_codex_state_def)

lemma decode_codex_members:
  assumes "wf_codex s"
  shows "decode_struct codex_fields (JObj (codex_members s)) (empty_codex_state, ok)
    = (s\<lparr>cs_families := sort_key fst (cs_families s)\<rparr>, ok)"
proof -
  let ?e = "empty_codex_state\<lparr>cs_families := sort_key fst (cs_families s)\<rparr>"
  let ?d = "foldl (decode_member codex_fields)"
  have z: "cs_primary_util ?e = 0" "cs_primary_reset ?e = 0" "cs_secondary_util ?e = 0" "cs_secondary_reset ?e = 0"
    by (simp_all add: empty_codex_state_def)
  have w: "double (cs_primary_util s)" "fits64 (cs_primary_reset s)" "double (cs_secondary_util s)"
    "fits64 (cs_secondary_reset s)" using assms by (simp_all add: wf_codex_def)
  have 1: "?d (?e, ok) (omit_float ''primary_util'' (cs_primary_util s))
      = (?e\<lparr>cs_primary_util := cs_primary_util s\<rparr>, ok)" (is "_ = (?e1, ok)")
    using decode_omit_float [OF codex_fields_find(2) w(1), of "(?e, ok)"] z by simp
  have 2: "?d (?e1, ok) (omit_int ''primary_reset'' (cs_primary_reset s))
      = (?e1\<lparr>cs_primary_reset := cs_primary_reset s\<rparr>, ok)" (is "_ = (?e2, ok)")
    using decode_omit_int [OF codex_fields_find(3) w(2), of "(?e1, ok)"] z by simp
  have 3: "?d (?e2, ok) (omit_float ''secondary_util'' (cs_secondary_util s))
      = (?e2\<lparr>cs_secondary_util := cs_secondary_util s\<rparr>, ok)" (is "_ = (?e3, ok)")
    using decode_omit_float [OF codex_fields_find(4) w(3), of "(?e2, ok)"] z by simp
  have 4: "?d (?e3, ok) (omit_int ''secondary_reset'' (cs_secondary_reset s))
      = (?e3\<lparr>cs_secondary_reset := cs_secondary_reset s\<rparr>, ok)" (is "_ = (?e4, ok)")
    using decode_omit_int [OF codex_fields_find(5) w(4), of "(?e3, ok)"] z by simp
  have "?e4 = s\<lparr>cs_families := sort_key fst (cs_families s)\<rparr>"
    by (simp add: empty_codex_state_def)
  then show ?thesis
    by (simp only: decode_struct_simps codex_members_def foldl_append decode_families_member [OF assms] 1 2 3 4)
qed

lemma codex_state_of_encode:
  assumes "wf_codex s"
  shows "codex_state_of (encode_codex s) = Some (s\<lparr>cs_families := sort_key fst (cs_families s)\<rparr>)"
  unfolding codex_state_of_def unmarshal_ok_def encode_codex_def unmarshal_print [OF json_ok_codex [OF assms]]
    decode_codex_members [OF assms]
  by simp

lemma families_only [simp]:
  "has_legacy (s\<lparr>cs_families := L\<rparr>) = has_legacy s"
  "legacy_limits (s\<lparr>cs_families := L\<rparr>) = legacy_limits s"
  by (simp_all add: has_legacy_def legacy_limits_def)

lemma codex_family_sorted:
  assumes "wf_codex s"
  shows "codex_family (s\<lparr>cs_families := sort_key fst (cs_families s)\<rparr>) p = codex_family s p"
proof -
  have "map_of (sort_key fst (cs_families s)) = map_of (cs_families s)"
    using assms by (simp add: map_of_sort wf_codex_def)
  then show ?thesis by (simp add: codex_family_def split: option.split)
qed

lemma codex_family_update:
  "codex_family (s\<lparr>cs_families := AList.update q f (cs_families s)\<rparr>) p = (if p = q then f else codex_family s p)"
  by (simp add: codex_family_def update_conv' split: option.split)

section \<open>Capturing headers\<close>

lemma double_fl: "\<bar>fl x\<bar> < pow2 1024 \<Longrightarrow> double (fl x)"
  by (simp add: double_def)

lemma double_percent: "double (percent_header v)"
proof -
  have "\<bar>fl (x / 100)\<bar> < pow2 1024" if "double x" for x
  proof -
    have "\<bar>fl (x / 100)\<bar> \<le> \<bar>x\<bar>"
    proof (cases "0 \<le> x")
      case True
      then have "fl (x / 100) \<le> fl x" "0 \<le> fl (x / 100)" by (auto intro: fl_mono fl_pos)
      with that True show ?thesis by (simp add: double_def)
    next
      case False
      then have "fl (- x / 100) \<le> fl (- x)" "0 \<le> fl (- x / 100)" by (auto intro: fl_mono fl_pos)
      with that False show ?thesis by (simp add: double_def fl_minus)
    qed
    with that show ?thesis by (simp add: double_def)
  qed
  then show ?thesis
    by (auto simp: percent_header_def intro: double_fl dest!: double_parse split: option.splits)
qed

lemma fits_reset: "fits64 (reset_header n v)"
  by (simp add: reset_header_def split: option.split)

lemma wf_captured: "wf_limits (captured_family h n p)"
  unfolding captured_family_def Let_def parseCodexFamilyHeaders_def wf_limits_def
  by (split if_split) (simp only: codex_family_limits.simps double_percent fits_reset simp_thms)

lemma migrate_family: "codex_family (migrate_legacy s) p = codex_family s p"
proof (cases "has_legacy s")
  case True
  have n: "\<not> has_legacy (migrate_legacy s)" using True by (simp add: migrate_legacy_def has_legacy_def)
  show ?thesis
  proof (cases "map_of (cs_families s) []")
    case None
    then have "cs_families (migrate_legacy s) = AList.update [] (legacy_limits s) (cs_families s)"
      using True by (simp add: migrate_legacy_def)
    with None True n show ?thesis by (simp add: codex_family_def update_conv')
  next
    case (Some f)
    then have "cs_families (migrate_legacy s) = cs_families s" using True by (simp add: migrate_legacy_def)
    with Some n show ?thesis by (simp add: codex_family_def split: option.split)
  qed
qed (simp add: migrate_legacy_def)

lemma wf_migrate:
  assumes wf: "wf_codex s" shows "wf_codex (migrate_legacy s)"
proof (cases "has_legacy s")
  case True
  have "wf_limits (legacy_limits s)" using wf by (simp add: wf_codex_def wf_limits_def legacy_limits_def)
  from wf_update [OF wf this, of "[]"]
  have u: "distinct (map fst (AList.update [] (legacy_limits s) (cs_families s)))"
    "\<forall>kf \<in> set (AList.update [] (legacy_limits s) (cs_families s)). wf_limits (snd kf)"
    by (simp_all add: wf_codex_def)
  have v: "distinct (map fst (cs_families s))" "\<forall>kf \<in> set (cs_families s). wf_limits (snd kf)"
    using wf by (simp_all add: wf_codex_def)
  show ?thesis
    unfolding migrate_legacy_def if_P [OF True] wf_codex_def codex_state.simps
    using u v by (cases "map_of (cs_families s) [] = None") (simp_all only: if_True if_False double_0 fits64_0 simp_thms)
next
  case False
  with wf show ?thesis by (simp add: migrate_legacy_def)
qed

definition apply_captured :: "header \<Rightarrow> int \<Rightarrow> codex_state \<Rightarrow> string list \<Rightarrow> codex_state" where
  "apply_captured h n = foldl (\<lambda>s p. s\<lparr>cs_families := AList.update p (captured_family h n p) (cs_families s)\<rparr>)"

lemma apply_captured_wf: "wf_codex s \<Longrightarrow> wf_codex (apply_captured h n s ps)"
  unfolding apply_captured_def by (rule foldl_invariant) (simp_all add: wf_update wf_captured)

lemma apply_captured_family:
  "codex_family (apply_captured h n s ps) p = (if p \<in> set ps then captured_family h n p else codex_family s p)"
  unfolding apply_captured_def
  by (induction ps rule: rev_induct) (simp_all add: codex_family_update)

lemma capture_state:
  obtains s where "codex_state_of (captureHeaders now (Some h) prev) = Some s" and "wf_codex s"
    "\<And>p. codex_family s p = (if p \<in> set (discoverCodexFamilyPrefixes h)
       then captured_family h (unix_sec now) p else codex_family (decode_codex prev) p)"
proof -
  let ?s0 = "if prev \<noteq> [] then decode_codex prev else empty_codex_state"
  let ?s2 = "apply_captured h (unix_sec now) (migrate_legacy ?s0) (discoverCodexFamilyPrefixes h)"
  have s0: "?s0 = decode_codex prev" by (simp add: decode_codex_def)
  have wf: "wf_codex ?s2" by (simp add: apply_captured_wf wf_migrate wf_decode_codex)
  have c: "captureHeaders now (Some h) prev = encode_codex ?s2"
    by (simp add: captureHeaders_def apply_captured_def Let_def)
  let ?s = "?s2\<lparr>cs_families := sort_key fst (cs_families ?s2)\<rparr>"
  show ?thesis
  proof (rule that [of ?s])
    show "codex_state_of (captureHeaders now (Some h) prev) = Some ?s"
      unfolding c by (rule codex_state_of_encode [OF wf])
    show "wf_codex ?s" using sorted_families [OF wf] wf by (simp add: wf_codex_def)
    show "codex_family ?s p = (if p \<in> set (discoverCodexFamilyPrefixes h)
        then captured_family h (unix_sec now) p else codex_family (decode_codex prev) p)" for p
      unfolding codex_family_sorted [OF wf] by (simp only: apply_captured_family migrate_family s0)
  qed
qed

end
