(* ===== verification/CodexRelay.thy ===== *)
theory CodexRelay
  imports CodexState
begin

text \<open>
  The relay side of the Codex driver (codex.go and the parsers of codex_support.go): route affinity,
  the upstream request, the classification of responses, the preflight of event streams, usage.
  HTTP bodies are byte strings; a body that is read piecewise is a byte string with a list of the
  sizes that the successive reads return.
\<close>

section \<open>Errors and usage in response bodies\<close>

record codex_error = cx_type :: string  cx_code :: "json option"  cx_message :: string

definition codex_error_fields :: "(string \<times> codex_error field) list" where
  "codex_error_fields =
     [(''type'', string_field (\<lambda>x e. e\<lparr>cx_type := x\<rparr>)),
      (''code'', any_field (\<lambda>x e. e\<lparr>cx_code := x\<rparr>)),
      (''message'', string_field (\<lambda>x e. e\<lparr>cx_message := x\<rparr>))]"

definition codex_error_envelope :: "(string \<times> codex_error field) list" where
  "codex_error_envelope = [(''error'', struct_field id (\<lambda>e _. e) codex_error_fields)]"

definition stringifyCodexErrorCode :: "json \<Rightarrow> string" where
  "stringifyCodexErrorCode code =
     (case code of
        JStr s \<Rightarrow> s
      | JNum l \<Rightarrow>
          (case parse_float l of
             None \<Rightarrow> []
           | Some v \<Rightarrow> (if v = of_int \<lfloor>v\<rfloor> \<and> fits64 \<lfloor>v\<rfloor> then itoa \<lfloor>v\<rfloor> else format_float_f v))
      | _ \<Rightarrow> [])"

definition parseCodexErrorInfo :: "string \<Rightarrow> string \<times> string" where
  "parseCodexErrorInfo body =
     (case unmarshal_ok codex_error_envelope body \<lparr> cx_type = [], cx_code = None, cx_message = [] \<rparr> of
        None \<Rightarrow> ([], [])
      | Some e \<Rightarrow>
          (let errType = (if cx_type e = []
                          then (case cx_code e of Some c \<Rightarrow> stringifyCodexErrorCode c | None \<Rightarrow> [])
                          else cx_type e)
           in (errType, cx_message e)))"

definition parseCodexResetsIn :: "string \<Rightarrow> duration" where
  "parseCodexResetsIn body =
     (case unmarshal_ok [(''error'', struct_field id (\<lambda>e _. e) [(''resets_in_seconds'', int_field (\<lambda>x _. x))])]
             body (0 :: int) of
        Some n \<Rightarrow> (if 0 < n then wrap64 (n * second) else 0) | None \<Rightarrow> 0)"

record codex_usage_details = cd_cached :: int  cd_cache_write :: int

record codex_usage_fields =
  cu_input :: int
  cu_output :: int
  cu_details :: "codex_usage_details option"

definition usage_fields :: "(string \<times> codex_usage_fields field) list" where
  "usage_fields =
     [(''input_tokens'', int_field (\<lambda>x u. u\<lparr>cu_input := x\<rparr>)),
      (''output_tokens'', int_field (\<lambda>x u. u\<lparr>cu_output := x\<rparr>)),
      (''input_tokens_details'',
       ptr_field cu_details (\<lambda>x u. u\<lparr>cu_details := x\<rparr>) \<lparr> cd_cached = 0, cd_cache_write = 0 \<rparr>
         [(''cached_tokens'', int_field (\<lambda>x d. d\<lparr>cd_cached := x\<rparr>)),
          (''cache_write_tokens'', int_field (\<lambda>x d. d\<lparr>cd_cache_write := x\<rparr>))])]"

definition no_usage_fields :: codex_usage_fields where
  "no_usage_fields = \<lparr> cu_input = 0, cu_output = 0, cu_details = None \<rparr>"

definition codexUsageToUsage :: "codex_usage_fields option \<Rightarrow> token_usage option" where
  "codexUsageToUsage ou =
     (case ou of
        None \<Rightarrow> None
      | Some u \<Rightarrow>
          Some \<lparr> InputTokens = cu_input u, OutputTokens = cu_output u,
                 CacheReadTokens = (case cu_details u of Some d \<Rightarrow> cd_cached d | None \<Rightarrow> 0),
                 CacheCreateTokens = (case cu_details u of Some d \<Rightarrow> cd_cache_write d | None \<Rightarrow> 0) \<rparr>)"

definition usage_ptr :: "codex_usage_fields option field" where
  "usage_ptr = ptr_field id (\<lambda>x _. x) no_usage_fields usage_fields"

definition parseCodexUsage :: "string \<Rightarrow> token_usage option" where
  "parseCodexUsage data =
     (case unmarshal_ok [(''type'', string_field (\<lambda>_ u. u)),
                         (''response'', struct_field id (\<lambda>u _. u) [(''usage'', usage_ptr)])] data None of
        None \<Rightarrow> None | Some ou \<Rightarrow> codexUsageToUsage ou)"

definition codex_ParseJSONUsage :: "string \<Rightarrow> token_usage option" where
  "codex_ParseJSONUsage body =
     (case parseCodexUsage body of
        Some u \<Rightarrow> Some u
      | None \<Rightarrow> (case unmarshal_ok [(''usage'', usage_ptr)] body None of
                   None \<Rightarrow> None | Some ou \<Rightarrow> codexUsageToUsage ou))"

section \<open>Capacity errors in event streams\<close>

definition codexSSECapacityPatterns :: "string list" where
  "codexSSECapacityPatterns =
     [''selected model is at capacity'', ''model_at_capacity'', ''server_is_overloaded'',
      ''service_unavailable_error'']"

definition codexCapacityPattern :: "string \<Rightarrow> string option" where
  "codexCapacityPattern body = List.find (\<lambda>p. contains (to_lower body) p) codexSSECapacityPatterns"

definition newline :: char where "newline = CHR 0x0A"

definition event_separators :: "string list" where
  "event_separators = [[newline, newline], [CHR 0x0D, newline, CHR 0x0D, newline]]"

definition firstCompleteSSEEvent :: "string \<Rightarrow> string option" where
  "firstCompleteSSEEvent data =
     map_option (\<lambda>(end, n). take (end + n) data)
       (foldl (\<lambda>best sep.
                 case str_index data sep of
                   Some idx \<Rightarrow> (case best of
                                  Some (end, n) \<Rightarrow> if idx < end then Some (idx, length sep) else best
                                | None \<Rightarrow> Some (idx, length sep))
                 | None \<Rightarrow> best) None event_separators)"

text \<open>The event name and the data lines of an event.\<close>

definition sse_line :: "string \<times> string list \<Rightarrow> string \<Rightarrow> string \<times> string list" where
  "sse_line nd raw =
     (let line = trim_space raw in
      if has_prefix line ''event:'' then (to_lower (trim_space (drop 6 line)), snd nd)
      else if has_prefix line ''data:'' then (fst nd, snd nd @ [trim_space (drop 5 line)])
      else nd)"

definition error_word :: "string \<Rightarrow> bool" where
  "error_word s \<longleftrightarrow> contains s ''error'' \<or> contains s ''failed''"

definition codexSSECapacityPattern :: "string \<Rightarrow> string option" where
  "codexSSECapacityPattern event =
     (case codexCapacityPattern event of
        None \<Rightarrow> None
      | Some pattern \<Rightarrow>
          (case foldl sse_line ([], []) (split_char newline event) of
             (eventName, dataLines) \<Rightarrow>
               (if error_word eventName then Some pattern
                else (case unmarshal_map (join [newline] dataLines) of
                        None \<Rightarrow> None
                      | Some envelope \<Rightarrow>
                          (if error_word (to_lower (jstring (map_of (map_value envelope) ''type''))) then Some pattern
                           else (case map_of (map_value envelope) ''error'' of
                                   None \<Rightarrow> None
                                 | Some JNull \<Rightarrow> None
                                 | Some _ \<Rightarrow> Some pattern))))))"

definition extractCodexErrorMessage :: "string \<Rightarrow> string" where
  "extractCodexErrorMessage body =
     (let message = snd (parseCodexErrorInfo body) in
      if message \<noteq> [] then message
      else (case List.find (\<lambda>m. m \<noteq> [])
                  (map (\<lambda>line. let l = trim_space line in
                           if has_prefix l ''data:'' then snd (parseCodexErrorInfo (trim_space (drop 5 l))) else [])
                     (split_char newline body)) of
              Some m \<Rightarrow> m
            | None \<Rightarrow> (if codexCapacityPattern body \<noteq> None
                      then ''Selected model is at capacity. Please try a different model.'' else [])))"

section \<open>Planning a request\<close>

definition nonEmptyString :: "json option \<Rightarrow> string" where
  "nonEmptyString v = trim_space (jstring v)"

definition codexConversationID :: "json option \<Rightarrow> string" where
  "codexConversationID v =
     (case v of
        Some (JStr s) \<Rightarrow> trim_space s
      | Some (JObj kvs) \<Rightarrow> nonEmptyString (jget ''id'' kvs)
      | _ \<Rightarrow> [])"

definition codexRouteAffinity :: "relay_input option \<Rightarrow> route_affinity" where
  "codexRouteAffinity oi =
     (case oi of
        None \<Rightarrow> no_affinity
      | Some i \<Rightarrow>
          (let body = ri_body i;
               continuity = (if nonEmptyString (jget ''previous_response_id'' body) \<noteq> []
                                \<or> codexConversationID (jget ''conversation'' body) \<noteq> []
                             then AffinityRequire else AffinityPrefer);
               cacheKey = nonEmptyString (jget ''prompt_cache_key'' body);
               conversation = codexConversationID (jget ''conversation'' body);
               session = trim_space (h_get (ri_headers i) ''session-id'')
           in if cacheKey \<noteq> [] then
                \<lparr> ra_raw_key = cacheKey, ra_kind = ''prompt-cache-key'', ra_continuity = continuity \<rparr>
              else if conversation \<noteq> [] then
                \<lparr> ra_raw_key = conversation, ra_kind = ''conversation'', ra_continuity = continuity \<rparr>
              else if session \<noteq> [] then
                \<lparr> ra_raw_key = session, ra_kind = ''session-id'', ra_continuity = continuity \<rparr>
              else no_affinity\<lparr> ra_continuity := continuity \<rparr>))"

definition codex_Plan :: "relay_input option \<Rightarrow> relay_plan" where
  "codex_Plan oi =
     (case oi of
        None \<Rightarrow> \<lparr> rp_is_stream = False, rp_is_count_tokens = False, rp_affinity = no_affinity \<rparr>
      | Some i \<Rightarrow>
          \<lparr> rp_is_stream = jbool (jget ''stream'' (ri_body i)), rp_is_count_tokens = False,
            rp_affinity = codexRouteAffinity (Some i) \<rparr>)"

section \<open>The upstream request\<close>

definition codexUnsupportedRequestFields :: "string list" where
  "codexUnsupportedRequestFields = [''max_output_tokens'', ''prompt_cache_retention'']"

datatype request_body = RawBody string | EncodedBody "(string \<times> json) list"

definition normalizeCodexRequestBody :: "string \<Rightarrow> err + request_body" where
  "normalizeCodexRequestBody raw =
     (case json_parse raw of
        Some (JObj kvs) \<Rightarrow>
          (let body = go_members kvs;
               kept = filter (\<lambda>kv. fst kv \<notin> set codexUnsupportedRequestFields) body
           in if kept = body then Inr (RawBody raw) else Inr (EncodedBody kept))
      | Some JNull \<Rightarrow> Inr (RawBody raw)
      | _ \<Rightarrow> Inl ''decode codex request body'')"

definition body_bytes :: "request_body \<Rightarrow> string" where
  "body_bytes b = (case b of RawBody s \<Rightarrow> s | EncodedBody kvs \<Rightarrow> json_print (JObj kvs))"

definition copy_header :: "header \<Rightarrow> header \<Rightarrow> string \<Rightarrow> header" where
  "copy_header from h k = (if h_get from k \<noteq> [] then h_set k (h_get from k) h else h)"

definition codex_BuildRequest ::
  "string \<Rightarrow> relay_input \<Rightarrow> account \<Rightarrow> string \<Rightarrow> err + upstream_request" where
  "codex_BuildRequest apiURL i acct token =
     (if ac_subject acct = [] then Inl ''codex account missing subject''
      else (case normalizeCodexRequestBody (ri_raw_body i) of
              Inl e \<Rightarrow> Inl e
            | Inr body \<Rightarrow>
                (let h1 = foldl (copy_header (ri_headers i)) [] [''Content-Type'', ''Accept'', ''Codex-Version''];
                     h2 = (if h_get h1 ''Content-Type'' = [] then h_set ''Content-Type'' ''application/json'' h1 else h1);
                     h3 = h_set ''Chatgpt-Account-Id'' (ac_subject acct)
                            (h_set ''Host'' ''chatgpt.com''
                              (h_set ''Authorization'' (''Bearer '' @ token) h2))
                 in Inr \<lparr> ur_url = apiURL, ur_body = body_bytes body, ur_headers = h3 \<rparr>)))"

section \<open>Classifying a response\<close>

text \<open>\<open>lastGoodModel\<close>: \<open>None\<close> until a request of the standard family succeeds.\<close>

type_synonym codex_driver = "string option"

definition noteGoodModel :: "string \<Rightarrow> codex_driver \<Rightarrow> codex_driver" where
  "noteGoodModel model d = (if model = [] \<or> codexModelFamily model \<noteq> [] then d else Some model)"

definition probeModel :: "codex_driver \<Rightarrow> string" where
  "probeModel d =
     (case d of
        Some m \<Rightarrow> (if m \<noteq> [] then m
                   else (case codexSupportedModels of x # _ \<Rightarrow> mi_id x | [] \<Rightarrow> ''gpt-5.6-sol''))
      | None \<Rightarrow> (case codexSupportedModels of x # _ \<Rightarrow> mi_id x | [] \<Rightarrow> ''gpt-5.6-sol''))"

definition codexBanPattern :: "string \<Rightarrow> bool" where
  "codexBanPattern = matches_any_case [''account has been disabled'', ''organization has been disabled'']"

definition upstream_info :: "int \<Rightarrow> string \<times> string \<Rightarrow> effect \<Rightarrow> effect" where
  "upstream_info status info e =
     e\<lparr> ef_upstream_status := status, ef_upstream_error_type := fst info, ef_upstream_error_message := snd info \<rparr>"

definition codex_429_until :: "error_pauses \<Rightarrow> gotime \<Rightarrow> header option \<Rightarrow> string \<Rightarrow> gotime" where
  "codex_429_until pauses now h body =
     (let retryAfter = parseRetryAfter now (oh_get h ''Retry-After'') in
      if 0 < retryAfter then now + retryAfter
      else if body \<noteq> [] \<and> 0 < parseCodexResetsIn body then now + parseCodexResetsIn body
      else now + Pause429 pauses)"

definition codex_Interpret ::
  "error_pauses \<Rightarrow> gotime \<Rightarrow> int \<Rightarrow> header option \<Rightarrow> string \<Rightarrow> string \<Rightarrow> string \<Rightarrow> codex_driver
   \<Rightarrow> effect \<times> codex_driver" where
  "codex_Interpret pauses now status h body model prevState d =
     (let info = parseCodexErrorInfo body;
          eff = (\<lambda>k. new_effect k EffectScopeBucket)
      in if status = 200 then
           ((eff EffectSuccess)\<lparr> ef_updated_state := captureHeaders now h prevState \<rparr>, noteGoodModel model d)
         else if status = 529 then
           (upstream_info 529 info ((eff EffectOverload)\<lparr> ef_cooldown_until := now + Pause529 pauses \<rparr>), d)
         else if status = 429 then
           (upstream_info 429 info
              ((eff EffectCooldown)\<lparr> ef_cooldown_until := codex_429_until pauses now h body,
                                     ef_updated_state := captureHeaders now h prevState \<rparr>), d)
         else if status = 403 then
           (if codexBanPattern body then
              (upstream_info 403 info
                 ((eff EffectBlock)\<lparr> ef_cooldown_until := now + Pause401 pauses,
                    ef_error_message := ''ban signal detected: '' @ truncate_with body 200 \<rparr>), d)
            else (upstream_info 403 info ((eff EffectCooldown)\<lparr> ef_cooldown_until := now + Pause403 pauses \<rparr>), d))
         else if status = 401 then
           (upstream_info 401 info ((eff EffectAuthFail)\<lparr> ef_cooldown_until := now + Pause401Refresh pauses \<rparr>), d)
         else if status = 400 then (upstream_info 400 info (eff EffectReject), d)
         else (eff EffectSuccess, d))"

definition codex_ShouldRetry :: "int \<Rightarrow> bool" where
  "codex_ShouldRetry status \<longleftrightarrow> status = 529 \<or> status = 429 \<or> status = 401 \<or> status = 403"

definition codex_RetrySameAccount :: "int \<Rightarrow> string \<Rightarrow> int \<Rightarrow> bool" where
  "codex_RetrySameAccount status body prior \<longleftrightarrow> False"

definition codex_ParseNonRetriable :: "int \<Rightarrow> string \<Rightarrow> bool" where
  "codex_ParseNonRetriable status body \<longleftrightarrow> status = 429 \<and> contains body ''Extra usage is required''"

section \<open>The preflight of an event stream\<close>

text \<open>
  What one turn of the reading loop meets: the context is cancelled, or a read that returns at most
  the given number of bytes (and no more than fit), possibly together with the end of the body.
\<close>

datatype read_turn = Cancelled err | ReadUpTo nat bool

text \<open>How the body ends after its bytes: cleanly, or with a read error.\<close>

datatype body_end = EndOK | EndError err

datatype preflight =
    PreflightError err
  | PreflightCapacity string string   \<comment> \<open>the pattern, and the error body\<close>
  | PreflightAccept string            \<comment> \<open>the bytes that the restored body replays\<close>

definition codexSSEPreflightMaxBytes :: nat where
  "codexSSEPreflightMaxBytes = 8 * 1024"

text \<open>
  One turn of the loop: \<open>pre\<close> are the bytes read, \<open>rest\<close> those still in the body.  It ends the loop with
  a result, or leaves new bytes.
\<close>

definition preflight_turn :: "body_end \<Rightarrow> read_turn \<Rightarrow> string \<Rightarrow> string \<Rightarrow> preflight + string \<times> string" where
  "preflight_turn fin t pre rest =
     (case t of
        Cancelled e \<Rightarrow> Inl (PreflightError e)
      | ReadUpTo k early \<Rightarrow>
          (let room = min 1024 (codexSSEPreflightMaxBytes - length pre);
               n = min (min k room) (length rest);
               pre' = pre @ take n rest;
               rest' = drop n rest;
               ended = (rest' = [] \<and> (n = 0 \<or> early));
               event = (if 0 < n then firstCompleteSSEEvent pre' else None)
           in case event of
                Some ev \<Rightarrow>
                  (case codexSSECapacityPattern ev of
                     Some p \<Rightarrow> Inl (PreflightCapacity p pre')
                   | None \<Rightarrow> Inl (PreflightAccept (pre' @ rest')))
              | None \<Rightarrow>
                  (if ended then
                     (case fin of
                        EndError e \<Rightarrow> Inl (PreflightError e)
                      | EndOK \<Rightarrow>
                          (case codexSSECapacityPattern pre' of
                             Some p \<Rightarrow> Inl (PreflightCapacity p pre')
                           | None \<Rightarrow> Inl (PreflightAccept (pre' @ rest'))))
                   else Inr (pre', rest'))))"

text \<open>The loop; \<open>None\<close>: the list of turns ended first (the upstream has not delivered more yet).\<close>

primrec preflight_loop :: "body_end \<Rightarrow> read_turn list \<Rightarrow> string \<Rightarrow> string \<Rightarrow> preflight option" where
  "preflight_loop fin [] pre rest =
     (if codexSSEPreflightMaxBytes \<le> length pre then Some (PreflightAccept (pre @ rest)) else None)"
| "preflight_loop fin (t # ts) pre rest =
     (if codexSSEPreflightMaxBytes \<le> length pre then Some (PreflightAccept (pre @ rest))
      else (case preflight_turn fin t pre rest of
              Inl r \<Rightarrow> Some r
            | Inr (pre', rest') \<Rightarrow> preflight_loop fin ts pre' rest'))"

record http_response =
  hr_status :: int
  hr_headers :: header
  hr_body :: string
  hr_end :: body_end

definition is_event_stream :: "http_response \<Rightarrow> bool" where
  "is_event_stream r \<longleftrightarrow> hr_status r = 200
     \<and> contains (to_lower (h_get (hr_headers r) ''Content-Type'')) ''text/event-stream''"

definition capacity_effect :: "error_pauses \<Rightarrow> gotime \<Rightarrow> header \<Rightarrow> string \<Rightarrow> string \<Rightarrow> effect" where
  "capacity_effect pauses now h prevState pattern =
     upstream_info 429 (''model_at_capacity'', pattern)
       ((new_effect EffectCooldown EffectScopeBucket)\<lparr> ef_cooldown_until := now + Pause429 pauses,
          ef_updated_state := captureHeaders now (Some h) prevState \<rparr>)"

text \<open>The result: an error, or the effect with the error body (if any) and the body to replay.\<close>

definition codex_PreflightStream ::
  "error_pauses \<Rightarrow> gotime \<Rightarrow> read_turn list \<Rightarrow> http_response \<Rightarrow> string
   \<Rightarrow> (err + (effect \<times> string) option \<times> string) option" where
  "codex_PreflightStream pauses now turns r prevState =
     (if \<not> is_event_stream r then Some (Inr (None, hr_body r))
      else map_option
             (\<lambda>res. case res of
                PreflightError e \<Rightarrow> Inl e
              | PreflightCapacity p b \<Rightarrow> Inr (Some (capacity_effect pauses now (hr_headers r) prevState p, b), [])
              | PreflightAccept b \<Rightarrow> Inr (None, b))
             (preflight_loop (hr_end r) turns [] (hr_body r)))"

end
