(* ===== verification/NetErr.thy ===== *)
theory NetErr
  imports DriverApi
begin

text \<open>
  Errors of network calls (src/internal/neterr): what \<open>errors.Is\<close> and \<open>errors.As\<close> find in the chain of
  an error, and its message.
\<close>

record go_error =
  ge_message :: string
  ge_canceled :: bool           \<comment> \<open>\<open>errors.Is (err, context.Canceled)\<close>\<close>
  ge_deadline :: bool           \<comment> \<open>\<open>errors.Is (err, context.DeadlineExceeded)\<close>\<close>
  ge_net :: bool                \<comment> \<open>\<open>errors.As\<close> finds a \<open>net.Error\<close> or a \<open>*net.OpError\<close>\<close>

definition transport_markers :: "string list" where
  "transport_markers =
     [''socks5 dial'', ''can'' @ [CHR 0x27] @ ''t complete socks5 connection'', ''proxy connect'', ''dial tcp'',
      ''connection refused'', ''connection reset by peer'', ''network is unreachable'', ''no route to host'',
      ''broken pipe'', ''i/o timeout'', ''tls handshake timeout'']"

definition IsTransport :: "go_error option \<Rightarrow> bool" where
  "IsTransport oe =
     (case oe of
        None \<Rightarrow> False
      | Some e \<Rightarrow>
          (if ge_canceled e then False
           else if ge_deadline e then True
           else if ge_net e then True
           else list_ex (contains (to_lower (ge_message e))) transport_markers))"

text \<open>A disconnected client is never taken for a broken network path.\<close>

lemma canceled_not_transport [simp]: "ge_canceled e \<Longrightarrow> \<not> IsTransport (Some e)"
  by (simp add: IsTransport_def)

end
