(* ===== verification/RelayAttempt.thy ===== *)
theory RelayAttempt
  imports CodexRelay PoolSchedule NetErr
begin

text \<open>
  One relayed request (src/internal/relay: relay_flow.go, relay_attempt.go).  What the relay does to
  the rest of the program and to the client is a list of actions in the order of the calls; what the
  rest answers (the route, the token, the upstream response, the outcome of accepting the lease) is an
  input of the attempt, because other requests run in between.  The observation file of a log entry
  and the structured log are not modelled.
\<close>

section \<open>Interfaces\<close>

datatype build_error =
    RequestValidationError int string
  | BuildRequestError err
  | BuildRequestPanic

text \<open>The execution driver.  The preflight answers \<open>None\<close> as long as the stream has not delivered.\<close>

record execution_driver =
  ed_scheduler :: scheduler_driver
  ed_plan :: "relay_input \<Rightarrow> relay_plan"
  ed_intercept :: "(string \<times> json) list \<Rightarrow> string \<Rightarrow> bool"
  ed_build :: "relay_input \<Rightarrow> account \<Rightarrow> string \<Rightarrow> build_error + upstream_request"
  ed_interpret :: "gotime \<Rightarrow> int \<Rightarrow> header \<Rightarrow> string \<Rightarrow> string \<Rightarrow> string \<Rightarrow> effect"
  ed_preflight :: "(gotime \<Rightarrow> read_turn list \<Rightarrow> http_response \<Rightarrow> string
                     \<Rightarrow> (err + (effect \<times> string) option \<times> string) option) option"
  ed_parse_usage :: "string \<Rightarrow> token_usage option"
  ed_should_retry :: "int \<Rightarrow> bool"
  ed_retry_same :: "int \<Rightarrow> string \<Rightarrow> int \<Rightarrow> bool"
  ed_non_retriable :: "int \<Rightarrow> string \<Rightarrow> bool"
  ed_cost :: "string \<Rightarrow> token_usage \<Rightarrow> rat"

record relay_config =
  rc_max_retry_accounts :: int
  rc_session_binding_ttl :: duration
  rc_cell_error_pause :: duration
  rc_trace_compat :: bool

record prepared_request =
  pr_user_id :: string
  pr_bound_account :: string
  pr_input :: relay_input
  pr_surface :: surface
  pr_affinity_key :: string
  pr_continuity :: affinity_continuity

text \<open>The row of the request log.\<close>

record request_log =
  rl_user_id :: string
  rl_account_id :: string
  rl_provider :: provider
  rl_surface :: surface
  rl_model :: string
  rl_cell_id :: string
  rl_status :: string
  rl_effect_kind :: string
  rl_upstream_status :: int
  rl_upstream_error_type :: string
  rl_usage :: token_usage
  rl_cost :: rat
  rl_duration_ms :: int
  rl_created_at :: gotime

datatype route_failure = RouteFailed route_error | RouteCanceled err

text \<open>What one attempt meets; the clock is read once for every purpose.\<close>

record attempt_env =
  ae_now :: gotime
  ae_duration_ms :: int
  ae_route :: "route_failure + account \<times> attempt_lease"
  ae_token :: "err + string"
  ae_response :: "go_error + http_response"
  ae_reads :: "read_turn list"
  ae_accept :: "err option"
  ae_stream :: "bool \<times> token_usage option"

datatype last_error =
    LastRoute route_failure
  | LastToken err
  | LastBuild err
  | LastTransport go_error
  | LastUpstream int
  | LastRetry int int
  | LastPreflight err
  | LastPreflightStatus int
  | LastAccept err
  | LastRead err

datatype relay_action =
    ActSend upstream_request
  | ActObserve string effect
  | ActCooldownCell string gotime string
  | ActAccept duration
  | ActFinish
  | ActAbort
  | ActLog request_log
  | ActPublishError last_error string
  | ActWriteError int string
  | ActWriteUpstreamError int string bool
  | ActWriteBody int string
  | ActStream http_response
  | ActForward http_response
  | ActIntercept

datatype attempt_outcome = relayAttemptContinue | relayAttemptStop | relayAttemptDone

text \<open>An attempt returns an outcome, or the driver panics, or it is still waiting for the stream.\<close>

datatype attempt_end = Returned attempt_outcome | Panicked | Waiting

record attempt_state =
  as_exclusions :: "exclusion list"
  as_forbidden_retries :: "string \<Rightarrow> int"
  as_retry_account :: string
  as_last_err :: "last_error option"
  as_last_status :: int
  as_last_body :: "string option"

definition newRelayAttemptState :: attempt_state where
  "newRelayAttemptState =
     \<lparr> as_exclusions = [], as_forbidden_retries = (\<lambda>_. 0), as_retry_account = [], as_last_err = None,
       as_last_status = 0, as_last_body = None \<rparr>"

section \<open>Log entries\<close>

definition relayEffectKind :: "effect_kind \<Rightarrow> string" where
  "relayEffectKind k =
     (case k of EffectSuccess \<Rightarrow> ''success'' | EffectCooldown \<Rightarrow> ''cooldown'' | EffectReject \<Rightarrow> ''reject''
      | EffectOverload \<Rightarrow> ''overload'' | EffectBlock \<Rightarrow> ''block'' | EffectAuthFail \<Rightarrow> ''auth_fail''
      | EffectServerError \<Rightarrow> ''server_error'')"

definition requestValidationEffectKind :: "int \<Rightarrow> string" where
  "requestValidationEffectKind status =
     (if status = 429 then ''overload'' else if status = 401 then ''auth_fail''
      else if 500 \<le> status then ''server_error'' else ''reject'')"

definition baseRequestLog :: "attempt_env \<Rightarrow> prepared_request \<Rightarrow> account \<Rightarrow> request_log" where
  "baseRequestLog env pr acct =
     \<lparr> rl_user_id = pr_user_id pr, rl_account_id = ac_id acct, rl_provider = ac_provider acct,
       rl_surface = pr_surface pr, rl_model = ri_model (pr_input pr), rl_cell_id = ac_cell_id acct,
       rl_status = [], rl_effect_kind = [], rl_upstream_status = 0, rl_upstream_error_type = [],
       rl_usage = \<lparr> InputTokens = 0, OutputTokens = 0, CacheReadTokens = 0, CacheCreateTokens = 0 \<rparr>,
       rl_cost = 0, rl_duration_ms = ae_duration_ms env, rl_created_at = ae_now env \<rparr>"

definition log_upstream :: "attempt_env \<Rightarrow> prepared_request \<Rightarrow> account \<Rightarrow> int \<Rightarrow> effect \<Rightarrow> request_log" where
  "log_upstream env pr acct status e =
     (baseRequestLog env pr acct)
       \<lparr> rl_status := ''upstream_'' @ itoa status, rl_upstream_status := status,
         rl_upstream_error_type := ef_upstream_error_type e \<rparr>"

section \<open>Choosing and excluding\<close>

definition exclude :: "account \<Rightarrow> effect \<Rightarrow> attempt_state \<Rightarrow> attempt_state" where
  "exclude acct e s =
     (if ef_scope e = EffectScopeBucket \<and> ac_bucket_key acct \<noteq> []
      then s\<lparr>as_exclusions := as_exclusions s @ [ExcludeBucket (ac_bucket_key acct)]\<rparr>
      else s\<lparr>as_exclusions := as_exclusions s @ [ExcludeAccount (ac_id acct)]\<rparr>)"

definition exclude_account :: "account \<Rightarrow> last_error \<Rightarrow> attempt_state \<Rightarrow> attempt_state" where
  "exclude_account acct e s =
     s\<lparr> as_exclusions := as_exclusions s @ [ExcludeAccount (ac_id acct)], as_last_err := Some e \<rparr>"

text \<open>The route that an attempt asks for.\<close>

definition attempt_route :: "prepared_request \<Rightarrow> attempt_state \<Rightarrow> route_request" where
  "attempt_route pr s =
     \<lparr> rq_exclusions = as_exclusions s, rq_model = ri_model (pr_input pr), rq_surface = pr_surface pr,
       rq_hard_account_id = (if as_retry_account s \<noteq> [] then as_retry_account s else pr_bound_account pr),
       rq_affinity_key = pr_affinity_key pr, rq_continuity = pr_continuity pr \<rparr>"

definition affinity_lost :: "route_failure \<Rightarrow> bool" where
  "affinity_lost f \<longleftrightarrow>
     (case f of RouteFailed ErrAffinityOwnerMissing \<Rightarrow> True
      | RouteFailed (ErrAffinityOwnerUnavailable _) \<Rightarrow> True | _ \<Rightarrow> False)"

section \<open>An upstream response\<close>

text \<open>With the trace of the compat surface on, a body that is not a stream is read in advance: if that
  fails, what it delivered is gone.\<close>

definition traced_response :: "relay_config \<Rightarrow> prepared_request \<Rightarrow> http_response \<Rightarrow> http_response" where
  "traced_response cfg pr r =
     (if rc_trace_compat cfg \<and> pr_surface pr = SurfaceCompat \<and> \<not> ri_is_stream (pr_input pr) \<and> hr_end r \<noteq> EndOK
      then r\<lparr>hr_body := []\<rparr> else r)"

type_synonym attempt_result = "attempt_end \<times> attempt_state \<times> relay_action list"

definition retriable_response ::
  "execution_driver \<Rightarrow> prepared_request \<Rightarrow> attempt_env \<Rightarrow> account \<Rightarrow> http_response \<Rightarrow> attempt_state \<Rightarrow> attempt_result" where
  "retriable_response drv pr env acct r s0 =
     (let status = hr_status r;
          body = hr_body r;
          s = s0\<lparr> as_last_status := status, as_last_body := Some body \<rparr>;
          e = ed_interpret drv (ae_now env) status (hr_headers r) body (ri_model (pr_input pr))
                (ac_provider_state_json acct);
          entry = log_upstream env pr acct status e;
          prior = as_forbidden_retries s (ac_id acct)
      in if ed_non_retriable drv status body
         then (Returned relayAttemptDone, s,
               [ActLog entry, ActWriteUpstreamError status body (ri_is_stream (pr_input pr))])
         else if ed_retry_same drv status body prior
         then (Returned relayAttemptContinue,
               s\<lparr> as_forbidden_retries := (as_forbidden_retries s)(ac_id acct := prior + 1),
                  as_retry_account := ac_id acct, as_last_err := Some (LastRetry status (prior + 1)) \<rparr>,
               [ActLog entry])
         else (Returned relayAttemptContinue, (exclude acct e s)\<lparr>as_last_err := Some (LastUpstream status)\<rparr>,
               [ActLog (entry\<lparr>rl_effect_kind := relayEffectKind (ef_kind e)\<rparr>), ActObserve (ac_id acct) e]))"

definition failed_response ::
  "execution_driver \<Rightarrow> prepared_request \<Rightarrow> attempt_env \<Rightarrow> account \<Rightarrow> http_response \<Rightarrow> attempt_state \<Rightarrow> attempt_result" where
  "failed_response drv pr env acct r s =
     (let status = hr_status r;
          e = ed_interpret drv (ae_now env) status (hr_headers r) (hr_body r) (ri_model (pr_input pr))
                (ac_provider_state_json acct)
      in (Returned relayAttemptDone, s,
          [ActLog ((log_upstream env pr acct status e)\<lparr>rl_effect_kind := relayEffectKind (ef_kind e)\<rparr>),
           ActObserve (ac_id acct) e,
           ActWriteUpstreamError status (hr_body r) (ri_is_stream (pr_input pr))]))"

text \<open>The log entry of a success, with the usage and its price if one was reported.\<close>

definition log_success ::
  "execution_driver \<Rightarrow> prepared_request \<Rightarrow> attempt_env \<Rightarrow> account \<Rightarrow> effect \<Rightarrow> bool \<Rightarrow> token_usage option \<Rightarrow> request_log" where
  "log_success drv pr env acct e completed usage =
     (let entry = (baseRequestLog env pr acct)
            \<lparr> rl_status := (if completed then ''ok'' else ''stream_incomplete''),
              rl_effect_kind := relayEffectKind (ef_kind e), rl_upstream_error_type := ef_upstream_error_type e \<rparr>
      in case usage of
           None \<Rightarrow> entry
         | Some u \<Rightarrow> entry\<lparr> rl_usage := u, rl_cost := ed_cost drv (ri_model (pr_input pr)) u \<rparr>)"

definition stream_accepted ::
  "relay_config \<Rightarrow> execution_driver \<Rightarrow> prepared_request \<Rightarrow> attempt_env \<Rightarrow> account \<Rightarrow> http_response \<Rightarrow> attempt_state \<Rightarrow> attempt_result" where
  "stream_accepted cfg drv pr env acct r s =
     (let e = ed_interpret drv (ae_now env) 200 (hr_headers r) [] (ri_model (pr_input pr)) (ac_provider_state_json acct)
      in case ae_accept env of
           Some err \<Rightarrow> (Returned relayAttemptStop, s\<lparr>as_last_err := Some (LastAccept err)\<rparr>,
                        [ActObserve (ac_id acct) e, ActAccept (rc_session_binding_ttl cfg)])
         | None \<Rightarrow> (Returned relayAttemptDone, s,
                    [ActObserve (ac_id acct) e, ActAccept (rc_session_binding_ttl cfg), ActStream r, ActFinish,
                     ActLog (log_success drv pr env acct e (fst (ae_stream env)) (snd (ae_stream env)))]))"

definition stream_rejected ::
  "prepared_request \<Rightarrow> attempt_env \<Rightarrow> account \<Rightarrow> effect \<Rightarrow> string \<Rightarrow> attempt_state \<Rightarrow> attempt_result" where
  "stream_rejected pr env acct e errorBody s0 =
     (let status = (if ef_upstream_status e = 0 then 429 else ef_upstream_status e);
          s = s0\<lparr> as_last_status := status, as_last_body := Some errorBody,
                  as_last_err := Some (LastPreflightStatus status) \<rparr>
      in (Returned relayAttemptContinue, exclude acct e s,
          [ActLog ((log_upstream env pr acct status e)\<lparr>rl_effect_kind := relayEffectKind (ef_kind e)\<rparr>),
           ActObserve (ac_id acct) e]))"

definition transport_failure_log :: "prepared_request \<Rightarrow> attempt_env \<Rightarrow> account \<Rightarrow> string \<Rightarrow> relay_action" where
  "transport_failure_log pr env acct status =
     ActLog ((baseRequestLog env pr acct)\<lparr> rl_status := status, rl_effect_kind := ''transport_error'' \<rparr>)"

definition finishRelaySuccess ::
  "relay_config \<Rightarrow> execution_driver \<Rightarrow> prepared_request \<Rightarrow> attempt_env \<Rightarrow> account \<Rightarrow> http_response \<Rightarrow> attempt_state \<Rightarrow> attempt_result" where
  "finishRelaySuccess cfg drv pr env acct r s =
     (if ri_is_stream (pr_input pr) then
        (case ed_preflight drv of
           None \<Rightarrow> stream_accepted cfg drv pr env acct r s
         | Some pf \<Rightarrow>
             (case pf (ae_now env) (ae_reads env) r (ac_provider_state_json acct) of
                None \<Rightarrow> (Waiting, s, [])
              | Some (Inl err) \<Rightarrow>
                  (Returned relayAttemptContinue, exclude_account acct (LastPreflight err) s,
                   [transport_failure_log pr env acct ''stream_preflight_error''])
              | Some (Inr (Some (e, errorBody), _)) \<Rightarrow> stream_rejected pr env acct e errorBody s
              | Some (Inr (None, body)) \<Rightarrow> stream_accepted cfg drv pr env acct (r\<lparr>hr_body := body\<rparr>) s))
      else
        (case hr_end r of
           EndError err \<Rightarrow> (Returned relayAttemptStop, s\<lparr>as_last_err := Some (LastRead err)\<rparr>, [])
         | EndOK \<Rightarrow>
             (let e = ed_interpret drv (ae_now env) 200 (hr_headers r) (hr_body r) (ri_model (pr_input pr))
                        (ac_provider_state_json acct)
              in case ae_accept env of
                   Some err \<Rightarrow> (Returned relayAttemptStop, s\<lparr>as_last_err := Some (LastAccept err)\<rparr>,
                                [ActObserve (ac_id acct) e, ActAccept (rc_session_binding_ttl cfg)])
                 | None \<Rightarrow> (Returned relayAttemptDone, s,
                            [ActObserve (ac_id acct) e, ActAccept (rc_session_binding_ttl cfg),
                             ActWriteBody (hr_status r) (hr_body r), ActFinish,
                             ActLog (log_success drv pr env acct e True (ed_parse_usage drv (hr_body r)))]))))"

definition upstream_answer ::
  "relay_config \<Rightarrow> execution_driver \<Rightarrow> prepared_request \<Rightarrow> int \<Rightarrow> attempt_env \<Rightarrow> account \<Rightarrow> http_response \<Rightarrow> attempt_state \<Rightarrow> attempt_result" where
  "upstream_answer cfg drv pr attempt env acct r0 s =
     (let r = traced_response cfg pr r0 in
      if ed_should_retry drv (hr_status r) \<and> attempt < rc_max_retry_accounts cfg
      then retriable_response drv pr env acct r s
      else if hr_status r \<noteq> 200 then failed_response drv pr env acct r s
      else finishRelaySuccess cfg drv pr env acct r s)"

definition transport_error ::
  "relay_config \<Rightarrow> prepared_request \<Rightarrow> attempt_env \<Rightarrow> account \<Rightarrow> go_error \<Rightarrow> attempt_state \<Rightarrow> attempt_result" where
  "transport_error cfg pr env acct err s =
     (Returned relayAttemptContinue, exclude_account acct (LastTransport err) s,
      (if ac_cell_id acct \<noteq> [] \<and> 0 < rc_cell_error_pause cfg \<and> IsTransport (Some err)
       then [ActCooldownCell (ac_cell_id acct) (ae_now env + rc_cell_error_pause cfg)
               (''relay transport error on account '' @ ac_email acct @ '': '' @ ge_message err)]
       else [])
      @ [transport_failure_log pr env acct ''transport_error''])"

definition validation_log :: "prepared_request \<Rightarrow> attempt_env \<Rightarrow> account \<Rightarrow> int \<Rightarrow> request_log" where
  "validation_log pr env acct status =
     (baseRequestLog env pr acct)
       \<lparr> rl_status := ''validation_'' @ itoa status, rl_effect_kind := requestValidationEffectKind status,
         rl_upstream_status := status, rl_upstream_error_type := ''request_validation_error'' \<rparr>"

text \<open>What happens between the lease and the deferred \<open>Abort\<close>.\<close>

definition leased_attempt ::
  "relay_config \<Rightarrow> execution_driver \<Rightarrow> prepared_request \<Rightarrow> int \<Rightarrow> attempt_env \<Rightarrow> account \<Rightarrow> attempt_state \<Rightarrow> attempt_result" where
  "leased_attempt cfg drv pr attempt env acct s =
     (case ae_token env of
        Inl e \<Rightarrow> (Returned relayAttemptContinue, exclude_account acct (LastToken e) s, [])
      | Inr token \<Rightarrow>
          (case ed_build drv (pr_input pr) acct token of
             Inl (RequestValidationError status msg) \<Rightarrow>
               (Returned relayAttemptDone, s,
                [ActLog (validation_log pr env acct status), ActWriteError status msg])
           | Inl (BuildRequestError e) \<Rightarrow> (Returned relayAttemptStop, s\<lparr>as_last_err := Some (LastBuild e)\<rparr>, [])
           | Inl BuildRequestPanic \<Rightarrow> (Panicked, s, [])
           | Inr upReq \<Rightarrow>
               (case ae_response env of
                  Inl err \<Rightarrow> (case transport_error cfg pr env acct err s of
                                (out, s', acts) \<Rightarrow> (out, s', ActSend upReq # acts))
                | Inr r \<Rightarrow> (case upstream_answer cfg drv pr attempt env acct r s of
                              (out, s', acts) \<Rightarrow> (out, s', ActSend upReq # acts)))))"

definition executeRelayAttempt ::
  "relay_config \<Rightarrow> execution_driver \<Rightarrow> prepared_request \<Rightarrow> int \<Rightarrow> attempt_env \<Rightarrow> attempt_state \<Rightarrow> attempt_result" where
  "executeRelayAttempt cfg drv pr attempt env s =
     (case ae_route env of
        Inl f \<Rightarrow>
          (if affinity_lost f
           then (Returned relayAttemptDone, s,
                 [ActWriteError 400 ''conversation cannot continue on its original upstream account; start a new conversation''])
           else (Returned relayAttemptStop, s\<lparr>as_last_err := Some (LastRoute f)\<rparr>, []))
      | Inr (acct, lease) \<Rightarrow>
          (case leased_attempt cfg drv pr attempt env acct (s\<lparr>as_retry_account := []\<rparr>) of
             (out, s', acts) \<Rightarrow> (out, s', if out = Waiting then acts else acts @ [ActAbort])))"

definition finishRelayFailure :: "prepared_request \<Rightarrow> attempt_state \<Rightarrow> relay_action list" where
  "finishRelayFailure pr s =
     (case as_last_err s of None \<Rightarrow> [] | Some e \<Rightarrow> [ActPublishError e (pr_user_id pr)])
     @ [case as_last_body s of
          Some body \<Rightarrow> ActWriteUpstreamError (as_last_status s) body (ri_is_stream (pr_input pr))
        | None \<Rightarrow> ActWriteError 503 ''no available accounts'']"

section \<open>The loop over attempts\<close>

datatype request_end = Answered | ClientGone | HandlerPanicked | StillWaiting

text \<open>For each attempt: whether the client has gone, and what the attempt meets.\<close>

type_synonym request_env = "int \<Rightarrow> bool \<times> attempt_env"

primrec attempts_loop ::
  "relay_config \<Rightarrow> execution_driver \<Rightarrow> prepared_request \<Rightarrow> request_env \<Rightarrow> nat \<Rightarrow> int \<Rightarrow> attempt_state
   \<Rightarrow> request_end \<times> relay_action list" where
  "attempts_loop cfg drv pr envs 0 attempt s = (Answered, finishRelayFailure pr s)"
| "attempts_loop cfg drv pr envs (Suc n) attempt s =
     (if fst (envs attempt) then (ClientGone, [])
      else (case executeRelayAttempt cfg drv pr attempt (snd (envs attempt)) s of
              (Panicked, _, acts) \<Rightarrow> (HandlerPanicked, acts)
            | (Waiting, _, acts) \<Rightarrow> (StillWaiting, acts)
            | (Returned relayAttemptDone, _, acts) \<Rightarrow> (Answered, acts)
            | (Returned relayAttemptStop, s', acts) \<Rightarrow> (Answered, acts @ finishRelayFailure pr s')
            | (Returned relayAttemptContinue, s', acts) \<Rightarrow>
                (case attempts_loop cfg drv pr envs n (attempt + 1) s' of
                   (fin, acts') \<Rightarrow> (fin, acts @ acts'))))"

definition relay_attempts ::
  "relay_config \<Rightarrow> execution_driver \<Rightarrow> prepared_request \<Rightarrow> request_env \<Rightarrow> request_end \<times> relay_action list" where
  "relay_attempts cfg drv pr envs =
     attempts_loop cfg drv pr envs (nat (rc_max_retry_accounts cfg + 1)) 0 newRelayAttemptState"

end
