(* ===== verification/RelayTrace.thy ===== *)
theory RelayTrace
  imports RelayAttempt RouteProps
begin

text \<open>
  The traces of relayed requests: which actions write to the client and which go upstream, the shape
  of the trace of one attempt, and what an attempt does to the lease that it holds.
\<close>

section \<open>Answers and upstream requests\<close>

definition is_write :: "relay_action \<Rightarrow> bool" where
  "is_write a \<longleftrightarrow>
     (case a of ActWriteError _ _ \<Rightarrow> True | ActWriteUpstreamError _ _ _ \<Rightarrow> True | ActWriteBody _ _ \<Rightarrow> True
      | ActStream _ \<Rightarrow> True | ActForward _ \<Rightarrow> True | ActIntercept \<Rightarrow> True | _ \<Rightarrow> False)"

definition is_send :: "relay_action \<Rightarrow> bool" where
  "is_send a \<longleftrightarrow> (case a of ActSend _ \<Rightarrow> True | _ \<Rightarrow> False)"

lemma is_write_simps [simp]:
  "is_write (ActWriteError st m)" "is_write (ActWriteUpstreamError st b z)" "is_write (ActWriteBody st b)"
  "is_write (ActStream r)" "is_write (ActForward r)" "is_write ActIntercept" "\<not> is_write (ActSend u)" "\<not> is_write (ActObserve i e)"
  "\<not> is_write (ActCooldownCell c t m)" "\<not> is_write (ActAccept d)" "\<not> is_write ActFinish" "\<not> is_write ActAbort"
  "\<not> is_write (ActLog l)" "\<not> is_write (ActPublishError le uid)"
  by (simp_all add: is_write_def)

lemma is_send_simps [simp]:
  "is_send (ActSend u)" "\<not> is_send (ActWriteError st m)" "\<not> is_send (ActWriteUpstreamError st b z)"
  "\<not> is_send (ActWriteBody st b)" "\<not> is_send (ActStream r)" "\<not> is_send (ActForward r)" "\<not> is_send ActIntercept" "\<not> is_send (ActObserve i e)"
  "\<not> is_send (ActCooldownCell c t m)" "\<not> is_send (ActAccept d)" "\<not> is_send ActFinish" "\<not> is_send ActAbort"
  "\<not> is_send (ActLog l)" "\<not> is_send (ActPublishError le uid)"
  by (simp_all add: is_send_def)

lemma transport_failure_log_simps [simp]:
  "\<not> is_write (transport_failure_log pr env a st)" "\<not> is_send (transport_failure_log pr env a st)"
  by (simp_all add: transport_failure_log_def)

text \<open>One answer, after which nothing is sent upstream; or no answer.\<close>

definition one_answer :: "relay_action list \<Rightarrow> bool" where
  "one_answer acts \<longleftrightarrow> (\<exists>pre w post. acts = pre @ w # post \<and> is_write w
     \<and> filter is_write (pre @ post) = [] \<and> filter is_send post = [])"

definition no_answer :: "relay_action list \<Rightarrow> bool" where
  "no_answer acts \<longleftrightarrow> filter is_write acts = []"

definition answered_if :: "bool \<Rightarrow> relay_action list \<Rightarrow> bool" where
  "answered_if b acts \<longleftrightarrow> (if b then one_answer acts else no_answer acts)"

lemma no_answer_simps [simp]:
  "no_answer []" "no_answer (a # as) \<longleftrightarrow> \<not> is_write a \<and> no_answer as"
  "no_answer (as @ bs) \<longleftrightarrow> no_answer as \<and> no_answer bs"
  by (auto simp: no_answer_def)

lemma one_answer_write [simp]: "is_write w \<Longrightarrow> no_answer as \<Longrightarrow> filter is_send as = [] \<Longrightarrow> one_answer (w # as)"
  unfolding one_answer_def no_answer_def by (rule exI [of _ "[]"]) simp

lemma one_answer_skip [simp]: "\<not> is_write a \<Longrightarrow> one_answer as \<Longrightarrow> one_answer (a # as)"
proof -
  assume a: "\<not> is_write a" and "one_answer as"
  then obtain pre w post where "as = pre @ w # post" "is_write w" "filter is_write (pre @ post) = []"
    "filter is_send post = []" unfolding one_answer_def by blast
  with a show ?thesis unfolding one_answer_def by (intro exI [of _ "a # pre"] exI [of _ w] exI [of _ post]) simp
qed

lemma one_answer_after: "no_answer as \<Longrightarrow> one_answer bs \<Longrightarrow> one_answer (as @ bs)"
  by (induction as) simp_all

lemma one_answer_before: "one_answer as \<Longrightarrow> no_answer bs \<Longrightarrow> filter is_send bs = [] \<Longrightarrow> one_answer (as @ bs)"
proof -
  assume b: "no_answer bs" "filter is_send bs = []" and "one_answer as"
  then obtain pre w post where "as = pre @ w # post" "is_write w" "filter is_write (pre @ post) = []"
    "filter is_send post = []" unfolding one_answer_def by blast
  with b show ?thesis unfolding one_answer_def no_answer_def
    by (intro exI [of _ pre] exI [of _ w] exI [of _ "post @ bs"]) simp
qed

section \<open>The shape of an attempt\<close>

text \<open>The part of an attempt after the upstream response sends nothing more, and answers exactly when it
  ends the request.\<close>

definition shaped :: "attempt_result \<Rightarrow> bool" where
  "shaped r \<longleftrightarrow> (case r of (fin, s, acts) \<Rightarrow>
     filter is_send acts = [] \<and> answered_if (fin = Returned relayAttemptDone) acts)"

lemma shapedI [intro]:
  "filter is_send acts = [] \<Longrightarrow> answered_if (fin = Returned relayAttemptDone) acts \<Longrightarrow> shaped (fin, s, acts)"
  by (simp add: shaped_def)

lemma shaped_retriable: "shaped (retriable_response drv pr env a r s)"
  unfolding retriable_response_def Let_def by (simp add: shaped_def answered_if_def)

lemma shaped_failed: "shaped (failed_response drv pr env a r s)"
  unfolding failed_response_def Let_def by (simp add: shaped_def answered_if_def)

lemma shaped_accepted: "shaped (stream_accepted cfg drv pr env a r s)"
  unfolding stream_accepted_def Let_def by (simp add: shaped_def answered_if_def split: option.split)

lemma shaped_rejected: "shaped (stream_rejected pr env a e b s)"
  unfolding stream_rejected_def Let_def by (simp add: shaped_def answered_if_def)

lemma shaped_success: "shaped (finishRelaySuccess cfg drv pr env a r s)"
proof (cases "ri_is_stream (pr_input pr)")
  case True
  have w: "shaped (Waiting, s, [])" by (simp add: shaped_def answered_if_def)
  have e: "shaped (Returned relayAttemptContinue, exclude_account a (LastPreflight err) s,
      [transport_failure_log pr env a ''stream_preflight_error''])" for err
    by (simp add: shaped_def answered_if_def)
  show ?thesis
    using True shaped_accepted shaped_rejected w e
    by (simp add: finishRelaySuccess_def split: option.split sum.split prod.split)
next
  case False
  then show ?thesis
    by (simp add: finishRelaySuccess_def shaped_def answered_if_def Let_def split: option.split body_end.split)
qed

lemma shaped_answer: "shaped (upstream_answer cfg drv pr n env a r s)"
  unfolding upstream_answer_def Let_def using shaped_retriable shaped_failed shaped_success by simp

lemma shaped_transport: "shaped (transport_error cfg pr env a err s)"
  unfolding transport_error_def by (simp add: shaped_def answered_if_def)

definition attempt_shape :: "attempt_result \<Rightarrow> bool" where
  "attempt_shape r \<longleftrightarrow> (case r of (fin, s, acts) \<Rightarrow>
     length (filter is_send acts) \<le> 1 \<and> answered_if (fin = Returned relayAttemptDone) acts)"

lemma shape_after_send:
  assumes "shaped r" shows "attempt_shape (case r of (fin, s, acts) \<Rightarrow> (fin, s, ActSend u # acts))"
  using assms by (cases r) (simp add: shaped_def attempt_shape_def answered_if_def split: if_splits)

lemma attempt_shape_leased: "attempt_shape (leased_attempt cfg drv pr n env a s)"
proof (cases "ae_token env")
  case (Inr token)
  show ?thesis
  proof (cases "ed_build drv (pr_input pr) a token")
    case (Inl e)
    with Inr show ?thesis
      by (cases e) (simp_all add: leased_attempt_def attempt_shape_def answered_if_def)
  next
    case (Inr u)
    with \<open>ae_token env = Inr token\<close> show ?thesis
      using shape_after_send [OF shaped_transport, of u cfg pr env a]
        shape_after_send [OF shaped_answer, of u cfg drv pr n env a]
      by (simp add: leased_attempt_def split: sum.split)
  qed
qed (simp add: leased_attempt_def attempt_shape_def answered_if_def)

lemma attempt_shape_execute: "attempt_shape (executeRelayAttempt cfg drv pr n env s)"
proof (cases "ae_route env")
  case (Inr al)
  obtain fin s' acts where r: "leased_attempt cfg drv pr n env (fst al) (s\<lparr>as_retry_account := []\<rparr>) = (fin, s', acts)"
    by (cases "leased_attempt cfg drv pr n env (fst al) (s\<lparr>as_retry_account := []\<rparr>)")
  from attempt_shape_leased [of cfg drv pr n env "fst al" "s\<lparr>as_retry_account := []\<rparr>"]
  have sh: "length (filter is_send acts) \<le> 1" "answered_if (fin = Returned relayAttemptDone) acts"
    by (simp_all add: r attempt_shape_def)
  have "executeRelayAttempt cfg drv pr n env s = (fin, s', if fin = Waiting then acts else acts @ [ActAbort])"
    using r Inr by (simp add: executeRelayAttempt_def case_prod_beta)
  with sh show ?thesis
    by (auto simp: attempt_shape_def answered_if_def intro: one_answer_before split: if_splits)
qed (simp add: executeRelayAttempt_def attempt_shape_def answered_if_def)

lemma execute_cases:
  assumes "executeRelayAttempt cfg drv pr n env s = (fin, s', acts)"
  shows "length (filter is_send acts) \<le> 1"
    and "fin = Returned relayAttemptDone \<Longrightarrow> one_answer acts"
    and "fin \<noteq> Returned relayAttemptDone \<Longrightarrow> no_answer acts"
  using attempt_shape_execute [of cfg drv pr n env s] assms
  by (auto simp: attempt_shape_def answered_if_def)

lemma finishRelayFailure_shape:
  "one_answer (finishRelayFailure pr s)" "filter is_send (finishRelayFailure pr s) = []"
  by (simp_all add: finishRelayFailure_def split: option.split)

section \<open>The whole request\<close>

lemma attempts_loop_shape:
  "answered_if (fst (attempts_loop cfg drv pr envs k n s) = Answered) (snd (attempts_loop cfg drv pr envs k n s))
   \<and> length (filter is_send (snd (attempts_loop cfg drv pr envs k n s))) \<le> k"
proof (induction k arbitrary: n s)
  case 0
  then show ?case using finishRelayFailure_shape by (simp add: answered_if_def)
next
  case (Suc k)
  show ?case
  proof (cases "fst (envs n)")
    case False
    obtain fin s' acts where x: "executeRelayAttempt cfg drv pr n (snd (envs n)) s = (fin, s', acts)"
      by (cases "executeRelayAttempt cfg drv pr n (snd (envs n)) s")
    note c = execute_cases [OF x]
    show ?thesis
    proof (cases fin)
      case (Returned out)
      show ?thesis
      proof (cases out)
        case relayAttemptContinue
        obtain e acts' where l: "attempts_loop cfg drv pr envs k (n + 1) s' = (e, acts')" by fastforce
        from Suc.IH [of "n + 1" s'] c(1,3) show ?thesis
          by (auto simp: False x Returned relayAttemptContinue l answered_if_def intro: one_answer_after split: if_splits)
      next
        case relayAttemptStop
        with c(1,3) finishRelayFailure_shape show ?thesis
          by (simp add: False x Returned answered_if_def one_answer_after)
      next
        case relayAttemptDone
        with c(1,2) show ?thesis by (simp add: False x Returned answered_if_def)
      qed
    qed (use c(1,3) False x in \<open>simp_all add: answered_if_def\<close>)
  qed (simp add: answered_if_def)
qed

lemma loop_answers:
  assumes "\<And>n. \<not> fst (envs n)"
    and build: "\<And>i a t. ed_build drv i a t \<noteq> Inl BuildRequestPanic"
    and pf: "\<And>f n r st. ed_preflight drv = Some f \<Longrightarrow> f (ae_now (snd (envs n))) (ae_reads (snd (envs n))) r st \<noteq> None"
  shows "fst (attempts_loop cfg drv pr envs k n s) = Answered"
proof (induction k arbitrary: n s)
  case (Suc k)
  let ?env = "snd (envs n)"
  have t: "fst (transport_error cfg pr ?env a err s) = Returned relayAttemptContinue" for a err s
    by (simp add: transport_error_def)
  have u: "\<exists>out. fst (upstream_answer cfg drv pr n ?env a r s) = Returned out" for a r s
  proof -
    have "\<exists>out. fst (finishRelaySuccess cfg drv pr ?env a q s) = Returned out" for q
      using pf [of _ n q "ac_provider_state_json a"]
      by (auto simp: finishRelaySuccess_def stream_accepted_def stream_rejected_def Let_def
          split: option.split sum.split prod.split body_end.split)
    then show ?thesis
      by (auto simp: upstream_answer_def retriable_response_def failed_response_def Let_def)
  qed
  have l: "\<exists>out. fst (leased_attempt cfg drv pr n ?env a s) = Returned out" for a s
  proof (cases "ae_token ?env")
    case (Inr token)
    show ?thesis
    proof (cases "ed_build drv (pr_input pr) a token")
      case (Inl e)
      with build Inr show ?thesis by (cases e) (auto simp: leased_attempt_def)
    next
      case (Inr q)
      with \<open>ae_token ?env = Inr token\<close> t u show ?thesis
        by (auto simp: leased_attempt_def case_prod_beta split: sum.split)
    qed
  qed (simp add: leased_attempt_def)
  have "\<exists>out. fst (executeRelayAttempt cfg drv pr n ?env s) = Returned out"
    using l by (auto simp: executeRelayAttempt_def case_prod_beta split: sum.split)
  then obtain out s' acts where x: "executeRelayAttempt cfg drv pr n ?env s = (Returned out, s', acts)"
    by (metis prod.collapse)
  show ?case
    using assms(1) Suc.IH [of "n + 1" s']
    by (cases out) (simp_all add: x case_prod_beta)
qed simp

end
