(* ===== verification/RelayRequest.thy ===== *)
theory RelayRequest
  imports RelayTrace
begin

text \<open>
  A request of a client from its arrival to its answer (src/internal/relay: relay_request.go,
  relay_count_tokens.go, relay_flow.go): authentication, reading and parsing the body, interception,
  the affinity key, the count_tokens shortcut, and the attempts.  The name-based UUID of the affinity
  key (\<open>uuid.NewSHA1\<close> in the URL namespace) is a parameter.
\<close>

record key_info =
  ki_id :: string
  ki_name :: string
  ki_allowed_surface :: surface
  ki_bound_account :: string
  ki_is_admin :: bool

record client_request =
  cr_key_info :: "key_info option"
  cr_path :: string
  cr_raw_query :: string
  cr_headers :: header
  cr_body :: string
  cr_body_end :: body_end

section \<open>The affinity key\<close>

definition affinity_part :: "string \<Rightarrow> string" where
  "affinity_part part = itoa (int (length part)) @ '':'' @ part"

definition affinity_namespace :: "string list \<Rightarrow> string" where
  "affinity_namespace parts = concat (map affinity_part parts)"

definition affinity_parts :: "string \<Rightarrow> provider \<Rightarrow> surface \<Rightarrow> route_affinity \<Rightarrow> string list" where
  "affinity_parts userID provider srf a =
     [''llm-broker-route-affinity-v1'', userID, provider, NormalizeSurface srf, ra_kind a, trim_space (ra_raw_key a)]"

definition routeAffinityKey :: "(string \<Rightarrow> string) \<Rightarrow> string \<Rightarrow> provider \<Rightarrow> surface \<Rightarrow> route_affinity \<Rightarrow> string" where
  "routeAffinityKey uuid userID provider srf a =
     (if trim_space (ra_raw_key a) = [] then []
      else uuid (affinity_namespace (affinity_parts userID provider srf a)))"

section \<open>Parsing\<close>

text \<open>The limit in bytes: \<open>http.MaxBytesReader\<close> takes a negative limit as 0.\<close>

definition body_limit :: "int \<Rightarrow> int" where
  "body_limit maxMB = max 0 (wrap64 (maxMB * 2 ^ 20))"

datatype parse_error =
    BodyTooLarge
  | BodyUnreadable err
  | BodyInvalid

definition parseRelayInput ::
  "int \<Rightarrow> execution_driver \<Rightarrow> client_request \<Rightarrow> key_info \<Rightarrow> parse_error + relay_input \<times> relay_plan" where
  "parseRelayInput maxMB drv req ki =
     (if body_limit maxMB < int (length (cr_body req)) then Inl BodyTooLarge
      else (case cr_body_end req of
              EndError e \<Rightarrow> Inl (BodyUnreadable e)
            | EndOK \<Rightarrow>
                (case unmarshal_map (cr_body req) of
                   None \<Rightarrow> Inl BodyInvalid
                 | Some om \<Rightarrow>
                     (let body = map_value om;
                          inp = \<lparr> ri_body = body, ri_raw_body = cr_body req, ri_headers = cr_headers req,
                                  ri_path = cr_path req, ri_raw_query = cr_raw_query req,
                                  ri_model = jstring (map_of body ''model''), ri_user_id = ki_id ki,
                                  ri_is_stream = False, ri_is_count_tokens = False \<rparr>;
                          plan = ed_plan drv inp
                      in Inr (inp\<lparr> ri_is_stream := rp_is_stream plan, ri_is_count_tokens := rp_is_count_tokens plan \<rparr>,
                              plan)))))"

text \<open>The answer to an unusable body; an unreadable one is also published on the bus.\<close>

definition parse_failure :: "parse_error \<Rightarrow> key_info \<Rightarrow> relay_action list" where
  "parse_failure e ki =
     (case e of
        BodyTooLarge \<Rightarrow> [ActWriteError 413 ''request body exceeds size limit'']
      | BodyUnreadable err \<Rightarrow> [ActWriteError 400 ''failed to read request body'', ActPublishError (LastRead err) (ki_id ki)]
      | BodyInvalid \<Rightarrow> [ActWriteError 400 ''invalid JSON body''])"

section \<open>Counting tokens\<close>

definition count_tokens_leased ::
  "execution_driver \<Rightarrow> attempt_env \<Rightarrow> relay_input \<Rightarrow> account \<Rightarrow> request_end \<times> relay_action list" where
  "count_tokens_leased drv env inp acct =
     (case ae_token env of
        Inl e \<Rightarrow> (Answered, [ActWriteError 503 ''token unavailable''])
      | Inr token \<Rightarrow>
          (case ed_build drv inp acct token of
             Inl (RequestValidationError status msg) \<Rightarrow> (Answered, [ActWriteError status msg])
           | Inl (BuildRequestError e) \<Rightarrow> (Answered, [ActWriteError 500 ''failed to build request''])
           | Inl BuildRequestPanic \<Rightarrow> (HandlerPanicked, [])
           | Inr upReq \<Rightarrow>
               (case ae_response env of
                  Inl err \<Rightarrow> (Answered, [ActSend upReq, ActWriteError 502 ''upstream request failed''])
                | Inr r \<Rightarrow>
                    (case ae_accept env of
                       Some err \<Rightarrow> (Answered, [ActSend upReq, ActAccept 0, ActWriteError 503 ''route state unavailable''])
                     | None \<Rightarrow> (Answered, [ActSend upReq, ActAccept 0, ActForward r, ActFinish])))))"

definition count_tokens_route :: "relay_input \<Rightarrow> key_info \<Rightarrow> surface \<Rightarrow> route_request" where
  "count_tokens_route inp ki srf =
     \<lparr> rq_exclusions = [], rq_model = ri_model inp, rq_surface = srf,
       rq_hard_account_id = ki_bound_account ki, rq_affinity_key = [], rq_continuity = AffinityNone \<rparr>"

definition handleCountTokens ::
  "execution_driver \<Rightarrow> attempt_env \<Rightarrow> relay_input \<Rightarrow> request_end \<times> relay_action list" where
  "handleCountTokens drv env inp =
     (case ae_route env of
        Inl f \<Rightarrow> (Answered, [ActWriteError 503 ''no available accounts''])
      | Inr (acct, lease) \<Rightarrow>
          (case count_tokens_leased drv env inp acct of (fin, acts) \<Rightarrow> (fin, acts @ [ActAbort])))"

section \<open>Preparing and handling a request\<close>

datatype preparation =
    Handled request_end "relay_action list"
  | Prepared prepared_request

definition prepareRelayRequest ::
  "(string \<Rightarrow> string) \<Rightarrow> int \<Rightarrow> execution_driver \<Rightarrow> surface \<Rightarrow> client_request \<Rightarrow> attempt_env \<Rightarrow> preparation" where
  "prepareRelayRequest uuid maxMB drv srf req env =
     (case cr_key_info req of
        None \<Rightarrow> Handled Answered [ActWriteError 401 ''not authenticated'']
      | Some ki \<Rightarrow>
          (case parseRelayInput maxMB drv req ki of
             Inl e \<Rightarrow> Handled Answered (parse_failure e ki)
           | Inr (inp, plan) \<Rightarrow>
               (if ed_intercept drv (ri_body inp) (ri_model inp) then Handled Answered [ActIntercept]
                else if rp_is_count_tokens plan
                then (case handleCountTokens drv env inp of (fin, acts) \<Rightarrow> Handled fin acts)
                else (let affinityKey = routeAffinityKey uuid (ki_id ki) (sd_provider (ed_scheduler drv)) srf (rp_affinity plan)
                      in if ra_continuity (rp_affinity plan) = AffinityRequire \<and> affinityKey = [] \<and> ki_bound_account ki = []
                         then Handled Answered
                                [ActWriteError 400 ''conversation continuity cannot be resolved; start a new conversation'']
                         else Prepared
                                \<lparr> pr_user_id = ki_id ki, pr_bound_account = ki_bound_account ki, pr_input = inp,
                                  pr_surface = srf, pr_affinity_key = affinityKey,
                                  pr_continuity = ra_continuity (rp_affinity plan) \<rparr>))))"

definition handleWithDriver ::
  "(string \<Rightarrow> string) \<Rightarrow> int \<Rightarrow> relay_config \<Rightarrow> execution_driver \<Rightarrow> surface \<Rightarrow> client_request \<Rightarrow> request_env
   \<Rightarrow> request_end \<times> relay_action list" where
  "handleWithDriver uuid maxMB cfg drv srf req envs =
     (case prepareRelayRequest uuid maxMB drv srf req (snd (envs 0)) of
        Handled fin acts \<Rightarrow> (fin, acts)
      | Prepared pr \<Rightarrow> relay_attempts cfg drv pr envs)"

section \<open>Facts\<close>

lemma count_tokens_shape:
  "answered_if (fst (handleCountTokens drv env inp) = Answered) (snd (handleCountTokens drv env inp))"
proof (cases "ae_route env")
  case (Inr al)
  obtain a l where al: "al = (a, l)" by (cases al)
  have "answered_if (fst (count_tokens_leased drv env inp a) = Answered) (snd (count_tokens_leased drv env inp a))"
    by (simp add: count_tokens_leased_def answered_if_def split: sum.split build_error.split option.split)
  then show ?thesis
    using Inr al by (auto simp: handleCountTokens_def answered_if_def case_prod_beta intro: one_answer_before split: if_splits)
qed (simp add: handleCountTokens_def answered_if_def)

lemma prepare_shape:
  assumes "prepareRelayRequest uuid maxMB drv srf req env = Handled fin acts"
  shows "answered_if (fin = Answered) acts"
proof -
  have p: "one_answer (parse_failure e ki)" for e ki by (cases e) (simp_all add: parse_failure_def)
  from assms show ?thesis
    using p count_tokens_shape [of drv env]
    by (auto simp: prepareRelayRequest_def answered_if_def Let_def case_prod_beta
        split: option.splits sum.splits if_splits)
qed

text \<open>The affinity namespace determines its parts.\<close>

lemma takeWhile_digits:
  "list_all is_digit ds \<Longrightarrow> takeWhile is_digit (ds @ CHR '':'' # r) = ds
   \<and> dropWhile is_digit (ds @ CHR '':'' # r) = CHR '':'' # r"
  by (induction ds) (simp_all add: is_digit_def)

lemma affinity_part_inj:
  assumes "affinity_part p @ r = affinity_part q @ t"
  shows "p = q \<and> r = t"
proof -
  let ?d = "\<lambda>p. nat_digits (length p)"
  have d: "affinity_part p = ?d p @ CHR '':'' # p" for p by (simp add: affinity_part_def itoa_def)
  from assms have e: "?d p @ CHR '':'' # (p @ r) = ?d q @ CHR '':'' # (q @ t)" by (simp add: d)
  have "?d p = ?d q" "p @ r = q @ t"
    using arg_cong [OF e, of "takeWhile is_digit"] arg_cong [OF e, of "dropWhile is_digit"]
      takeWhile_digits [OF nat_digits_all, of "length p" "p @ r"]
      takeWhile_digits [OF nat_digits_all, of "length q" "q @ t"] by simp_all
  moreover from this(1) have "length p = length q" by (metis digits_val_nat_digits)
  ultimately show ?thesis by simp
qed

lemma affinity_namespace_inj:
  "length ps = length qs \<Longrightarrow> affinity_namespace ps = affinity_namespace qs \<Longrightarrow> ps = qs"
proof (induction ps qs rule: list_induct2)
  case (Cons p ps q qs)
  then have "affinity_part p @ affinity_namespace ps = affinity_part q @ affinity_namespace qs"
    by (simp add: affinity_namespace_def)
  from affinity_part_inj [OF this] Cons.IH show ?case by simp
qed simp

end
