(* ===== verification/CodexStream.thy ===== *)
theory CodexStream
  imports CodexRelay
begin

text \<open>
  The preflight of an event stream does not depend on how the network cuts the body into reads: the
  first complete event is the same for every prefix that contains it.
\<close>

section \<open>Searching in a longer text\<close>

lemma has_prefix_length: "has_prefix s p \<Longrightarrow> length p \<le> length s"
  by (metis has_prefix_def length_take min.cobounded1)

lemma has_prefix_more: "length p \<le> length s \<Longrightarrow> has_prefix (s @ t) p = has_prefix s p"
  by (simp add: has_prefix_def)

lemma has_prefix_nth: "has_prefix (drop k s) p \<Longrightarrow> m < length p \<Longrightarrow> k + m < length s \<and> s ! (k + m) = p ! m"
proof -
  assume a: "has_prefix (drop k s) p" "m < length p"
  from has_prefix_length [OF a(1)] a(2) have l: "k + m < length s" by simp
  from a have "take (length p) (drop k s) ! m = p ! m" by (simp add: has_prefix_def)
  with a(2) l show ?thesis by simp
qed

lemma str_index_Some: "str_index s p = Some i \<Longrightarrow> has_prefix (drop i s) p \<and> i + length p \<le> length s"
proof (induction s p arbitrary: i rule: str_index.induct)
  case (2 c cs p)
  then show ?case
    using has_prefix_length [of "c # cs" p] by (cases "has_prefix (c # cs) p") (auto split: option.splits)
qed (simp split: if_splits)

lemma str_index_first: "has_prefix (drop k s) p \<Longrightarrow> k \<le> length s \<Longrightarrow> \<exists>i \<le> k. str_index s p = Some i"
proof (induction s p arbitrary: k rule: str_index.induct)
  case (1 p)
  then show ?case by (simp add: has_prefix_def)
next
  case (2 c cs p)
  show ?case
  proof (cases "has_prefix (c # cs) p")
    case False
    with "2.prems" obtain k' where k: "k = Suc k'" by (cases k) auto
    with "2.IH" [OF False, of k'] "2.prems" False show ?thesis by auto
  qed simp
qed

lemma str_index_append_Some: "str_index s p = Some i \<Longrightarrow> str_index (s @ t) p = Some i"
proof (induction s p arbitrary: i rule: str_index.induct)
  case (1 p)
  then show ?case by (cases t) (simp_all split: if_splits)
next
  case (2 c cs p)
  have "length p \<le> length (c # cs)" using str_index_Some [OF "2.prems"] by simp
  then have "has_prefix (c # (cs @ t)) p = has_prefix (c # cs) p"
    using has_prefix_more [of p "c # cs" t] by simp
  with 2 show ?case by (auto split: if_splits)
qed

section \<open>The first complete event\<close>

abbreviation "lf_sep \<equiv> [newline, newline]"
abbreviation "crlf_sep \<equiv> [CHR 0x0D, newline, CHR 0x0D, newline]"

lemma firstComplete_cases:
  "firstCompleteSSEEvent d =
     (case (str_index d lf_sep, str_index d crlf_sep) of
        (None, None) \<Rightarrow> None
      | (Some i, None) \<Rightarrow> Some (take (i + 2) d)
      | (None, Some j) \<Rightarrow> Some (take (j + 4) d)
      | (Some i, Some j) \<Rightarrow> Some (if j < i then take (j + 4) d else take (i + 2) d))"
  by (simp add: firstCompleteSSEEvent_def event_separators_def eval_nat_numeral split: option.split)

lemma crlf_not_before_lf:
  assumes "str_index p lf_sep = Some i" "str_index p crlf_sep = None" "str_index (p @ q) crlf_sep = Some j"
  shows "\<not> j < i"
proof
  assume lt: "j < i"
  from str_index_Some [OF assms(3)] have pre: "has_prefix (drop j (p @ q)) crlf_sep" by simp
  from str_index_Some [OF assms(1)] have i: "has_prefix (drop i p) lf_sep" "i + 2 \<le> length p" by simp_all
  have "length p < j + 4"
  proof (rule ccontr)
    assume "\<not> ?thesis"
    then have "drop j (p @ q) = drop j p @ q" "4 \<le> length (drop j p)" by simp_all
    with pre have "has_prefix (drop j p) crlf_sep" using has_prefix_more [of crlf_sep "drop j p" q] by simp
    with str_index_first [OF this] lt i(2) assms(2) show False by simp
  qed
  with lt i(2) have ij: "i = j + 1" by simp
  have "(p @ q) ! (j + 2) = CHR 0x0D" using has_prefix_nth [OF pre, of 2] by simp
  moreover have "p ! (i + 1) = newline" using has_prefix_nth [OF i(1), of 1] by simp
  ultimately show False using ij i(2) by (simp add: nth_append newline_def)
qed

lemma lf_not_before_crlf:
  assumes "str_index p crlf_sep = Some j" "str_index p lf_sep = None" "str_index (p @ q) lf_sep = Some i"
  shows "j < i"
proof (rule ccontr)
  assume "\<not> j < i"
  from str_index_Some [OF assms(3)] have pre: "has_prefix (drop i (p @ q)) lf_sep" by simp
  from str_index_Some [OF assms(1)] have j: "j + 4 \<le> length p" by simp
  with \<open>\<not> j < i\<close> have "drop i (p @ q) = drop i p @ q" "2 \<le> length (drop i p)" by simp_all
  with pre have "has_prefix (drop i p) lf_sep" using has_prefix_more [of lf_sep "drop i p" q] by simp
  with str_index_first [OF this] j \<open>\<not> j < i\<close> assms(2) show False by simp
qed

lemma firstComplete_append:
  assumes "firstCompleteSSEEvent p = Some ev"
  shows "firstCompleteSSEEvent (p @ q) = Some ev"
proof -
  note more = str_index_append_Some [of p _ _ q]
  consider (b) i j where "str_index p lf_sep = Some i" "str_index p crlf_sep = Some j"
    | (l) i where "str_index p lf_sep = Some i" "str_index p crlf_sep = None"
    | (c) j where "str_index p lf_sep = None" "str_index p crlf_sep = Some j"
    using assms by (auto simp: firstComplete_cases split: option.splits)
  then show ?thesis
  proof cases
    case b
    with more [OF b(1)] more [OF b(2)] str_index_Some [OF b(1)] str_index_Some [OF b(2)] assms
    show ?thesis by (auto simp: firstComplete_cases)
  next
    case l
    from l str_index_Some [OF l(1)] assms have "ev = take (i + 2) p" "i + 2 \<le> length p"
      by (simp_all add: firstComplete_cases)
    with more [OF l(1)] crlf_not_before_lf [OF l] show ?thesis
      by (simp add: firstComplete_cases split: option.split)
  next
    case c
    from c str_index_Some [OF c(2)] assms have "ev = take (j + 4) p" "j + 4 \<le> length p"
      by (simp_all add: firstComplete_cases)
    with more [OF c(2)] lf_not_before_crlf [OF c(2,1)] show ?thesis
      by (simp add: firstComplete_cases split: option.split)
  qed
qed

section \<open>The verdict of the preflight\<close>

text \<open>The decision as a function of the bytes alone.\<close>

definition preflight_verdict :: "string \<Rightarrow> string option" where
  "preflight_verdict data =
     (case firstCompleteSSEEvent (take codexSSEPreflightMaxBytes data) of
        Some ev \<Rightarrow> codexSSECapacityPattern ev
      | None \<Rightarrow> (if length data < codexSSEPreflightMaxBytes then codexSSECapacityPattern data else None))"

definition verdict_of :: "preflight \<Rightarrow> string option" where
  "verdict_of r = (case r of PreflightCapacity p _ \<Rightarrow> Some p | _ \<Rightarrow> None)"

definition plain_turn :: "read_turn \<Rightarrow> bool" where
  "plain_turn t \<longleftrightarrow> (case t of ReadUpTo k _ \<Rightarrow> 0 < k | Cancelled _ \<Rightarrow> False)"

lemma preflight_turn_cases:
  assumes "plain_turn t" and "length pre < codexSSEPreflightMaxBytes" and "firstCompleteSSEEvent pre = None"
    and "length (pre @ rest) \<noteq> codexSSEPreflightMaxBytes"
  shows "(\<exists>r. preflight_turn EndOK t pre rest = Inl r \<and> verdict_of r = preflight_verdict (pre @ rest)
            \<and> (\<forall>b. r = PreflightAccept b \<longrightarrow> b = pre @ rest) \<and> (\<forall>e. r \<noteq> PreflightError e))
       \<or> (\<exists>pre' rest'. preflight_turn EndOK t pre rest = Inr (pre', rest') \<and> pre' @ rest' = pre @ rest
            \<and> length pre < length pre' \<and> length pre' \<le> codexSSEPreflightMaxBytes
            \<and> firstCompleteSSEEvent pre' = None)"
proof -
  obtain k early where t: "t = ReadUpTo k early" "0 < k"
    using assms(1) by (cases t) (auto simp: plain_turn_def)
  let ?M = codexSSEPreflightMaxBytes
  define n where "n = min (min k (min 1024 (?M - length pre))) (length rest)"
  define pre' rest' where "pre' = pre @ take n rest" and "rest' = drop n rest"
  have data: "pre' @ rest' = pre @ rest" by (simp add: pre'_def rest'_def)
  have len: "length pre' = length pre + n" by (simp add: pre'_def n_def)
  have le: "length pre' \<le> ?M" using assms(2) by (simp add: len n_def)
  have pos: "n = 0 \<longleftrightarrow> rest = []" using t(2) assms(2) by (cases "rest = []") (auto simp: n_def min_def)
  let ?ev = "if 0 < n then firstCompleteSSEEvent pre' else None"
  have turn: "preflight_turn EndOK t pre rest =
     (case ?ev of
        Some ev \<Rightarrow> (case codexSSECapacityPattern ev of Some p \<Rightarrow> Inl (PreflightCapacity p pre')
                   | None \<Rightarrow> Inl (PreflightAccept (pre' @ rest')))
      | None \<Rightarrow> (if rest' = [] \<and> (n = 0 \<or> early)
                then (case codexSSECapacityPattern pre' of Some p \<Rightarrow> Inl (PreflightCapacity p pre')
                      | None \<Rightarrow> Inl (PreflightAccept (pre' @ rest')))
                else Inr (pre', rest')))"
    unfolding preflight_turn_def t(1) read_turn.case body_end.case Let_def n_def pre'_def rest'_def by (rule refl)
  show ?thesis
  proof (cases ?ev)
    case (Some ev)
    then have c: "firstCompleteSSEEvent pre' = Some ev" by (simp split: if_splits)
    have "take ?M (pre @ rest) = pre' @ take (?M - length pre') rest'"
      using le by (simp flip: data)
    then have "firstCompleteSSEEvent (take ?M (pre @ rest)) = Some ev"
      using firstComplete_append [OF c] by simp
    then have "preflight_verdict (pre @ rest) = codexSSECapacityPattern ev" by (simp add: preflight_verdict_def)
    then show ?thesis unfolding turn Some
      by (cases "codexSSECapacityPattern ev") (simp_all add: verdict_of_def data)
  next
    case None
    then have c: "firstCompleteSSEEvent pre' = None"
      using assms(3) pos by (cases "n = 0") (simp_all add: pre'_def)
    show ?thesis
    proof (cases "rest' = [] \<and> (n = 0 \<or> early)")
      case True
      with data have d: "pre' = pre @ rest" by simp
      then have "length (pre @ rest) < ?M" using le assms(4) by simp
      then have "preflight_verdict (pre @ rest) = codexSSECapacityPattern pre'"
        using c d by (simp add: preflight_verdict_def)
      then show ?thesis unfolding turn None
        using True by (cases "codexSSECapacityPattern pre'") (simp_all add: verdict_of_def d)
    next
      case False
      then have "0 < n" using pos by (auto simp: rest'_def)
      with False show ?thesis unfolding turn None using data le len c by auto
    qed
  qed
qed

lemma preflight_loop_verdict:
  assumes "list_all plain_turn ts" and "codexSSEPreflightMaxBytes < length ts + length pre"
    and "length pre \<le> codexSSEPreflightMaxBytes"
    and "firstCompleteSSEEvent pre = None" and "length (pre @ rest) \<noteq> codexSSEPreflightMaxBytes"
  shows "\<exists>r. preflight_loop EndOK ts pre rest = Some r \<and> verdict_of r = preflight_verdict (pre @ rest)
     \<and> (\<forall>b. r = PreflightAccept b \<longrightarrow> b = pre @ rest) \<and> (\<forall>e. r \<noteq> PreflightError e)"
  using assms
proof (induction ts arbitrary: pre rest)
  case (Cons t ts)
  let ?M = codexSSEPreflightMaxBytes
  show ?case
  proof (cases "?M \<le> length pre")
    case True
    then have "length pre = ?M" using Cons.prems(3) by simp
    then have "preflight_verdict (pre @ rest) = None"
      using Cons.prems(4,5) by (simp add: preflight_verdict_def)
    with True show ?thesis by (simp add: verdict_of_def)
  next
    case False
    then have lt: "length pre < ?M" by simp
    have plain: "plain_turn t" using Cons.prems(1) by simp
    from preflight_turn_cases [OF plain lt Cons.prems(4,5)] show ?thesis
    proof (elim disjE exE conjE)
      fix r assume "preflight_turn EndOK t pre rest = Inl r" "verdict_of r = preflight_verdict (pre @ rest)"
        "\<forall>b. r = PreflightAccept b \<longrightarrow> b = pre @ rest" "\<forall>e. r \<noteq> PreflightError e"
      with False show ?thesis by simp
    next
      fix pre' rest' assume s: "preflight_turn EndOK t pre rest = Inr (pre', rest')" "pre' @ rest' = pre @ rest"
        "length pre < length pre'" "length pre' \<le> ?M" "firstCompleteSSEEvent pre' = None"
      have "\<exists>r. preflight_loop EndOK ts pre' rest' = Some r \<and> verdict_of r = preflight_verdict (pre' @ rest')
          \<and> (\<forall>b. r = PreflightAccept b \<longrightarrow> b = pre' @ rest') \<and> (\<forall>e. r \<noteq> PreflightError e)"
        by (rule Cons.IH) (use Cons.prems s in auto)
      with s(1,2) False show ?thesis by simp
    qed
  qed
qed simp

text \<open>Whatever the turns, bytes are never lost or invented.\<close>

lemma preflight_turn_bytes:
  "(\<forall>b. preflight_turn fin t pre rest = Inl (PreflightAccept b) \<longrightarrow> b = pre @ rest)
   \<and> (\<forall>p q. preflight_turn fin t pre rest = Inr (p, q) \<longrightarrow> p @ q = pre @ rest)"
proof (cases t)
  case (ReadUpTo k early)
  define n where "n = min (min k (min 1024 (codexSSEPreflightMaxBytes - length pre))) (length rest)"
  define ev where "ev = (if 0 < n then firstCompleteSSEEvent (pre @ take n rest) else None)"
  have "preflight_turn fin t pre rest =
     (case ev of
        Some ev \<Rightarrow> (case codexSSECapacityPattern ev of Some p \<Rightarrow> Inl (PreflightCapacity p (pre @ take n rest))
                   | None \<Rightarrow> Inl (PreflightAccept (pre @ rest)))
      | None \<Rightarrow> (if drop n rest = [] \<and> (n = 0 \<or> early)
                then (case fin of EndError e \<Rightarrow> Inl (PreflightError e)
                      | EndOK \<Rightarrow> (case codexSSECapacityPattern (pre @ take n rest) of
                                   Some p \<Rightarrow> Inl (PreflightCapacity p (pre @ take n rest))
                                 | None \<Rightarrow> Inl (PreflightAccept (pre @ rest))))
                else Inr (pre @ take n rest, drop n rest)))"
    unfolding preflight_turn_def ReadUpTo read_turn.case Let_def n_def ev_def append_assoc append_take_drop_id
    by (rule refl)
  then show ?thesis by (auto split: option.split body_end.split)
qed (simp add: preflight_turn_def)

lemma preflight_loop_replay:
  "preflight_loop fin ts pre rest = Some (PreflightAccept b) \<Longrightarrow> b = pre @ rest"
proof (induction ts arbitrary: pre rest)
  case (Cons t ts)
  show ?case
  proof (cases "codexSSEPreflightMaxBytes \<le> length pre")
    case False
    note turn = preflight_turn_bytes [of fin t pre rest]
    show ?thesis
    proof (cases "preflight_turn fin t pre rest")
      case (Inl r)
      with Cons.prems False turn show ?thesis by simp
    next
      case (Inr pq)
      then obtain p q where "preflight_turn fin t pre rest = Inr (p, q)" by (cases pq) simp
      with Cons.prems False turn Cons.IH [of p q] show ?thesis by simp
    qed
  qed (use Cons.prems in simp)
qed (simp split: if_splits)

end
