(* ===== verification/Claude.thy ===== *)
theory Claude
  imports DriverApi
begin

text \<open>
  The Claude driver: models and prices (src/internal/driver/claude_models.go), the quota state and the
  error bodies (claude_support.go), scheduling (claude_admin.go), the classification of responses
  (claude.go).  \<open>time.Now\<close> is an argument, read once per call.
\<close>

section \<open>Models and prices\<close>

record claude_model_entry =
  me_public_id :: string
  me_upstream_id :: string
  me_context_window :: int
  me_advertise :: bool
  me_code_system_envelope :: bool
  me_compat_modern_envelope :: bool
  me_pricing :: model_pricing

definition claude_pricing :: "rat \<Rightarrow> rat \<Rightarrow> rat \<Rightarrow> rat \<Rightarrow> model_pricing" where
  "claude_pricing i out r c =
     \<lparr> mp_input = fl i, mp_output = fl out, mp_cache_read = fl r, mp_cache_create = fl c \<rparr>"

definition claudeFablePricing :: model_pricing where "claudeFablePricing = claude_pricing 10 50 1 (25/2)"
definition claudeOpusPricing :: model_pricing where "claudeOpusPricing = claude_pricing 5 25 (1/2) (25/4)"
definition claudeSonnetPricing :: model_pricing where "claudeSonnetPricing = claude_pricing 3 15 (3/10) (15/4)"
definition claudeSonnet5Pricing :: model_pricing where "claudeSonnet5Pricing = claude_pricing 2 10 (1/5) (5/2)"
definition claudeHaikuPricing :: model_pricing where "claudeHaikuPricing = claude_pricing 1 5 (1/10) (5/4)"

definition claude_entry :: "string \<Rightarrow> string \<Rightarrow> int \<Rightarrow> bool \<Rightarrow> bool \<Rightarrow> bool \<Rightarrow> model_pricing \<Rightarrow> claude_model_entry" where
  "claude_entry pub up w adv code modern pr =
     \<lparr> me_public_id = pub, me_upstream_id = up, me_context_window = w, me_advertise = adv,
       me_code_system_envelope = code, me_compat_modern_envelope = modern, me_pricing = pr \<rparr>"

definition claudeModelEntries :: "claude_model_entry list" where
  "claudeModelEntries =
     [claude_entry ''claude-fable-5'' ''claude-fable-5'' 1000000 True True False claudeFablePricing,
      claude_entry ''claude-opus-5-5'' ''claude-opus-5-5'' 1000000 True True True claudeOpusPricing,
      claude_entry ''claude-opus-5'' ''claude-opus-5'' 1000000 True True True claudeOpusPricing,
      claude_entry ''claude-opus-4-8'' ''claude-opus-4-8'' 1000000 True True False claudeOpusPricing,
      claude_entry ''claude-opus-4-7'' ''claude-opus-4-7'' 200000 True True False claudeOpusPricing,
      claude_entry ''claude-opus-4-6'' ''claude-opus-4-6'' 200000 True True True claudeOpusPricing,
      claude_entry ''claude-opus-4-5'' ''claude-opus-4-5'' 200000 True True False claudeOpusPricing,
      claude_entry ''claude-opus-4-1'' ''claude-opus-4-1'' 200000 True True False claudeOpusPricing,
      claude_entry ''claude-opus-4'' ''claude-opus-4'' 200000 True True False claudeOpusPricing,
      claude_entry ''claude-sonnet-5-5'' ''claude-sonnet-5-5'' 1000000 True True True claudeSonnet5Pricing,
      claude_entry ''claude-sonnet-5'' ''claude-sonnet-5'' 1000000 True True True claudeSonnet5Pricing,
      claude_entry ''claude-sonnet-4-6'' ''claude-sonnet-4-6'' 200000 True True True claudeSonnetPricing,
      claude_entry ''claude-sonnet-4-5'' ''claude-sonnet-4-5'' 200000 True True False claudeSonnetPricing,
      claude_entry ''claude-sonnet-4'' ''claude-sonnet-4'' 200000 True True False claudeSonnetPricing,
      claude_entry ''claude-haiku-4-5-20251001'' ''claude-haiku-4-5-20251001'' 200000 True False False claudeHaikuPricing,
      claude_entry ''claude-haiku-4-5'' ''claude-haiku-4-5-20251001'' 200000 True False False claudeHaikuPricing,
      claude_entry ''claude-haiku-4-6'' ''claude-haiku-4-5-20251001'' 200000 False False False claudeHaikuPricing]"

definition claudeSupportedModels :: "model_info list" where
  "claudeSupportedModels =
     map (\<lambda>e. \<lparr> mi_id = me_public_id e, mi_object = ''model'', mi_created = 1709164800,
                mi_owned_by = ''anthropic'', mi_context_window = me_context_window e \<rparr>)
       (filter me_advertise claudeModelEntries)"

definition claudeModelEntryForID :: "string \<Rightarrow> claude_model_entry option" where
  "claudeModelEntryForID model =
     (let normalized = to_lower (trim_space model) in
      List.find (\<lambda>e. normalized = me_public_id e \<or> normalized = me_upstream_id e) claudeModelEntries)"

definition ClaudeModelUsesCodeSystemEnvelope :: "string \<Rightarrow> bool" where
  "ClaudeModelUsesCodeSystemEnvelope model =
     (case claudeModelEntryForID model of Some e \<Rightarrow> me_code_system_envelope e | None \<Rightarrow> False)"

definition ClaudeModelUsesCompatModernEnvelope :: "string \<Rightarrow> bool" where
  "ClaudeModelUsesCompatModernEnvelope model =
     (case claudeModelEntryForID model of Some e \<Rightarrow> me_compat_modern_envelope e | None \<Rightarrow> False)"

text \<open>A request that is refused locally: the status and the message.\<close>

type_synonym validation_error = "int \<times> string"

definition normalizeClaudeModelID :: "string \<Rightarrow> validation_error + string" where
  "normalizeClaudeModelID model =
     (let trimmed = trim_space model; lower = to_lower trimmed in
      if trimmed = [] then Inl (400, ''model is required'')
      else (case claudeModelEntryForID lower of
              Some e \<Rightarrow> Inr (me_upstream_id e)
            | None \<Rightarrow>
                (if list_ex (has_prefix lower) [''gpt-'', ''codex-'', ''o1'', ''o3'', ''o4''] then
                   Inl (400, ''model '' @ go_quote trimmed
                     @ '' does not belong to Claude; use the OpenAI/Codex relay instead'')
                 else if has_prefix lower ''gemini-'' then
                   Inl (400, ''model '' @ go_quote trimmed @ '' does not belong to Claude; use the Gemini relay instead'')
                 else Inl (400, ''unsupported Claude model '' @ go_quote trimmed))))"

definition normalizeClaudeModelField :: "(string \<times> json) list \<Rightarrow> validation_error + (string \<times> json) list" where
  "normalizeClaudeModelField body =
     (case normalizeClaudeModelID (jstring (map_of body ''model'')) of
        Inl e \<Rightarrow> Inl e
      | Inr model \<Rightarrow> Inr (AList.update ''model'' (JStr model) body))"

definition isOpusModel :: "string \<Rightarrow> bool" where
  "isOpusModel model = contains (to_lower model) ''opus''"

definition claude_CalcCost :: "string \<Rightarrow> token_usage option \<Rightarrow> rat" where
  "claude_CalcCost model ou =
     (case ou of
        None \<Rightarrow> 0
      | Some u \<Rightarrow>
          weighted_cost (case claudeModelEntryForID model of Some e \<Rightarrow> me_pricing e | None \<Rightarrow> claudeSonnetPricing)
            (InputTokens u) (OutputTokens u) (CacheReadTokens u) (CacheCreateTokens u))"

section \<open>The quota state\<close>

record claude_state =
  cl5_util :: rat
  cl5_reset :: int
  cl7_util :: rat
  cl7_reset :: int
  cl_opus_until :: int

definition empty_claude_state :: claude_state where
  "empty_claude_state = \<lparr> cl5_util = 0, cl5_reset = 0, cl7_util = 0, cl7_reset = 0, cl_opus_until = 0 \<rparr>"

definition claude_fields :: "(string \<times> claude_state field) list" where
  "claude_fields =
     [(''five_hour_util'', float_field (\<lambda>x s. s\<lparr>cl5_util := x\<rparr>)),
      (''five_hour_reset'', int_field (\<lambda>x s. s\<lparr>cl5_reset := x\<rparr>)),
      (''seven_day_util'', float_field (\<lambda>x s. s\<lparr>cl7_util := x\<rparr>)),
      (''seven_day_reset'', int_field (\<lambda>x s. s\<lparr>cl7_reset := x\<rparr>)),
      (''opus_cooldown_until'', int_field (\<lambda>x s. s\<lparr>cl_opus_until := x\<rparr>))]"

definition claude_members :: "claude_state \<Rightarrow> (string \<times> json) list" where
  "claude_members s =
     [(''five_hour_util'', JNum (print_float (cl5_util s))), (''five_hour_reset'', JNum (itoa (cl5_reset s))),
      (''seven_day_util'', JNum (print_float (cl7_util s))), (''seven_day_reset'', JNum (itoa (cl7_reset s)))]
     @ omit_int ''opus_cooldown_until'' (cl_opus_until s)"

definition encode_claude :: "claude_state \<Rightarrow> string" where
  "encode_claude s = json_print (JObj (claude_members s))"

definition decode_claude :: "string \<Rightarrow> claude_state" where
  "decode_claude text = fst (unmarshal claude_fields text empty_claude_state)"

definition claude_state_of :: "string \<Rightarrow> claude_state option" where
  "claude_state_of text = unmarshal_ok claude_fields text empty_claude_state"

definition float_header :: "string \<Rightarrow> rat" where
  "float_header v = (case parse_float v of Some x \<Rightarrow> x | None \<Rightarrow> 0)"

definition int_header :: "string \<Rightarrow> int" where
  "int_header v = (case parse_int v of Some n \<Rightarrow> n | None \<Rightarrow> 0)"

definition captureState :: "header option \<Rightarrow> string \<Rightarrow> claude_state" where
  "captureState oh prevState =
     (let prev = (if prevState \<noteq> [] then decode_claude prevState else empty_claude_state);
          s = empty_claude_state\<lparr> cl_opus_until := cl_opus_until prev \<rparr>
      in case oh of
           None \<Rightarrow> s
         | Some h \<Rightarrow>
             s\<lparr> cl5_util := float_header (h_get h ''anthropic-ratelimit-unified-5h-utilization''),
                cl5_reset := int_header (h_get h ''anthropic-ratelimit-unified-5h-reset''),
                cl7_util := float_header (h_get h ''anthropic-ratelimit-unified-7d-utilization''),
                cl7_reset := int_header (h_get h ''anthropic-ratelimit-unified-7d-reset'') \<rparr>)"

section \<open>Response bodies\<close>

record claude_error = ce_type :: string  ce_message :: string

definition claude_error_envelope :: "(string \<times> claude_error field) list" where
  "claude_error_envelope =
     [(''error'', struct_field id (\<lambda>e _. e)
        [(''type'', string_field (\<lambda>x e. e\<lparr>ce_type := x\<rparr>)),
         (''message'', string_field (\<lambda>x e. e\<lparr>ce_message := x\<rparr>))])]"

definition parseClaudeErrorInfo :: "string \<Rightarrow> string \<times> string" where
  "parseClaudeErrorInfo body =
     (case unmarshal_ok claude_error_envelope body \<lparr> ce_type = [], ce_message = [] \<rparr> of
        None \<Rightarrow> ([], []) | Some e \<Rightarrow> (ce_type e, ce_message e))"

definition no_usage :: token_usage where
  "no_usage = \<lparr> InputTokens = 0, OutputTokens = 0, CacheReadTokens = 0, CacheCreateTokens = 0 \<rparr>"

definition parseClaudeUsage :: "string \<Rightarrow> token_usage option" where
  "parseClaudeUsage data =
     (case unmarshal_ok
             [(''usage'', ptr_field id (\<lambda>x _. x) no_usage
                [(''input_tokens'', int_field (\<lambda>x u. u\<lparr>InputTokens := x\<rparr>)),
                 (''output_tokens'', int_field (\<lambda>x u. u\<lparr>OutputTokens := x\<rparr>)),
                 (''cache_read_input_tokens'', int_field (\<lambda>x u. u\<lparr>CacheReadTokens := x\<rparr>)),
                 (''cache_creation_input_tokens'', int_field (\<lambda>x u. u\<lparr>CacheCreateTokens := x\<rparr>))])] data None of
        Some ou \<Rightarrow> ou | None \<Rightarrow> None)"

definition buildClaudeErrorJSON :: "string \<Rightarrow> string \<Rightarrow> string" where
  "buildClaudeErrorJSON errType msg =
     json_print (JObj [(''type'', JStr ''error''),
                       (''error'', JObj [(''type'', JStr errType), (''message'', JStr msg)])])"

definition sanitizeClaudeError :: "int \<Rightarrow> string \<Rightarrow> int \<times> string" where
  "sanitizeClaudeError status body =
     (case parseClaudeErrorInfo body of
        (errType, message) \<Rightarrow>
          (if errType \<noteq> [] then (status, buildClaudeErrorJSON errType message)
           else (status, buildClaudeErrorJSON ''api_error'' ''unexpected upstream error'')))"

definition claude_ParseJSONUsage :: "string \<Rightarrow> token_usage option" where
  "claude_ParseJSONUsage body = parseClaudeUsage body"

section \<open>Classifying a response\<close>

definition banSignalPattern :: "string \<Rightarrow> bool" where
  "banSignalPattern =
     matches_any_case [''organization has been disabled'', ''account has been disabled'',
       ''Too many active sessions'', ''only authorized for use with claude code'',
       ''OAuth authentication is currently not allowed'']"

definition unified_reset :: "header option \<Rightarrow> gotime option" where
  "unified_reset h =
     (let resetStr = oh_get h ''anthropic-ratelimit-unified-reset'' in
      if resetStr = [] then None else parse_rfc3339 resetStr)"

definition claude_429_until :: "error_pauses \<Rightarrow> gotime \<Rightarrow> header option \<Rightarrow> gotime" where
  "claude_429_until pauses now h =
     (let retryAfter = parseRetryAfter now (oh_get h ''Retry-After'') in
      if 0 < retryAfter then now + retryAfter
      else (case unified_reset h of Some t \<Rightarrow> t | None \<Rightarrow> now + Pause429 pauses))"

definition claude_effect :: "effect_kind \<Rightarrow> int \<Rightarrow> string \<times> string \<Rightarrow> claude_state \<Rightarrow> effect" where
  "claude_effect kind status info state =
     (new_effect kind EffectScopeBucket)
       \<lparr> ef_upstream_status := status, ef_upstream_error_type := fst info,
         ef_upstream_error_message := snd info, ef_updated_state := encode_claude state \<rparr>"

definition claude_block :: "error_pauses \<Rightarrow> gotime \<Rightarrow> int \<Rightarrow> string \<times> string \<Rightarrow> string \<Rightarrow> claude_state \<Rightarrow> effect" where
  "claude_block pauses now status info body state =
     (claude_effect EffectBlock status info state)
       \<lparr> ef_cooldown_until := now + Pause401 pauses,
         ef_error_message := ''ban signal detected: '' @ truncate_with body 200 \<rparr>"

definition claude_Interpret ::
  "error_pauses \<Rightarrow> gotime \<Rightarrow> int \<Rightarrow> header option \<Rightarrow> string \<Rightarrow> string \<Rightarrow> string \<Rightarrow> effect" where
  "claude_Interpret pauses now status h body model prevState =
     (let s0 = captureState h prevState;
          state = (if 0 < cl_opus_until s0 \<and> cl_opus_until s0 \<le> unix_sec now then s0\<lparr>cl_opus_until := 0\<rparr> else s0);
          info = parseClaudeErrorInfo body;
          success = (new_effect EffectSuccess EffectScopeBucket)\<lparr> ef_updated_state := encode_claude state \<rparr>
      in if status = 200 then success
         else if status = 529 then
           (claude_effect EffectOverload 529 info state)\<lparr> ef_cooldown_until := now + Pause529 pauses \<rparr>
         else if status = 429 then
           (let state' = (if isOpusModel model
                          then (case unified_reset h of Some t \<Rightarrow> state\<lparr>cl_opus_until := unix_sec t\<rparr> | None \<Rightarrow> state)
                          else state)
            in (claude_effect EffectCooldown 429 info state')\<lparr> ef_cooldown_until := claude_429_until pauses now h \<rparr>)
         else if status = 403 then
           (if banSignalPattern body then claude_block pauses now 403 info body state
            else claude_effect EffectReject 403 info state)
         else if status = 400 then
           (if banSignalPattern body then claude_block pauses now 400 info body state
            else claude_effect EffectReject 400 info state)
         else if status = 401 then
           (claude_effect EffectAuthFail 401 info state)\<lparr> ef_cooldown_until := now + Pause401Refresh pauses \<rparr>
         else if 500 \<le> status \<and> status \<le> 599 then claude_effect EffectServerError status info state
         else if 400 \<le> status \<and> status \<le> 499 then claude_effect EffectReject status info state
         else success)"

definition claude_ShouldRetry :: "int \<Rightarrow> bool" where
  "claude_ShouldRetry status \<longleftrightarrow> status = 529 \<or> status = 429 \<or> status = 401 \<or> status = 403"

definition claude_RetrySameAccount :: "int \<Rightarrow> string \<Rightarrow> int \<Rightarrow> bool" where
  "claude_RetrySameAccount status body prior \<longleftrightarrow> status = 403 \<and> \<not> banSignalPattern body \<and> prior < 2"

definition claude_ParseNonRetriable :: "int \<Rightarrow> string \<Rightarrow> bool" where
  "claude_ParseNonRetriable status body \<longleftrightarrow> status = 429 \<and> contains body ''Extra usage is required''"

section \<open>Scheduling\<close>

definition claude_near_full :: rat where "claude_near_full = fl (99 / 100)"

definition claude_remain :: "rat \<Rightarrow> rat" where
  "claude_remain util = (if 0 < util then fl (fl (1 - util) * 100) else 100)"

definition claude_AutoPriority :: "string \<Rightarrow> int" where
  "claude_AutoPriority text =
     (case claude_state_of text of
        None \<Rightarrow> 50
      | Some s \<Rightarrow>
          (let fiveRemain = claude_remain (cl5_util s); sevenRemain = claude_remain (cl7_util s)
           in go_trunc (if sevenRemain < fiveRemain then sevenRemain else fiveRemain)))"

definition claude_IsStale :: "string \<Rightarrow> gotime \<Rightarrow> bool" where
  "claude_IsStale text now =
     (case claude_state_of text of
        None \<Rightarrow> False
      | Some s \<Rightarrow> (0 < cl5_reset s \<and> cl5_reset s < unix_sec now) \<or> (0 < cl7_reset s \<and> cl7_reset s < unix_sec now)
          \<or> (0 < cl5_util s \<and> cl5_reset s = 0) \<or> (0 < cl7_util s \<and> cl7_reset s = 0))"

definition claude_cooldown :: "claude_state \<Rightarrow> int \<Rightarrow> int" where
  "claude_cooldown s nowUnix =
     (let c = (if claude_near_full \<le> cl5_util s \<and> nowUnix < cl5_reset s then cl5_reset s else 0)
      in if claude_near_full \<le> cl7_util s \<and> nowUnix < cl7_reset s \<and> c < cl7_reset s then cl7_reset s else c)"

definition claude_ComputeExhaustedCooldown :: "string \<Rightarrow> gotime \<Rightarrow> gotime" where
  "claude_ComputeExhaustedCooldown text now =
     (case claude_state_of text of
        None \<Rightarrow> zero_time
      | Some s \<Rightarrow> (let c = claude_cooldown s (unix_sec now) in if 0 < c then from_unix c else zero_time))"

definition claude_CanServe :: "string \<Rightarrow> string \<Rightarrow> gotime \<Rightarrow> bool" where
  "claude_CanServe text model now =
     (if \<not> isOpusModel model then True
      else (case claude_state_of text of
              None \<Rightarrow> True | Some s \<Rightarrow> cl_opus_until s = 0 \<or> cl_opus_until s \<le> unix_sec now))"

definition claude_AssessCapacity :: "string \<Rightarrow> string \<Rightarrow> gotime \<Rightarrow> capacity_assessment" where
  "claude_AssessCapacity text model now =
     \<lparr> cap_eligible = claude_CanServe text model now,
       cap_priority = claude_AutoPriority text,
       cap_class = (if isOpusModel model then ''opus'' else ''default'') \<rparr>"

definition claude_window :: "string \<Rightarrow> rat \<Rightarrow> int \<Rightarrow> util_window list" where
  "claude_window label util reset =
     (if 0 < util \<or> 0 < reset then
        [\<lparr> uw_label = label, uw_pct = go_trunc (fl (util * 100)), uw_reset = reset,
           uw_sub_label = [], uw_sub_pct = 0, uw_sub_reset = 0 \<rparr>]
      else [])"

definition claude_GetUtilization :: "string \<Rightarrow> util_window list" where
  "claude_GetUtilization text =
     (case claude_state_of text of
        None \<Rightarrow> []
      | Some s \<Rightarrow> claude_window ''5h'' (cl5_util s) (cl5_reset s) @ claude_window ''7d'' (cl7_util s) (cl7_reset s))"

definition claude_BucketKey :: "account option \<Rightarrow> string" where
  "claude_BucketKey oa =
     (case oa of
        None \<Rightarrow> []
      | Some a \<Rightarrow> (if ac_subject a \<noteq> [] then ProviderClaude @ '':'' @ ac_subject a
                  else ProviderClaude @ '':'' @ ac_id a))"

definition claude_DescribeAccount :: "account option \<Rightarrow> (string \<times> string) list" where
  "claude_DescribeAccount oa =
     (case oa of
        None \<Rightarrow> []
      | Some a \<Rightarrow> (if IdentityString a ''orgName'' \<noteq> [] then [(''organization'', IdentityString a ''orgName'')] else []))"

definition claude_scheduler :: scheduler_driver where
  "claude_scheduler =
     \<lparr> sd_provider = ProviderClaude, sd_bucket_key = (\<lambda>a. claude_BucketKey (Some a)),
       sd_assess = claude_AssessCapacity, sd_is_stale = claude_IsStale,
       sd_exhausted_cooldown = claude_ComputeExhaustedCooldown \<rparr>"

section \<open>The contract of a scheduler\<close>

lemma claude_cooldown_later: "0 < claude_cooldown s n \<Longrightarrow> n < claude_cooldown s n"
  by (auto simp: claude_cooldown_def Let_def split: if_splits)

lemma claude_cooldown_stable:
  "0 < claude_cooldown s n \<Longrightarrow> n \<le> m \<Longrightarrow> m < claude_cooldown s n \<Longrightarrow> claude_cooldown s m = claude_cooldown s n"
  by (auto simp: claude_cooldown_def Let_def split: if_splits)

lemma claude_exhausted_cases:
  "claude_ComputeExhaustedCooldown text now = zero_time
   \<or> (\<exists>s. claude_state_of text = Some s \<and> 0 < claude_cooldown s (unix_sec now)
        \<and> claude_ComputeExhaustedCooldown text now = from_unix (claude_cooldown s (unix_sec now)))"
  by (simp add: claude_ComputeExhaustedCooldown_def Let_def split: option.split)

lemma claude_exhausted_stable:
  assumes "claude_ComputeExhaustedCooldown text t \<noteq> zero_time" "t \<le> u" "u < claude_ComputeExhaustedCooldown text t"
  shows "claude_ComputeExhaustedCooldown text u = claude_ComputeExhaustedCooldown text t"
proof -
  from assms(1) claude_exhausted_cases [of "text" t] obtain s where s: "claude_state_of text = Some s"
    and pos: "0 < claude_cooldown s (unix_sec t)"
    and e: "claude_ComputeExhaustedCooldown text t = from_unix (claude_cooldown s (unix_sec t))" by blast
  have "unix_sec t \<le> unix_sec u" using assms(2) by (rule unix_sec_mono)
  moreover have "unix_sec u < claude_cooldown s (unix_sec t)" using assms(3) unfolding e by (rule before_from_unix)
  ultimately have "claude_cooldown s (unix_sec u) = claude_cooldown s (unix_sec t)"
    using claude_cooldown_stable [OF pos] by blast
  with s pos show ?thesis unfolding e by (simp add: claude_ComputeExhaustedCooldown_def)
qed

interpretation claude_sched: scheduler claude_scheduler
proof (unfold_locales, goal_cases)
  case (1 a a')
  then show ?case by (simp add: claude_scheduler_def claude_BucketKey_def)
next
  case (2 a)
  then show ?case
    using has_prefix_append [of "ProviderClaude @ '':''"] by (simp add: claude_scheduler_def claude_BucketKey_def)
next
  case (3 st t)
  then show ?case
    using claude_exhausted_cases [of st t] claude_cooldown_later by (auto simp: claude_scheduler_def is_zero_def)
next
  case (4 st t u)
  then show ?case using claude_exhausted_stable [of st t u] by (simp add: claude_scheduler_def is_zero_def)
qed

end
