(* ===== verification/Gemini.thy ===== *)
theory Gemini
  imports DriverApi
begin

text \<open>
  The Gemini driver (src/internal/driver/gemini.go, gemini_support.go, gemini_admin.go,
  gemini_descriptor.go) and the two calls of gemini_codeassist.go that the probe makes.  The upstream
  service is an argument: a function from requests to a status with a body, or a transport error.
  \<open>time.Now\<close> is an argument, read once per call.
\<close>

section \<open>The provider state\<close>

record gemini_state =
  gs_project_id :: string
  gs_last_load_at :: int
  gs_remaining :: rat
  gs_reset_at :: int
  gs_quota_updated_at :: int

definition empty_gemini_state :: gemini_state where
  "empty_gemini_state = \<lparr> gs_project_id = [], gs_last_load_at = 0, gs_remaining = 0, gs_reset_at = 0,
                          gs_quota_updated_at = 0 \<rparr>"

definition gemini_fields :: "(string \<times> gemini_state field) list" where
  "gemini_fields =
     [(''project_id'', string_field (\<lambda>x s. s\<lparr>gs_project_id := x\<rparr>)),
      (''last_load_at'', int_field (\<lambda>x s. s\<lparr>gs_last_load_at := x\<rparr>)),
      (''daily_requests_remaining_fraction'', float_field (\<lambda>x s. s\<lparr>gs_remaining := x\<rparr>)),
      (''daily_requests_reset_at'', int_field (\<lambda>x s. s\<lparr>gs_reset_at := x\<rparr>)),
      (''quota_updated_at'', int_field (\<lambda>x s. s\<lparr>gs_quota_updated_at := x\<rparr>))]"

definition gemini_members :: "gemini_state \<Rightarrow> (string \<times> json) list" where
  "gemini_members s =
     [(''project_id'', JStr (gs_project_id s))]
     @ omit_int ''last_load_at'' (gs_last_load_at s)
     @ omit_float ''daily_requests_remaining_fraction'' (gs_remaining s)
     @ omit_int ''daily_requests_reset_at'' (gs_reset_at s)
     @ omit_int ''quota_updated_at'' (gs_quota_updated_at s)"

definition encode_gemini :: "gemini_state \<Rightarrow> string" where
  "encode_gemini s = json_print (JObj (gemini_members s))"

definition parseGeminiState :: "string \<Rightarrow> gemini_state" where
  "parseGeminiState state =
     (if state = [] then empty_gemini_state else fst (unmarshal gemini_fields state empty_gemini_state))"

definition parseGeminiLoadResponse :: "gotime \<Rightarrow> string \<Rightarrow> gemini_state" where
  "parseGeminiLoadResponse now body =
     (case unmarshal_ok [(''cloudaicompanionProject'', string_field (\<lambda>x _. x))] body [] of
        None \<Rightarrow> empty_gemini_state
      | Some p \<Rightarrow> (if p = [] then empty_gemini_state
                  else empty_gemini_state\<lparr> gs_project_id := p, gs_last_load_at := unix_sec now \<rparr>))"

record gemini_quota_info =
  gq_remaining :: rat
  gq_reset_at :: int

definition clampFraction :: "rat \<Rightarrow> rat" where
  "clampFraction v = (if v < 0 then 0 else if 1 < v then 1 else v)"

definition applyQuota :: "gemini_quota_info option \<Rightarrow> gotime \<Rightarrow> gemini_state \<Rightarrow> gemini_state" where
  "applyQuota info now s =
     (case info of
        None \<Rightarrow> s
      | Some q \<Rightarrow> s\<lparr> gs_remaining := clampFraction (gq_remaining q), gs_reset_at := gq_reset_at q,
                     gs_quota_updated_at := unix_sec now \<rparr>)"

section \<open>Request bodies\<close>

definition needsGeminiProject :: "string \<Rightarrow> bool" where
  "needsGeminiProject path \<longleftrightarrow> contains path '':generateContent'' \<or> contains path '':streamGenerateContent''
     \<or> contains path '':countTokens''"

text \<open>\<open>None\<close> is the run-time panic of an assignment to a nil map: the body is the document \<open>null\<close>.\<close>

definition injectGeminiProject :: "string \<Rightarrow> string \<Rightarrow> string option" where
  "injectGeminiProject raw projectID =
     (case unmarshal_map raw of
        None \<Rightarrow> Some raw
      | Some None \<Rightarrow> None
      | Some (Some body) \<Rightarrow> Some (json_print (JObj (go_members (body @ [(''project'', JStr projectID)])))))"

definition stripJSONField :: "string \<Rightarrow> string \<Rightarrow> string" where
  "stripJSONField raw field =
     (case unmarshal_map raw of
        None \<Rightarrow> raw
      | Some om \<Rightarrow>
          (if map_of (map_value om) field = None then raw
           else json_print (JObj (filter (\<lambda>kv. fst kv \<noteq> field) (map_value om)))))"

definition geminiCLIUserAgent :: "string \<Rightarrow> string \<Rightarrow> string \<Rightarrow> string" where
  "geminiCLIUserAgent goos goarch model =
     (let m = (if model = [] then ''gemini-2.5-flash'' else model)
      in ''GeminiCLI/0.32.1/'' @ m @ '' ('' @ goos @ ''; '' @ goarch @ '') google-api-nodejs-client/10.6.1'')"

definition withDefaultQuery :: "string \<Rightarrow> string \<Rightarrow> string \<Rightarrow> string" where
  "withDefaultQuery rawQuery key val =
     (case parse_query rawQuery of
        (q, ok) \<Rightarrow>
          (if \<not> ok then rawQuery
           else (let v = (case map_of q key of Some (x # _) \<Rightarrow> x | _ \<Rightarrow> [])
                 in query_encode (if v = [] then AList.update key [val] q else q))))"

definition gemini_Plan :: "relay_input option \<Rightarrow> relay_plan" where
  "gemini_Plan oi =
     (case oi of
        None \<Rightarrow> \<lparr> rp_is_stream = False, rp_is_count_tokens = False, rp_affinity = no_affinity \<rparr>
      | Some i \<Rightarrow>
          \<lparr> rp_is_stream = (jbool (map_of (ri_body i) ''stream'') \<or> contains (ri_path i) '':streamGenerateContent''),
            rp_is_count_tokens = False, rp_affinity = no_affinity \<rparr>)"

text \<open>The outcome of building a request: an error, a panic, or the request.\<close>

datatype 'a built = BuildError err | BuildPanic | Built 'a

definition gemini_body :: "relay_input \<Rightarrow> account \<Rightarrow> string \<Rightarrow> string built" where
  "gemini_body i acct upstreamPath =
     (let body = stripJSONField (ri_raw_body i) ''model'' in
      if needsGeminiProject upstreamPath then
        (let project = gs_project_id (parseGeminiState (ac_provider_state_json acct)) in
         if project = [] then BuildError ''gemini account missing project_id''
         else (case injectGeminiProject body project of None \<Rightarrow> BuildPanic | Some b \<Rightarrow> Built b))
      else Built body)"

definition gemini_BuildRequest ::
  "string \<Rightarrow> string \<Rightarrow> string \<Rightarrow> relay_input \<Rightarrow> account \<Rightarrow> string \<Rightarrow> upstream_request built" where
  "gemini_BuildRequest goos goarch apiURL i acct token =
     (let upstreamPath = trim_prefix (ri_path i) ''/gemini'' in
      if upstreamPath = [] \<or> upstreamPath = ri_path i then BuildError ''invalid gemini relay path''
      else (case gemini_body i acct upstreamPath of
              BuildError e \<Rightarrow> BuildError e
            | BuildPanic \<Rightarrow> BuildPanic
            | Built body \<Rightarrow>
                (let rawQuery = (if ri_is_stream i then withDefaultQuery (ri_raw_query i) ''alt'' ''sse''
                                 else ri_raw_query i)
                 in case appendRawQuery (apiURL @ upstreamPath) rawQuery of
                      Inl e \<Rightarrow> BuildError e
                    | Inr url \<Rightarrow>
                        (let accept = h_get (ri_headers i) ''Accept'';
                             h1 = h_set ''Content-Type'' ''application/json''
                                    (h_set ''Authorization'' (''Bearer '' @ token) []);
                             h2 = h_set ''Accept'' (if accept \<noteq> [] then accept else ''*/*'') h1;
                             h3 = h_set ''User-Agent'' (geminiCLIUserAgent goos goarch (ri_model i)) h2
                         in Built \<lparr> ur_url = url, ur_body = body,
                                    ur_headers = h_set ''X-Goog-Api-Client'' ''gl-node/25.8.0'' h3 \<rparr>))))"

section \<open>Response bodies\<close>

record gemini_detail =
  gd_retry_delay :: string
  gd_quota_reset_delay :: string
  gd_quota_reset_time :: string

record gemini_item = gi_error :: "gemini_detail list option"

definition detail_fields :: "(string \<times> gemini_detail field) list" where
  "detail_fields =
     [(''@type'', string_field (\<lambda>_ d. d)),
      (''retryDelay'', string_field (\<lambda>x d. d\<lparr>gd_retry_delay := x\<rparr>)),
      (''quotaResetDelay'', string_field (\<lambda>x d. d\<lparr>gd_quota_reset_delay := x\<rparr>)),
      (''quotaResetTimeStamp'', string_field (\<lambda>x d. d\<lparr>gd_quota_reset_time := x\<rparr>))]"

definition no_detail :: gemini_detail where
  "no_detail = \<lparr> gd_retry_delay = [], gd_quota_reset_delay = [], gd_quota_reset_time = [] \<rparr>"

definition retry_item_fields :: "(string \<times> gemini_item field) list" where
  "retry_item_fields =
     [(''error'', ptr_field gi_error (\<lambda>x i. i\<lparr>gi_error := x\<rparr>) []
        [(''details'', list_field id (\<lambda>x _. x) no_detail detail_fields)])]"

text \<open>The details of all items of the body, in order; \<open>None\<close> is a decoding error.\<close>

definition retry_details :: "string \<Rightarrow> gemini_detail list option" where
  "retry_details body =
     (case json_parse body of
        None \<Rightarrow> None
      | Some v \<Rightarrow>
          (case decode_list \<lparr> gi_error = None \<rparr> retry_item_fields v ([], True) of
             (items, ok) \<Rightarrow>
               (if ok then Some (concat (map (\<lambda>i. case gi_error i of Some ds \<Rightarrow> ds | None \<Rightarrow> []) items)) else None)))"

definition positive_duration :: "string \<Rightarrow> duration option" where
  "positive_duration s =
     (if s = [] then None
      else (case parse_duration s of Some d \<Rightarrow> (if 0 < d then Some d else None) | None \<Rightarrow> None))"

definition time_until :: "gotime \<Rightarrow> string \<Rightarrow> duration option" where
  "time_until now s =
     (if s = [] then None
      else (case parse_rfc3339 s of
              Some ts \<Rightarrow> (if 0 < until now ts then Some (until now ts) else None) | None \<Rightarrow> None))"

definition first_some :: "('a \<Rightarrow> 'b option) \<Rightarrow> 'a list \<Rightarrow> 'b option" where
  "first_some f xs = (case List.map_filter f xs of y # _ \<Rightarrow> Some y | [] \<Rightarrow> None)"

definition parseGeminiRetryDelay :: "gotime \<Rightarrow> string \<Rightarrow> duration" where
  "parseGeminiRetryDelay now body =
     (if body = [] then 0
      else (case retry_details body of
              None \<Rightarrow> 0
            | Some ds \<Rightarrow>
                (case first_some (\<lambda>d. positive_duration (gd_retry_delay d)) ds of
                   Some d \<Rightarrow> d
                 | None \<Rightarrow>
                     (case first_some (\<lambda>d. positive_duration (gd_quota_reset_delay d)) ds of
                        Some d \<Rightarrow> d
                      | None \<Rightarrow>
                          (case first_some (\<lambda>d. time_until now (gd_quota_reset_time d)) ds of
                             Some d \<Rightarrow> d | None \<Rightarrow> 0)))))"

record gemini_error = ge_status :: string  ge_message :: string

definition gemini_error_fields :: "(string \<times> gemini_error option field) list" where
  "gemini_error_fields =
     [(''error'', ptr_field id (\<lambda>x _. x) \<lparr> ge_status = [], ge_message = [] \<rparr>
        [(''status'', string_field (\<lambda>x e. e\<lparr>ge_status := x\<rparr>)),
         (''message'', string_field (\<lambda>x e. e\<lparr>ge_message := x\<rparr>))])]"

definition parseGeminiErrorInfo :: "string \<Rightarrow> string \<times> string" where
  "parseGeminiErrorInfo body =
     (case unmarshal_ok gemini_error_fields body None of
        Some (Some e) \<Rightarrow> (ge_status e, ge_message e)
      | _ \<Rightarrow>
          (case json_parse body of
             None \<Rightarrow> ([], [])
           | Some v \<Rightarrow>
               (case decode_list None gemini_error_fields v ([], True) of
                  (items, ok) \<Rightarrow>
                    (if \<not> ok then ([], [])
                     else (case first_some (\<lambda>i. i) items of
                             Some e \<Rightarrow> (ge_status e, ge_message e) | None \<Rightarrow> ([], []))))))"

definition usage_metadata_fields :: "(string \<times> token_usage field) list" where
  "usage_metadata_fields =
     [(''promptTokenCount'', int_field (\<lambda>x u. u\<lparr>InputTokens := x\<rparr>)),
      (''candidatesTokenCount'', int_field (\<lambda>x u. u\<lparr>OutputTokens := x\<rparr>)),
      (''cachedContentTokenCount'', int_field (\<lambda>x u. u\<lparr>CacheReadTokens := x\<rparr>))]"

definition zero_usage :: token_usage where
  "zero_usage = \<lparr> InputTokens = 0, OutputTokens = 0, CacheReadTokens = 0, CacheCreateTokens = 0 \<rparr>"

definition usage_metadata_ptr :: "token_usage option field" where
  "usage_metadata_ptr = ptr_field id (\<lambda>x _. x) zero_usage usage_metadata_fields"

record gemini_usage_payload =
  gu_top :: "token_usage option"
  gu_response :: "token_usage option option"

definition parseGeminiUsageMetadata :: "string \<Rightarrow> token_usage option" where
  "parseGeminiUsageMetadata body =
     (if body = [] then None
      else (case unmarshal_ok
                   [(''usageMetadata'', on_field gu_top (\<lambda>x p. p\<lparr>gu_top := x\<rparr>) usage_metadata_ptr),
                    (''response'', ptr_field gu_response (\<lambda>x p. p\<lparr>gu_response := x\<rparr>) None
                       [(''usageMetadata'', usage_metadata_ptr)])]
                   body \<lparr> gu_top = None, gu_response = None \<rparr> of
              None \<Rightarrow> None
            | Some p \<Rightarrow>
                (case gu_top p of
                   Some u \<Rightarrow> Some u
                 | None \<Rightarrow> (case gu_response p of Some ou \<Rightarrow> ou | None \<Rightarrow> None))))"

definition gemini_ParseJSONUsage :: "string \<Rightarrow> token_usage option" where
  "gemini_ParseJSONUsage body = parseGeminiUsageMetadata body"

section \<open>Classifying a response\<close>

definition geminiBanPattern :: "string \<Rightarrow> bool" where
  "geminiBanPattern = matches_any_case [''security_policy_violated'', ''account has been disabled'']"

definition gemini_429_until :: "error_pauses \<Rightarrow> gotime \<Rightarrow> header option \<Rightarrow> string \<Rightarrow> gotime" where
  "gemini_429_until pauses now h body =
     (if 0 < parseGeminiRetryDelay now body then now + parseGeminiRetryDelay now body
      else if 0 < parseRetryAfter now (oh_get h ''Retry-After'') then now + parseRetryAfter now (oh_get h ''Retry-After'')
      else now + Pause429 pauses)"

definition gemini_effect :: "effect_kind \<Rightarrow> effect_scope \<Rightarrow> int \<Rightarrow> string \<times> string \<Rightarrow> gotime \<Rightarrow> gemini_state \<Rightarrow> effect" where
  "gemini_effect kind scope status info until_t state =
     (new_effect kind scope)
       \<lparr> ef_cooldown_until := until_t, ef_upstream_status := status, ef_upstream_error_type := fst info,
         ef_upstream_error_message := snd info, ef_updated_state := encode_gemini state \<rparr>"

definition gemini_Interpret ::
  "error_pauses \<Rightarrow> gotime \<Rightarrow> int \<Rightarrow> header option \<Rightarrow> string \<Rightarrow> string \<Rightarrow> string \<Rightarrow> effect" where
  "gemini_Interpret pauses now status h body model prevState =
     (let s0 = parseGeminiState prevState;
          load = parseGeminiLoadResponse now body;
          state = (if gs_project_id load \<noteq> []
                   then s0\<lparr> gs_project_id := gs_project_id load, gs_last_load_at := unix_sec now \<rparr> else s0);
          info = parseGeminiErrorInfo body;
          success = (new_effect EffectSuccess EffectScopeBucket)\<lparr> ef_updated_state := encode_gemini state \<rparr>
      in if status = 200 then success
         else if status = 529 then
           gemini_effect EffectOverload EffectScopeBucket 529 info (now + Pause529 pauses) state
         else if status = 429 then
           gemini_effect EffectCooldown EffectScopeBucket 429 info (gemini_429_until pauses now h body) state
         else if status = 403 then
           (if geminiBanPattern body then
              (gemini_effect EffectBlock EffectScopeAccount 403 info (now + Pause401 pauses) state)
                \<lparr> ef_error_message := ''ban signal detected: '' @ truncate_with body 200 \<rparr>
            else gemini_effect EffectCooldown EffectScopeAccount 403 info (now + Pause403 pauses) state)
         else if status = 401 then
           gemini_effect EffectAuthFail EffectScopeAccount 401 info (now + Pause401Refresh pauses) state
         else success)"

definition gemini_ShouldRetry :: "int \<Rightarrow> bool" where
  "gemini_ShouldRetry status \<longleftrightarrow> status = 529 \<or> status = 429 \<or> status = 401 \<or> status = 403"

definition gemini_RetrySameAccount :: "int \<Rightarrow> string \<Rightarrow> int \<Rightarrow> bool" where
  "gemini_RetrySameAccount status body prior \<longleftrightarrow> False"

definition gemini_ParseNonRetriable :: "int \<Rightarrow> string \<Rightarrow> bool" where
  "gemini_ParseNonRetriable status body \<longleftrightarrow> False"

section \<open>Scheduling\<close>

definition gemini_AutoPriority :: "string \<Rightarrow> int" where
  "gemini_AutoPriority text =
     (let s = parseGeminiState text in
      if 0 < gs_quota_updated_at s \<or> 0 < gs_reset_at s then go_trunc (fl (clampFraction (gs_remaining s) * 100))
      else 50)"

definition gemini_IsStale :: "string \<Rightarrow> gotime \<Rightarrow> bool" where
  "gemini_IsStale text now =
     (let s = parseGeminiState text in
      if gs_project_id s = [] then True
      else if gs_quota_updated_at s = 0 \<or> gs_reset_at s = 0 then True
      else wrap64 (gs_quota_updated_at s + 600) \<le> unix_sec now
         \<or> (0 < gs_reset_at s \<and> gs_reset_at s \<le> unix_sec now))"

definition gemini_ComputeExhaustedCooldown :: "string \<Rightarrow> gotime \<Rightarrow> gotime" where
  "gemini_ComputeExhaustedCooldown text now =
     (let s = parseGeminiState text in
      if unix_sec now < gs_reset_at s \<and> clampFraction (gs_remaining s) \<le> 0 then from_unix (gs_reset_at s)
      else zero_time)"

definition gemini_CanServe :: "string \<Rightarrow> string \<Rightarrow> gotime \<Rightarrow> bool" where
  "gemini_CanServe text model now =
     (let s = parseGeminiState text in
      if gs_project_id s = [] then False
      else gs_reset_at s = 0 \<or> gs_reset_at s \<le> unix_sec now \<or> 0 < clampFraction (gs_remaining s))"

definition gemini_AssessCapacity :: "string \<Rightarrow> string \<Rightarrow> gotime \<Rightarrow> capacity_assessment" where
  "gemini_AssessCapacity text model now =
     \<lparr> cap_eligible = gemini_CanServe text model now, cap_priority = gemini_AutoPriority text,
       cap_class = ''default'' \<rparr>"

definition gemini_CalcCost :: "string \<Rightarrow> token_usage option \<Rightarrow> rat" where
  "gemini_CalcCost model u = 0"

definition gemini_GetUtilization :: "string \<Rightarrow> util_window list" where
  "gemini_GetUtilization text =
     (let s = parseGeminiState text in
      if gs_reset_at s = 0 \<and> gs_remaining s = 0 then []
      else [\<lparr> uw_label = ''daily'', uw_pct = go_trunc (fl (fl (1 - clampFraction (gs_remaining s)) * 100)),
              uw_reset = gs_reset_at s, uw_sub_label = [], uw_sub_pct = 0, uw_sub_reset = 0 \<rparr>])"

definition gemini_BucketKey :: "account option \<Rightarrow> string" where
  "gemini_BucketKey oa =
     (case oa of
        None \<Rightarrow> []
      | Some a \<Rightarrow>
          (let project = gs_project_id (parseGeminiState (ac_provider_state_json a)) in
           if ac_subject a \<noteq> [] \<and> project \<noteq> [] then ProviderGemini @ '':'' @ ac_subject a @ '':'' @ project
           else if ac_subject a \<noteq> [] then ProviderGemini @ '':'' @ ac_subject a
           else ProviderGemini @ '':'' @ ac_id a))"

definition gemini_DescribeAccount :: "account \<Rightarrow> (string \<times> string) list" where
  "gemini_DescribeAccount a =
     (let project = gs_project_id (parseGeminiState (ac_provider_state_json a))
      in if project = [] then [] else [(''project'', project)])"

definition geminiModels :: "model_info list" where
  "geminiModels =
     map (\<lambda>i. \<lparr> mi_id = i, mi_object = ''model'', mi_created = 1709164800, mi_owned_by = ''google'',
                mi_context_window = 1048576 \<rparr>) [''gemini-2.5-flash'', ''gemini-2.5-pro'']"

definition gemini_scheduler :: scheduler_driver where
  "gemini_scheduler =
     \<lparr> sd_provider = ProviderGemini, sd_bucket_key = (\<lambda>a. gemini_BucketKey (Some a)),
       sd_assess = gemini_AssessCapacity, sd_is_stale = gemini_IsStale,
       sd_exhausted_cooldown = gemini_ComputeExhaustedCooldown \<rparr>"

section \<open>Quota and probe\<close>

type_synonym upstream = "string \<Rightarrow> string \<Rightarrow> err + int \<times> string"

definition loadGeminiCodeAssist :: "upstream \<Rightarrow> string \<Rightarrow> err + string" where
  "loadGeminiCodeAssist post apiURL =
     (case post (apiURL @ ''/v1internal:loadCodeAssist'')
             (json_print (JObj [(''metadata'', JObj [(''ideType'', JStr ''IDE_UNSPECIFIED''),
                (''platform'', JStr ''PLATFORM_UNSPECIFIED''), (''pluginType'', JStr ''GEMINI'')])])) of
        Inl e \<Rightarrow> Inl (''loadCodeAssist request failed: '' @ e)
      | Inr (status, body) \<Rightarrow>
          (if status \<noteq> 200 then Inl (''loadCodeAssist returned '' @ itoa status @ '': '' @ truncate_with body 200)
           else (case unmarshal_ok [(''cloudaicompanionProject'', string_field (\<lambda>x _. x))] body [] of
                   None \<Rightarrow> Inl ''parse loadCodeAssist''
                 | Some p \<Rightarrow> Inr p)))"

record quota_row =
  qr_reset_time :: string
  qr_token_type :: string
  qr_remaining :: rat

definition quota_row_fields :: "(string \<times> quota_row field) list" where
  "quota_row_fields =
     [(''resetTime'', string_field (\<lambda>x r. r\<lparr>qr_reset_time := x\<rparr>)),
      (''tokenType'', string_field (\<lambda>x r. r\<lparr>qr_token_type := x\<rparr>)),
      (''modelId'', string_field (\<lambda>_ r. r)),
      (''remainingFraction'', float_field (\<lambda>x r. r\<lparr>qr_remaining := x\<rparr>))]"

text \<open>One row: \<open>None\<close> is the error for a reset time that does not parse.\<close>

definition quota_step :: "(gemini_quota_info \<times> bool) option \<Rightarrow> quota_row \<Rightarrow> (gemini_quota_info \<times> bool) option" where
  "quota_step acc r =
     (case acc of
        None \<Rightarrow> None
      | Some (info, found) \<Rightarrow>
          (if qr_token_type r \<noteq> ''REQUESTS'' then acc
           else (case (if qr_reset_time r = [] then Some 0 else map_option unix_sec (parse_rfc3339 (qr_reset_time r))) of
                   None \<Rightarrow> None
                 | Some resetAt \<Rightarrow>
                     (let remaining = clampFraction (qr_remaining r);
                          i1 = (if \<not> found \<or> remaining < gq_remaining info then info\<lparr>gq_remaining := remaining\<rparr> else info);
                          i2 = (if 0 < resetAt \<and> (gq_reset_at i1 = 0 \<or> resetAt < gq_reset_at i1)
                                then i1\<lparr>gq_reset_at := resetAt\<rparr> else i1)
                      in Some (i2, True)))))"

definition quota_of_rows :: "quota_row list \<Rightarrow> err + gemini_quota_info" where
  "quota_of_rows rows =
     (case foldl quota_step (Some (\<lparr> gq_remaining = 0, gq_reset_at = 0 \<rparr>, False)) rows of
        None \<Rightarrow> Inl ''parse quota reset time''
      | Some (info, found) \<Rightarrow>
          (if found then Inr info else Inl ''retrieveUserQuota returned no request buckets''))"

definition retrieveGeminiUserQuota :: "upstream \<Rightarrow> string \<Rightarrow> err + gemini_quota_info" where
  "retrieveGeminiUserQuota post apiURL =
     (case post (apiURL @ ''/v1internal:retrieveUserQuota'') ''{}'' of
        Inl e \<Rightarrow> Inl (''retrieveUserQuota request failed: '' @ e)
      | Inr (status, body) \<Rightarrow>
          (if status \<noteq> 200 then Inl (''retrieveUserQuota returned '' @ itoa status @ '': '' @ truncate_with body 200)
           else (case unmarshal_ok
                        [(''buckets'', list_field id (\<lambda>x _. x)
                            \<lparr> qr_reset_time = [], qr_token_type = [], qr_remaining = 0 \<rparr> quota_row_fields)] body [] of
                   None \<Rightarrow> Inl ''parse retrieveUserQuota''
                 | Some rows \<Rightarrow> quota_of_rows rows)))"

record probe_result =
  pr_effect :: effect
  pr_observe :: bool
  pr_clear_cooldown :: bool

text \<open>The error comes with the result that was built before it, or with none.\<close>

definition gemini_Probe :: "upstream \<Rightarrow> string \<Rightarrow> gotime \<Rightarrow> account \<Rightarrow> probe_result option \<times> err option" where
  "gemini_Probe post apiURL now acct =
     (let s0 = parseGeminiState (ac_provider_state_json acct);
          loaded = (if gs_project_id s0 = []
                    then (case loadGeminiCodeAssist post apiURL of
                            Inl e \<Rightarrow> Inl e
                          | Inr p \<Rightarrow> Inr (s0\<lparr> gs_project_id := p, gs_last_load_at := unix_sec now \<rparr>))
                    else Inr s0)
      in case loaded of
           Inl e \<Rightarrow> (None, Some e)
         | Inr s1 \<Rightarrow>
             (let s2 = (case retrieveGeminiUserQuota post apiURL of
                          Inl _ \<Rightarrow> s1 | Inr q \<Rightarrow> applyQuota (Some q) now s1);
                  result = \<lparr> pr_effect = (new_effect EffectSuccess EffectScopeBucket)
                                            \<lparr> ef_updated_state := encode_gemini s2 \<rparr>,
                             pr_observe = True, pr_clear_cooldown = True \<rparr>
              in if gs_project_id s2 = [] then (Some result, Some ''loadCodeAssist returned empty project id'')
                 else (Some result, None)))"

section \<open>The contract of a scheduler\<close>

lemma gemini_exhausted_cases:
  "gemini_ComputeExhaustedCooldown st now = zero_time
   \<or> (unix_sec now < gs_reset_at (parseGeminiState st) \<and> clampFraction (gs_remaining (parseGeminiState st)) \<le> 0
        \<and> gemini_ComputeExhaustedCooldown st now = from_unix (gs_reset_at (parseGeminiState st)))"
  by (simp add: gemini_ComputeExhaustedCooldown_def Let_def)

lemma gemini_exhausted_stable:
  assumes "gemini_ComputeExhaustedCooldown st t \<noteq> zero_time" "t \<le> u" "u < gemini_ComputeExhaustedCooldown st t"
  shows "gemini_ComputeExhaustedCooldown st u = gemini_ComputeExhaustedCooldown st t"
proof -
  let ?r = "gs_reset_at (parseGeminiState st)"
  from assms(1) gemini_exhausted_cases [of st t] have e: "gemini_ComputeExhaustedCooldown st t = from_unix ?r"
    and c: "clampFraction (gs_remaining (parseGeminiState st)) \<le> 0" by blast+
  have "unix_sec u < ?r" using assms(3) unfolding e by (rule before_from_unix)
  with c show ?thesis unfolding e by (simp add: gemini_ComputeExhaustedCooldown_def Let_def)
qed

interpretation gemini_sched: scheduler gemini_scheduler
proof (unfold_locales, goal_cases)
  case (1 a a')
  then show ?case by (simp add: gemini_scheduler_def gemini_BucketKey_def Let_def)
next
  case (2 a)
  have "has_prefix (ProviderGemini @ '':'' @ r) (ProviderGemini @ '':'')" for r
    using has_prefix_append [of "ProviderGemini @ '':''" r] by simp
  then show ?case by (simp add: gemini_scheduler_def gemini_BucketKey_def Let_def)
next
  case (3 st t)
  then show ?case
    using gemini_exhausted_cases [of st t] by (auto simp: gemini_scheduler_def is_zero_def)
next
  case (4 st t u)
  then show ?case using gemini_exhausted_stable [of st t u] by (simp add: gemini_scheduler_def is_zero_def)
qed

text \<open>An account whose daily quota is exhausted is ineligible exactly while its cooldown runs.\<close>

lemma gemini_exhausted_eligible:
  assumes "gs_project_id (parseGeminiState st) \<noteq> []" "gs_reset_at (parseGeminiState st) \<noteq> 0"
    and "from_unix (gs_reset_at (parseGeminiState st)) \<noteq> zero_time"
  shows "gemini_CanServe st model now \<longleftrightarrow> gemini_ComputeExhaustedCooldown st now = zero_time"
  using assms by (auto simp: gemini_CanServe_def gemini_ComputeExhaustedCooldown_def Let_def)

end
