(* ===== verification/DriverState.thy ===== *)
theory DriverState
  imports Claude Gemini
begin

text \<open>
  The JSON documents in which the Claude and Gemini drivers keep their quota state read back, so what
  a classified response stores is what the next scheduling decision sees.
\<close>

section \<open>Claude\<close>

definition wf_claude :: "claude_state \<Rightarrow> bool" where
  "wf_claude s \<longleftrightarrow> double (cl5_util s) \<and> double (cl7_util s) \<and> fits64 (cl5_reset s) \<and> fits64 (cl7_reset s)
     \<and> fits64 (cl_opus_until s)"

lemma wf_empty_claude [simp]: "wf_claude empty_claude_state"
  by (simp add: wf_claude_def empty_claude_state_def fits64_def)

lemma wf_decode_claude: "wf_claude (decode_claude text)"
  unfolding decode_claude_def
proof (rule unmarshal_keeps [where P = wf_claude])
  show "list_all (\<lambda>kf. keeps wf_claude (snd kf)) claude_fields"
    unfolding claude_fields_def list.pred_inject snd_conv
    by (intro conjI TrueI keeps_intros) (simp_all add: wf_claude_def)
qed simp

lemma wf_captureState: "wf_claude (captureState oh prev)"
proof -
  have o: "fits64 (cl_opus_until (if prev \<noteq> [] then decode_claude prev else empty_claude_state))"
    using wf_decode_claude [of prev] wf_empty_claude by (simp add: wf_claude_def)
  have f: "double (float_header v)" "fits64 (int_header v)" for v
    by (auto simp: float_header_def int_header_def fits64_def parse_int_def Let_def
        dest: double_parse split: option.split if_splits)
  show ?thesis
    using o f wf_empty_claude
    by (cases oh) (simp_all add: captureState_def wf_claude_def Let_def)
qed

lemma claude_state_of_encode:
  assumes "wf_claude s"
  shows "claude_state_of (encode_claude s) = Some s"
proof -
  have ok: "json_ok (JObj (claude_members s))"
    using assms by (auto simp: claude_members_def omit_int_def wf_claude_def double_def scan_print_float)
  have f: "find_field claude_fields ''opus_cooldown_until'' = Some (int_field (\<lambda>x s. s\<lparr>cl_opus_until := x\<rparr>))"
    by (simp add: find_field_def claude_fields_def)
  have "decode_struct claude_fields (JObj (claude_members s)) (empty_claude_state, True) = (s, True)"
    using assms decode_omit_int [OF f, of "cl_opus_until s"]
    by (cases s) (simp add: wf_claude_def double_def claude_members_def decode_member_def find_field_def
        claude_fields_def empty_claude_state_def)
  then show ?thesis
    unfolding claude_state_of_def unmarshal_ok_def encode_claude_def unmarshal_print [OF ok] by simp
qed

section \<open>Gemini\<close>

definition wf_gemini :: "gemini_state \<Rightarrow> bool" where
  "wf_gemini s \<longleftrightarrow> double (gs_remaining s) \<and> fits64 (gs_last_load_at s) \<and> fits64 (gs_reset_at s)
     \<and> fits64 (gs_quota_updated_at s)"

lemma wf_empty_gemini [simp]: "wf_gemini empty_gemini_state"
  by (simp add: wf_gemini_def empty_gemini_state_def fits64_def)

lemma wf_parseGeminiState: "wf_gemini (parseGeminiState text)"
proof -
  have "wf_gemini (fst (unmarshal gemini_fields text empty_gemini_state))"
  proof (rule unmarshal_keeps [where P = wf_gemini])
    show "list_all (\<lambda>kf. keeps wf_gemini (snd kf)) gemini_fields"
      unfolding gemini_fields_def list.pred_inject snd_conv
      by (intro conjI TrueI keeps_intros) (simp_all add: wf_gemini_def)
  qed simp
  then show ?thesis by (simp add: parseGeminiState_def)
qed

lemma encode_gemini_ne [simp]: "encode_gemini s \<noteq> []"
  by (simp add: encode_gemini_def)

lemma parse_encode_gemini:
  assumes "wf_gemini s"
  shows "parseGeminiState (encode_gemini s) = s"
proof -
  have ok: "json_ok (JObj (gemini_members s))"
    using assms by (auto simp: gemini_members_def omit_int_def omit_float_def wf_gemini_def double_def scan_print_float)
  let ?d = "foldl (decode_member gemini_fields)" and ?e = "empty_gemini_state\<lparr>gs_project_id := gs_project_id s\<rparr>"
  have f: "find_field gemini_fields ''project_id'' = Some (string_field (\<lambda>x s. s\<lparr>gs_project_id := x\<rparr>))"
    "find_field gemini_fields ''last_load_at'' = Some (int_field (\<lambda>x s. s\<lparr>gs_last_load_at := x\<rparr>))"
    "find_field gemini_fields ''daily_requests_remaining_fraction'' = Some (float_field (\<lambda>x s. s\<lparr>gs_remaining := x\<rparr>))"
    "find_field gemini_fields ''daily_requests_reset_at'' = Some (int_field (\<lambda>x s. s\<lparr>gs_reset_at := x\<rparr>))"
    "find_field gemini_fields ''quota_updated_at'' = Some (int_field (\<lambda>x s. s\<lparr>gs_quota_updated_at := x\<rparr>))"
    by (simp_all add: find_field_def gemini_fields_def)
  have z: "gs_last_load_at ?e = 0" "gs_remaining ?e = 0" "gs_reset_at ?e = 0" "gs_quota_updated_at ?e = 0"
    by (simp_all add: empty_gemini_state_def)
  have w: "double (gs_remaining s)" "fits64 (gs_last_load_at s)" "fits64 (gs_reset_at s)"
    "fits64 (gs_quota_updated_at s)" using assms by (simp_all add: wf_gemini_def)
  have 1: "?d (empty_gemini_state, True) [(''project_id'', JStr (gs_project_id s))] = (?e, True)"
    by (simp add: decode_member_def f)
  have 2: "?d (?e, True) (omit_int ''last_load_at'' (gs_last_load_at s))
      = (?e\<lparr>gs_last_load_at := gs_last_load_at s\<rparr>, True)" (is "_ = (?e2, True)")
    using decode_omit_int [OF f(2) w(2), of "(?e, True)"] z by simp
  have 3: "?d (?e2, True) (omit_float ''daily_requests_remaining_fraction'' (gs_remaining s))
      = (?e2\<lparr>gs_remaining := gs_remaining s\<rparr>, True)" (is "_ = (?e3, True)")
    using decode_omit_float [OF f(3) w(1), of "(?e2, True)"] z by simp
  have 4: "?d (?e3, True) (omit_int ''daily_requests_reset_at'' (gs_reset_at s))
      = (?e3\<lparr>gs_reset_at := gs_reset_at s\<rparr>, True)" (is "_ = (?e4, True)")
    using decode_omit_int [OF f(4) w(3), of "(?e3, True)"] z by simp
  have 5: "?d (?e4, True) (omit_int ''quota_updated_at'' (gs_quota_updated_at s))
      = (?e4\<lparr>gs_quota_updated_at := gs_quota_updated_at s\<rparr>, True)" (is "_ = (?e5, True)")
    using decode_omit_int [OF f(5) w(4), of "(?e4, True)"] z by simp
  have e: "?e5 = s" by (simp add: empty_gemini_state_def)
  have "decode_struct gemini_fields (JObj (gemini_members s)) (empty_gemini_state, True) = (?e5, True)"
    by (simp only: decode_struct_simps gemini_members_def foldl_append 1 2 3 4 5)
  then have "fst (unmarshal gemini_fields (encode_gemini s) empty_gemini_state) = s"
    unfolding encode_gemini_def unmarshal_print [OF ok] e by simp
  then show ?thesis by (simp add: parseGeminiState_def)
qed

end
