(* ===== verification/DriverProps.thy ===== *)
theory DriverProps
  imports CodexStream DriverState Samples
begin

text \<open>
  The properties of the three provider drivers: what they promise to the pool, how a response moves
  the quota state, and how a request or a stream passes through them.
\<close>

section \<open>The drivers that the program registers\<close>

definition schedulerDrivers :: "bool \<Rightarrow> provider \<Rightarrow> scheduler_driver option" where
  "schedulerDrivers geminiEnabled =
     (let drivers = [ProviderClaude \<mapsto> claude_scheduler, ProviderCodex \<mapsto> codex_scheduler]
      in if geminiEnabled then drivers(ProviderGemini \<mapsto> gemini_scheduler) else drivers)"

lemma provider_names [simp]:
  "ProviderClaude \<noteq> ProviderCodex" "ProviderClaude \<noteq> ProviderGemini" "ProviderCodex \<noteq> ProviderGemini"
  "ProviderCodex \<noteq> ProviderClaude" "ProviderGemini \<noteq> ProviderClaude" "ProviderGemini \<noteq> ProviderCodex"
  by (simp_all add: ProviderClaude_def ProviderCodex_def ProviderGemini_def)

lemma registered_cases:
  assumes "schedulerDrivers g prov = Some drv"
  obtains "prov = ProviderClaude" "drv = claude_scheduler" | "prov = ProviderCodex" "drv = codex_scheduler"
    | "prov = ProviderGemini" "drv = gemini_scheduler"
  using assms by (auto simp: schedulerDrivers_def Let_def split: if_splits)

lemma registered_scheduler: "schedulerDrivers g prov = Some drv \<Longrightarrow> scheduler drv"
  by (erule registered_cases)
    (simp_all add: claude_sched.scheduler_axioms codex_sched.scheduler_axioms gemini_sched.scheduler_axioms)

lemma registered_provider: "schedulerDrivers g prov = Some drv \<Longrightarrow> sd_provider drv = prov"
  by (erule registered_cases) (simp_all add: claude_scheduler_def codex_scheduler_def gemini_scheduler_def)

lemma registered_no_colon: "schedulerDrivers g prov = Some drv \<Longrightarrow> CHR '':'' \<notin> set prov"
  by (erule registered_cases) (simp_all add: ProviderClaude_def ProviderCodex_def ProviderGemini_def)

lemma derived_prefix:
  assumes "p_drivers p = Some (schedulerDrivers g)" and "schedulerDrivers g (ac_provider a) = Some drv"
  shows "has_prefix (derivedBucketKeyLocked p a st) (ac_provider a @ '':'')"
proof -
  note k = scheduler.key_prefix [OF registered_scheduler [OF assms(2)], unfolded registered_provider [OF assms(2)]]
    scheduler.key_not_empty [OF registered_scheduler [OF assms(2)]]
  with assms show ?thesis by (simp add: derivedBucketKeyLocked_def Let_def)
qed

text \<open>With the registered drivers, the keys that the pool derives for accounts of different
  providers are different, whatever the identities, subjects and quota states: two providers never
  share a quota bucket.\<close>

theorem providers_never_share_bucket:
  assumes "p_drivers p = Some (schedulerDrivers g)"
    and "schedulerDrivers g (ac_provider a) \<noteq> None" and "schedulerDrivers g (ac_provider b) \<noteq> None"
    and "ac_provider a \<noteq> ac_provider b"
  shows "derivedBucketKeyLocked p a st \<noteq> derivedBucketKeyLocked p b st'"
proof
  assume eq: "derivedBucketKeyLocked p a st = derivedBucketKeyLocked p b st'"
  from assms(2,3) obtain da db where d: "schedulerDrivers g (ac_provider a) = Some da"
    "schedulerDrivers g (ac_provider b) = Some db" by blast
  from prefixes_disjoint [OF derived_prefix [OF assms(1) d(1), of st]
      derived_prefix [OF assms(1) d(2), of st', folded eq]]
    registered_no_colon [OF d(1)] registered_no_colon [OF d(2)] assms(4)
  show False by blast
qed

theorem providers_never_share_bucket_witness:
  "derivedBucketKeyLocked (sample_pool0 (Some (schedulerDrivers True))) acct_a ''x''
   \<noteq> derivedBucketKeyLocked (sample_pool0 (Some (schedulerDrivers True))) acct_c ''y''"
  by (rule providers_never_share_bucket [where g = True]) (simp_all add: schedulerDrivers_def acct_defs)

text \<open>The registered drivers satisfy what the pool relies on: the bucket key depends on the
  identity, the subject and the quota state only, and an exhausted cooldown lies in a later second
  than the one in which it was computed.\<close>

theorem registered_drivers_lawful:
  assumes "p_drivers p = Some (schedulerDrivers g)"
  shows "key_by_identity p \<and> exhausted_later p"
proof
  have r: "scheduler drv" if "p_drivers p = Some drvs" "drvs prov = Some drv" for drvs prov drv
    using that assms registered_scheduler by auto
  show "key_by_identity p"
    unfolding key_by_identity_def using scheduler.key_same [OF r] by blast
  show "exhausted_later p"
    unfolding exhausted_later_def using scheduler.later [OF r] by blast
qed

theorem registered_drivers_lawful_witness:
  "key_by_identity (sample_pool0 (Some (schedulerDrivers True)))
   \<and> exhausted_later (sample_pool0 (Some (schedulerDrivers True)))"
  by (rule registered_drivers_lawful [where g = True]) simp

section \<open>Codex: quota families\<close>

lemma captured_eligible:
  "codex_CanServe (captureHeaders now (Some h) prev) wanted t =
     (\<not> family_full (if codexModelFamily wanted \<in> set (discoverCodexFamilyPrefixes h)
                     then captured_family h (unix_sec now) (codexModelFamily wanted)
                     else codex_family (decode_codex prev) (codexModelFamily wanted)) (unix_sec t))"
proof (rule capture_state [of now h prev])
  fix s assume s: "codex_state_of (captureHeaders now (Some h) prev) = Some s"
    and f: "\<And>p. codex_family s p = (if p \<in> set (discoverCodexFamilyPrefixes h)
       then captured_family h (unix_sec now) p else codex_family (decode_codex prev) p)"
  show ?thesis by (simp only: codex_CanServe_def s f option.case)
qed

text \<open>After a Codex response with headers and status 200 or 429, the account can serve a model
  exactly when the quota family of the model is not exhausted, where the family's limits are those of
  the headers if they mention it, and otherwise the ones stored before, even in the legacy layout.\<close>

theorem codex_capture_governs:
  assumes "status = 200 \<or> status = 429"
  shows "cap_eligible (codex_AssessCapacity
           (ef_updated_state (fst (codex_Interpret pauses now status (Some h) body model prev d))) wanted t) =
     (\<not> family_full (if codexModelFamily wanted \<in> set (discoverCodexFamilyPrefixes h)
                     then captured_family h (unix_sec now) (codexModelFamily wanted)
                     else codex_family (decode_codex prev) (codexModelFamily wanted)) (unix_sec t))"
proof -
  have "ef_updated_state (fst (codex_Interpret pauses now status (Some h) body model prev d))
      = captureHeaders now (Some h) prev"
    using assms by (auto simp: codex_Interpret_def upstream_info_def Let_def)
  then show ?thesis by (simp only: codex_AssessCapacity_def Let_def capacity_assessment.simps captured_eligible)
qed

text \<open>Concrete numbers and models, and a response that reports the standard family as fully used.\<close>

lemma parse_float_int:
  assumes "udecimal s = Some (of_int n)" and "s \<noteq> []" "hd s \<noteq> CHR ''-''" "hd s \<noteq> CHR ''+''" "\<bar>n\<bar> \<le> 2 ^ 53"
  shows "parse_float s = Some (of_int n)"
proof -
  have "\<bar>rat_of_int n\<bar> \<le> of_int (2 ^ 53)" using assms(5) by linarith
  also have "\<dots> = pow2 53" by (simp add: pow2_nat)
  also have "\<dots> < pow2 1024" by (rule pow2_strict) simp
  finally show ?thesis using assms fl_of_int [OF assms(5)] by (simp add: parse_float_def)
qed

lemma parse_float_samples: "parse_float ''100'' = Some 100" "parse_float ''1'' = Some 1"
proof -
  have "udecimal ''100'' = Some 100" "udecimal ''1'' = Some 1" by code_simp+
  then show "parse_float ''100'' = Some 100" "parse_float ''1'' = Some 1"
    using parse_float_int [of "''100''" 100] parse_float_int [of "''1''" 1] by simp_all
qed

lemma near_full_le_1: "near_full \<le> 1"
  unfolding near_full_def using fl_le [of "99/100" 1] by simp

lemma gpt5_family: "codexModelFamily ''gpt-5'' = []"
proof -
  have "to_lower (trim_space ''gpt-5'') = ''gpt-5''" by code_simp
  then show ?thesis
    by (simp add: codexModelFamily_def codexModelEntryForID_def codexModelEntries_def codex_entry_def)
qed

definition full_headers :: header where
  "full_headers = [(''X-Codex-Primary-Used-Percent'', [''100'']), (''X-Codex-Primary-Reset-After-Seconds'', [''60''])]"

lemma full_headers_family:
  "discoverCodexFamilyPrefixes full_headers = [[]]"
  "cf_primary_util (captured_family full_headers 1000 []) = 1"
  "cf_primary_reset (captured_family full_headers 1000 []) = 1060"
proof -
  show "discoverCodexFamilyPrefixes full_headers = [[]]" by code_simp
  have "h_get full_headers ''x-codex-primary-used-percent'' = ''100''"
    and "h_get full_headers ''x-codex-primary-reset-after-seconds'' = ''60''" by code_simp+
  moreover have "reset_header 1000 ''60'' = 1060" by code_simp
  moreover have "percent_header ''100'' = 1"
    using fl_of_int [of 1] by (simp add: percent_header_def parse_float_samples)
  ultimately show "cf_primary_util (captured_family full_headers 1000 []) = 1"
    "cf_primary_reset (captured_family full_headers 1000 []) = 1060"
    by (simp_all add: captured_family_def parseCodexFamilyHeaders_def)
qed

definition some_pauses :: error_pauses where
  "some_pauses = \<lparr> Pause401 = second, Pause401Refresh = second, Pause403 = second, Pause429 = second, Pause529 = second \<rparr>"

theorem codex_capture_governs_witness:
  "\<not> cap_eligible (codex_AssessCapacity
      (ef_updated_state (fst (codex_Interpret some_pauses (1000 * second) 429 (Some full_headers) [] [] [] None)))
      ''gpt-5'' (1059 * second))"
proof -
  have "unix_sec (1000 * second) = 1000" "unix_sec (1059 * second) = 1059" by code_simp+
  then have "family_full (captured_family full_headers (unix_sec (1000 * second)) []) (unix_sec (1059 * second))"
    using near_full_le_1 by (simp add: family_full_def full_headers_family)
  then show ?thesis
    by (subst codex_capture_governs) (simp_all add: full_headers_family gpt5_family)
qed

text \<open>While a Codex account is put aside because every known quota family is exhausted, it is not
  eligible for any model of these families, so the pause of the bucket never hides capacity.\<close>

theorem codex_exhausted_blocks_families:
  assumes "\<not> is_zero (codex_ComputeExhaustedCooldown st now)"
    and "now \<le> t" and "t < codex_ComputeExhaustedCooldown st now"
    and "codex_state_of st = Some s" and "codexModelFamily model \<in> set (allFamilies s)"
  shows "\<not> cap_eligible (codex_AssessCapacity st model t)"
proof -
  have ne: "codex_ComputeExhaustedCooldown st now \<noteq> zero_time" using assms(1) by (simp add: is_zero_def)
  with codex_exhausted_stable [OF ne assms(2,3)] have "codex_ComputeExhaustedCooldown st t \<noteq> zero_time" by simp
  then obtain s' x where "codex_state_of st = Some s'" "0 < x"
    "\<forall>p \<in> set (allFamilies s'). x \<le> computeFamilyCooldown (codex_family s' p) (unix_sec t)"
    by (rule codex_exhausted_cases)
  with assms(4,5) have "0 < computeFamilyCooldown (codex_family s (codexModelFamily model)) (unix_sec t)" by fastforce
  with family_cooldown_positive have "family_full (codex_family s (codexModelFamily model)) (unix_sec t)" by blast
  then show ?thesis by (simp add: codex_AssessCapacity_def codex_CanServe_def assms(4) Let_def)
qed

definition full_state_text :: string where
  "full_state_text = ''{\"primary_util\":1,\"primary_reset\":60}''"

definition full_state :: codex_state where
  "full_state = empty_codex_state\<lparr>cs_primary_util := 1, cs_primary_reset := 60\<rparr>"

lemma full_state_of: "codex_state_of full_state_text = Some full_state"
proof -
  have "json_parse full_state_text = Some (JObj [(''primary_util'', JNum ''1''), (''primary_reset'', JNum ''60'')])"
    by code_simp
  moreover have "lit_int ''60'' = Some 60" by code_simp
  ultimately show ?thesis
    by (simp add: codex_state_of_def unmarshal_ok_def unmarshal_def decode_member_def codex_fields_find
        float_field_def int_field_def parse_float_samples full_state_def)
qed

theorem codex_exhausted_blocks_families_witness:
  "\<not> cap_eligible (codex_AssessCapacity full_state_text ''gpt-5'' (7 * second))"
proof (rule codex_exhausted_blocks_families [where now = 0])
  have all: "allFamilies full_state = [[]]" by (simp add: allFamilies_def full_state_def empty_codex_state_def has_legacy_def)
  show "codex_state_of full_state_text = Some full_state" by (rule full_state_of)
  have "cf_primary_util (codex_family full_state []) = 1" "cf_primary_reset (codex_family full_state []) = 60"
    "cf_secondary_reset (codex_family full_state []) = 0"
    by (simp_all add: codex_family_def legacy_limits_def has_legacy_def full_state_def empty_codex_state_def)
  then have "computeFamilyCooldown (codex_family full_state []) (unix_sec 0) = 60"
    using near_full_le_1 by (simp add: computeFamilyCooldown_def unix_sec_def)
  then have cd: "codex_ComputeExhaustedCooldown full_state_text 0 = from_unix 60"
    by (simp add: codex_ComputeExhaustedCooldown_def full_state_of all)
  show "\<not> is_zero (codex_ComputeExhaustedCooldown full_state_text 0)" unfolding cd by code_simp
  show "7 * second < codex_ComputeExhaustedCooldown full_state_text 0" unfolding cd by code_simp
  show "codexModelFamily ''gpt-5'' \<in> set (allFamilies full_state)" by (simp add: all gpt5_family)
qed (simp add: second_def)

section \<open>Priorities\<close>

lemma remaining_le: "remaining_pct u \<le> 100" "claude_remain u \<le> 100"
proof -
  have "fl (fl (1 - u) * 100) \<le> 100" if "0 < u"
  proof -
    have "fl (1 - u) \<le> of_int 1" using that by (intro fl_le) simp_all
    then have "fl (fl (1 - u) * 100) \<le> of_int 100" by (intro fl_le) simp_all
    then show ?thesis by simp
  qed
  then show "remaining_pct u \<le> 100" "claude_remain u \<le> 100"
    by (simp_all add: remaining_pct_def claude_remain_def)
qed

lemma remaining_antimono: assumes "u \<le> v" shows "remaining_pct v \<le> remaining_pct u"
proof (cases "0 < u")
  case True
  have "fl (1 - v) \<le> fl (1 - u)" using assms by (intro fl_mono) simp
  then have "fl (fl (1 - v) * 100) \<le> fl (fl (1 - u) * 100)" by (intro fl_mono) simp
  with True assms show ?thesis by (simp add: remaining_pct_def)
next
  case False
  with remaining_le(1) [of v] show ?thesis by (simp add: remaining_pct_def)
qed

lemma worst_remaining_le: "worst_remaining f \<le> of_int 100"
  using remaining_le(1) [of "cf_primary_util f"] remaining_le(1) [of "cf_secondary_util f"]
  by (simp add: worst_remaining_def Let_def)

lemma foldl_best:
  fixes g :: "'a \<Rightarrow> int"
  assumes "lo \<le> b" "b \<le> hi" "\<And>x. g x \<le> hi"
  shows "lo \<le> foldl (\<lambda>b x. let w = g x in if b < w then w else b) b xs
    \<and> foldl (\<lambda>b x. let w = g x in if b < w then w else b) b xs \<le> hi"
  using assms(1,2)
proof (induction xs arbitrary: b)
  case (Cons x xs)
  from Cons.prems Cons.IH [of "if b < g x then g x else b"] assms(3) [of x] show ?case by (simp add: Let_def)
qed simp

text \<open>The priority of a Codex account as a whole, and of a Gemini account, is a percentage
  whatever the stored document; the priority for one model, and that of a Claude account, never
  exceeds 100.\<close>

theorem priorities_bounded:
  "codex_AutoPriority st \<in> {0..100} \<and> gemini_AutoPriority st \<in> {0..100}
   \<and> cap_priority (codex_AssessCapacity st model t) \<le> 100
   \<and> cap_priority (claude_AssessCapacity st model t) \<le> 100"
proof (intro conjI)
  have w: "go_trunc (worst_remaining f) \<le> 100" for f
    using go_trunc_mono [OF worst_remaining_le [of f]] by (simp only: go_trunc_of_int)
  show "codex_AutoPriority st \<in> {0..100}"
  proof (cases "codex_state_of st")
    case (Some s)
    with foldl_best [of 0 0 100 "\<lambda>p. go_trunc (worst_remaining (codex_family s p))" "allFamilies s"] w
    show ?thesis by (simp add: codex_AutoPriority_def Let_def)
  qed (simp add: codex_AutoPriority_def)
  have "0 \<le> fl (clampFraction q * 100)" for q by (intro fl_pos) (simp add: clampFraction_def)
  moreover have "fl (clampFraction q * 100) \<le> of_int 100" for q by (intro fl_le) (simp_all add: clampFraction_def)
  ultimately show "gemini_AutoPriority st \<in> {0..100}"
    using go_trunc_bounds [of 0 _ 100] by (simp add: gemini_AutoPriority_def Let_def)
  show "cap_priority (codex_AssessCapacity st model t) \<le> 100"
    using w by (simp add: codex_AssessCapacity_def codexFamilyPriority_def Let_def split: option.split)
  have "go_trunc q \<le> 100" if "q \<le> 100" for q
    using go_trunc_mono [of q 100] go_trunc_of_int [of 100] that by simp
  then show "cap_priority (claude_AssessCapacity st model t) \<le> 100"
    using remaining_le(2) by (simp add: claude_AssessCapacity_def claude_AutoPriority_def Let_def split: option.split)
qed

section \<open>Codex: the preflight of a stream\<close>

text \<open>For an event stream that ends cleanly and is not exactly 8192 bytes long, the preflight
  decides by the first complete event within 8192 bytes (or the whole body, if it is shorter and has
  none), whatever the sizes of the network reads: a capacity error becomes the effect of a rate limit,
  anything else passes and every byte of the body is replayed.\<close>

theorem preflight_decides_by_bytes:
  assumes "list_all plain_turn turns" and "codexSSEPreflightMaxBytes < length turns"
    and "hr_end r = EndOK" and "length (hr_body r) \<noteq> codexSSEPreflightMaxBytes" and "is_event_stream r"
  shows "\<exists>eff body. codex_PreflightStream pauses now turns r prev = Some (Inr (eff, body))
     \<and> map_option fst eff = map_option (capacity_effect pauses now (hr_headers r) prev) (preflight_verdict (hr_body r))
     \<and> (eff = None \<longrightarrow> body = hr_body r)"
proof -
  have "firstCompleteSSEEvent [] = None" by (simp add: firstComplete_cases)
  with preflight_loop_verdict [of turns "[]" "hr_body r"] assms obtain v where
    v: "preflight_loop EndOK turns [] (hr_body r) = Some v" "verdict_of v = preflight_verdict (hr_body r)"
    "\<forall>b. v = PreflightAccept b \<longrightarrow> b = hr_body r" "\<forall>e. v \<noteq> PreflightError e" by auto
  then show ?thesis
    using assms(3,5) by (cases v) (simp_all add: codex_PreflightStream_def verdict_of_def flip: v(2))
qed

text \<open>A body whose first event reports a capacity error, read one byte at a time.\<close>

definition capacity_stream :: http_response where
  "capacity_stream =
     \<lparr> hr_status = 200, hr_headers = [(''Content-Type'', [''text/event-stream''])],
       hr_body = ''event: error'' @ [newline] @ ''data: model_at_capacity'' @ [newline, newline] @ ''data: more'',
       hr_end = EndOK \<rparr>"

lemma capacity_stream_verdict: "preflight_verdict (hr_body capacity_stream) = Some ''model_at_capacity''"
  by code_simp

theorem preflight_decides_by_bytes_witness:
  "\<exists>eff body. codex_PreflightStream some_pauses 0 (replicate 8193 (ReadUpTo 1 False)) capacity_stream []
     = Some (Inr (eff, body))
     \<and> map_option fst eff = Some (capacity_effect some_pauses 0 (hr_headers capacity_stream) [] ''model_at_capacity'')"
proof -
  have t: "list_all plain_turn (replicate 8193 (ReadUpTo 1 False))" by (simp add: list_all_length plain_turn_def)
  have l: "codexSSEPreflightMaxBytes < length (replicate 8193 (ReadUpTo 1 False))"
    by (simp add: codexSSEPreflightMaxBytes_def)
  have e: "hr_end capacity_stream = EndOK" "length (hr_body capacity_stream) \<noteq> codexSSEPreflightMaxBytes"
    by (simp_all add: capacity_stream_def codexSSEPreflightMaxBytes_def)
  have s: "is_event_stream capacity_stream" by code_simp
  from preflight_decides_by_bytes [OF t l e s, of some_pauses 0 "[]"] show ?thesis
    unfolding capacity_stream_verdict by auto
qed



section \<open>Classification\<close>

text \<open>A server error (a 5xx other than 529) counts against a Claude account, but the Codex and the
  Gemini driver report it as a success, which resets the count of the circuit breaker.\<close>

theorem server_errors_by_provider:
  assumes "500 \<le> status" and "status \<le> 599" and "status \<noteq> 529"
  shows "ef_kind (claude_Interpret pauses now status h body model prev) = EffectServerError
     \<and> ef_kind (fst (codex_Interpret pauses now status h body model prev d)) = EffectSuccess
     \<and> ef_kind (gemini_Interpret pauses now status h body model prev) = EffectSuccess"
proof (intro conjI)
  show "ef_kind (claude_Interpret pauses now status h body model prev) = EffectServerError"
    using assms by (simp add: claude_Interpret_def claude_effect_def Let_def)
  show "ef_kind (fst (codex_Interpret pauses now status h body model prev d)) = EffectSuccess"
    using assms by (simp add: codex_Interpret_def Let_def)
  show "ef_kind (gemini_Interpret pauses now status h body model prev) = EffectSuccess"
    using assms by (simp add: gemini_Interpret_def Let_def)
qed

theorem server_errors_by_provider_witness:
  "ef_kind (claude_Interpret some_pauses 0 502 None [] [] []) = EffectServerError
   \<and> ef_kind (fst (codex_Interpret some_pauses 0 502 None [] [] [] None)) = EffectSuccess
   \<and> ef_kind (gemini_Interpret some_pauses 0 502 None [] [] []) = EffectSuccess"
  by (rule server_errors_by_provider) simp_all

text \<open>A Codex response after which the relay turns to another account leaves a cooldown in the
  future, so the next choice of an account avoids the bucket.\<close>

theorem codex_retry_cools:
  assumes "codex_ShouldRetry status"
    and "0 < Pause401 pauses" "0 < Pause401Refresh pauses" "0 < Pause403 pauses" "0 < Pause429 pauses" "0 < Pause529 pauses"
  shows "now < ef_cooldown_until (fst (codex_Interpret pauses now status h body model prev d))"
proof -
  have u: "now < codex_429_until pauses now h body" using assms(5) by (simp add: codex_429_until_def Let_def)
  from assms(1) consider "status = 529" | "status = 429" | "status = 401" | "status = 403"
    by (auto simp: codex_ShouldRetry_def)
  then show ?thesis
    by cases (use assms(2-6) u in \<open>simp_all add: codex_Interpret_def upstream_info_def Let_def\<close>)
qed

theorem codex_retry_cools_witness:
  "5 < ef_cooldown_until (fst (codex_Interpret some_pauses 5 429 None [] [] [] None))"
  by (rule codex_retry_cools) (simp_all add: codex_ShouldRetry_def some_pauses_def second_def)

text \<open>Whatever responses the Codex driver has classified since it started, a health probe uses a
  model of the standard quota family.\<close>

theorem probe_model_standard:
  "codexModelFamily (probeModel (foldl (\<lambda>d (pauses, now, status, h, body, model, prev).
     snd (codex_Interpret pauses now status h body model prev d)) None responses)) = []"
proof -
  have step: "case snd (codex_Interpret pauses now status h body model prev d) of
        Some m \<Rightarrow> m \<noteq> [] \<and> codexModelFamily m = [] | None \<Rightarrow> True"
    if "case d of Some m \<Rightarrow> m \<noteq> [] \<and> codexModelFamily m = [] | None \<Rightarrow> True"
    for pauses now status h body model prev d
  proof -
    have "snd (codex_Interpret pauses now status h body model prev d) \<in> {d, noteGoodModel model d}"
      by (simp add: codex_Interpret_def Let_def)
    with that show ?thesis by (auto simp: noteGoodModel_def)
  qed
  have "case foldl (\<lambda>d (pauses, now, status, h, body, model, prev).
      snd (codex_Interpret pauses now status h body model prev d)) d responses of
      Some m \<Rightarrow> m \<noteq> [] \<and> codexModelFamily m = [] | None \<Rightarrow> True"
    if "case d of Some m \<Rightarrow> m \<noteq> [] \<and> codexModelFamily m = [] | None \<Rightarrow> True" for d
    using that by (induction responses arbitrary: d) (use step in \<open>simp_all add: case_prod_beta\<close>)
  from this [of None] have inv: "case foldl (\<lambda>d (pauses, now, status, h, body, model, prev).
      snd (codex_Interpret pauses now status h body model prev d)) None responses of
      Some m \<Rightarrow> m \<noteq> [] \<and> codexModelFamily m = [] | None \<Rightarrow> True" by simp
  have "to_lower (trim_space ''gpt-5.6-sol'') = ''gpt-5.6-sol''" by code_simp
  then have sol: "codexModelFamily ''gpt-5.6-sol'' = []"
    by (simp add: codexModelFamily_def codexModelEntryForID_def codexModelEntries_def codex_entry_def)
  have "mi_id (hd codexSupportedModels) = ''gpt-5.6-sol''" "codexSupportedModels \<noteq> []"
    by (simp_all add: codexSupportedModels_def codexModelEntries_def codex_entry_def)
  then have m: "codexSupportedModels = hd codexSupportedModels # tl codexSupportedModels"
    and i: "mi_id (hd codexSupportedModels) = ''gpt-5.6-sol''" by simp_all
  have "(case codexSupportedModels of x # _ \<Rightarrow> mi_id x | [] \<Rightarrow> ''gpt-5.6-sol'') = ''gpt-5.6-sol''"
    by (subst m) (simp add: i)
  with sol inv show ?thesis unfolding probeModel_def by (auto split: option.splits)
qed

section \<open>Claude and Gemini: the stored state\<close>

text \<open>A Claude 429 for an Opus model with a unified reset time bars exactly the Opus models, until
  exactly the second of the reset.\<close>

theorem opus_limit_bars_opus:
  assumes "isOpusModel model" and "unified_reset h = Some reset" and "fits64 (unix_sec reset)" and "unix_sec reset \<noteq> 0"
  shows "cap_eligible (claude_AssessCapacity
           (ef_updated_state (claude_Interpret pauses now 429 h body model prev)) wanted t) =
     (isOpusModel wanted \<longrightarrow> unix_sec reset \<le> unix_sec t)"
proof -
  let ?s0 = "captureState h prev"
  let ?s = "(if 0 < cl_opus_until ?s0 \<and> cl_opus_until ?s0 \<le> unix_sec now then ?s0\<lparr>cl_opus_until := 0\<rparr> else ?s0)
      \<lparr>cl_opus_until := unix_sec reset\<rparr>"
  have wf: "wf_claude ?s" using wf_captureState [of h prev] assms(3) by (simp add: wf_claude_def)
  have "ef_updated_state (claude_Interpret pauses now 429 h body model prev) = encode_claude ?s"
    using assms(1,2) by (simp add: claude_Interpret_def claude_effect_def Let_def)
  then have "claude_state_of (ef_updated_state (claude_Interpret pauses now 429 h body model prev)) = Some ?s"
    using claude_state_of_encode [OF wf] by simp
  then show ?thesis using assms(4) by (simp add: claude_AssessCapacity_def claude_CanServe_def)
qed

theorem opus_limit_bars_opus_witness:
  "\<not> cap_eligible (claude_AssessCapacity
      (ef_updated_state (claude_Interpret some_pauses 0 429
         (Some [(''Anthropic-Ratelimit-Unified-Reset'', [''2026-01-01T00:00:00Z''])]) [] ''claude-opus-5'' []))
      ''claude-opus-5'' 0)"
proof -
  let ?h = "Some [(''Anthropic-Ratelimit-Unified-Reset'', [''2026-01-01T00:00:00Z''])]"
  have o: "isOpusModel ''claude-opus-5''" by code_simp
  have r: "unified_reset ?h = Some (1767225600 * second)" by code_simp
  have u: "unix_sec (1767225600 * second) = 1767225600" "unix_sec 0 = 0" by code_simp+
  have f: "fits64 (unix_sec (1767225600 * second))" "unix_sec (1767225600 * second) \<noteq> 0" unfolding u by code_simp+
  show ?thesis unfolding opus_limit_bars_opus [OF o r f] using o u by simp
qed

text \<open>Classifying a response never loses the project of a Gemini account: it is the one that the
  body names, if any, and the stored one otherwise, and only a stored project makes an account
  eligible.\<close>

theorem gemini_keeps_project:
  assumes "fits64 (unix_sec now)"
  shows "gs_project_id (parseGeminiState (ef_updated_state (gemini_Interpret pauses now status h body model prev))) =
     (let named = gs_project_id (parseGeminiLoadResponse now body)
      in if named \<noteq> [] then named else gs_project_id (parseGeminiState prev))"
proof -
  let ?load = "parseGeminiLoadResponse now body" and ?s0 = "parseGeminiState prev"
  let ?s = "if gs_project_id ?load \<noteq> []
      then ?s0\<lparr> gs_project_id := gs_project_id ?load, gs_last_load_at := unix_sec now \<rparr> else ?s0"
  have wf: "wf_gemini ?s" using wf_parseGeminiState [of prev] assms by (simp add: wf_gemini_def)
  have "ef_updated_state (gemini_Interpret pauses now status h body model prev) = encode_gemini ?s"
    by (simp add: gemini_Interpret_def gemini_effect_def Let_def)
  then show ?thesis using parse_encode_gemini [OF wf] by (simp add: Let_def)
qed

theorem gemini_keeps_project_witness:
  "gs_project_id (parseGeminiState (ef_updated_state (gemini_Interpret some_pauses 0 429 None [] [] ''{\"project_id\":\"p\"}''))) = ''p''"
proof -
  have "fits64 (unix_sec 0)" by code_simp
  moreover have "gs_project_id (parseGeminiLoadResponse 0 []) = []" by code_simp
  moreover have "gs_project_id (parseGeminiState ''{\"project_id\":\"p\"}'') = ''p''" by code_simp
  ultimately show ?thesis using gemini_keeps_project [of 0 some_pauses 429 None "[]" "[]" "''{\"project_id\":\"p\"}''"] by simp
qed

text \<open>A generate request whose body is the document null makes the Gemini driver write to a nil map:
  building the request panics, whatever the account, as soon as it has a project.\<close>

theorem gemini_null_body_panics:
  assumes "ri_raw_body i = ''null''" and "trim_prefix (ri_path i) ''/gemini'' = path"
    and "path \<noteq> []" and "path \<noteq> ri_path i" and "needsGeminiProject path"
    and "gs_project_id (parseGeminiState (ac_provider_state_json acct)) \<noteq> []"
  shows "gemini_BuildRequest goos goarch apiURL i acct token = BuildPanic"
proof -
  have j: "json_parse ''null'' = Some JNull" by code_simp
  have s: "stripJSONField ''null'' ''model'' = ''null''"
    by (simp add: stripJSONField_def unmarshal_map_def j map_value_def)
  have "injectGeminiProject ''null'' project = None" for project
    by (simp add: injectGeminiProject_def unmarshal_map_def j)
  then have "gemini_body i acct path = BuildPanic"
    using assms(1,5,6) by (simp add: gemini_body_def s Let_def)
  with assms(2-4) show ?thesis by (simp add: gemini_BuildRequest_def Let_def)
qed

theorem gemini_null_body_panics_witness:
  "gemini_BuildRequest ''linux'' ''amd64'' ''https://g''
     \<lparr> ri_body = [], ri_raw_body = ''null'', ri_headers = [], ri_path = ''/gemini/v1:generateContent'',
       ri_raw_query = [], ri_model = [], ri_user_id = [], ri_is_stream = False, ri_is_count_tokens = False \<rparr>
     (acct_a\<lparr>ac_provider_state_json := ''{\"project_id\":\"p\"}''\<rparr>) ''tok'' = BuildPanic"
proof (rule gemini_null_body_panics [where path = "''/v1:generateContent''"])
  show "needsGeminiProject ''/v1:generateContent''" by code_simp
  have "gs_project_id (parseGeminiState ''{\"project_id\":\"p\"}'') = ''p''" by code_simp
  then show "gs_project_id (parseGeminiState (ac_provider_state_json
      (acct_a\<lparr>ac_provider_state_json := ''{\"project_id\":\"p\"}''\<rparr>))) \<noteq> []" by simp
qed (simp_all add: trim_prefix_def has_prefix_def)

end
