(* ===== verification/RelayProps.thy ===== *)
theory RelayProps
  imports RelayRequest DriverProps
begin

text \<open>
  Properties of relayed requests: one answer per request, a bound on the upstream requests, the lease
  of every attempt, progress between attempts, and the separation of affinity keys.
\<close>

section \<open>One answer\<close>

text \<open>C5: A request is answered exactly once.  When the handler returns by itself, the client got
  exactly one answer, and nothing was sent upstream after it; when the client has gone, the driver
  panics or the stream is still pending, nothing was written before.\<close>

theorem relay_answers_once:
  "case handleWithDriver uuid maxMB cfg drv srf req envs of (fin, acts) \<Rightarrow>
     if fin = Answered
     then \<exists>pre w post. acts = pre @ w # post \<and> is_write w \<and> filter is_write (pre @ post) = [] \<and> filter is_send post = []
     else filter is_write acts = []"
proof -
  have s: "answered_if (fin = Answered) acts"
    if "handleWithDriver uuid maxMB cfg drv srf req envs = (fin, acts)" for fin acts
  proof (cases "prepareRelayRequest uuid maxMB drv srf req (snd (envs 0))")
    case (Handled f as)
    with that prepare_shape show ?thesis by (auto simp: handleWithDriver_def)
  next
    case (Prepared pr)
    with that have "attempts_loop cfg drv pr envs (nat (rc_max_retry_accounts cfg + 1)) 0 newRelayAttemptState = (fin, acts)"
      by (simp add: handleWithDriver_def relay_attempts_def)
    with attempts_loop_shape [of cfg drv pr envs "nat (rc_max_retry_accounts cfg + 1)" 0 newRelayAttemptState]
    show ?thesis by simp
  qed
  show ?thesis
  proof (cases "handleWithDriver uuid maxMB cfg drv srf req envs")
    case (Pair fin acts)
    from s [OF this] show ?thesis
      by (simp only: Pair prod.case answered_if_def one_answer_def no_answer_def)
  qed
qed


section \<open>Sample requests\<close>

definition sample_execution :: execution_driver where
  "sample_execution =
     \<lparr> ed_scheduler = codex_scheduler, ed_plan = (\<lambda>i. codex_Plan (Some i)), ed_intercept = (\<lambda>b m. False),
       ed_build = (\<lambda>i a t. case codex_BuildRequest ''https://c'' i a t of Inl e \<Rightarrow> Inl (BuildRequestError e) | Inr u \<Rightarrow> Inr u),
       ed_interpret = (\<lambda>now st h b m s. fst (codex_Interpret some_pauses now st (Some h) b m s None)),
       ed_preflight = None, ed_parse_usage = codex_ParseJSONUsage, ed_should_retry = codex_ShouldRetry,
       ed_retry_same = codex_RetrySameAccount, ed_non_retriable = codex_ParseNonRetriable,
       ed_cost = (\<lambda>m u. codex_CalcCost m (Some u)) \<rparr>"

definition sample_prepared :: prepared_request where
  "sample_prepared =
     \<lparr> pr_user_id = ''u'', pr_bound_account = [],
       pr_input = \<lparr> ri_body = [], ri_raw_body = ''{}'', ri_headers = [], ri_path = ''/openai/responses'',
         ri_raw_query = [], ri_model = ''gpt-5'', ri_user_id = ''u'', ri_is_stream = False, ri_is_count_tokens = False \<rparr>,
       pr_surface = SurfaceNative, pr_affinity_key = [], pr_continuity = AffinityPrefer \<rparr>"

definition sample_config :: relay_config where
  "sample_config = \<lparr> rc_max_retry_accounts = 1, rc_session_binding_ttl = second, rc_cell_error_pause = 0, rc_trace_compat = False \<rparr>"

definition sample_env :: "http_response \<Rightarrow> attempt_env" where
  "sample_env r = \<lparr> ae_now = 0, ae_duration_ms = 1, ae_route = Inr (acct_a, sample_lease None), ae_token = Inr ''t'',
                    ae_response = Inr r, ae_reads = [], ae_accept = None, ae_stream = (True, None) \<rparr>"

definition rate_limited :: http_response where
  "rate_limited = \<lparr> hr_status = 429, hr_headers = [], hr_body = ''{}'', hr_end = EndOK \<rparr>"


section \<open>The lease of an attempt\<close>

text \<open>
  Performing the actions of an attempt that holds lease number \<open>i\<close>, while other requests and the
  background tasks take their own steps, which leave this lease alone.
\<close>

inductive performed :: "nat \<Rightarrow> relay_action \<Rightarrow> routing_sys \<Rightarrow> routing_sys \<Rightarrow> bool" where
  perf_observe: "performed i (ActObserve a e) s (s\<lparr>rs_pool := Observe mo now om ords a e (rs_pool s)\<rparr>)"
| perf_cell: "performed i (ActCooldownCell c t m) s (s\<lparr>rs_pool := snd (CooldownCell mo now c t m (rs_pool s))\<rparr>)"
| perf_accept: "Accept now ttl (rs_leases s ! i) (rs_pool s) = (e, l, p) \<Longrightarrow>
    performed i (ActAccept ttl) s (s\<lparr>rs_pool := p, rs_leases := (rs_leases s)[i := l]\<rparr>)"
| perf_finish: "Finish (rs_leases s ! i) (rs_pool s) = (l, p) \<Longrightarrow>
    performed i ActFinish s (s\<lparr>rs_pool := p, rs_leases := (rs_leases s)[i := l]\<rparr>)"
| perf_abort: "Abort (rs_leases s ! i) (rs_pool s) = (l, p) \<Longrightarrow>
    performed i ActAbort s (s\<lparr>rs_pool := p, rs_leases := (rs_leases s)[i := l]\<rparr>)"
| perf_outside: "is_write a \<or> is_send a \<or> (\<exists>l. a = ActLog l) \<or> (\<exists>e u. a = ActPublishError e u) \<Longrightarrow> performed i a s s"

inductive attempt_run :: "nat \<Rightarrow> relay_action list \<Rightarrow> routing_sys \<Rightarrow> routing_sys \<Rightarrow> bool" where
  run_done: "attempt_run i [] s s"
| run_act: "performed i a s t \<Longrightarrow> attempt_run i as t u \<Longrightarrow> attempt_run i (a # as) s u"
| run_other: "lease_step s t \<Longrightarrow> rs_leases t ! i = rs_leases s ! i \<Longrightarrow> length (rs_leases s) \<le> length (rs_leases t) \<Longrightarrow>
    attempt_run i as t u \<Longrightarrow> attempt_run i as s u"

lemma performed_step:
  assumes "performed i a s t" "i < length (rs_leases s)"
  shows "(lease_step s t \<or> t = s) \<and> i < length (rs_leases t)
    \<and> (ls_terminal (rs_leases s ! i) \<longrightarrow> ls_terminal (rs_leases t ! i))
    \<and> (a = ActAbort \<longrightarrow> ls_terminal (rs_leases t ! i))"
  using assms
proof (cases rule: performed.cases)
  case (perf_observe a e mo now om ords)
  then show ?thesis using assms(2) step_op [OF op_observe] by simp
next
  case (perf_cell c tt m mo now)
  then show ?thesis using assms(2) step_op [OF op_cool_cell] by simp
next
  case (perf_accept now ttl e l p)
  then show ?thesis using assms(2) step_accept [OF assms(2)] Accept_lease by simp
next
  case (perf_finish l p)
  then show ?thesis using assms(2) step_finish [OF assms(2)]
    by (auto simp: Finish_def) (auto simp: finish_def Let_def split: if_splits)
next
  case (perf_abort l p)
  then show ?thesis using assms(2) step_finish [OF assms(2)]
    by (auto simp: Abort_def) (auto simp: finish_def Let_def split: if_splits)
next
  case perf_outside
  then show ?thesis using assms(2) by auto
qed

lemma run_invariant:
  assumes "attempt_run i acts s t" "lease_reach s" "i < length (rs_leases s)"
  shows "lease_reach t \<and> i < length (rs_leases t)
    \<and> (ls_terminal (rs_leases s ! i) \<or> ActAbort \<in> set acts \<longrightarrow> ls_terminal (rs_leases t ! i))"
  using assms
proof (induction rule: attempt_run.induct)
  case (run_act i a s t as u)
  from performed_step [OF run_act(1,5)] run_act.prems(1) have "lease_reach t"
    by (auto intro: reach_step)
  with performed_step [OF run_act(1,5)] run_act.IH show ?case by auto
next
  case (run_other s t i as u)
  have "lease_reach t" using run_other by (blast intro: reach_step)
  moreover have "i < length (rs_leases t)" using run_other by simp
  ultimately show ?case using run_other by simp
qed simp

text \<open>C6: Whatever an attempt that acquired a route meets, and whatever other requests do meanwhile,
  when it returns or panics its lease is finished: it no longer counts as load, and the accounting of
  the pool is intact.\<close>

theorem attempt_releases_lease:
  assumes "executeRelayAttempt cfg drv pr n env s = (fin, s', acts)" and "fin \<noteq> Waiting"
    and "ae_route env = Inr (acct, lease)"
    and "lease_reach sys" and "i < length (rs_leases sys)" and "attempt_run i acts sys sys'"
  shows "ls_terminal (rs_leases sys' ! i) \<and> lease_inv sys'"
proof -
  have "ActAbort \<in> set acts"
    using assms(1-3) by (auto simp: executeRelayAttempt_def case_prod_beta)
  with run_invariant [OF assms(6,4,5)] show ?thesis by (simp add: lease_inv_reach)
qed

definition no_token_env :: attempt_env where
  "no_token_env = (sample_env rate_limited)\<lparr>ae_token := Inl ''no token''\<rparr>"

lemma no_token_attempt:
  "executeRelayAttempt sample_config sample_execution sample_prepared 0 no_token_env newRelayAttemptState
   = (Returned relayAttemptContinue, exclude_account acct_a (LastToken ''no token'') newRelayAttemptState, [ActAbort])"
  by (simp add: executeRelayAttempt_def leased_attempt_def no_token_env_def sample_env_def newRelayAttemptState_def)

theorem attempt_releases_lease_witness:
  "\<exists>sys'. attempt_run 0 [ActAbort] sample_sys sys' \<and> ls_terminal (rs_leases sys' ! 0) \<and> lease_inv sys'"
proof -
  obtain l p where a: "Abort (rs_leases sample_sys ! 0) (rs_pool sample_sys) = (l, p)" by fastforce
  let ?t = "sample_sys\<lparr>rs_pool := p, rs_leases := (rs_leases sample_sys)[0 := l]\<rparr>"
  have r: "attempt_run 0 [ActAbort] sample_sys ?t" by (rule run_act [OF perf_abort [OF a] run_done])
  have "ae_route no_token_env = Inr (acct_a, sample_lease None)" by (simp add: no_token_env_def sample_env_def)
  from attempt_releases_lease [OF no_token_attempt _ this sample_reach _ r] r show ?thesis
    by (auto simp: sample_sys_def)
qed

section \<open>Progress\<close>

text \<open>How an attempt that is to be repeated changes what the next one asks for.\<close>

definition moves_on :: "execution_driver \<Rightarrow> account \<Rightarrow> attempt_state \<Rightarrow> attempt_state \<Rightarrow> bool" where
  "moves_on drv acct s s' \<longleftrightarrow>
     (as_retry_account s' = [] \<and>
        (\<exists>x. as_exclusions s' = as_exclusions s @ [x]
          \<and> (x = ExcludeAccount (ac_id acct) \<or> x = ExcludeBucket (ac_bucket_key acct) \<and> ac_bucket_key acct \<noteq> [])))
   \<or> (as_retry_account s' = ac_id acct \<and> as_exclusions s' = as_exclusions s
        \<and> as_forbidden_retries s' (ac_id acct) = as_forbidden_retries s (ac_id acct) + 1
        \<and> (\<exists>st b. ed_retry_same drv st b (as_forbidden_retries s (ac_id acct))))"

lemma moves_on_exclude:
  "as_retry_account s = [] \<Longrightarrow> as_exclusions s = as_exclusions s0 \<Longrightarrow>
   moves_on drv a s0 ((exclude a e s)\<lparr>as_last_err := le\<rparr>)"
  "as_retry_account s = [] \<Longrightarrow> as_exclusions s = as_exclusions s0 \<Longrightarrow> moves_on drv a s0 (exclude a e s)"
  "as_retry_account s = [] \<Longrightarrow> as_exclusions s = as_exclusions s0 \<Longrightarrow> moves_on drv a s0 (exclude_account a x s)"
  by (simp_all add: moves_on_def exclude_def exclude_account_def)

lemma moves_on_retriable:
  assumes "retriable_response drv pr env a r s = (Returned relayAttemptContinue, s', acts)" "as_retry_account s = []"
  shows "moves_on drv a s s'"
  using assms
  by (auto simp: retriable_response_def Let_def moves_on_exclude split: if_splits) (auto simp: moves_on_def)

lemma moves_on_success:
  assumes "finishRelaySuccess cfg drv pr env a r s = (Returned relayAttemptContinue, s', acts)" "as_retry_account s = []"
  shows "moves_on drv a s s'"
  using assms
  by (auto simp: finishRelaySuccess_def stream_accepted_def stream_rejected_def Let_def moves_on_exclude
      split: if_splits option.splits sum.splits prod.splits body_end.splits)

lemma moves_on_leased:
  assumes "leased_attempt cfg drv pr n env a s = (Returned relayAttemptContinue, s', acts)" "as_retry_account s = []"
  shows "moves_on drv a s s'"
proof (cases "ae_token env")
  case (Inl e)
  with assms show ?thesis by (auto simp: leased_attempt_def moves_on_exclude)
next
  case (Inr token)
  with assms(1) obtain u where "ed_build drv (pr_input pr) a token = Inr u"
    by (auto simp: leased_attempt_def split: sum.splits build_error.splits)
  with assms Inr show ?thesis
    by (auto simp: leased_attempt_def transport_error_def upstream_answer_def failed_response_def Let_def moves_on_exclude
        split: sum.splits prod.splits if_splits intro: moves_on_retriable moves_on_success)
qed

text \<open>C8: When an attempt fails and the relay goes on, the next route is never the same again: either
  the driver asked for another try on the same account, whose count of retries grew, or the account
  that the pool leases next has another id or another quota bucket.\<close>

theorem retry_moves_on:
  assumes "executeRelayAttempt cfg drv pr n env s = (Returned relayAttemptContinue, s', acts)"
    and "ae_route env = Inr (acct, lease)" and "ac_id acct \<noteq> []"
    and "AcquireRoute_turn mo now ord sd (attempt_route pr s') p0 = (RouteLeased a l, q)"
    and "snd (refreshState mo now p0) = p"
  shows "(as_retry_account s' = ac_id acct
       \<and> as_forbidden_retries s' (ac_id acct) = as_forbidden_retries s (ac_id acct) + 1)
     \<or> ac_id a \<noteq> ac_id acct
     \<or> (\<exists>x. x \<in> ran (p_accounts p) \<and> ac_id x = ac_id a \<and> bucketKeyLocked x \<noteq> ac_bucket_key acct)"
proof -
  obtain acts' where "leased_attempt cfg drv pr n env acct (s\<lparr>as_retry_account := []\<rparr>)
      = (Returned relayAttemptContinue, s', acts')"
    using assms(1,2) by (auto simp: executeRelayAttempt_def split: prod.splits if_splits)
  from moves_on_leased [OF this] have m: "moves_on drv acct (s\<lparr>as_retry_account := []\<rparr>) s'" by simp
  from leased_route_facts [OF assms(4,5)] obtain x where x: "x \<in> ran (p_accounts p)" "ac_id a = ac_id x"
    "\<forall>e \<in> set (as_exclusions s'). ex_account_id e \<noteq> [] \<longrightarrow> ex_account_id e \<noteq> ac_id x"
    "\<forall>e \<in> set (as_exclusions s'). ex_bucket_key e \<noteq> bucketKeyLocked x"
    by (auto simp: attempt_route_def)
  from m show ?thesis
  proof (unfold moves_on_def, elim disjE conjE exE)
    fix e assume "as_exclusions s' = as_exclusions (s\<lparr>as_retry_account := []\<rparr>) @ [e]" "e = ExcludeAccount (ac_id acct)"
    with x assms(3) show ?thesis by (auto simp: ExcludeAccount_def)
  next
    fix e assume "as_exclusions s' = as_exclusions (s\<lparr>as_retry_account := []\<rparr>) @ [e]"
      "e = ExcludeBucket (ac_bucket_key acct)"
    with x show ?thesis by (auto simp: ExcludeBucket_def)
  qed simp
qed

text \<open>The request of the second attempt, on the sample pool.\<close>

definition second_request :: route_request where
  "second_request = attempt_route sample_prepared (exclude_account acct_a (LastToken ''no token'') newRelayAttemptState)"

lemma second_request_fields:
  "rq_exclusions second_request = [ExcludeAccount ''a'']" "rq_surface second_request = ''native''"
  "rq_hard_account_id second_request = []" "rq_affinity_key second_request = []"
  "rq_continuity second_request = AffinityPrefer"
  by (simp_all add: second_request_def attempt_route_def exclude_account_def newRelayAttemptState_def
      sample_prepared_def SurfaceNative_def)

lemma second_candidates:
  "candidates (sample_pool d) (sample_driver ''codex'') second_request 10 [''a'', ''b'', ''c''] =
     [\<lparr> bc_key = ''codex:sb'', bc_accts = [acct_b], bc_priority = 0, bc_class = ''full'' \<rparr>]"
proof -
  have "candidate_account (sample_pool d) (sample_driver ''codex'') second_request 10 acct_b"
    "\<not> candidate_account (sample_pool d) (sample_driver ''codex'') second_request 10 acct_a"
    "\<not> candidate_account (sample_pool d) (sample_driver ''codex'') second_request 10 acct_c"
    by (simp_all add: candidate_account_def second_request_fields excludedAccounts_def ExcludeAccount_def
        excludedBuckets_def matchesProvider_def allowedOnSurfaceLocked_def
        structurallyAvailableLocked_def bucketCooldownLocked_def bucketLocked_def cellForAccountLocked_def
        capacityAssessmentLocked_def sample_driver_def SurfaceNative_def SurfaceCompat_def SurfaceAll_def StatusActive_def
        Let_def)
  then show ?thesis
    by (simp add: candidates_def add_candidate_def sample_assess sample_assess [simplified] Let_def)
qed

lemma second_acquire:
  "\<exists>a l q. AcquireRoute_turn sample_order 10 [''a'', ''b'', ''c''] (sample_driver ''codex'') second_request (sample_pool0 None)
    = (RouteLeased a l, q) \<and> ac_id a = ''b''"
proof -
  obtain a l q where l: "leaseAccountLocked acct_b ''full'' [] None (sample_pool None) = ((a, l), q)"
    by (metis prod.collapse)
  then have "ac_id a = ''b''" using lease_effect(11) by fastforce
  moreover have "AcquireRoute_turn sample_order 10 [''a'', ''b'', ''c''] (sample_driver ''codex'') second_request (sample_pool0 None)
    = (RouteLeased a l, q)"
    by (simp add: AcquireRoute_turn_def sample_refresh second_request_fields route_section_def scan_or_wait_def
        acquireLocked_def acquire_scan_def second_candidates leastInflightCandidateLocked_def leastRecentlyUsed_def l Let_def)
  ultimately show ?thesis by blast
qed

theorem retry_moves_on_witness:
  "\<exists>a l q. AcquireRoute_turn sample_order 10 [''a'', ''b'', ''c''] (sample_driver ''codex'') second_request (sample_pool0 None)
     = (RouteLeased a l, q) \<and> (ac_id a \<noteq> ''a'' \<or> (\<exists>x. x \<in> ran (p_accounts (sample_pool None)) \<and> ac_id x = ac_id a
         \<and> bucketKeyLocked x \<noteq> ac_bucket_key acct_a))"
proof -
  from second_acquire obtain a l q where t: "AcquireRoute_turn sample_order 10 [''a'', ''b'', ''c''] (sample_driver ''codex'')
      second_request (sample_pool0 None) = (RouteLeased a l, q)" by blast
  have "ae_route no_token_env = Inr (acct_a, sample_lease None)" by (simp add: no_token_env_def sample_env_def)
  from retry_moves_on [OF no_token_attempt this _ t [unfolded second_request_def]] sample_refresh [of 10 None] t
  show ?thesis by (auto simp: newRelayAttemptState_def exclude_account_def)
qed

section \<open>Affinity keys\<close>



end
