(* ===== verification/Crypto.thy ===== *)
theory Crypto
  imports GoJson
begin

text \<open>
  Encryption of stored tokens (src/internal/crypto/crypto.go): AES in CBC mode with PKCS #7 padding
  and the format \<open>iv:ciphertext\<close> in hexadecimal.  The block cipher of crypto/aes and the key derivation
  of golang.org/x/crypto/scrypt are parameters; the random initialization vector is an argument.
\<close>

record block_cipher =
  aes_encrypt :: "string \<Rightarrow> string \<Rightarrow> string"
  aes_decrypt :: "string \<Rightarrow> string \<Rightarrow> string"

record crypto =
  cy_encryption_key :: string
  cy_derived_keys :: "string \<rightharpoonup> string"

datatype crypto_error =
    DeriveFailed err
  | BadKeySize nat
  | MissingSeparator
  | BadIV
  | BadIVLength nat
  | BadCiphertext
  | NotBlockAligned nat
  | EmptyData
  | InvalidPadding nat
  | InvalidPaddingBytes

definition NewCrypto :: "string \<Rightarrow> crypto" where
  "NewCrypto encryptionKey = \<lparr> cy_encryption_key = encryptionKey, cy_derived_keys = Map.empty \<rparr>"

definition BlockSize :: nat where "BlockSize = 16"

section \<open>Keys\<close>

definition DeriveKey ::
  "(string \<Rightarrow> string \<Rightarrow> err + string) \<Rightarrow> string \<Rightarrow> crypto \<Rightarrow> (crypto_error + string) \<times> crypto" where
  "DeriveKey scrypt salt c =
     (case cy_derived_keys c salt of
        Some key \<Rightarrow> (Inr key, c)
      | None \<Rightarrow>
          (case scrypt (cy_encryption_key c) salt of
             Inl e \<Rightarrow> (Inl (DeriveFailed e), c)
           | Inr key \<Rightarrow> (Inr key, c\<lparr>cy_derived_keys := (cy_derived_keys c)(salt \<mapsto> key)\<rparr>)))"

text \<open>\<open>aes.NewCipher\<close> takes keys of 16, 24 or 32 bytes.\<close>

definition key_size_ok :: "string \<Rightarrow> bool" where
  "key_size_ok key \<longleftrightarrow> length key = 16 \<or> length key = 24 \<or> length key = 32"

section \<open>Hexadecimal\<close>

definition hex_encode :: "string \<Rightarrow> string" where
  "hex_encode s = concat (map (\<lambda>c. [hex_digit ((of_char c :: nat) div 16), hex_digit ((of_char c :: nat) mod 16)]) s)"

fun hex_decode :: "string \<Rightarrow> string option" where
  "hex_decode [] = Some []"
| "hex_decode [a] = None"
| "hex_decode (a # b # r) =
     (case (hex_val a, hex_val b, hex_decode r) of
        (Some x, Some y, Some s) \<Rightarrow> Some (char_of (16 * x + y) # s)
      | _ \<Rightarrow> None)"

section \<open>Cipher block chaining\<close>

fun xor_byte :: "char \<Rightarrow> char \<Rightarrow> char" where
  "xor_byte (Char a0 a1 a2 a3 a4 a5 a6 a7) (Char b0 b1 b2 b3 b4 b5 b6 b7) =
     Char (a0 \<noteq> b0) (a1 \<noteq> b1) (a2 \<noteq> b2) (a3 \<noteq> b3) (a4 \<noteq> b4) (a5 \<noteq> b5) (a6 \<noteq> b6) (a7 \<noteq> b7)"

definition xor_bytes :: "string \<Rightarrow> string \<Rightarrow> string" where
  "xor_bytes s t = map2 xor_byte s t"

function cbc_encrypt :: "(string \<Rightarrow> string) \<Rightarrow> string \<Rightarrow> string \<Rightarrow> string" where
  "cbc_encrypt enc prev s =
     (if s = [] then []
      else (let c = enc (xor_bytes (take BlockSize s) prev)
            in c @ cbc_encrypt enc c (drop BlockSize s)))"
  by auto
termination by (relation "measure (\<lambda>(_, _, s). length s)") (auto simp: BlockSize_def)

function cbc_decrypt :: "(string \<Rightarrow> string) \<Rightarrow> string \<Rightarrow> string \<Rightarrow> string" where
  "cbc_decrypt dec prev s =
     (if s = [] then []
      else xor_bytes (dec (take BlockSize s)) prev @ cbc_decrypt dec (take BlockSize s) (drop BlockSize s))"
  by auto
termination by (relation "measure (\<lambda>(_, _, s). length s)") (auto simp: BlockSize_def)

declare cbc_encrypt.simps [simp del] cbc_decrypt.simps [simp del]

section \<open>Padding\<close>

definition pkcs7Pad :: "string \<Rightarrow> nat \<Rightarrow> string" where
  "pkcs7Pad s blockSize =
     (let padding = blockSize - length s mod blockSize in s @ replicate padding (char_of padding))"

definition pkcs7Unpad :: "string \<Rightarrow> nat \<Rightarrow> crypto_error + string" where
  "pkcs7Unpad s blockSize =
     (if s = [] then Inl EmptyData
      else (let padding = (of_char (last s) :: nat) in
            if padding = 0 \<or> blockSize < padding \<or> length s < padding then Inl (InvalidPadding padding)
            else if \<exists>c \<in> set (drop (length s - padding) s). c \<noteq> char_of padding then Inl InvalidPaddingBytes
            else Inr (take (length s - padding) s)))"

section \<open>The two operations\<close>

definition Encrypt ::
  "block_cipher \<Rightarrow> (string \<Rightarrow> string \<Rightarrow> err + string) \<Rightarrow> string \<Rightarrow> string \<Rightarrow> string \<Rightarrow> crypto
   \<Rightarrow> (crypto_error + string) \<times> crypto" where
  "Encrypt aes scrypt iv plaintext salt c0 =
     (case DeriveKey scrypt salt c0 of
        (Inl e, c) \<Rightarrow> (Inl e, c)
      | (Inr key, c) \<Rightarrow>
          (if \<not> key_size_ok key then (Inl (BadKeySize (length key)), c)
           else (Inr (hex_encode iv @ '':'' @ hex_encode (cbc_encrypt (aes_encrypt aes key) iv (pkcs7Pad plaintext BlockSize))), c)))"

definition decrypt_parts ::
  "block_cipher \<Rightarrow> string \<Rightarrow> string \<Rightarrow> string \<Rightarrow> crypto_error + string" where
  "decrypt_parts aes key ivHex ctHex =
     (case hex_decode ivHex of
        None \<Rightarrow> Inl BadIV
      | Some iv \<Rightarrow>
          (if length iv \<noteq> BlockSize then Inl (BadIVLength (length iv))
           else (case hex_decode ctHex of
                   None \<Rightarrow> Inl BadCiphertext
                 | Some ct \<Rightarrow>
                     (if length ct mod BlockSize \<noteq> 0 then Inl (NotBlockAligned (length ct))
                      else if \<not> key_size_ok key then Inl (BadKeySize (length key))
                      else pkcs7Unpad (cbc_decrypt (aes_decrypt aes key) iv ct) BlockSize))))"

definition Decrypt ::
  "block_cipher \<Rightarrow> (string \<Rightarrow> string \<Rightarrow> err + string) \<Rightarrow> string \<Rightarrow> string \<Rightarrow> crypto
   \<Rightarrow> (crypto_error + string) \<times> crypto" where
  "Decrypt aes scrypt encrypted salt c0 =
     (case DeriveKey scrypt salt c0 of
        (Inl e, c) \<Rightarrow> (Inl e, c)
      | (Inr key, c) \<Rightarrow>
          (case str_index encrypted '':'' of
             None \<Rightarrow> (Inl MissingSeparator, c)
           | Some i \<Rightarrow> (decrypt_parts aes key (take i encrypted) (drop (i + 1) encrypted), c)))"

section \<open>Facts\<close>

lemma of_char_256: "(of_char c :: nat) < 256"
  by (cases c) (simp add: of_char_Char horner_sum_simps)

lemma of_char_hex: "(of_char c :: nat) div 16 < 16" "(of_char c :: nat) mod 16 < 16"
  using of_char_256 [of c] by (rule less_mult_imp_div_less [of _ 16 16, simplified]) simp

lemma hex_decode_encode [simp]: "hex_decode (hex_encode s) = Some s"
proof (induction s)
  case (Cons c s)
  have "(of_char c :: nat) div 16 < 16" "(of_char c :: nat) mod 16 < 16" by (rule of_char_hex)+
  moreover have "16 * ((of_char c :: nat) div 16) + (of_char c :: nat) mod 16 = of_char c" by simp
  ultimately show ?case using Cons by (simp add: hex_encode_def)
qed (simp add: hex_encode_def)

lemma hex_digit_not_colon: "d < 16 \<Longrightarrow> hex_digit d \<noteq> CHR '':''"
  using hex_val_digit [of d] by (auto simp: hex_val_def)

lemma hex_encode_colon: "str_index (hex_encode s @ '':'' @ r) '':'' = Some (length (hex_encode s))"
proof (induction s)
  case (Cons c s)
  have "hex_digit ((of_char c :: nat) div 16) \<noteq> CHR '':''" "hex_digit ((of_char c :: nat) mod 16) \<noteq> CHR '':''"
    by (rule hex_digit_not_colon, rule of_char_hex)+
  with Cons show ?case by (simp add: hex_encode_def has_prefix_def)
qed (simp add: hex_encode_def has_prefix_def)

lemma xor_byte_cancel [simp]: "xor_byte (xor_byte a b) b = a"
  by (cases a; cases b) auto

lemma xor_bytes_cancel: "length s = length t \<Longrightarrow> xor_bytes (xor_bytes s t) t = s"
  by (induction s t rule: list_induct2) (simp_all add: xor_bytes_def)

lemma length_xor_bytes [simp]: "length (xor_bytes s t) = min (length s) (length t)"
  by (simp add: xor_bytes_def)

text \<open>Decryption in CBC mode inverts encryption, and blocks stay blocks.\<close>

lemma cbc_inverse:
  assumes "\<And>b. length b = BlockSize \<Longrightarrow> length (enc b) = BlockSize \<and> dec (enc b) = b"
  shows "length prev = BlockSize \<Longrightarrow> length s mod BlockSize = 0
    \<Longrightarrow> cbc_decrypt dec prev (cbc_encrypt enc prev s) = s \<and> length (cbc_encrypt enc prev s) = length s"
proof (induction "length s" arbitrary: s prev rule: less_induct)
  case less
  show ?case
  proof (cases "s = []")
    case False
    have l: "BlockSize \<le> length s"
      using False less.prems(2) by (metis length_0_conv linorder_not_less mod_less)
    let ?x = "xor_bytes (take BlockSize s) prev" and ?r = "drop BlockSize s"
    have x: "length ?x = BlockSize" using l less.prems(1) by simp
    from assms [OF x] have e: "length (enc ?x) = BlockSize" "dec (enc ?x) = ?x" by auto
    have "length ?r < length s" using l False by (simp add: BlockSize_def)
    moreover have "length ?r mod BlockSize = 0" using l less.prems(2) by (simp add: le_mod_geq)
    ultimately have ih: "cbc_decrypt dec (enc ?x) (cbc_encrypt enc (enc ?x) ?r) = ?r"
      "length (cbc_encrypt enc (enc ?x) ?r) = length ?r"
      using less.hyps [of ?r "enc ?x"] e(1) by auto
    have c: "cbc_encrypt enc prev s = enc ?x @ cbc_encrypt enc (enc ?x) ?r"
      using False by (simp add: cbc_encrypt.simps [of enc prev s] Let_def)
    have ne: "enc ?x \<noteq> []" using e(1) by (auto simp: BlockSize_def)
    have "cbc_decrypt dec prev (cbc_encrypt enc prev s)
        = xor_bytes (dec (enc ?x)) prev @ cbc_decrypt dec (enc ?x) (cbc_encrypt enc (enc ?x) ?r)"
      using ne e(1) by (simp add: c cbc_decrypt.simps [of dec prev "enc ?x @ _"])
    also have "\<dots> = s"
      using ih e l less.prems(1) by (simp add: xor_bytes_cancel)
    finally show ?thesis using ih(2) e(1) l by (simp add: c)
  qed (simp add: cbc_encrypt.simps cbc_decrypt.simps)
qed

lemma unpad_pad:
  assumes "0 < n" "n < 256"
  shows "pkcs7Unpad (pkcs7Pad s n) n = Inr s"
proof -
  obtain p where d: "p = n - length s mod n" by blast
  let ?p = p
  have "length s mod n < n" using assms(1) by (rule mod_less_divisor)
  then have p: "0 < ?p" "?p \<le> n" unfolding d by linarith+
  then have c: "(of_char (char_of ?p :: char) :: nat) = ?p" using assms(2) by simp
  have "last (pkcs7Pad s n) = char_of ?p" using p by (simp add: pkcs7Pad_def Let_def flip: d)
  moreover have "length (pkcs7Pad s n) = length s + ?p" "pkcs7Pad s n \<noteq> []"
    using p by (auto simp: pkcs7Pad_def Let_def simp flip: d)
  moreover have "take (length s) (pkcs7Pad s n) = s" "drop (length s) (pkcs7Pad s n) = replicate ?p (char_of ?p)"
    by (simp_all add: pkcs7Pad_def Let_def flip: d)
  ultimately show ?thesis using p c by (simp add: pkcs7Unpad_def Let_def)
qed

lemma length_pad:
  assumes "0 < n"
  shows "length (pkcs7Pad s n) mod n = 0"
proof -
  have "length s mod n < n" using assms by (rule mod_less_divisor)
  then have "length s + (n - length s mod n) = (length s div n) * n + n"
    using div_mult_mod_eq [of "length s" n] by linarith
  then have "length (pkcs7Pad s n) = (length s div n) * n + n" by (simp add: pkcs7Pad_def Let_def)
  then show ?thesis by simp
qed

lemma decrypt_encrypt_parts:
  assumes "\<And>b. length b = BlockSize \<Longrightarrow> length (aes_encrypt aes key b) = BlockSize \<and> aes_decrypt aes key (aes_encrypt aes key b) = b"
    and "length iv = BlockSize" and "key_size_ok key"
  shows "decrypt_parts aes key (hex_encode iv)
           (hex_encode (cbc_encrypt (aes_encrypt aes key) iv (pkcs7Pad s BlockSize))) = Inr s"
proof -
  have l: "length (pkcs7Pad s BlockSize) mod BlockSize = 0" by (rule length_pad) (simp add: BlockSize_def)
  from cbc_inverse [OF assms(1,2) l]
  have c: "cbc_decrypt (aes_decrypt aes key) iv (cbc_encrypt (aes_encrypt aes key) iv (pkcs7Pad s BlockSize)) = pkcs7Pad s BlockSize"
    "length (cbc_encrypt (aes_encrypt aes key) iv (pkcs7Pad s BlockSize)) = length (pkcs7Pad s BlockSize)"
    by blast+
  have "pkcs7Unpad (pkcs7Pad s BlockSize) BlockSize = Inr s" by (rule unpad_pad) (simp_all add: BlockSize_def)
  with c l assms(2,3) show ?thesis by (simp add: decrypt_parts_def)
qed

lemma DeriveKey_again:
  "DeriveKey scrypt salt c0 = (Inr key, c) \<Longrightarrow> DeriveKey scrypt salt c = (Inr key, c)"
  by (auto simp: DeriveKey_def split: option.splits sum.splits)

section \<open>Round trip\<close>

lemma encrypt_decrypt:
  assumes "\<And>key b. length b = BlockSize \<Longrightarrow>
      length (aes_encrypt aes key b) = BlockSize \<and> aes_decrypt aes key (aes_encrypt aes key b) = b"
    and "length iv = BlockSize" and "Encrypt aes scrypt iv s salt c0 = (Inr e, c)"
  shows "Decrypt aes scrypt e salt c = (Inr s, c)"
proof -
  obtain key where k: "DeriveKey scrypt salt c0 = (Inr key, c)" "key_size_ok key"
    "e = hex_encode iv @ '':'' @ hex_encode (cbc_encrypt (aes_encrypt aes key) iv (pkcs7Pad s BlockSize))"
    using assms(3) by (auto simp: Encrypt_def split: prod.splits sum.splits if_splits)
  have "decrypt_parts aes key (hex_encode iv)
           (hex_encode (cbc_encrypt (aes_encrypt aes key) iv (pkcs7Pad s BlockSize))) = Inr s"
    using decrypt_encrypt_parts [OF assms(1,2) k(2)] by blast
  then show ?thesis
    using hex_encode_colon [of iv] by (simp add: Decrypt_def DeriveKey_again [OF k(1)] k(3))
qed

text \<open>The key cache makes no difference.\<close>

lemma encrypt_decrypt_fresh:
  assumes "\<And>key b. length b = BlockSize \<Longrightarrow>
      length (aes_encrypt aes key b) = BlockSize \<and> aes_decrypt aes key (aes_encrypt aes key b) = b"
    and "length iv = BlockSize" and "Encrypt aes scrypt iv s salt c0 = (Inr e, c)"
  shows "fst (Decrypt aes scrypt e salt c0) = Inr s"
proof -
  have k: "fst (DeriveKey scrypt salt c0) = fst (DeriveKey scrypt salt c)"
    using assms(3) by (auto simp: Encrypt_def DeriveKey_def split: option.splits sum.splits if_splits)
  have d: "fst (Decrypt aes scrypt e salt x) =
      (case fst (DeriveKey scrypt salt x) of Inl err \<Rightarrow> Inl err
       | Inr key \<Rightarrow> (case str_index e '':'' of None \<Rightarrow> Inl MissingSeparator
                    | Some i \<Rightarrow> decrypt_parts aes key (take i e) (drop (i + 1) e)))" for x
    by (simp add: Decrypt_def split: prod.split sum.split option.split)
  have "fst (Decrypt aes scrypt e salt c0) = fst (Decrypt aes scrypt e salt c)"
    unfolding d k ..
  with encrypt_decrypt [OF assms] show ?thesis by simp
qed


text \<open>A cipher of the assumed kind.\<close>

definition sample_cipher :: block_cipher where
  "sample_cipher = \<lparr> aes_encrypt = (\<lambda>key b. rev b), aes_decrypt = (\<lambda>key b. rev b) \<rparr>"

definition sample_scrypt :: "string \<Rightarrow> string \<Rightarrow> err + string" where
  "sample_scrypt k s = Inr (replicate 32 CHR ''k'')"


end
