(* ===== verification/Tokens.thy ===== *)
theory Tokens
  imports PoolRuntime NetErr Crypto EffectProps
begin

text \<open>
  Access tokens (src/internal/tokens/manager.go): the token of an account is decrypted if it lasts
  long enough, otherwise refreshed under the lock of the account.  The pool is passed through every
  call; between two calls, while the manager sleeps or waits for the provider, other requests may
  change it, which is the function \<open>tv_others\<close> of the call.  The provider's endpoint is a parameter.
  The structured log is not modelled.
\<close>

record token_response =
  tr_access_token :: string
  tr_refresh_token :: string
  tr_expires_in :: int

record token_manager =
  tm_cipher :: block_cipher
  tm_scrypt :: "string \<Rightarrow> string \<Rightarrow> err + string"
  tm_crypto :: crypto
  tm_crypto_text :: "crypto_error \<Rightarrow> string"
  tm_has_transport :: bool
  tm_drivers :: "provider \<rightharpoonup> (proxy_config option \<Rightarrow> string \<Rightarrow> go_error + token_response)"
  tm_refresh_advance :: duration
  tm_cell_error_pause :: duration

text \<open>What one call meets at its numbered steps.\<close>

record token_env =
  tv_order :: map_order
  tv_now :: "nat \<Rightarrow> gotime"
  tv_lock_id :: string
  tv_iv :: "nat \<Rightarrow> string"
  tv_others :: "nat \<Rightarrow> pool \<Rightarrow> pool"

datatype token_error =
    AccountNotFound string
  | AccountGoneAfterWait
  | DecryptAccess crypto_error
  | RefreshInProgress
  | DecryptRefresh crypto_error
  | EmptyRefreshToken string
  | UnknownProvider string
  | NoRefreshDriver provider
  | RefreshViaCell string go_error
  | RefreshFailed go_error
  | EncryptAccess crypto_error
  | EncryptRefresh crypto_error
  | StoreTokensFailed err

definition tokenSalt :: string where "tokenSalt = ''salt''"

text \<open>The key cache of the crypto object only saves time (lemma \<open>DeriveKey_again\<close>): it is not passed on.\<close>

definition token_decrypt :: "token_manager \<Rightarrow> string \<Rightarrow> crypto_error + string" where
  "token_decrypt tm s = fst (Decrypt (tm_cipher tm) (tm_scrypt tm) s tokenSalt (tm_crypto tm))"

definition EncryptToken :: "token_manager \<Rightarrow> string \<Rightarrow> string \<Rightarrow> crypto_error + string" where
  "EncryptToken tm iv s = fst (Encrypt (tm_cipher tm) (tm_scrypt tm) iv s tokenSalt (tm_crypto tm))"

text \<open>\<open>time.Time.UnixMilli\<close> and \<open>time.Duration.Milliseconds\<close>, which truncates.\<close>

definition unix_milli :: "gotime \<Rightarrow> int" where
  "unix_milli t = t div 1000000"

definition milliseconds :: "duration \<Rightarrow> int" where
  "milliseconds d = (if d < 0 then - ((- d) div 1000000) else d div 1000000)"

section \<open>Refreshing\<close>

definition markError :: "token_env \<Rightarrow> nat \<Rightarrow> string \<Rightarrow> string \<Rightarrow> pool \<Rightarrow> pool" where
  "markError env n accountID msg p = MarkError (tv_order env) (tv_now env n) accountID msg p"

definition refresh_failed ::
  "token_manager \<Rightarrow> token_env \<Rightarrow> account \<Rightarrow> string \<Rightarrow> go_error \<Rightarrow> pool \<Rightarrow> token_error \<times> pool" where
  "refresh_failed tm env acct accountID e p =
     (if ac_cell_id acct \<noteq> [] \<and> 0 < tm_cell_error_pause tm \<and> IsTransport (Some e)
      then (RefreshViaCell (ac_cell_id acct) e,
            snd (CooldownCell (tv_order env) (tv_now env 4) (ac_cell_id acct)
                   (tv_now env 4 + tm_cell_error_pause tm)
                   (''refresh transport error on account '' @ ac_email acct @ '': '' @ ge_message e) p))
      else (RefreshFailed e, markError env 4 accountID (ge_message e) p))"

definition new_refresh_token :: "token_manager \<Rightarrow> token_env \<Rightarrow> account \<Rightarrow> token_response \<Rightarrow> crypto_error + string" where
  "new_refresh_token tm env acct resp =
     (if tr_refresh_token resp \<noteq> [] then EncryptToken tm (tv_iv env 1) (tr_refresh_token resp)
      else Inr (ac_refresh_token_enc acct))"

definition store_refreshed ::
  "token_manager \<Rightarrow> token_env \<Rightarrow> account \<Rightarrow> string \<Rightarrow> token_response \<Rightarrow> pool \<Rightarrow> (token_error + string) \<times> pool" where
  "store_refreshed tm env acct accountID resp p =
     (case EncryptToken tm (tv_iv env 0) (tr_access_token resp) of
        Inl e \<Rightarrow> (Inl (EncryptAccess e), p)
      | Inr encAccess \<Rightarrow>
          (case new_refresh_token tm env acct resp of
             Inl e \<Rightarrow> (Inl (EncryptRefresh e), p)
           | Inr encRefresh \<Rightarrow>
               (case StoreTokens (tv_order env) (tv_now env 5) accountID encAccess encRefresh
                       (unix_milli (tv_now env 4 + wrap64 (tr_expires_in resp * second))) p of
                  (Some e, q) \<Rightarrow> (Inl (StoreTokensFailed e), q)
                | (None, q) \<Rightarrow> (Inr (tr_access_token resp), q))))"

text \<open>The refresh proper, with the lock held.  The third component of a result lists the refresh tokens
  that were presented to the provider.\<close>

type_synonym refresh_result = "(token_error + string) \<times> pool \<times> string list"

definition refresh_locked :: "token_manager \<Rightarrow> token_env \<Rightarrow> string \<Rightarrow> pool \<Rightarrow> refresh_result" where
  "refresh_locked tm env accountID p0 =
     (case Get (tv_order env) (tv_now env 2) accountID p0 of
        (None, p) \<Rightarrow> (Inl (AccountNotFound accountID), p, [])
      | (Some acct, p) \<Rightarrow>
          (case token_decrypt tm (ac_refresh_token_enc acct) of
             Inl e \<Rightarrow> (Inl (DecryptRefresh e),
                       markError env 3 accountID (''decrypt refresh token: '' @ tm_crypto_text tm e) p, [])
           | Inr refreshToken \<Rightarrow>
               (if refreshToken = [] then
                  (Inl (EmptyRefreshToken accountID), markError env 3 accountID ''empty refresh token'' p, [])
                else if ac_provider acct = [] then
                  (Inl (UnknownProvider accountID), markError env 3 accountID ''unknown provider'' p, [])
                else
                  (case tm_drivers tm (ac_provider acct) of
                     None \<Rightarrow> (Inl (NoRefreshDriver (ac_provider acct)), markError env 3 accountID ''no refresh driver'' p, [])
                   | Some drv \<Rightarrow>
                       (case drv (if tm_has_transport tm then TransportProxy (Some acct) else None) refreshToken of
                          Inl e \<Rightarrow> (case refresh_failed tm env acct accountID e (tv_others env 2 p) of
                                     (te, q) \<Rightarrow> (Inl te, q, [refreshToken]))
                        | Inr resp \<Rightarrow> (case store_refreshed tm env acct accountID resp (tv_others env 2 p) of
                                        (r, q) \<Rightarrow> (r, q, [refreshToken])))))))"

text \<open>Another refresh holds the lock: the manager sleeps two seconds and takes what it finds.\<close>

definition refresh_wait :: "token_manager \<Rightarrow> token_env \<Rightarrow> string \<Rightarrow> pool \<Rightarrow> refresh_result" where
  "refresh_wait tm env accountID p0 =
     (case Get (tv_order env) (tv_now env 2) accountID p0 of
        (None, p) \<Rightarrow> (Inl AccountGoneAfterWait, p, [])
      | (Some acct, p) \<Rightarrow>
          (if ac_access_token_enc acct \<noteq> [] \<and> unix_milli (tv_now env 3) < ac_expires_at acct
           then (case token_decrypt tm (ac_access_token_enc acct) of
                   Inr token \<Rightarrow> (if token \<noteq> [] then (Inr token, p, []) else (Inl RefreshInProgress, p, []))
                 | Inl e \<Rightarrow> (Inl RefreshInProgress, p, []))
           else (Inl RefreshInProgress, p, [])))"

definition refresh :: "token_manager \<Rightarrow> token_env \<Rightarrow> string \<Rightarrow> pool \<Rightarrow> refresh_result" where
  "refresh tm env accountID p0 =
     (case p_AcquireRefreshLock (tv_now env 1) accountID (tv_lock_id env) p0 of
        (acquired, p1) \<Rightarrow>
          (if \<not> acquired then refresh_wait tm env accountID (tv_others env 1 p1)
           else (case refresh_locked tm env accountID (tv_others env 1 p1) of
                   (r, p2, used) \<Rightarrow>
                     (r, p_ReleaseRefreshLock accountID (tv_lock_id env) (tv_others env 3 p2), used))))"

definition ForceRefresh :: "token_manager \<Rightarrow> token_env \<Rightarrow> string \<Rightarrow> pool \<Rightarrow> refresh_result" where
  "ForceRefresh tm env accountID p = refresh tm env accountID p"

text \<open>The current token, if it is to be used as it is.\<close>

definition EnsureValidToken :: "token_manager \<Rightarrow> token_env \<Rightarrow> string \<Rightarrow> pool \<Rightarrow> refresh_result" where
  "EnsureValidToken tm env accountID p0 =
     (case Get (tv_order env) (tv_now env 0) accountID p0 of
        (None, p) \<Rightarrow> (Inl (AccountNotFound accountID), p, [])
      | (Some acct, p) \<Rightarrow>
          (if 0 < ac_expires_at acct
              \<and> unix_milli (tv_now env 0) < wrap64 (ac_expires_at acct - milliseconds (tm_refresh_advance tm))
              \<and> ac_access_token_enc acct \<noteq> []
           then (case token_decrypt tm (ac_access_token_enc acct) of
                   Inl e \<Rightarrow> (Inl (DecryptAccess e), p, [])
                 | Inr token \<Rightarrow> (if token \<noteq> [] then (Inr token, p, [])
                                 else refresh tm env accountID (tv_others env 0 p)))
           else refresh tm env accountID (tv_others env 0 p)))"

end
