(* ===== verification/TokenProps.thy ===== *)
theory TokenProps
  imports Tokens
begin

text \<open>
  Properties of the token manager: refreshes of an account exclude each other, a refreshed token is
  what the next request gets, and what a cancelled refresh does to the account.
\<close>

section \<open>A refresh that reaches the provider\<close>

definition sound_pool :: "map_order \<Rightarrow> pool \<Rightarrow> bool" where
  "sound_pool mo p \<longleftrightarrow> pool_wf p \<and> loadable mo p \<and> SaveAccountErr (p_store p) = None"

text \<open>The refresh got the lock and presents token \<open>t\<close> of account \<open>acct\<close> to the provider, which answers
  \<open>ans\<close> when the pool is \<open>p\<close>.\<close>

definition presents ::
  "token_manager \<Rightarrow> token_env \<Rightarrow> string \<Rightarrow> pool \<Rightarrow> account \<Rightarrow> string \<Rightarrow> go_error + token_response \<Rightarrow> pool \<Rightarrow> bool" where
  "presents tm env i p0 acct t ans p \<longleftrightarrow>
     (\<exists>p1 p2 drv.
        p_AcquireRefreshLock (tv_now env 1) i (tv_lock_id env) p0 = (True, p1)
      \<and> Get (tv_order env) (tv_now env 2) i (tv_others env 1 p1) = (Some acct, p2)
      \<and> token_decrypt tm (ac_refresh_token_enc acct) = Inr t \<and> t \<noteq> [] \<and> ac_provider acct \<noteq> []
      \<and> tm_drivers tm (ac_provider acct) = Some drv
      \<and> drv (if tm_has_transport tm then TransportProxy (Some acct) else None) t = ans
      \<and> p = tv_others env 2 p2)"

section \<open>Sample refreshes\<close>

definition sample_secret :: "string \<Rightarrow> string" where
  "sample_secret s = projr (fst (Encrypt sample_cipher sample_scrypt (replicate 16 CHR ''i'') s tokenSalt (NewCrypto ''k'')))"

definition sample_manager :: "go_error + token_response \<Rightarrow> token_manager" where
  "sample_manager ans =
     \<lparr> tm_cipher = sample_cipher, tm_scrypt = sample_scrypt, tm_crypto = NewCrypto ''k'', tm_crypto_text = (\<lambda>_. []),
       tm_has_transport = True, tm_drivers = (\<lambda>_. Some (\<lambda>px t. ans)), tm_refresh_advance = 60 * second,
       tm_cell_error_pause = 0 \<rparr>"

definition sample_token_env :: "gotime \<Rightarrow> token_env" where
  "sample_token_env now =
     \<lparr> tv_order = sample_order, tv_now = (\<lambda>_. now), tv_lock_id = ''l'', tv_iv = (\<lambda>_. replicate 16 CHR ''v''),
       tv_others = (\<lambda>_. id) \<rparr>"

definition sample_token_store :: store where
  "sample_token_store = sample_store
     \<lparr>s_accounts := [''a'' \<mapsto> acct_a, ''b'' \<mapsto> acct_b\<lparr>ac_refresh_token_enc := sample_secret ''r''\<rparr>, ''c'' \<mapsto> acct_c]\<rparr>"

definition sample_token_pool :: pool where
  "sample_token_pool = empty_pool sample_token_store (NewBus 4)"

lemma sample_cipher_ok:
  "length b = BlockSize \<Longrightarrow> length (aes_encrypt sample_cipher key b) = BlockSize
     \<and> aes_decrypt sample_cipher key (aes_encrypt sample_cipher key b) = b"
  by (simp add: sample_cipher_def)

lemma sample_decrypts: "token_decrypt (sample_manager ans) (sample_secret s) = Inr s"
proof -
  let ?r = "Encrypt sample_cipher sample_scrypt (replicate 16 CHR ''i'') s tokenSalt (NewCrypto ''k'')"
  have "?r = (Inr (sample_secret s), snd ?r)"
    by (simp add: sample_secret_def Encrypt_def DeriveKey_def NewCrypto_def sample_scrypt_def key_size_ok_def)
  from encrypt_decrypt_fresh [OF sample_cipher_ok _ this] show ?thesis
    by (simp add: token_decrypt_def sample_manager_def BlockSize_def)
qed

lemma sample_token_store_frame [simp]:
  "s_accounts sample_token_store = [''a'' \<mapsto> acct_a, ''b'' \<mapsto> acct_b\<lparr>ac_refresh_token_enc := sample_secret ''r''\<rparr>, ''c'' \<mapsto> acct_c]"
  "s_cells sample_token_store = Map.empty" "s_buckets sample_token_store = s_buckets sample_store"
  "SaveAccountErr sample_token_store = None" "ListAccountsErr sample_token_store = None" "s_locks sample_token_store = Map.empty"
  unfolding sample_token_store_def by (simp_all add: sample_store_def NewMockStore_def)

lemma sample_token_store_ok: "store_wf sample_token_store" "order_ok sample_token_store sample_order"
proof -
  show "store_wf sample_token_store" unfolding store_wf_def by auto
  show "order_ok sample_token_store sample_order"
    by (auto simp: order_ok_def ranges_def sample_order_def split: if_splits)
qed

definition sample_locked :: "gotime \<Rightarrow> pool" where
  "sample_locked now = snd (p_AcquireRefreshLock now ''b'' ''l'' sample_token_pool)"

lemma sample_locked_pool:
  "p_AcquireRefreshLock now ''b'' ''l'' sample_token_pool = (True, sample_locked now)"
  "s_accounts (p_store (sample_locked now)) = s_accounts sample_token_store"
  "loadable sample_order (sample_locked now)" "pool_wf (sample_locked now)"
  "SaveAccountErr (p_store (sample_locked now)) = None"
proof -
  have e: "sample_locked now = sample_token_pool\<lparr>p_store := sample_token_store\<lparr>s_locks := [''b'' \<mapsto>
      \<lparr> rl_account_id = ''b'', rl_lock_id = ''l'', rl_created_at = now, rl_expires_at = now + 30 * second \<rparr>]\<rparr>\<rparr>"
    "fst (p_AcquireRefreshLock now ''b'' ''l'' sample_token_pool)"
    by (simp_all add: sample_locked_def p_AcquireRefreshLock_def AcquireRefreshLock_def sample_token_pool_def empty_pool_def)
  show "p_AcquireRefreshLock now ''b'' ''l'' sample_token_pool = (True, sample_locked now)"
    using e(2) by (metis prod.collapse sample_locked_def)
  show "s_accounts (p_store (sample_locked now)) = s_accounts sample_token_store"
    "SaveAccountErr (p_store (sample_locked now)) = None" unfolding e(1) by simp_all
  show "loadable sample_order (sample_locked now)"
    using sample_token_store_ok unfolding e(1) by (simp add: loadable_def order_ok_def store_wf_def)
  show "pool_wf (sample_locked now)"
    using pool_wf_empty [OF sample_token_store_ok(1)]
    unfolding e(1) sample_token_pool_def by (simp add: pool_wf_def store_wf_def)
qed

text \<open>The pool while the provider is asked, and the account then.\<close>

definition sample_asking :: "gotime \<Rightarrow> pool" where
  "sample_asking now = snd (reloadStateLocked sample_order now (sample_locked now))"

definition sample_token_account :: "gotime \<Rightarrow> account" where
  "sample_token_account now = projectAccountLocked (sample_asking now)
     (HydrateRuntime (acct_b\<lparr>ac_refresh_token_enc := sample_secret ''r''\<rparr>))"

lemma sample_asking_sound: "sound_pool sample_order (sample_asking now)"
  using sample_locked_pool pool_wf_reload [OF sample_locked_pool(4)]
  by (simp add: sound_pool_def sample_asking_def loadable_def)

lemma sample_presents:
  "presents (sample_manager ans) (sample_token_env now) ''b'' sample_token_pool (sample_token_account now) ''r'' ans
     (sample_asking now)"
proof -
  have "p_accounts (sample_asking now) ''b'' = Some (HydrateRuntime (acct_b\<lparr>ac_refresh_token_enc := sample_secret ''r''\<rparr>))"
    using reload_accounts [OF sample_locked_pool(3)]
    by (simp add: sample_asking_def sample_locked_pool(2))
  then have g: "Get sample_order now ''b'' (sample_locked now) = (Some (sample_token_account now), sample_asking now)"
    by (simp add: Get_def refreshState_def sample_asking_def [symmetric] sample_token_account_def Let_def)
  have f: "ac_refresh_token_enc (sample_token_account now) = sample_secret ''r''"
    "ac_provider (sample_token_account now) = ''codex''"
    by (simp_all add: sample_token_account_def projectAccountLocked_def acct_b_def sample_account_def Let_def split: option.split)
  show ?thesis
    unfolding presents_def
    using sample_locked_pool(1) [of now] g f sample_decrypts [of ans "''r''"]
    by (intro exI [of _ "sample_locked now"] exI [of _ "sample_asking now"] exI [of _ "\<lambda>px t. ans"])
       (simp add: sample_token_env_def sample_manager_def)
qed

lemma sample_stored: "s_accounts (p_store (sample_asking now)) ''b'' \<noteq> None"
  by (simp add: sample_asking_def sample_locked_pool(2))

section \<open>The lock\<close>

lemma refresh_locked_used: "refresh_locked tm env i p = (r, q, used) \<Longrightarrow> length used \<le> 1"
  by (auto simp: refresh_locked_def split: option.splits sum.splits prod.splits if_splits)

lemma refresh_wait_used: "refresh_wait tm env i p = (r, q, used) \<Longrightarrow> used = []"
  by (auto simp: refresh_wait_def split: option.splits sum.splits prod.splits if_splits)

lemma acquire_lock_iff:
  "fst (p_AcquireRefreshLock now i k p) \<longleftrightarrow> lock_held now i (p_store p) = None"
  by (simp add: p_AcquireRefreshLock_def AcquireRefreshLock_def lock_held_def split: prod.split option.split)

lemma release_lock_gone:
  "s_locks (p_store (p_ReleaseRefreshLock i k p)) i = Some l \<Longrightarrow> rl_lock_id l \<noteq> k"
  by (auto simp: p_ReleaseRefreshLock_def ReleaseRefreshLock_def split: option.splits if_splits)



lemma refresh_failing:
  assumes "presents tm env i p0 acct t (Inl e) p"
  shows "refresh tm env i p0 =
    (case refresh_failed tm env acct i e p of
       (te, q) \<Rightarrow> (Inl te, p_ReleaseRefreshLock i (tv_lock_id env) (tv_others env 3 q), [t]))"
  using assms by (auto simp: presents_def refresh_def refresh_locked_def split: prod.splits)

lemma refresh_answered:
  assumes "presents tm env i p0 acct t (Inr resp) p"
  shows "refresh tm env i p0 =
    (case store_refreshed tm env acct i resp p of
       (r, q) \<Rightarrow> (r, p_ReleaseRefreshLock i (tv_lock_id env) (tv_others env 3 q), [t]))"
  using assms by (auto simp: presents_def refresh_def refresh_locked_def split: prod.splits)

lemma release_frame_store [simp]:
  "s_accounts (p_store (p_ReleaseRefreshLock i k p)) = s_accounts (p_store p)"
  "p_accounts (p_ReleaseRefreshLock i k p) = p_accounts p"
  by (simp_all add: p_ReleaseRefreshLock_def ReleaseRefreshLock_def split: option.split)

lemma pool_wf_release_lock [simp]: "pool_wf (p_ReleaseRefreshLock i k p) = pool_wf p"
  by (simp add: p_ReleaseRefreshLock_def ReleaseRefreshLock_def pool_wf_def store_wf_def split: option.split)

lemma MarkError_saved:
  assumes "sound_pool mo p" and "s_accounts (p_store p) i = Some a"
  shows "\<exists>x. s_accounts (p_store (MarkError mo now i msg p)) i = Some x \<and> ac_status x = StatusError"
proof -
  let ?P = "snd (reloadStateLocked mo now p)"
  have l: "loadable mo p" "pool_wf p" "SaveAccountErr (p_store p) = None" using assms(1) by (simp_all add: sound_pool_def)
  have a: "p_accounts ?P i = Some (HydrateRuntime a)" using reload_accounts [OF l(1)] assms(2) by simp
  let ?a = "(HydrateRuntime a)\<lparr>ac_status := StatusError, ac_error_message := msg\<rparr>"
  let ?Q = "?P\<lparr>p_accounts := (p_accounts ?P)(i \<mapsto> ?a)\<rparr>"
  have "ac_id ?a = i" using pool_wf_account [OF pool_wf_reload [OF l(2)] a] by simp
  then have "s_accounts (p_store (persistLocked i ?Q)) i = Some (PersistRuntime ?a)"
    using persistLocked_saves [of ?Q i ?a] l(3) by simp
  moreover have "MarkError mo now i msg p = persistLocked i ?Q" using a by (simp add: MarkError_def Let_def)
  ultimately show ?thesis by simp
qed

text \<open>A refresh that the client cancels takes the account out of service: when the provider call of
  an on-demand refresh ends because the request was cancelled, the account is stored with status
  error, and no later request, of any client, is routed to it.\<close>

theorem cancelled_refresh_marks_error:
  assumes "presents tm env i p0 acct t (Inl e) p" and "ge_canceled e"
    and "sound_pool (tv_order env) p" and "s_accounts (p_store p) i \<noteq> None" and "tv_others env 3 = id"
    and "refresh tm env i p0 = (r, q, used)"
  shows "r = Inl (RefreshFailed e)
    \<and> (\<exists>x. s_accounts (p_store q) i = Some x \<and> ac_status x = StatusError)
    \<and> (\<forall>mo now ord drv req a l q'. loadable mo q \<longrightarrow>
         AcquireRoute_turn mo now ord drv req q = (RouteLeased a l, q') \<longrightarrow> ac_id a \<noteq> i)"
proof -
  let ?m = "MarkError (tv_order env) (tv_now env 4) i (ge_message e) p"
  have q: "r = Inl (RefreshFailed e)" "q = p_ReleaseRefreshLock i (tv_lock_id env) ?m"
    using assms(2,5,6) refresh_failing [OF assms(1)] by (simp_all add: refresh_failed_def markError_def)
  obtain a where "s_accounts (p_store p) i = Some a" using assms(4) by blast
  from MarkError_saved [OF assms(3) this] obtain x where
    x: "s_accounts (p_store q) i = Some x" "ac_status x = StatusError" unfolding q(2) by auto
  have "pool_wf q" using pool_op_routing [OF op_error] assms(3) by (simp add: q(2) sound_pool_def)
  with x q(1) stored_inactive_not_routed [OF x(1)] show ?thesis
    by (fastforce simp: StatusError_def StatusActive_def)
qed

definition sample_canceled :: go_error where
  "sample_canceled = \<lparr> ge_message = ''context canceled'', ge_canceled = True, ge_deadline = False, ge_net = False \<rparr>"

theorem cancelled_refresh_marks_error_witness:
  "\<exists>r q used x. refresh (sample_manager (Inl sample_canceled)) (sample_token_env 5) ''b'' sample_token_pool = (r, q, used)
     \<and> s_accounts (p_store q) ''b'' = Some x \<and> ac_status x = StatusError"
proof -
  obtain r q u where r: "refresh (sample_manager (Inl sample_canceled)) (sample_token_env 5) ''b'' sample_token_pool = (r, q, u)"
    by (metis prod_cases3)
  have c: "ge_canceled sample_canceled" by (simp add: sample_canceled_def)
  have o: "sound_pool (tv_order (sample_token_env 5)) (sample_asking 5)" "tv_others (sample_token_env 5) 3 = id"
    using sample_asking_sound by (simp_all add: sample_token_env_def)
  from cancelled_refresh_marks_error [OF sample_presents c o(1) sample_stored o(2) r] r show ?thesis by blast
qed

text \<open>C11: A refreshed token is what the next request gets.  After a successful refresh, and as long as
  the new expiry is further away than the configured advance, asking for a valid token decrypts the
  stored one to the access token that the provider issued, and presents no refresh token again.\<close>

theorem refreshed_token_reused:
  assumes "presents tm env i p0 acct t (Inr resp) p" and "sound_pool (tv_order env) p"
    and "\<And>key b. length b = BlockSize \<Longrightarrow> length (aes_encrypt (tm_cipher tm) key b) = BlockSize
           \<and> aes_decrypt (tm_cipher tm) key (aes_encrypt (tm_cipher tm) key b) = b"
    and "length (tv_iv env 0) = BlockSize" and "tv_others env 3 = id"
    and "refresh tm env i p0 = (Inr token, q, used)" and "token \<noteq> []"
    and "loadable (tv_order env') q"
    and "expires = unix_milli (tv_now env 4 + wrap64 (tr_expires_in resp * second))" and "0 < expires"
    and "unix_milli (tv_now env' 0) < wrap64 (expires - milliseconds (tm_refresh_advance tm))"
  shows "token = tr_access_token resp
    \<and> (\<exists>q'. EnsureValidToken tm env' i q = (Inr token, q', []))"
proof -
  obtain acc ref q1 where st: "token = tr_access_token resp"
    "EncryptToken tm (tv_iv env 0) (tr_access_token resp) = Inr acc"
    "StoreTokens (tv_order env) (tv_now env 5) i acc ref expires p = (None, q1)"
    "q = p_ReleaseRefreshLock i (tv_lock_id env) q1"
    using assms(5,6,9) refresh_answered [OF assms(1)]
    by (auto simp: store_refreshed_def split: prod.splits sum.splits option.splits)
  have l: "loadable (tv_order env) p" "pool_wf p" "SaveAccountErr (p_store p) = None"
    using assms(2) by (simp_all add: sound_pool_def)
  have "p_accounts (snd (reloadStateLocked (tv_order env) (tv_now env 5) p)) i \<noteq> None"
    using st(3) by (auto simp: StoreTokens_def split: prod.splits option.splits)
  then obtain a where a: "p_accounts (snd (reloadStateLocked (tv_order env) (tv_now env 5) p)) i = Some a" by blast
  obtain x where x: "s_accounts (p_store q) i = Some x" "ac_access_token_enc x = acc" "ac_expires_at x = expires"
    using store_tokens_saved [OF l a, of acc ref expires] st(3,4) by auto
  let ?Q = "snd (refreshState (tv_order env') (tv_now env' 0) q)"
  have "p_accounts ?Q i = Some (HydrateRuntime x)"
    using reload_accounts [OF assms(8)] x(1) by (simp add: refreshState_def)
  then have g: "Get (tv_order env') (tv_now env' 0) i q = (Some (projectAccountLocked ?Q (HydrateRuntime x)), ?Q)"
    by (simp add: Get_def Let_def)
  obtain c where "Encrypt (tm_cipher tm) (tm_scrypt tm) (tv_iv env 0) token tokenSalt (tm_crypto tm) = (Inr acc, c)"
    using st(1,2) unfolding EncryptToken_def by (metis prod.collapse)
  from encrypt_decrypt_fresh [OF assms(3,4) this] have d: "token_decrypt tm acc = Inr token"
    by (simp add: token_decrypt_def)
  have ne: "acc \<noteq> []" using d by (auto simp: token_decrypt_def Decrypt_def split: prod.splits sum.splits)
  have "ac_access_token_enc (projectAccountLocked ?Q (HydrateRuntime x)) = acc"
    "ac_expires_at (projectAccountLocked ?Q (HydrateRuntime x)) = expires"
    using x(2,3) by (simp_all add: projectAccountLocked_def Let_def split: option.split)
  with d ne st(1) assms(7,10,11) show ?thesis
    by (simp add: EnsureValidToken_def g)
qed


definition sample_response :: token_response where
  "sample_response = \<lparr> tr_access_token = ''A'', tr_refresh_token = [], tr_expires_in = 3600 \<rparr>"

text \<open>Storing tokens of an account whose bucket is not cooling down.\<close>

lemma StoreTokens_uncooled:
  assumes "sound_pool mo p" and "p_accounts (snd (reloadStateLocked mo now p)) i = Some a"
    and "p_buckets (snd (reloadStateLocked mo now p)) (bucketKeyLocked a) = Some b" and "bk_cooldown_until b = None"
  shows "\<exists>x q. StoreTokens mo now i acc ref ex p = (None, q)
    \<and> p_store q = (p_store p)\<lparr>s_accounts := (s_accounts (p_store p))(i \<mapsto> x)\<rparr> \<and> ac_id x = i"
proof -
  define P where "P = snd (reloadStateLocked mo now p)"
  have l: "loadable mo p" "pool_wf p" "SaveAccountErr (p_store p) = None" using assms(1) by (simp_all add: sound_pool_def)
  have "fst (reloadStateLocked mo now p) = None" using l(1) by (simp add: reload_ok_iff loadable_def)
  then have rl: "reloadStateLocked mo now p = (None, P)" unfolding P_def by (metis prod.collapse)
  note as = assms(2,3) [folded P_def]
  define a1 where "a1 = a\<lparr>ac_access_token_enc := acc, ac_refresh_token_enc := ref, ac_expires_at := ex,
    ac_last_refresh_at := Some now, ac_status := StatusActive, ac_error_message := []\<rparr>"
  define p1 where "p1 = P\<lparr>p_accounts := (p_accounts P)(i \<mapsto> a1)\<rparr>"
  have k: "bucketKeyLocked a1 = bucketKeyLocked a" by (simp add: a1_def bucketKeyLocked_def defaultBucketKey_def)
  have en: "ensureBucketLocked now a1 p1 = (Some b, p1)"
    by (rule ensureBucket_present) (simp add: p1_def k as(2))
  have st: "StoreTokens mo now i acc ref ex p = (None, persistLocked i p1)"
    using en as(1) assms(4) by (simp add: StoreTokens_def rl a1_def [symmetric] p1_def [symmetric] Let_def)
  have "ac_id a1 = i" using pool_wf_account [OF pool_wf_reload [OF l(2)] assms(2)] by (simp add: a1_def)
  moreover from this have "p_store (persistLocked i p1) = (p_store p)\<lparr>s_accounts := (s_accounts (p_store p))(i \<mapsto> PersistRuntime a1)\<rparr>"
    using l(3) by (simp add: persistLocked_def p1_def SaveAccount_def P_def Let_def)
  ultimately show ?thesis using st by (intro exI [of _ "PersistRuntime a1"] exI [of _ "persistLocked i p1"]) simp
qed

lemma sample_stores:
  "\<exists>x q. StoreTokens sample_order 5 ''b'' acc ref ex (sample_asking 5) = (None, q)
    \<and> p_store q = (p_store (sample_asking 5))\<lparr>s_accounts := (s_accounts (p_store (sample_asking 5)))(''b'' \<mapsto> x)\<rparr> \<and> ac_id x = ''b''"
proof -
  have l: "loadable sample_order (sample_asking 5)" using sample_asking_sound by (simp add: sound_pool_def)
  have st: "s_accounts (p_store (sample_asking 5)) = s_accounts sample_token_store"
    by (simp add: sample_asking_def sample_locked_pool(2))
  have b: "s_buckets (p_store (sample_asking 5)) = s_buckets sample_store"
    by (simp add: sample_asking_def sample_locked_def p_AcquireRefreshLock_def AcquireRefreshLock_def sample_token_pool_def empty_pool_def)
  let ?a = "HydrateRuntime (acct_b\<lparr>ac_refresh_token_enc := sample_secret ''r''\<rparr>)"
  have k: "bucketKeyLocked ?a = ''codex:sb''"
    by (simp add: bucketKeyLocked_def defaultBucketKey_def acct_b_def sample_account_def)
  have "p_accounts (snd (reloadStateLocked sample_order 5 (sample_asking 5))) ''b'' = Some ?a"
    by (simp add: reload_accounts [OF l] st)
  moreover have "p_buckets (snd (reloadStateLocked sample_order 5 (sample_asking 5))) (bucketKeyLocked ?a) = Some bucket_b"
    unfolding k by (subst reload_bucket_stored [OF l, of _ bucket_b]) (simp_all add: b)
  ultimately show ?thesis
    by (rule StoreTokens_uncooled [OF sample_asking_sound]) (simp add: bucket_b_def sample_bucket_def)
qed

theorem refreshed_token_reused_witness:
  "\<exists>q q'. EnsureValidToken (sample_manager (Inr sample_response)) (sample_token_env 9) ''b'' q = (Inr ''A'', q', [])"
proof -
  let ?m = "sample_manager (Inr sample_response)" and ?p = "sample_asking 5"
  let ?e = "Encrypt sample_cipher sample_scrypt (replicate 16 CHR ''v'') ''A'' tokenSalt (NewCrypto ''k'')"
  obtain acc where acc: "EncryptToken ?m (replicate 16 CHR ''v'') ''A'' = Inr acc"
    by (simp add: EncryptToken_def sample_manager_def Encrypt_def DeriveKey_def NewCrypto_def sample_scrypt_def key_size_ok_def)
  let ?x = "unix_milli (5 + wrap64 (3600 * second))" and ?r = "ac_refresh_token_enc (sample_token_account 5)"
  obtain x q1 where st: "StoreTokens sample_order 5 ''b'' acc ?r ?x ?p = (None, q1)"
    "p_store q1 = (p_store ?p)\<lparr>s_accounts := (s_accounts (p_store ?p))(''b'' \<mapsto> x)\<rparr>" "ac_id x = ''b''"
    using sample_stores by blast
  let ?q = "p_ReleaseRefreshLock ''b'' ''l'' q1"
  have sr: "store_refreshed ?m (sample_token_env 5) (sample_token_account 5) ''b'' sample_response ?p = (Inr ''A'', q1)"
    using acc st(1) by (simp add: store_refreshed_def sample_response_def sample_token_env_def new_refresh_token_def)
  have r: "refresh ?m (sample_token_env 5) ''b'' sample_token_pool = (Inr ''A'', ?q, [''r''])"
    using sr refresh_answered [OF sample_presents [of "Inr sample_response" 5, unfolded sample_response_def]]
    by (simp add: sample_response_def [symmetric]) (simp add: sample_token_env_def)
  have l: "loadable sample_order ?p" "pool_wf ?p" using sample_asking_sound by (simp_all add: sound_pool_def)
  have d: "s_accounts (p_store ?p) ''b'' \<noteq> None" by (rule sample_stored)
  have dm: "dom (s_accounts (p_store q1)) = dom (s_accounts (p_store ?p))" using d by (auto simp: st(2))
  have "order_ok (p_store q1) sample_order"
    using l(1) dm unfolding loadable_def order_ok_def ranges_def by (simp add: st(2))
  moreover have "store_wf (p_store q1)" using l(1) st(3) unfolding loadable_def store_wf_def by (simp add: st(2))
  ultimately have "loadable sample_order q1" using l(1) by (simp add: loadable_def st(2))
  then have lq: "loadable (tv_order (sample_token_env 9)) ?q"
    by (simp add: loadable_def p_ReleaseRefreshLock_def ReleaseRefreshLock_def order_ok_def store_wf_def
        sample_token_env_def split: option.split)
  have o: "sound_pool (tv_order (sample_token_env 5)) ?p" "tv_others (sample_token_env 5) 3 = id"
    "length (tv_iv (sample_token_env 5) 0) = BlockSize"
    using sample_asking_sound by (simp_all add: sample_token_env_def BlockSize_def)
  have w: "wrap64 (3600 * second) = 3600 * second" by code_simp
  have b: "?x = unix_milli (tv_now (sample_token_env 5) 4 + wrap64 (tr_expires_in sample_response * second))" "0 < ?x"
    "unix_milli (tv_now (sample_token_env 9) 0) < wrap64 (?x - milliseconds (tm_refresh_advance ?m))"
    unfolding w by (simp_all add: sample_token_env_def sample_response_def sample_manager_def) code_simp+
  have cm: "tm_cipher ?m = sample_cipher" by (simp add: sample_manager_def)
  from refreshed_token_reused [OF sample_presents o(1) _ o(3,2) r _ lq b] sample_cipher_ok show ?thesis
    unfolding cm by blast
qed

end
