(* ===== verification/ClaudeBody.thy ===== *)
theory ClaudeBody
  imports Claude Crypto
begin

text \<open>
  What the Claude driver does to the body of a request (claude_envelope.go and the body half of
  claude_identity.go): the system envelope, billing lines, cache controls, the user id, warm-up
  requests.  A body is the list of members of the decoded object; in the code the nested maps are
  changed in place, and each occurs once in the tree.  SHA-256 is a parameter.
\<close>

section \<open>The system envelope\<close>

definition claudeCodeSystemSignatureNeedle :: string where
  "claudeCodeSystemSignatureNeedle =
     ''You are Claude Code, Anthropic'' @ [CHR 0x27] @ ''s official CLI for Claude''"

definition claudeCodeSystemBlockText :: string where
  "claudeCodeSystemBlockText =
     ''You are Claude Code, Anthropic'' @ [CHR 0x27] @ ''s official CLI for Claude, running within the Claude Agent SDK.''"

definition ephemeral :: json where
  "ephemeral = JObj [(''type'', JStr ''ephemeral'')]"

definition claudeCodeSystemBlock :: json where
  "claudeCodeSystemBlock =
     JObj [(''type'', JStr ''text''), (''text'', JStr claudeCodeSystemBlockText), (''cache_control'', ephemeral)]"

definition claudeSystemTextBlock :: "string \<Rightarrow> json" where
  "claudeSystemTextBlock s =
     JObj ([(''type'', JStr ''text''), (''text'', JStr s)]
       @ (if trim_space s \<noteq> [] then [(''cache_control'', ephemeral)] else []))"

definition claudeSystemBlockHasCodeSignature :: "json \<Rightarrow> bool" where
  "claudeSystemBlockHasCodeSignature v \<longleftrightarrow>
     (case v of JObj block \<Rightarrow> contains (jstring (map_of block ''text'')) claudeCodeSystemSignatureNeedle | _ \<Rightarrow> False)"

definition claudeEnsureEphemeralCacheControl :: "json \<Rightarrow> json" where
  "claudeEnsureEphemeralCacheControl v =
     (case v of
        JObj block \<Rightarrow> (if map_of block ''cache_control'' \<noteq> None then v
                       else JObj (AList.update ''cache_control'' ephemeral block))
      | _ \<Rightarrow> v)"

definition normalizeClaudeSystemValue :: "json option \<Rightarrow> json list" where
  "normalizeClaudeSystemValue system =
     (case system of
        Some (JStr s) \<Rightarrow>
          (if trim_space s = [] then [claudeCodeSystemBlock]
           else if contains s claudeCodeSystemSignatureNeedle then [claudeSystemTextBlock s]
           else [claudeCodeSystemBlock, claudeSystemTextBlock s])
      | Some (JArr s) \<Rightarrow>
          (case s of
             b # bs \<Rightarrow> (if claudeSystemBlockHasCodeSignature b then claudeEnsureEphemeralCacheControl b # bs
                        else claudeCodeSystemBlock # s)
           | [] \<Rightarrow> [claudeCodeSystemBlock])
      | _ \<Rightarrow> [claudeCodeSystemBlock])"

definition claudeNeedsCodeSystemEnvelope :: "(string \<times> json) list \<Rightarrow> bool" where
  "claudeNeedsCodeSystemEnvelope body \<longleftrightarrow> ClaudeModelUsesCodeSystemEnvelope (jstring (map_of body ''model''))"

definition normalizeClaudeMessageEnvelope :: "(string \<times> json) list \<Rightarrow> (string \<times> json) list" where
  "normalizeClaudeMessageEnvelope body =
     (if claudeNeedsCodeSystemEnvelope body
      then AList.update ''system'' (JArr (normalizeClaudeSystemValue (map_of body ''system''))) body
      else body)"

section \<open>Billing lines\<close>

definition is_billing_entry :: "json \<Rightarrow> bool" where
  "is_billing_entry v \<longleftrightarrow>
     (case v of
        JObj m \<Rightarrow> (case map_of m ''text'' of
                     Some (JStr s) \<Rightarrow> matches_any_case [''x-anthropic-billing-header''] s | _ \<Rightarrow> False)
      | _ \<Rightarrow> False)"

definition stripBillingHeaders :: "(string \<times> json) list \<Rightarrow> (string \<times> json) list" where
  "stripBillingHeaders body =
     (case map_of body ''system'' of
        Some (JArr s) \<Rightarrow> AList.update ''system'' (JArr (filter (\<lambda>v. \<not> is_billing_entry v) s)) body
      | _ \<Rightarrow> body)"

section \<open>Cache controls\<close>

text \<open>Visiting the content blocks of a value in document order.  The visitor sees a block's
  \<open>cache_control\<close> member and says what becomes of it.\<close>

type_synonym 's visitor = "'s \<Rightarrow> json option \<Rightarrow> 's \<times> json option"

definition put_member :: "string \<Rightarrow> json option \<Rightarrow> (string \<times> json) list \<Rightarrow> (string \<times> json) list" where
  "put_member k v m = (case v of None \<Rightarrow> AList.delete k m | Some x \<Rightarrow> AList.update k x m)"

lemma map_of_size_less: "map_of m k = Some c \<Longrightarrow> size c < Suc (size_list (size_prod (\<lambda>_. 0) size) m)"
proof (induction m)
  case (Cons kv m)
  then show ?case by (cases kv) (auto split: if_splits)
qed simp

function (sequential) walk_value :: "'s visitor \<Rightarrow> 's \<Rightarrow> json \<Rightarrow> 's \<times> json"
  and walk_item :: "'s visitor \<Rightarrow> 's \<Rightarrow> json \<Rightarrow> 's \<times> json"
  and walk_items :: "'s visitor \<Rightarrow> 's \<Rightarrow> json list \<Rightarrow> 's \<times> json list" where
  "walk_value f s (JArr xs) = (case walk_items f s xs of (s1, ys) \<Rightarrow> (s1, JArr ys))"
| "walk_value f s v = (s, v)"
| "walk_item f s (JObj m) =
     (case f s (map_of m ''cache_control'') of (s1, cc) \<Rightarrow>
        (case map_of m ''content'' of
           None \<Rightarrow> (s1, JObj (put_member ''cache_control'' cc m))
         | Some c \<Rightarrow> (case walk_value f s1 c of
                        (s2, c1) \<Rightarrow> (s2, JObj (AList.update ''content'' c1 (put_member ''cache_control'' cc m))))))"
| "walk_item f s v = (s, v)"
| "walk_items f s [] = (s, [])"
| "walk_items f s (x # xs) =
     (case walk_item f s x of (s1, y) \<Rightarrow> (case walk_items f s1 xs of (s2, ys) \<Rightarrow> (s2, y # ys)))"
  by pat_completeness auto
termination
  by (relation "measure (\<lambda>x. case x of Inl (f, s, v) \<Rightarrow> 2 * size v
        | Inr (Inl (f, s, v)) \<Rightarrow> 2 * size v | Inr (Inr (f, s, xs)) \<Rightarrow> 2 * size_list size xs + 1)")
     (auto dest!: map_of_size_less)

definition walk_field :: "'s visitor \<Rightarrow> 's \<Rightarrow> string \<Rightarrow> (string \<times> json) list \<Rightarrow> 's \<times> (string \<times> json) list" where
  "walk_field f s field body =
     (case map_of body field of
        None \<Rightarrow> (s, body)
      | Some v \<Rightarrow> (case walk_value f s v of (s1, v1) \<Rightarrow> (s1, AList.update field v1 body)))"

fun count_visit :: "nat visitor" where
  "count_visit n None = (n, None)"
| "count_visit n (Some (JObj cc)) = (n + 1, Some (JObj (AList.delete ''ttl'' cc)))"
| "count_visit n (Some v) = (n + 1, Some v)"

definition stripAndCountCacheControl :: "(string \<times> json) list \<Rightarrow> string \<Rightarrow> nat \<times> (string \<times> json) list" where
  "stripAndCountCacheControl body field = walk_field count_visit 0 field body"

definition remove_visit :: "int \<Rightarrow> nat visitor" where
  "remove_visit toRemove removed cc =
     (if toRemove \<le> int removed then (removed, cc)
      else (case cc of None \<Rightarrow> (removed, None) | Some _ \<Rightarrow> (removed + 1, None)))"

definition removeCacheControls :: "(string \<times> json) list \<Rightarrow> string \<Rightarrow> int \<Rightarrow> int \<times> (string \<times> json) list" where
  "removeCacheControls body field toRemove =
     (if toRemove \<le> 0 then (0, body)
      else (case walk_field (remove_visit toRemove) 0 field body of
              (removed, body1) \<Rightarrow> (toRemove - int removed, body1)))"

definition enforceCacheControl :: "(string \<times> json) list \<Rightarrow> int \<Rightarrow> (string \<times> json) list" where
  "enforceCacheControl body0 maxBlocks =
     (case stripAndCountCacheControl body0 ''system'' of (n1, body1) \<Rightarrow>
        (case stripAndCountCacheControl body1 ''messages'' of (n2, body2) \<Rightarrow>
           (let total = int n1 + int n2 in
            if total \<le> maxBlocks then body2
            else (case removeCacheControls body2 ''messages'' (total - maxBlocks) of (excess, body3) \<Rightarrow>
                    (if 0 < excess then snd (removeCacheControls body3 ''system'' excess) else body3)))))"

section \<open>The user id\<close>

definition deriveAccountHash :: "(string \<Rightarrow> string) \<Rightarrow> string \<Rightarrow> string \<Rightarrow> string" where
  "deriveAccountHash sha256 accountUUID accountID =
     hex_encode (sha256 (if accountUUID = [] then accountID else accountUUID))"

definition deriveSessionUUID :: "(string \<Rightarrow> string) \<Rightarrow> string \<Rightarrow> string \<Rightarrow> string" where
  "deriveSessionUUID sha256 accountID sessionTail =
     (let hx = hex_encode (take 16 (sha256 (accountID @ '':'' @ sessionTail)))
      in take 8 hx @ ''-'' @ take 4 (drop 8 hx) @ ''-'' @ take 4 (drop 12 hx) @ ''-'' @ take 4 (drop 16 hx)
         @ ''-'' @ take 12 (drop 20 hx))"

definition buildUserID :: "(string \<Rightarrow> string) \<Rightarrow> string \<Rightarrow> string \<Rightarrow> string \<Rightarrow> string" where
  "buildUserID sha256 accountID accountUUID sessionTail =
     ''user_'' @ deriveAccountHash sha256 accountUUID accountID @ ''_account__session_''
     @ deriveSessionUUID sha256 accountID sessionTail"

text \<open>The pattern \<open>^user_([a-fA-F0-9]{64})_account__session_([\w-]+)$\<close>: the second group, if it matches.\<close>

definition word_char :: "char \<Rightarrow> bool" where
  "word_char c \<longleftrightarrow>
     (let n = (of_char c :: nat) in is_digit c \<or> (65 \<le> n \<and> n \<le> 90) \<or> (97 \<le> n \<and> n \<le> 122) \<or> n = 95 \<or> n = 45)"

definition user_id_session :: "string \<Rightarrow> string option" where
  "user_id_session s =
     (let r = drop 5 s; t = drop 64 r; tail = drop 18 t in
      if has_prefix s ''user_'' \<and> 64 \<le> length r \<and> list_all (\<lambda>c. hex_val c \<noteq> None) (take 64 r)
         \<and> has_prefix t ''_account__session_'' \<and> tail \<noteq> [] \<and> list_all word_char tail
      then Some tail else None)"

text \<open>The pattern \<open>session_([a-f0-9-]{36})$\<close>.\<close>

definition uuid_char :: "char \<Rightarrow> bool" where
  "uuid_char c \<longleftrightarrow> (let n = (of_char c :: nat) in is_digit c \<or> (97 \<le> n \<and> n \<le> 102) \<or> n = 45)"

definition extractSessionUUID :: "string \<Rightarrow> string" where
  "extractSessionUUID userID =
     (let s = drop (length userID - 44) userID; u = drop 8 s in
      if length s = 44 \<and> has_prefix s ''session_'' \<and> list_all uuid_char u then u else [])"

definition rewriteUserID :: "(string \<Rightarrow> string) \<Rightarrow> string \<Rightarrow> string \<Rightarrow> string \<Rightarrow> string" where
  "rewriteUserID sha256 originalUserID accountID accountUUID =
     (case user_id_session originalUserID of
        None \<Rightarrow> buildUserID sha256 accountID accountUUID ''default''
      | Some tail \<Rightarrow> buildUserID sha256 accountID accountUUID tail)"

definition claudeSessionUUID :: "(string \<times> json) list \<Rightarrow> string" where
  "claudeSessionUUID body =
     (case map_of body ''metadata'' of
        Some (JObj m) \<Rightarrow> (case map_of m ''user_id'' of Some (JStr uid) \<Rightarrow> extractSessionUUID uid | _ \<Rightarrow> [])
      | _ \<Rightarrow> [])"

text \<open>The member \<open>metadata\<close> as \<open>transform\<close> leaves it.\<close>

definition rewrite_metadata ::
  "(string \<Rightarrow> string) \<Rightarrow> account \<Rightarrow> string \<Rightarrow> (string \<times> json) list \<Rightarrow> (string \<times> json) list" where
  "rewrite_metadata sha256 acct brokerUserID body =
     (let accountUUID = IdentityString acct ''account_uuid'';
          synthetic = buildUserID sha256 (ac_id acct) accountUUID (''compat-'' @ brokerUserID)
      in case map_of body ''metadata'' of
           Some (JObj m) \<Rightarrow>
             (case map_of m ''user_id'' of
                Some (JStr orig) \<Rightarrow>
                  AList.update ''metadata'' (JObj (AList.update ''user_id'' (JStr (rewriteUserID sha256 orig (ac_id acct) accountUUID)) m)) body
              | _ \<Rightarrow> AList.update ''metadata'' (JObj (AList.update ''user_id'' (JStr synthetic) m)) body)
         | _ \<Rightarrow> AList.update ''metadata'' (JObj [(''user_id'', JStr synthetic)]) body)"

section \<open>The session hash\<close>

definition hash16 :: "(string \<Rightarrow> string) \<Rightarrow> string \<Rightarrow> string" where
  "hash16 sha256 s = hex_encode (take 16 (sha256 s))"

definition computeSessionHash :: "(string \<Rightarrow> string) \<Rightarrow> string \<Rightarrow> string \<Rightarrow> string \<Rightarrow> string" where
  "computeSessionHash sha256 userID systemPrompt firstMessage =
     (case last_index userID ''session_'' of
        Some idx \<Rightarrow> hash16 sha256 (''session:'' @ drop idx userID)
      | None \<Rightarrow>
          (if systemPrompt \<noteq> [] then hash16 sha256 (''system:'' @ take 200 systemPrompt)
           else if firstMessage \<noteq> [] then hash16 sha256 (''msg:'' @ take 200 firstMessage)
           else []))"

definition first_entry :: "json option \<Rightarrow> string \<Rightarrow> string" where
  "first_entry v k = (case v of Some (JArr (JObj m # _)) \<Rightarrow> jstring (map_of m k) | _ \<Rightarrow> [])"

definition computeSessionHashFromBody :: "(string \<Rightarrow> string) \<Rightarrow> (string \<times> json) list \<Rightarrow> string" where
  "computeSessionHashFromBody sha256 body =
     computeSessionHash sha256
       (case map_of body ''metadata'' of Some (JObj m) \<Rightarrow> jstring (map_of m ''user_id'') | _ \<Rightarrow> [])
       (case map_of body ''system'' of Some (JStr s) \<Rightarrow> s | v \<Rightarrow> first_entry v ''text'')
       (first_entry (map_of body ''messages'') ''content'')"

section \<open>Warm-up requests\<close>

definition extractSystemText :: "(string \<times> json) list \<Rightarrow> string" where
  "extractSystemText body =
     (case map_of body ''system'' of
        Some (JStr s) \<Rightarrow> s
      | Some (JArr xs) \<Rightarrow>
          join '' '' (List.map_filter (\<lambda>v. case v of
            JObj m \<Rightarrow> (case map_of m ''text'' of Some (JStr s) \<Rightarrow> Some s | _ \<Rightarrow> None) | _ \<Rightarrow> None) xs)
      | _ \<Rightarrow> [])"

definition is_warmup_content :: "json option \<Rightarrow> bool" where
  "is_warmup_content content \<longleftrightarrow>
     (case content of
        Some (JStr s) \<Rightarrow> s = ''Warmup''
      | Some (JArr [JObj block]) \<Rightarrow> map_of block ''text'' = Some (JStr ''Warmup'')
      | _ \<Rightarrow> False)"

definition isWarmupRequest :: "(string \<times> json) list \<Rightarrow> bool" where
  "isWarmupRequest body \<longleftrightarrow>
     (case map_of body ''messages'' of
        Some (JArr [JObj m]) \<Rightarrow> is_warmup_content (map_of m ''content'') | _ \<Rightarrow> False)
   \<or> contains (extractSystemText body) ''Please write a 5-10 word title''
   \<or> contains (extractSystemText body) ''nalyze if this message indicates a new conversation topic''"

end
