(* ===== verification/ClaudeWalk.thy ===== *)
theory ClaudeWalk
  imports ClaudeBody
begin

text \<open>
  Laws of the walk over content blocks: two walks in a row are one walk with the composed visitor, a
  relation between the states that every visit keeps holds at the end, and a walk changes nothing but
  the cache controls.
\<close>

section \<open>Members\<close>

lemma map_of_put [simp]: "map_of (put_member k v m) j = (if j = k then v else map_of m j)"
  by (cases v) (simp_all add: put_member_def update_conv' delete_conv')

lemma delete_put [simp]: "AList.delete k (put_member k v m) = AList.delete k m"
  by (cases v) (simp_all add: put_member_def delete_update_same delete_idem)

section \<open>Fusion\<close>

definition visit_both :: "'s visitor \<Rightarrow> 't visitor \<Rightarrow> ('s \<times> 't) visitor" where
  "visit_both f g st cc =
     (case f (fst st) cc of (s1, c1) \<Rightarrow> (case g (snd st) c1 of (t1, c2) \<Rightarrow> ((s1, t1), c2)))"

lemma visit_both_simp [simp]:
  "visit_both f g (s, t) cc = ((fst (f s cc), fst (g t (snd (f s cc)))), snd (g t (snd (f s cc))))"
  by (simp add: visit_both_def split: prod.split)

text \<open>The states of the combined walk are those of the two walks; the values agree as well, which the
  counting below does not need.\<close>

lemma walk_fusion:
  fixes f :: "'s visitor" and g :: "'t visitor"
  shows "fst (walk_value (visit_both f g) (s, t) v) = (fst (walk_value f s v), fst (walk_value g t (snd (walk_value f s v))))"
    and "fst (walk_item (visit_both f g) (s, t) v) = (fst (walk_item f s v), fst (walk_item g t (snd (walk_item f s v))))"
    and "fst (walk_items (visit_both f g) (s, t) xs) = (fst (walk_items f s xs), fst (walk_items g t (snd (walk_items f s xs))))"
proof (induction f s v and f s v and f s xs arbitrary: t and t and t rule: walk_value_walk_item_walk_items.induct)
  case (3 f s m)
  obtain s1 cc where f: "f s (map_of m ''cache_control'') = (s1, cc)" by fastforce
  obtain t1 cd where g: "g t cc = (t1, cd)" by fastforce
  show ?case
  proof (cases "map_of m ''content''")
    case None
    then show ?thesis by (simp add: f g)
  next
    case (Some c)
    obtain s2 c1 where w: "walk_value f s1 c = (s2, c1)" by fastforce
    have "fst (walk_value (visit_both f g) (s1, t1) c) = (s2, fst (walk_value g t1 c1))"
      using 3 [OF f [symmetric] Some, of t1] w by simp
    then show ?thesis
      using Some w by (cases "walk_value (visit_both f g) (s1, t1) c") (simp add: f g update_conv' split: prod.split)
  qed
next
  case (6 f s x xs)
  have "fst (walk_items (visit_both f g) (fst (walk_item f s x), t') xs)
      = (fst (walk_items f (fst (walk_item f s x)) xs), fst (walk_items g t' (snd (walk_items f (fst (walk_item f s x)) xs))))"
    for t' using 6(2) [of "fst (walk_item f s x)" "snd (walk_item f s x)"] by simp
  then show ?case using 6(1) by (simp add: case_prod_beta)
qed (simp_all add: case_prod_beta)

section \<open>Invariants of the state\<close>

lemma walk_state:
  assumes "\<And>s cc. P s \<Longrightarrow> P (fst (f s cc))"
  shows "P s \<Longrightarrow> P (fst (walk_value f s v))"
    and "P s \<Longrightarrow> P (fst (walk_item f s v))"
    and "P s \<Longrightarrow> P (fst (walk_items f s xs))"
proof -
  have "(P s \<longrightarrow> P (fst (walk_value f s v))) \<and> (P s' \<longrightarrow> P (fst (walk_item f s' v'))) \<and> (P s'' \<longrightarrow> P (fst (walk_items f s'' xs)))"
    for s s' s'' v v' xs
  proof -
    have "g = f \<Longrightarrow> P s \<Longrightarrow> P (fst (walk_value g s v))"
      and "g = f \<Longrightarrow> P s' \<Longrightarrow> P (fst (walk_item g s' v'))"
      and "g = f \<Longrightarrow> P s'' \<Longrightarrow> P (fst (walk_items g s'' xs))" for g
    proof (induction g s v and g s' v' and g s'' xs rule: walk_value_walk_item_walk_items.induct)
      case (3 g s m)
      obtain s1 cc where f: "g s (map_of m ''cache_control'') = (s1, cc)" by fastforce
      have "P s1" using assms [OF 3(3), of "map_of m ''cache_control''"] f 3(2) by simp
      then show ?case
        using 3(1) [OF f [symmetric] _ 3(2)] f by (cases "map_of m ''content''") (auto split: prod.split)
    qed (auto split: prod.splits)
    then show ?thesis by blast
  qed
  then show "P s \<Longrightarrow> P (fst (walk_value f s v))" "P s \<Longrightarrow> P (fst (walk_item f s v))"
    "P s \<Longrightarrow> P (fst (walk_items f s xs))" by blast+
qed

section \<open>What a walk leaves alone\<close>

definition erase_visit :: "nat visitor" where
  "erase_visit u cc = (u, None)"

lemma erase_visit_at: "erase_visit 0 cc = (0, None)"
  by (simp add: erase_visit_def)

definition uncached :: "json \<Rightarrow> json" where
  "uncached v = snd (walk_value erase_visit 0 v)"

lemma walk_uncached:
  fixes f :: "'s visitor"
  shows "snd (walk_value erase_visit 0 (snd (walk_value f s v))) = snd (walk_value erase_visit 0 v)"
    and "snd (walk_item erase_visit 0 (snd (walk_item f s v))) = snd (walk_item erase_visit 0 v)"
    and "snd (walk_items erase_visit 0 (snd (walk_items f s xs))) = snd (walk_items erase_visit 0 xs)"
proof (induction f s v and f s v and f s xs rule: walk_value_walk_item_walk_items.induct)
  case (3 f s m)
  obtain s1 cc where f: "f s (map_of m ''cache_control'') = (s1, cc)" by fastforce
  have d: "put_member ''cache_control'' None x = AList.delete ''cache_control'' x" for x
    by (simp add: put_member_def)
  show ?case
  proof (cases "map_of m ''content''")
    case None
    then show ?thesis by (simp add: f d erase_visit_at)
  next
    case (Some c)
    obtain s2 c1 where w: "walk_value f s1 c = (s2, c1)" by fastforce
    have "snd (walk_value erase_visit 0 c1) = snd (walk_value erase_visit 0 c)"
      using 3 [OF f [symmetric] Some] w by simp
    then show ?thesis
      using Some w by (simp add: f d erase_visit_at update_conv' delete_update case_prod_beta)
  qed
next
  case (6 f s x xs)
  have "snd (walk_items erase_visit 0 (snd (walk_items f (fst (walk_item f s x)) xs))) = snd (walk_items erase_visit 0 xs)"
    using 6(2) [of "fst (walk_item f s x)" "snd (walk_item f s x)"] by simp
  moreover have "fst (walk_item erase_visit 0 v) = 0" for v by (rule walk_state(2)) (simp_all add: erase_visit_def)
  ultimately show ?case using 6(1) by (simp add: case_prod_beta)
qed (simp_all add: case_prod_beta)

lemma uncached_walk [simp]: "uncached (snd (walk_value f s v)) = uncached v"
  by (simp add: uncached_def walk_uncached)

section \<open>Counting\<close>

definition controls :: "json \<Rightarrow> nat" where
  "controls v = fst (walk_value count_visit 0 v)"

text \<open>Whether a block still has a \<open>ttl\<close> in its cache control.\<close>

fun ttl_visit :: "bool visitor" where
  "ttl_visit b (Some (JObj cc)) = (b \<or> map_of cc ''ttl'' \<noteq> None, Some (JObj cc))"
| "ttl_visit b cc = (b, cc)"

definition has_ttl :: "json \<Rightarrow> bool" where
  "has_ttl v \<longleftrightarrow> fst (walk_value ttl_visit False v)"

definition stripped :: "json \<Rightarrow> json" where
  "stripped v = snd (walk_value count_visit 0 v)"

definition pruned :: "int \<Rightarrow> json \<Rightarrow> nat \<times> json" where
  "pruned n v = walk_value (remove_visit n) 0 v"

lemma count_visit_fst: "fst (count_visit n cc) = (case cc of None \<Rightarrow> n | Some _ \<Rightarrow> n + 1)"
  by (cases "(n, cc)" rule: count_visit.cases) simp_all

lemma count_visit_None: "snd (count_visit n cc) = None \<longleftrightarrow> cc = None"
  by (cases "(n, cc)" rule: count_visit.cases) simp_all

lemma controls_stripped [simp]: "controls (stripped v) = controls v"
proof -
  let ?w = "visit_both count_visit count_visit"
  have "fst (walk_value ?w (0, 0) v) = (controls v, controls (stripped v))"
    by (simp add: walk_fusion controls_def stripped_def)
  moreover have "fst (fst (walk_value ?w (0, 0) v)) = snd (fst (walk_value ?w (0, 0) v))"
  proof (rule walk_state(1) [where P = "\<lambda>st. fst st = snd st"])
    fix st :: "nat \<times> nat" and cc
    assume "fst st = snd st"
    then obtain n where "st = (n, n)" by (cases st) auto
    moreover have "(snd (count_visit n cc) = None) = (cc = None)" by (rule count_visit_None)
    ultimately show "fst (fst (?w st cc)) = snd (fst (?w st cc))"
      by (auto simp: count_visit_fst split: option.split)
  qed simp
  ultimately show ?thesis by simp
qed

lemma controls_pruned:
  "fst (pruned n (stripped v)) = min (controls v) (nat n)
   \<and> controls (snd (pruned n (stripped v))) = controls v - min (controls v) (nat n)"
proof -
  let ?w = "visit_both count_visit (visit_both (remove_visit n) count_visit)"
  let ?P = "\<lambda>st. fst (snd st) = min (fst st) (nat n) \<and> fst st = fst (snd st) + snd (snd st)"
  have e: "fst (walk_value ?w (0, (0, 0)) v)
      = (controls v, (fst (pruned n (stripped v)), controls (snd (pruned n (stripped v)))))"
    by (simp add: walk_fusion controls_def stripped_def pruned_def)
  have "?P (fst (walk_value ?w (0, (0, 0)) v))"
  proof (rule walk_state(1))
    fix st :: "nat \<times> nat \<times> nat" and cc
    assume P: "?P st"
    obtain c r d where st: "st = (c, r, d)" by (cases st)
    have rd: "r = min c (nat n)" "c = r + d" using P unfolding st fst_conv snd_conv by blast+
    show "?P (fst (?w st cc))"
    proof (cases cc)
      case None
      then have w: "fst (?w st cc) = st" by (simp add: st remove_visit_def)
      show ?thesis unfolding w by (rule P)
    next
      case (Some v)
      then have "fst (count_visit c cc) = c + 1" "snd (count_visit c cc) \<noteq> None"
        by (simp_all add: count_visit_fst count_visit_None)
      then obtain v1 where cv: "count_visit c cc = (c + 1, Some v1)" by (cases "count_visit c cc") auto
      have "fst (count_visit d (Some v1)) = d + 1" by (simp add: count_visit_fst)
      then obtain w where dv: "count_visit d (Some v1) = (d + 1, w)" by (cases "count_visit d (Some v1)") auto
      show ?thesis
      proof (cases "n \<le> int r")
        case True
        then have w: "fst (?w st cc) = (c + 1, r, d + 1)" by (simp add: st cv dv remove_visit_def)
        have "r = min (c + 1) (nat n)" using True rd by linarith
        then show ?thesis unfolding w fst_conv snd_conv using rd(2) by linarith
      next
        case False
        then have w: "fst (?w st cc) = (c + 1, r + 1, d)" by (simp add: st cv remove_visit_def)
        have "r + 1 = min (c + 1) (nat n)" using False rd by linarith
        then show ?thesis unfolding w fst_conv snd_conv using rd(2) by linarith
      qed
    qed
  qed simp
  then have "fst (pruned n (stripped v)) = min (controls v) (nat n)"
    "controls v = fst (pruned n (stripped v)) + controls (snd (pruned n (stripped v)))"
    unfolding e fst_conv snd_conv by blast+
  then show ?thesis by linarith
qed

lemma ttl_stripped: "\<not> has_ttl (stripped v)" and ttl_pruned: "\<not> has_ttl (snd (pruned n (stripped v)))"
proof -
  let ?w = "visit_both count_visit ttl_visit"
  have t: "fst (ttl_visit b (snd (count_visit k cc))) = b" for b k cc
    by (cases "(k, cc)" rule: count_visit.cases) (simp_all add: delete_conv')
  have r: "fst (ttl_visit b (snd (remove_visit n j (snd (count_visit k cc))))) = b" for b j k cc
    using t [of b k cc] by (auto simp: remove_visit_def split: option.split)
  have "fst (walk_value ?w (0, False) v) = (controls v, has_ttl (stripped v))"
    by (simp add: walk_fusion controls_def stripped_def has_ttl_def)
  moreover have "\<not> snd (fst (walk_value ?w (0, False) v))"
  proof (rule walk_state(1) [where P = "\<lambda>st. \<not> snd st"])
    fix st :: "nat \<times> bool" and cc
    assume "\<not> snd st"
    then show "\<not> snd (fst (?w st cc))" using t [of "snd st" "fst st" cc] by (cases st) simp
  qed simp
  ultimately show "\<not> has_ttl (stripped v)" by simp
  let ?x = "visit_both count_visit (visit_both (remove_visit n) ttl_visit)"
  have "fst (walk_value ?x (0, (0, False)) v)
      = (controls v, (fst (pruned n (stripped v)), has_ttl (snd (pruned n (stripped v)))))"
    by (simp add: walk_fusion controls_def stripped_def has_ttl_def pruned_def)
  moreover have "\<not> snd (snd (fst (walk_value ?x (0, (0, False)) v)))"
  proof (rule walk_state(1) [where P = "\<lambda>st. \<not> snd (snd st)"])
    fix st :: "nat \<times> nat \<times> bool" and cc
    assume "\<not> snd (snd st)"
    then show "\<not> snd (snd (fst (?x st cc)))"
      using r [of "snd (snd st)" "fst (snd st)" "fst st" cc] by (cases st) simp
  qed simp
  ultimately show "\<not> has_ttl (snd (pruned n (stripped v)))" by simp
qed

end
