(* ===== verification/PromptEnv.thy ===== *)
theory PromptEnv
  imports ClaudeBody
begin

text \<open>
  Masking of environment fingerprints in prompts (claude_identity.go, promptEnvMasker).  The regular
  expressions of the code are sequences of a few atoms; a match lists the lengths it can consume in
  the order in which the leftmost-first search tries them.  The texts are bytes: every class used is
  ASCII or the complement of ASCII characters, so the bytes of one code point stay together.  The
  configured home directory is taken to hold no dollar sign, which the replacement template of the
  package regexp would expand.
\<close>

section \<open>Regular expressions\<close>

datatype rx =
    Lit string
  | Opt string
  | Alts "string list"
  | Plus "char \<Rightarrow> bool"
  | Many "char \<Rightarrow> bool"

definition run_lengths :: "(char \<Rightarrow> bool) \<Rightarrow> string \<Rightarrow> nat list" where
  "run_lengths P s = rev [0..<Suc (length (takeWhile P s))]"

primrec rx_ends :: "rx \<Rightarrow> string \<Rightarrow> nat list" where
  "rx_ends (Lit w) s = (if has_prefix s w then [length w] else [])"
| "rx_ends (Opt w) s = (if has_prefix s w then [length w] else []) @ [0]"
| "rx_ends (Alts ws) s = List.map_filter (\<lambda>w. if has_prefix s w then Some (length w) else None) ws"
| "rx_ends (Plus P) s = filter (\<lambda>n. 0 < n) (run_lengths P s)"
| "rx_ends (Many P) s = run_lengths P s"

primrec seq_ends :: "rx list \<Rightarrow> string \<Rightarrow> nat list" where
  "seq_ends [] s = [0]"
| "seq_ends (r # rs) s = concat (map (\<lambda>k. map ((+) k) (seq_ends rs (drop k s))) (rx_ends r s))"

text \<open>A pattern is its first group and what follows it; a match gives the length of the group and of the
  whole.\<close>

type_synonym pattern = "rx list \<times> rx list"

definition match_here :: "pattern \<Rightarrow> string \<Rightarrow> (nat \<times> nat) option" where
  "match_here p s =
     (case concat (map (\<lambda>k. map (\<lambda>j. (k, k + j)) (seq_ends (snd p) (drop k s))) (seq_ends (fst p) s)) of
        [] \<Rightarrow> None | m # _ \<Rightarrow> Some m)"

text \<open>\<open>ReplaceAllString (s, "${1}" + repl)\<close>.  No pattern below matches the empty string.\<close>

function replace_all :: "pattern \<Rightarrow> string \<Rightarrow> string \<Rightarrow> string" where
  "replace_all p repl s =
     (if s = [] then []
      else (case match_here p s of
              Some (k, n) \<Rightarrow>
                (if n = 0 then hd s # replace_all p repl (tl s)
                 else take k s @ repl @ replace_all p repl (drop n s))
            | None \<Rightarrow> hd s # replace_all p repl (tl s)))"
  by auto
termination by (relation "measure (\<lambda>(p, r, s). length s)") auto

declare replace_all.simps [simp del]

section \<open>The patterns\<close>

definition rx_space :: "char \<Rightarrow> bool" where
  "rx_space c \<longleftrightarrow> (let n = (of_char c :: nat) in n = 9 \<or> n = 10 \<or> n = 12 \<or> n = 13 \<or> n = 32)"

definition rx_word :: "char \<Rightarrow> bool" where "rx_word c \<longleftrightarrow> \<not> rx_space c"
definition rx_line :: "char \<Rightarrow> bool" where "rx_line c \<longleftrightarrow> (of_char c :: nat) \<noteq> 10"
definition rx_line_tag :: "char \<Rightarrow> bool" where "rx_line_tag c \<longleftrightarrow> (of_char c :: nat) \<noteq> 10 \<and> c \<noteq> CHR ''<''"
definition rx_user :: "char \<Rightarrow> bool" where
  "rx_user c \<longleftrightarrow> \<not> rx_space c \<and> c \<noteq> CHR ''/'' \<and> c \<noteq> CHR '')'' \<and> (of_char c :: nat) \<noteq> 34 \<and> (of_char c :: nat) \<noteq> 39"

definition work_dir :: "rx list" where
  "work_dir = [Opt ''Primary '', Alts [''W'', ''w''], Lit ''orking directory:'', Many rx_space]"

definition home_dir :: "rx list" where
  "home_dir = [Lit ''/'', Alts [''Users'', ''home''], Lit ''/'', Plus rx_user, Lit ''/'']"

definition reScopedPlatform :: pattern where "reScopedPlatform = ([Lit '' - Platform:'', Many rx_space], [Plus rx_word])"
definition reScopedShell :: pattern where "reScopedShell = ([Lit '' - Shell:'', Many rx_space], [Plus rx_word])"
definition reScopedOS :: pattern where "reScopedOS = ([Lit '' - OS Version:'', Many rx_space], [Plus rx_line])"
definition reScopedWorkDir :: pattern where "reScopedWorkDir = (Lit '' - '' # work_dir, [Lit ''/'', Plus rx_word])"
definition reScopedGitUser :: pattern where "reScopedGitUser = ([Lit '' - Git user:'', Many rx_space], [Plus rx_line])"
definition reScopedHome :: pattern where "reScopedHome = (Lit '' - '' # work_dir, home_dir)"

definition reBroadPlatform :: pattern where "reBroadPlatform = ([Lit ''Platform:'', Many rx_space], [Plus rx_word])"
definition reBroadShell :: pattern where "reBroadShell = ([Lit ''Shell:'', Many rx_space], [Plus rx_word])"
definition reBroadOS :: pattern where "reBroadOS = ([Lit ''OS Version:'', Many rx_space], [Plus rx_line_tag])"
definition reBroadWorkDir :: pattern where "reBroadWorkDir = (work_dir, [Lit ''/'', Plus rx_word])"
definition reBroadGitUser :: pattern where "reBroadGitUser = ([Lit ''Git user:'', Many rx_space], [Plus rx_line_tag])"
definition reBroadHome :: pattern where "reBroadHome = ([], home_dir)"

section \<open>Rewriting\<close>

record prompt_env_masker =
  pm_home :: string
  pm_work_dir :: string
  pm_platform :: string
  pm_shell :: string
  pm_os_ver :: string
  pm_st_os :: string
  pm_st_arch :: string

definition newPromptEnvMasker :: "string \<Rightarrow> prompt_env_masker" where
  "newPromptEnvMasker home =
     \<lparr> pm_home = home, pm_work_dir = home @ ''/project'', pm_platform = ''darwin'', pm_shell = ''/bin/zsh'',
       pm_os_ver = ''Darwin 25.4.0'', pm_st_os = ''Darwin'', pm_st_arch = ''arm64'' \<rparr>"

definition rewriteEnvBlock :: "prompt_env_masker \<Rightarrow> string \<Rightarrow> string" where
  "rewriteEnvBlock m s0 =
     (let s1 = replace_all reScopedPlatform (pm_platform m) s0;
          s2 = replace_all reScopedShell (pm_shell m) s1;
          s3 = replace_all reScopedOS (pm_os_ver m) s2;
          s4 = replace_all reScopedHome (pm_home m @ ''/'') s3;
          s5 = replace_all reScopedWorkDir (pm_work_dir m) s4
      in replace_all reScopedGitUser ''User'' s5)"

definition rewriteReminderText :: "prompt_env_masker \<Rightarrow> string \<Rightarrow> string" where
  "rewriteReminderText m s0 =
     (let s1 = replace_all reBroadPlatform (pm_platform m) s0;
          s2 = replace_all reBroadShell (pm_shell m) s1;
          s3 = replace_all reBroadOS (pm_os_ver m) s2;
          s4 = replace_all reBroadWorkDir (pm_work_dir m) s3;
          s5 = replace_all reBroadHome (pm_home m @ ''/'') s4
      in replace_all reBroadGitUser ''User'' s5)"

definition overrideStainless :: "prompt_env_masker \<Rightarrow> header \<Rightarrow> header" where
  "overrideStainless m h =
     (let h1 = (if pm_st_os m \<noteq> [] then h_set ''x-stainless-os'' (pm_st_os m) h else h)
      in if pm_st_arch m \<noteq> [] then h_set ''x-stainless-arch'' (pm_st_arch m) h1 else h1)"

definition reminder_open :: string where "reminder_open = ''<system-reminder>''"
definition reminder_close :: string where "reminder_close = ''</system-reminder>''"

text \<open>\<open>reReminder\<close>: from an opening tag to the first closing tag after it.\<close>

function mask_reminders :: "(string \<Rightarrow> string) \<Rightarrow> string \<Rightarrow> string" where
  "mask_reminders f s =
     (if s = [] then []
      else if has_prefix s reminder_open then
        (let r = drop (length reminder_open) s in
         case str_index r reminder_close of
           None \<Rightarrow> hd s # mask_reminders f (tl s)
         | Some i \<Rightarrow> reminder_open @ f (take i r) @ reminder_close
                       @ mask_reminders f (drop (i + length reminder_close) r))
      else hd s # mask_reminders f (tl s))"
  by auto
termination by (relation "measure (\<lambda>(f, s). length s)") (auto simp: reminder_open_def)

declare mask_reminders.simps [simp del]

definition update_text :: "string \<Rightarrow> (string \<Rightarrow> string) \<Rightarrow> json \<Rightarrow> json" where
  "update_text k f v =
     (case v of
        JObj m \<Rightarrow> (case map_of m k of Some (JStr s) \<Rightarrow> JObj (AList.update k (JStr (f s)) m) | _ \<Rightarrow> v)
      | _ \<Rightarrow> v)"

definition maskSystem :: "prompt_env_masker \<Rightarrow> (string \<times> json) list \<Rightarrow> (string \<times> json) list" where
  "maskSystem m body =
     (case map_of body ''system'' of
        Some (JStr s) \<Rightarrow> AList.update ''system'' (JStr (rewriteEnvBlock m s)) body
      | Some (JArr xs) \<Rightarrow>
          AList.update ''system''
            (JArr (map (\<lambda>v. case v of JStr s \<Rightarrow> JStr (rewriteEnvBlock m s)
                            | _ \<Rightarrow> update_text ''text'' (rewriteEnvBlock m) v) xs)) body
      | _ \<Rightarrow> body)"

definition mask_message :: "prompt_env_masker \<Rightarrow> json \<Rightarrow> json" where
  "mask_message m v =
     (case v of
        JObj kvs \<Rightarrow>
          (case map_of kvs ''content'' of
             Some (JStr s) \<Rightarrow> JObj (AList.update ''content'' (JStr (mask_reminders (rewriteReminderText m) s)) kvs)
           | Some (JArr xs) \<Rightarrow>
               JObj (AList.update ''content'' (JArr (map (update_text ''text'' (mask_reminders (rewriteReminderText m))) xs)) kvs)
           | _ \<Rightarrow> v)
      | _ \<Rightarrow> v)"

definition maskMessageReminders :: "prompt_env_masker \<Rightarrow> (string \<times> json) list \<Rightarrow> (string \<times> json) list" where
  "maskMessageReminders m body =
     (case map_of body ''messages'' of
        Some (JArr xs) \<Rightarrow> AList.update ''messages'' (JArr (map (mask_message m) xs)) body
      | _ \<Rightarrow> body)"

lemma mask_samples:
  "rewriteEnvBlock (newPromptEnvMasker ''/Users/user'') '' - Platform: linux x - Git user: me'' = '' - Platform: darwin x - Git user: User''"
  "rewriteEnvBlock (newPromptEnvMasker ''/Users/user'') '' - Working directory: /home/bob/src/x y Platform: linux''
     = '' - Working directory: /Users/user/project y Platform: linux''"
  by code_simp+

end
