(* ===== verification/ClaudeIdentity.thy ===== *)
theory ClaudeIdentity
  imports ClaudeWalk PromptEnv PoolRuntime RelayAttempt
begin

text \<open>
  The upstream request of the Claude driver (claude.go, the header half of claude_identity.go): header
  filtering, the fingerprint headers (x-stainless) bound to an account in the store, the transform of
  the identity, the request.
\<close>

section \<open>Headers\<close>

definition stainlessPrefix :: string where "stainlessPrefix = ''x-stainless-''"

definition claudeAllowedHeaders :: "string list" where
  "claudeAllowedHeaders =
     [''accept'', ''content-type'', ''user-agent'', ''anthropic-version'', ''anthropic-beta'',
      ''anthropic-dangerous-direct-browser-access'', ''x-app'']"

definition allowed_header :: "string \<Rightarrow> bool" where
  "allowed_header key \<longleftrightarrow> to_lower key \<in> set claudeAllowedHeaders \<or> has_prefix (to_lower key) stainlessPrefix"

definition filterClaudeHeaders :: "header \<Rightarrow> header" where
  "filterClaudeHeaders original =
     foldl (\<lambda>clean (key, vals). if allowed_header key then foldl (\<lambda>h v. h_add key v h) clean vals else clean) [] original"

definition removeAllStainless :: "header \<Rightarrow> header" where
  "removeAllStainless h =
     foldl (\<lambda>h key. if has_prefix (to_lower key) stainlessPrefix then h_del key h else h) h (map fst h)"

definition add_beta :: "string list \<Rightarrow> string \<Rightarrow> string list" where
  "add_beta out part = (let p = trim_space part in if p = [] \<or> p \<in> set out then out else out @ [p])"

definition mergeBetaHeaders :: "string \<Rightarrow> string \<Rightarrow> string" where
  "mergeBetaHeaders clientBeta relayBeta =
     join '','' (foldl add_beta [] (concat (map (\<lambda>raw. if raw = [] then [] else split_char CHR '','' raw) [clientBeta, relayBeta])))"

definition defaultClaudeVersion :: string where "defaultClaudeVersion = ''2.2.0''"

definition setClaudeRequiredHeaders :: "string \<Rightarrow> string \<Rightarrow> string \<Rightarrow> header \<Rightarrow> header" where
  "setClaudeRequiredHeaders accessToken apiVersion betaHeader h0 =
     (let h1 = h_set ''Authorization'' (''Bearer '' @ accessToken) (h_del ''Authorization'' (h_del ''x-api-key'' h0));
          h2 = (if h_get h1 ''anthropic-version'' = [] then h_set ''anthropic-version'' apiVersion h1 else h1);
          beta = mergeBetaHeaders (h_get h2 ''anthropic-beta'') betaHeader;
          h3 = (if beta \<noteq> [] then h_set ''anthropic-beta'' beta h2 else h2);
          h4 = h_set ''Content-Type'' ''application/json'' h3
      in if h_get h4 ''User-Agent'' = []
         then (let v = h_get h4 ''x-stainless-package-version'' in
               h_set ''User-Agent'' (''claude-cli/'' @ (if v \<noteq> [] then v else defaultClaudeVersion) @ '' (external, cli)'') h4)
         else h4)"

section \<open>Binding the fingerprint headers\<close>

definition boundStainlessKeys :: "string list" where
  "boundStainlessKeys =
     [''x-stainless-os'', ''x-stainless-arch'', ''x-stainless-runtime'', ''x-stainless-runtime-version'', ''x-stainless-lang'']"

definition passthroughStainlessKeys :: "string list" where
  "passthroughStainlessKeys = [''x-stainless-package-version'', ''x-stainless-retry-count'', ''x-stainless-read-timeout'']"

text \<open>The stored headers are set on the request; a document that is not a map of strings is ignored.\<close>

definition replay_headers :: "string \<Rightarrow> header \<Rightarrow> header" where
  "replay_headers stored h =
     (case decode_str_map stored of
        Some (Some m) \<Rightarrow> foldl (\<lambda>h (k, v). h_set k v h) h m
      | _ \<Rightarrow> h)"

definition captured_headers :: "header \<Rightarrow> str_map" where
  "captured_headers req = map (\<lambda>k. (k, h_get req k)) (filter (\<lambda>k. h_get req k \<noteq> []) boundStainlessKeys)"

definition set_headers :: "str_map \<Rightarrow> header \<Rightarrow> header" where
  "set_headers m h = foldl (\<lambda>h (k, v). h_set k v h) h m"

definition stainless_ttl :: duration where "stainless_ttl = 24 * 60 * minute"

text \<open>The clock is read at the first look, the insertion and the second look; other requests may act
  between the first look and the insertion.\<close>

definition bindStainless ::
  "gotime \<times> gotime \<times> gotime \<Rightarrow> (pool \<Rightarrow> pool) \<Rightarrow> string \<Rightarrow> header \<Rightarrow> header \<Rightarrow> pool \<Rightarrow> header \<times> pool" where
  "bindStainless t others accountID req out p =
     (let (h, q) =
        (case GetStainless (fst t) accountID p of
           Some stored \<Rightarrow> (replay_headers stored out, p)
         | None \<Rightarrow>
             (let captured = captured_headers req; out1 = set_headers captured out in
              if captured = [] then (out1, p)
              else (case SetStainlessNX (fst (snd t)) accountID (encode_str_map captured) stainless_ttl (others p) of
                      (True, q) \<Rightarrow> (out1, q)
                    | (False, q) \<Rightarrow>
                        (case GetStainless (snd (snd t)) accountID q of
                           Some reread \<Rightarrow> (replay_headers reread out1, q)
                         | None \<Rightarrow> (out1, q)))))
      in (set_headers (map (\<lambda>k. (k, h_get req k)) (filter (\<lambda>k. h_get req k \<noteq> []) passthroughStainlessKeys)) h, q))"

section \<open>The transform\<close>

record claude_config =
  cl_api_url :: string
  cl_api_version :: string
  cl_beta_header :: string
  cl_prompt_env_home :: string

record claude_driver =
  cd_config :: claude_config
  cd_max_cache_controls :: int
  cd_env_masker :: "prompt_env_masker option"

definition NewClaudeDriver :: "claude_config \<Rightarrow> int \<Rightarrow> claude_driver" where
  "NewClaudeDriver cfg maxCacheControls =
     \<lparr> cd_config = cfg, cd_max_cache_controls = maxCacheControls,
       cd_env_masker = (if cl_prompt_env_home cfg \<noteq> [] then Some (newPromptEnvMasker (cl_prompt_env_home cfg)) else None) \<rparr>"

definition transform_body ::
  "(string \<Rightarrow> string) \<Rightarrow> claude_driver \<Rightarrow> account \<Rightarrow> string \<Rightarrow> (string \<times> json) list \<Rightarrow> (string \<times> json) list" where
  "transform_body sha256 d acct brokerUserID body =
     (let b1 = stripBillingHeaders body;
          b2 = (case cd_env_masker d of None \<Rightarrow> b1 | Some m \<Rightarrow> maskMessageReminders m (maskSystem m b1));
          b3 = enforceCacheControl b2 (cd_max_cache_controls d)
      in rewrite_metadata sha256 acct brokerUserID b3)"

definition transform ::
  "(string \<Rightarrow> string) \<Rightarrow> claude_driver \<Rightarrow> gotime \<times> gotime \<times> gotime \<Rightarrow> (pool \<Rightarrow> pool) \<Rightarrow> (string \<times> json) list
   \<Rightarrow> header \<Rightarrow> account \<Rightarrow> string \<Rightarrow> pool \<Rightarrow> ((string \<times> json) list \<times> header \<times> string) \<times> pool" where
  "transform sha256 d t others body req acct brokerUserID p =
     (let b = transform_body sha256 d acct brokerUserID body;
          (h, q) = bindStainless t others (ac_id acct) req (removeAllStainless (filterClaudeHeaders req)) p;
          h1 = (case cd_env_masker d of None \<Rightarrow> h | Some m \<Rightarrow> overrideStainless m h)
      in ((b, h1, computeSessionHashFromBody sha256 b), q))"

section \<open>Requests\<close>

definition claude_Plan :: "relay_input option \<Rightarrow> relay_plan" where
  "claude_Plan oi =
     (case oi of
        None \<Rightarrow> \<lparr> rp_is_stream = False, rp_is_count_tokens = False, rp_affinity = no_affinity \<rparr>
      | Some i \<Rightarrow>
          \<lparr> rp_is_stream = jbool (map_of (ri_body i) ''stream''),
            rp_is_count_tokens = has_suffix (ri_path i) ''/count_tokens'',
            rp_affinity = \<lparr> ra_raw_key = claudeSessionUUID (ri_body i), ra_kind = ''claude-session'',
                            ra_continuity = AffinityPrefer \<rparr> \<rparr>)"

definition claude_InterceptRequest :: "(string \<times> json) list \<Rightarrow> string \<Rightarrow> bool" where
  "claude_InterceptRequest body model \<longleftrightarrow> isWarmupRequest body"

definition copy_headers :: "header \<Rightarrow> header" where
  "copy_headers h = foldl (\<lambda>out (k, vals). foldl (\<lambda>h v. h_add k v h) out vals) [] h"

definition claude_body :: "relay_input \<Rightarrow> build_error + (string \<times> json) list" where
  "claude_body i =
     (case unmarshal_map (ri_raw_body i) of
        None \<Rightarrow> Inl (BuildRequestError ''body re-parse'')
      | Some om \<Rightarrow>
          (case normalizeClaudeModelField (map_value om) of
             Inl (status, msg) \<Rightarrow> Inl (RequestValidationError status msg)
           | Inr body \<Rightarrow> Inr (if ri_is_count_tokens i then body else normalizeClaudeMessageEnvelope body)))"

definition claude_headers :: "claude_config \<Rightarrow> string \<Rightarrow> bool \<Rightarrow> header \<Rightarrow> header" where
  "claude_headers cfg token is_stream h =
     (let h1 = setClaudeRequiredHeaders token (cl_api_version cfg) (cl_beta_header cfg) (copy_headers h)
      in if is_stream then h_set ''Accept'' ''text/event-stream'' h1 else h1)"

definition claude_BuildRequest ::
  "(string \<Rightarrow> string) \<Rightarrow> claude_driver \<Rightarrow> gotime \<times> gotime \<times> gotime \<Rightarrow> (pool \<Rightarrow> pool) \<Rightarrow> relay_input \<Rightarrow> account
   \<Rightarrow> string \<Rightarrow> pool \<Rightarrow> (build_error + upstream_request) \<times> pool" where
  "claude_BuildRequest sha256 d t others i acct token p =
     (case claude_body i of
        Inl e \<Rightarrow> (Inl e, p)
      | Inr body \<Rightarrow>
          (case transform sha256 d t others body (ri_headers i) acct (ri_user_id i) p of
             ((b, h, _), q) \<Rightarrow>
               (case appendRawQuery (cl_api_url (cd_config d) @ (if ri_is_count_tokens i then ''/count_tokens'' else []))
                       (ensureBetaParam (ri_raw_query i)) of
                  Inl e \<Rightarrow> (Inl (BuildRequestError e), q)
                | Inr url \<Rightarrow>
                    (Inr \<lparr> ur_url = url, ur_body = json_print (any_norm (JObj b)),
                           ur_headers = claude_headers (cd_config d) token (ri_is_stream i) h \<rparr>, q))))"

end
