(* ===== verification/ClaudeProps.thy ===== *)
theory ClaudeProps
  imports ClaudeIdentity Samples
begin

text \<open>
  Properties of the Claude driver's upstream requests: which headers reach the provider, the identity
  in the body, the fingerprint headers of an account, the number of cache controls.
\<close>

section \<open>Header keys\<close>

lemma char_lower_upper [simp]: "char_lower (char_upper c) = char_lower c"
proof (cases "97 \<le> (of_char c :: nat) \<and> (of_char c :: nat) \<le> 122")
  case True
  obtain n where n: "n = (of_char c :: nat)" by blast
  have b: "97 \<le> n" "n \<le> 122" using True by (simp_all add: n)
  have "(of_char (char_of (n - 32) :: char) :: nat) = (n - 32) mod 256" by simp
  also have "\<dots> = n - 32" by (rule mod_less) (use b in linarith)
  finally have u: "(of_char (char_of (n - 32) :: char) :: nat) = n - 32" .
  have "char_upper c = char_of (n - 32)" using True by (simp add: char_upper_def n)
  moreover have "char_lower (char_of (n - 32)) = char_of (n - 32 + 32)"
    unfolding char_lower_def Let_def u by (rule if_P) (use b in linarith)
  moreover have "char_of (n - 32 + 32) = c" using b(1) by (simp add: n)
  moreover have "char_lower c = c" using b(1) by (simp add: char_lower_def n)
  ultimately show ?thesis by (simp only:)
qed (auto simp: char_upper_def Let_def)

lemma to_lower_canon_chars: "to_lower (canon_chars up k) = to_lower k"
  by (induction up k rule: canon_chars.induct) (simp_all add: to_lower_def)

lemma allowed_canonical [simp]: "allowed_header (canonical_key k) = allowed_header k"
  by (simp add: allowed_header_def canonical_key_def to_lower_canon_chars)

definition keys_in :: "(string \<Rightarrow> bool) \<Rightarrow> header \<Rightarrow> bool" where
  "keys_in A h \<longleftrightarrow> (\<forall>k \<in> fst ` set h. A k)"

lemma keys_in_simps [simp]: "keys_in A []"
  by (simp add: keys_in_def)

lemma keys_in_set: "keys_in A h \<Longrightarrow> A (canonical_key k) \<Longrightarrow> keys_in A (h_set k v h)"
  by (simp add: keys_in_def h_set_def dom_update)

lemma keys_in_add: "keys_in A h \<Longrightarrow> A (canonical_key k) \<Longrightarrow> keys_in A (h_add k v h)"
  by (simp add: keys_in_def h_add_def Let_def dom_update)

lemma keys_in_del: "keys_in A h \<Longrightarrow> keys_in A (h_del k h)"
  unfolding keys_in_def h_del_def using dom_delete_subset by fast

lemma keys_in_foldl:
  "(\<And>h x. x \<in> set xs \<Longrightarrow> keys_in A h \<Longrightarrow> keys_in A (f h x)) \<Longrightarrow> keys_in A h \<Longrightarrow> keys_in A (foldl f h xs)"
  by (induction xs arbitrary: h) auto

lemma keys_in_filter: "keys_in allowed_header (filterClaudeHeaders h)"
  unfolding filterClaudeHeaders_def
  by (rule keys_in_foldl) (auto intro!: keys_in_foldl keys_in_add)

lemma keys_in_remove: "keys_in A h \<Longrightarrow> keys_in A (removeAllStainless h)"
  unfolding removeAllStainless_def by (rule keys_in_foldl) (auto intro: keys_in_del)

lemma keys_in_set_headers:
  "(\<And>k v. (k, v) \<in> set m \<Longrightarrow> A (canonical_key k)) \<Longrightarrow> keys_in A h \<Longrightarrow> keys_in A (set_headers m h)"
  unfolding set_headers_def by (rule keys_in_foldl) (auto intro: keys_in_set)

lemma replay_set: "replay_headers stored h =
  (case decode_str_map stored of Some (Some m) \<Rightarrow> set_headers m h | _ \<Rightarrow> h)"
  by (simp add: replay_headers_def set_headers_def split: option.split)

lemma bound_allowed: "k \<in> set boundStainlessKeys \<Longrightarrow> allowed_header k"
  "k \<in> set passthroughStainlessKeys \<Longrightarrow> allowed_header k"
proof -
  have "list_all allowed_header boundStainlessKeys" "list_all allowed_header passthroughStainlessKeys" by code_simp+
  then show "k \<in> set boundStainlessKeys \<Longrightarrow> allowed_header k" "k \<in> set passthroughStainlessKeys \<Longrightarrow> allowed_header k"
    by (auto simp: list_all_iff)
qed

text \<open>What is stored for an account are fingerprint headers.\<close>

definition stored_allowed :: "gotime \<Rightarrow> string \<Rightarrow> pool \<Rightarrow> bool" where
  "stored_allowed now i p \<longleftrightarrow>
     (\<forall>s m. GetStainless now i p = Some s \<longrightarrow> decode_str_map s = Some (Some m) \<longrightarrow> (\<forall>(k, v) \<in> set m. allowed_header k))"

lemma keys_in_replay:
  assumes "\<And>m. decode_str_map s = Some (Some m) \<Longrightarrow> \<forall>(k, v) \<in> set m. allowed_header k" and "keys_in allowed_header h"
  shows "keys_in allowed_header (replay_headers s h)"
  using assms by (auto simp: replay_set intro!: keys_in_set_headers split: option.split)

lemma keys_in_bind:
  assumes "keys_in allowed_header out"
    and "stored_allowed (fst t) i p" and "stored_allowed (snd (snd t)) i (others p)"
  shows "keys_in allowed_header (fst (bindStainless t others i req out p))"
proof -
  have pass: "keys_in allowed_header (set_headers (map (\<lambda>k. (k, h_get req k)) (filter (\<lambda>k. h_get req k \<noteq> []) passthroughStainlessKeys)) h)"
    if "keys_in allowed_header h" for h
    using that by (rule keys_in_set_headers [rotated]) (auto simp: bound_allowed)
  have capt: "keys_in allowed_header (set_headers (captured_headers req) out)"
    using assms(1) by (rule keys_in_set_headers [rotated]) (auto simp: captured_headers_def bound_allowed)
  have rep: "keys_in allowed_header (replay_headers s h)"
    if "GetStainless now i q = Some s" "stored_allowed now i q" "keys_in allowed_header h" for now q s h
    using that by (auto simp: stored_allowed_def intro!: keys_in_replay)
  have lost: "SetStainlessNX (fst (snd t)) i (encode_str_map (captured_headers req)) stainless_ttl (others p) = (False, q) \<Longrightarrow> q = others p" for q
    by (auto simp: SetStainlessNX_def SetStainlessBindingNX_def split: option.splits if_splits)
  show ?thesis
    using assms(2,3) lost rep [OF _ _ assms(1)] rep [OF _ _ capt] capt assms(1)
    by (auto simp: bindStainless_def Let_def intro!: pass split: option.split prod.split bool.split)
qed

lemma keys_in_copy: "keys_in A h \<Longrightarrow> (\<And>k. A k \<Longrightarrow> A (canonical_key k)) \<Longrightarrow> keys_in A (copy_headers h)"
  unfolding copy_headers_def
  by (rule keys_in_foldl) (auto simp: keys_in_def [of A h] intro!: keys_in_foldl keys_in_add)

definition forwardable :: "string \<Rightarrow> bool" where
  "forwardable k \<longleftrightarrow> allowed_header k \<or> k = ''Authorization''"

lemma forwardable_keys:
  "forwardable (canonical_key ''anthropic-version'')" "forwardable (canonical_key ''anthropic-beta'')"
  "forwardable (canonical_key ''Content-Type'')" "forwardable (canonical_key ''User-Agent'')"
  "forwardable (canonical_key ''Accept'')" "forwardable (canonical_key ''Authorization'')"
  "canonical_key ''Authorization'' = ''Authorization''" "canonical_key ''x-api-key'' = ''X-Api-Key''"
  by code_simp+

lemma keys_in_required:
  assumes "keys_in allowed_header h"
  shows "keys_in forwardable (claude_headers cfg token st h)"
proof -
  have c: "keys_in forwardable (copy_headers h)"
    using keys_in_copy [OF assms] by (auto simp: keys_in_def forwardable_def)
  have "keys_in forwardable (setClaudeRequiredHeaders token v b g)" if "keys_in forwardable g" for v b g
    using that forwardable_keys
    by (simp add: setClaudeRequiredHeaders_def Let_def keys_in_set keys_in_del)
  with c show ?thesis
    using forwardable_keys(5) by (simp add: claude_headers_def Let_def keys_in_set)
qed

lemma claude_build_result:
  assumes "claude_BuildRequest sha256 d t others i acct token p = (Inr u, q)"
  obtains body b where "claude_body i = Inr body" and "b = transform_body sha256 d acct (ri_user_id i) body"
    and "ur_body u = json_print (any_norm (JObj b))"
    and "ur_headers u = claude_headers (cd_config d) token (ri_is_stream i)
           (case cd_env_masker d of None \<Rightarrow> fst (bindStainless t others (ac_id acct) (ri_headers i) (removeAllStainless (filterClaudeHeaders (ri_headers i))) p)
            | Some m \<Rightarrow> overrideStainless m (fst (bindStainless t others (ac_id acct) (ri_headers i) (removeAllStainless (filterClaudeHeaders (ri_headers i))) p)))"
    and "q = snd (bindStainless t others (ac_id acct) (ri_headers i) (removeAllStainless (filterClaudeHeaders (ri_headers i))) p)"
  using assms
  by (auto simp: claude_BuildRequest_def transform_def Let_def split: sum.splits prod.splits option.splits)

section \<open>A sample request\<close>

definition sample_claude :: claude_driver where
  "sample_claude = NewClaudeDriver
     \<lparr> cl_api_url = ''https://c'', cl_api_version = ''v'', cl_beta_header = ''b'', cl_prompt_env_home = [] \<rparr> 4"

definition sample_claude_input :: relay_input where
  "sample_claude_input =
     \<lparr> ri_body = [], ri_raw_body = json_print (JObj [(''model'', JStr ''claude-opus-5'')]),
       ri_headers = [(''Cookie'', [''c'']), (''X-Stainless-Os'', [''Linux''])], ri_path = ''/v1/messages'', ri_raw_query = [],
       ri_model = ''claude-opus-5'', ri_user_id = ''u'', ri_is_stream = True, ri_is_count_tokens = False \<rparr>"

definition sample_times :: "gotime \<times> gotime \<times> gotime" where "sample_times = (1, 2, 3)"

definition sample_sha :: "string \<Rightarrow> string" where
  "sample_sha s = take 32 (s @ replicate 32 CHR ''0'')"

definition sample_claude_result :: "(build_error + upstream_request) \<times> pool" where
  "sample_claude_result = claude_BuildRequest sample_sha sample_claude sample_times id
     sample_claude_input acct_c ''t'' (sample_pool None)"

lemma sample_claude_body: "unmarshal_map (ri_raw_body sample_claude_input) = Some (Some [(''model'', JStr ''claude-opus-5'')])"
proof -
  have "json_parse (json_print (JObj [(''model'', JStr ''claude-opus-5'')])) = Some (JObj [(''model'', JStr ''claude-opus-5'')])"
    by (rule json_parse_print) simp
  then show ?thesis
    by (simp add: unmarshal_map_def sample_claude_input_def go_members_def jmembers_def del: json_print.simps)
qed

lemma sample_claude_built: "\<exists>u. sample_claude_result = (Inr u, snd sample_claude_result)"
proof -
  have m: "normalizeClaudeModelField [(''model'', JStr ''claude-opus-5'')] = Inr [(''model'', JStr ''claude-opus-5'')]"
  proof -
    have t: "trim_space ''claude-opus-5'' = ''claude-opus-5''" "to_lower ''claude-opus-5'' = ''claude-opus-5''" by code_simp+
    show ?thesis
      by (simp add: normalizeClaudeModelField_def normalizeClaudeModelID_def claudeModelEntryForID_def
          claudeModelEntries_def claude_entry_def jstring_def t Let_def)
  qed
  have u: "appendRawQuery ''https://c'' (ensureBetaParam []) = Inr ''https://c?beta=true''" by code_simp
  obtain body where b: "claude_body sample_claude_input = Inr body"
    using m by (simp add: claude_body_def sample_claude_body map_value_def)
  obtain x h y z where t: "transform sample_sha sample_claude sample_times id body
      (ri_headers sample_claude_input) acct_c (ri_user_id sample_claude_input) (sample_pool None) = ((x, h, y), z)"
    by (metis prod_cases3 prod.collapse)
  have f: "cl_api_url (cd_config sample_claude) = ''https://c''" "ri_raw_query sample_claude_input = []"
    "ri_is_count_tokens sample_claude_input = False"
    by (simp_all add: sample_claude_def NewClaudeDriver_def sample_claude_input_def)
  show ?thesis by (simp add: sample_claude_result_def claude_BuildRequest_def b t u f)
qed

lemma sample_stainless: "GetStainless now i (sample_pool None) = None" "s_stainless (p_store (sample_pool None)) = Map.empty"
  "s_stainless sample_store = Map.empty"
  by (simp_all add: GetStainless_def GetStainlessBinding_def sample_pool_def sample_store_def NewMockStore_def)

section \<open>Credentials of the client\<close>

lemma keys_in_override: "keys_in allowed_header h \<Longrightarrow> keys_in allowed_header (overrideStainless m h)"
proof -
  have "allowed_header ''x-stainless-os''" "allowed_header ''x-stainless-arch''" by code_simp+
  then show "keys_in allowed_header h \<Longrightarrow> ?thesis" by (simp add: overrideStainless_def Let_def keys_in_set)
qed

lemma required_auth:
  "h_get (claude_headers cfg token st h) ''Authorization'' = ''Bearer '' @ token
   \<and> h_get (claude_headers cfg token st h) ''x-api-key'' = []"
proof -
  have k: "canonical_key ''anthropic-version'' = ''Anthropic-Version''" "canonical_key ''anthropic-beta'' = ''Anthropic-Beta''"
    "canonical_key ''Content-Type'' = ''Content-Type''" "canonical_key ''User-Agent'' = ''User-Agent''"
    "canonical_key ''Accept'' = ''Accept''" by code_simp+
  have "h_get (setClaudeRequiredHeaders token v b g) ''Authorization'' = ''Bearer '' @ token
      \<and> h_get (setClaudeRequiredHeaders token v b g) ''x-api-key'' = []" for v b g
    by (simp add: setClaudeRequiredHeaders_def Let_def k forwardable_keys(7,8))
  then show ?thesis by (simp add: claude_headers_def Let_def k forwardable_keys(7,8))
qed



section \<open>The identity in the body\<close>

text \<open>The session part that the upstream user id is made from.\<close>

definition upstream_session :: "string \<Rightarrow> (string \<times> json) list \<Rightarrow> string" where
  "upstream_session brokerUserID body =
     (case map_of body ''metadata'' of
        Some (JObj m) \<Rightarrow>
          (case map_of m ''user_id'' of
             Some (JStr orig) \<Rightarrow> (case user_id_session orig of Some tail \<Rightarrow> tail | None \<Rightarrow> ''default'')
           | _ \<Rightarrow> ''compat-'' @ brokerUserID)
      | _ \<Rightarrow> ''compat-'' @ brokerUserID)"

definition body_user_id :: "(string \<times> json) list \<Rightarrow> string option" where
  "body_user_id body =
     (case map_of body ''metadata'' of
        Some (JObj m) \<Rightarrow> (case map_of m ''user_id'' of Some (JStr s) \<Rightarrow> Some s | _ \<Rightarrow> None)
      | _ \<Rightarrow> None)"

lemma rewrite_metadata_user:
  "body_user_id (rewrite_metadata sha256 acct u body)
   = Some (buildUserID sha256 (ac_id acct) (IdentityString acct ''account_uuid'') (upstream_session u body))"
  by (simp add: rewrite_metadata_def body_user_id_def upstream_session_def rewriteUserID_def Let_def update_conv'
      split: option.split json.split)

lemma walk_field_other: "k \<noteq> field \<Longrightarrow> map_of (snd (walk_field f s field body)) k = map_of body k"
  by (simp add: walk_field_def update_conv' case_prod_beta split: option.split)

lemma enforce_other:
  "k \<noteq> ''system'' \<Longrightarrow> k \<noteq> ''messages'' \<Longrightarrow> map_of (enforceCacheControl body n) k = map_of body k"
  by (simp add: enforceCacheControl_def stripAndCountCacheControl_def removeCacheControls_def case_prod_beta Let_def
      walk_field_other)

lemma upstream_session_cong:
  "map_of b ''metadata'' = map_of b' ''metadata'' \<Longrightarrow> upstream_session u b = upstream_session u b'"
  by (simp add: upstream_session_def)

lemma transform_metadata:
  "body_user_id (transform_body sha256 d acct u body)
   = Some (buildUserID sha256 (ac_id acct) (IdentityString acct ''account_uuid'') (upstream_session u body))"
proof -
  have "map_of (stripBillingHeaders body) ''metadata'' = map_of body ''metadata''"
    by (simp add: stripBillingHeaders_def update_conv' split: option.split json.split)
  moreover have "map_of (maskMessageReminders m (maskSystem m x)) ''metadata'' = map_of x ''metadata''" for m x
    by (simp add: maskMessageReminders_def maskSystem_def update_conv' split: option.split json.split)
  ultimately show ?thesis
    unfolding transform_body_def Let_def rewrite_metadata_user
    by (intro arg_cong [of _ _ Some] arg_cong [of _ _ "buildUserID sha256 (ac_id acct) (IdentityString acct ''account_uuid'')"]
        upstream_session_cong) (simp add: enforce_other split: option.split)
qed

lemma hex_encode_hex: "c \<in> set (hex_encode s) \<Longrightarrow> uuid_char c"
proof -
  have "list_all uuid_char (map hex_digit [0..<16])" by code_simp
  then have "d < 16 \<Longrightarrow> uuid_char (hex_digit d)" for d by (auto simp: list_all_iff)
  then show "c \<in> set (hex_encode s) \<Longrightarrow> ?thesis" by (auto simp: hex_encode_def of_char_hex)
qed

lemma length_hex_encode [simp]: "length (hex_encode s) = 2 * length s"
  by (induction s) (simp_all add: hex_encode_def)

lemma session_uuid_shape:
  assumes "length (sha256 (accountID @ '':'' @ tail)) = 32"
  shows "length (deriveSessionUUID sha256 accountID tail) = 36"
    and "list_all uuid_char (deriveSessionUUID sha256 accountID tail)"
proof -
  obtain hx where hx: "hx = hex_encode (take 16 (sha256 (accountID @ '':'' @ tail)))" by blast
  have l: "length hx = 32" using assms by (simp add: hx)
  have u: "\<forall>c \<in> set hx. uuid_char c" unfolding hx by (blast intro: hex_encode_hex)
  have m: "uuid_char CHR ''-''" by code_simp
  have d: "deriveSessionUUID sha256 accountID tail = take 8 hx @ ''-'' @ take 4 (drop 8 hx) @ ''-'' @ take 4 (drop 12 hx)
      @ ''-'' @ take 4 (drop 16 hx) @ ''-'' @ take 12 (drop 20 hx)"
    by (simp only: deriveSessionUUID_def Let_def hx)
  show "length (deriveSessionUUID sha256 accountID tail) = 36"
    using l by (simp add: d)
  have "\<forall>c \<in> set (take n (drop k hx)). uuid_char c" "\<forall>c \<in> set (take n hx). uuid_char c" for n k
    using u by (meson in_set_dropD in_set_takeD)+
  then show "list_all uuid_char (deriveSessionUUID sha256 accountID tail)"
    using m by (simp add: d list_all_iff ball_Un)
qed

lemma extract_built:
  assumes "length (sha256 (accountID @ '':'' @ tail)) = 32"
  shows "extractSessionUUID (buildUserID sha256 accountID accountUUID tail) = deriveSessionUUID sha256 accountID tail"
proof -
  obtain pre u where pre: "pre = ''user_'' @ deriveAccountHash sha256 accountUUID accountID @ ''_account__''"
    and u: "u = deriveSessionUUID sha256 accountID tail" by blast
  have b: "buildUserID sha256 accountID accountUUID tail = pre @ ''session_'' @ u"
    by (simp add: buildUserID_def pre u)
  have l: "length u = 36" "list_all uuid_char u" using session_uuid_shape [of sha256 accountID tail, OF assms] by (simp_all add: u)
  have d: "drop (length (pre @ ''session_'' @ u) - 44) (pre @ ''session_'' @ u) = ''session_'' @ u"
    using l(1) by simp
  show ?thesis
    unfolding b extractSessionUUID_def Let_def d using l by (simp add: u [symmetric] has_prefix_def)
qed

lemma claude_body_session:
  assumes "claude_body i = Inr body" and "unmarshal_map (ri_raw_body i) = Some om"
  shows "upstream_session u body = upstream_session u (map_value om)"
proof (rule upstream_session_cong)
  show "map_of body ''metadata'' = map_of (map_value om) ''metadata''"
    using assms
    by (auto simp: claude_body_def normalizeClaudeModelField_def normalizeClaudeMessageEnvelope_def update_conv'
        split: sum.splits prod.splits if_splits)
qed

text \<open>C14: The identity in the body is the account's, and one session of a client stays one session: the
  user id that goes upstream is the account's hash with a session id derived from the account and from
  the session part of the client's user id (or of the client itself, if it sent none), never the
  client's own account hash; and that session id is what the session pattern finds in it.\<close>

theorem identity_rewritten:
  assumes "claude_BuildRequest sha256 d t others i acct token p = (Inr u, q)"
    and "unmarshal_map (ri_raw_body i) = Some om" and "\<And>s. length (sha256 s) = 32"
    and "tail = upstream_session (ri_user_id i) (map_value om)"
  shows "\<exists>b uid. ur_body u = json_print (any_norm (JObj b)) \<and> body_user_id b = Some uid
    \<and> uid = buildUserID sha256 (ac_id acct) (IdentityString acct ''account_uuid'') tail
    \<and> extractSessionUUID uid = deriveSessionUUID sha256 (ac_id acct) tail"
proof -
  obtain body b where b: "claude_body i = Inr body" "b = transform_body sha256 d acct (ri_user_id i) body"
    "ur_body u = json_print (any_norm (JObj b))"
    using claude_build_result [OF assms(1)] by metis
  have "tail = upstream_session (ri_user_id i) body" using claude_body_session [OF b(1) assms(2)] assms(4) by simp
  then show ?thesis
    using b(3) transform_metadata [of sha256 d acct "ri_user_id i" body] extract_built [OF assms(3)]
    by (auto simp: b(2))
qed

theorem identity_rewritten_witness:
  "\<exists>u q b. sample_claude_result = (Inr u, q) \<and> ur_body u = json_print (any_norm (JObj b))
     \<and> body_user_id b = Some (buildUserID sample_sha ''c'' [] ''compat-u'')"
proof -
  obtain u where u: "sample_claude_result = (Inr u, snd sample_claude_result)" using sample_claude_built by blast
  have t: "''compat-u'' = upstream_session (ri_user_id sample_claude_input) (map_value (Some [(''model'', JStr ''claude-opus-5'')]))"
    by (simp add: upstream_session_def map_value_def sample_claude_input_def)
  have l: "length (sample_sha s) = 32" for s by (simp add: sample_sha_def)
  have a: "ac_id acct_c = ''c''" "IdentityString acct_c ''account_uuid'' = []"
    by (simp_all add: acct_defs IdentityString_def)
  from identity_rewritten [OF u [unfolded sample_claude_result_def] sample_claude_body l t] u show ?thesis
    unfolding a by blast
qed

section \<open>Cache controls\<close>

definition controls_in :: "(string \<times> json) list \<Rightarrow> string \<Rightarrow> nat" where
  "controls_in body field = (case map_of body field of None \<Rightarrow> 0 | Some v \<Rightarrow> controls v)"

definition ttl_in :: "(string \<times> json) list \<Rightarrow> string \<Rightarrow> bool" where
  "ttl_in body field \<longleftrightarrow> (case map_of body field of None \<Rightarrow> False | Some v \<Rightarrow> has_ttl v)"

lemma uncached_stripped [simp]: "uncached (stripped v) = uncached v" "uncached (snd (pruned n v)) = uncached v"
  by (simp_all add: stripped_def pruned_def)

lemma strip_field:
  "stripAndCountCacheControl body f = (controls_in body f,
     case map_of body f of None \<Rightarrow> body | Some v \<Rightarrow> AList.update f (stripped v) body)"
  by (simp add: stripAndCountCacheControl_def walk_field_def controls_in_def controls_def stripped_def case_prod_beta
      split: option.split)

lemma remove_field:
  "removeCacheControls body f n =
     (if n \<le> 0 then (0, body)
      else case map_of body f of None \<Rightarrow> (n, body)
        | Some v \<Rightarrow> (n - int (fst (pruned n v)), AList.update f (snd (pruned n v)) body))"
  by (simp add: removeCacheControls_def walk_field_def pruned_def case_prod_beta split: option.split)

text \<open>Both fields at once: stripped everywhere, then pruned if there are too many.\<close>

lemma enforce_fields:
  assumes "c1 = controls_in body ''system''" and "c2 = controls_in body ''messages''"
    and "r2 = min c2 (nat (int c1 + int c2 - n))" and "r1 = min c1 (nat (int c1 + int c2 - n) - r2)"
  shows "controls_in (enforceCacheControl body n) ''messages'' = c2 - r2
    \<and> controls_in (enforceCacheControl body n) ''system'' = c1 - r1
    \<and> \<not> ttl_in (enforceCacheControl body n) ''system'' \<and> \<not> ttl_in (enforceCacheControl body n) ''messages''
    \<and> (\<forall>k. map_option uncached (map_of (enforceCacheControl body n) k) = map_option uncached (map_of body k))"
proof -
  obtain sys msg where f: "sys = map_of body ''system''" "msg = map_of body ''messages''" by blast
  let ?b1 = "case sys of None \<Rightarrow> body | Some v \<Rightarrow> AList.update ''system'' (stripped v) body"
  let ?b2 = "case msg of None \<Rightarrow> ?b1 | Some v \<Rightarrow> AList.update ''messages'' (stripped v) ?b1"
  have m: "map_of ?b2 ''system'' = map_option stripped sys" "map_of ?b2 ''messages'' = map_option stripped msg"
    "k \<noteq> ''system'' \<Longrightarrow> k \<noteq> ''messages'' \<Longrightarrow> map_of ?b2 k = map_of body k" for k
    by (simp_all add: f update_conv' split: option.split)
  have s2: "stripAndCountCacheControl body ''system'' = (c1, ?b1)" by (simp add: strip_field assms(1) f)
  have s3: "stripAndCountCacheControl ?b1 ''messages'' = (c2, ?b2)"
    by (simp add: strip_field assms(2) controls_in_def f update_conv' split: option.split)
  obtain b2 where b2: "b2 = ?b2" by blast
  note m = m [folded b2]
  have e: "enforceCacheControl body n = (if int c1 + int c2 \<le> n then b2
      else (case removeCacheControls b2 ''messages'' (int c1 + int c2 - n) of (excess, b3) \<Rightarrow>
              (if 0 < excess then snd (removeCacheControls b3 ''system'' excess) else b3)))"
    unfolding enforceCacheControl_def s2 prod.case s3 Let_def b2 by (rule refl)
  show ?thesis
  proof (cases "int c1 + int c2 \<le> n")
    case True
    have z: "r1 = 0" "r2 = 0" using True assms(3,4) by simp_all
    have "map_option uncached (map_of b2 k) = map_option uncached (map_of body k)" for k
      using m f by (cases "k = ''system''"; cases "k = ''messages''") (simp_all add: option.map_comp comp_def)
    then show ?thesis
      using True z m f assms(1,2) ttl_stripped
      by (simp add: e controls_in_def ttl_in_def split: option.split)
  next
    case False
    define ex where "ex = int c1 + int c2 - n"
    have ex: "0 < ex" using False by (simp add: ex_def)
    define b3 where "b3 = (case msg of None \<Rightarrow> b2 | Some v \<Rightarrow> AList.update ''messages'' (snd (pruned ex (stripped v))) b2)"
    have c2: "c2 = (case msg of None \<Rightarrow> 0 | Some v \<Rightarrow> controls v)" by (simp add: assms(2) controls_in_def f)
    have c1: "c1 = (case sys of None \<Rightarrow> 0 | Some v \<Rightarrow> controls v)" by (simp add: assms(1) controls_in_def f)
    have r2: "r2 = min c2 (nat ex)" using assms(3) by (simp add: ex_def)
    have rm: "removeCacheControls b2 ''messages'' ex = (ex - int r2, b3)"
      using ex m(2) controls_pruned [of ex] by (auto simp: remove_field b3_def r2 c2 split: option.split)
    have m3: "map_of b3 ''messages'' = map_option (\<lambda>v. snd (pruned ex (stripped v))) msg"
      "map_of b3 ''system'' = map_option stripped sys"
      "k \<noteq> ''system'' \<Longrightarrow> k \<noteq> ''messages'' \<Longrightarrow> map_of b3 k = map_of body k" for k
      using m by (simp_all add: b3_def update_conv' split: option.split)
    define b4 where "b4 = (if 0 < ex - int r2 then snd (removeCacheControls b3 ''system'' (ex - int r2)) else b3)"
    have en: "enforceCacheControl body n = b4" using False by (simp add: e ex_def [symmetric] rm b4_def)
    have r1: "r1 = min c1 (nat (ex - int r2))"
      using assms(4) ex r2 by (simp add: ex_def nat_diff_distrib')
    have m4: "map_of b4 ''messages'' = map_of b3 ''messages''"
      "map_of b4 ''system'' = (if 0 < ex - int r2 then map_option (\<lambda>v. snd (pruned (ex - int r2) (stripped v))) sys else map_option stripped sys)"
      "k \<noteq> ''system'' \<Longrightarrow> k \<noteq> ''messages'' \<Longrightarrow> map_of b4 k = map_of body k" for k
      using m3 by (auto simp: b4_def remove_field update_conv' split: option.split)
    have "map_option uncached (map_of b4 k) = map_option uncached (map_of body k)" for k
      using m4 m3 f by (cases "k = ''system''"; cases "k = ''messages''") (simp_all add: option.map_comp comp_def)
    moreover have "controls_in b4 ''messages'' = c2 - r2" "\<not> ttl_in b4 ''messages''"
      using m4(1) m3(1) controls_pruned [of ex] ttl_pruned
      by (simp_all add: controls_in_def ttl_in_def c2 r2 split: option.split)
    moreover have "controls_in b4 ''system'' = c1 - r1" "\<not> ttl_in b4 ''system''"
      using m4(2) controls_pruned [of "ex - int r2"] ttl_pruned ttl_stripped
      by (simp_all add: controls_in_def ttl_in_def c1 r1 split: option.split)
    ultimately show ?thesis by (simp add: en)
  qed
qed


section \<open>Fingerprint headers\<close>

lemma h_get_set_headers:
  assumes "distinct (map (\<lambda>kv. canonical_key (fst kv)) m)"
  shows "h_get (set_headers m h) k =
    (case map_of (map (\<lambda>kv. (canonical_key (fst kv), snd kv)) m) (canonical_key k) of Some v \<Rightarrow> v | None \<Rightarrow> h_get h k)"
  using assms
proof (induction m arbitrary: h)
  case (Cons kv m)
  obtain j v where kv: "kv = (j, v)" by (cases kv)
  have "set_headers (kv # m) h = set_headers m (h_set j v h)" by (simp add: set_headers_def kv)
  moreover have "map_of (map (\<lambda>kv. (canonical_key (fst kv), snd kv)) m) (canonical_key j) = None"
    using Cons.prems by (force simp: kv map_of_eq_None_iff)
  ultimately show ?case using Cons by (auto simp: kv split: option.split)
qed (simp add: set_headers_def)

lemma bound_keys:
  "distinct (map canonical_key boundStainlessKeys)" "distinct boundStainlessKeys"
  "k \<in> set boundStainlessKeys \<Longrightarrow> canonical_key (canonical_key k) = canonical_key k
     \<and> has_prefix (to_lower (canonical_key k)) stainlessPrefix \<and> canonical_key k \<notin> canonical_key ` set passthroughStainlessKeys"
  "distinct (map canonical_key passthroughStainlessKeys)"
proof -
  have "list_all (\<lambda>k. canonical_key (canonical_key k) = canonical_key k
     \<and> has_prefix (to_lower (canonical_key k)) stainlessPrefix \<and> \<not> list_ex (\<lambda>j. canonical_key k = canonical_key j) passthroughStainlessKeys)
     boundStainlessKeys" by code_simp
  then show "k \<in> set boundStainlessKeys \<Longrightarrow> canonical_key (canonical_key k) = canonical_key k
     \<and> has_prefix (to_lower (canonical_key k)) stainlessPrefix \<and> canonical_key k \<notin> canonical_key ` set passthroughStainlessKeys"
    by (auto simp: list_all_iff list_ex_iff)
  show "distinct (map canonical_key boundStainlessKeys)" "distinct boundStainlessKeys"
    "distinct (map canonical_key passthroughStainlessKeys)" by code_simp+
qed

lemma bound_canonical_inj: "j \<in> set boundStainlessKeys \<Longrightarrow> k \<in> set boundStainlessKeys \<Longrightarrow> canonical_key j = canonical_key k \<Longrightarrow> j = k"
  using bound_keys(1) by (simp add: distinct_map inj_on_def)

lemma map_of_canonical:
  assumes "fst ` set m \<subseteq> set boundStainlessKeys" and "k \<in> set boundStainlessKeys"
  shows "map_of (map (\<lambda>kv. (canonical_key (fst kv), snd kv)) m) (canonical_key k) = map_of m k"
  using assms by (induction m) (auto dest: bound_canonical_inj)

lemma h_get_bound:
  assumes "distinct (map fst m)" and "fst ` set m \<subseteq> set boundStainlessKeys" and "k \<in> set boundStainlessKeys"
  shows "h_get (set_headers m h) k = (case map_of m k of Some v \<Rightarrow> v | None \<Rightarrow> h_get h k)"
proof -
  have "inj_on canonical_key (fst ` set m)" unfolding inj_on_def using assms(2) bound_canonical_inj by blast
  then have "distinct (map canonical_key (map fst m))" using assms(1) unfolding distinct_map [of canonical_key] by simp
  then show ?thesis using map_of_canonical [OF assms(2,3)] by (simp add: h_get_set_headers comp_def)
qed

lemma h_get_pass:
  assumes "k \<in> set boundStainlessKeys"
  shows "h_get (set_headers (map (\<lambda>j. (j, f j)) (filter P passthroughStainlessKeys)) h) k = h_get h k"
proof -
  have "distinct (map (\<lambda>kv. canonical_key (fst kv)) (map (\<lambda>j. (j, f j)) (filter P passthroughStainlessKeys)))"
    using bound_keys(4) by (simp add: comp_def distinct_map inj_on_def)
  moreover have "map_of (map (\<lambda>kv. (canonical_key (fst kv), snd kv)) (map (\<lambda>j. (j, f j)) (filter P passthroughStainlessKeys)))
      (canonical_key k) = None"
    using bound_keys(3) [OF assms] by (auto simp: map_of_eq_None_iff)
  ultimately show ?thesis by (simp add: h_get_set_headers)
qed

lemma removed_stainless:
  assumes "k \<in> set boundStainlessKeys"
  shows "h_get (removeAllStainless h) k = []"
proof -
  let ?K = "canonical_key k" and ?f = "\<lambda>h key. if has_prefix (to_lower key) stainlessPrefix then h_del key h else h"
  have "map_of (foldl ?f g xs) ?K = None" if "map_of g ?K = None \<or> ?K \<in> set xs" for g xs
    using that
  proof (induction xs arbitrary: g)
    case (Cons x xs)
    have "map_of (?f g x) ?K = None" if "map_of g ?K = None \<or> x = ?K"
      using that bound_keys(3) [OF assms] by (auto simp: h_del_def delete_conv')
    with Cons show ?case by auto
  qed simp
  moreover have "map_of h ?K = None \<or> ?K \<in> set (map fst h)" by (auto simp: map_of_eq_None_iff)
  ultimately have "map_of (removeAllStainless h) ?K = None" by (simp add: removeAllStainless_def)
  then show ?thesis by (simp add: h_get_def)
qed

lemma captured_facts:
  "distinct (map fst (captured_headers req))" "fst ` set (captured_headers req) \<subseteq> set boundStainlessKeys"
  "k \<in> set boundStainlessKeys \<Longrightarrow>
     map_of (captured_headers req) k = (if h_get req k = [] then None else Some (h_get req k))"
proof -
  show "distinct (map fst (captured_headers req))"
    using bound_keys(2) by (simp add: captured_headers_def comp_def)
  show "fst ` set (captured_headers req) \<subseteq> set boundStainlessKeys" by (auto simp: captured_headers_def)
  show "k \<in> set boundStainlessKeys \<Longrightarrow> map_of (captured_headers req) k = (if h_get req k = [] then None else Some (h_get req k))"
    by (simp add: captured_headers_def map_of_map_restrict restrict_map_def)
qed

text \<open>Replaying what was captured.\<close>

lemma replay_captured:
  assumes "k \<in> set boundStainlessKeys"
  shows "h_get (replay_headers (encode_str_map (captured_headers req)) h) k =
    (if h_get req k = [] then h_get h k else h_get req k)"
proof -
  let ?m = "sort_key fst (captured_headers req)"
  have "replay_headers (encode_str_map (captured_headers req)) h = set_headers ?m h"
    by (simp add: replay_set decode_encode_str_map captured_facts(1))
  moreover have "distinct (map fst ?m)" using captured_facts(1) by (simp add: distinct_fst_sort_key)
  moreover have "map_of ?m k = map_of (captured_headers req) k" by (simp add: map_of_sort_key captured_facts(1))
  ultimately show ?thesis
    using h_get_bound [of ?m k h] captured_facts(2) assms by (simp add: captured_facts(3))
qed

text \<open>An account keeps one machine fingerprint.  Once a request stored the fingerprint headers of its
  client for an account, every request on that account for the next 24 hours, of whatever client,
  carries exactly these: the same values, and none of the others, as long as the binding is in the
  store (masking, where it is configured, replaces two of them afterwards).\<close>

theorem fingerprint_stable:
  assumes "GetStainless (fst t) i p = None" and "captured_headers req \<noteq> []"
    and "fst (SetStainlessNX (fst (snd t)) i (encode_str_map (captured_headers req)) stainless_ttl (others p))"
    and "bindStainless t others i req out p = (h, q)"
    and "s_stainless (p_store p') i = s_stainless (p_store q) i" and "fst t' < fst (snd t) + stainless_ttl"
    and "k \<in> set boundStainlessKeys"
  shows "h_get (fst (bindStainless t' others' i req' (removeAllStainless (filterClaudeHeaders req')) p')) k = h_get req k"
proof -
  let ?b = "\<lparr> st_account_id = i, st_headers_json = encode_str_map (captured_headers req),
               st_created_at = fst (snd t), st_expires_at = fst (snd t) + stainless_ttl \<rparr>"
  obtain q1 where s: "SetStainlessNX (fst (snd t)) i (encode_str_map (captured_headers req)) stainless_ttl (others p) = (True, q1)"
    using assms(3) by (metis prod.collapse)
  then have "q = q1" using assms(1,2,4) by (auto simp: bindStainless_def Let_def)
  moreover have "s_stainless (p_store q1) i = Some ?b"
    using s by (auto simp: SetStainlessNX_def SetStainlessBindingNX_def split: option.splits if_splits prod.splits)
  ultimately have "GetStainless (fst t') i p' = Some (encode_str_map (captured_headers req))"
    using assms(5,6) by (simp add: GetStainless_def GetStainlessBinding_def)
  then show ?thesis
    using removed_stainless [OF assms(7)] replay_captured [OF assms(7)] h_get_pass [OF assms(7)]
    by (simp add: bindStainless_def Let_def)
qed

theorem fingerprint_stable_witness:
  "\<forall>req'. \<exists>q. h_get (fst (bindStainless (5, 5, 5) id ''c'' req' (removeAllStainless (filterClaudeHeaders req')) q)) ''x-stainless-os'' = ''Linux''
     \<and> q = snd (bindStainless sample_times id ''c'' (ri_headers sample_claude_input) [] (sample_pool None))"
proof (rule allI)
  fix req'
  let ?r = "ri_headers sample_claude_input"
  let ?b = "bindStainless sample_times id ''c'' ?r [] (sample_pool None)"
  have os: "h_get ?r ''x-stainless-os'' = ''Linux''" by code_simp
  have k: "''x-stainless-os'' \<in> set boundStainlessKeys" by (simp add: boundStainlessKeys_def)
  have c: "captured_headers ?r \<noteq> []" using captured_facts(3) [OF k, of ?r] os by auto
  have w: "fst (SetStainlessNX (fst (snd sample_times)) ''c'' (encode_str_map (captured_headers ?r)) stainless_ttl (id (sample_pool None)))"
    by (simp add: SetStainlessNX_def SetStainlessBindingNX_def sample_stainless)
  have b: "?b = (fst ?b, snd ?b)" by simp
  have t: "fst (5, 5, 5) < fst (snd sample_times) + stainless_ttl"
    by (simp add: sample_times_def stainless_ttl_def minute_def second_def)
  from fingerprint_stable [OF sample_stainless(1) c w b refl t k] os
  show "\<exists>q. h_get (fst (bindStainless (5, 5, 5) id ''c'' req' (removeAllStainless (filterClaudeHeaders req')) q)) ''x-stainless-os'' = ''Linux''
     \<and> q = snd (bindStainless sample_times id ''c'' (ri_headers sample_claude_input) [] (sample_pool None))"
    by metis
qed

text \<open>A request that loses the race for the first binding does not carry the winner's fingerprint alone:
  headers that the winner did not have stay its own.\<close>

lemma lost_race_mixes:
  assumes "GetStainless (fst t) i p = None" and "captured_headers req \<noteq> []"
    and "SetStainlessNX (fst (snd t)) i (encode_str_map (captured_headers req)) stainless_ttl (others p) = (False, q)"
    and "GetStainless (snd (snd t)) i q = Some (encode_str_map (captured_headers winner))"
    and "k \<in> set boundStainlessKeys"
  shows "h_get (fst (bindStainless t others i req out p)) k =
    (if h_get winner k \<noteq> [] then h_get winner k else if h_get req k \<noteq> [] then h_get req k else h_get out k)"
  using assms(1-4) h_get_pass [OF assms(5)] replay_captured [OF assms(5)]
    h_get_bound [OF captured_facts(1,2) assms(5)] captured_facts(3) [OF assms(5)]
  by (simp add: bindStainless_def Let_def)

end
