(* ===== verification/Streams.thy ===== *)
theory Streams
  imports CodexRelay Claude Gemini
begin

text \<open>
  What the drivers write to the client (the \<open>StreamResponse\<close>, \<open>ForwardResponse\<close>, \<open>WriteError\<close> and
  \<open>WriteUpstreamError\<close> methods of \<open>internal/driver\<close>) and the line scanner they read event streams with.
\<close>

section \<open>The response writer\<close>

text \<open>
  \<open>rw_header\<close> is the header map that a handler fills, \<open>rw_sent\<close> the status and the headers once they are
  fixed, \<open>rw_flushed\<close> how many bytes of the body are flushed to the client.
\<close>

record response_writer =
  rw_header :: header
  rw_sent :: "(int \<times> header) option"
  rw_body :: string
  rw_flushed :: nat

definition new_writer :: response_writer where
  "new_writer = \<lparr> rw_header = [], rw_sent = None, rw_body = [], rw_flushed = 0 \<rparr>"

definition set_header :: "string \<Rightarrow> string \<Rightarrow> response_writer \<Rightarrow> response_writer" where
  "set_header k v w = w\<lparr>rw_header := h_set k v (rw_header w)\<rparr>"

definition write_header :: "int \<Rightarrow> response_writer \<Rightarrow> response_writer" where
  "write_header status w =
     (case rw_sent w of None \<Rightarrow> w\<lparr>rw_sent := Some (status, rw_header w)\<rparr> | Some _ \<Rightarrow> w)"

definition write_bytes :: "string \<Rightarrow> response_writer \<Rightarrow> response_writer" where
  "write_bytes s w = (write_header 200 w)\<lparr>rw_body := rw_body w @ s\<rparr>"

definition flush :: "response_writer \<Rightarrow> response_writer" where
  "flush w = (write_header 200 w)\<lparr>rw_flushed := length (rw_body w)\<rparr>"

definition forward_headers :: "header \<Rightarrow> response_writer \<Rightarrow> response_writer" where
  "forward_headers h w =
     w\<lparr>rw_header := foldl (\<lambda>d kvs. foldl (\<lambda>d v. h_add (fst kvs) v d) d (snd kvs)) (rw_header w) h\<rparr>"

definition write_raw :: "int \<Rightarrow> string \<Rightarrow> string \<Rightarrow> response_writer \<Rightarrow> response_writer" where
  "write_raw status ctype body w =
     write_bytes body (write_header status (set_header ''Content-Type'' ctype w))"

text \<open>\<open>json.NewEncoder(w).Encode\<close> ends the value with a newline.\<close>

definition writeDriverJSON :: "int \<Rightarrow> json \<Rightarrow> response_writer \<Rightarrow> response_writer" where
  "writeDriverJSON status payload w = write_raw status ''application/json'' (json_print payload @ [newline]) w"

section \<open>Errors to the client\<close>

text \<open>The encoder writes the members of a map in the order of their names.\<close>

definition claude_WriteError :: "int \<Rightarrow> string \<Rightarrow> response_writer \<Rightarrow> response_writer" where
  "claude_WriteError status msg =
     writeDriverJSON status
       (JObj [(''error'', JObj [(''message'', JStr msg), (''type'', JStr ''api_error'')]), (''type'', JStr ''error'')])"

definition codex_WriteError :: "int \<Rightarrow> string \<Rightarrow> response_writer \<Rightarrow> response_writer" where
  "codex_WriteError status msg =
     writeDriverJSON status
       (JObj [(''error'', JObj [(''code'', JNum (itoa status)), (''message'', JStr msg), (''type'', JStr ''error'')])])"

definition gemini_WriteError :: "int \<Rightarrow> string \<Rightarrow> response_writer \<Rightarrow> response_writer" where
  "gemini_WriteError status msg =
     writeDriverJSON status (JObj [(''error'', JObj [(''code'', JNum (itoa status)), (''message'', JStr msg)])])"

definition sanitizeClaudeErrorJSON :: "int \<Rightarrow> string \<Rightarrow> string" where
  "sanitizeClaudeErrorJSON status body = snd (sanitizeClaudeError status body)"

definition claude_WriteUpstreamError :: "int \<Rightarrow> string \<Rightarrow> bool \<Rightarrow> response_writer \<Rightarrow> response_writer" where
  "claude_WriteUpstreamError status body isStream w =
     (if isStream then
        write_raw (fst (sanitizeClaudeError status body)) ''text/event-stream''
          (''event: error'' @ [newline] @ ''data: '' @ sanitizeClaudeErrorJSON status body @ [newline, newline]) w
      else write_raw (fst (sanitizeClaudeError status body)) ''application/json'' (snd (sanitizeClaudeError status body)) w)"

definition codex_WriteUpstreamError :: "int \<Rightarrow> string \<Rightarrow> bool \<Rightarrow> response_writer \<Rightarrow> response_writer" where
  "codex_WriteUpstreamError status body _ w =
     (let msg = extractCodexErrorMessage body in
      if msg \<noteq> [] then codex_WriteError status msg w else write_raw status ''application/json'' body w)"

definition gemini_WriteUpstreamError :: "int \<Rightarrow> string \<Rightarrow> bool \<Rightarrow> response_writer \<Rightarrow> response_writer" where
  "gemini_WriteUpstreamError status body _ w = write_raw status ''application/json'' body w"

section \<open>Forwarding a response\<close>

definition read_failed :: string where
  "read_failed = ''failed to read upstream response''"

definition claude_ForwardResponse :: "http_response \<Rightarrow> response_writer \<Rightarrow> response_writer" where
  "claude_ForwardResponse r w =
     (if hr_end r \<noteq> EndOK then claude_WriteError 502 read_failed w
      else write_raw (hr_status r) ''application/json'' (hr_body r) w)"

definition codex_ForwardResponse :: "http_response \<Rightarrow> response_writer \<Rightarrow> response_writer" where
  "codex_ForwardResponse r w =
     (if hr_end r \<noteq> EndOK then codex_WriteError 502 read_failed w
      else write_raw (hr_status r) ''application/json'' (hr_body r) w)"

definition gemini_ForwardResponse :: "http_response \<Rightarrow> response_writer \<Rightarrow> response_writer" where
  "gemini_ForwardResponse r w =
     (if hr_end r \<noteq> EndOK then gemini_WriteError 502 read_failed w
      else write_bytes (hr_body r) (write_header (hr_status r) (forward_headers (hr_headers r) w)))"

section \<open>The line scanner\<close>

text \<open>
  \<open>bufio.Scanner\<close> with the lines split and a buffer of at most one mebibyte: a line ends at a newline, one
  carriage return before it is dropped, an unterminated last line counts (after a read error too), and a
  line that fills the buffer without a newline ends the scan with an error.
\<close>

definition max_line :: nat where "max_line = 1024 * 1024"

definition drop_cr :: "string \<Rightarrow> string" where
  "drop_cr l = (if l \<noteq> [] \<and> last l = CHR 0x0D then butlast l else l)"

definition raw_lines :: "string \<Rightarrow> string list" where
  "raw_lines body =
     (let ls = split_char newline body in if last ls = [] then butlast ls else ls)"

definition fits_line :: "string \<Rightarrow> bool" where
  "fits_line l \<longleftrightarrow> length l < max_line"

definition scan_lines :: "string \<Rightarrow> string list" where
  "scan_lines body = map drop_cr (takeWhile fits_line (raw_lines body))"

definition scan_failed :: "http_response \<Rightarrow> bool" where
  "scan_failed r \<longleftrightarrow> (\<exists>l \<in> set (raw_lines (hr_body r)). \<not> fits_line l) \<or> hr_end r \<noteq> EndOK"

section \<open>Relaying an event stream\<close>

text \<open>
  What the loop meets: whether the writer can flush, whether the context is cancelled when a line was
  scanned, whether the write of that line fails (then nothing of it is delivered).
\<close>

record stream_env =
  se_flusher :: bool
  se_canceled :: "nat \<Rightarrow> bool"
  se_write_fails :: "nat \<Rightarrow> bool"

definition relay_line :: "stream_env \<Rightarrow> nat \<Rightarrow> string \<Rightarrow> response_writer \<Rightarrow> response_writer" where
  "relay_line env i line w =
     (let w1 = (if se_write_fails env i then w else write_bytes (line @ [newline]) w)
      in if line = [] then flush w1 else w1)"

record claude_scan =
  cs_event :: string
  cs_usage :: "token_usage option"
  cs_writer :: response_writer

definition claude_scan_line :: "string \<Rightarrow> claude_scan \<Rightarrow> claude_scan" where
  "claude_scan_line line s =
     (let ev = (if has_prefix line ''event: '' then drop 7 line else cs_event s);
          u = (if ev = ''message_delta'' \<and> has_prefix line ''data: '' then parseClaudeUsage (drop 6 line) else None)
      in s\<lparr> cs_event := ev, cs_usage := (if u = None then cs_usage s else u) \<rparr>)"

fun claude_stream_loop :: "stream_env \<Rightarrow> nat \<Rightarrow> string list \<Rightarrow> claude_scan \<Rightarrow> bool \<times> claude_scan" where
  "claude_stream_loop env i [] s = (True, s)"
| "claude_stream_loop env i (line # lines) s =
     (if se_canceled env i \<or> se_write_fails env i then (False, s)
      else claude_stream_loop env (Suc i) lines
             (claude_scan_line line (s\<lparr>cs_writer := relay_line env i line (cs_writer s)\<rparr>)))"

definition claude_StreamResponse ::
  "stream_env \<Rightarrow> http_response \<Rightarrow> response_writer \<Rightarrow> bool \<times> token_usage option \<times> response_writer" where
  "claude_StreamResponse env r w0 =
     (if \<not> se_flusher env then (False, None, claude_WriteError 500 ''streaming not supported'' w0)
      else
        (let w = write_header (hr_status r)
                   (set_header ''Connection'' ''keep-alive''
                     (set_header ''Cache-Control'' ''no-cache'' (set_header ''Content-Type'' ''text/event-stream'' w0)))
         in case claude_stream_loop env 0 (scan_lines (hr_body r)) \<lparr> cs_event = [], cs_usage = None, cs_writer = w \<rparr> of
              (completed, s) \<Rightarrow>
                (completed \<and> \<not> scan_failed r, cs_usage s, flush (cs_writer s))))"

text \<open>The loop of the Codex and the Gemini driver, with the parser of the usage.\<close>

definition data_usage :: "(string \<Rightarrow> token_usage option) \<Rightarrow> string \<Rightarrow> token_usage option \<Rightarrow> token_usage option" where
  "data_usage parse line u =
     (if has_prefix line ''data: '' then (case parse (drop 6 line) of Some v \<Rightarrow> Some v | None \<Rightarrow> u) else u)"

fun copy_loop ::
  "(string \<Rightarrow> token_usage option) \<Rightarrow> stream_env \<Rightarrow> nat \<Rightarrow> string list \<Rightarrow> token_usage option \<times> response_writer
   \<Rightarrow> bool \<times> token_usage option \<times> response_writer" where
  "copy_loop parse env i [] uw = (True, uw)"
| "copy_loop parse env i (line # lines) uw =
     (if se_canceled env i then (False, uw)
      else copy_loop parse env (Suc i) lines
             (data_usage parse line (fst uw), relay_line env i line (snd uw)))"

definition codex_StreamResponse ::
  "stream_env \<Rightarrow> http_response \<Rightarrow> response_writer \<Rightarrow> bool \<times> token_usage option \<times> response_writer" where
  "codex_StreamResponse env r w0 =
     (if \<not> se_flusher env then (False, None, codex_WriteError 500 ''streaming not supported'' w0)
      else
        (case copy_loop parseCodexUsage env 0 (scan_lines (hr_body r))
                (None, write_header (hr_status r) (forward_headers (hr_headers r) w0)) of
           (completed, u, w) \<Rightarrow> (completed, u, flush w)))"

definition gemini_StreamResponse ::
  "stream_env \<Rightarrow> http_response \<Rightarrow> response_writer \<Rightarrow> bool \<times> token_usage option \<times> response_writer" where
  "gemini_StreamResponse env r w0 =
     (if \<not> se_flusher env then (False, None, gemini_WriteError 500 ''streaming not supported'' w0)
      else
        (case copy_loop gemini_ParseJSONUsage env 0 (scan_lines (hr_body r))
                (None, write_header (hr_status r) (forward_headers (hr_headers r) w0)) of
           (completed, u, w) \<Rightarrow> (completed, u, flush w)))"

section \<open>Lines\<close>

lemma split_char_nonempty [simp]: "split_char d s \<noteq> []"
  by (induction d s rule: split_char.induct) (auto split: list.split)

lemma split_char_lines: "concat (map (\<lambda>l. l @ [d]) (split_char d s)) = s @ [d]"
  by (induction d s rule: split_char.induct) (auto split: list.split)

lemma split_char_set: "l \<in> set (split_char d s) \<Longrightarrow> set l \<subseteq> set s"
proof (induction d s arbitrary: l rule: split_char.induct)
  case (2 d c cs)
  then show ?case by (cases "c = d"; cases "split_char d cs") fastforce+
qed simp

lemma last_split_char: "last (split_char d s) = [] \<longleftrightarrow> s = [] \<or> last s = d"
proof (induction d s rule: split_char.induct)
  case (2 d c cs)
  then show ?case
    by (cases "split_char d cs"; cases cs) (auto split: list.splits if_splits)
qed simp

lemma raw_lines_terminated:
  assumes "s = [] \<or> last s = newline"
  shows "concat (map (\<lambda>l. l @ [newline]) (raw_lines s)) = s"
proof -
  let ?ls = "split_char newline s"
  from assms have l: "last ?ls = []" by (simp add: last_split_char)
  then obtain ks where ks: "?ls = ks @ [[]]" by (metis append_butlast_last_id split_char_nonempty)
  have "concat (map (\<lambda>l. l @ [newline]) (ks @ [[]])) = s @ [newline]"
    unfolding ks [symmetric] by (rule split_char_lines)
  then have "concat (map (\<lambda>l. l @ [newline]) ks) = s" by simp
  then show ?thesis by (simp add: raw_lines_def ks)
qed

lemma raw_lines_set: "l \<in> set (raw_lines s) \<Longrightarrow> set l \<subseteq> set s"
  using split_char_set [of l newline s] by (auto simp: raw_lines_def Let_def split: if_splits dest: in_set_butlastD)

lemma drop_cr_id: "CHR 0x0D \<notin> set l \<Longrightarrow> drop_cr l = l"
  unfolding drop_cr_def by (metis last_in_set)

lemma scan_lines_clean:
  assumes "s = [] \<or> last s = newline" "CHR 0x0D \<notin> set s" "\<forall>l \<in> set (raw_lines s). fits_line l"
  shows "concat (map (\<lambda>l. l @ [newline]) (scan_lines s)) = s"
proof -
  have "map drop_cr (raw_lines s) = raw_lines s"
    using assms(2) raw_lines_set [of _ s] by (intro map_idI drop_cr_id) blast
  moreover have "takeWhile fits_line (raw_lines s) = raw_lines s" using assms(3) by simp
  ultimately have "scan_lines s = raw_lines s" by (simp only: scan_lines_def)
  with raw_lines_terminated [OF assms(1)] show ?thesis by simp
qed

section \<open>What the loops deliver\<close>

definition undisturbed :: "stream_env \<Rightarrow> bool" where
  "undisturbed env \<longleftrightarrow> se_flusher env \<and> (\<forall>i. \<not> se_canceled env i \<and> \<not> se_write_fails env i)"

lemma relay_line_facts [simp]:
  "rw_sent w = Some h \<Longrightarrow> rw_sent (relay_line env i line w) = Some h"
  "\<not> se_write_fails env i \<Longrightarrow> rw_body (relay_line env i line w) = rw_body w @ line @ [newline]"
  by (auto simp: relay_line_def write_bytes_def flush_def write_header_def Let_def split: option.splits)

lemma claude_scan_line_writer [simp]: "cs_writer (claude_scan_line line s) = cs_writer s"
  by (simp add: claude_scan_line_def Let_def)

lemma claude_stream_loop_clean:
  "undisturbed env \<Longrightarrow> rw_sent (cs_writer s) = Some h \<Longrightarrow>
     fst (claude_stream_loop env i lines s)
     \<and> rw_sent (cs_writer (snd (claude_stream_loop env i lines s))) = Some h
     \<and> rw_body (cs_writer (snd (claude_stream_loop env i lines s)))
         = rw_body (cs_writer s) @ concat (map (\<lambda>l. l @ [newline]) lines)"
  by (induction env i lines s rule: claude_stream_loop.induct) (simp_all add: undisturbed_def)

lemma copy_loop_clean:
  "undisturbed env \<Longrightarrow> rw_sent (snd uw) = Some h \<Longrightarrow>
     fst (copy_loop parse env i lines uw)
     \<and> rw_sent (snd (snd (copy_loop parse env i lines uw))) = Some h
     \<and> rw_body (snd (snd (copy_loop parse env i lines uw)))
         = rw_body (snd uw) @ concat (map (\<lambda>l. l @ [newline]) lines)"
  by (induction parse env i lines uw rule: copy_loop.induct) (simp_all add: undisturbed_def)

lemma copy_loop_completes:
  "\<forall>i. \<not> se_canceled env i \<Longrightarrow> fst (copy_loop parse env i lines uw)"
  by (induction parse env i lines uw rule: copy_loop.induct) simp_all

lemma copy_loop_usage:
  "\<forall>i. \<not> se_canceled env i \<Longrightarrow>
     fst (snd (copy_loop parse env i lines uw)) = foldl (\<lambda>u l. data_usage parse l u) (fst uw) lines"
  by (induction parse env i lines uw rule: copy_loop.induct) simp_all

lemma flush_facts [simp]:
  "rw_body (flush w) = rw_body w"
  "rw_flushed (flush w) = length (rw_body w)"
  "rw_sent w = Some h \<Longrightarrow> rw_sent (flush w) = Some h"
  by (simp_all add: flush_def write_header_def split: option.split)

lemma write_header_new [simp]:
  "rw_sent (write_header st (set_header k v w)) = (case rw_sent w of None \<Rightarrow> Some (st, h_set k v (rw_header w)) | s \<Rightarrow> s)"
  "rw_body (write_header st w) = rw_body w"
  "rw_body (set_header k v w) = rw_body w"
  "rw_sent (set_header k v w) = rw_sent w"
  "rw_header (set_header k v w) = h_set k v (rw_header w)"
  by (simp_all add: write_header_def set_header_def split: option.split)

lemma forward_headers_facts [simp]:
  "rw_body (forward_headers h w) = rw_body w" "rw_sent (forward_headers h w) = rw_sent w"
  by (simp_all add: forward_headers_def)

end
