(* ===== verification/StreamProps.thy ===== *)
theory StreamProps
  imports Streams RelayAttempt
begin

text \<open>The properties of what the drivers write: relayed streams, the outcome that is logged, sanitized errors.\<close>

section \<open>Streams\<close>

definition relays_all :: "http_response \<Rightarrow> bool \<times> token_usage option \<times> response_writer \<Rightarrow> bool" where
  "relays_all r res \<longleftrightarrow>
     fst res \<and> rw_body (snd (snd res)) = hr_body r \<and> rw_flushed (snd (snd res)) = length (hr_body r)
     \<and> map_option fst (rw_sent (snd (snd res))) = Some (hr_status r)"

definition clean_stream :: "http_response \<Rightarrow> bool" where
  "clean_stream r \<longleftrightarrow>
     (hr_body r = [] \<or> last (hr_body r) = newline) \<and> CHR 0x0D \<notin> set (hr_body r) \<and> \<not> scan_failed r"

lemma clean_stream_lines:
  "clean_stream r \<Longrightarrow> concat (map (\<lambda>l. l @ [newline]) (scan_lines (hr_body r))) = hr_body r"
  unfolding clean_stream_def scan_failed_def by (intro scan_lines_clean) blast+

lemma write_header_fresh [simp]:
  "rw_sent w = None \<Longrightarrow> rw_sent (write_header st w) = Some (st, rw_header w)"
  by (simp add: write_header_def)

lemma new_writer_facts [simp]: "rw_sent new_writer = None" "rw_body new_writer = []"
  by (simp_all add: new_writer_def)

lemma copy_stream_relays:
  assumes "undisturbed env" "clean_stream r"
  shows "relays_all r (case copy_loop parse env 0 (scan_lines (hr_body r))
                (None, write_header (hr_status r) (forward_headers (hr_headers r) new_writer)) of
           (completed, u, w) \<Rightarrow> (completed, u, flush w))"
proof -
  define w where "w = write_header (hr_status r) (forward_headers (hr_headers r) new_writer)"
  have w: "rw_sent w = Some (hr_status r, rw_header (forward_headers (hr_headers r) new_writer))" "rw_body w = []"
    by (simp_all add: w_def)
  from copy_loop_clean [OF assms(1), of "(None, w)" _ parse 0 "scan_lines (hr_body r)"] w
    clean_stream_lines [OF assms(2)]
  show ?thesis unfolding w_def [symmetric] by (simp add: relays_all_def case_prod_beta)
qed

text \<open>C16: A complete event stream arrives as it was sent: if the client stays, every write succeeds, and the
  upstream body ends cleanly with a newline, has no carriage return and no line of a mebibyte, then each of the
  three drivers sends the status of the upstream, delivers exactly the upstream bytes, has flushed all of them
  when it returns, and reports the stream as complete.\<close>
theorem streams_relayed:
  assumes "undisturbed env" and "clean_stream r"
  shows "relays_all r (claude_StreamResponse env r new_writer)
     \<and> relays_all r (codex_StreamResponse env r new_writer)
     \<and> relays_all r (gemini_StreamResponse env r new_writer)"
proof (intro conjI)
  have fl: "se_flusher env" using assms(1) by (simp add: undisturbed_def)
  define w where "w = write_header (hr_status r)
     (set_header ''Connection'' ''keep-alive''
       (set_header ''Cache-Control'' ''no-cache'' (set_header ''Content-Type'' ''text/event-stream'' new_writer)))"
  have w: "\<exists>h. rw_sent w = Some (hr_status r, h)" "rw_body w = []" by (simp_all add: w_def)
  then obtain h where h: "rw_sent w = Some (hr_status r, h)" by blast
  have ok: "\<not> scan_failed r" using assms(2) by (simp add: clean_stream_def)
  from claude_stream_loop_clean [OF assms(1), of "\<lparr> cs_event = [], cs_usage = None, cs_writer = w \<rparr>" _ 0
      "scan_lines (hr_body r)"] h w(2) clean_stream_lines [OF assms(2)] ok fl
  show "relays_all r (claude_StreamResponse env r new_writer)"
    unfolding claude_StreamResponse_def w_def [symmetric] by (simp add: relays_all_def case_prod_beta Let_def)
  show "relays_all r (codex_StreamResponse env r new_writer)"
    using copy_stream_relays [OF assms, of parseCodexUsage] fl by (simp add: codex_StreamResponse_def)
  show "relays_all r (gemini_StreamResponse env r new_writer)"
    using copy_stream_relays [OF assms, of gemini_ParseJSONUsage] fl by (simp add: gemini_StreamResponse_def)
qed

definition sample_stream_env :: stream_env where
  "sample_stream_env = \<lparr> se_flusher = True, se_canceled = (\<lambda>_. False), se_write_fails = (\<lambda>_. False) \<rparr>"

definition sample_stream :: http_response where
  "sample_stream =
     \<lparr> hr_status = 200, hr_headers = [(''Content-Type'', [''text/event-stream''])],
       hr_body = ''event: ping'' @ [newline] @ ''data: {}'' @ [newline, newline], hr_end = EndOK \<rparr>"

lemma undisturbed_sample: "undisturbed sample_stream_env"
  by (simp add: undisturbed_def sample_stream_env_def)

lemma raw_lines_sample: "raw_lines (hr_body sample_stream) = [''event: ping'', ''data: {}'', []]"
  by (simp add: raw_lines_def sample_stream_def newline_def)

lemma clean_sample: "clean_stream sample_stream"
  unfolding clean_stream_def scan_failed_def raw_lines_sample
  by (simp add: sample_stream_def newline_def fits_line_def max_line_def)

theorem streams_relayed_witness:
  "relays_all sample_stream (claude_StreamResponse sample_stream_env sample_stream new_writer)
   \<and> relays_all sample_stream (codex_StreamResponse sample_stream_env sample_stream new_writer)
   \<and> relays_all sample_stream (gemini_StreamResponse sample_stream_env sample_stream new_writer)"
  using streams_relayed [OF undisturbed_sample clean_sample] by blast

text \<open>The log of a relayed stream.\<close>

definition logs_status :: "string \<Rightarrow> relay_action list \<Rightarrow> bool" where
  "logs_status st acts \<longleftrightarrow> (\<exists>entry. ActLog entry \<in> set acts \<and> rl_status entry = st)"

definition streamed :: "bool \<times> token_usage option \<times> response_writer \<Rightarrow> attempt_env \<Rightarrow> attempt_env" where
  "streamed res env = env\<lparr>ae_stream := (fst res, fst (snd res))\<rparr>"

lemma stream_accepted_log:
  assumes "ae_accept env = None"
  shows "logs_status (if fst res then ''ok'' else ''stream_incomplete'')
           (snd (snd (stream_accepted cfg drv pr (streamed res env) acct r s)))"
  using assms by (simp add: logs_status_def stream_accepted_def streamed_def log_success_def Let_def split: option.split)

text \<open>A broken upstream stream is noticed by the Claude driver only. If the upstream body ends in a read
  error, or a line is too long for the scanner, and the client stays, then the Claude driver reports the stream as
  incomplete and the relay logs stream_incomplete, while the Codex and the Gemini driver report it as
  complete and the relay logs ok.\<close>
theorem broken_streams_by_provider:
  assumes "undisturbed env" and "scan_failed r" and "ae_accept aenv = None"
  shows "logs_status ''stream_incomplete''
           (snd (snd (stream_accepted cfg drv pr (streamed (claude_StreamResponse env r w) aenv) acct r s)))
     \<and> logs_status ''ok''
           (snd (snd (stream_accepted cfg drv pr (streamed (codex_StreamResponse env r w) aenv) acct r s)))
     \<and> logs_status ''ok''
           (snd (snd (stream_accepted cfg drv pr (streamed (gemini_StreamResponse env r w) aenv) acct r s)))"
proof (intro conjI)
  note log = stream_accepted_log [OF assms(3), where cfg = cfg and drv = drv and pr = pr and acct = acct and r = r and s = s]
  from assms have fl: "se_flusher env" "\<forall>i. \<not> se_canceled env i" by (simp_all add: undisturbed_def)
  have "\<not> fst (claude_StreamResponse env r w)"
    using assms(2) fl by (simp add: claude_StreamResponse_def case_prod_beta Let_def)
  with log [of "claude_StreamResponse env r w"] show "logs_status ''stream_incomplete''
           (snd (snd (stream_accepted cfg drv pr (streamed (claude_StreamResponse env r w) aenv) acct r s)))" by simp
  have "fst (codex_StreamResponse env r w)"
    using fl copy_loop_completes [OF fl(2)] by (simp add: codex_StreamResponse_def case_prod_beta)
  with log [of "codex_StreamResponse env r w"]
  show "logs_status ''ok''
           (snd (snd (stream_accepted cfg drv pr (streamed (codex_StreamResponse env r w) aenv) acct r s)))" by simp
  have "fst (gemini_StreamResponse env r w)"
    using fl copy_loop_completes [OF fl(2)] by (simp add: gemini_StreamResponse_def case_prod_beta)
  with log [of "gemini_StreamResponse env r w"]
  show "logs_status ''ok''
           (snd (snd (stream_accepted cfg drv pr (streamed (gemini_StreamResponse env r w) aenv) acct r s)))" by simp
qed

definition sample_broken_stream :: http_response where
  "sample_broken_stream = sample_stream\<lparr>hr_end := EndError ''unexpected EOF''\<rparr>"

lemma sample_scan_failed: "scan_failed sample_broken_stream"
  by (simp add: scan_failed_def sample_broken_stream_def)

definition sample_stream_attempt :: attempt_env where
  "sample_stream_attempt =
     \<lparr> ae_now = 0, ae_duration_ms = 5, ae_route = Inl (RouteCanceled []), ae_token = Inr ''t'',
       ae_response = Inr sample_broken_stream, ae_reads = [], ae_accept = None, ae_stream = (True, None) \<rparr>"

theorem broken_streams_by_provider_witness:
  "\<forall>cfg drv pr acct s.
     logs_status ''stream_incomplete''
       (snd (snd (stream_accepted cfg drv pr
          (streamed (claude_StreamResponse sample_stream_env sample_broken_stream new_writer) sample_stream_attempt)
          acct sample_broken_stream s)))
     \<and> logs_status ''ok''
       (snd (snd (stream_accepted cfg drv pr
          (streamed (codex_StreamResponse sample_stream_env sample_broken_stream new_writer) sample_stream_attempt)
          acct sample_broken_stream s)))"
  using broken_streams_by_provider [OF undisturbed_sample sample_scan_failed, of sample_stream_attempt]
  by (simp add: sample_stream_attempt_def)

section \<open>Errors of Claude\<close>

lemma parse_buildClaudeErrorJSON: "parseClaudeErrorInfo (buildClaudeErrorJSON t m) = (t, m)"
proof -
  let ?j = "JObj [(''type'', JStr ''error''), (''error'', JObj [(''type'', JStr t), (''message'', JStr m)])]"
  have ok: "json_ok ?j" by simp
  have ne: "to_lower ''type'' \<noteq> to_lower ''error''" by code_simp
  show ?thesis
    unfolding parseClaudeErrorInfo_def buildClaudeErrorJSON_def unmarshal_ok_def unmarshal_print [OF ok]
    by (simp add: claude_error_envelope_def decode_member_def find_field_def struct_field_def ne)
qed

text \<open>Of an upstream error body of Claude, a client sees the error type and message and nothing else: the
  body that is written depends only on them (a body without a type becomes a fixed error), it parses to them, and
  sanitizing it again changes nothing; the status is passed on.\<close>
theorem claude_errors_sanitized:
  "sanitizeClaudeError status body =
     (status, (if fst (parseClaudeErrorInfo body) = []
               then buildClaudeErrorJSON ''api_error'' ''unexpected upstream error''
               else buildClaudeErrorJSON (fst (parseClaudeErrorInfo body)) (snd (parseClaudeErrorInfo body))))
   \<and> parseClaudeErrorInfo (sanitizeClaudeErrorJSON status body) =
       (if fst (parseClaudeErrorInfo body) = [] then (''api_error'', ''unexpected upstream error'')
        else parseClaudeErrorInfo body)
   \<and> sanitizeClaudeErrorJSON status (sanitizeClaudeErrorJSON status body) = sanitizeClaudeErrorJSON status body"
  by (simp add: sanitizeClaudeErrorJSON_def sanitizeClaudeError_def case_prod_beta parse_buildClaudeErrorJSON)

end
