(* ===== verification/Access.thy ===== *)
theory Access
  imports Streams RelayRequest Crypto Store Pool
begin

text \<open>
  Who may do what: authentication by token (src/internal/auth/auth.go), the surface and the admin gate
  (surface_auth.go, admin_auth.go), the routes they guard (server_routes.go) and the administration of
  users (admin_users.go).  SHA-256, the random bytes and the UUID are parameters.
\<close>

record http_request =
  hq_headers :: header
  hq_cookies :: "(string \<times> string) list"
  hq_body :: string

section \<open>Authentication\<close>

definition extractToken :: "http_request \<Rightarrow> string" where
  "extractToken r =
     (let key = h_get (hq_headers r) ''x-api-key'';
          authz = h_get (hq_headers r) ''Authorization''
      in if key \<noteq> [] then key
         else if has_prefix authz ''Bearer '' then drop 7 authz
         else (case map_of (hq_cookies r) ''cc_session'' of Some v \<Rightarrow> v | None \<Rightarrow> []))"

definition admin_key_info :: key_info where
  "admin_key_info =
     \<lparr> ki_id = ''admin'', ki_name = ''admin'', ki_allowed_surface = SurfaceAll, ki_bound_account = [],
       ki_is_admin = True \<rparr>"

definition token_hash :: "(string \<Rightarrow> string) \<Rightarrow> string \<Rightarrow> string" where
  "token_hash sha256 token = hex_encode (sha256 token)"

definition user_key_info :: "user \<Rightarrow> key_info" where
  "user_key_info u =
     \<lparr> ki_id = us_id u, ki_name = us_name u,
       ki_allowed_surface = (if us_allowed_surface u = [] then SurfaceNative else us_allowed_surface u),
       ki_bound_account = us_bound_account_id u, ki_is_admin = False \<rparr>"

text \<open>
  The result, or the error text; \<open>lookup\<close> is the answer of the store for a token hash.  A user who is
  let in is marked active later, by a goroutine (\<open>UpdateUserLastActive\<close>).
\<close>

definition validateToken ::
  "(string \<Rightarrow> string) \<Rightarrow> string \<Rightarrow> (string \<Rightarrow> err + user option) \<Rightarrow> string \<Rightarrow> string + key_info" where
  "validateToken sha256 adminToken lookup token =
     (if token = adminToken then Inr admin_key_info
      else (case lookup (token_hash sha256 token) of
              Inl e \<Rightarrow> Inl (''token lookup failed: '' @ e)
            | Inr None \<Rightarrow> Inl ''invalid API key''
            | Inr (Some u) \<Rightarrow>
                (if us_status u \<noteq> ''active'' then Inl (''user '' @ us_name u @ '' is '' @ us_status u)
                 else Inr (user_key_info u))))"

section \<open>Gates and routes\<close>

text \<open>What a gate does with a request: pass it on with the key, or answer with status, error type and text.\<close>

datatype gate = Passed "key_info option" | Refused int string string

definition Authenticate ::
  "(string \<Rightarrow> string) \<Rightarrow> string \<Rightarrow> (string \<Rightarrow> err + user option) \<Rightarrow> http_request \<Rightarrow> gate" where
  "Authenticate sha256 adminToken lookup r =
     (let token = extractToken r in
      if token = [] then Refused 401 ''authentication_error'' ''missing or invalid API key''
      else (case validateToken sha256 adminToken lookup token of
              Inl e \<Rightarrow> Refused 401 ''authentication_error'' e
            | Inr ki \<Rightarrow> Passed (Some ki)))"

definition requireSurface :: "surface \<Rightarrow> key_info option \<Rightarrow> gate" where
  "requireSurface surface oki =
     (case oki of
        None \<Rightarrow> Refused 401 ''forbidden'' ''missing authentication context''
      | Some ki \<Rightarrow>
          (if ki_is_admin ki \<or> AllowsSurface (ki_allowed_surface ki) surface then Passed oki
           else Refused 403 ''forbidden'' (''API key cannot access the '' @ surface @ '' surface'')))"

definition requireAdmin :: "key_info option \<Rightarrow> gate" where
  "requireAdmin oki =
     (case oki of
        Some ki \<Rightarrow> (if ki_is_admin ki then Passed oki else Refused 403 ''forbidden'' ''admin access required'')
      | None \<Rightarrow> Refused 403 ''forbidden'' ''admin access required'')"

definition then_gate :: "gate \<Rightarrow> (key_info option \<Rightarrow> gate) \<Rightarrow> gate" where
  "then_gate g next = (case g of Passed oki \<Rightarrow> next oki | Refused st t m \<Rightarrow> Refused st t m)"

datatype guard = Public | SurfaceOnly surface | AdminOnly

definition guarded ::
  "(string \<Rightarrow> string) \<Rightarrow> string \<Rightarrow> (string \<Rightarrow> err + user option) \<Rightarrow> guard \<Rightarrow> http_request \<Rightarrow> gate" where
  "guarded sha256 adminToken lookup g r =
     (case g of
        Public \<Rightarrow> Passed None
      | SurfaceOnly surface \<Rightarrow> then_gate (Authenticate sha256 adminToken lookup r) (requireSurface surface)
      | AdminOnly \<Rightarrow> then_gate (Authenticate sha256 adminToken lookup r) requireAdmin)"

record route =
  rt_method :: string
  rt_pattern :: string
  rt_guard :: guard

definition on :: "guard \<Rightarrow> string \<times> string \<Rightarrow> route" where
  "on g mp = \<lparr> rt_method = fst mp, rt_pattern = snd mp, rt_guard = g \<rparr>"

text \<open>The paths of the descriptors of the drivers.\<close>

definition RelayPaths :: "provider \<Rightarrow> string list" where
  "RelayPaths p =
     (if p = ProviderClaude then [''/v1/messages'', ''/v1/messages/count_tokens'']
      else if p = ProviderCodex then [''/openai/responses'', ''/openai/v1/responses'']
      else if p = ProviderGemini then [''/gemini/{path...}''] else [])"

definition registerRelayRoutes :: "provider list \<Rightarrow> route list" where
  "registerRelayRoutes providers =
     [on (SurfaceOnly SurfaceNative) (''GET'', ''/v1/models''),
      on (SurfaceOnly SurfaceCompat) (''GET'', ''/compat/v1/models''),
      on (SurfaceOnly SurfaceCompat) (''POST'', ''/compat/v1/chat/completions'')]
     @ concat (map (\<lambda>p. map (\<lambda>path. on (SurfaceOnly SurfaceNative) (''POST'', path)) (RelayPaths p))
         (sort providers))"

definition registerAdminRoutes :: "route list" where
  "registerAdminRoutes =
     map (on AdminOnly)
       [(''GET'', ''/admin/providers''), (''POST'', ''/admin/accounts/generate-auth-url''),
        (''POST'', ''/admin/accounts/exchange-code''), (''GET'', ''/admin/accounts''),
        (''GET'', ''/admin/accounts/{id}''), (''DELETE'', ''/admin/accounts/{id}''),
        (''POST'', ''/admin/accounts/{id}/email''), (''POST'', ''/admin/accounts/{id}/status''),
        (''POST'', ''/admin/accounts/{id}/weight''), (''POST'', ''/admin/accounts/{id}/cell''),
        (''POST'', ''/admin/accounts/{id}/refresh''), (''POST'', ''/admin/accounts/{id}/test''),
        (''GET'', ''/admin/egress/cells''), (''POST'', ''/admin/egress/cells''),
        (''POST'', ''/admin/egress/cells/test-proxy''), (''POST'', ''/admin/egress/cells/{id}/clear-cooldown''),
        (''POST'', ''/admin/egress/cells/{id}/test''), (''DELETE'', ''/admin/events'')]
     @ [on Public (''POST'', ''/admin/login'')]
     @ map (on AdminOnly)
       [(''POST'', ''/admin/users''), (''GET'', ''/admin/users''), (''GET'', ''/admin/users/total-costs''),
        (''GET'', ''/admin/users/{id}''), (''DELETE'', ''/admin/users/{id}''),
        (''POST'', ''/admin/users/{id}/regenerate''), (''POST'', ''/admin/users/{id}/status''),
        (''POST'', ''/admin/users/{id}/policy''), (''GET'', ''/admin/activity''),
        (''GET'', ''/admin/activity/usage''), (''GET'', ''/admin/spend''), (''GET'', ''/admin/dashboard''),
        (''GET'', ''/admin/health''), (''DELETE'', ''/admin/sessions/binding/{uuid}'')]"

definition registerOperationalRoutes :: "route list" where
  "registerOperationalRoutes =
     map (on Public) [(''POST'', ''/api/event_logging/batch''), (''GET'', ''/api/status''), (''GET'', ''/health'')]"

text \<open>Without the static files of the user interface.\<close>

definition registerRoutes :: "provider list \<Rightarrow> route list" where
  "registerRoutes providers = registerRelayRoutes providers @ registerAdminRoutes @ registerOperationalRoutes"

section \<open>Answers\<close>

text \<open>The error writers print the text as it is, without escaping it.\<close>

definition plain_error :: "string \<Rightarrow> string \<Rightarrow> string" where
  "plain_error errType msg =
     ''{\"type\":\"error\",\"error\":{\"type\":\"'' @ errType @ ''\",\"message\":\"'' @ msg @ ''\"}}''"

definition writeAdminError :: "int \<Rightarrow> string \<Rightarrow> string \<Rightarrow> response_writer \<Rightarrow> response_writer" where
  "writeAdminError status errType msg = write_raw status ''application/json'' (plain_error errType msg)"

definition writeJSON :: "int \<Rightarrow> json \<Rightarrow> response_writer \<Rightarrow> response_writer" where
  "writeJSON status v = write_raw status ''application/json'' (json_print v @ [newline])"

datatype answer = AnswerJSON int json | AnswerError int string string

definition write_answer :: "answer \<Rightarrow> response_writer \<Rightarrow> response_writer" where
  "write_answer a = (case a of AnswerJSON st v \<Rightarrow> writeJSON st v | AnswerError st t m \<Rightarrow> writeAdminError st t m)"

text \<open>\<open>json.NewDecoder(r.Body).Decode\<close> reads the first value and ignores what follows it.\<close>

definition decode_body :: "(string \<times> 's field) list \<Rightarrow> string \<Rightarrow> 's \<Rightarrow> 's option" where
  "decode_body fs body s =
     (case parse_value (2 * length body + 1) body of
        None \<Rightarrow> None
      | Some (v, _) \<Rightarrow> (case decode_struct fs v (s, True) of (s', ok) \<Rightarrow> if ok then Some s' else None))"

section \<open>Users\<close>

record user_request =
  uq_name :: string
  uq_surface :: string
  uq_bound :: string
  uq_status :: string

definition empty_user_request :: user_request where
  "empty_user_request = \<lparr> uq_name = [], uq_surface = [], uq_bound = [], uq_status = [] \<rparr>"

definition policy_request_fields :: "(string \<times> user_request field) list" where
  "policy_request_fields =
     [(''allowed_surface'', string_field (\<lambda>x q. q\<lparr>uq_surface := x\<rparr>)),
      (''bound_account_id'', string_field (\<lambda>x q. q\<lparr>uq_bound := x\<rparr>))]"

definition parseUserAllowedSurface :: "string \<Rightarrow> string + surface" where
  "parseUserAllowedSurface raw =
     (if raw = [] then Inr SurfaceNative
      else (let s = NormalizeSurface raw in
            if s = SurfaceNative \<or> s = SurfaceCompat \<or> s = SurfaceAll then Inr s
            else Inl (''allowed_surface must be 'native', 'compat', or 'all'' @ [CHR 0x27])))"

text \<open>\<open>known\<close> says which accounts the pool finds, \<open>email\<close> is the address of a found one.\<close>

definition validateUserBoundAccount :: "(string \<Rightarrow> account option) \<Rightarrow> string \<Rightarrow> string option" where
  "validateUserBoundAccount pool_get i =
     (if i = [] then None else if pool_get i = None then Some ''bound_account_id not found'' else None)"

definition boundAccountEmail :: "(string \<Rightarrow> account option) \<Rightarrow> string \<Rightarrow> string" where
  "boundAccountEmail pool_get i =
     (if i = [] then [] else (case pool_get i of None \<Rightarrow> [] | Some a \<Rightarrow> ac_email a))"

text \<open>The plain token, its hash and its prefix; \<open>None\<close>: no random bytes.\<close>

definition generateUserToken ::
  "(string \<Rightarrow> string) \<Rightarrow> string option \<Rightarrow> string \<Rightarrow> (string \<times> string \<times> string) option" where
  "generateUserToken sha256 random name =
     map_option
       (\<lambda>b. let hx = hex_encode b; plain = ''tk_'' @ name @ ''_'' @ hx
            in (plain, token_hash sha256 plain, ''tk_'' @ name @ ''_'' @ take 4 hx @ ''...''))
       random"

definition omit_blank :: "string \<Rightarrow> string \<Rightarrow> (string \<times> json) list" where
  "omit_blank k v = (if v = [] then [] else [(k, JStr v)])"

definition new_user :: "gotime \<Rightarrow> string \<Rightarrow> user_request \<Rightarrow> surface \<Rightarrow> string \<Rightarrow> string \<Rightarrow> user" where
  "new_user now uid q surface hash prefix =
     \<lparr> us_id = uid, us_name = uq_name q, us_token_hash = hash, us_token_prefix = prefix, us_status = ''active'',
       us_allowed_surface = surface, us_bound_account_id = uq_bound q, us_created_at = now,
       us_last_active_at = None \<rparr>"

definition handleCreateUser ::
  "(string \<Rightarrow> string) \<Rightarrow> (string \<Rightarrow> account option) \<Rightarrow> gotime \<Rightarrow> string \<Rightarrow> string option \<Rightarrow> string \<Rightarrow> store
   \<Rightarrow> answer \<times> store" where
  "handleCreateUser sha256 pool_get now uid random body st =
     (case decode_body ((''name'', string_field (\<lambda>x q. q\<lparr>uq_name := x\<rparr>)) # policy_request_fields) body
             empty_user_request of
        None \<Rightarrow> (AnswerError 400 ''invalid_request'' ''name is required'', st)
      | Some q \<Rightarrow>
          (if uq_name q = [] then (AnswerError 400 ''invalid_request'' ''name is required'', st)
           else (case parseUserAllowedSurface (uq_surface q) of
              Inl e \<Rightarrow> (AnswerError 400 ''invalid_request'' e, st)
            | Inr surface \<Rightarrow>
                (case validateUserBoundAccount pool_get (uq_bound q) of
                   Some e \<Rightarrow> (AnswerError 400 ''invalid_request'' e, st)
                 | None \<Rightarrow>
                     (case generateUserToken sha256 random (uq_name q) of
                        None \<Rightarrow> (AnswerError 500 ''internal_error'' ''failed to generate token'', st)
                      | Some (plain, hash, prefix) \<Rightarrow>
                          (case CreateUser (new_user now uid q surface hash prefix) st of
                             (Some e, st') \<Rightarrow> (AnswerError 500 ''internal_error'' ''failed to create user'', st')
                           | (None, st') \<Rightarrow>
                               (AnswerJSON 200 (JObj
                                  ([(''id'', JStr uid), (''name'', JStr (uq_name q)), (''token'', JStr plain),
                                    (''allowed_surface'', JStr surface)]
                                   @ omit_blank ''bound_account_id'' (uq_bound q)
                                   @ omit_blank ''bound_account_email'' (boundAccountEmail pool_get (uq_bound q)))),
                                st')))))))"

text \<open>The answer to an update by the error of the store.\<close>

definition update_answer :: "string \<Rightarrow> json \<Rightarrow> err option \<Rightarrow> answer" where
  "update_answer failure v oe =
     (case oe of
        None \<Rightarrow> AnswerJSON 200 v
      | Some e \<Rightarrow> (if e = ErrNotFound then AnswerError 404 ''not_found'' ''user not found''
                   else AnswerError 500 ''internal_error'' failure))"

definition handleDeleteUser :: "string \<Rightarrow> store \<Rightarrow> answer \<times> store" where
  "handleDeleteUser i st =
     (case DeleteUser i st of
        (oe, st') \<Rightarrow> (update_answer ''failed to delete user'' (JObj [(''deleted'', JStr i)]) oe, st'))"

definition handleRegenerateUserToken ::
  "(string \<Rightarrow> string) \<Rightarrow> string list \<Rightarrow> string option \<Rightarrow> string \<Rightarrow> store \<Rightarrow> answer \<times> store" where
  "handleRegenerateUserToken sha256 ord random i st =
     (case List.find (\<lambda>u. us_id u = i) (ListUsers ord st) of
        None \<Rightarrow> (AnswerError 404 ''not_found'' ''user not found'', st)
      | Some u \<Rightarrow>
          (if us_name u = [] then (AnswerError 404 ''not_found'' ''user not found'', st)
           else (case generateUserToken sha256 random (us_name u) of
                   None \<Rightarrow> (AnswerError 500 ''internal_error'' ''failed to generate token'', st)
                 | Some (plain, hash, prefix) \<Rightarrow>
                     (case UpdateUserToken i hash prefix st of
                        (oe, st') \<Rightarrow>
                          (update_answer ''failed to update token''
                             (JObj [(''id'', JStr i), (''token'', JStr plain)]) oe, st')))))"

definition handleUpdateUserStatus :: "string \<Rightarrow> string \<Rightarrow> store \<Rightarrow> answer \<times> store" where
  "handleUpdateUserStatus i body st =
     (case decode_body [(''status'', string_field (\<lambda>x q. q\<lparr>uq_status := x\<rparr>))] body empty_user_request of
        None \<Rightarrow> (AnswerError 400 ''invalid_request'' (''status must be 'active' or 'disabled'' @ [CHR 0x27]), st)
      | Some q \<Rightarrow>
          (if uq_status q \<noteq> ''active'' \<and> uq_status q \<noteq> ''disabled''
           then (AnswerError 400 ''invalid_request'' (''status must be 'active' or 'disabled'' @ [CHR 0x27]), st)
           else (case UpdateUserStatus i (uq_status q) st of
                   (oe, st') \<Rightarrow>
                     (update_answer ''failed to update user status''
                        (JObj [(''id'', JStr i), (''status'', JStr (uq_status q))]) oe, st'))))"

definition handleUpdateUserPolicy ::
  "(string \<Rightarrow> account option) \<Rightarrow> string \<Rightarrow> string \<Rightarrow> store \<Rightarrow> answer \<times> store" where
  "handleUpdateUserPolicy pool_get i body st =
     (case decode_body policy_request_fields body empty_user_request of
        None \<Rightarrow> (AnswerError 400 ''invalid_request'' ''invalid JSON body'', st)
      | Some q \<Rightarrow>
          (case parseUserAllowedSurface (uq_surface q) of
             Inl e \<Rightarrow> (AnswerError 400 ''invalid_request'' e, st)
           | Inr surface \<Rightarrow>
               (case validateUserBoundAccount pool_get (uq_bound q) of
                  Some e \<Rightarrow> (AnswerError 400 ''invalid_request'' e, st)
                | None \<Rightarrow>
                    (case UpdateUserPolicy i surface (uq_bound q) st of
                       (oe, st') \<Rightarrow>
                         (update_answer ''failed to update user policy''
                            (JObj ([(''id'', JStr i), (''allowed_surface'', JStr surface)]
                               @ omit_blank ''bound_account_id'' (uq_bound q)
                               @ omit_blank ''bound_account_email'' (boundAccountEmail pool_get (uq_bound q)))) oe,
                          st')))))"

section \<open>Login\<close>

definition handleLogin ::
  "(string \<Rightarrow> string) \<Rightarrow> string \<Rightarrow> (string \<Rightarrow> err + user option) \<Rightarrow> string \<Rightarrow> answer \<times> string option" where
  "handleLogin sha256 adminToken lookup body =
     (case decode_body [(''token'', string_field (\<lambda>x _. x))] body [] of
        None \<Rightarrow> (AnswerError 400 ''invalid_request'' ''token is required'', None)
      | Some token \<Rightarrow>
          (if token = [] then (AnswerError 400 ''invalid_request'' ''token is required'', None)
           else (case validateToken sha256 adminToken lookup token of
                   Inl _ \<Rightarrow> (AnswerError 401 ''authentication_error'' ''invalid token'', None)
                 | Inr ki \<Rightarrow>
                     (AnswerJSON 200 (JObj [(''status'', JStr ''ok''), (''is_admin'', JBool (ki_is_admin ki)),
                        (''name'', JStr (ki_name ki))]), Some token))))"

definition parseCSVQuery :: "string \<Rightarrow> string list" where
  "parseCSVQuery raw =
     (if raw = [] then []
      else foldl (\<lambda>res part. let v = trim_space part in if v = [] \<or> v \<in> set res then res else res @ [v]) []
             (split_char (CHR '','') raw))"

end
