(* ===== verification/AccessProps.thy ===== *)
theory AccessProps
  imports Access
begin

text \<open>The properties of access control: guarded routes, issued and revoked tokens, policies.\<close>

section \<open>The table of users\<close>

definition users_wf :: "store \<Rightarrow> bool" where
  "users_wf s \<longleftrightarrow>
     finite (dom (s_users s))
     \<and> (\<forall>k u. s_users s k = Some u \<longrightarrow> us_id u = k)
     \<and> (\<forall>k l u v. s_users s k = Some u \<longrightarrow> s_users s l = Some v \<longrightarrow> us_token_hash u = us_token_hash v \<longrightarrow> k = l)"

text \<open>The lookup that the store gives to the authentication, with the order of its map loop.\<close>

definition store_lookup :: "(store \<Rightarrow> string list) \<Rightarrow> store \<Rightarrow> string \<Rightarrow> err + user option" where
  "store_lookup ord s h = Inr (GetUserByTokenHash (ord s) h s)"

definition ranges_users :: "(store \<Rightarrow> string list) \<Rightarrow> bool" where
  "ranges_users ord \<longleftrightarrow> (\<forall>s. finite (dom (s_users s)) \<longrightarrow> ranges (s_users s) (ord s))"

definition session ::
  "(string \<Rightarrow> string) \<Rightarrow> string \<Rightarrow> (store \<Rightarrow> string list) \<Rightarrow> store \<Rightarrow> string \<Rightarrow> string + key_info" where
  "session sha256 adm ord s token = validateToken sha256 adm (store_lookup ord s) token"

lemma get_user_iff:
  assumes "users_wf s" "ranges (s_users s) ord"
  shows "GetUserByTokenHash ord h s = Some u \<longleftrightarrow> (\<exists>k. s_users s k = Some u \<and> us_token_hash u = h)"
proof
  assume "GetUserByTokenHash ord h s = Some u"
  then have "u \<in> set (entries (s_users s) ord) \<and> us_token_hash u = h"
    by (auto simp: GetUserByTokenHash_def find_Some_iff)
  then show "\<exists>k. s_users s k = Some u \<and> us_token_hash u = h" by (auto simp: set_entries)
next
  assume "\<exists>k. s_users s k = Some u \<and> us_token_hash u = h"
  then obtain k where k: "s_users s k = Some u" "us_token_hash u = h" by blast
  have "u \<in> set (entries (s_users s) ord)" using k(1) set_entries_ranges [OF assms(2)] by (auto simp: ran_def)
  then have "GetUserByTokenHash ord h s \<noteq> None" using k(2) by (auto simp: GetUserByTokenHash_def find_None_iff)
  then obtain v where v: "GetUserByTokenHash ord h s = Some v" by blast
  then have "v \<in> set (entries (s_users s) ord)" "us_token_hash v = h"
    by (auto simp: GetUserByTokenHash_def find_Some_iff)
  then obtain l where l: "s_users s l = Some v" "us_token_hash v = h" by (auto simp: set_entries)
  have "k = l" using assms(1) k l unfolding users_wf_def by metis
  then show "GetUserByTokenHash ord h s = Some u" using v k l by simp
qed

lemma get_user_None:
  assumes "users_wf s" "ranges (s_users s) ord" "\<forall>k u. s_users s k = Some u \<longrightarrow> us_token_hash u \<noteq> h"
  shows "GetUserByTokenHash ord h s = None"
  using get_user_iff [OF assms(1,2), of h] assms(3) by (cases "GetUserByTokenHash ord h s") auto

text \<open>An update of one user, as the operations of the store that change a user promise it.\<close>

locale user_update =
  fixes upd :: "string \<Rightarrow> store \<Rightarrow> err option \<times> store" and f :: "user \<Rightarrow> user"
  assumes found: "s_users s i = Some u \<Longrightarrow> upd i s = (None, s\<lparr>s_users := (s_users s)(i \<mapsto> f u)\<rparr>)"
    and missing: "s_users s i = None \<Longrightarrow> upd i s = (Some ErrNotFound, s)"
    and same_id: "us_id (f u) = us_id u"
begin

lemma users_after: "s_users (snd (upd i s)) = (s_users s)(i := map_option f (s_users s i))"
  by (cases "s_users s i") (simp_all add: found missing fun_upd_idem)

lemma ok_iff: "fst (upd i s) = None \<longleftrightarrow> s_users s i \<noteq> None"
  by (cases "s_users s i") (simp_all add: found missing)

lemma keeps_wf:
  assumes "users_wf s"
    and "\<And>u k v. s_users s i = Some u \<Longrightarrow> s_users s k = Some v \<Longrightarrow> k \<noteq> i \<Longrightarrow> us_token_hash (f u) \<noteq> us_token_hash v"
  shows "users_wf (snd (upd i s))"
proof -
  have "us_id u = k" if "s_users (snd (upd i s)) k = Some u" for k u
    using that assms(1) by (auto simp: users_after users_wf_def same_id split: if_splits)
  moreover have "k = l" if "s_users (snd (upd i s)) k = Some u" "s_users (snd (upd i s)) l = Some v"
      "us_token_hash u = us_token_hash v" for k l u v
    using that assms unfolding users_after users_wf_def by (auto split: if_splits) metis+
  moreover have "dom (s_users (snd (upd i s))) \<subseteq> insert i (dom (s_users s))"
    by (auto simp: users_after split: if_splits)
  then have "finite (dom (s_users (snd (upd i s))))"
    using assms(1) by (auto simp: users_wf_def intro: finite_subset)
  ultimately show ?thesis unfolding users_wf_def by blast
qed

lemma keeps_wf_hash:
  assumes wf: "users_wf s" and hash: "\<And>u. us_token_hash (f u) = us_token_hash u"
  shows "users_wf (snd (upd i s))"
proof (rule keeps_wf [OF wf])
  fix u k v assume "s_users s i = Some u" "s_users s k = Some v" "k \<noteq> i"
  with wf show "us_token_hash (f u) \<noteq> us_token_hash v" unfolding hash users_wf_def by metis
qed

end

interpretation status: user_update "\<lambda>i. UpdateUserStatus i st" "\<lambda>u. u\<lparr>us_status := st\<rparr>"
  by unfold_locales (simp_all add: UpdateUserStatus_def)

interpretation token: user_update "\<lambda>i. UpdateUserToken i h p" "\<lambda>u. u\<lparr>us_token_hash := h, us_token_prefix := p\<rparr>"
  by unfold_locales (simp_all add: UpdateUserToken_def)

interpretation policy: user_update "\<lambda>i. UpdateUserPolicy i al b"
  "\<lambda>u. u\<lparr>us_allowed_surface := (if al = [] then SurfaceNative else al), us_bound_account_id := b\<rparr>"
  by unfold_locales (simp_all add: UpdateUserPolicy_def)

lemma users_after_delete: "s_users (snd (DeleteUser i s)) = (s_users s)(i := None)"
  by (simp add: DeleteUser_def fun_upd_idem)

lemma users_wf_delete: "users_wf s \<Longrightarrow> users_wf (snd (DeleteUser i s))"
  by (auto simp: users_wf_def users_after_delete split: if_splits)

section \<open>Routes\<close>

lemma authenticated:
  assumes "Authenticate sha256 adm lookup r = Passed oki"
  shows "\<exists>ki. oki = Some ki \<and> extractToken r \<noteq> []
    \<and> validateToken sha256 adm lookup (extractToken r) = Inr ki"
  using assms by (auto simp: Authenticate_def Let_def split: if_splits sum.splits)

lemma validated:
  assumes "validateToken sha256 adm lookup token = Inr ki"
  shows "(token = adm \<and> ki = admin_key_info)
    \<or> (\<exists>u. lookup (token_hash sha256 token) = Inr (Some u) \<and> us_status u = ''active'' \<and> ki = user_key_info u)"
  using assms by (auto simp: validateToken_def split: if_splits sum.splits option.splits)

lemma guard_cases:
  assumes "guarded sha256 adm lookup g r = Passed oki" "g \<noteq> Public"
  shows "\<exists>ki. oki = Some ki \<and> extractToken r \<noteq> []
    \<and> (extractToken r = adm \<and> ki = admin_key_info
       \<or> (\<exists>u. lookup (token_hash sha256 (extractToken r)) = Inr (Some u) \<and> us_status u = ''active''
            \<and> ki = user_key_info u \<and> (\<exists>sf. g = SurfaceOnly sf \<and> AllowsSurface (ki_allowed_surface ki) sf)))"
proof -
  obtain oki' where a: "Authenticate sha256 adm lookup r = Passed oki'"
    using assms by (auto simp: guarded_def then_gate_def split: guard.splits gate.splits)
  from authenticated [OF a] obtain ki where ki: "oki' = Some ki" "extractToken r \<noteq> []"
      "validateToken sha256 adm lookup (extractToken r) = Inr ki" by blast
  have "oki = Some ki \<and> (ki_is_admin ki \<or> (\<exists>sf. g = SurfaceOnly sf \<and> AllowsSurface (ki_allowed_surface ki) sf))"
    using assms a ki(1)
    by (auto simp: guarded_def then_gate_def requireSurface_def requireAdmin_def split: guard.splits if_splits)
  with validated [OF ki(3)] ki(2) show ?thesis by (auto simp: user_key_info_def)
qed

definition relay_pattern :: "string \<Rightarrow> bool" where
  "relay_pattern p \<longleftrightarrow> (\<exists>pre \<in> {''/v1/'', ''/compat/'', ''/openai/'', ''/gemini/''}. has_prefix p pre)"

definition admin_pattern :: "string \<Rightarrow> bool" where
  "admin_pattern p \<longleftrightarrow> has_prefix p ''/admin/'' \<and> p \<noteq> ''/admin/login''"

definition route_guard_ok :: "route \<Rightarrow> bool" where
  "route_guard_ok rt \<longleftrightarrow>
     (admin_pattern (rt_pattern rt) \<longrightarrow> rt_guard rt = AdminOnly)
     \<and> (relay_pattern (rt_pattern rt) \<longrightarrow>
          rt_guard rt = SurfaceOnly (if has_prefix (rt_pattern rt) ''/compat/'' then SurfaceCompat else SurfaceNative))"

lemma route_guards: "list_all route_guard_ok (registerRoutes providers)"
proof -
  have "list_all route_guard_ok (map (\<lambda>path. on (SurfaceOnly SurfaceNative) (''POST'', path)) (RelayPaths p))" for p
    by (simp add: RelayPaths_def route_guard_ok_def on_def admin_pattern_def has_prefix_def)
  then have "list_all route_guard_ok
      (concat (map (\<lambda>p. map (\<lambda>path. on (SurfaceOnly SurfaceNative) (''POST'', path)) (RelayPaths p)) (sort providers)))"
    by (auto simp: list_all_iff)
  moreover have "list_all route_guard_ok registerAdminRoutes"
    by (simp add: registerAdminRoutes_def route_guard_ok_def on_def admin_pattern_def relay_pattern_def has_prefix_def)
  ultimately show ?thesis
    by (simp add: registerRoutes_def registerRelayRoutes_def registerOperationalRoutes_def route_guard_ok_def
        on_def admin_pattern_def relay_pattern_def has_prefix_def)
qed

text \<open>C29: Every route is guarded. Whatever drivers are registered, a request reaches the handler of a route under
  /admin/ (the login apart) only with the admin token, and the handler of a relay or compat route only with
  the admin token or with the token of a user who is active and whose allowed surface covers the surface of that
  route; the handler then sees the key of exactly this user.\<close>
theorem routes_guarded:
  assumes "rt \<in> set (registerRoutes providers)" and "guarded sha256 adm lookup (rt_guard rt) r = Passed oki"
  shows "(admin_pattern (rt_pattern rt) \<longrightarrow> extractToken r = adm \<and> extractToken r \<noteq> [] \<and> oki = Some admin_key_info)
    \<and> (relay_pattern (rt_pattern rt) \<longrightarrow>
         (\<exists>ki. oki = Some ki \<and> extractToken r \<noteq> []
           \<and> (extractToken r = adm \<and> ki = admin_key_info
              \<or> (\<exists>u. lookup (token_hash sha256 (extractToken r)) = Inr (Some u) \<and> us_status u = ''active''
                   \<and> ki = user_key_info u
                   \<and> AllowsSurface (ki_allowed_surface ki)
                       (if has_prefix (rt_pattern rt) ''/compat/'' then SurfaceCompat else SurfaceNative)))))"
proof -
  have "route_guard_ok rt" using route_guards [of providers] assms(1) by (simp add: list_all_iff)
  then show ?thesis
    using guard_cases [OF assms(2)] by (auto simp: route_guard_ok_def)
qed

definition sample_request :: http_request where
  "sample_request = \<lparr> hq_headers = [(''Authorization'', [''Bearer root''])], hq_cookies = [], hq_body = [] \<rparr>"

theorem routes_guarded_witness:
  "extractToken sample_request = ''root''"
proof -
  have m: "on AdminOnly (''POST'', ''/admin/users'') \<in> set (registerRoutes [])"
    by (simp add: registerRoutes_def registerAdminRoutes_def)
  have t: "extractToken sample_request = ''root''" by code_simp
  have g: "guarded id ''root'' (\<lambda>_. Inr None) (rt_guard (on AdminOnly (''POST'', ''/admin/users''))) sample_request
      = Passed (Some admin_key_info)"
    by (simp add: on_def guarded_def Authenticate_def t validateToken_def then_gate_def requireAdmin_def admin_key_info_def)
  have "admin_pattern (rt_pattern (on AdminOnly (''POST'', ''/admin/users'')))"
    by (simp add: on_def admin_pattern_def has_prefix_def)
  with routes_guarded [OF m g] show ?thesis by blast
qed

section \<open>Sessions of users\<close>

lemma session_user_iff:
  assumes "users_wf s" "ranges_users ord" "token \<noteq> adm"
  shows "session sha256 adm ord s token = Inr ki
    \<longleftrightarrow> (\<exists>k u. s_users s k = Some u \<and> us_token_hash u = token_hash sha256 token \<and> us_status u = ''active''
          \<and> ki = user_key_info u)"
proof -
  have r: "ranges (s_users s) (ord s)" using assms(1,2) by (simp add: users_wf_def ranges_users_def)
  have "session sha256 adm ord s token = Inr ki
      \<longleftrightarrow> (\<exists>u. GetUserByTokenHash (ord s) (token_hash sha256 token) s = Some u \<and> us_status u = ''active''
            \<and> ki = user_key_info u)"
    using assms(3) by (simp add: session_def validateToken_def store_lookup_def eq_commute [of ki] split: option.split)
  then show ?thesis unfolding get_user_iff [OF assms(1) r] by blast
qed

lemma session_rejected_iff:
  assumes "users_wf s" "ranges_users ord" "token \<noteq> adm"
  shows "(\<exists>e. session sha256 adm ord s token = Inl e)
    \<longleftrightarrow> \<not> (\<exists>k u. s_users s k = Some u \<and> us_token_hash u = token_hash sha256 token \<and> us_status u = ''active'')"
proof -
  have "(\<exists>e. x = Inl e) \<longleftrightarrow> (\<forall>ki. x \<noteq> Inr ki)" for x :: "string + key_info" by (cases x) auto
  then show ?thesis using session_user_iff [OF assms, of sha256] by simp blast
qed

lemma session_user:
  assumes "users_wf s" "ranges_users ord" "token \<noteq> adm" "session sha256 adm ord s token = Inr ki"
  shows "\<exists>u. s_users s (ki_id ki) = Some u \<and> us_token_hash u = token_hash sha256 token \<and> us_status u = ''active''
    \<and> ki = user_key_info u"
proof -
  obtain k u where u: "s_users s k = Some u" "us_token_hash u = token_hash sha256 token" "us_status u = ''active''"
    "ki = user_key_info u" using assms(4) session_user_iff [OF assms(1-3)] by blast
  have "ki_id ki = k" using u(1,4) assms(1) by (simp add: users_wf_def user_key_info_def)
  with u show ?thesis by blast
qed

text \<open>What the handlers do to the table of users when they answer with success.\<close>

lemma status_handler:
  assumes "fst (handleUpdateUserStatus i body s) = AnswerJSON 200 v"
  shows "\<exists>st. (st = ''active'' \<or> st = ''disabled'') \<and> v = JObj [(''id'', JStr i), (''status'', JStr st)]
    \<and> snd (handleUpdateUserStatus i body s) = snd (UpdateUserStatus i st s)"
  using assms
  by (auto simp: handleUpdateUserStatus_def update_answer_def case_prod_beta split: option.splits if_splits)

lemma delete_handler [simp]: "snd (handleDeleteUser i s) = snd (DeleteUser i s)"
  by (simp add: handleDeleteUser_def case_prod_beta)

lemma regenerate_handler:
  assumes "fst (handleRegenerateUserToken sha256 ord random i s) = AnswerJSON 200 v"
  shows "\<exists>plain prefix. v = JObj [(''id'', JStr i), (''token'', JStr plain)]
    \<and> fst (UpdateUserToken i (token_hash sha256 plain) prefix s) = None
    \<and> snd (handleRegenerateUserToken sha256 ord random i s)
        = snd (UpdateUserToken i (token_hash sha256 plain) prefix s)"
  using assms
  by (auto simp: handleRegenerateUserToken_def update_answer_def generateUserToken_def case_prod_beta Let_def
      split: option.splits if_splits)

lemma revoking_handlers:
  assumes wf: "users_wf s" and u: "s_users s i = Some u"
    and op: "s' = snd (handleDeleteUser i s)
       \<or> fst (handleUpdateUserStatus i body s) = AnswerJSON 200 (JObj [(''id'', JStr i), (''status'', JStr ''disabled'')])
           \<and> s' = snd (handleUpdateUserStatus i body s)
       \<or> fst (handleRegenerateUserToken sha256 es random i s) = AnswerJSON 200 (JObj [(''id'', JStr i), (''token'', JStr plain)])
           \<and> (\<forall>k u. s_users s k = Some u \<longrightarrow> us_token_hash u \<noteq> token_hash sha256 plain)
           \<and> s' = snd (handleRegenerateUserToken sha256 es random i s)"
  shows "users_wf s' \<and> (\<exists>ou. s_users s' = (s_users s)(i := ou)
      \<and> (\<forall>v. ou = Some v \<longrightarrow> \<not> (us_token_hash v = us_token_hash u \<and> us_status v = ''active'')))"
  using op
proof (elim disjE conjE)
  assume "s' = snd (handleDeleteUser i s)"
  then show ?thesis using users_wf_delete [OF wf] users_after_delete by auto
next
  assume d: "fst (handleUpdateUserStatus i body s) = AnswerJSON 200 (JObj [(''id'', JStr i), (''status'', JStr ''disabled'')])"
    "s' = snd (handleUpdateUserStatus i body s)"
  then have s': "s' = snd (UpdateUserStatus i ''disabled'' s)" using status_handler [OF d(1)] by auto
  have "users_wf s'" unfolding s' by (rule status.keeps_wf_hash [OF wf]) simp
  moreover have "s_users s' = (s_users s)(i := Some (u\<lparr>us_status := ''disabled''\<rparr>))"
    unfolding s' status.users_after by (simp add: u)
  ultimately show ?thesis by auto
next
  assume d: "fst (handleRegenerateUserToken sha256 es random i s) = AnswerJSON 200 (JObj [(''id'', JStr i), (''token'', JStr plain)])"
    "\<forall>k u. s_users s k = Some u \<longrightarrow> us_token_hash u \<noteq> token_hash sha256 plain"
    "s' = snd (handleRegenerateUserToken sha256 es random i s)"
  from regenerate_handler [OF d(1)] d(3) obtain prefix where
    s': "s' = snd (UpdateUserToken i (token_hash sha256 plain) prefix s)" by auto
  have "users_wf s'"
    unfolding s' by (rule token.keeps_wf [OF wf]) (use d(2) in \<open>simp, metis\<close>)
  moreover have "s_users s' = (s_users s)(i := Some (u\<lparr>us_token_hash := token_hash sha256 plain, us_token_prefix := prefix\<rparr>))"
    unfolding s' token.users_after by (simp add: u)
  moreover have "token_hash sha256 plain \<noteq> us_token_hash u" using d(2) u by metis
  ultimately show ?thesis by auto
qed

text \<open>C30: A revoked token is dead at once, and only it. After an administrator has deleted the user of a token,
  disabled it or given it a new token (with another hash), the old token is refused; the token of every other user
  gives the same key as before.\<close>
theorem revoked_token_refused:
  assumes wf: "users_wf s" and ord: "ranges_users ord" and ne: "token \<noteq> adm"
    and old: "session sha256 adm ord s token = Inr ki"
    and op: "s' = snd (handleDeleteUser (ki_id ki) s)
      \<or> fst (handleUpdateUserStatus (ki_id ki) body s)
            = AnswerJSON 200 (JObj [(''id'', JStr (ki_id ki)), (''status'', JStr ''disabled'')])
          \<and> s' = snd (handleUpdateUserStatus (ki_id ki) body s)
      \<or> fst (handleRegenerateUserToken sha256 (ord s) random (ki_id ki) s)
            = AnswerJSON 200 (JObj [(''id'', JStr (ki_id ki)), (''token'', JStr plain)])
          \<and> (\<forall>k u. s_users s k = Some u \<longrightarrow> us_token_hash u \<noteq> token_hash sha256 plain)
          \<and> s' = snd (handleRegenerateUserToken sha256 (ord s) random (ki_id ki) s)"
  shows "(\<exists>e. session sha256 adm ord s' token = Inl e)
    \<and> (\<forall>other kj. other \<noteq> adm \<longrightarrow> session sha256 adm ord s other = Inr kj \<longrightarrow> ki_id kj \<noteq> ki_id ki
         \<longrightarrow> session sha256 adm ord s' other = Inr kj)"
proof -
  let ?i = "ki_id ki"
  obtain u where u: "s_users s ?i = Some u" "us_token_hash u = token_hash sha256 token"
    using session_user [OF wf ord ne old] by blast
  have uniq: "k = ?i" if "s_users s k = Some v" "us_token_hash v = us_token_hash u" for k v
    using wf that u(1) unfolding users_wf_def by metis
  obtain ou where wf': "users_wf s'" and s': "s_users s' = (s_users s)(?i := ou)"
    and no: "\<forall>v. ou = Some v \<longrightarrow> \<not> (us_token_hash v = us_token_hash u \<and> us_status v = ''active'')"
    using revoking_handlers [OF wf u(1) op] by blast
  have "\<exists>e. session sha256 adm ord s' token = Inl e"
    unfolding session_rejected_iff [OF wf' ord ne]
  proof (intro notI, elim exE conjE)
    fix k v assume v: "s_users s' k = Some v" "us_token_hash v = token_hash sha256 token" "us_status v = ''active''"
    show False
    proof (cases "k = ?i")
      case True
      with v no u(2) show False by (simp add: s')
    next
      case False
      with v(1) have "s_users s k = Some v" by (simp add: s')
      with uniq v(2) u(2) False show False by metis
    qed
  qed
  moreover have "session sha256 adm ord s' other = Inr kj"
    if o: "other \<noteq> adm" "session sha256 adm ord s other = Inr kj" "ki_id kj \<noteq> ?i" for other kj
  proof -
    obtain k v where v: "s_users s k = Some v" "us_token_hash v = token_hash sha256 other" "us_status v = ''active''"
        "kj = user_key_info v" using o(2) session_user_iff [OF wf ord o(1)] by blast
    have "k \<noteq> ?i" using o(3) v wf by (auto simp: users_wf_def user_key_info_def)
    then show ?thesis unfolding session_user_iff [OF wf' ord o(1)] s' using v by auto
  qed
  ultimately show ?thesis by blast
qed

definition sample_user :: "string \<Rightarrow> string \<Rightarrow> user" where
  "sample_user i hash =
     \<lparr> us_id = i, us_name = ''name'' @ i, us_token_hash = hash, us_token_prefix = ''tk'', us_status = ''active'',
       us_allowed_surface = SurfaceNative, us_bound_account_id = [], us_created_at = 0, us_last_active_at = None \<rparr>"

definition sample_users :: store where
  "sample_users = NewMockStore\<lparr>s_users := [''1'' \<mapsto> sample_user ''1'' ''61'', ''2'' \<mapsto> sample_user ''2'' ''62'']\<rparr>"

definition sample_users_order :: "store \<Rightarrow> string list" where
  "sample_users_order s = sorted_list_of_set (dom (s_users s))"

lemma sample_users_ranges: "ranges_users sample_users_order"
  by (simp add: ranges_users_def ranges_def sample_users_order_def)

lemma sample_users_wf: "users_wf sample_users"
  by (auto simp: users_wf_def sample_users_def sample_user_def split: if_splits)

text \<open>With the identity as hash, the tokens a and b have the hashes 61 and 62.\<close>

lemma sample_session:
  "session id ''root'' sample_users_order sample_users ''a'' = Inr (user_key_info (sample_user ''1'' ''61''))"
  "session id ''root'' sample_users_order sample_users ''b'' = Inr (user_key_info (sample_user ''2'' ''62''))"
proof -
  have h: "token_hash id ''a'' = ''61''" "token_hash id ''b'' = ''62''" by code_simp+
  show "session id ''root'' sample_users_order sample_users ''a'' = Inr (user_key_info (sample_user ''1'' ''61''))"
    unfolding session_user_iff [OF sample_users_wf sample_users_ranges, of "''a''" "''root''", simplified] h
    by (rule exI [of _ "''1''"]) (simp add: sample_users_def sample_user_def)
  show "session id ''root'' sample_users_order sample_users ''b'' = Inr (user_key_info (sample_user ''2'' ''62''))"
    unfolding session_user_iff [OF sample_users_wf sample_users_ranges, of "''b''" "''root''", simplified] h
    by (rule exI [of _ "''2''"]) (simp add: sample_users_def sample_user_def)
qed

theorem revoked_token_refused_witness:
  "(\<exists>e. session id ''root'' sample_users_order (snd (handleDeleteUser ''1'' sample_users)) ''a'' = Inl e)
   \<and> session id ''root'' sample_users_order (snd (handleDeleteUser ''1'' sample_users)) ''b''
       = Inr (user_key_info (sample_user ''2'' ''62''))"
proof -
  have i: "ki_id (user_key_info (sample_user ''1'' ''61'')) = ''1''" "ki_id (user_key_info (sample_user ''2'' ''62'')) = ''2''"
    by (simp_all add: user_key_info_def sample_user_def)
  have ne: "''a'' \<noteq> ''root''" "''b'' \<noteq> ''root''" "''2'' \<noteq> ''1''" by simp_all
  from revoked_token_refused [OF sample_users_wf sample_users_ranges ne(1) sample_session(1), unfolded i,
      OF disjI1 [OF refl]] sample_session(2) ne i
  show ?thesis by metis
qed

section \<open>Issued tokens and policies\<close>

definition known_surface :: "surface \<Rightarrow> bool" where
  "known_surface sf \<longleftrightarrow> sf = SurfaceNative \<or> sf = SurfaceCompat \<or> sf = SurfaceAll"

lemma parse_surface: "parseUserAllowedSurface raw = Inr sf \<Longrightarrow> known_surface sf"
  by (auto simp: parseUserAllowedSurface_def known_surface_def Let_def split: if_splits)

lemma allows_known:
  assumes "known_surface sf" "t = SurfaceNative \<or> t = SurfaceCompat"
  shows "AllowsSurface sf t \<longleftrightarrow> sf = SurfaceAll \<or> sf = t"
  using assms unfolding known_surface_def by (elim disjE) (simp_all add: AllowsSurface_def)

lemma bound_account_known:
  "validateUserBoundAccount pool_get b = None \<longleftrightarrow> b = [] \<or> pool_get b \<noteq> None"
  by (simp add: validateUserBoundAccount_def)

lemma create_handler:
  assumes "fst (handleCreateUser sha256 pool_get now uid random body s) = AnswerJSON 200 v"
  shows "\<exists>q sf plain prefix tail. known_surface sf \<and> (uq_bound q = [] \<or> pool_get (uq_bound q) \<noteq> None)
    \<and> v = JObj ([(''id'', JStr uid), (''name'', JStr (uq_name q)), (''token'', JStr plain), (''allowed_surface'', JStr sf)] @ tail)
    \<and> s_users (snd (handleCreateUser sha256 pool_get now uid random body s))
        = (s_users s)(uid \<mapsto> new_user now uid q sf (token_hash sha256 plain) prefix)"
proof -
  let ?h = "handleCreateUser sha256 pool_get now uid random body s"
  obtain q sf where d: "decode_body ((''name'', string_field (\<lambda>x q. q\<lparr>uq_name := x\<rparr>)) # policy_request_fields) body
        empty_user_request = Some q"
    "uq_name q \<noteq> []" "parseUserAllowedSurface (uq_surface q) = Inr sf"
    "validateUserBoundAccount pool_get (uq_bound q) = None"
    using assms by (auto simp: handleCreateUser_def split: option.splits sum.splits if_splits)
  obtain plain hash prefix where g: "generateUserToken sha256 random (uq_name q) = Some (plain, hash, prefix)"
    using assms d by (auto simp: handleCreateUser_def split: option.splits)
  then have hash: "hash = token_hash sha256 plain" by (auto simp: generateUserToken_def Let_def)
  have "s_users (snd ?h) = (s_users s)(uid \<mapsto> new_user now uid q sf (token_hash sha256 plain) prefix)"
    "\<exists>tail. v = JObj ([(''id'', JStr uid), (''name'', JStr (uq_name q)), (''token'', JStr plain),
       (''allowed_surface'', JStr sf)] @ tail)"
    using assms d g hash by (auto simp: handleCreateUser_def CreateUser_def new_user_def split: option.splits)
  with parse_surface [OF d(3)] d(4) show ?thesis unfolding bound_account_known by blast
qed

lemma policy_handler:
  assumes "fst (handleUpdateUserPolicy pool_get i body s) = AnswerJSON 200 v"
  shows "\<exists>sf b tail. known_surface sf \<and> (b = [] \<or> pool_get b \<noteq> None)
    \<and> v = JObj ([(''id'', JStr i), (''allowed_surface'', JStr sf)] @ tail)
    \<and> snd (handleUpdateUserPolicy pool_get i body s) = snd (UpdateUserPolicy i sf b s)"
proof -
  obtain q sf where d: "decode_body policy_request_fields body empty_user_request = Some q"
    "parseUserAllowedSurface (uq_surface q) = Inr sf" "validateUserBoundAccount pool_get (uq_bound q) = None"
    using assms by (auto simp: handleUpdateUserPolicy_def split: option.splits sum.splits)
  have "snd (handleUpdateUserPolicy pool_get i body s) = snd (UpdateUserPolicy i sf (uq_bound q) s)"
    "\<exists>tail. v = JObj ([(''id'', JStr i), (''allowed_surface'', JStr sf)] @ tail)"
    using assms d by (auto simp: handleUpdateUserPolicy_def update_answer_def case_prod_beta split: option.splits if_splits)
  with parse_surface [OF d(2)] d(3) show ?thesis unfolding bound_account_known by blast
qed

text \<open>An issued token works, and only its hash is stored. When the creation of a user succeeds, the store has
  one user more, which holds the hash of the token in the answer; if no other user has this hash and it is
  not the admin token, then the token lets its user in, with the name, the surface and the bound account that
  were asked for, and the table of users stays well formed.\<close>
theorem issued_token_works:
  assumes wf: "users_wf s" and ord: "ranges_users ord"
    and ok: "fst (handleCreateUser sha256 pool_get now uid random body s) = AnswerJSON 200 v"
    and fresh: "s_users s uid = None"
  shows "\<exists>q sf plain prefix tail.
      v = JObj ([(''id'', JStr uid), (''name'', JStr (uq_name q)), (''token'', JStr plain), (''allowed_surface'', JStr sf)] @ tail)
    \<and> known_surface sf \<and> (uq_bound q = [] \<or> pool_get (uq_bound q) \<noteq> None)
    \<and> s_users (snd (handleCreateUser sha256 pool_get now uid random body s))
        = (s_users s)(uid \<mapsto> new_user now uid q sf (token_hash sha256 plain) prefix)
    \<and> (plain \<noteq> adm \<and> (\<forall>k u. s_users s k = Some u \<longrightarrow> us_token_hash u \<noteq> token_hash sha256 plain) \<longrightarrow>
         users_wf (snd (handleCreateUser sha256 pool_get now uid random body s))
         \<and> session sha256 adm ord (snd (handleCreateUser sha256 pool_get now uid random body s)) plain
             = Inr \<lparr> ki_id = uid, ki_name = uq_name q, ki_allowed_surface = sf, ki_bound_account = uq_bound q,
                     ki_is_admin = False \<rparr>)"
proof -
  let ?s = "snd (handleCreateUser sha256 pool_get now uid random body s)"
  obtain q sf plain prefix tail where h: "known_surface sf" "uq_bound q = [] \<or> pool_get (uq_bound q) \<noteq> None"
    "v = JObj ([(''id'', JStr uid), (''name'', JStr (uq_name q)), (''token'', JStr plain), (''allowed_surface'', JStr sf)] @ tail)"
    and s': "s_users ?s = (s_users s)(uid \<mapsto> new_user now uid q sf (token_hash sha256 plain) prefix)"
    using create_handler [OF ok] by blast
  let ?u = "new_user now uid q sf (token_hash sha256 plain) prefix"
  have u: "us_id ?u = uid" "us_token_hash ?u = token_hash sha256 plain" "us_status ?u = ''active''"
    "user_key_info ?u = \<lparr> ki_id = uid, ki_name = uq_name q, ki_allowed_surface = sf, ki_bound_account = uq_bound q,
       ki_is_admin = False \<rparr>"
    using h(1) surface_distinct(7-9) [symmetric] by (auto simp: new_user_def user_key_info_def known_surface_def)
  have "users_wf ?s \<and> session sha256 adm ord ?s plain = Inr (user_key_info ?u)"
    if p: "plain \<noteq> adm" "\<forall>k w. s_users s k = Some w \<longrightarrow> us_token_hash w \<noteq> token_hash sha256 plain"
  proof -
    have "us_id w = k" if "s_users ?s k = Some w" for k w
      using that wf u(1) by (auto simp: s' users_wf_def split: if_splits)
    moreover have "k = l" if "s_users ?s k = Some w" "s_users ?s l = Some x" "us_token_hash w = us_token_hash x" for k l w x
    proof (cases "k = uid"; cases "l = uid")
      assume "k \<noteq> uid" "l \<noteq> uid"
      with that wf show ?thesis unfolding users_wf_def s' by (metis fun_upd_other)
    qed (use that p(2) u(2) in \<open>auto simp: s'\<close>)
    moreover have "finite (dom (s_users ?s))" using wf by (simp add: s' users_wf_def)
    ultimately have wf': "users_wf ?s" unfolding users_wf_def by blast
    have "session sha256 adm ord ?s plain = Inr (user_key_info ?u)"
      unfolding session_user_iff [OF wf' ord p(1)]
      by (rule exI [of _ uid], rule exI [of _ ?u]) (simp add: s' u)
    with wf' show ?thesis by blast
  qed
  with h s' u(4) show ?thesis by metis
qed

lemma guarded_user:
  assumes "session sha256 adm ord s (extractToken r) = Inr ki" "extractToken r \<noteq> []"
  shows "guarded sha256 adm (store_lookup ord s) (SurfaceOnly sf) r
    = (if ki_is_admin ki \<or> AllowsSurface (ki_allowed_surface ki) sf then Passed (Some ki)
       else Refused 403 ''forbidden'' (''API key cannot access the '' @ sf @ '' surface''))"
  using assms
  by (simp add: guarded_def Authenticate_def session_def then_gate_def requireSurface_def)

text \<open>A policy holds from the next request on. After an administrator has set the policy of a user, a request with
  the token of this user passes the gate of the native or of the compat surface exactly when the policy
  names that surface or all; the key that the relay gets carries the bound account of the policy, which the pool
  knew; and no request passes an admin gate with it.\<close>
theorem policy_governs:
  assumes wf: "users_wf s" and ord: "ranges_users ord" and ne: "extractToken r \<noteq> adm" "extractToken r \<noteq> []"
    and old: "session sha256 adm ord s (extractToken r) = Inr ki"
    and ok: "fst (handleUpdateUserPolicy pool_get (ki_id ki) body s) = AnswerJSON 200 v"
    and s': "s' = snd (handleUpdateUserPolicy pool_get (ki_id ki) body s)"
    and t: "t = SurfaceNative \<or> t = SurfaceCompat"
  shows "\<exists>sf b tail. v = JObj ([(''id'', JStr (ki_id ki)), (''allowed_surface'', JStr sf)] @ tail) \<and> known_surface sf
    \<and> (b = [] \<or> pool_get b \<noteq> None)
    \<and> guarded sha256 adm (store_lookup ord s') (SurfaceOnly t) r
        = (if sf = SurfaceAll \<or> sf = t
           then Passed (Some (ki\<lparr> ki_allowed_surface := sf, ki_bound_account := b \<rparr>))
           else Refused 403 ''forbidden'' (''API key cannot access the '' @ t @ '' surface''))
    \<and> (\<forall>oki. guarded sha256 adm (store_lookup ord s') AdminOnly r \<noteq> Passed oki)"
proof -
  let ?i = "ki_id ki"
  obtain sf b tail where h: "known_surface sf" "b = [] \<or> pool_get b \<noteq> None"
    "v = JObj ([(''id'', JStr ?i), (''allowed_surface'', JStr sf)] @ tail)"
    and e: "s' = snd (UpdateUserPolicy ?i sf b s)" using policy_handler [OF ok] s' by blast
  obtain u where u: "s_users s ?i = Some u" "us_token_hash u = token_hash sha256 (extractToken r)"
      "us_status u = ''active''" "ki = user_key_info u"
    using session_user [OF wf ord ne(1) old] by blast
  have wf': "users_wf s'" unfolding e by (rule policy.keeps_wf_hash [OF wf]) simp
  define u' where "u' = u\<lparr>us_allowed_surface := (if sf = [] then SurfaceNative else sf), us_bound_account_id := b\<rparr>"
  have n: "s_users s' ?i = Some u'" unfolding e policy.users_after by (simp add: u(1) u'_def)
  have k: "user_key_info u' = ki\<lparr> ki_allowed_surface := sf, ki_bound_account := b \<rparr>"
    using h(1) surface_distinct(7-9) [symmetric] by (auto simp: u'_def u(4) user_key_info_def known_surface_def)
  have new: "session sha256 adm ord s' (extractToken r) = Inr (user_key_info u')"
    unfolding session_user_iff [OF wf' ord ne(1)]
    by (rule exI [of _ ?i], rule exI [of _ u']) (simp add: n, simp add: u'_def u)
  have "guarded sha256 adm (store_lookup ord s') (SurfaceOnly t) r
        = (if sf = SurfaceAll \<or> sf = t
           then Passed (Some (ki\<lparr> ki_allowed_surface := sf, ki_bound_account := b \<rparr>))
           else Refused 403 ''forbidden'' (''API key cannot access the '' @ t @ '' surface''))"
  proof -
    have "ki_is_admin ki = False" by (simp add: u(4) user_key_info_def)
    then show ?thesis unfolding guarded_user [OF new ne(2)] k using allows_known [OF h(1) t] by simp
  qed
  moreover have "guarded sha256 adm (store_lookup ord s') AdminOnly r \<noteq> Passed oki" for oki
    using guard_cases [of sha256 adm "store_lookup ord s'" AdminOnly r oki] ne(1) by auto
  ultimately show ?thesis using h by blast
qed

definition sample_bearer :: "string \<Rightarrow> http_request" where
  "sample_bearer t = \<lparr> hq_headers = [(''Authorization'', [''Bearer '' @ t])], hq_cookies = [], hq_body = [] \<rparr>"

definition policy_body :: string where
  "policy_body = ''{\"allowed_surface\": \"compat\"}''"

definition create_body :: string where
  "create_body = ''{\"name\": \"n\", \"allowed_surface\": \"all\"}''"

lemma sample_policy_answer:
  "fst (handleUpdateUserPolicy (\<lambda>_. None) ''1'' policy_body sample_users)
     = AnswerJSON 200 (JObj [(''id'', JStr ''1''), (''allowed_surface'', JStr ''compat'')])"
proof -
  have "decode_body policy_request_fields policy_body empty_user_request = Some (empty_user_request\<lparr>uq_surface := ''compat''\<rparr>)"
    by code_simp
  moreover have "parseUserAllowedSurface ''compat'' = Inr ''compat''" by code_simp
  ultimately show ?thesis
    by (simp add: handleUpdateUserPolicy_def empty_user_request_def validateUserBoundAccount_def UpdateUserPolicy_def
        sample_users_def update_answer_def omit_blank_def boundAccountEmail_def Let_def)
qed

theorem policy_governs_witness:
  "\<exists>sf b. guarded id ''root'' (store_lookup sample_users_order
        (snd (handleUpdateUserPolicy (\<lambda>_. None) ''1'' policy_body sample_users))) (SurfaceOnly SurfaceNative) (sample_bearer ''a'')
      = (if sf = SurfaceAll \<or> sf = SurfaceNative
         then Passed (Some ((user_key_info (sample_user ''1'' ''61''))\<lparr> ki_allowed_surface := sf, ki_bound_account := b \<rparr>))
         else Refused 403 ''forbidden'' (''API key cannot access the '' @ SurfaceNative @ '' surface''))"
proof -
  have x: "extractToken (sample_bearer ''a'') = ''a''" by code_simp
  have ne: "extractToken (sample_bearer ''a'') \<noteq> ''root''" "extractToken (sample_bearer ''a'') \<noteq> []" by (simp_all add: x)
  have i: "ki_id (user_key_info (sample_user ''1'' ''61'')) = ''1''" by (simp add: user_key_info_def sample_user_def)
  have s: "session id ''root'' sample_users_order sample_users (extractToken (sample_bearer ''a''))
      = Inr (user_key_info (sample_user ''1'' ''61''))" unfolding x by (rule sample_session)
  from policy_governs [OF sample_users_wf sample_users_ranges ne s, unfolded i, OF sample_policy_answer refl,
      of SurfaceNative] show ?thesis by blast
qed

lemma sample_create_answer:
  "\<exists>v. fst (handleCreateUser id (\<lambda>_. None) 0 ''3'' (Some ''x'') create_body sample_users) = AnswerJSON 200 v"
proof -
  have "decode_body ((''name'', string_field (\<lambda>x q. q\<lparr>uq_name := x\<rparr>)) # policy_request_fields) create_body empty_user_request
      = Some (empty_user_request\<lparr>uq_name := ''n'', uq_surface := ''all''\<rparr>)" by code_simp
  moreover have "parseUserAllowedSurface ''all'' = Inr ''all''" by code_simp
  ultimately show ?thesis
    by (simp add: handleCreateUser_def empty_user_request_def validateUserBoundAccount_def CreateUser_def
        generateUserToken_def sample_users_def NewMockStore_def Let_def)
qed

theorem issued_token_works_witness:
  "\<exists>v sf plain tail name.
     fst (handleCreateUser id (\<lambda>_. None) 0 ''3'' (Some ''x'') create_body sample_users) = AnswerJSON 200 v
   \<and> v = JObj ([(''id'', JStr ''3''), (''name'', JStr name), (''token'', JStr plain), (''allowed_surface'', JStr sf)] @ tail)
   \<and> known_surface sf"
proof -
  obtain v where v: "fst (handleCreateUser id (\<lambda>_. None) 0 ''3'' (Some ''x'') create_body sample_users) = AnswerJSON 200 v"
    using sample_create_answer by blast
  have f: "s_users sample_users ''3'' = None" by (simp add: sample_users_def)
  from issued_token_works [OF sample_users_wf sample_users_ranges v f, of "''root''"]
  show ?thesis by (elim exE conjE) (intro exI conjI, rule v, assumption+)
qed

end
