(* ===== verification/Compat.thy ===== *)
theory Compat
  imports Access
begin

text \<open>
  The compat surface (src/internal/server: compat_openai_types.go, compat_openai_utils.go,
  compat_openai_claude.go, compat_openai_gemini.go, and buildCompatTarget of compat_openai_chat.go): a chat
  completion request of the OpenAI API is translated into a request of Claude or of Gemini, and their
  responses back.  A \<open>json.RawMessage\<close> is the value it holds, \<open>None\<close> when the member is absent: the code
  only looks whether it is blank or null, and unmarshals it again.
\<close>

section \<open>The request\<close>

text \<open>Fields of the types \<open>json.RawMessage\<close>, \<open>*int\<close>, \<open>*float64\<close> and \<open>any\<close>.\<close>

definition raw_field :: "(json \<Rightarrow> 's \<Rightarrow> 's) \<Rightarrow> 's field" where
  "raw_field upd v sb = (upd v (fst sb), snd sb)"

definition int_ptr_field :: "(int option \<Rightarrow> 's \<Rightarrow> 's) \<Rightarrow> 's field" where
  "int_ptr_field upd v sb = (if v = JNull then (upd None (fst sb), snd sb) else int_field (\<lambda>x. upd (Some x)) v sb)"

definition float_ptr_field :: "(rat option \<Rightarrow> 's \<Rightarrow> 's) \<Rightarrow> 's field" where
  "float_ptr_field upd v sb = (if v = JNull then (upd None (fst sb), snd sb) else float_field (\<lambda>x. upd (Some x)) v sb)"

definition value_field :: "(json option \<Rightarrow> 's \<Rightarrow> 's) \<Rightarrow> 's field" where
  "value_field upd v sb =
     (if v = JNull then (upd None (fst sb), snd sb)
      else if numbers_ok v then (upd (Some v) (fst sb), snd sb) else fail sb)"

record compat_message =
  cm_role :: string
  cm_content :: "json option"

record chat_request =
  oc_model :: string
  oc_messages :: "compat_message list"
  oc_max_tokens :: "int option"
  oc_max_completion_tokens :: "int option"
  oc_temperature :: "rat option"
  oc_top_p :: "rat option"
  oc_stop :: "json option"
  oc_response_format :: "json option"
  oc_stream :: bool
  oc_tools :: "json option"
  oc_tool_choice :: "json option"

definition empty_chat_request :: chat_request where
  "empty_chat_request =
     \<lparr> oc_model = [], oc_messages = [], oc_max_tokens = None, oc_max_completion_tokens = None,
       oc_temperature = None, oc_top_p = None, oc_stop = None, oc_response_format = None, oc_stream = False,
       oc_tools = None, oc_tool_choice = None \<rparr>"

definition message_fields :: "(string \<times> compat_message field) list" where
  "message_fields =
     [(''role'', string_field (\<lambda>x m. m\<lparr>cm_role := x\<rparr>)), (''content'', raw_field (\<lambda>x m. m\<lparr>cm_content := Some x\<rparr>))]"

definition chat_request_fields :: "(string \<times> chat_request field) list" where
  "chat_request_fields =
     [(''model'', string_field (\<lambda>x q. q\<lparr>oc_model := x\<rparr>)),
      (''messages'', list_field oc_messages (\<lambda>x q. q\<lparr>oc_messages := x\<rparr>) \<lparr> cm_role = [], cm_content = None \<rparr> message_fields),
      (''max_tokens'', int_ptr_field (\<lambda>x q. q\<lparr>oc_max_tokens := x\<rparr>)),
      (''max_completion_tokens'', int_ptr_field (\<lambda>x q. q\<lparr>oc_max_completion_tokens := x\<rparr>)),
      (''temperature'', float_ptr_field (\<lambda>x q. q\<lparr>oc_temperature := x\<rparr>)),
      (''top_p'', float_ptr_field (\<lambda>x q. q\<lparr>oc_top_p := x\<rparr>)),
      (''stop'', raw_field (\<lambda>x q. q\<lparr>oc_stop := Some x\<rparr>)),
      (''response_format'', raw_field (\<lambda>x q. q\<lparr>oc_response_format := Some x\<rparr>)),
      (''stream'', bool_field (\<lambda>x q. q\<lparr>oc_stream := x\<rparr>)),
      (''tools'', raw_field (\<lambda>x q. q\<lparr>oc_tools := Some x\<rparr>)),
      (''tool_choice'', raw_field (\<lambda>x q. q\<lparr>oc_tool_choice := Some x\<rparr>))]"

definition hasCompatValue :: "json option \<Rightarrow> bool" where
  "hasCompatValue raw \<longleftrightarrow> raw \<noteq> None \<and> raw \<noteq> Some JNull"

section \<open>Models\<close>

definition compatClaudeModelAliases :: "(string \<times> string) list" where
  "compatClaudeModelAliases =
     [(''claude-haiku-4.5'', ''claude-haiku-4-5''), (''claude-opus-4.0'', ''claude-opus-4''),
      (''claude-opus-4-0'', ''claude-opus-4''), (''claude-opus-4.1'', ''claude-opus-4-1''),
      (''claude-opus-4-1-20250805'', ''claude-opus-4-1''), (''claude-opus-4.5'', ''claude-opus-4-5''),
      (''claude-opus-4-5-20251101'', ''claude-opus-4-5''), (''claude-opus-4.6'', ''claude-opus-4-6''),
      (''claude-opus-4-20250514'', ''claude-opus-4''), (''claude-opus-5.5'', ''claude-opus-5-5''),
      (''claude-sonnet-4.0'', ''claude-sonnet-4''), (''claude-sonnet-4-0'', ''claude-sonnet-4''),
      (''claude-sonnet-4.5'', ''claude-sonnet-4-5''), (''claude-sonnet-4-5-20250929'', ''claude-sonnet-4-5''),
      (''claude-sonnet-4.6'', ''claude-sonnet-4-6''), (''claude-sonnet-4-20250514'', ''claude-sonnet-4-6''),
      (''claude-sonnet-5.0'', ''claude-sonnet-5''), (''claude-sonnet-5-0'', ''claude-sonnet-5''),
      (''claude-sonnet-5.5'', ''claude-sonnet-5-5'')]"

definition compatCanonicalClaudeModel :: "string \<Rightarrow> string" where
  "compatCanonicalClaudeModel model =
     (let trimmed = to_lower (trim_space model) in
      case map_of compatClaudeModelAliases trimmed of Some c \<Rightarrow> c | None \<Rightarrow> trimmed)"

text \<open>The prefix and the rest of a model name.\<close>

definition split_model :: "string \<Rightarrow> string \<times> string" where
  "split_model trimmed =
     (if CHR ''/'' \<in> set trimmed
      then (to_lower (trim_space (fst (cut_at (CHR ''/'') trimmed))), trim_space (snd (cut_at (CHR ''/'') trimmed)))
      else ([], trimmed))"

definition resolveCompatModel :: "string \<Rightarrow> string + provider \<times> string \<times> string" where
  "resolveCompatModel model =
     (let trimmed = trim_space model;
          pre = fst (split_model trimmed);
          base = snd (split_model trimmed)
      in if trimmed = [] then Inl ''model is required''
         else if pre = ''claude'' \<or> pre = ''anthropic'' \<or> pre = [] \<and> has_prefix base ''claude-''
         then (let b = compatCanonicalClaudeModel base in
               if \<not> has_prefix b ''claude-'' then Inl ''model must be a claude model, e.g. claude/claude-sonnet-4-5''
               else Inr (ProviderClaude, b, ''claude/'' @ b))
         else if pre = ''gemini'' \<or> pre = ''google'' \<or> pre = [] \<and> has_prefix base ''gemini-''
         then (if \<not> has_prefix base ''gemini-'' then Inl ''model must be a gemini model, e.g. gemini/gemini-2.5-flash''
               else Inr (ProviderGemini, base, ''gemini/'' @ base))
         else Inl ''model must be a claude or gemini model, e.g. claude/claude-sonnet-4-5 or gemini/gemini-2.5-flash'')"

definition compatSupportedProviders :: "provider list" where
  "compatSupportedProviders = [ProviderClaude, ProviderGemini]"

definition compatProviderPrefix :: "provider \<Rightarrow> string" where
  "compatProviderPrefix p = (if p = ProviderClaude then ''claude'' else if p = ProviderGemini then ''gemini'' else p)"

definition compatProviderMatches :: "provider \<Rightarrow> string \<Rightarrow> bool" where
  "compatProviderMatches p requested = has_prefix requested (compatProviderPrefix p @ ''/'')"

section \<open>Parts of the request\<close>

definition nonblank :: "string \<Rightarrow> bool" where
  "nonblank s \<longleftrightarrow> trim_space s \<noteq> []"

definition stop_item :: "json \<Rightarrow> string option" where
  "stop_item v = (case v of JStr s \<Rightarrow> Some s | JNull \<Rightarrow> Some [] | _ \<Rightarrow> None)"

definition parseCompatStop :: "json option \<Rightarrow> string + string list" where
  "parseCompatStop raw =
     (if \<not> hasCompatValue raw then Inr []
      else (case the raw of
              JStr s \<Rightarrow> Inr (if nonblank s then [s] else [])
            | JArr xs \<Rightarrow>
                (if list_all (\<lambda>x. stop_item x \<noteq> None) xs then Inr (filter nonblank (map (\<lambda>x. the (stop_item x)) xs))
                 else Inl ''stop must be a string or string array'')
            | _ \<Rightarrow> Inl ''stop must be a string or string array''))"

text \<open>The type of the response format and its schema, if it has a JSON schema.\<close>

record response_format =
  rf_type :: string
  rf_schema :: "json option option"

definition response_format_fields :: "(string \<times> response_format field) list" where
  "response_format_fields =
     [(''type'', string_field (\<lambda>x f. f\<lparr>rf_type := x\<rparr>)),
      (''json_schema'', ptr_field rf_schema (\<lambda>x f. f\<lparr>rf_schema := x\<rparr>) None [(''schema'', value_field (\<lambda>x _. x))])]"

definition parseCompatResponseFormat :: "json option \<Rightarrow> string + response_format option" where
  "parseCompatResponseFormat raw =
     (if \<not> hasCompatValue raw then Inr None
      else (case decode_struct response_format_fields (the raw) (\<lparr> rf_type = [], rf_schema = None \<rparr>, True) of
              (f, ok) \<Rightarrow>
                (if \<not> ok then Inl ''response_format must be an object''
                 else (let t = to_lower (trim_space (rf_type f)); spec = f\<lparr>rf_type := t\<rparr> in
                       if t = [] \<or> t = ''text'' \<or> t = ''json_object'' then Inr (Some spec)
                       else if t = ''json_schema'' then
                         (if rf_schema f = None \<or> rf_schema f = Some None
                          then Inl ''response_format json_schema requires json_schema.schema'' else Inr (Some spec))
                       else Inl (''unsupported response_format type: '' @ t)))))"

definition part_fields :: "(string \<times> (string \<times> string) field) list" where
  "part_fields = [(''type'', string_field (\<lambda>x p. (x, snd p))), (''text'', string_field (\<lambda>x p. (fst p, x)))]"

definition blank_line :: string where "blank_line = [newline, newline]"

definition compatExtractTextContent :: "json option \<Rightarrow> string + string" where
  "compatExtractTextContent raw =
     (if \<not> hasCompatValue raw then Inl ''message content is required''
      else (case the raw of
              JStr s \<Rightarrow> Inr s
            | v \<Rightarrow>
                (case decode_list ([], []) part_fields v ([], True) of
                   (parts, ok) \<Rightarrow>
                     (if \<not> ok then Inl ''message content must be a string or text-only content array''
                      else if list_all (\<lambda>p. fst p = ''text'' \<or> fst p = ''input_text'') parts
                      then Inr (join blank_line (map snd parts))
                      else Inl ''only text content parts are supported on the compat surface''))))"

definition compatClaudeDefaultMaxTokens :: int where "compatClaudeDefaultMaxTokens = 4096"

definition compatMaxTokens :: "chat_request \<Rightarrow> int" where
  "compatMaxTokens q =
     (case oc_max_completion_tokens q of
        Some n \<Rightarrow> if 0 < n then n
                  else (case oc_max_tokens q of Some m \<Rightarrow> if 0 < m then m else compatClaudeDefaultMaxTokens
                        | None \<Rightarrow> compatClaudeDefaultMaxTokens)
      | None \<Rightarrow> (case oc_max_tokens q of Some m \<Rightarrow> if 0 < m then m else compatClaudeDefaultMaxTokens
                 | None \<Rightarrow> compatClaudeDefaultMaxTokens))"

definition compatHasTools :: "json option \<Rightarrow> bool" where
  "compatHasTools raw \<longleftrightarrow> hasCompatValue raw \<and> (case the raw of JArr xs \<Rightarrow> xs \<noteq> [] | _ \<Rightarrow> True)"

definition compatHasToolChoice :: "json option \<Rightarrow> bool" where
  "compatHasToolChoice raw \<longleftrightarrow>
     hasCompatValue raw
     \<and> (case the raw of JStr s \<Rightarrow> to_lower (trim_space s) \<noteq> [] \<and> to_lower (trim_space s) \<noteq> ''none'' | _ \<Rightarrow> True)"

text \<open>
  The loop over the messages: the system parts and the turns of the conversation, with the name that the
  provider has for the role of a turn.
\<close>

fun conversation ::
  "(string \<Rightarrow> string) \<Rightarrow> compat_message list \<Rightarrow> string list \<Rightarrow> (string \<times> string) list
   \<Rightarrow> string + string list \<times> (string \<times> string) list" where
  "conversation role_of [] sys turns = Inr (sys, turns)"
| "conversation role_of (m # ms) sys turns =
     and_then (compatExtractTextContent (cm_content m)) (\<lambda>content.
       let role = to_lower (trim_space (cm_role m)) in
       if role = ''system'' \<or> role = ''developer''
       then conversation role_of ms (if content \<noteq> [] then sys @ [content] else sys) turns
       else if role = ''user'' \<or> role = ''assistant''
       then conversation role_of ms sys (turns @ [(role_of role, content)])
       else Inl (''unsupported message role: '' @ trim_space (cm_role m)))"

section \<open>To Claude\<close>

definition compatClaudeUsesModernEnvelope :: "string \<Rightarrow> bool" where
  "compatClaudeUsesModernEnvelope model = ClaudeModelUsesCompatModernEnvelope (trim_space model)"

definition compatClaudeResponseFormatInstruction :: "response_format option \<Rightarrow> string" where
  "compatClaudeResponseFormatInstruction spec =
     (case spec of
        None \<Rightarrow> []
      | Some f \<Rightarrow>
          (if rf_type f = ''json_object''
           then ''Return only a valid JSON object. Do not include markdown fences or extra commentary.''
           else if rf_type f = ''json_schema''
           then ''Return only valid JSON that matches this JSON Schema: ''
                @ json_print (any_norm (case rf_schema f of Some (Some v) \<Rightarrow> v | _ \<Rightarrow> JNull))
           else []))"

definition system_block :: "string \<Rightarrow> json" where
  "system_block t =
     JObj ([(''type'', JStr ''text'')] @ omit_blank ''text'' t
           @ [(''cache_control'', JObj [(''type'', JStr ''ephemeral'')])])"

definition claude_code_line :: string where
  "claude_code_line =
     ''You are Claude Code, Anthropic's official CLI for Claude, running within the Claude Agent SDK.''"

definition compatClaudeSystemValue :: "bool \<Rightarrow> string list \<Rightarrow> json" where
  "compatClaudeSystemValue modern parts =
     (let t = join blank_line parts in
      if \<not> modern then JStr t
      else JArr ([system_block claude_code_line] @ (if nonblank t then [system_block t] else [])))"

record claude_request =
  cr_model :: string
  cr_system :: json
  cr_messages :: "(string \<times> string) list"
  cr_max_tokens :: int
  cr_stream :: bool
  cr_modern :: bool            \<comment> \<open>with the output effort and the adaptive thinking\<close>
  cr_temperature :: "rat option"
  cr_top_p :: "rat option"
  cr_stop_sequences :: "string list"

definition compatOpenAIChatToClaudeRequest :: "chat_request \<Rightarrow> string + claude_request \<times> string" where
  "compatOpenAIChatToClaudeRequest q =
     and_then (ensure (\<not> (compatHasTools (oc_tools q) \<or> compatHasToolChoice (oc_tool_choice q)))
                 ''tools are not supported on the claude compat surface yet'') (\<lambda>_.
     and_then (resolveCompatModel (oc_model q)) (\<lambda>(_, model, requested).
     and_then (ensure (compatProviderMatches ProviderClaude requested)
                 ''model must be a claude model, e.g. claude/claude-sonnet-4-5'') (\<lambda>_.
     and_then (ensure (oc_messages q \<noteq> []) ''messages is required'') (\<lambda>_.
     and_then (parseCompatStop (oc_stop q)) (\<lambda>stops.
     and_then (parseCompatResponseFormat (oc_response_format q)) (\<lambda>fmt.
     and_then (conversation id (oc_messages q) [] []) (\<lambda>(sys, turns).
     and_then (ensure (turns \<noteq> []) ''at least one user or assistant message is required'') (\<lambda>_.
       let modern = compatClaudeUsesModernEnvelope model;
           instruction = compatClaudeResponseFormatInstruction fmt;
           parts = (if instruction \<noteq> [] then sys @ [instruction] else sys)
       in Inr (\<lparr> cr_model = model, cr_system = compatClaudeSystemValue modern parts, cr_messages = turns,
                 cr_max_tokens = compatMaxTokens q, cr_stream = oc_stream q, cr_modern = modern,
                 cr_temperature = (if modern then None else oc_temperature q), cr_top_p = oc_top_p q,
                 cr_stop_sequences = stops \<rparr>, requested)))))))))"

definition opt_float :: "string \<Rightarrow> rat option \<Rightarrow> (string \<times> json) list" where
  "opt_float k ox = (case ox of None \<Rightarrow> [] | Some x \<Rightarrow> [(k, JNum (print_float x))])"

definition opt_strings :: "string \<Rightarrow> string list \<Rightarrow> (string \<times> json) list" where
  "opt_strings k ss = (if ss = [] then [] else [(k, JArr (map JStr ss))])"

definition claude_request_members :: "claude_request \<Rightarrow> (string \<times> json) list" where
  "claude_request_members r =
     [(''model'', JStr (cr_model r)), (''system'', cr_system r),
      (''messages'', JArr (map (\<lambda>(role, content). JObj [(''role'', JStr role), (''content'', JStr content)]) (cr_messages r))),
      (''max_tokens'', JNum (itoa (cr_max_tokens r))), (''stream'', JBool (cr_stream r))]
     @ (if cr_modern r then [(''output_config'', JObj [(''effort'', JStr ''medium'')]),
                             (''thinking'', JObj [(''type'', JStr ''adaptive'')])] else [])
     @ opt_float ''temperature'' (cr_temperature r) @ opt_float ''top_p'' (cr_top_p r)
     @ opt_strings ''stop_sequences'' (cr_stop_sequences r)"

definition compatClaudeUpstreamHeaders :: "string \<Rightarrow> header" where
  "compatClaudeUpstreamHeaders model =
     (if \<not> compatClaudeUsesModernEnvelope model then []
      else h_set ''X-App'' ''cli''
             (h_set ''Anthropic-Dangerous-Direct-Browser-Access'' ''true''
               (h_set ''Anthropic-Beta''
                  (join '','' [''redact-thinking-2026-02-12'', ''context-management-2025-06-27'',
                     ''prompt-caching-scope-2026-01-05'', ''effort-2025-11-24'']) [])))"

section \<open>To Gemini\<close>

record gemini_request =
  gr_model :: string
  gr_contents :: "(string \<times> string) list"
  gr_system :: "string option"
  gr_max_tokens :: int
  gr_temperature :: "rat option"
  gr_top_p :: "rat option"
  gr_stop_sequences :: "string list"
  gr_mime_type :: string
  gr_schema :: "json option"

definition gemini_role :: "string \<Rightarrow> string" where
  "gemini_role role = (if role = ''assistant'' then ''model'' else role)"

text \<open>The MIME type and the schema for a response format.\<close>

definition applyCompatGeminiResponseFormat :: "response_format option \<Rightarrow> string + string \<times> json option" where
  "applyCompatGeminiResponseFormat spec =
     (case spec of
        None \<Rightarrow> Inr ([], None)
      | Some f \<Rightarrow>
          (if rf_type f = [] \<or> rf_type f = ''text'' then Inr ([], None)
           else if rf_type f = ''json_object'' then Inr (''application/json'', None)
           else if rf_type f = ''json_schema''
           then Inr (''application/json'', case rf_schema f of Some ov \<Rightarrow> ov | None \<Rightarrow> None)
           else Inl (''unsupported response_format type: '' @ rf_type f)))"

definition compatOpenAIChatToGeminiRequest :: "chat_request \<Rightarrow> string + gemini_request" where
  "compatOpenAIChatToGeminiRequest q =
     and_then (ensure (\<not> (compatHasTools (oc_tools q) \<or> compatHasToolChoice (oc_tool_choice q)))
                 ''tools are not supported on the gemini compat surface yet'') (\<lambda>_.
     and_then (resolveCompatModel (oc_model q)) (\<lambda>(_, model, requested).
     and_then (ensure (compatProviderMatches ProviderGemini requested)
                 ''model must be a gemini model, e.g. gemini/gemini-2.5-flash'') (\<lambda>_.
     and_then (ensure (oc_messages q \<noteq> []) ''messages is required'') (\<lambda>_.
     and_then (parseCompatStop (oc_stop q)) (\<lambda>stops.
     and_then (parseCompatResponseFormat (oc_response_format q)) (\<lambda>fmt.
     and_then (applyCompatGeminiResponseFormat fmt) (\<lambda>(mime, schema).
     and_then (conversation gemini_role (oc_messages q) [] []) (\<lambda>(sys, turns).
     and_then (ensure (turns \<noteq> []) ''at least one user or assistant message is required'') (\<lambda>_.
       Inr \<lparr> gr_model = model, gr_contents = turns, gr_system = (if sys \<noteq> [] then Some (join blank_line sys) else None),
             gr_max_tokens = (if compatMaxTokens q \<le> 0 then compatClaudeDefaultMaxTokens else compatMaxTokens q),
             gr_temperature = oc_temperature q, gr_top_p = oc_top_p q, gr_stop_sequences = stops,
             gr_mime_type = mime, gr_schema = schema \<rparr>)))))))))"

definition gemini_part :: "string \<Rightarrow> json" where
  "gemini_part t = JObj (omit_blank ''text'' t)"

definition gemini_request_members :: "gemini_request \<Rightarrow> (string \<times> json) list" where
  "gemini_request_members r =
     omit_blank ''model'' (gr_model r)
     @ [(''contents'', JArr (map (\<lambda>(role, t). JObj (omit_blank ''role'' role @ [(''parts'', JArr [gemini_part t])])) (gr_contents r)))]
     @ (case gr_system r of None \<Rightarrow> [] | Some t \<Rightarrow> [(''systemInstruction'', JObj [(''parts'', JArr [gemini_part t])])])
     @ [(''generationConfig'', JObj
          (omit_int ''maxOutputTokens'' (gr_max_tokens r) @ opt_float ''temperature'' (gr_temperature r)
           @ opt_float ''topP'' (gr_top_p r) @ opt_strings ''stopSequences'' (gr_stop_sequences r)
           @ omit_blank ''responseMimeType'' (gr_mime_type r)
           @ (case gr_schema r of None \<Rightarrow> [] | Some v \<Rightarrow> [(''responseJsonSchema'', any_norm v)])))]"

section \<open>The target of a request\<close>

record compat_target =
  ct_provider :: provider
  ct_requested_model :: string
  ct_relay_path :: string
  ct_upstream_body :: string
  ct_upstream_accept :: string
  ct_upstream_headers :: header
  ct_stream :: bool

definition buildCompatTarget :: "chat_request \<Rightarrow> string + compat_target" where
  "buildCompatTarget q =
     and_then (resolveCompatModel (oc_model q)) (\<lambda>(provider, _, requested).
       if provider = ProviderClaude then
         and_then (compatOpenAIChatToClaudeRequest q) (\<lambda>(r, _).
           Inr \<lparr> ct_provider = ProviderClaude, ct_requested_model = requested, ct_relay_path = ''/v1/messages'',
                 ct_upstream_body = json_print (JObj (claude_request_members r)),
                 ct_upstream_accept = ''text/event-stream'',
                 ct_upstream_headers = compatClaudeUpstreamHeaders (cr_model r), ct_stream = oc_stream q \<rparr>)
       else if provider = ProviderGemini then
         and_then (compatOpenAIChatToGeminiRequest q) (\<lambda>r.
           Inr \<lparr> ct_provider = ProviderGemini, ct_requested_model = requested,
                 ct_relay_path = (if oc_stream q then ''/gemini/v1internal:streamGenerateContent''
                                  else ''/gemini/v1internal:generateContent''),
                 ct_upstream_body = json_print (JObj (gemini_request_members r)), ct_upstream_accept = [],
                 ct_upstream_headers = [], ct_stream = oc_stream q \<rparr>)
       else Inl ''unsupported compat provider'')"

end
