(* ===== verification/CompatRequest.thy ===== *)
theory CompatRequest
  imports Compat
begin

text \<open>
  The properties of the requests of the compat surface: model names are normal forms, a translated body is well
  typed and carries the whole conversation.
\<close>

section \<open>Model names\<close>

definition trimmed_text :: "string \<Rightarrow> bool" where
  "trimmed_text s \<longleftrightarrow> trim_space s = s"

lemma dropWhile_id: "xs = [] \<or> \<not> P (hd xs) \<Longrightarrow> dropWhile P xs = xs"
  by (cases xs) auto

lemma trimmed_iff: "trimmed_text s \<longleftrightarrow> s = [] \<or> (\<not> is_space (hd s) \<and> \<not> is_space (last s))"
proof (cases "s = []")
  case False
  have "trim_space s = s" if "\<not> is_space (hd s)" "\<not> is_space (last s)"
    using that False by (simp add: trim_space_def dropWhile_id hd_rev)
  moreover have "\<not> is_space (hd s) \<and> \<not> is_space (last s)" if t: "trim_space s = s"
  proof -
    let ?d = "dropWhile is_space s"
    have "length (dropWhile is_space (rev ?d)) \<le> length ?d" using length_dropWhile_le [of is_space "rev ?d"] by simp
    with t have l: "length ?d = length s"
      using length_dropWhile_le [of is_space s] unfolding trim_space_def by (metis le_antisym length_rev)
    then have d: "?d = s" by (metis dropWhile_eq_drop drop_0 length_drop diff_is_0_eq diff_self_eq_0 le_refl
        append_Nil takeWhile_dropWhile_id append_same_eq length_append add_cancel_left_left length_0_conv)
    have "rev (dropWhile is_space (rev s)) = s" using t d by (simp add: trim_space_def)
    then have "dropWhile is_space (rev s) = rev s" by (metis rev_rev_ident)
    with d False show ?thesis by (metis dropWhile_eq_Cons_conv hd_Cons_tl hd_rev rev_is_Nil_conv)
  qed
  ultimately show ?thesis using False by (auto simp: trimmed_text_def)
qed (simp add: trimmed_text_def)

lemma is_space_lower [simp]: "is_space (char_lower c) = is_space c"
  by (auto simp: is_space_def char_lower_def Let_def of_char_256)

lemma trimmed_lower: "trimmed_text s \<Longrightarrow> trimmed_text (to_lower s)"
  by (cases "s = []") (auto simp: trimmed_iff to_lower_def hd_map last_map)

lemma trimmed_trim [simp]: "trimmed_text (trim_space s)"
  by (simp add: trimmed_text_def)

lemma trimmed_prefixed: "trimmed_text b \<Longrightarrow> b \<noteq> [] \<Longrightarrow> \<not> is_space c \<Longrightarrow> trimmed_text (c # a @ b)"
  by (auto simp: trimmed_iff)

lemma alias_fixed:
  "(k, v) \<in> set compatClaudeModelAliases \<Longrightarrow> compatCanonicalClaudeModel v = v \<and> trim_space v = v"
proof -
  have "list_all (\<lambda>kv. compatCanonicalClaudeModel (snd kv) = snd kv \<and> trim_space (snd kv) = snd kv) compatClaudeModelAliases"
    by code_simp
  then show "(k, v) \<in> set compatClaudeModelAliases \<Longrightarrow> ?thesis" by (auto simp: list_all_iff)
qed

lemma canonical_fixed:
  "compatCanonicalClaudeModel (compatCanonicalClaudeModel m) = compatCanonicalClaudeModel m"
  "trim_space (compatCanonicalClaudeModel m) = compatCanonicalClaudeModel m"
proof -
  let ?t = "to_lower (trim_space m)"
  have "compatCanonicalClaudeModel (compatCanonicalClaudeModel m) = compatCanonicalClaudeModel m
      \<and> trim_space (compatCanonicalClaudeModel m) = compatCanonicalClaudeModel m"
  proof (cases "map_of compatClaudeModelAliases ?t")
    case None
    have "trim_space ?t = ?t" using trimmed_lower [OF trimmed_trim] by (simp add: trimmed_text_def)
    with None show ?thesis by (simp add: compatCanonicalClaudeModel_def)
  next
    case (Some c)
    then have "compatCanonicalClaudeModel m = c" by (simp add: compatCanonicalClaudeModel_def)
    with alias_fixed [OF map_of_SomeD [OF Some]] show ?thesis by simp
  qed
  then show "compatCanonicalClaudeModel (compatCanonicalClaudeModel m) = compatCanonicalClaudeModel m"
    "trim_space (compatCanonicalClaudeModel m) = compatCanonicalClaudeModel m" by blast+
qed

lemma split_requested:
  assumes "trim_space b = b"
  shows "split_model (''claude/'' @ b) = (''claude'', b)" "split_model (''gemini/'' @ b) = (''gemini'', b)"
proof -
  have "to_lower (trim_space ''claude'') = ''claude''" "to_lower (trim_space ''gemini'') = ''gemini''" by code_simp+
  with assms show "split_model (''claude/'' @ b) = (''claude'', b)" "split_model (''gemini/'' @ b) = (''gemini'', b)"
    by (simp_all add: split_model_def cut_at_def)
qed

lemma trim_requested:
  assumes "trim_space b = b" "b \<noteq> []"
  shows "trim_space (''claude/'' @ b) = ''claude/'' @ b" "trim_space (''gemini/'' @ b) = ''gemini/'' @ b"
proof -
  have "\<not> is_space CHR ''c''" "\<not> is_space CHR ''g''" by code_simp+
  then show "trim_space (''claude/'' @ b) = ''claude/'' @ b" "trim_space (''gemini/'' @ b) = ''gemini/'' @ b"
    using trimmed_prefixed [of b "CHR ''c''" "''laude/''"] trimmed_prefixed [of b "CHR ''g''" "''emini/''"] assms
    by (simp_all add: trimmed_text_def)
qed

lemma resolve_cases:
  assumes "resolveCompatModel m = Inr (p, b, r)"
  shows "p = ProviderClaude \<and> r = ''claude/'' @ b \<and> has_prefix b ''claude-'' \<and> compatCanonicalClaudeModel b = b
           \<and> trim_space b = b
    \<or> p = ProviderGemini \<and> r = ''gemini/'' @ b \<and> has_prefix b ''gemini-'' \<and> trim_space b = b"
proof -
  have t: "trim_space (snd (split_model (trim_space m))) = snd (split_model (trim_space m))"
    by (simp add: split_model_def)
  show ?thesis
    using assms canonical_fixed [of "snd (split_model (trim_space m))"] t
    by (auto simp: resolveCompatModel_def Let_def split: if_splits)
qed

text \<open>A resolved model name is a normal form. The name that the compat surface answers with and routes by
  resolves to itself (same provider, same upstream model), whatever prefix, alias, case or white space the
  client used; it names a model of exactly one of the two providers.\<close>
theorem model_names_normal:
  assumes "resolveCompatModel m = Inr (p, b, r)"
  shows "resolveCompatModel r = Inr (p, b, r) \<and> compatProviderMatches p r
    \<and> r = compatProviderPrefix p @ ''/'' @ b \<and> p \<in> set compatSupportedProviders"
proof -
  have pp: "ProviderClaude \<noteq> ProviderGemini" by (simp add: ProviderClaude_def ProviderGemini_def)
  from resolve_cases [OF assms] consider
    (c) "p = ProviderClaude" "r = ''claude/'' @ b" "has_prefix b ''claude-''" "compatCanonicalClaudeModel b = b" "trim_space b = b"
  | (g) "p = ProviderGemini" "r = ''gemini/'' @ b" "has_prefix b ''gemini-''" "trim_space b = b" by blast
  then show ?thesis
  proof cases
    case c
    then have b: "b \<noteq> []" by (auto simp: has_prefix_def)
    have r: "trim_space r = r" "split_model r = (''claude'', b)" "r \<noteq> []"
      using trim_requested(1) [OF c(5) b] split_requested(1) [OF c(5)] c(2) by (simp_all only: append_is_Nil_conv list.distinct simp_thms)
    have "resolveCompatModel r = Inr (p, b, r)"
      using r c(3,4) by (simp add: resolveCompatModel_def Let_def c(1)) (simp add: c(2))
    then show ?thesis using c by (simp add: compatProviderMatches_def compatProviderPrefix_def compatSupportedProviders_def has_prefix_def)
  next
    case g
    then have b: "b \<noteq> []" by (auto simp: has_prefix_def)
    have r: "trim_space r = r" "split_model r = (''gemini'', b)" "r \<noteq> []"
      using trim_requested(2) [OF g(4) b] split_requested(2) [OF g(4)] g(2) by (simp_all only: append_is_Nil_conv list.distinct simp_thms)
    have "resolveCompatModel r = Inr (p, b, r)"
      using r g(3) by (simp add: resolveCompatModel_def Let_def g(1)) (simp add: g(2))
    then show ?thesis using g pp by (simp add: compatProviderMatches_def compatProviderPrefix_def compatSupportedProviders_def has_prefix_def)
  qed
qed

theorem model_names_normal_witness:
  "resolveCompatModel ''claude/claude-sonnet-4-5'' = Inr (ProviderClaude, ''claude-sonnet-4-5'', ''claude/claude-sonnet-4-5'')"
proof -
  have "resolveCompatModel '' Anthropic/Claude-Sonnet-4.5'' = Inr (ProviderClaude, ''claude-sonnet-4-5'', ''claude/claude-sonnet-4-5'')"
    by code_simp
  from model_names_normal [OF this] show ?thesis by blast
qed

section \<open>Conversations\<close>

text \<open>The turns and the instructions of a conversation, and when it is accepted.\<close>

definition message_role :: "compat_message \<Rightarrow> string" where
  "message_role m = to_lower (trim_space (cm_role m))"

definition message_text :: "compat_message \<Rightarrow> string" where
  "message_text m = (case compatExtractTextContent (cm_content m) of Inr t \<Rightarrow> t | Inl _ \<Rightarrow> [])"

definition is_turn :: "compat_message \<Rightarrow> bool" where
  "is_turn m \<longleftrightarrow> message_role m = ''user'' \<or> message_role m = ''assistant''"

definition is_instruction :: "compat_message \<Rightarrow> bool" where
  "is_instruction m \<longleftrightarrow> message_role m = ''system'' \<or> message_role m = ''developer''"

definition accepted_message :: "compat_message \<Rightarrow> bool" where
  "accepted_message m \<longleftrightarrow> (is_turn m \<or> is_instruction m) \<and> (\<exists>t. compatExtractTextContent (cm_content m) = Inr t)"

definition turns_of :: "(string \<Rightarrow> string) \<Rightarrow> compat_message list \<Rightarrow> (string \<times> string) list" where
  "turns_of role_of ms = map (\<lambda>m. (role_of (message_role m), message_text m)) (filter is_turn ms)"

definition instructions_of :: "compat_message list \<Rightarrow> string list" where
  "instructions_of ms = filter (\<lambda>t. t \<noteq> []) (map message_text (filter is_instruction ms))"

lemma turn_no_instruction: "is_turn m \<Longrightarrow> \<not> is_instruction m"
  unfolding is_turn_def is_instruction_def by (elim disjE) simp_all

lemma conversation_iff:
  "conversation role_of ms sys turns = Inr res \<longleftrightarrow>
     list_all accepted_message ms \<and> res = (sys @ instructions_of ms, turns @ turns_of role_of ms)"
proof (induction role_of ms sys turns rule: conversation.induct)
  case (1 role_of sys turns)
  then show ?case by (auto simp: turns_of_def instructions_of_def)
next
  case (2 role_of m ms sys turns)
  show ?case
  proof (cases "compatExtractTextContent (cm_content m)")
    case (Inl e)
    then show ?thesis by (simp add: accepted_message_def)
  next
    case (Inr t)
    have mt: "message_text m = t" by (simp add: message_text_def Inr)
    consider (i) "is_instruction m" "\<not> is_turn m" | (t) "is_turn m" "\<not> is_instruction m" | (n) "\<not> is_turn m" "\<not> is_instruction m"
      using turn_no_instruction [of m] by blast
    then show ?thesis
    proof cases
      case i
      then have c: "to_lower (trim_space (cm_role m)) = ''system'' \<or> to_lower (trim_space (cm_role m)) = ''developer''"
        by (simp add: is_instruction_def message_role_def)
      then have "conversation role_of (m # ms) sys turns = conversation role_of ms (if t \<noteq> [] then sys @ [t] else sys) turns"
        by (simp add: Inr Let_def)
      moreover have "accepted_message m" using i Inr by (simp add: accepted_message_def)
      moreover have "turns_of role_of (m # ms) = turns_of role_of ms"
        "instructions_of (m # ms) = (if t \<noteq> [] then [t] else []) @ instructions_of ms"
        using i mt by (simp_all add: turns_of_def instructions_of_def)
      ultimately show ?thesis using "2.IH"(1) [OF refl c, of t] by (auto split: if_splits)
    next
      case t
      have u: "to_lower (trim_space (cm_role m)) = ''user'' \<or> to_lower (trim_space (cm_role m)) = ''assistant''"
        using t(1) by (simp add: is_turn_def message_role_def)
      have c: "\<not> (to_lower (trim_space (cm_role m)) = ''system'' \<or> to_lower (trim_space (cm_role m)) = ''developer'')"
        using t(2) by (simp add: is_instruction_def message_role_def)
      have "conversation role_of (m # ms) sys turns = conversation role_of ms sys (turns @ [(role_of (message_role m), t)])"
        unfolding conversation.simps Inr and_then_simps Let_def by (simp only: c u if_False if_True message_role_def)
      moreover have "accepted_message m" using t Inr by (simp add: accepted_message_def)
      moreover have "turns_of role_of (m # ms) = (role_of (message_role m), t) # turns_of role_of ms"
        "instructions_of (m # ms) = instructions_of ms"
        using t mt by (simp_all add: turns_of_def instructions_of_def)
      ultimately show ?thesis using "2.IH"(2) [OF refl c u, of t] by (simp add: message_role_def)
    next
      case n
      then show ?thesis by (auto simp: Inr Let_def is_turn_def is_instruction_def message_role_def accepted_message_def)
    qed
  qed
qed

section \<open>What the decoder guarantees\<close>

text \<open>The request as the decoder leaves it: numbers that a JSON document can carry.\<close>

definition request_numbers :: "chat_request \<Rightarrow> bool" where
  "request_numbers q \<longleftrightarrow>
     (\<forall>x. oc_temperature q = Some x \<longrightarrow> double x) \<and> (\<forall>x. oc_top_p q = Some x \<longrightarrow> double x)
     \<and> (\<forall>n. oc_max_tokens q = Some n \<longrightarrow> fits64 n) \<and> (\<forall>n. oc_max_completion_tokens q = Some n \<longrightarrow> fits64 n)"

lemma keeps_plain:
  "(\<And>x s. P s \<Longrightarrow> P (upd x s)) \<Longrightarrow> keeps P (raw_field upd)"
  "(\<And>x s. P s \<Longrightarrow> P (updb x s)) \<Longrightarrow> keeps P (bool_field updb)"
  "(\<And>x s. P s \<Longrightarrow> P (updl x s)) \<Longrightarrow> keeps P (list_field get updl z fs)"
  by (auto simp: keeps_def raw_field_def bool_field_def list_field_def fail_def case_prod_beta split: json.split)

lemma keeps_int_ptr:
  "(\<And>s. P s \<Longrightarrow> P (upd None s)) \<Longrightarrow> (\<And>x s. fits64 x \<Longrightarrow> P s \<Longrightarrow> P (upd (Some x) s)) \<Longrightarrow> keeps P (int_ptr_field upd)"
  using keeps_int [of P "\<lambda>x. upd (Some x)"] by (auto simp: keeps_def int_ptr_field_def)

lemma keeps_float_ptr:
  "(\<And>s. P s \<Longrightarrow> P (upd None s)) \<Longrightarrow> (\<And>x s. double x \<Longrightarrow> P s \<Longrightarrow> P (upd (Some x) s)) \<Longrightarrow> keeps P (float_ptr_field upd)"
  using keeps_float [of P "\<lambda>x. upd (Some x)"] by (auto simp: keeps_def float_ptr_field_def)

lemma decoded_numbers:
  assumes "decode_body chat_request_fields body empty_chat_request = Some q"
  shows "request_numbers q"
proof -
  have k: "list_all (\<lambda>kf. keeps request_numbers (snd kf)) chat_request_fields"
    unfolding chat_request_fields_def list.pred_inject snd_conv
    by (intro conjI keeps_plain keeps_string keeps_int_ptr keeps_float_ptr) (simp_all add: request_numbers_def)
  obtain v rest where v: "decode_struct chat_request_fields v (empty_chat_request, True) = (q, True)"
    using assms by (auto simp: decode_body_def case_prod_beta prod_eq_iff split: option.splits if_splits)
  have "request_numbers (fst (decode_struct chat_request_fields v (empty_chat_request, True)))"
  proof (rule decode_struct_invariant)
    show "request_numbers (fst (empty_chat_request, True))" by (simp add: request_numbers_def empty_chat_request_def)
    show "request_numbers (fst (f w sb))" if "f \<in> snd ` set chat_request_fields" "request_numbers (fst sb)" for f w sb
    proof -
      from that(1) obtain kf where "kf \<in> set chat_request_fields" "f = snd kf" by blast
      with k have "keeps request_numbers f" by (simp add: list_all_iff)
      with that(2) show ?thesis unfolding keeps_def by blast
    qed
  qed
  with v show ?thesis by simp
qed

section \<open>Documents that can be printed\<close>

lemma json_ok_any_norm: "numbers_ok v \<Longrightarrow> json_ok (any_norm v)"
proof (induction v)
  case (JNum l)
  then obtain x where "parse_float l = Some x" by auto
  with parse_float_fl [of l x] show ?case by (simp add: scan_print_float)
next
  case (JObj kvs)
  have sub: "set (foldl (\<lambda>m kv. AList.update (fst kv) (snd kv) m) m ys) \<subseteq> set m \<union> set ys" for m and ys :: "(string \<times> json) list"
  proof (induction ys arbitrary: m)
    case (Cons y ys)
    have "set (AList.update k v m) \<subseteq> insert (k, v) (set m)" for k v and m :: "(string \<times> json) list"
      by (induction m) auto
    from this [of "fst y" "snd y" m] Cons [of "AList.update (fst y) (snd y) m"] show ?case by auto
  qed simp
  have ok: "json_ok (any_norm (snd kv))" if "kv \<in> set kvs" for kv
    using that JObj by (cases kv) (auto simp: snds.simps)
  have "set (go_members (map (\<lambda>kv. (fst kv, any_norm (snd kv))) kvs)) \<subseteq> set (map (\<lambda>kv. (fst kv, any_norm (snd kv))) kvs)"
    using sub [of "[]" "map (\<lambda>kv. (fst kv, any_norm (snd kv))) kvs"] by (simp add: go_members_def)
  then show ?case using ok by fastforce
qed auto

lemma schema_numbers:
  assumes "parseCompatResponseFormat raw = Inr (Some f)" "rf_schema f = Some (Some v)"
  shows "numbers_ok v"
proof -
  define P where "P = (\<lambda>f :: response_format. \<forall>v. rf_schema f = Some (Some v) \<longrightarrow> numbers_ok v)"
  have inner: "\<forall>v. fst (decode_struct [(''schema'', value_field (\<lambda>x _. x))] w (s, b)) = Some v \<longrightarrow> numbers_ok v"
    if "\<forall>v. s = Some v \<longrightarrow> numbers_ok v" for w s b
    by (rule decode_struct_invariant [where P = "\<lambda>s. \<forall>v. s = Some v \<longrightarrow> numbers_ok v"])
      (use that in \<open>auto simp: value_field_def fail_def\<close>)
  have step: "P (fst (g w sb))" if g: "g \<in> snd ` set response_format_fields" and "P (fst sb)" for g w and sb :: "response_format \<times> bool"
  proof -
    from g consider "g = string_field (\<lambda>x f. f\<lparr>rf_type := x\<rparr>)"
      | "g = ptr_field rf_schema (\<lambda>x f. f\<lparr>rf_schema := x\<rparr>) None [(''schema'', value_field (\<lambda>x _. x))]"
      by (auto simp: response_format_fields_def)
    then show ?thesis
    proof cases
      case 1
      with that show ?thesis by (auto simp: P_def string_field_def fail_def split: json.split)
    next
      case 2
      define t0 where "t0 = (case rf_schema (fst sb) of Some t \<Rightarrow> t | None \<Rightarrow> None)"
      have t0: "\<forall>v. t0 = Some v \<longrightarrow> numbers_ok v" using that(2) by (auto simp: t0_def P_def split: option.split)
      have "rf_schema (fst (g w sb)) = None
          \<or> rf_schema (fst (g w sb)) = Some (fst (decode_struct [(''schema'', value_field (\<lambda>x _. x))] w (t0, snd sb)))"
        unfolding 2 ptr_field_def t0_def by (cases w) (simp_all add: case_prod_beta)
      with inner [OF t0, of w "snd sb"] show ?thesis unfolding P_def by auto
    qed
  qed
  have "P (fst (decode_struct response_format_fields (the raw) (\<lparr> rf_type = [], rf_schema = None \<rparr>, True)))"
  proof (rule decode_struct_invariant [where P = P])
    show "P (fst (\<lparr> rf_type = [], rf_schema = None \<rparr>, True))" by (simp add: P_def)
  qed (rule step)
  moreover obtain g ok where d: "decode_struct response_format_fields (the raw) (\<lparr> rf_type = [], rf_schema = None \<rparr>, True) = (g, ok)"
    by (cases "decode_struct response_format_fields (the raw) (\<lparr> rf_type = [], rf_schema = None \<rparr>, True)")
  ultimately have "P g" by simp
  moreover have "rf_schema f = rf_schema g"
    using assms(1) unfolding parseCompatResponseFormat_def d prod.case Let_def by (simp split: if_splits) auto
  ultimately show ?thesis using assms(2) by (simp add: P_def)
qed

section \<open>The shape of a translated body\<close>

text \<open>Whether an optional member is a number of the type, an optional member is a list of stop strings.\<close>

definition float_member :: "json option \<Rightarrow> bool" where
  "float_member v \<longleftrightarrow> (case v of None \<Rightarrow> True | Some (JNum l) \<Rightarrow> parse_float l \<noteq> None | _ \<Rightarrow> False)"

definition positive_member :: "json option \<Rightarrow> bool" where
  "positive_member v \<longleftrightarrow> (case v of Some (JNum l) \<Rightarrow> (case lit_int l of Some n \<Rightarrow> 0 < n | None \<Rightarrow> False) | _ \<Rightarrow> False)"

definition stop_member :: "json option \<Rightarrow> bool" where
  "stop_member v \<longleftrightarrow>
     (case v of None \<Rightarrow> True
      | Some (JArr xs) \<Rightarrow> xs \<noteq> [] \<and> list_all (\<lambda>x. case x of JStr s \<Rightarrow> nonblank s | _ \<Rightarrow> False) xs | _ \<Rightarrow> False)"

text \<open>The role and the text of a message of Claude, of a content of Gemini.\<close>

definition claude_turn :: "json \<Rightarrow> (string \<times> string) option" where
  "claude_turn m =
     (case (jget ''role'' (jmembers m), jget ''content'' (jmembers m)) of
        (Some (JStr r), Some (JStr t)) \<Rightarrow> Some (r, t) | _ \<Rightarrow> None)"

definition parts_text :: "json \<Rightarrow> string option" where
  "parts_text m =
     (case jget ''parts'' (jmembers m) of
        Some (JArr [p]) \<Rightarrow> (case jget ''text'' (jmembers p) of None \<Rightarrow> Some [] | Some (JStr t) \<Rightarrow> Some t | _ \<Rightarrow> None)
      | _ \<Rightarrow> None)"

definition gemini_turn :: "json \<Rightarrow> (string \<times> string) option" where
  "gemini_turn m =
     (case (jget ''role'' (jmembers m), parts_text m) of (Some (JStr r), Some t) \<Rightarrow> Some (r, t) | _ \<Rightarrow> None)"

text \<open>The turns of a body; \<open>None\<close> when a message is not of the provider's type.\<close>

fun all_some :: "'a option list \<Rightarrow> 'a list option" where
  "all_some [] = Some []"
| "all_some (None # xs) = None"
| "all_some (Some x # xs) = map_option ((#) x) (all_some xs)"

lemma all_some_map [simp]: "(\<And>x. x \<in> set xs \<Longrightarrow> f x = Some (g x)) \<Longrightarrow> all_some (map f xs) = Some (map g xs)"
  by (induction xs) auto

definition upstream_turns :: "provider \<Rightarrow> json \<Rightarrow> (string \<times> string) list option" where
  "upstream_turns p j =
     (case jget (if p = ProviderClaude then ''messages'' else ''contents'') (jmembers j) of
        Some (JArr ms) \<Rightarrow> all_some (map (if p = ProviderClaude then claude_turn else gemini_turn) ms) | _ \<Rightarrow> None)"

definition claude_typed :: "json \<Rightarrow> bool" where
  "claude_typed j \<longleftrightarrow>
     (let m = jmembers j in
      has_prefix (jstring (jget ''model'' m)) ''claude-''
      \<and> positive_member (jget ''max_tokens'' m) \<and> float_member (jget ''temperature'' m) \<and> float_member (jget ''top_p'' m)
      \<and> stop_member (jget ''stop_sequences'' m)
      \<and> (case upstream_turns ProviderClaude j of
           Some ts \<Rightarrow> ts \<noteq> [] \<and> list_all (\<lambda>t. fst t = ''user'' \<or> fst t = ''assistant'') ts | None \<Rightarrow> False)
      \<and> (case jget ''system'' m of
           Some (JStr _) \<Rightarrow> True
         | Some (JArr bs) \<Rightarrow> list_all (\<lambda>b. jget ''type'' (jmembers b) = Some (JStr ''text'') \<and> jstring (jget ''text'' (jmembers b)) \<noteq> []) bs
         | _ \<Rightarrow> False))"

definition gemini_typed :: "json \<Rightarrow> bool" where
  "gemini_typed j \<longleftrightarrow>
     (let m = jmembers j; c = jmembers (case jget ''generationConfig'' m of Some c \<Rightarrow> c | None \<Rightarrow> JNull) in
      has_prefix (jstring (jget ''model'' m)) ''gemini-''
      \<and> positive_member (jget ''maxOutputTokens'' c) \<and> float_member (jget ''temperature'' c) \<and> float_member (jget ''topP'' c)
      \<and> stop_member (jget ''stopSequences'' c)
      \<and> (case upstream_turns ProviderGemini j of
           Some ts \<Rightarrow> ts \<noteq> [] \<and> list_all (\<lambda>t. fst t = ''user'' \<or> fst t = ''model'') ts | None \<Rightarrow> False)
      \<and> (case jget ''systemInstruction'' m of None \<Rightarrow> True | Some s \<Rightarrow> parts_text s \<noteq> None)
      \<and> (jget ''responseJsonSchema'' c \<noteq> None \<longrightarrow> jget ''responseMimeType'' c = Some (JStr ''application/json'')))"

text \<open>The instructions that a body carries.\<close>

definition upstream_instructions :: "json \<Rightarrow> string" where
  "upstream_instructions j =
     (case jget ''system'' (jmembers j) of
        Some (JStr s) \<Rightarrow> s
      | Some (JArr [_, b]) \<Rightarrow> jstring (jget ''text'' (jmembers b))
      | Some _ \<Rightarrow> []
      | None \<Rightarrow> (case jget ''systemInstruction'' (jmembers j) of
                   Some s \<Rightarrow> (case parts_text s of Some t \<Rightarrow> t | None \<Rightarrow> []) | None \<Rightarrow> []))"

section \<open>Reading a translated body back\<close>

lemma jget_append: "jget k (xs @ ys) = (case jget k ys of Some v \<Rightarrow> Some v | None \<Rightarrow> jget k xs)"
  by (simp add: jget_def map_add_def split: option.split)

lemma jget_Cons: "jget k ((k', v) # kvs) = (case jget k kvs of Some w \<Rightarrow> Some w | None \<Rightarrow> if k = k' then Some v else None)"
  by (auto simp: jget_def map_add_def split: option.split)

lemma jget_optional [simp]:
  "jget k (omit_blank k' s) = (if k = k' \<and> s \<noteq> [] then Some (JStr s) else None)"
  "jget k (opt_float k' ox) = (if k = k' then map_option (\<lambda>x. JNum (print_float x)) ox else None)"
  "jget k (opt_strings k' ss) = (if k = k' \<and> ss \<noteq> [] then Some (JArr (map JStr ss)) else None)"
  "jget k (omit_int k' n) = (if k = k' \<and> n \<noteq> 0 then Some (JNum (itoa n)) else None)"
  by (auto simp: omit_blank_def opt_float_def opt_strings_def omit_int_def jget_def split: option.split)

lemma float_member_print: "(\<And>x. ox = Some x \<Longrightarrow> double x) \<Longrightarrow> float_member (map_option (\<lambda>x. JNum (print_float x)) ox)"
  by (cases ox) (auto simp: float_member_def double_def parse_print_float)

lemma positive_itoa: "0 < n \<Longrightarrow> fits64 n \<Longrightarrow> positive_member (Some (JNum (itoa n)))"
  by (simp add: positive_member_def)

lemma max_tokens_range: "request_numbers q \<Longrightarrow> 0 < compatMaxTokens q \<and> fits64 (compatMaxTokens q)"
  by (auto simp: compatMaxTokens_def request_numbers_def compatClaudeDefaultMaxTokens_def fits64_def split: option.split)

lemma stops_nonblank: "parseCompatStop raw = Inr ss \<Longrightarrow> list_all nonblank ss"
  by (auto simp: parseCompatStop_def list_all_iff split: if_splits option.splits json.splits)

lemma stop_member_print: "list_all nonblank ss \<Longrightarrow> stop_member (if ss \<noteq> [] then Some (JArr (map JStr ss)) else None)"
  by (simp add: stop_member_def list_all_iff)

lemma turns_Claude [simp]:
  "claude_turn (JObj [(''role'', JStr r), (''content'', JStr t)]) = Some (r, t)"
  by (simp add: claude_turn_def jmembers_def jget_Cons)

lemma parts_text_part [simp]:
  "parts_text (JObj [(''parts'', JArr [gemini_part t])]) = Some t"
  "parts_text (JObj (omit_blank ''role'' r @ [(''parts'', JArr [gemini_part t])])) = Some t"
  by (simp_all add: parts_text_def gemini_part_def jmembers_def jget_Cons jget_append)

lemma turns_Gemini [simp]:
  "r \<noteq> [] \<Longrightarrow> gemini_turn (JObj (omit_blank ''role'' r @ [(''parts'', JArr [gemini_part t])])) = Some (r, t)"
  by (simp add: gemini_turn_def) (simp add: jmembers_def jget_Cons jget_append)


lemma claude_request_facts:
  assumes "compatOpenAIChatToClaudeRequest q = Inr (r, requested)"
  obtains stops fmt sys base where
    "resolveCompatModel (oc_model q) = Inr (ProviderClaude, cr_model r, requested)"
    "parseCompatStop (oc_stop q) = Inr stops" "parseCompatResponseFormat (oc_response_format q) = Inr fmt"
    "conversation id (oc_messages q) [] [] = Inr (sys, cr_messages r)" "cr_messages r \<noteq> []"
    "cr_max_tokens r = compatMaxTokens q" "cr_stop_sequences r = stops" "cr_top_p r = oc_top_p q"
    "cr_temperature r = None \<or> cr_temperature r = oc_temperature q"
    "cr_system r = compatClaudeSystemValue (cr_modern r)
       (if compatClaudeResponseFormatInstruction fmt \<noteq> [] then sys @ [compatClaudeResponseFormatInstruction fmt] else sys)"
proof -
  obtain p model where m: "resolveCompatModel (oc_model q) = Inr (p, model, requested)"
    "compatProviderMatches ProviderClaude requested"
    using assms by (auto simp: compatOpenAIChatToClaudeRequest_def and_then_Inr Let_def case_prod_beta)
  have "p = ProviderClaude"
    using resolve_cases [OF m(1)] m(2) by (auto simp: compatProviderMatches_def compatProviderPrefix_def has_prefix_def)
  with m assms show ?thesis
    by (auto simp: compatOpenAIChatToClaudeRequest_def and_then_Inr Let_def case_prod_beta intro!: that)
qed

lemma gemini_request_facts:
  assumes "compatOpenAIChatToGeminiRequest q = Inr r" "resolveCompatModel (oc_model q) = Inr (p, b, requested)"
  obtains stops fmt sys where
    "p = ProviderGemini" "gr_model r = b"
    "parseCompatStop (oc_stop q) = Inr stops" "parseCompatResponseFormat (oc_response_format q) = Inr fmt"
    "applyCompatGeminiResponseFormat fmt = Inr (gr_mime_type r, gr_schema r)"
    "conversation gemini_role (oc_messages q) [] [] = Inr (sys, gr_contents r)" "gr_contents r \<noteq> []"
    "gr_max_tokens r = compatMaxTokens q" "gr_stop_sequences r = stops" "gr_top_p r = oc_top_p q"
    "gr_temperature r = oc_temperature q" "gr_system r = (if sys \<noteq> [] then Some (join blank_line sys) else None)"
proof -
  have m: "compatProviderMatches ProviderGemini requested"
    using assms by (auto simp: compatOpenAIChatToGeminiRequest_def and_then_Inr Let_def case_prod_beta)
  have pp: "ProviderClaude \<noteq> ProviderGemini" by (simp add: ProviderClaude_def ProviderGemini_def)
  have "p = ProviderGemini"
    using resolve_cases [OF assms(2)] m pp by (auto simp: compatProviderMatches_def compatProviderPrefix_def has_prefix_def)
  moreover have "0 < compatMaxTokens q"
    by (auto simp: compatMaxTokens_def compatClaudeDefaultMaxTokens_def split: option.split)
  ultimately show ?thesis
    using assms by (auto simp: compatOpenAIChatToGeminiRequest_def and_then_Inr Let_def case_prod_beta intro!: that)
qed

lemma claude_lookup [simp]:
  "jget ''model'' (claude_request_members r) = Some (JStr (cr_model r))"
  "jget ''system'' (claude_request_members r) = Some (cr_system r)"
  "jget ''messages'' (claude_request_members r)
     = Some (JArr (map (\<lambda>(role, content). JObj [(''role'', JStr role), (''content'', JStr content)]) (cr_messages r)))"
  "jget ''max_tokens'' (claude_request_members r) = Some (JNum (itoa (cr_max_tokens r)))"
  "jget ''temperature'' (claude_request_members r) = map_option (\<lambda>x. JNum (print_float x)) (cr_temperature r)"
  "jget ''top_p'' (claude_request_members r) = map_option (\<lambda>x. JNum (print_float x)) (cr_top_p r)"
  "jget ''stop_sequences'' (claude_request_members r)
     = (if cr_stop_sequences r \<noteq> [] then Some (JArr (map JStr (cr_stop_sequences r))) else None)"
  by (cases "cr_modern r"; simp add: claude_request_members_def jget_append jget_Cons split: option.split)+

lemma gemini_lookup [simp]:
  "jget ''model'' (gemini_request_members r) = (if gr_model r \<noteq> [] then Some (JStr (gr_model r)) else None)"
  "jget ''contents'' (gemini_request_members r)
     = Some (JArr (map (\<lambda>(role, t). JObj (omit_blank ''role'' role @ [(''parts'', JArr [gemini_part t])])) (gr_contents r)))"
  "jget ''system'' (gemini_request_members r) = None"
  "jget ''systemInstruction'' (gemini_request_members r)
     = map_option (\<lambda>t. JObj [(''parts'', JArr [gemini_part t])]) (gr_system r)"
  by (cases "gr_system r"; simp add: gemini_request_members_def jget_append jget_Cons split: option.split)+

lemma gemini_config_lookup:
  obtains c where "jget ''generationConfig'' (gemini_request_members r) = Some (JObj c)"
    "jget ''maxOutputTokens'' c = (if gr_max_tokens r \<noteq> 0 then Some (JNum (itoa (gr_max_tokens r))) else None)"
    "jget ''temperature'' c = map_option (\<lambda>x. JNum (print_float x)) (gr_temperature r)"
    "jget ''topP'' c = map_option (\<lambda>x. JNum (print_float x)) (gr_top_p r)"
    "jget ''stopSequences'' c = (if gr_stop_sequences r \<noteq> [] then Some (JArr (map JStr (gr_stop_sequences r))) else None)"
    "jget ''responseMimeType'' c = (if gr_mime_type r \<noteq> [] then Some (JStr (gr_mime_type r)) else None)"
    "jget ''responseJsonSchema'' c = map_option any_norm (gr_schema r)"
proof (rule that)
  show "jget ''generationConfig'' (gemini_request_members r) = Some (JObj
      (omit_int ''maxOutputTokens'' (gr_max_tokens r) @ opt_float ''temperature'' (gr_temperature r)
           @ opt_float ''topP'' (gr_top_p r) @ opt_strings ''stopSequences'' (gr_stop_sequences r)
           @ omit_blank ''responseMimeType'' (gr_mime_type r)
           @ (case gr_schema r of None \<Rightarrow> [] | Some v \<Rightarrow> [(''responseJsonSchema'', any_norm v)])))"
    by (simp add: gemini_request_members_def jget_append jget_Cons)
qed (cases "gr_schema r"; simp add: jget_append jget_Cons split: option.split)+

lemma printed_pieces:
  "kv \<in> set (omit_blank k s) \<Longrightarrow> json_ok (snd kv)"
  "kv \<in> set (opt_strings k ss) \<Longrightarrow> json_ok (snd kv)"
  "(\<And>x. ox = Some x \<Longrightarrow> double x) \<Longrightarrow> kv \<in> set (opt_float k ox) \<Longrightarrow> json_ok (snd kv)"
  "json_ok (gemini_part t)"
  "json_ok (compatClaudeSystemValue b parts)"
  by (auto simp: omit_blank_def opt_strings_def opt_float_def gemini_part_def double_def scan_print_float
      compatClaudeSystemValue_def system_block_def Let_def split: if_splits option.splits)

lemma claude_body_ok:
  assumes "request_numbers q" "compatOpenAIChatToClaudeRequest q = Inr (r, requested)"
  shows "json_ok (JObj (claude_request_members r))"
proof -
  have d: "cr_temperature r = Some x \<Longrightarrow> double x" "cr_top_p r = Some x \<Longrightarrow> double x" "json_ok (cr_system r)" for x
    by (rule claude_request_facts [OF assms(2)], use assms(1) printed_pieces(5) in \<open>auto simp: request_numbers_def\<close>)+
  show ?thesis
    unfolding claude_request_members_def json_ok.simps
    using printed_pieces(2) printed_pieces(3) [OF d(1)] printed_pieces(3) [OF d(2)] d(3)
    by (auto simp: case_prod_beta split: if_splits)
qed

lemma gemini_body_ok:
  assumes "request_numbers q" "compatOpenAIChatToGeminiRequest q = Inr r" "resolveCompatModel (oc_model q) = Inr m"
  shows "json_ok (JObj (gemini_request_members r))"
proof -
  have d: "gr_temperature r = Some x \<Longrightarrow> double x" "gr_top_p r = Some x \<Longrightarrow> double x" for x
    using assms gemini_request_facts [OF assms(2)] unfolding request_numbers_def by (metis prod_cases3)+
  have s: "numbers_ok v" if "gr_schema r = Some v" for v
  proof -
    obtain p b requested where "m = (p, b, requested)" by (cases m) auto
    then obtain fmt where f: "parseCompatResponseFormat (oc_response_format q) = Inr fmt"
      "applyCompatGeminiResponseFormat fmt = Inr (gr_mime_type r, gr_schema r)"
      using gemini_request_facts [OF assms(2)] assms(3) by metis
    from f(2) that obtain g where "fmt = Some g" "rf_schema g = Some (Some v)"
      by (auto simp: applyCompatGeminiResponseFormat_def split: option.splits if_splits)
    with f(1) show ?thesis by (blast intro: schema_numbers)
  qed
  have j: "json_ok (JObj (omit_int ''maxOutputTokens'' (gr_max_tokens r) @ opt_float ''temperature'' (gr_temperature r)
           @ opt_float ''topP'' (gr_top_p r) @ opt_strings ''stopSequences'' (gr_stop_sequences r)
           @ omit_blank ''responseMimeType'' (gr_mime_type r)
           @ (case gr_schema r of None \<Rightarrow> [] | Some v \<Rightarrow> [(''responseJsonSchema'', any_norm v)])))"
    unfolding json_ok.simps
    using printed_pieces(1,2) printed_pieces(3) [OF d(1)] printed_pieces(3) [OF d(2)] s json_ok_omit(2) json_ok_any_norm
    by (auto split: option.splits)
  show ?thesis
    unfolding gemini_request_members_def json_ok.simps
    using printed_pieces j by (auto simp: case_prod_beta split: option.splits)
qed


section \<open>What the translation preserves\<close>

lemma turns_of_roles:
  "list_all (\<lambda>t. fst t = role_of ''user'' \<or> fst t = role_of ''assistant'') (turns_of role_of ms)"
  by (auto simp: turns_of_def list_all_iff is_turn_def)

lemma target_cases:
  assumes "buildCompatTarget q = Inr t"
  obtains (claude) r requested where "ct_provider t = ProviderClaude"
      "compatOpenAIChatToClaudeRequest q = Inr (r, requested)" "ct_upstream_body t = json_print (JObj (claude_request_members r))"
    | (gemini) r b requested where "ct_provider t = ProviderGemini" "resolveCompatModel (oc_model q) = Inr (ProviderGemini, b, requested)"
      "compatOpenAIChatToGeminiRequest q = Inr r" "ct_upstream_body t = json_print (JObj (gemini_request_members r))"
proof -
  from assms obtain p b requested where m: "resolveCompatModel (oc_model q) = Inr (p, b, requested)"
    by (auto simp: buildCompatTarget_def and_then_Inr)
  have pp: "ProviderGemini \<noteq> ProviderClaude" by (simp add: ProviderClaude_def ProviderGemini_def)
  show ?thesis
  proof (cases "p = ProviderClaude")
    case True
    with assms m claude show ?thesis by (auto simp: buildCompatTarget_def and_then_Inr)
  next
    case False
    with resolve_cases [OF m] have "p = ProviderGemini" by blast
    with assms m gemini pp show ?thesis by (auto simp: buildCompatTarget_def and_then_Inr)
  qed
qed

lemma claude_body_turns:
  "upstream_turns ProviderClaude (JObj (claude_request_members r)) = Some (cr_messages r)"
proof -
  have "all_some (map claude_turn (map (\<lambda>(role, content). JObj [(''role'', JStr role), (''content'', JStr content)]) ts)) = Some ts" for ts
    by (induction ts) (simp_all add: case_prod_beta)
  then show ?thesis by (simp add: upstream_turns_def jmembers_def)
qed

lemma gemini_body_turns:
  "list_all (\<lambda>t. fst t \<noteq> []) (gr_contents r) \<Longrightarrow>
     upstream_turns ProviderGemini (JObj (gemini_request_members r)) = Some (gr_contents r)"
proof -
  have pp: "ProviderGemini \<noteq> ProviderClaude" by (simp add: ProviderClaude_def ProviderGemini_def)
  have "all_some (map gemini_turn (map (\<lambda>(role, t). JObj (omit_blank ''role'' role @ [(''parts'', JArr [gemini_part t])])) ts)) = Some ts"
    if "list_all (\<lambda>t. fst t \<noteq> []) ts" for ts
    using that by (induction ts) (simp_all add: case_prod_beta)
  then show "list_all (\<lambda>t. fst t \<noteq> []) (gr_contents r) \<Longrightarrow> ?thesis" using pp by (simp add: upstream_turns_def jmembers_def)
qed

lemma gemini_turns_nonempty: "list_all (\<lambda>t. fst t \<noteq> []) (turns_of gemini_role ms)"
  using turns_of_roles [of gemini_role ms] by (auto simp: list_all_iff gemini_role_def)

text \<open>The instruction that a response format adds for Claude.\<close>

definition format_instructions :: "provider \<Rightarrow> chat_request \<Rightarrow> string list" where
  "format_instructions p q =
     (case parseCompatResponseFormat (oc_response_format q) of
        Inr fmt \<Rightarrow> (if p = ProviderClaude \<and> compatClaudeResponseFormatInstruction fmt \<noteq> []
                    then [compatClaudeResponseFormatInstruction fmt] else [])
      | Inl _ \<Rightarrow> [])"

definition provider_role :: "provider \<Rightarrow> string \<Rightarrow> string" where
  "provider_role p = (if p = ProviderClaude then id else gemini_role)"

definition well_typed_target :: "compat_target \<Rightarrow> bool" where
  "well_typed_target t \<longleftrightarrow>
     (case json_parse (ct_upstream_body t) of
        Some j \<Rightarrow> (if ct_provider t = ProviderClaude then claude_typed j else gemini_typed j) | None \<Rightarrow> False)"

lemma claude_instructions:
  assumes "cr_system r = compatClaudeSystemValue (cr_modern r) parts" "nonblank (join blank_line parts)"
  shows "upstream_instructions (JObj (claude_request_members r)) = join blank_line parts"
proof -
  have "join blank_line parts \<noteq> []" using assms(2) by (auto simp: nonblank_def trim_space_def)
  with assms show ?thesis
    by (simp add: upstream_instructions_def jmembers_def compatClaudeSystemValue_def Let_def system_block_def jget_append
        jget_Cons jstring_def)
qed

lemma system_typed:
  "case Some (compatClaudeSystemValue b parts) of
     Some (JStr _) \<Rightarrow> True
   | Some (JArr bs) \<Rightarrow> list_all (\<lambda>b. jget ''type'' (jmembers b) = Some (JStr ''text'') \<and> jstring (jget ''text'' (jmembers b)) \<noteq> []) bs
   | _ \<Rightarrow> False"
proof -
  have "jget ''type'' (jmembers (system_block t)) = Some (JStr ''text'')" for t
    by (simp add: system_block_def jmembers_def jget_append jget_Cons)
  moreover have "jstring (jget ''text'' (jmembers (system_block t))) = t" for t
    by (simp add: system_block_def jmembers_def jget_append jget_Cons jstring_def)
  moreover have "nonblank t \<Longrightarrow> t \<noteq> []" for t by (auto simp: nonblank_def trim_space_def)
  ultimately show ?thesis by (simp add: compatClaudeSystemValue_def Let_def claude_code_line_def)
qed

lemma claude_body_typed:
  assumes n: "request_numbers q" and r: "compatOpenAIChatToClaudeRequest q = Inr (r, requested)"
  shows "claude_typed (JObj (claude_request_members r))"
proof (rule claude_request_facts [OF r])
  fix stops fmt sys
  assume f: "resolveCompatModel (oc_model q) = Inr (ProviderClaude, cr_model r, requested)"
    "parseCompatStop (oc_stop q) = Inr stops" "conversation id (oc_messages q) [] [] = Inr (sys, cr_messages r)"
    "cr_messages r \<noteq> []" "cr_max_tokens r = compatMaxTokens q" "cr_stop_sequences r = stops" "cr_top_p r = oc_top_p q"
    "cr_temperature r = None \<or> cr_temperature r = oc_temperature q"
    "cr_system r = compatClaudeSystemValue (cr_modern r)
       (if compatClaudeResponseFormatInstruction fmt \<noteq> [] then sys @ [compatClaudeResponseFormatInstruction fmt] else sys)"
  have d: "cr_temperature r = Some x \<Longrightarrow> double x" "cr_top_p r = Some x \<Longrightarrow> double x" for x
    using n f by (auto simp: request_numbers_def)
  have m: "has_prefix (cr_model r) ''claude-''"
    using resolve_cases [OF f(1)] by (auto simp: ProviderClaude_def ProviderGemini_def)
  have t: "list_all (\<lambda>t. fst t = ''user'' \<or> fst t = ''assistant'') (cr_messages r)"
    using f(3) turns_of_roles [of id "oc_messages q"] by (auto simp: conversation_iff)
  have tok: "positive_member (Some (JNum (itoa (cr_max_tokens r))))"
    using max_tokens_range [OF n] by (simp add: f positive_itoa)
  show ?thesis
    unfolding claude_typed_def Let_def
    using m t tok float_member_print [OF d(1)] float_member_print [OF d(2)] stop_member_print [OF stops_nonblank [OF f(2)]] f(4)
      system_typed f(9) f(6)
    by (simp only: jmembers_def json.case claude_lookup claude_body_turns option.case jstring_def simp_thms)
qed


lemma gemini_body_typed:
  assumes n: "request_numbers q" and r: "compatOpenAIChatToGeminiRequest q = Inr r"
    and m: "resolveCompatModel (oc_model q) = Inr (ProviderGemini, b, requested)"
  shows "gemini_typed (JObj (gemini_request_members r))"
proof (rule gemini_request_facts [OF r m])
  fix stops fmt sys
  assume f: "gr_model r = b" "parseCompatStop (oc_stop q) = Inr stops"
    "applyCompatGeminiResponseFormat fmt = Inr (gr_mime_type r, gr_schema r)"
    "conversation gemini_role (oc_messages q) [] [] = Inr (sys, gr_contents r)" "gr_contents r \<noteq> []"
    "gr_max_tokens r = compatMaxTokens q" "gr_stop_sequences r = stops" "gr_top_p r = oc_top_p q"
    "gr_temperature r = oc_temperature q"
  have d: "gr_temperature r = Some x \<Longrightarrow> double x" "gr_top_p r = Some x \<Longrightarrow> double x" for x
    using n f by (auto simp: request_numbers_def)
  have p: "has_prefix (gr_model r) ''gemini-''"
    using resolve_cases [OF m] f(1) by (auto simp: ProviderClaude_def ProviderGemini_def)
  then have ne: "gr_model r \<noteq> []" by (auto simp: has_prefix_def)
  have c: "gr_contents r = turns_of gemini_role (oc_messages q)" using f(4) by (simp add: conversation_iff)
  have t: "list_all (\<lambda>t. fst t = ''user'' \<or> fst t = ''model'') (gr_contents r)"
    using turns_of_roles [of gemini_role "oc_messages q"] by (simp add: c gemini_role_def)
  have tn: "upstream_turns ProviderGemini (JObj (gemini_request_members r)) = Some (gr_contents r)"
    by (rule gemini_body_turns) (simp add: c gemini_turns_nonempty)
  have tok: "positive_member (if gr_max_tokens r \<noteq> 0 then Some (JNum (itoa (gr_max_tokens r))) else None)"
    using max_tokens_range [OF n] by (simp add: f positive_itoa)
  have mime: "gr_schema r \<noteq> None \<longrightarrow> gr_mime_type r = ''application/json''"
    using f(3) by (auto simp: applyCompatGeminiResponseFormat_def split: option.splits if_splits)
  have st: "stop_member (if gr_stop_sequences r \<noteq> [] then Some (JArr (map JStr (gr_stop_sequences r))) else None)"
    unfolding f(7) by (rule stop_member_print [OF stops_nonblank [OF f(2)]])
  have sy: "case map_option (\<lambda>t. JObj [(''parts'', JArr [gemini_part t])]) (gr_system r) of None \<Rightarrow> True | Some s \<Rightarrow> parts_text s \<noteq> None"
    by (cases "gr_system r") simp_all
  show ?thesis
  proof (rule gemini_config_lookup [of r])
    fix c
    assume g: "jget ''generationConfig'' (gemini_request_members r) = Some (JObj c)"
      "jget ''maxOutputTokens'' c = (if gr_max_tokens r \<noteq> 0 then Some (JNum (itoa (gr_max_tokens r))) else None)"
      "jget ''temperature'' c = map_option (\<lambda>x. JNum (print_float x)) (gr_temperature r)"
      "jget ''topP'' c = map_option (\<lambda>x. JNum (print_float x)) (gr_top_p r)"
      "jget ''stopSequences'' c = (if gr_stop_sequences r \<noteq> [] then Some (JArr (map JStr (gr_stop_sequences r))) else None)"
      "jget ''responseMimeType'' c = (if gr_mime_type r \<noteq> [] then Some (JStr (gr_mime_type r)) else None)"
      "jget ''responseJsonSchema'' c = map_option any_norm (gr_schema r)"
    have mt: "map_option any_norm (gr_schema r) \<noteq> None \<longrightarrow>
        (if gr_mime_type r \<noteq> [] then Some (JStr (gr_mime_type r)) else None) = Some (JStr ''application/json'')"
      using mime by auto
    show ?thesis
      unfolding gemini_typed_def Let_def
      using p ne t tn tok float_member_print [OF d(1)] float_member_print [OF d(2)] st sy mt f(5)
      by (simp only: jmembers_def json.case gemini_lookup option.case g jstring_def if_True simp_thms)
  qed
qed

text \<open>C17: A translated request is well typed. Whenever the compat surface accepts the body that a client sent, the
  body it sends upstream parses to a request of the provider that was resolved: a model of that provider, at
  least one turn and only roles the provider knows, a positive 64-bit token limit, finite floating point
  temperatures, stop strings that are not blank, a system prompt or a schema in the provider's form.\<close>
theorem upstream_body_typed:
  assumes "decode_body chat_request_fields body empty_chat_request = Some q" "buildCompatTarget q = Inr t"
  shows "well_typed_target t"
  using assms(2)
proof (cases rule: target_cases)
  case (claude r requested)
  note ok = json_parse_print [OF claude_body_ok [OF decoded_numbers [OF assms(1)] claude(2)]]
  show ?thesis
    using claude_body_typed [OF decoded_numbers [OF assms(1)] claude(2)] claude(1)
    by (simp add: well_typed_target_def claude(3) ok del: json_print.simps)
next
  case (gemini r b requested)
  note ok = json_parse_print [OF gemini_body_ok [OF decoded_numbers [OF assms(1)] gemini(3,2)]]
  have pp: "ProviderGemini \<noteq> ProviderClaude" by (simp add: ProviderClaude_def ProviderGemini_def)
  show ?thesis
    using gemini_body_typed [OF decoded_numbers [OF assms(1)] gemini(3,2)] gemini(1) pp
    by (simp add: well_typed_target_def gemini(4) ok del: json_print.simps)
qed


definition sample_chat_body :: string where
  "sample_chat_body = ''{\"model\":\"claude-sonnet-4.5\",\"max_tokens\":7,\"messages\":['' @
     ''{\"role\":\"system\",\"content\":\"Be brief.\"},{\"role\":\"user\",\"content\":\"Hi\"}],\"stop\":\"END\"}''"

definition sample_chat :: chat_request where
  "sample_chat = empty_chat_request\<lparr> oc_model := ''claude-sonnet-4.5'', oc_max_tokens := Some 7,
     oc_messages := [\<lparr> cm_role = ''system'', cm_content = Some (JStr ''Be brief.'') \<rparr>,
                     \<lparr> cm_role = ''user'', cm_content = Some (JStr ''Hi'') \<rparr>], oc_stop := Some (JStr ''END'') \<rparr>"

lemma sample_chat_decoded: "decode_body chat_request_fields sample_chat_body empty_chat_request = Some sample_chat"
  by code_simp

lemma sample_chat_target: "\<exists>t. buildCompatTarget sample_chat = Inr t \<and> ct_provider t = ProviderClaude"
proof -
  have m: "resolveCompatModel (oc_model sample_chat) = Inr (ProviderClaude, ''claude-sonnet-4-5'', ''claude/claude-sonnet-4-5'')"
    by code_simp
  have p: "\<not> compatHasTools (oc_tools sample_chat)" "\<not> compatHasToolChoice (oc_tool_choice sample_chat)"
    "compatProviderMatches ProviderClaude ''claude/claude-sonnet-4-5''" "compatProviderMatches ''claude'' ''claude/claude-sonnet-4-5''" "oc_messages sample_chat \<noteq> []"
    "parseCompatStop (oc_stop sample_chat) = Inr [''END'']" "parseCompatResponseFormat (oc_response_format sample_chat) = Inr None"
    "conversation id (oc_messages sample_chat) [] [] = Inr ([''Be brief.''], [(''user'', ''Hi'')])"
    by code_simp+
  show ?thesis
    by (simp add: buildCompatTarget_def compatOpenAIChatToClaudeRequest_def ensure_def Let_def m p)
qed

theorem upstream_body_typed_witness:
  "\<exists>t. buildCompatTarget sample_chat = Inr t \<and> well_typed_target t"
  using sample_chat_target upstream_body_typed [OF sample_chat_decoded] by blast


end
