(* ===== verification/CompatMeta.thy ===== *)
theory CompatMeta
  imports Compat
begin

text \<open>
  The description of a client's request that the compat surface hands to the relay in a header
  (src/internal/server/compat_observe.go), and why it gives no text of a message away.  The body is the members of
  the decoded map.  The conversion of a float to an int is the parameter \<open>to_int\<close>: Go leaves it to the
  implementation when the value does not fit.
\<close>

definition compatString :: "json option \<Rightarrow> string" where
  "compatString v = trim_space (jstring v)"

definition compatHasValue :: "json \<Rightarrow> bool" where
  "compatHasValue v =
     (case v of JNull \<Rightarrow> False | JStr s \<Rightarrow> nonblank s | JArr xs \<Rightarrow> xs \<noteq> [] | JObj kvs \<Rightarrow> kvs \<noteq> [] | _ \<Rightarrow> True)"

definition compatObservationKeys :: "(string \<times> json) list \<Rightarrow> string list" where
  "compatObservationKeys body = sort_key id (map fst (filter (\<lambda>kv. compatHasValue (snd kv)) body))"

definition compatChoiceType :: "json option \<Rightarrow> string" where
  "compatChoiceType v =
     (case v of
        Some (JStr s) \<Rightarrow> to_lower (trim_space s)
      | Some (JObj kvs) \<Rightarrow>
          (let kind = compatString (jget ''type'' kvs) in
           if kind \<noteq> [] then to_lower kind else if kvs \<noteq> [] then ''object'' else [])
      | _ \<Rightarrow> [])"

definition compatFormatType :: "json option \<Rightarrow> string" where
  "compatFormatType v = compatChoiceType v"

definition compatStopCount :: "json option \<Rightarrow> int" where
  "compatStopCount v =
     (case v of Some (JStr s) \<Rightarrow> (if nonblank s then 1 else 0) | Some (JArr xs) \<Rightarrow> int (length xs) | _ \<Rightarrow> 0)"

definition compatFloat :: "json option \<Rightarrow> rat option" where
  "compatFloat v = (case v of Some (JNum l) \<Rightarrow> parse_float l | _ \<Rightarrow> None)"

definition compatNumber :: "(rat \<Rightarrow> int) \<Rightarrow> json option \<Rightarrow> int option" where
  "compatNumber to_int v = map_option to_int (compatFloat v)"

definition compactStringSlice :: "json list \<Rightarrow> json" where
  "compactStringSlice xs =
     (let ts = filter (\<lambda>t. t \<noteq> []) (map (\<lambda>x. compatString (Some x)) xs) in
      if ts = [] then JNull else JArr (map JStr ts))"

section \<open>Messages\<close>

definition incr :: "string \<Rightarrow> (string \<times> int) list \<Rightarrow> (string \<times> int) list" where
  "incr k m = AList.update k ((case map_of m k of Some n \<Rightarrow> n | None \<Rightarrow> 0) + 1) m"

definition count_item :: "(string \<times> int) list \<Rightarrow> json \<Rightarrow> (string \<times> int) list" where
  "count_item counts item =
     (case item of
        JObj kvs \<Rightarrow>
          (let kind = compatString (jget ''type'' kvs) in
           if kind \<noteq> [] then incr (to_lower kind) counts else incr ''object'' counts)
      | JStr s \<Rightarrow> (if nonblank s then incr ''text'' counts else counts)
      | _ \<Rightarrow> incr ''present'' counts)"

definition compatAccumulateTypedItems :: "json list \<Rightarrow> (string \<times> int) list \<Rightarrow> (string \<times> int) list" where
  "compatAccumulateTypedItems items counts = foldl count_item counts items"

record message_summary =
  ms_roles :: "(string \<times> int) list"
  ms_types :: "(string \<times> int) list"
  ms_parts :: int
  ms_last_role :: string

definition count_content :: "json option \<Rightarrow> message_summary \<Rightarrow> message_summary" where
  "count_content content s =
     (case content of
        Some (JStr t) \<Rightarrow>
          (if nonblank t then s\<lparr>ms_parts := ms_parts s + 1, ms_types := incr ''text'' (ms_types s)\<rparr> else s)
      | Some (JArr items) \<Rightarrow>
          s\<lparr>ms_parts := ms_parts s + int (length items), ms_types := compatAccumulateTypedItems items (ms_types s)\<rparr>
      | _ \<Rightarrow> s)"

definition count_message :: "message_summary \<Rightarrow> json \<Rightarrow> message_summary" where
  "count_message s item =
     (case item of
        JObj kvs \<Rightarrow>
          (let role = to_lower (compatString (jget ''role'' kvs)) in
           count_content (jget ''content'' kvs)
             (if role \<noteq> [] then s\<lparr>ms_roles := incr role (ms_roles s), ms_last_role := role\<rparr> else s))
      | _ \<Rightarrow> s)"

definition counts_json :: "(string \<times> int) list \<Rightarrow> json" where
  "counts_json counts = JObj (go_members (map (\<lambda>(k, n). (k, JNum (itoa n))) counts))"

definition summarizeCompatMessages :: "json list \<Rightarrow> (string \<times> json) list" where
  "summarizeCompatMessages messages =
     (let s = foldl count_message \<lparr> ms_roles = [], ms_types = [], ms_parts = 0, ms_last_role = [] \<rparr> messages in
      map (\<lambda>(role, n). (role @ ''_messages'', JNum (itoa n))) (ms_roles s)
      @ (if 0 < ms_parts s then [(''content_part_count'', JNum (itoa (ms_parts s)))] else [])
      @ (if ms_types s \<noteq> [] then [(''message_content_types'', counts_json (ms_types s))] else [])
      @ (if ms_last_role s = ''assistant'' then [(''has_assistant_prefill'', JBool True)] else []))"

section \<open>The description\<close>

definition opt_json :: "string \<Rightarrow> json option \<Rightarrow> (string \<times> json) list" where
  "opt_json k v = (case v of None \<Rightarrow> [] | Some x \<Rightarrow> [(k, x)])"

definition opt_number :: "(rat \<Rightarrow> int) \<Rightarrow> string \<Rightarrow> json option \<Rightarrow> (string \<times> json) list" where
  "opt_number to_int k v = opt_json k (map_option (\<lambda>n. JNum (itoa n)) (compatNumber to_int v))"

definition opt_bool :: "string \<Rightarrow> json option \<Rightarrow> (string \<times> json) list" where
  "opt_bool k v = (case v of Some (JBool b) \<Rightarrow> [(k, JBool b)] | _ \<Rightarrow> [])"

definition keys_members :: "string \<Rightarrow> string \<Rightarrow> string list \<Rightarrow> (string \<times> json) list" where
  "keys_members k n keys =
     (if keys = [] then [] else [(k, JArr (map JStr keys)), (n, JNum (itoa (int (length keys))))])"

definition request_meta :: "(rat \<Rightarrow> int) \<Rightarrow> (string \<times> json) list \<Rightarrow> (string \<times> json) list" where
  "request_meta to_int body =
     keys_members ''top_level_keys'' ''top_level_key_count'' (compatObservationKeys body)
     @ omit_blank ''requested_model'' (compatString (jget ''model'' body))
     @ opt_bool ''stream'' (jget ''stream'' body)
     @ (case jget ''messages'' body of
          Some (JArr ms) \<Rightarrow> (''message_count'', JNum (itoa (int (length ms)))) # summarizeCompatMessages ms | _ \<Rightarrow> [])
     @ (case jget ''tools'' body of
          Some (JArr ts) \<Rightarrow>
            (''tools_count'', JNum (itoa (int (length ts)))) # (if ts \<noteq> [] then [(''has_tools'', JBool True)] else [])
        | Some v \<Rightarrow> (if compatHasValue v then [(''has_tools'', JBool True)] else [])
        | None \<Rightarrow> [])
     @ (let t = compatChoiceType (jget ''tool_choice'' body) in
        if t \<noteq> [] then [(''has_tool_choice'', JBool True), (''tool_choice_type'', JStr t)] else [])
     @ omit_blank ''response_format_type'' (compatFormatType (jget ''response_format'' body))
     @ (let n = compatStopCount (jget ''stop'' body) in if 0 < n then [(''stop_count'', JNum (itoa n))] else [])
     @ opt_number to_int ''max_tokens'' (jget ''max_tokens'' body)
     @ opt_number to_int ''max_completion_tokens'' (jget ''max_completion_tokens'' body)
     @ opt_float ''temperature'' (compatFloat (jget ''temperature'' body))
     @ opt_float ''top_p'' (compatFloat (jget ''top_p'' body))
     @ opt_float ''presence_penalty'' (compatFloat (jget ''presence_penalty'' body))
     @ opt_float ''frequency_penalty'' (compatFloat (jget ''frequency_penalty'' body))
     @ opt_number to_int ''choice_count'' (jget ''n'' body)
     @ opt_number to_int ''seed'' (jget ''seed'' body)
     @ opt_bool ''parallel_tool_calls'' (jget ''parallel_tool_calls'' body)
     @ opt_bool ''store'' (jget ''store'' body)
     @ omit_blank ''service_tier'' (compatString (jget ''service_tier'' body))
     @ omit_blank ''reasoning_effort'' (compatString (jget ''reasoning_effort'' body))
     @ (case jget ''modalities'' body of
          Some (JArr xs) \<Rightarrow> (if xs \<noteq> [] then [(''modalities'', compactStringSlice xs)] else []) | _ \<Rightarrow> [])
     @ (case jget ''audio'' body of
          Some (JObj kvs) \<Rightarrow> omit_blank ''audio_format'' (compatString (jget ''format'' kvs))
                            @ omit_blank ''audio_voice'' (compatString (jget ''voice'' kvs))
        | _ \<Rightarrow> [])
     @ (case jget ''metadata'' body of
          Some (JObj kvs) \<Rightarrow> keys_members ''metadata_keys'' ''metadata_key_count'' (compatObservationKeys kvs)
        | _ \<Rightarrow> [])"

definition buildCompatClientMeta :: "(rat \<Rightarrow> int) \<Rightarrow> string \<Rightarrow> string" where
  "buildCompatClientMeta to_int rawBody =
     (case unmarshal_map rawBody of
        Some (Some body) \<Rightarrow>
          (if body = [] \<or> request_meta to_int body = [] then []
           else json_print (JObj (go_members (request_meta to_int body))))
      | _ \<Rightarrow> [])"

section \<open>No text of a message\<close>

text \<open>
  A body without the texts of its messages: of a content only whether it is blank is left, of a part of a content its
  type.
\<close>

definition mask_text :: "string \<Rightarrow> json" where
  "mask_text s = JStr (if nonblank s then ''x'' else [])"

definition mask_item :: "json \<Rightarrow> json" where
  "mask_item v = (case v of JStr s \<Rightarrow> mask_text s | JObj kvs \<Rightarrow> JObj (filter (\<lambda>kv. fst kv = ''type'') kvs) | _ \<Rightarrow> JNull)"

definition mask_content :: "json \<Rightarrow> json" where
  "mask_content v = (case v of JStr s \<Rightarrow> mask_text s | JArr items \<Rightarrow> JArr (map mask_item items) | _ \<Rightarrow> JNull)"

definition change_member :: "string \<Rightarrow> (json \<Rightarrow> json) \<Rightarrow> (string \<times> json) list \<Rightarrow> (string \<times> json) list" where
  "change_member k f kvs = map (\<lambda>kv. (fst kv, if fst kv = k then f (snd kv) else snd kv)) kvs"

definition mask_message :: "json \<Rightarrow> json" where
  "mask_message m =
     (case m of
        JObj kvs \<Rightarrow> JObj (change_member ''content'' mask_content (filter (\<lambda>kv. fst kv \<in> {''role'', ''content''}) kvs))
      | _ \<Rightarrow> JNull)"

definition mask_body :: "(string \<times> json) list \<Rightarrow> (string \<times> json) list" where
  "mask_body = change_member ''messages'' (\<lambda>v. case v of JArr ms \<Rightarrow> JArr (map mask_message ms) | _ \<Rightarrow> v)"

lemma jget_change: "jget k (change_member k' f kvs) = (if k = k' then map_option f (jget k kvs) else jget k kvs)"
  by (induction kvs rule: rev_induct) (auto simp: change_member_def)

lemma jget_filter: "P k \<Longrightarrow> jget k (filter (\<lambda>kv. P (fst kv)) kvs) = jget k kvs"
  by (induction kvs rule: rev_induct) auto

lemma nonblank_mask [simp]: "nonblank ''x''" "\<not> nonblank []"
  by code_simp+

lemma count_item_mask: "count_item counts (mask_item v) = count_item counts v"
proof -
  have "jget ''type'' (filter (\<lambda>kv. fst kv = ''type'') kvs) = jget ''type'' kvs" for kvs :: "(string \<times> json) list"
    by (rule jget_filter) simp
  then show ?thesis by (cases v) (simp_all add: count_item_def mask_item_def mask_text_def)
qed

lemma accumulate_mask: "compatAccumulateTypedItems (map mask_item items) counts = compatAccumulateTypedItems items counts"
  by (induction items arbitrary: counts) (simp_all add: compatAccumulateTypedItems_def count_item_mask)

lemma count_content_mask: "count_content (map_option mask_content v) s = count_content v s"
  by (cases v; cases "the v") (simp_all add: count_content_def mask_content_def mask_text_def accumulate_mask)

lemma count_message_mask: "count_message s (mask_message m) = count_message s m"
proof (cases m)
  case (JObj kvs)
  let ?f = "filter (\<lambda>kv. fst kv \<in> {''role'', ''content''}) kvs"
  have f: "jget ''role'' ?f = jget ''role'' kvs" "jget ''content'' ?f = jget ''content'' kvs"
    by (rule jget_filter, simp)+
  then show ?thesis
    by (simp add: JObj mask_message_def count_message_def jget_change count_content_mask del: insert_iff)
qed (simp_all add: mask_message_def count_message_def)

lemma summarize_mask: "summarizeCompatMessages (map mask_message ms) = summarizeCompatMessages ms"
proof -
  have "foldl count_message s (map mask_message ms) = foldl count_message s ms" for s
    by (induction ms arbitrary: s) (simp_all add: count_message_mask)
  then show ?thesis by (simp add: summarizeCompatMessages_def)
qed

lemma keys_mask: "compatObservationKeys (mask_body kvs) = compatObservationKeys kvs"
proof -
  have "map fst (filter (\<lambda>kv. compatHasValue (snd kv)) (mask_body kvs)) = map fst (filter (\<lambda>kv. compatHasValue (snd kv)) kvs)"
    by (induction kvs) (auto simp: mask_body_def change_member_def compatHasValue_def split: json.split)
  then show ?thesis by (simp add: compatObservationKeys_def)
qed

text \<open>The header that describes a client's request gives no text of a message away. It is a function of the body in
  which every message is reduced to its role, every text content to whether it is blank, and every content part to
  its type: replacing the body by that reduction does not change the description.\<close>
theorem meta_hides_texts:
  "request_meta to_int (mask_body body) = request_meta to_int body"
proof -
  have j: "jget k (mask_body body) = jget k body" if "k \<noteq> ''messages''" for k
    using that by (simp add: mask_body_def jget_change)
  have m: "(case jget ''messages'' (mask_body body) of
          Some (JArr ms) \<Rightarrow> (''message_count'', JNum (itoa (int (length ms)))) # summarizeCompatMessages ms | _ \<Rightarrow> [])
      = (case jget ''messages'' body of
          Some (JArr ms) \<Rightarrow> (''message_count'', JNum (itoa (int (length ms)))) # summarizeCompatMessages ms | _ \<Rightarrow> [])"
    by (simp add: mask_body_def jget_change summarize_mask split: option.split json.split)
  show ?thesis
    unfolding request_meta_def m keys_mask by (simp add: j)
qed

end
