(* ===== verification/CompatStream.thy ===== *)
theory CompatStream
  imports Compat
begin

text \<open>
  What the compat surface answers (src/internal/server: compat_openai_claude.go, compat_openai_gemini.go,
  compat_openai_stream.go, compat_openai_utils.go): the conversion of a complete response, errors, and the
  two stream writers, which turn the event stream that the relay writes into chunks of the OpenAI API.
  The time of creation is a parameter.
\<close>

section \<open>Complete responses\<close>

record claude_answer =
  ca_id :: string
  ca_stop_reason :: string
  ca_content :: "(string \<times> string) list"
  ca_usage :: "(int \<times> int) option"

definition claude_answer_fields :: "(string \<times> claude_answer field) list" where
  "claude_answer_fields =
     [(''id'', string_field (\<lambda>x a. a\<lparr>ca_id := x\<rparr>)), (''model'', string_field (\<lambda>_ a. a)),
      (''stop_reason'', string_field (\<lambda>x a. a\<lparr>ca_stop_reason := x\<rparr>)),
      (''content'', list_field ca_content (\<lambda>x a. a\<lparr>ca_content := x\<rparr>) ([], []) part_fields),
      (''usage'', ptr_field ca_usage (\<lambda>x a. a\<lparr>ca_usage := x\<rparr>) (0, 0)
         [(''input_tokens'', int_field (\<lambda>x u. (x, snd u))), (''output_tokens'', int_field (\<lambda>x u. (fst u, x))),
          (''cache_read_input_tokens'', int_field (\<lambda>_ u. u)), (''cache_creation_input_tokens'', int_field (\<lambda>_ u. u))])]"

definition compatClaudeFinishReason :: "string \<Rightarrow> string" where
  "compatClaudeFinishReason r =
     (if r = ''max_tokens'' then ''length'' else if r = ''tool_use'' then ''tool_calls'' else ''stop'')"

record chat_response =
  ch_id :: string
  ch_created :: int
  ch_model :: string
  ch_content :: string
  ch_finish_reason :: string
  ch_usage :: "(int \<times> int) option"   \<comment> \<open>the tokens of the prompt and of the completion\<close>

definition chat_response_json :: "chat_response \<Rightarrow> json" where
  "chat_response_json r =
     JObj ([(''id'', JStr (ch_id r)), (''object'', JStr ''chat.completion''), (''created'', JNum (itoa (ch_created r))),
        (''model'', JStr (ch_model r)),
        (''choices'', JArr [JObj [(''index'', JNum ''0''),
            (''message'', JObj [(''role'', JStr ''assistant''), (''content'', JStr (ch_content r))]),
            (''finish_reason'', JStr (ch_finish_reason r))]])]
      @ (case ch_usage r of
           None \<Rightarrow> []
         | Some (p, c) \<Rightarrow>
             [(''usage'', JObj [(''prompt_tokens'', JNum (itoa p)), (''completion_tokens'', JNum (itoa c)),
                (''total_tokens'', JNum (itoa (wrap64 (p + c))))])]))"

text \<open>\<open>None\<close>: the body cannot be converted.\<close>

definition compatClaudeToOpenAIChatResponse :: "int \<Rightarrow> string \<Rightarrow> string \<Rightarrow> chat_response option" where
  "compatClaudeToOpenAIChatResponse created body requested =
     map_option
       (\<lambda>a. \<lparr> ch_id = ca_id a, ch_created = created, ch_model = requested,
             ch_content = join blank_line (map snd (filter (\<lambda>b. fst b = ''text'' \<and> snd b \<noteq> []) (ca_content a))),
             ch_finish_reason = compatClaudeFinishReason (ca_stop_reason a), ch_usage = ca_usage a \<rparr>)
       (unmarshal_ok claude_answer_fields body \<lparr> ca_id = [], ca_stop_reason = [], ca_content = [], ca_usage = None \<rparr>)"

record gemini_candidate =
  gc_finish_reason :: string
  gc_parts :: "string list option"   \<comment> \<open>the texts of the content, if there is one\<close>

record gemini_answer =
  ga_response_id :: string
  ga_model_version :: string
  ga_candidates :: "gemini_candidate list"
  ga_usage :: "(int \<times> int) option"

definition candidate_fields :: "(string \<times> gemini_candidate field) list" where
  "candidate_fields =
     [(''index'', int_field (\<lambda>_ c. c)), (''finishReason'', string_field (\<lambda>x c. c\<lparr>gc_finish_reason := x\<rparr>)),
      (''content'', ptr_field gc_parts (\<lambda>x c. c\<lparr>gc_parts := x\<rparr>) []
         [(''role'', string_field (\<lambda>_ c. c)),
          (''parts'', list_field id (\<lambda>x _. x) [] [(''text'', string_field (\<lambda>x _. x))])])]"

definition gemini_answer_fields :: "(string \<times> gemini_answer field) list" where
  "gemini_answer_fields =
     [(''responseId'', string_field (\<lambda>x a. a\<lparr>ga_response_id := x\<rparr>)),
      (''modelVersion'', string_field (\<lambda>x a. a\<lparr>ga_model_version := x\<rparr>)),
      (''candidates'', list_field ga_candidates (\<lambda>x a. a\<lparr>ga_candidates := x\<rparr>)
         \<lparr> gc_finish_reason = [], gc_parts = None \<rparr> candidate_fields),
      (''usageMetadata'', ptr_field ga_usage (\<lambda>x a. a\<lparr>ga_usage := x\<rparr>) (0, 0)
         [(''promptTokenCount'', int_field (\<lambda>x u. (x, snd u))), (''candidatesTokenCount'', int_field (\<lambda>x u. (fst u, x))),
          (''cachedContentTokenCount'', int_field (\<lambda>_ u. u))])]"

definition empty_gemini_answer :: gemini_answer where
  "empty_gemini_answer = \<lparr> ga_response_id = [], ga_model_version = [], ga_candidates = [], ga_usage = None \<rparr>"

definition gemini_answer_filled :: "gemini_answer \<Rightarrow> bool" where
  "gemini_answer_filled a \<longleftrightarrow>
     ga_response_id a \<noteq> [] \<or> ga_model_version a \<noteq> [] \<or> ga_candidates a \<noteq> [] \<or> ga_usage a \<noteq> None"

definition gemini_envelope :: "string \<Rightarrow> gemini_answer option" where
  "gemini_envelope body =
     (case unmarshal_ok [(''response'', ptr_field id (\<lambda>x _. x) empty_gemini_answer gemini_answer_fields)] body None of
        Some (Some a) \<Rightarrow> (if gemini_answer_filled a then Some a else None)
      | _ \<Rightarrow> None)"

definition compatParseGeminiResponse :: "string \<Rightarrow> gemini_answer option" where
  "compatParseGeminiResponse body =
     (case unmarshal_ok gemini_answer_fields body empty_gemini_answer of
        Some a \<Rightarrow> (if gemini_answer_filled a then Some a else gemini_envelope body)
      | None \<Rightarrow> gemini_envelope body)"

definition to_upper :: "string \<Rightarrow> string" where
  "to_upper s = map char_upper s"

definition compatGeminiFinishReason :: "string \<Rightarrow> string" where
  "compatGeminiFinishReason reason =
     (let r = to_upper (trim_space reason) in
      if r = ''MAX_TOKENS'' then ''length''
      else if r = ''UNEXPECTED_TOOL_CALL'' then ''tool_calls''
      else if r \<in> set [''SAFETY'', ''RECITATION'', ''LANGUAGE'', ''BLOCKLIST'', ''PROHIBITED_CONTENT'', ''SPII'', ''IMAGE_SAFETY'']
      then ''content_filter'' else ''stop'')"

definition compatGeminiResponseID :: "gemini_answer \<Rightarrow> string" where
  "compatGeminiResponseID a = (if nonblank (ga_response_id a) then ga_response_id a else ''chatcmpl-compat'')"

definition candidate_text :: "gemini_candidate \<Rightarrow> string" where
  "candidate_text c = (case gc_parts c of None \<Rightarrow> [] | Some ts \<Rightarrow> concat ts)"

definition compatGeminiToOpenAIChatResponse :: "int \<Rightarrow> string \<Rightarrow> string \<Rightarrow> chat_response option" where
  "compatGeminiToOpenAIChatResponse created body requested =
     map_option
       (\<lambda>a. \<lparr> ch_id = compatGeminiResponseID a, ch_created = created, ch_model = requested,
             ch_content = (case ga_candidates a of [] \<Rightarrow> [] | c # _ \<Rightarrow> candidate_text c),
             ch_finish_reason = (case ga_candidates a of [] \<Rightarrow> ''stop'' | c # _ \<Rightarrow> compatGeminiFinishReason (gc_finish_reason c)),
             ch_usage = ga_usage a \<rparr>)
       (compatParseGeminiResponse body)"

section \<open>Errors\<close>

definition writeCompatOpenAIError :: "int \<Rightarrow> string \<Rightarrow> string \<Rightarrow> response_writer \<Rightarrow> response_writer" where
  "writeCompatOpenAIError status errType message =
     writeJSON status (JObj [(''error'', JObj [(''message'', JStr message), (''type'', JStr errType)])])"

definition error_message_fields :: "(string \<times> string field) list" where
  "error_message_fields = [(''message'', string_field (\<lambda>x _. x))]"

definition upstream_error_message :: "string \<Rightarrow> string" where
  "upstream_error_message body =
     (let single = (case unmarshal_ok [(''error'', struct_field id (\<lambda>x _. x) error_message_fields)] body [] of
                      Some m \<Rightarrow> (if nonblank m then m else ''unexpected upstream error'')
                    | None \<Rightarrow> ''unexpected upstream error'')
      in case json_parse body of
           None \<Rightarrow> single
         | Some v \<Rightarrow>
             (case decode_list None [(''error'', ptr_field id (\<lambda>x _. x) [] error_message_fields)] v ([], True) of
                (items, ok) \<Rightarrow>
                  (if \<not> ok then single
                   else (case List.find (\<lambda>oi. case oi of Some m \<Rightarrow> nonblank m | None \<Rightarrow> False) items of
                           Some (Some m) \<Rightarrow> m
                         | _ \<Rightarrow> single))))"

definition writeCompatOpenAIUpstreamError :: "int \<Rightarrow> string \<Rightarrow> response_writer \<Rightarrow> response_writer" where
  "writeCompatOpenAIUpstreamError status body = writeCompatOpenAIError status ''server_error'' (upstream_error_message body)"

definition json_like :: "string \<Rightarrow> bool" where
  "json_like s \<longleftrightarrow> has_prefix s ''{'' \<or> has_prefix s ''[''"

definition compatExtractErrorBody :: "string \<Rightarrow> string" where
  "compatExtractErrorBody raw =
     (let trimmed = trim_space raw in
      if trimmed = [] \<or> json_like trimmed then trimmed
      else (case List.find json_like
                   (map (\<lambda>l. trim_space (drop 6 l)) (filter (\<lambda>l. has_prefix l ''data: '') (split_char newline trimmed))) of
              Some p \<Rightarrow> p
            | None \<Rightarrow> trimmed))"

section \<open>The stream writers\<close>

text \<open>
  Both writers have the same fields, but for the event type of Claude.  \<open>sw_out\<close> is what was written downstream, one
  entry for each successful write; the write number \<open>sw_fails\<close>, if there is one, fails, and so do later ones.
\<close>

record stream_writer =
  sw_requested_model :: string
  sw_created :: int
  sw_status :: int
  sw_headers_written :: bool
  sw_line_buf :: string
  sw_raw_error_body :: string
  sw_last_event_type :: string
  sw_chunk_id :: string
  sw_role_sent :: bool
  sw_done_sent :: bool
  sw_chunks_emitted :: nat
  sw_content_chunks :: nat
  sw_terminal_signal_seen :: bool
  sw_synthetic_done :: bool
  sw_downstream_err :: bool
  sw_out :: "string list"
  sw_fails :: "nat option"
  sw_error_answer :: "(int \<times> string) option"

definition new_stream_writer :: "nat option \<Rightarrow> int \<Rightarrow> string \<Rightarrow> stream_writer" where
  "new_stream_writer fails created requested =
     \<lparr> sw_requested_model = requested, sw_created = created, sw_status = 0, sw_headers_written = False,
       sw_line_buf = [], sw_raw_error_body = [], sw_last_event_type = [], sw_chunk_id = [], sw_role_sent = False,
       sw_done_sent = False, sw_chunks_emitted = 0, sw_content_chunks = 0, sw_terminal_signal_seen = False,
       sw_synthetic_done = False, sw_downstream_err = False, sw_out = [], sw_fails = fails, sw_error_answer = None \<rparr>"

text \<open>An emitting step returns whether to go on.\<close>

type_synonym emission = "bool \<times> stream_writer"

definition writeDownstream :: "string \<Rightarrow> stream_writer \<Rightarrow> emission" where
  "writeDownstream p w =
     (case sw_fails w of
        Some n \<Rightarrow> (if n \<le> length (sw_out w) then (False, w\<lparr>sw_downstream_err := True\<rparr>)
                   else (True, w\<lparr>sw_out := sw_out w @ [p]\<rparr>))
      | None \<Rightarrow> (True, w\<lparr>sw_out := sw_out w @ [p]\<rparr>))"

definition go_on :: "emission \<Rightarrow> (stream_writer \<Rightarrow> emission) \<Rightarrow> emission" where
  "go_on e f = (if fst e then f (snd e) else e)"

definition ok_so_far :: "stream_writer \<Rightarrow> emission" where
  "ok_so_far w = (\<not> sw_downstream_err w, w)"

definition ensureSuccessHeaders :: "stream_writer \<Rightarrow> stream_writer" where
  "ensureSuccessHeaders w = w\<lparr>sw_headers_written := True\<rparr>"

definition streamChunkID :: "stream_writer \<Rightarrow> string" where
  "streamChunkID w = (if nonblank (sw_chunk_id w) then sw_chunk_id w else ''chatcmpl-compat'')"

text \<open>What a chunk carries: a role, a text, or the finish reason.\<close>

datatype chunk = RoleChunk string | TextChunk string | FinishChunk string

definition delta_members :: "chunk \<Rightarrow> (string \<times> json) list" where
  "delta_members c = (case c of RoleChunk r \<Rightarrow> omit_blank ''role'' r | TextChunk t \<Rightarrow> omit_blank ''content'' t | FinishChunk _ \<Rightarrow> [])"

definition chunk_json :: "stream_writer \<Rightarrow> chunk \<Rightarrow> json" where
  "chunk_json w c =
     JObj [(''id'', JStr (streamChunkID w)), (''object'', JStr ''chat.completion.chunk''),
           (''created'', JNum (itoa (sw_created w))), (''model'', JStr (sw_requested_model w)),
           (''choices'', JArr [JObj ([(''index'', JNum ''0''), (''delta'', JObj (delta_members c))]
              @ (case c of FinishChunk r \<Rightarrow> [(''finish_reason'', JStr r)] | _ \<Rightarrow> []))])]"

definition has_content :: "chunk \<Rightarrow> bool" where
  "has_content c \<longleftrightarrow> (case c of TextChunk t \<Rightarrow> t \<noteq> [] | _ \<Rightarrow> False)"

definition emitChunk :: "chunk \<Rightarrow> stream_writer \<Rightarrow> emission" where
  "emitChunk c w0 =
     (let w = ensureSuccessHeaders w0;
          w1 = w\<lparr> sw_content_chunks := sw_content_chunks w + (if has_content c then 1 else 0),
                  sw_chunks_emitted := sw_chunks_emitted w + 1 \<rparr>
      in go_on (writeDownstream ''data: '' w1) (\<lambda>w2.
         go_on (writeDownstream (json_print (chunk_json w c)) w2) (\<lambda>w3.
         go_on (writeDownstream blank_line w3) ok_so_far)))"

definition done_frame :: string where "done_frame = ''data: [DONE]'' @ blank_line"

definition emitDone :: "bool \<Rightarrow> stream_writer \<Rightarrow> emission" where
  "emitDone synthetic w =
     (if sw_done_sent w then ok_so_far w
      else go_on (writeDownstream done_frame ((ensureSuccessHeaders w)\<lparr>sw_synthetic_done := synthetic\<rparr>))
             (\<lambda>w1. ok_so_far (w1\<lparr>sw_done_sent := True\<rparr>)))"

definition emitComment :: "string \<Rightarrow> stream_writer \<Rightarrow> emission" where
  "emitComment comment w0 =
     (let w = ensureSuccessHeaders w0 in
      go_on (if comment = [] then (True, w)
             else go_on (writeDownstream '': '' w) (writeDownstream comment))
        (\<lambda>w1. go_on (writeDownstream blank_line w1) ok_so_far))"

section \<open>The lines of Claude\<close>

definition handleClaudeStreamLine :: "string \<Rightarrow> stream_writer \<Rightarrow> emission" where
  "handleClaudeStreamLine line w =
     (if line = [] then (True, w)
      else if has_prefix line ''event: '' then (True, w\<lparr>sw_last_event_type := drop 7 line\<rparr>)
      else if \<not> has_prefix line ''data: '' then (True, w)
      else
        (let payload = drop 6 line; ev = sw_last_event_type w in
         if ev = ''message_start'' then
           (let w1 = (case unmarshal_ok [(''message'', struct_field id (\<lambda>x _. x) [(''id'', string_field (\<lambda>x _. x))])] payload [] of
                        Some i \<Rightarrow> (if nonblank i then w\<lparr>sw_chunk_id := i\<rparr> else w) | None \<Rightarrow> w)
            in if sw_role_sent w1 then (True, w1)
               else emitChunk (RoleChunk ''assistant'') (w1\<lparr>sw_role_sent := True\<rparr>))
         else if ev = ''content_block_delta'' then
           (case unmarshal_ok [(''delta'', struct_field id (\<lambda>x _. x) part_fields)] payload ([], []) of
              Some (t, text) \<Rightarrow> (if t = ''text_delta'' \<and> text \<noteq> [] then emitChunk (TextChunk text) w else (True, w))
            | None \<Rightarrow> (True, w))
         else if ev = ''message_delta'' then
           (case unmarshal_ok [(''delta'', struct_field id (\<lambda>x _. x) [(''stop_reason'', string_field (\<lambda>x _. x))])] payload [] of
              Some r \<Rightarrow> (if nonblank r then emitChunk (FinishChunk (compatClaudeFinishReason r)) w else (True, w))
            | None \<Rightarrow> (True, w))
         else if ev = ''message_stop'' then emitDone False (w\<lparr>sw_terminal_signal_seen := True\<rparr>)
         else if ev = ''ping'' then emitComment ''ping'' w
         else (True, w)))"

section \<open>The lines of Gemini\<close>

definition gemini_text :: "gemini_candidate \<Rightarrow> stream_writer \<Rightarrow> emission" where
  "gemini_text c w =
     (if gc_parts c = None then (True, w)
      else go_on (if sw_role_sent w then (True, w) else emitChunk (RoleChunk ''assistant'') (w\<lparr>sw_role_sent := True\<rparr>))
             (\<lambda>w1. if candidate_text c \<noteq> [] then emitChunk (TextChunk (candidate_text c)) w1 else (True, w1)))"

definition gemini_finish :: "gemini_candidate \<Rightarrow> stream_writer \<Rightarrow> emission" where
  "gemini_finish c w =
     (if nonblank (gc_finish_reason c)
      then emitChunk (FinishChunk (compatGeminiFinishReason (gc_finish_reason c))) (w\<lparr>sw_terminal_signal_seen := True\<rparr>)
      else (True, w))"

definition handleGeminiStreamLine :: "string \<Rightarrow> stream_writer \<Rightarrow> emission" where
  "handleGeminiStreamLine line w =
     (if line = [] \<or> \<not> has_prefix line ''data: '' then (True, w)
      else
        (let payload = trim_space (drop 6 line) in
         if payload = [] \<or> payload = ''[DONE]'' then emitDone False (w\<lparr>sw_terminal_signal_seen := True\<rparr>)
         else (case compatParseGeminiResponse payload of
                 None \<Rightarrow> (True, w)
               | Some a \<Rightarrow>
                   (let w1 = (if nonblank (ga_response_id a) then w\<lparr>sw_chunk_id := ga_response_id a\<rparr> else w) in
                    case ga_candidates a of
                      [] \<Rightarrow> (True, w1)
                    | c # _ \<Rightarrow> go_on (gemini_text c w1) (gemini_finish c)))))"

section \<open>Writing\<close>

text \<open>The first line of the buffer, without the carriage returns at its end, and the rest.\<close>

definition trim_right :: "string \<Rightarrow> string \<Rightarrow> string" where
  "trim_right cutset s = rev (dropWhile (\<lambda>c. c \<in> set cutset) (rev s))"

definition nextLine :: "string \<Rightarrow> (string \<times> string) option" where
  "nextLine buf =
     (if newline \<in> set buf
      then Some (trim_right [CHR 0x0D] (fst (cut_at newline buf)), snd (cut_at newline buf)) else None)"

lemma nextLine_shorter: "nextLine buf = Some (l, rest) \<Longrightarrow> length rest < length buf"
proof -
  assume a: "nextLine buf = Some (l, rest)"
  then have n: "newline \<in> set buf" and r: "rest = tl (dropWhile (\<lambda>x. x \<noteq> newline) buf)"
    by (auto simp: nextLine_def cut_at_def split: if_splits)
  have "dropWhile (\<lambda>x. x \<noteq> newline) buf \<noteq> []" using n by (auto simp: dropWhile_eq_Nil_conv)
  then have "length rest < length (dropWhile (\<lambda>x. x \<noteq> newline) buf)" by (simp add: r)
  then show ?thesis using length_dropWhile_le [of "\<lambda>x. x \<noteq> newline" buf] by simp
qed

text \<open>The loop over the complete lines of the buffer, for the line handler of a writer.\<close>

function drain :: "(string \<Rightarrow> stream_writer \<Rightarrow> emission) \<Rightarrow> string \<Rightarrow> stream_writer \<Rightarrow> stream_writer" where
  "drain handle buf w =
     (case nextLine buf of
        None \<Rightarrow> w\<lparr>sw_line_buf := buf\<rparr>
      | Some (line, rest) \<Rightarrow>
          (case handle line (w\<lparr>sw_line_buf := rest\<rparr>) of
             (go, w1) \<Rightarrow> if go then drain handle rest w1 else w1))"
  by pat_completeness auto
termination by (relation "measure (\<lambda>(_, buf, _). length buf)") (auto dest: nextLine_shorter)

declare drain.simps [simp del]

definition writer_Write :: "(string \<Rightarrow> stream_writer \<Rightarrow> emission) \<Rightarrow> string \<Rightarrow> stream_writer \<Rightarrow> stream_writer" where
  "writer_Write handle p w0 =
     (let w = (if sw_status w0 = 0 then w0\<lparr>sw_status := 200\<rparr> else w0) in
      if sw_downstream_err w then w
      else if sw_status w \<noteq> 200 then w\<lparr>sw_raw_error_body := sw_raw_error_body w @ p\<rparr>
      else drain handle (sw_line_buf w @ p) w)"

definition writer_WriteHeader :: "int \<Rightarrow> stream_writer \<Rightarrow> stream_writer" where
  "writer_WriteHeader status w = (if sw_status w = 0 then w\<lparr>sw_status := status\<rparr> else w)"

definition writer_finalize :: "(string \<Rightarrow> stream_writer \<Rightarrow> emission) \<Rightarrow> stream_writer \<Rightarrow> stream_writer" where
  "writer_finalize handle w =
     (if sw_downstream_err w then w
      else if sw_status w \<noteq> 0 \<and> sw_status w \<noteq> 200
      then w\<lparr>sw_error_answer := Some (sw_status w, compatExtractErrorBody (sw_raw_error_body w))\<rparr>
      else
        (let line = trim_right [CHR 0x0D, newline] (sw_line_buf w);
             w1 = w\<lparr>sw_line_buf := []\<rparr>
         in case (if line \<noteq> [] then handle line w1 else (True, w1)) of
              (go, w2) \<Rightarrow>
                (if go then snd (emitDone (\<not> sw_terminal_signal_seen w2) w2) else w2)))"

definition writer_completed :: "stream_writer \<Rightarrow> bool" where
  "writer_completed w \<longleftrightarrow>
     (sw_status w = 0 \<or> sw_status w = 200) \<and> \<not> sw_downstream_err w \<and> sw_terminal_signal_seen w \<and> sw_done_sent w"

definition claude_Write where "claude_Write = writer_Write handleClaudeStreamLine"
definition gemini_Write where "gemini_Write = writer_Write handleGeminiStreamLine"
definition claude_finalize where "claude_finalize = writer_finalize handleClaudeStreamLine"
definition gemini_finalize where "gemini_finalize = writer_finalize handleGeminiStreamLine"

end
