(* ===== verification/CompatLines.thy ===== *)
theory CompatLines
  imports CompatStream
begin

text \<open>
  The laws of the stream writers of the compat surface.  The locale \<open>line_handler\<close> is what the loop over the
  buffered lines needs of the handler of one line; both writers interpret it.
\<close>

section \<open>Steps that emit\<close>

text \<open>What every emitting step keeps.  \<open>text_in\<close> reads the text back from what was written downstream.\<close>

definition chunk_text :: "json \<Rightarrow> string" where
  "chunk_text j =
     (case jget ''choices'' (jmembers j) of
        Some (JArr (c # _)) \<Rightarrow>
          (case jget ''delta'' (jmembers c) of Some d \<Rightarrow> jstring (jget ''content'' (jmembers d)) | None \<Rightarrow> [])
      | _ \<Rightarrow> [])"

definition text_in :: "string list \<Rightarrow> string" where
  "text_in out = concat (map (\<lambda>f. case json_parse f of Some j \<Rightarrow> chunk_text j | None \<Rightarrow> []) out)"

definition done_count :: "stream_writer \<Rightarrow> nat" where
  "done_count w = count_list (sw_out w) done_frame"

text \<open>A writer before it is finalized.\<close>

definition writer_inv :: "stream_writer \<Rightarrow> bool" where
  "writer_inv w \<longleftrightarrow>
     done_count w = (if sw_done_sent w then 1 else 0)
     \<and> (sw_done_sent w \<longrightarrow> sw_terminal_signal_seen w) \<and> \<not> sw_synthetic_done w
     \<and> (sw_out w \<noteq> [] \<longrightarrow> sw_headers_written w)
     \<and> (sw_downstream_err w \<longrightarrow> sw_fails w \<noteq> None)"

text \<open>A step \<open>f\<close> keeps the buffer apart, answers whether the downstream still works, and leaves the rest.\<close>

definition emits :: "(stream_writer \<Rightarrow> emission) \<Rightarrow> bool" where
  "emits f \<longleftrightarrow>
     (\<forall>w b. f (w\<lparr>sw_line_buf := b\<rparr>) = (fst (f w), (snd (f w))\<lparr>sw_line_buf := b\<rparr>))
     \<and> (\<forall>w. \<not> sw_downstream_err w \<longrightarrow> fst (f w) = (\<not> sw_downstream_err (snd (f w))))
     \<and> (\<forall>w. sw_status (snd (f w)) = sw_status w \<and> sw_fails (snd (f w)) = sw_fails w
            \<and> sw_created (snd (f w)) = sw_created w)"

lemma emits_go_on:
  assumes "emits f" "emits g"
  shows "emits (\<lambda>w. go_on (f w) g)"
proof -
  have go: "\<not> sw_downstream_err (snd (f w))" if "\<not> sw_downstream_err w" "fst (f w)" for w
    using assms(1) that unfolding emits_def by blast
  show ?thesis
    using assms go unfolding emits_def go_on_def by simp
qed

lemma emits_pure: "emits (\<lambda>w. (True, w))"
  by (simp add: emits_def)

lemma emits_if: "emits f \<Longrightarrow> emits g \<Longrightarrow> (\<And>w b. P (w\<lparr>sw_line_buf := b\<rparr>) = P w) \<Longrightarrow> emits (\<lambda>w. if P w then f w else g w)"
  by (simp add: emits_def)

text \<open>A step after a change of other fields.\<close>

definition plain_change :: "(stream_writer \<Rightarrow> stream_writer) \<Rightarrow> bool" where
  "plain_change u \<longleftrightarrow>
     (\<forall>w b. u (w\<lparr>sw_line_buf := b\<rparr>) = (u w)\<lparr>sw_line_buf := b\<rparr>)
     \<and> (\<forall>w. sw_downstream_err (u w) = sw_downstream_err w \<and> sw_status (u w) = sw_status w
            \<and> sw_fails (u w) = sw_fails w \<and> sw_created (u w) = sw_created w)"

lemma emits_after: "emits f \<Longrightarrow> plain_change u \<Longrightarrow> emits (\<lambda>w. f (u w))"
  by (simp add: emits_def plain_change_def)

lemma emits_change: "plain_change u \<Longrightarrow> emits (\<lambda>w. (True, u w))"
  by (simp add: emits_def plain_change_def)

lemma emits_ok: "emits ok_so_far"
  by (simp add: emits_def ok_so_far_def)

lemma emits_write: "(\<And>w b. p (w\<lparr>sw_line_buf := b\<rparr>) = p w) \<Longrightarrow> emits (\<lambda>w. writeDownstream (p w) w)"
  by (auto simp: emits_def writeDownstream_def split: option.split)

lemma emits_const_write: "emits (writeDownstream s)"
  using emits_write [of "\<lambda>_. s"] by simp

lemma emits_end: "emits (\<lambda>w. go_on (writeDownstream s w) ok_so_far)"
  by (rule emits_go_on [OF emits_const_write emits_ok])

lemma plain_headers: "plain_change ensureSuccessHeaders"
  by (simp add: plain_change_def ensureSuccessHeaders_def)

lemma emits_emitDone: "emits (emitDone synthetic)"
proof -
  have 1: "emits (\<lambda>w. writeDownstream done_frame ((ensureSuccessHeaders w)\<lparr>sw_synthetic_done := synthetic\<rparr>))"
    by (rule emits_after [OF emits_const_write]) (simp add: plain_change_def ensureSuccessHeaders_def)
  have 2: "emits (\<lambda>w1. ok_so_far (w1\<lparr>sw_done_sent := True\<rparr>))"
    by (rule emits_after [OF emits_ok]) (simp add: plain_change_def)
  show ?thesis
    unfolding emitDone_def [abs_def] by (rule emits_if [OF emits_ok emits_go_on [OF 1 2]]) simp
qed

lemma emits_emitComment: "emits (emitComment c)"
proof -
  have 1: "emits (\<lambda>w. if c = [] then (True, w) else go_on (writeDownstream '': '' w) (writeDownstream c))"
    by (rule emits_if [OF emits_pure emits_go_on [OF emits_const_write emits_const_write]]) simp
  show ?thesis
    unfolding emitComment_def [abs_def] Let_def
    by (rule emits_after [OF emits_go_on [OF 1 emits_end] plain_headers])
qed

lemma streamChunkID_cong [simp]:
  "streamChunkID (w\<lparr>sw_line_buf := b\<rparr>) = streamChunkID w"
  by (simp add: streamChunkID_def)

lemma chunk_json_buf [simp]: "chunk_json (w\<lparr>sw_line_buf := b\<rparr>) c = chunk_json w c"
  by (simp add: chunk_json_def)

lemma chunk_json_cong:
  "sw_chunk_id w = sw_chunk_id v \<Longrightarrow> sw_created w = sw_created v \<Longrightarrow> sw_requested_model w = sw_requested_model v
     \<Longrightarrow> chunk_json w c = chunk_json v c"
  by (simp add: chunk_json_def streamChunkID_def)

lemma emits_emitChunk: "emits (emitChunk c)"
proof -
  let ?u = "\<lambda>w. (ensureSuccessHeaders w)\<lparr> sw_content_chunks := sw_content_chunks w + (if has_content c then 1 else 0),
                  sw_chunks_emitted := sw_chunks_emitted w + 1 \<rparr>"
  have "emitChunk c = (\<lambda>w. go_on (writeDownstream ''data: '' (?u w)) (\<lambda>w2.
         go_on (writeDownstream (json_print (chunk_json w2 c)) w2) (\<lambda>w3. go_on (writeDownstream blank_line w3) ok_so_far)))"
  proof
    fix w
    have "chunk_json w2 c = chunk_json (ensureSuccessHeaders w) c" if "w2 = snd (writeDownstream ''data: '' (?u w))" for w2
      unfolding that by (rule chunk_json_cong) (simp_all add: writeDownstream_def ensureSuccessHeaders_def split: option.split)
    then show "emitChunk c w = go_on (writeDownstream ''data: '' (?u w)) (\<lambda>w2.
         go_on (writeDownstream (json_print (chunk_json w2 c)) w2) (\<lambda>w3. go_on (writeDownstream blank_line w3) ok_so_far))"
      by (simp add: emitChunk_def Let_def go_on_def ensureSuccessHeaders_def)
  qed
  moreover have "emits (\<lambda>w. go_on (writeDownstream ''data: '' (?u w)) (\<lambda>w2.
         go_on (writeDownstream (json_print (chunk_json w2 c)) w2) (\<lambda>w3. go_on (writeDownstream blank_line w3) ok_so_far)))"
    (is "emits (\<lambda>w. go_on (?f w) ?g)")
  proof (rule emits_go_on)
    show "emits ?f"
      by (rule emits_after [OF emits_const_write]) (simp add: plain_change_def ensureSuccessHeaders_def)
    have "emits (\<lambda>w2. writeDownstream (json_print (chunk_json w2 c)) w2)" by (rule emits_write) simp
    then show "emits ?g" by (rule emits_go_on [OF _ emits_end])
  qed
  ultimately show ?thesis by simp
qed

section \<open>What an emission adds\<close>

text \<open>A step that writes none of its own ends keeps the invariant; the headers are out first.\<close>

definition keeps_winv :: "(stream_writer \<Rightarrow> emission) \<Rightarrow> bool" where
  "keeps_winv f \<longleftrightarrow>
     (\<forall>w. writer_inv w \<and> sw_headers_written w \<longrightarrow> writer_inv (snd (f w)) \<and> sw_headers_written (snd (f w)))"

lemma keeps_winv_go_on: "keeps_winv f \<Longrightarrow> keeps_winv g \<Longrightarrow> keeps_winv (\<lambda>w. go_on (f w) g)"
  by (simp add: keeps_winv_def go_on_def)

lemma keeps_winv_ok: "keeps_winv ok_so_far"
  by (simp add: keeps_winv_def ok_so_far_def)

lemma keeps_winv_write: "(\<And>w. p w \<noteq> done_frame) \<Longrightarrow> keeps_winv (\<lambda>w. writeDownstream (p w) w)"
  by (auto simp: keeps_winv_def writeDownstream_def writer_inv_def done_count_def split: option.split)

lemma frame_distinct [simp]:
  "''data: '' \<noteq> done_frame" "blank_line \<noteq> done_frame" "'': '' \<noteq> done_frame" "''ping'' \<noteq> done_frame"
  "json_print (JObj kvs) \<noteq> done_frame"
  by (simp_all add: done_frame_def blank_line_def newline_def)

lemma json_print_chunk [simp]: "json_print (chunk_json w c) \<noteq> done_frame"
  by (simp add: chunk_json_def del: json_print.simps)

lemma winv_headers: "writer_inv w \<Longrightarrow> writer_inv (ensureSuccessHeaders w)"
  by (simp add: writer_inv_def ensureSuccessHeaders_def done_count_def)

lemma winv_emitChunk: "writer_inv w \<Longrightarrow> writer_inv (snd (emitChunk c w))"
proof -
  assume w: "writer_inv w"
  let ?j = "json_print (chunk_json (ensureSuccessHeaders w) c)"
  let ?w = "(ensureSuccessHeaders w)\<lparr> sw_content_chunks := sw_content_chunks (ensureSuccessHeaders w) + (if has_content c then 1 else 0),
                  sw_chunks_emitted := sw_chunks_emitted (ensureSuccessHeaders w) + 1 \<rparr>"
  have k: "keeps_winv (\<lambda>w. go_on (writeDownstream ''data: '' w) (\<lambda>w2. go_on (writeDownstream ?j w2)
      (\<lambda>w3. go_on (writeDownstream blank_line w3) ok_so_far)))"
    by (rule keeps_winv_go_on [OF keeps_winv_write keeps_winv_go_on [OF keeps_winv_write
          keeps_winv_go_on [OF keeps_winv_write keeps_winv_ok]]]) simp_all
  have "writer_inv ?w \<and> sw_headers_written ?w"
    using w by (simp add: writer_inv_def ensureSuccessHeaders_def done_count_def)
  with k show ?thesis unfolding keeps_winv_def emitChunk_def Let_def by blast
qed

lemma winv_emitComment: "writer_inv w \<Longrightarrow> c \<noteq> done_frame \<Longrightarrow> writer_inv (snd (emitComment c w))"
proof -
  assume w: "writer_inv w" and c: "c \<noteq> done_frame"
  have "keeps_winv (\<lambda>w. go_on (writeDownstream '': '' w) (writeDownstream c))"
    by (rule keeps_winv_go_on [OF keeps_winv_write keeps_winv_write]) (simp_all add: c)
  then have 1: "keeps_winv (\<lambda>w. if c = [] then (True, w) else go_on (writeDownstream '': '' w) (writeDownstream c))"
    by (auto simp: keeps_winv_def)
  have 2: "keeps_winv (\<lambda>w1. go_on (writeDownstream blank_line w1) ok_so_far)"
    by (rule keeps_winv_go_on [OF keeps_winv_write keeps_winv_ok]) simp
  have "writer_inv (ensureSuccessHeaders w) \<and> sw_headers_written (ensureSuccessHeaders w)"
    using winv_headers [OF w] by (simp add: ensureSuccessHeaders_def)
  with keeps_winv_go_on [OF 1 2] show ?thesis unfolding keeps_winv_def emitComment_def Let_def by blast
qed

lemma winv_emitDone:
  "writer_inv w \<Longrightarrow> writer_inv (snd (emitDone False (w\<lparr>sw_terminal_signal_seen := True\<rparr>)))"
  by (auto simp: emitDone_def ok_so_far_def go_on_def writeDownstream_def ensureSuccessHeaders_def writer_inv_def
      done_count_def split: option.split)

text \<open>The text downstream.\<close>

lemma text_in_append [simp]: "text_in (xs @ ys) = text_in xs @ text_in ys"
  by (simp add: text_in_def)

lemma text_in_Cons [simp]: "text_in [] = []" "text_in (x # y # ys) = text_in [x] @ text_in (y # ys)"
  by (simp_all add: text_in_def)

lemma text_in_silent [simp]:
  "text_in [''data: ''] = []" "text_in [blank_line] = []" "text_in ['': ''] = []" "text_in [''ping''] = []"
  "text_in [done_frame] = []"
proof -
  have "json_parse ''data: '' = None" "json_parse blank_line = None" "json_parse '': '' = None"
    "json_parse ''ping'' = None" "json_parse done_frame = None" by code_simp+
  then show "text_in [''data: ''] = []" "text_in [blank_line] = []" "text_in ['': ''] = []" "text_in [''ping''] = []"
    "text_in [done_frame] = []" by (simp_all add: text_in_def)
qed

definition chunk_content :: "chunk \<Rightarrow> string" where
  "chunk_content c = (case c of TextChunk t \<Rightarrow> t | _ \<Rightarrow> [])"

lemma text_in_chunk [simp]: "text_in [json_print (chunk_json w c)] = chunk_content c"
proof -
  have "scan_number ''0'' = Some (''0'', [])" by code_simp
  then have "json_ok (chunk_json w c)"
    by (auto simp: chunk_json_def delta_members_def omit_blank_def scan_number_itoa split: chunk.split)
  from json_parse_print [OF this] have "text_in [json_print (chunk_json w c)] = chunk_text (chunk_json w c)"
    by (simp add: text_in_def)
  also have "\<dots> = chunk_content c"
    by (simp add: chunk_text_def chunk_json_def chunk_content_def delta_members_def omit_blank_def jget_def jmembers_def
        jstring_def split: chunk.split)
  finally show ?thesis .
qed

lemma text_emitChunk:
  "sw_fails w = None \<Longrightarrow> text_in (sw_out (snd (emitChunk c w))) = text_in (sw_out w) @ chunk_content c"
  by (simp add: emitChunk_def Let_def go_on_def writeDownstream_def ensureSuccessHeaders_def ok_so_far_def)

lemma text_emitDone:
  "sw_fails w = None \<Longrightarrow> text_in (sw_out (snd (emitDone b w))) = text_in (sw_out w)"
  by (simp add: emitDone_def go_on_def writeDownstream_def ensureSuccessHeaders_def ok_so_far_def)

lemma text_ping: "sw_fails w = None \<Longrightarrow> text_in (sw_out (snd (emitComment ''ping'' w))) = text_in (sw_out w)"
  by (simp add: emitComment_def go_on_def writeDownstream_def ensureSuccessHeaders_def ok_so_far_def Let_def)

lemma event_emit [simp]:
  "sw_last_event_type (snd (emitChunk c w)) = sw_last_event_type w"
  "sw_last_event_type (snd (emitDone b w)) = sw_last_event_type w"
  "sw_last_event_type (snd (emitComment t w)) = sw_last_event_type w"
  by (simp_all add: emitChunk_def emitDone_def emitComment_def Let_def go_on_def writeDownstream_def
      ensureSuccessHeaders_def ok_so_far_def split: option.split)

section \<open>The loop over the lines\<close>

text \<open>The lines of a body that has ended: the complete ones, and the rest if it is not blank.\<close>

definition stream_lines :: "string \<Rightarrow> string list" where
  "stream_lines body =
     (let raws = split_char newline body; rest = trim_right [CHR 0x0D, newline] (last raws)
      in map (trim_right [CHR 0x0D]) (butlast raws) @ (if rest \<noteq> [] then [rest] else []))"

fun lines_text :: "(string \<Rightarrow> string \<Rightarrow> string) \<Rightarrow> (string \<Rightarrow> string \<Rightarrow> string) \<Rightarrow> string \<Rightarrow> string list \<Rightarrow> string" where
  "lines_text text_of next_event ev [] = []"
| "lines_text text_of next_event ev (l # ls) =
     text_of ev l @ lines_text text_of next_event (next_event ev l) ls"

lemma lines_text_append:
  "lines_text t n ev (xs @ ys) = lines_text t n ev xs @ lines_text t n (foldl n ev xs) ys"
  by (induction t n ev xs rule: lines_text.induct) simp_all

lemma cut_at_simps [simp]:
  "cut_at d (c # cs) = (if c = d then ([], cs) else (c # fst (cut_at d cs), snd (cut_at d cs)))"
  by (simp add: cut_at_def)

lemma split_char_cut: "d \<in> set s \<Longrightarrow> split_char d s = fst (cut_at d s) # split_char d (snd (cut_at d s))"
  by (induction s) (auto split: list.split)

lemma split_char_no: "d \<notin> set s \<Longrightarrow> split_char d s = [s]"
  by (induction s) auto

lemma nextLine_None: "nextLine buf = None \<longleftrightarrow> newline \<notin> set buf"
  by (simp add: nextLine_def)

lemma nextLine_Some:
  "nextLine buf = Some (l, rest) \<Longrightarrow> split_char newline buf = fst (cut_at newline buf) # split_char newline rest
     \<and> l = trim_right [CHR 0x0D] (fst (cut_at newline buf))"
  using split_char_cut [of newline buf] by (auto simp: nextLine_def split: if_splits)

lemma cut_at_append: "d \<in> set s \<Longrightarrow> cut_at d (s @ t) = (fst (cut_at d s), snd (cut_at d s) @ t)"
  by (induction s) auto

lemma nextLine_append: "nextLine a = Some (l, rest) \<Longrightarrow> nextLine (a @ b) = Some (l, rest @ b)"
  using cut_at_append [of newline a b] by (auto simp: nextLine_def split: if_splits)

text \<open>What is seen of a writer: after a failure the buffer no longer matters.\<close>

definition observed :: "stream_writer \<Rightarrow> stream_writer" where
  "observed w = (if sw_downstream_err w then w\<lparr>sw_line_buf := []\<rparr> else w)"

locale line_handler =
  fixes handle :: "string \<Rightarrow> stream_writer \<Rightarrow> emission"
    and text_of :: "string \<Rightarrow> string \<Rightarrow> string"
    and next_event :: "string \<Rightarrow> string \<Rightarrow> string"
  assumes handle_emits: "emits (handle line)"
    and handle_inv: "writer_inv w \<Longrightarrow> writer_inv (snd (handle line w))"
    and handle_event: "sw_last_event_type (snd (handle line w)) = next_event (sw_last_event_type w) line"
    and handle_text: "sw_fails w = None \<Longrightarrow> \<not> sw_downstream_err w \<Longrightarrow>
          text_in (sw_out (snd (handle line w))) = text_in (sw_out w) @ text_of (sw_last_event_type w) line"
begin

lemma handle_buf: "handle line (w\<lparr>sw_line_buf := b\<rparr>) = (fst (handle line w), (snd (handle line w))\<lparr>sw_line_buf := b\<rparr>)"
  using handle_emits [of line] unfolding emits_def by blast

lemma handle_go: "\<not> sw_downstream_err w \<Longrightarrow> fst (handle line w) = (\<not> sw_downstream_err (snd (handle line w)))"
  using handle_emits [of line] unfolding emits_def by blast

lemma handle_same [simp]:
  "sw_status (snd (handle line w)) = sw_status w" "sw_fails (snd (handle line w)) = sw_fails w"
  using handle_emits [of line] unfolding emits_def by blast+

lemma drain_step:
  "drain handle buf w =
     (case nextLine buf of
        None \<Rightarrow> w\<lparr>sw_line_buf := buf\<rparr>
      | Some (line, rest) \<Rightarrow>
          (if fst (handle line w) then drain handle rest ((snd (handle line w))\<lparr>sw_line_buf := rest\<rparr>)
           else (snd (handle line w))\<lparr>sw_line_buf := rest\<rparr>))"
  by (subst drain.simps) (simp add: handle_buf split: option.split)

lemma drain_buf: "drain handle buf (w\<lparr>sw_line_buf := b\<rparr>) = drain handle buf w"
  by (subst (1 2) drain_step) (simp add: handle_buf split: option.split)

lemma drain_append:
  "\<not> sw_downstream_err w \<Longrightarrow>
     observed (drain handle (a @ b) w)
     = (let w1 = drain handle a w in
        if sw_downstream_err w1 then observed w1 else observed (drain handle (sw_line_buf w1 @ b) w1))"
proof (induction "length a" arbitrary: a w rule: less_induct)
  case less
  show ?case
  proof (cases "nextLine a")
    case None
    then show ?thesis using less.prems by (simp add: drain_step [of a w] drain_buf Let_def)
  next
    case (Some lr)
    obtain l rest where lr: "lr = (l, rest)" by (cases lr)
    have n: "nextLine a = Some (l, rest)" "nextLine (a @ b) = Some (l, rest @ b)"
      using Some nextLine_append by (simp_all add: lr)
    have go: "fst (handle l w) = (\<not> sw_downstream_err (snd (handle l w)))" by (rule handle_go [OF less.prems])
    show ?thesis
    proof (cases "fst (handle l w)")
      case True
      have "drain handle a w = drain handle rest (snd (handle l w))"
        "drain handle (a @ b) w = drain handle (rest @ b) (snd (handle l w))"
        using True by (simp_all add: drain_step [of _ w] n drain_buf)
      with less.hyps [OF nextLine_shorter [OF n(1)], of "snd (handle l w)"] go True show ?thesis by simp
    next
      case False
      then have "drain handle a w = (snd (handle l w))\<lparr>sw_line_buf := rest\<rparr>"
        "drain handle (a @ b) w = (snd (handle l w))\<lparr>sw_line_buf := rest @ b\<rparr>"
        by (simp_all add: drain_step [of _ w] n)
      with go False show ?thesis by (simp add: observed_def Let_def)
    qed
  qed
qed

lemma drain_keeps:
  "sw_status (drain handle a w) = sw_status w \<and> sw_fails (drain handle a w) = sw_fails w
   \<and> (writer_inv w \<longrightarrow> writer_inv (drain handle a w))"
proof (induction "length a" arbitrary: a w rule: less_induct)
  case less
  have buf: "writer_inv (w\<lparr>sw_line_buf := b\<rparr>) = writer_inv w" for w b
    by (simp add: writer_inv_def done_count_def)
  show ?case
    using less.hyps [OF nextLine_shorter]
    by (subst (1 2 3) drain_step) (auto simp: buf drain_buf handle_inv split: option.split)
qed

lemma drain_text:
  "sw_fails w = None \<Longrightarrow> \<not> sw_downstream_err w \<Longrightarrow> writer_inv w \<Longrightarrow>
     \<not> sw_downstream_err (drain handle a w)
     \<and> sw_line_buf (drain handle a w) = last (split_char newline a)
     \<and> sw_last_event_type (drain handle a w)
         = foldl next_event (sw_last_event_type w) (map (trim_right [CHR 0x0D]) (butlast (split_char newline a)))
     \<and> text_in (sw_out (drain handle a w))
         = text_in (sw_out w)
           @ lines_text text_of next_event (sw_last_event_type w) (map (trim_right [CHR 0x0D]) (butlast (split_char newline a)))"
proof (induction "length a" arbitrary: a w rule: less_induct)
  case less
  show ?case
  proof (cases "nextLine a")
    case None
    then have "newline \<notin> set a" by (simp add: nextLine_None)
    then show ?thesis using less.prems by (simp add: drain_step [of a w] None split_char_no)
  next
    case (Some lr)
    obtain l rest where lr: "lr = (l, rest)" by (cases lr)
    let ?h = "snd (handle l w)"
    have n: "nextLine a = Some (l, rest)" using Some by (simp add: lr)
    have inv: "writer_inv ?h" "sw_fails ?h = None" using less.prems by (simp_all add: handle_inv)
    then have ok: "\<not> sw_downstream_err ?h" by (simp add: writer_inv_def)
    then have "drain handle a w = drain handle rest ?h"
      using handle_go [OF less.prems(2), of l] by (simp add: drain_step [of a w] n drain_buf)
    then show ?thesis
      using less.hyps [OF nextLine_shorter [OF n] inv(2) ok inv(1)] nextLine_Some [OF n] less.prems
      by (simp add: handle_event handle_text)
  qed
qed

section \<open>Writes\<close>

lemma observed_err [simp]: "sw_downstream_err (observed w) = sw_downstream_err w"
  by (simp add: observed_def)

lemma observed_write_cong:
  assumes "observed v = observed w" shows "observed (writer_Write handle p v) = observed (writer_Write handle p w)"
proof (cases "sw_downstream_err v")
  case True
  then have "sw_downstream_err w" using assms observed_err by metis
  with True assms show ?thesis
    by (cases v, cases w) (simp add: observed_def writer_Write_def)
next
  case False
  then have "v = w" using assms observed_err [of v] observed_err [of w] by (simp add: observed_def split: if_splits)
  then show ?thesis by simp
qed

lemma write_append:
  "observed (writer_Write handle b (writer_Write handle a w)) = observed (writer_Write handle (a @ b) w)"
proof -
  define v where "v = (if sw_status w = 0 then w\<lparr>sw_status := 200\<rparr> else w)"
  have st: "sw_status v \<noteq> 0" by (simp add: v_def)
  have wr: "writer_Write handle p w = writer_Write handle p v" for p by (simp add: writer_Write_def v_def)
  have vv: "writer_Write handle p x = (if sw_downstream_err x then x
      else if sw_status x \<noteq> 200 then x\<lparr>sw_raw_error_body := sw_raw_error_body x @ p\<rparr>
      else drain handle (sw_line_buf x @ p) x)" if "sw_status x \<noteq> 0" for p x
    using that by (simp add: writer_Write_def)
  show ?thesis
  proof (cases "sw_downstream_err v \<or> sw_status v \<noteq> 200")
    case True
    then show ?thesis using st by (auto simp: wr vv)
  next
    case False
    let ?w1 = "drain handle (sw_line_buf v @ a) v"
    have s1: "sw_status ?w1 = 200" using False drain_keeps by simp
    have e: "writer_Write handle b (writer_Write handle a v)
        = (if sw_downstream_err ?w1 then ?w1 else drain handle (sw_line_buf ?w1 @ b) ?w1)"
      using False st s1 by (simp add: vv)
    have "observed (drain handle (sw_line_buf v @ (a @ b)) v)
        = (if sw_downstream_err ?w1 then observed ?w1 else observed (drain handle (sw_line_buf ?w1 @ b) ?w1))"
      using drain_append [of v "sw_line_buf v @ a" b] False by (simp add: Let_def)
    with e False st show ?thesis by (simp add: wr vv)
  qed
qed

lemma writes_observed:
  "ps \<noteq> [] \<Longrightarrow> observed (foldl (\<lambda>w p. writer_Write handle p w) w ps) = observed (writer_Write handle (concat ps) w)"
proof (induction ps rule: rev_induct)
  case (snoc p ps)
  show ?case
  proof (cases "ps = []")
    case False
    then show ?thesis
      using snoc.IH observed_write_cong [of "foldl (\<lambda>w p. writer_Write handle p w) w ps" "writer_Write handle (concat ps) w" p]
      by (simp add: write_append)
  qed simp
qed simp

lemma observed_finalize_cong:
  "observed v = observed w \<Longrightarrow> observed (writer_finalize handle v) = observed (writer_finalize handle w)"
proof (cases "sw_downstream_err v")
  case True
  assume o: "observed v = observed w"
  then have "sw_downstream_err w" using True observed_err by metis
  with True o show ?thesis by (simp add: writer_finalize_def)
next
  case False
  assume o: "observed v = observed w"
  then have "v = w" using False observed_err [of v] observed_err [of w] by (simp add: observed_def split: if_splits)
  then show ?thesis by simp
qed

lemma drain_out_inv: "writer_inv w \<Longrightarrow> writer_inv (writer_Write handle p w)"
proof -
  have "writer_inv (v\<lparr>sw_status := x\<rparr>) = writer_inv v" "writer_inv (v\<lparr>sw_raw_error_body := y\<rparr>) = writer_inv v" for v x y
    by (simp_all add: writer_inv_def done_count_def)
  then show "writer_inv w \<Longrightarrow> ?thesis" using drain_keeps by (simp add: writer_Write_def Let_def)
qed

lemma finalize_done:
  assumes inv: "writer_inv w" and fails: "sw_fails w = None" and st: "sw_status w = 0 \<or> sw_status w = 200"
  shows "\<not> sw_downstream_err (writer_finalize handle w) \<and> done_count (writer_finalize handle w) = 1
    \<and> sw_synthetic_done (writer_finalize handle w) = (\<not> sw_terminal_signal_seen (writer_finalize handle w))
    \<and> writer_completed (writer_finalize handle w) = sw_terminal_signal_seen (writer_finalize handle w)
    \<and> text_in (sw_out (writer_finalize handle w)) = text_in (sw_out w)
        @ (let l = trim_right [CHR 0x0D, newline] (sw_line_buf w) in
           if l \<noteq> [] then text_of (sw_last_event_type w) l else [])"
proof -
  define l where "l = trim_right [CHR 0x0D, newline] (sw_line_buf w)"
  define w1 where "w1 = w\<lparr>sw_line_buf := []\<rparr>"
  define r where "r = (if l \<noteq> [] then handle l w1 else (True, w1))"
  have w1: "writer_inv w1" "sw_fails w1 = None" "\<not> sw_downstream_err w1" "\<not> sw_downstream_err w"
    using inv fails by (simp_all add: w1_def writer_inv_def done_count_def)
  have i2: "writer_inv (snd r)" "sw_fails (snd r) = None" "sw_status (snd r) = sw_status w"
    using w1 by (simp_all add: r_def handle_inv) (simp add: w1_def)
  then have e2: "\<not> sw_downstream_err (snd r)" by (simp add: writer_inv_def)
  then have go: "fst r" using handle_go [OF w1(3), of l] by (auto simp: r_def split: if_splits)
  have fin: "writer_finalize handle w = snd (emitDone (\<not> sw_terminal_signal_seen (snd r)) (snd r))"
    using st w1(4) go by (auto simp: writer_finalize_def Let_def case_prod_beta l_def [symmetric] w1_def [symmetric] r_def [symmetric])
  have tx: "text_in (sw_out (snd r)) = text_in (sw_out w) @ (if l \<noteq> [] then text_of (sw_last_event_type w) l else [])"
    using handle_text [OF w1(2,3), of l] by (simp add: r_def w1_def)
  show ?thesis
    unfolding fin l_def [symmetric] Let_def
    using i2 e2 st tx
    by (auto simp: emitDone_def go_on_def writeDownstream_def ensureSuccessHeaders_def ok_so_far_def writer_inv_def
        done_count_def writer_completed_def)
qed

text \<open>The whole stream, in whatever pieces it is written.\<close>

lemma stream_clean:
  fixes created :: int and requested :: string
  assumes "ps \<noteq> []"
  defines "w \<equiv> writer_WriteHeader 200 (new_stream_writer None created requested)"
  defines "v \<equiv> writer_finalize handle (foldl (\<lambda>w p. writer_Write handle p w) w ps)"
  shows "done_count v = 1 \<and> sw_synthetic_done v = (\<not> sw_terminal_signal_seen v)
    \<and> writer_completed v = sw_terminal_signal_seen v
    \<and> text_in (sw_out v) = lines_text text_of next_event [] (stream_lines (concat ps))"
proof -
  have w: "writer_inv w" "sw_fails w = None" "sw_status w = 200" "\<not> sw_downstream_err w" "sw_line_buf w = []"
    "sw_last_event_type w = []" "sw_out w = []"
    by (simp_all add: w_def writer_WriteHeader_def new_stream_writer_def writer_inv_def done_count_def)
  define x where "x = writer_Write handle (concat ps) w"
  have x: "x = drain handle (concat ps) w" using w by (simp add: x_def writer_Write_def)
  have keep: "writer_inv x" "sw_fails x = None" "sw_status x = 200" using drain_keeps [of "concat ps" w] w by (simp_all add: x)
  note t = drain_text [OF w(2,4,1), of "concat ps", folded x]
  have "observed (foldl (\<lambda>w p. writer_Write handle p w) w ps) = observed x"
    unfolding x_def by (rule writes_observed [OF assms(1)])
  then have "observed v = observed (writer_finalize handle x)" unfolding v_def by (rule observed_finalize_cong)
  moreover have fin: "\<not> sw_downstream_err (writer_finalize handle x)" using finalize_done [OF keep(1,2)] keep(3) by simp
  ultimately have "v = writer_finalize handle x"
    using observed_err [of v] observed_err [of "writer_finalize handle x"] by (simp add: observed_def split: if_splits)
  then show ?thesis
    using finalize_done [OF keep(1,2)] keep(3) t w
    by (simp add: stream_lines_def Let_def lines_text_append text_in_def)
qed

end

section \<open>The two handlers\<close>

lemma emits_cases:
  assumes "emits f"
  shows "f (w\<lparr>sw_line_buf := b\<rparr>) = (fst (f w), (snd (f w))\<lparr>sw_line_buf := b\<rparr>)"
    "\<not> sw_downstream_err w \<Longrightarrow> fst (f w) = (\<not> sw_downstream_err (snd (f w)))"
    "sw_status (snd (f w)) = sw_status w" "sw_fails (snd (f w)) = sw_fails w" "sw_created (snd (f w)) = sw_created w"
  using assms unfolding emits_def by blast+

lemma emits_let: "emits (\<lambda>w. f (u w)) \<Longrightarrow> emits (\<lambda>w. let v = u w in f v)"
  by (simp add: Let_def)

text \<open>The text that a line of Claude adds, after an event line.\<close>

definition claude_next_event :: "string \<Rightarrow> string \<Rightarrow> string" where
  "claude_next_event ev line = (if has_prefix line ''event: '' then drop 7 line else ev)"

definition claude_line_text :: "string \<Rightarrow> string \<Rightarrow> string" where
  "claude_line_text ev line =
     (if has_prefix line ''data: '' \<and> ev = ''content_block_delta'' then
        (case unmarshal_ok [(''delta'', struct_field id (\<lambda>x _. x) part_fields)] (drop 6 line) ([], []) of
           Some (t, text) \<Rightarrow> (if t = ''text_delta'' then text else []) | None \<Rightarrow> [])
      else [])"

definition gemini_line_text :: "string \<Rightarrow> string \<Rightarrow> string" where
  "gemini_line_text ev line =
     (if has_prefix line ''data: '' \<and> trim_space (drop 6 line) \<noteq> ''[DONE]'' then
        (case compatParseGeminiResponse (trim_space (drop 6 line)) of
           Some a \<Rightarrow> (case ga_candidates a of c # _ \<Rightarrow> candidate_text c | [] \<Rightarrow> []) | None \<Rightarrow> [])
      else [])"

lemma prefix_disjoint: "has_prefix line ''event: '' \<Longrightarrow> \<not> has_prefix line ''data: ''"
  by (cases line) (auto simp: has_prefix_def)

lemma prefix_of_Nil: "has_prefix [] p \<longleftrightarrow> p = []"
  by (auto simp: has_prefix_def)

lemmas claude_events = emits_emitDone emits_emitComment emits_emitChunk

lemma winv_fields [simp]:
  "writer_inv (w\<lparr>sw_chunk_id := i\<rparr>) = writer_inv w" "writer_inv (w\<lparr>sw_role_sent := b\<rparr>) = writer_inv w"
  "writer_inv (w\<lparr>sw_last_event_type := e\<rparr>) = writer_inv w"
  by (simp_all add: writer_inv_def done_count_def)

lemma claude_emits: "emits (handleClaudeStreamLine line)"
proof -
  let ?p = "drop 6 line"
  define i where "i = unmarshal_ok [(''message'', struct_field id (\<lambda>x _. x) [(''id'', string_field (\<lambda>x (_::string). x))])] ?p []"
  have start: "emits (\<lambda>w. let w1 = (case i of Some i \<Rightarrow> (if nonblank i then w\<lparr>sw_chunk_id := i\<rparr> else w) | None \<Rightarrow> w)
        in if sw_role_sent w1 then (True, w1) else emitChunk (RoleChunk ''assistant'') (w1\<lparr>sw_role_sent := True\<rparr>))"
  proof (rule emits_let, rule emits_after)
    have "emits (\<lambda>w1. emitChunk (RoleChunk ''assistant'') (w1\<lparr>sw_role_sent := True\<rparr>))"
      by (rule emits_after [OF emits_emitChunk]) (simp add: plain_change_def)
    then show "emits (\<lambda>w1. if sw_role_sent w1 then (True, w1) else emitChunk (RoleChunk ''assistant'') (w1\<lparr>sw_role_sent := True\<rparr>))"
      by (rule emits_if [OF emits_pure]) simp
    show "plain_change (\<lambda>w. case i of Some i \<Rightarrow> (if nonblank i then w\<lparr>sw_chunk_id := i\<rparr> else w) | None \<Rightarrow> w)"
      by (simp add: plain_change_def split: option.split)
  qed
  have tdelta: "emits (\<lambda>w. case d of Some (t, text) \<Rightarrow> (if t = ''text_delta'' \<and> text \<noteq> [] then emitChunk (TextChunk text) w else (True, w))
        | None \<Rightarrow> (True, w))" for d
    by (cases d; cases "the d"; cases "fst (the d) = ''text_delta'' \<and> snd (the d) \<noteq> []")
      (auto simp: emits_pure emits_emitChunk)
  have fin: "emits (\<lambda>w. case d of Some r \<Rightarrow> (if nonblank r then emitChunk (FinishChunk (compatClaudeFinishReason r)) w else (True, w))
        | None \<Rightarrow> (True, w))" for d
    by (cases d; cases "nonblank (the d)") (auto simp: emits_pure emits_emitChunk)
  have stop: "emits (\<lambda>w. emitDone False (w\<lparr>sw_terminal_signal_seen := True\<rparr>))"
    by (rule emits_after [OF emits_emitDone]) (simp add: plain_change_def)
  have ev: "emits (\<lambda>w. (True, w\<lparr>sw_last_event_type := drop 7 line\<rparr>))"
    by (rule emits_change) (simp add: plain_change_def)
  show ?thesis
    unfolding handleClaudeStreamLine_def [abs_def] Let_def
    by (rule emits_if [OF emits_pure], rule emits_if [OF ev], rule emits_if [OF emits_pure],
        rule emits_if [OF start [unfolded Let_def i_def]], rule emits_if [OF tdelta], rule emits_if [OF fin],
        rule emits_if [OF stop], rule emits_if [OF emits_emitComment emits_pure]) simp_all
qed

interpretation claude_lines: line_handler handleClaudeStreamLine claude_line_text claude_next_event
proof
  show "emits (handleClaudeStreamLine line)" for line by (rule claude_emits)
  show "writer_inv (snd (handleClaudeStreamLine line w))" if "writer_inv w" for line w
    using that
    by (auto simp: handleClaudeStreamLine_def Let_def winv_emitChunk winv_emitComment winv_emitDone split: option.split)
  show "sw_last_event_type (snd (handleClaudeStreamLine line w)) = claude_next_event (sw_last_event_type w) line" for line w
    by (auto simp: handleClaudeStreamLine_def claude_next_event_def Let_def prefix_of_Nil split: option.split)
  show "text_in (sw_out (snd (handleClaudeStreamLine line w)))
      = text_in (sw_out w) @ claude_line_text (sw_last_event_type w) line" if "sw_fails w = None" for line w
    using that prefix_disjoint [of line]
    by (auto simp: handleClaudeStreamLine_def claude_line_text_def Let_def text_emitChunk text_emitDone text_ping
        chunk_content_def prefix_of_Nil split: option.split)
qed

lemma gemini_text_emits: "emits (gemini_text c)"
proof -
  have 1: "emits (\<lambda>w. if sw_role_sent w then (True, w) else emitChunk (RoleChunk ''assistant'') (w\<lparr>sw_role_sent := True\<rparr>))"
    by (rule emits_if [OF emits_pure emits_after [OF emits_emitChunk]]) (simp_all add: plain_change_def)
  have 2: "emits (\<lambda>w1. if candidate_text c \<noteq> [] then emitChunk (TextChunk (candidate_text c)) w1 else (True, w1))"
    by (rule emits_if [OF emits_emitChunk emits_pure]) simp
  show ?thesis
    unfolding gemini_text_def [abs_def] by (rule emits_if [OF emits_pure emits_go_on [OF 1 2]]) simp
qed

lemma gemini_finish_emits: "emits (gemini_finish c)"
proof -
  have "emits (\<lambda>w. emitChunk (FinishChunk (compatGeminiFinishReason (gc_finish_reason c))) (w\<lparr>sw_terminal_signal_seen := True\<rparr>))"
    by (rule emits_after [OF emits_emitChunk]) (simp add: plain_change_def)
  then show ?thesis unfolding gemini_finish_def [abs_def] by (rule emits_if [OF _ emits_pure]) simp
qed

lemma gemini_emits: "emits (handleGeminiStreamLine line)"
proof -
  have stop: "emits (\<lambda>w. emitDone False (w\<lparr>sw_terminal_signal_seen := True\<rparr>))"
    by (rule emits_after [OF emits_emitDone]) (simp add: plain_change_def)
  have answer: "emits (\<lambda>w. let w1 = (if nonblank i then w\<lparr>sw_chunk_id := i\<rparr> else w) in
      case cs of [] \<Rightarrow> (True, w1) | c # _ \<Rightarrow> go_on (gemini_text c w1) (gemini_finish c))" for i cs
  proof (rule emits_let, rule emits_after)
    show "emits (\<lambda>w1. case cs of [] \<Rightarrow> (True, w1) | c # _ \<Rightarrow> go_on (gemini_text c w1) (gemini_finish c))"
      by (cases cs) (simp_all add: emits_pure emits_go_on [OF gemini_text_emits gemini_finish_emits])
    show "plain_change (\<lambda>w. if nonblank i then w\<lparr>sw_chunk_id := i\<rparr> else w)" by (simp add: plain_change_def)
  qed
  have "emits (\<lambda>w. case d of None \<Rightarrow> (True, w) | Some a \<Rightarrow>
      (let w1 = (if nonblank (ga_response_id a) then w\<lparr>sw_chunk_id := ga_response_id a\<rparr> else w) in
       case ga_candidates a of [] \<Rightarrow> (True, w1) | c # _ \<Rightarrow> go_on (gemini_text c w1) (gemini_finish c)))" for d
    by (cases d) (simp_all add: emits_pure answer)
  then show ?thesis
    unfolding handleGeminiStreamLine_def [abs_def] Let_def [where s = "trim_space (drop 6 line)"]
    by (intro emits_if [OF emits_pure] emits_if [OF stop]) simp_all
qed

lemma winv_terminal: "writer_inv w \<Longrightarrow> writer_inv (w\<lparr>sw_terminal_signal_seen := True\<rparr>)"
  by (simp add: writer_inv_def done_count_def)

lemma emitChunk_go: "sw_fails w = None \<Longrightarrow> \<not> sw_downstream_err w \<Longrightarrow> fst (emitChunk c w)"
  by (simp add: emitChunk_def Let_def go_on_def writeDownstream_def ensureSuccessHeaders_def ok_so_far_def)

lemma gemini_text_facts:
  "writer_inv w \<Longrightarrow> writer_inv (snd (gemini_text c w))"
  "sw_last_event_type (snd (gemini_text c w)) = sw_last_event_type w"
  "sw_fails w = None \<Longrightarrow> \<not> sw_downstream_err w \<Longrightarrow>
     text_in (sw_out (snd (gemini_text c w))) = text_in (sw_out w) @ candidate_text c"
  using emits_cases(4) [OF emits_emitChunk] emitChunk_go
  by (auto simp: gemini_text_def go_on_def winv_emitChunk text_emitChunk chunk_content_def candidate_text_def)

lemma gemini_finish_facts:
  "writer_inv w \<Longrightarrow> writer_inv (snd (gemini_finish c w))"
  "sw_last_event_type (snd (gemini_finish c w)) = sw_last_event_type w"
  "sw_fails w = None \<Longrightarrow> text_in (sw_out (snd (gemini_finish c w))) = text_in (sw_out w)"
  by (auto simp: gemini_finish_def winv_emitChunk winv_terminal text_emitChunk chunk_content_def)

interpretation gemini_lines: line_handler handleGeminiStreamLine gemini_line_text "\<lambda>ev _. ev"
proof
  show "emits (handleGeminiStreamLine line)" for line by (rule gemini_emits)
  show "writer_inv (snd (handleGeminiStreamLine line w))" if "writer_inv w" for line w
    using that
    by (auto simp: handleGeminiStreamLine_def Let_def go_on_def winv_emitDone gemini_text_facts gemini_finish_facts
        split: option.split list.split)
  show "sw_last_event_type (snd (handleGeminiStreamLine line w)) = sw_last_event_type w" for line w
    by (auto simp: handleGeminiStreamLine_def Let_def go_on_def gemini_text_facts gemini_finish_facts
        split: option.split list.split)
  show "text_in (sw_out (snd (handleGeminiStreamLine line w)))
      = text_in (sw_out w) @ gemini_line_text (sw_last_event_type w) line" if f: "sw_fails w = None" "\<not> sw_downstream_err w" for line w
  proof -
    have e: "gemini_envelope [] = None" "compatParseGeminiResponse [] = None"
      by (simp_all add: gemini_envelope_def compatParseGeminiResponse_def)
    show ?thesis
      using f emits_cases(4) [OF gemini_text_emits]
      by (auto simp: handleGeminiStreamLine_def gemini_line_text_def Let_def go_on_def text_emitDone e prefix_of_Nil
          gemini_text_facts gemini_finish_facts split: option.split list.split)
  qed
qed

end
