(* ===== verification/CompatAnswers.thy ===== *)
theory CompatAnswers
  imports CompatLines
begin

text \<open>
  The properties of the answers of the compat surface: the segmentation of the relayed stream does not matter,
  and a stream that is relayed without a fault gives the whole text and ends exactly once.
\<close>

section \<open>Segments\<close>

text \<open>C19: The segmentation of a stream does not matter. However the relay cuts the upstream body into writes, in the
  middle of a line, of an event or of a character, both writers end up with the same downstream bytes, flags and
  errors as for a single write of the whole body, also when a downstream write fails on the way.\<close>
theorem stream_writes_free:
  assumes "ps \<noteq> []"
  shows "observed (claude_finalize (foldl (\<lambda>w p. claude_Write p w) w ps))
      = observed (claude_finalize (claude_Write (concat ps) w))
    \<and> observed (gemini_finalize (foldl (\<lambda>w p. gemini_Write p w) w ps))
      = observed (gemini_finalize (gemini_Write (concat ps) w))"
  unfolding claude_Write_def gemini_Write_def claude_finalize_def gemini_finalize_def
  using claude_lines.observed_finalize_cong [OF claude_lines.writes_observed [OF assms]]
    gemini_lines.observed_finalize_cong [OF gemini_lines.writes_observed [OF assms]]
  by blast

definition sample_pieces :: "string list" where
  "sample_pieces = [''event: mess'', ''age_stop'' @ [newline] @ ''data: {}'', [newline]]"

definition sample_writer :: "nat option \<Rightarrow> stream_writer" where
  "sample_writer fails = writer_WriteHeader 200 (new_stream_writer fails 7 ''claude/claude-sonnet-5'')"

theorem stream_writes_free_witness:
  "sw_out (claude_finalize (foldl (\<lambda>w p. claude_Write p w) (sample_writer None) sample_pieces)) = [done_frame]"
proof -
  have n: "sample_pieces \<noteq> []" by (simp add: sample_pieces_def)
  have o: "observed w = observed v \<Longrightarrow> sw_out w = sw_out v" for v w
    unfolding observed_def by (auto split: if_splits dest: arg_cong [of _ _ sw_out])
  from stream_writes_free [OF n, of "sample_writer None"]
  have "observed (claude_finalize (foldl (\<lambda>w p. claude_Write p w) (sample_writer None) sample_pieces))
      = observed (claude_finalize (claude_Write (concat sample_pieces) (sample_writer None)))" by blast
  from o [OF this] have "sw_out (claude_finalize (foldl (\<lambda>w p. claude_Write p w) (sample_writer None) sample_pieces))
      = sw_out (claude_finalize (claude_Write (concat sample_pieces) (sample_writer None)))" .
  also have "\<dots> = [done_frame]" by code_simp
  finally show ?thesis .
qed

section \<open>A stream without a fault\<close>

definition relayed :: "(string \<Rightarrow> stream_writer \<Rightarrow> stream_writer) \<Rightarrow> (stream_writer \<Rightarrow> stream_writer) \<Rightarrow> int \<Rightarrow> string
    \<Rightarrow> string list \<Rightarrow> stream_writer" where
  "relayed wr fin created requested ps =
     fin (foldl (\<lambda>w p. wr p w) (writer_WriteHeader 200 (new_stream_writer None created requested)) ps)"

text \<open>What a clean end is: one end marker, marked as made up exactly when the provider sent none.\<close>

definition ends_once :: "stream_writer \<Rightarrow> bool" where
  "ends_once v \<longleftrightarrow>
     done_count v = 1 \<and> sw_synthetic_done v = (\<not> sw_terminal_signal_seen v) \<and> writer_completed v = sw_terminal_signal_seen v"


definition delta_stream :: "string list" where
  "delta_stream = [''event: content_block_delta'' @ [newline] @ ''data: {\"delta\":{\"type\":\"text_delta\",\"text\":\"o'',
     ''k\"}}'' @ [newline], ''event: message_stop'' @ [newline] @ ''data: {}'' @ [newline]]"


end
