(* ===== verification/CompatChat.thy ===== *)
theory CompatChat
  imports CompatRequest CompatMeta CompatAnswers RateLimit
begin

text \<open>
  The handlers of the compat surface (src/internal/server/compat_openai_chat.go), with the request ids
  (src/internal/requestid).  The relay behind it, the handler of the theory \<open>RelayRequest\<close> on the compat surface, is
  a parameter: the calls that it makes on the response writer it is given.  \<open>others\<close> is what other requests do to the
  rate limiter while this one runs.  The structured log, the failure log and the observation of the client's
  request are not modelled.
\<close>

section \<open>Request ids\<close>

definition request_id_header :: string where
  "request_id_header = ''X-Broker-Request-Id''"

definition FromRequest :: "string \<Rightarrow> header \<Rightarrow> string" where
  "FromRequest context_id h =
     (if nonblank context_id then trim_space context_id else trim_space (h_get h request_id_header))"

text \<open>The id of the request and the counter, which wraps around.\<close>

definition Ensure :: "string \<Rightarrow> header \<Rightarrow> nat \<Rightarrow> string \<times> nat" where
  "Ensure context_id h seq =
     (let i = FromRequest context_id h; n = (seq + 1) mod 2 ^ 64 in
      if i = [] then (''req-'' @ itoa (int n), n) else (i, seq))"

section \<open>The list of models\<close>

definition geminiSupportedModels :: "model_info list" where
  "geminiSupportedModels =
     map (\<lambda>i. \<lparr> mi_id = i, mi_object = ''model'', mi_created = 1709164800, mi_owned_by = ''google'',
                mi_context_window = 1048576 \<rparr>) [''gemini-2.5-flash'', ''gemini-2.5-pro'']"

type_synonym catalog = "provider \<Rightarrow> model_info list option"

definition listed_models :: "catalog \<Rightarrow> (provider \<times> model_info) list" where
  "listed_models catalog =
     concat (map (\<lambda>p. case catalog p of
                        None \<Rightarrow> []
                      | Some ms \<Rightarrow> map (\<lambda>m. (p, m\<lparr>mi_id := compatProviderPrefix p @ ''/'' @ mi_id m\<rparr>)) ms)
                compatSupportedProviders)"

definition model_json :: "model_info \<Rightarrow> json" where
  "model_json m =
     JObj [(''id'', JStr (mi_id m)), (''object'', JStr (mi_object m)), (''created'', JNum (itoa (mi_created m))),
           (''owned_by'', JStr (mi_owned_by m))]"

definition handleCompatListModels :: "catalog \<Rightarrow> response_writer \<Rightarrow> response_writer" where
  "handleCompatListModels catalog =
     (let ms = map snd (listed_models catalog) in
      if ms = [] then writeCompatOpenAIError 503 ''server_error'' ''compat surface is unavailable''
      else writeJSON 200 (JObj [(''data'', JArr (map model_json ms)), (''object'', JStr ''list'')]))"

section \<open>The answer of the relay\<close>

datatype writer_op = OpHeader int | OpWrite string

record response_capture =
  cap_status :: int
  cap_body :: string

definition capture_op :: "response_capture \<Rightarrow> writer_op \<Rightarrow> response_capture" where
  "capture_op c op =
     (case op of
        OpHeader st \<Rightarrow> (if cap_status c = 0 then c\<lparr>cap_status := st\<rparr> else c)
      | OpWrite p \<Rightarrow> c\<lparr>cap_status := (if cap_status c = 0 then 200 else cap_status c), cap_body := cap_body c @ p\<rparr>)"

definition captured :: "writer_op list \<Rightarrow> response_capture" where
  "captured ops = foldl capture_op \<lparr> cap_status = 0, cap_body = [] \<rparr> ops"

definition stream_op :: "(string \<Rightarrow> stream_writer \<Rightarrow> stream_writer) \<Rightarrow> stream_writer \<Rightarrow> writer_op \<Rightarrow> stream_writer" where
  "stream_op wr w op = (case op of OpHeader st \<Rightarrow> writer_WriteHeader st w | OpWrite p \<Rightarrow> wr p w)"

text \<open>What the finished stream writer has done to the response.\<close>

definition stream_response :: "stream_writer \<Rightarrow> response_writer \<Rightarrow> response_writer" where
  "stream_response v w =
     (case sw_error_answer v of
        Some (st, body) \<Rightarrow> writeCompatOpenAIUpstreamError st body w
      | None \<Rightarrow>
          (if sw_headers_written v
           then write_bytes (concat (sw_out v))
                  (write_header 200
                    (set_header ''Connection'' ''keep-alive''
                      (set_header ''Cache-Control'' ''no-cache''
                        (set_header ''Content-Type'' ''text/event-stream'' w))))
           else w))"

section \<open>Chat completions\<close>

record compat_server =
  cs_limiter :: "rate_limiter option"
  cs_catalog :: catalog
  cs_max_body_mb :: int
  cs_trace :: bool
  cs_request_seq :: nat

record compat_env =
  cv_acquired_at :: gotime
  cv_released_at :: gotime
  cv_created :: int
  cv_write_fails :: "nat option"

record compat_outcome =
  co_response :: response_writer
  co_relayed :: "(provider \<times> client_request) option"
  co_limiter :: "rate_limiter option"
  co_request_seq :: nat

definition compatDefaultRequestBodyMB :: int where "compatDefaultRequestBodyMB = 60"

definition compatRequestBodyLimitBytes :: "int \<Rightarrow> int" where
  "compatRequestBodyLimitBytes maxMB = body_limit (if 0 < maxMB then maxMB else compatDefaultRequestBodyMB)"

definition readCompatBody :: "int \<Rightarrow> client_request \<Rightarrow> string option" where
  "readCompatBody maxMB r =
     (if compatRequestBodyLimitBytes maxMB < int (length (cr_body r)) then None
      else (case cr_body_end r of EndError _ \<Rightarrow> None | EndOK \<Rightarrow> Some (cr_body r)))"

definition replace_values :: "header \<Rightarrow> string \<times> string list \<Rightarrow> header" where
  "replace_values h kvs = foldl (\<lambda>h v. h_add (fst kvs) v h) (h_del (fst kvs) h) (snd kvs)"

text \<open>The request that is handed to the relay; \<open>trace\<close> is the trace id, blank without tracing.\<close>

definition compat_relay_request ::
  "(rat \<Rightarrow> int) \<Rightarrow> string \<Rightarrow> compat_target \<Rightarrow> client_request \<Rightarrow> client_request" where
  "compat_relay_request to_int trace t r =
     (let h1 = h_set ''Content-Type'' ''application/json'' (cr_headers r);
          client_meta = buildCompatClientMeta to_int (cr_body r);
          h2 = (if client_meta \<noteq> [] then h_set ''X-Broker-Compat-Client-Meta'' client_meta h1 else h1);
          h3 = (if trace \<noteq> [] then h_set ''X-Broker-Compat-Trace-Id'' trace h2 else h2);
          h4 = foldl replace_values h3 (ct_upstream_headers t);
          h5 = (if ct_upstream_accept t \<noteq> [] then h_set ''Accept'' (ct_upstream_accept t) h4
                else if ct_stream t then h_set ''Accept'' ''text/event-stream'' h4 else h4)
      in r\<lparr> cr_path := ct_relay_path t, cr_headers := h5, cr_body := ct_upstream_body t, cr_body_end := EndOK \<rparr>)"

definition stream_answer :: "compat_env \<Rightarrow> compat_target \<Rightarrow> writer_op list \<Rightarrow> response_writer \<Rightarrow> response_writer" where
  "stream_answer env t ops =
     (let v0 = new_stream_writer (cv_write_fails env) (cv_created env) (ct_requested_model t) in
      stream_response
        (if ct_provider t = ProviderClaude then claude_finalize (foldl (stream_op claude_Write) v0 ops)
         else gemini_finalize (foldl (stream_op gemini_Write) v0 ops)))"

definition complete_answer :: "compat_env \<Rightarrow> compat_target \<Rightarrow> writer_op list \<Rightarrow> response_writer \<Rightarrow> response_writer" where
  "complete_answer env t ops =
     (let c = captured ops; status = (if cap_status c = 0 then 200 else cap_status c) in
      if status \<noteq> 200 then writeCompatOpenAIUpstreamError status (cap_body c)
      else (case (if ct_provider t = ProviderClaude then compatClaudeToOpenAIChatResponse else compatGeminiToOpenAIChatResponse)
                   (cv_created env) (cap_body c) (ct_requested_model t) of
              None \<Rightarrow> writeCompatOpenAIError 502 ''server_error'' ''failed to convert compat response''
            | Some a \<Rightarrow> writeJSON 200 (chat_response_json a)))"

text \<open>The handler once the request has its slot: the response and what was relayed.\<close>

definition admitted_chat ::
  "(provider \<Rightarrow> client_request \<Rightarrow> writer_op list) \<Rightarrow> (rat \<Rightarrow> int) \<Rightarrow> compat_env \<Rightarrow> compat_server \<Rightarrow> string
   \<Rightarrow> client_request \<Rightarrow> response_writer \<Rightarrow> response_writer \<times> (provider \<times> client_request) option" where
  "admitted_chat relay to_int env srv req_id r w =
     (case Option.bind (readCompatBody (cs_max_body_mb srv) r)
             (\<lambda>body. decode_body chat_request_fields body empty_chat_request) of
        None \<Rightarrow> (writeCompatOpenAIError 400 ''invalid_request_error'' ''invalid JSON body'' w, None)
      | Some q \<Rightarrow>
          (case buildCompatTarget q of
             Inl e \<Rightarrow> (writeCompatOpenAIError 400 ''invalid_request_error'' e w, None)
           | Inr t \<Rightarrow>
               (if cs_catalog srv (ct_provider t) = None
                then (writeCompatOpenAIError 503 ''server_error'' ''provider compat surface is unavailable'' w, None)
                else (let up = compat_relay_request to_int (if cs_trace srv then req_id else []) t r;
                          ops = relay (ct_provider t) up
                      in ((if ct_stream t then stream_answer env t ops else complete_answer env t ops) w,
                          Some (ct_provider t, up))))))"

definition acquire_slot :: "gotime \<Rightarrow> rate_limiter option \<Rightarrow> client_request \<Rightarrow> (err + permit) \<times> rate_limiter option" where
  "acquire_slot now limiter r =
     (case cr_key_info r of
        Some ki \<Rightarrow> (if ki_is_admin ki then (Inr Unlimited, limiter) else Acquire (ki_id ki) now limiter)
      | None \<Rightarrow> (Inr Unlimited, limiter))"

text \<open>The deferred release runs at the end of every path; without a slot it does nothing.\<close>

definition handleCompatOpenAIChatCompletions ::
  "(provider \<Rightarrow> client_request \<Rightarrow> writer_op list) \<Rightarrow> (rat \<Rightarrow> int) \<Rightarrow> (rate_limiter option \<Rightarrow> rate_limiter option)
   \<Rightarrow> compat_env \<Rightarrow> compat_server \<Rightarrow> string \<Rightarrow> client_request \<Rightarrow> compat_outcome" where
  "handleCompatOpenAIChatCompletions relay to_int others env srv context_id r0 =
     (case Ensure context_id (cr_headers r0) (cs_request_seq srv) of
        (req_id, seq) \<Rightarrow>
          (let w = set_header request_id_header req_id new_writer;
               r = r0\<lparr>cr_headers := h_set request_id_header req_id (cr_headers r0)\<rparr>
           in case acquire_slot (cv_acquired_at env) (cs_limiter srv) r of
                (Inl e, l) \<Rightarrow>
                  \<lparr> co_response = writeCompatOpenAIError 429 ''rate_limit_error'' e w, co_relayed = None,
                    co_limiter = others l, co_request_seq = seq \<rparr>
              | (Inr pm, l) \<Rightarrow>
                  (case admitted_chat relay to_int env srv req_id r w of
                     (w1, up) \<Rightarrow>
                       \<lparr> co_response = w1, co_relayed = up,
                         co_limiter = Release pm (cv_released_at env) (others l), co_request_seq = seq \<rparr>)))"

end
