(* ===== verification/CompatChatProps.thy ===== *)
theory CompatChatProps
  imports CompatChat Claude
begin

text \<open>
  The properties of the handlers of the compat surface: what is relayed, that the slot of the rate limiter comes
  back, and that the listed models can be requested.
\<close>

section \<open>What is relayed\<close>

lemma admitted_cases:
  "snd (admitted_chat relay to_int env srv i r w) = Some (p, up) \<longleftrightarrow>
     (\<exists>body q t. readCompatBody (cs_max_body_mb srv) r = Some body
        \<and> decode_body chat_request_fields body empty_chat_request = Some q \<and> buildCompatTarget q = Inr t
        \<and> cs_catalog srv (ct_provider t) \<noteq> None \<and> p = ct_provider t
        \<and> up = compat_relay_request to_int (if cs_trace srv then i else []) t r)"
  by (auto simp: admitted_chat_def Let_def bind_eq_Some_conv split: option.splits sum.splits)

lemma relay_request_fields [simp]:
  "cr_key_info (compat_relay_request to_int trace t r) = cr_key_info r"
  "cr_path (compat_relay_request to_int trace t r) = ct_relay_path t"
  "cr_raw_query (compat_relay_request to_int trace t r) = cr_raw_query r"
  "cr_body (compat_relay_request to_int trace t r) = ct_upstream_body t"
  "cr_body_end (compat_relay_request to_int trace t r) = EndOK"
  by (simp_all add: compat_relay_request_def Let_def)

lemma sent_status [simp]:
  "rw_sent w = None \<Longrightarrow> \<exists>h. rw_sent (writeCompatOpenAIError st e m w) = Some (st, h)"
  by (simp add: writeCompatOpenAIError_def writeJSON_def write_raw_def write_bytes_def write_header_def set_header_def)

lemma relay_path_known:
  assumes "buildCompatTarget q = Inr t"
  shows "ct_provider t \<in> set compatSupportedProviders
    \<and> ct_relay_path t \<in> {''/v1/messages'', ''/gemini/v1internal:streamGenerateContent'', ''/gemini/v1internal:generateContent''}"
  using assms by (auto simp: buildCompatTarget_def and_then_Inr compatSupportedProviders_def split: if_splits)

text \<open>The answer to a request that is not relayed.\<close>

definition refused_with :: "int \<Rightarrow> response_writer \<Rightarrow> bool" where
  "refused_with st w \<longleftrightarrow> (case rw_sent w of Some (s, _) \<Rightarrow> s = st | None \<Rightarrow> False)"

lemma refused_error: "rw_sent w = None \<Longrightarrow> refused_with st (writeCompatOpenAIError st k m w)"
  by (drule sent_status [of w st k m]) (auto simp: refused_with_def simp del: sent_status)

lemma not_admitted:
  assumes "rw_sent w = None" "snd (admitted_chat relay to_int env srv i r w) = None"
  shows "refused_with 400 (fst (admitted_chat relay to_int env srv i r w))
    \<or> refused_with 503 (fst (admitted_chat relay to_int env srv i r w))"
  using assms refused_error by (auto simp: admitted_chat_def Let_def split: option.splits sum.splits if_splits)

lemma chat_handler_cases:
  assumes "Ensure cid (cr_headers r) (cs_request_seq srv) = (i, seq)" "w = set_header request_id_header i new_writer"
    "r1 = r\<lparr>cr_headers := h_set request_id_header i (cr_headers r)\<rparr>"
    "out = handleCompatOpenAIChatCompletions relay to_int others env srv cid r"
  shows "case fst (acquire_slot (cv_acquired_at env) (cs_limiter srv) r) of
      Inl m \<Rightarrow> co_relayed out = None \<and> refused_with 429 (co_response out)
    | Inr pm \<Rightarrow> co_response out = fst (admitted_chat relay to_int env srv i r1 w)
        \<and> co_relayed out = snd (admitted_chat relay to_int env srv i r1 w)"
proof -
  have w: "rw_sent w = None" by (simp add: assms(2) set_header_def new_writer_def)
  have same: "acquire_slot t l r1 = acquire_slot t l r" for t l by (simp add: assms(3) acquire_slot_def)
  obtain res l where a: "acquire_slot (cv_acquired_at env) (cs_limiter srv) r = (res, l)" by fastforce
  show ?thesis
    using refused_error [OF w]
    by (cases res) (simp_all add: handleCompatOpenAIChatCompletions_def assms(1,4) Let_def assms(2,3) [symmetric] same a case_prod_beta)
qed


section \<open>The slot comes back\<close>

abbreviation in_flight :: "rate_limiter \<Rightarrow> string \<Rightarrow> int" where
  "in_flight l k \<equiv> rs_inflight (rate_entry l k)"

lemma rate_entry_upd: "rate_entry (l\<lparr>rl_state := m\<rparr>) k = (case m k of None \<Rightarrow> \<lparr> rs_started = [], rs_inflight = 0 \<rparr> | Some e \<Rightarrow> e)"
  by (simp add: rate_entry_def)

lemma acquire_counts:
  assumes "Acquire key now (Some l) = (res, ol)"
  shows "\<exists>l'. ol = Some l' \<and> (\<forall>k. in_flight l' k = in_flight l k
      + (case res of Inr (Permit key') \<Rightarrow> (if k = key' then 1 else 0) | _ \<Rightarrow> 0))"
proof -
  have e: "(case rl_state l k of None \<Rightarrow> \<lparr> rs_started = [], rs_inflight = 0 \<rparr> | Some e \<Rightarrow> e) = rate_entry l k" for k
    by (simp add: rate_entry_def)
  show ?thesis
    using assms by (auto simp: Acquire_def Let_def rate_entry_upd e split: if_splits)
qed

lemma release_counts:
  assumes "\<forall>k. 0 \<le> in_flight l k - (case pm of Permit key \<Rightarrow> (if k = key then 1 else 0) | Unlimited \<Rightarrow> 0)"
  shows "\<exists>l'. Release pm now (Some l) = Some l' \<and>
    (\<forall>k. in_flight l' k = in_flight l k - (case pm of Permit key \<Rightarrow> (if k = key then 1 else 0) | Unlimited \<Rightarrow> 0))"
proof (cases pm)
  case (Permit key)
  have e: "(case rl_state l k of None \<Rightarrow> \<lparr> rs_started = [], rs_inflight = 0 \<rparr> | Some e \<Rightarrow> e) = rate_entry l k" for k
    by (simp add: rate_entry_def)
  have "0 < in_flight l key" using assms spec [OF assms, of key] Permit by simp
  then obtain en where en: "rl_state l key = Some en" "0 < rs_inflight en" by (auto simp: rate_entry_def split: option.splits)
  then have "in_flight l key = rs_inflight en" by (simp add: rate_entry_def)
  with en show ?thesis
    by (auto simp: Permit Release_def Let_def rate_entry_upd e)
qed (simp add: Release_def)

text \<open>C22: The slot of the rate limiter comes back on every path. Whatever the answer is, and whatever slots other
  requests take and return meanwhile, the request itself leaves the number of running requests of every key as it
  was: the count at the end is the count at the start changed by the others alone.\<close>
theorem slot_returned:
  assumes "cs_limiter srv = Some l" and "\<And>l'. others (Some l') = Some (f l')"
    and "\<And>l' k. in_flight (f l') k = in_flight l' k + d k" and "\<And>k. 0 \<le> in_flight l k + d k"
  shows "\<exists>l'. co_limiter (handleCompatOpenAIChatCompletions relay to_int others env srv cid r) = Some l'
    \<and> (\<forall>k. in_flight l' k = in_flight l k + d k)"
proof -
  obtain i seq where e: "Ensure cid (cr_headers r) (cs_request_seq srv) = (i, seq)"
    by (cases "Ensure cid (cr_headers r) (cs_request_seq srv)")
  define r1 where "r1 = r\<lparr>cr_headers := h_set request_id_header i (cr_headers r)\<rparr>"
  obtain res ol where a: "acquire_slot (cv_acquired_at env) (Some l) r1 = (res, ol)" by fastforce
  have "\<exists>l1. ol = Some l1 \<and> (\<forall>k. in_flight l1 k = in_flight l k
      + (case res of Inr (Permit key') \<Rightarrow> (if k = key' then 1 else 0) | _ \<Rightarrow> 0))"
    using a acquire_counts by (auto simp: acquire_slot_def split: option.splits if_splits)
  then obtain l1 where l1: "ol = Some l1" "\<And>k. in_flight l1 k = in_flight l k
      + (case res of Inr (Permit key') \<Rightarrow> (if k = key' then 1 else 0) | _ \<Rightarrow> 0)" by blast
  show ?thesis
  proof (cases res)
    case (Inl m)
    with a l1 assms(2,3) show ?thesis
      by (simp add: handleCompatOpenAIChatCompletions_def e Let_def r1_def [symmetric] assms(1))
  next
    case (Inr pm)
    have "co_limiter (handleCompatOpenAIChatCompletions relay to_int others env srv cid r)
        = Release pm (cv_released_at env) (Some (f l1))"
      using a Inr by (simp add: handleCompatOpenAIChatCompletions_def e Let_def r1_def [symmetric] assms(1,2) l1(1) case_prod_beta)
    moreover have n: "in_flight (f l1) k - (case pm of Permit key \<Rightarrow> (if k = key then 1 else 0) | Unlimited \<Rightarrow> 0)
        = in_flight l k + d k" for k
      using l1(2) [of k] by (cases pm) (simp_all add: assms(3) Inr)
    ultimately show ?thesis
      using release_counts [of "f l1" pm "cv_released_at env"] assms(4) by (simp add: n)
  qed
qed

section \<open>The listed models\<close>

definition program_catalog :: catalog where
  "program_catalog p =
     (if p = ProviderClaude then Some claudeSupportedModels
      else if p = ProviderGemini then Some geminiSupportedModels else None)"

text \<open>A listed model resolves to itself and to its provider, and the driver of Claude knows it.\<close>

definition requestable :: "provider \<times> model_info \<Rightarrow> bool" where
  "requestable pm =
     (case resolveCompatModel (mi_id (snd pm)) of
        Inr (p, b, requested) \<Rightarrow>
          p = fst pm \<and> requested = mi_id (snd pm) \<and> (p = ProviderClaude \<longrightarrow> \<not> isl (normalizeClaudeModelID b))
      | Inl _ \<Rightarrow> False)"

lemma known_model:
  assumes "m \<in> set claudeSupportedModels" "trim_space (mi_id m) = mi_id m" "to_lower (mi_id m) = mi_id m" "mi_id m \<noteq> []"
  shows "\<not> isl (normalizeClaudeModelID (mi_id m))"
proof -
  from assms(1) obtain e where "e \<in> set claudeModelEntries" "me_public_id e = mi_id m"
    by (auto simp: claudeSupportedModels_def)
  then have "List.find (\<lambda>e. mi_id m = me_public_id e \<or> mi_id m = me_upstream_id e) claudeModelEntries \<noteq> None"
    by (auto simp: find_None_iff)
  then show ?thesis using assms by (auto simp: normalizeClaudeModelID_def claudeModelEntryForID_def Let_def)
qed

lemma claude_ids:
  "map mi_id claudeSupportedModels =
     [''claude-fable-5'', ''claude-opus-5-5'', ''claude-opus-5'', ''claude-opus-4-8'', ''claude-opus-4-7'', ''claude-opus-4-6'', ''claude-opus-4-5'',
      ''claude-opus-4-1'', ''claude-opus-4'', ''claude-sonnet-5-5'', ''claude-sonnet-5'', ''claude-sonnet-4-6'',
      ''claude-sonnet-4-5'', ''claude-sonnet-4'', ''claude-haiku-4-5-20251001'', ''claude-haiku-4-5'']"
  by (simp add: claudeSupportedModels_def claudeModelEntries_def claude_entry_def)

definition own_name :: "provider \<Rightarrow> string \<Rightarrow> bool" where
  "own_name p i \<longleftrightarrow>
     trim_space i = i \<and> to_lower i = i \<and> i \<noteq> []
     \<and> resolveCompatModel (compatProviderPrefix p @ ''/'' @ i) = Inr (p, i, compatProviderPrefix p @ ''/'' @ i)"

lemma own_names:
  "list_all (own_name ProviderClaude) (map mi_id claudeSupportedModels)"
  "list_all (own_name ProviderGemini) (map mi_id geminiSupportedModels)"
  unfolding claude_ids by code_simp+

text \<open>Every model that the list of the compat surface names can be requested: its id resolves to its own provider and
  to itself, and an id of Claude is one that the driver of Claude accepts.\<close>
theorem listed_models_requestable:
  "listed_models program_catalog \<noteq> [] \<and> list_all requestable (listed_models program_catalog)"
    (is "?l \<noteq> [] \<and> _")
proof -
  have pp: "ProviderClaude \<noteq> ProviderGemini" by (simp add: ProviderClaude_def ProviderGemini_def)
  have c: "requestable (ProviderClaude, m\<lparr>mi_id := compatProviderPrefix ProviderClaude @ ''/'' @ mi_id m\<rparr>)"
    if "m \<in> set claudeSupportedModels" for m
  proof -
    have "own_name ProviderClaude (mi_id m)" using own_names(1) that by (simp add: list_all_iff)
    with known_model [OF that] show ?thesis by (simp add: requestable_def own_name_def)
  qed
  have g: "requestable (ProviderGemini, m\<lparr>mi_id := compatProviderPrefix ProviderGemini @ ''/'' @ mi_id m\<rparr>)"
    if "m \<in> set geminiSupportedModels" for m
  proof -
    have "own_name ProviderGemini (mi_id m)" using own_names(2) that by (simp add: list_all_iff)
    with pp show ?thesis by (simp add: requestable_def own_name_def)
  qed
  have l: "listed_models program_catalog
      = map (\<lambda>m. (ProviderClaude, m\<lparr>mi_id := compatProviderPrefix ProviderClaude @ ''/'' @ mi_id m\<rparr>)) claudeSupportedModels
        @ map (\<lambda>m. (ProviderGemini, m\<lparr>mi_id := compatProviderPrefix ProviderGemini @ ''/'' @ mi_id m\<rparr>)) geminiSupportedModels"
    using pp [symmetric] by (simp add: listed_models_def program_catalog_def compatSupportedProviders_def)
  show ?thesis
  proof
    show "?l \<noteq> []" unfolding l by (simp add: geminiSupportedModels_def)
    show "list_all requestable ?l" unfolding l using c g by (simp only: list_all_iff set_append set_map ball_Un ball_simps) blast
  qed
qed

section \<open>Samples\<close>

definition sample_limiter :: rate_limiter where
  "sample_limiter = \<lparr> maxPerMinute = 2, maxConcurrent = 1, rl_state = Map.empty \<rparr>"

definition sample_server :: compat_server where
  "sample_server = \<lparr> cs_limiter = Some sample_limiter, cs_catalog = program_catalog, cs_max_body_mb = 0, cs_trace = False,
     cs_request_seq = 0 \<rparr>"

definition sample_env :: compat_env where
  "sample_env = \<lparr> cv_acquired_at = 5, cv_released_at = 9, cv_created = 7, cv_write_fails = None \<rparr>"

definition sample_call :: client_request where
  "sample_call = \<lparr> cr_key_info = Some \<lparr> ki_id = ''u1'', ki_name = ''ann'', ki_allowed_surface = SurfaceCompat,
       ki_bound_account = [], ki_is_admin = False \<rparr>,
     cr_path = ''/compat/v1/chat/completions'', cr_raw_query = [], cr_headers = [], cr_body = sample_chat_body, cr_body_end = EndOK \<rparr>"

theorem slot_returned_witness:
  "\<exists>l'. co_limiter (handleCompatOpenAIChatCompletions (\<lambda>_ _. []) (\<lambda>_. 0) id sample_env sample_server [] sample_call) = Some l'
    \<and> in_flight l' ''u1'' = 0"
  using slot_returned [of sample_server sample_limiter id id "\<lambda>_. 0" "\<lambda>_ _. []" "\<lambda>_. 0" sample_env "[]" sample_call]
  by (auto simp: sample_server_def sample_limiter_def rate_entry_def)

end
