(* ===== verification/AdminPool.thy ===== *)
theory AdminPool
  imports Access PoolRuntime
begin

text \<open>
  The administration of accounts and of egress cells (src/internal/server: admin_accounts.go, admin_cells.go), on
  the operations of the pool.  A handler that calls the pool several times meets the time \<open>av_now k\<close> at its call
  number \<open>k\<close>, and after that call what other requests do, \<open>av_others k\<close>.  The probe of an account, the refresh of
  its token and the dialling of a proxy are parameters.  The JSON of a cell is not modelled.
\<close>

record admin_env =
  av_order :: map_order
  av_now :: "nat \<Rightarrow> gotime"
  av_others :: "nat \<Rightarrow> pool \<Rightarrow> pool"

datatype admin_answer = Plain answer | CellAnswer egress_cell

definition ok_members :: "(string \<times> json) list \<Rightarrow> admin_answer" where
  "ok_members kvs = Plain (AnswerJSON 200 (JObj kvs))"

definition refuse :: "int \<Rightarrow> string \<Rightarrow> string \<Rightarrow> admin_answer" where
  "refuse st kind msg = Plain (AnswerError st kind msg)"

definition account_missing :: admin_answer where
  "account_missing = refuse 404 ''not_found'' ''account not found''"

definition invalid_body :: admin_answer where
  "invalid_body = refuse 400 ''invalid_request'' ''invalid JSON body''"

definition adm_Get :: "admin_env \<Rightarrow> nat \<Rightarrow> string \<Rightarrow> pool \<Rightarrow> account option \<times> pool" where
  "adm_Get env k i p = (case Get (av_order env) (av_now env k) i p of (oa, q) \<Rightarrow> (oa, av_others env k q))"

definition adm_GetCell :: "admin_env \<Rightarrow> nat \<Rightarrow> string \<Rightarrow> pool \<Rightarrow> egress_cell option \<times> pool" where
  "adm_GetCell env k i p = (case GetCell (av_order env) (av_now env k) i p of (oc, q) \<Rightarrow> (oc, av_others env k q))"

definition adm_List :: "admin_env \<Rightarrow> nat \<Rightarrow> pool \<Rightarrow> account list \<times> pool" where
  "adm_List env k p =
     (case List_accounts (av_order env) (av_now env k) (mo_accounts (av_order env)) p of (as, q) \<Rightarrow> (as, av_others env k q))"

definition adm_Update :: "admin_env \<Rightarrow> nat \<Rightarrow> string \<Rightarrow> (account \<Rightarrow> account) \<Rightarrow> admin_answer \<Rightarrow> pool \<Rightarrow> admin_answer \<times> pool" where
  "adm_Update env k i fn ok p =
     (case Update (av_order env) (av_now env k) i fn p of
        (Some e, q) \<Rightarrow> (account_missing, q)
      | (None, q) \<Rightarrow> (ok, q))"

section \<open>Accounts\<close>

definition handleDeleteAccount :: "admin_env \<Rightarrow> string \<Rightarrow> pool \<Rightarrow> admin_answer \<times> pool" where
  "handleDeleteAccount env i p =
     (case adm_Get env 0 i p of
        (None, p1) \<Rightarrow> (account_missing, p1)
      | (Some _, p1) \<Rightarrow>
          (case Delete (av_order env) (av_now env 1) i p1 of
             (Some e, p2) \<Rightarrow> (refuse 500 ''internal_error'' ''failed to delete account'', p2)
           | (None, p2) \<Rightarrow> (ok_members [(''deleted'', JStr i)], p2)))"

definition handleUpdateAccountEmail :: "admin_env \<Rightarrow> string \<Rightarrow> string \<Rightarrow> pool \<Rightarrow> admin_answer \<times> pool" where
  "handleUpdateAccountEmail env i body p =
     (case decode_body [(''email'', string_field (\<lambda>x _. x))] body [] of
        None \<Rightarrow> (invalid_body, p)
      | Some raw \<Rightarrow>
          (let email = trim_space raw in
           if email = [] \<or> 100 < length email
           then (refuse 400 ''invalid_request'' ''email must be 1-100 characters'', p)
           else adm_Update env 0 i (\<lambda>a. a\<lparr>ac_email := email\<rparr>)
                  (ok_members [(''email'', JStr email), (''id'', JStr i)]) p))"

definition set_status :: "string \<Rightarrow> account \<Rightarrow> account" where
  "set_status status a =
     (if status = ''disabled'' then a\<lparr>ac_status := status\<rparr> else a\<lparr>ac_status := status, ac_error_message := []\<rparr>)"

definition handleUpdateAccountStatus :: "admin_env \<Rightarrow> string \<Rightarrow> string \<Rightarrow> pool \<Rightarrow> admin_answer \<times> pool" where
  "handleUpdateAccountStatus env i body p =
     (case decode_body [(''status'', string_field (\<lambda>x _. x))] body [] of
        Some status \<Rightarrow>
          (if status \<noteq> ''active'' \<and> status \<noteq> ''disabled''
           then (refuse 400 ''invalid_request'' (''status must be 'active' or 'disabled'' @ [CHR 0x27]), p)
           else (case Update (av_order env) (av_now env 0) i (set_status status) p of
                   (Some e, q) \<Rightarrow> (account_missing, q)
                 | (None, q) \<Rightarrow>
                     (ok_members [(''id'', JStr i), (''status'', JStr status)],
                      if status = ''active'' then ClearCooldown (av_order env) (av_now env 1) i (av_others env 0 q) else q)))
      | None \<Rightarrow> (refuse 400 ''invalid_request'' (''status must be 'active' or 'disabled'' @ [CHR 0x27]), p))"

definition set_weight :: "string \<Rightarrow> int \<Rightarrow> account \<Rightarrow> account" where
  "set_weight mode weight a =
     (if mode = ''manual'' then a\<lparr>ac_priority_mode := mode, ac_priority := weight\<rparr> else a\<lparr>ac_priority_mode := mode\<rparr>)"

definition handleUpdateAccountWeight :: "admin_env \<Rightarrow> string \<Rightarrow> string \<Rightarrow> pool \<Rightarrow> admin_answer \<times> pool" where
  "handleUpdateAccountWeight env i body p =
     (case decode_body [(''mode'', string_field (\<lambda>x mw. (x, snd mw))), (''weight'', int_field (\<lambda>x mw. (fst mw, x)))] body ([], 0) of
        None \<Rightarrow> (invalid_body, p)
      | Some (m, weight) \<Rightarrow>
          (let mode = (if m = [] then ''manual'' else m) in
           if mode \<noteq> ''auto'' \<and> mode \<noteq> ''manual''
           then (refuse 400 ''invalid_request'' (''mode must be 'auto' or 'manual'' @ [CHR 0x27]), p)
           else adm_Update env 0 i (set_weight mode weight)
                  (ok_members [(''id'', JStr i), (''mode'', JStr mode), (''weight'', JNum (itoa weight))]) p))"

definition accountCellBindError :: "egress_cell \<Rightarrow> gotime \<Rightarrow> string option" where
  "accountCellBindError c now =
     (if (if cl_status c = [] then EgressCellActive else cl_status c) \<noteq> EgressCellActive then Some ''cell is not active''
      else if (case cl_cooldown_until c of Some t \<Rightarrow> now < t | None \<Rightarrow> False) then Some ''cell is cooling down''
      else if (case cl_proxy c of None \<Rightarrow> True | Some x \<Rightarrow> trim_space (pc_host x) = [] \<or> pc_port x \<le> 0)
      then Some ''cell has no usable proxy'' else None)"

definition accountOwnsCell :: "account list \<Rightarrow> string \<Rightarrow> string \<Rightarrow> provider \<Rightarrow> bool" where
  "accountOwnsCell accounts accountID cellID p =
     list_ex (\<lambda>a. ac_id a \<noteq> accountID \<and> ac_cell_id a = cellID \<and> ac_provider a = p) accounts"

definition shared_cell :: "egress_cell \<Rightarrow> bool" where
  "shared_cell c \<longleftrightarrow> (case cl_proxy c of Some x \<Rightarrow> pc_type x = ''socks5'' | None \<Rightarrow> False)"

definition bind_cell :: "admin_env \<Rightarrow> string \<Rightarrow> string \<Rightarrow> pool \<Rightarrow> admin_answer \<times> pool" where
  "bind_cell env i cellID p =
     adm_Update env 3 i (\<lambda>a. a\<lparr>ac_cell_id := cellID\<rparr>) (ok_members [(''cell_id'', JStr cellID), (''id'', JStr i)]) p"

definition bind_checked :: "admin_env \<Rightarrow> account \<Rightarrow> string \<Rightarrow> string \<Rightarrow> egress_cell \<Rightarrow> pool \<Rightarrow> admin_answer \<times> pool" where
  "bind_checked env acct i cellID c p =
     (case accountCellBindError c (av_now env 1) of
        Some reason \<Rightarrow> (refuse 400 ''invalid_request'' reason, p)
      | None \<Rightarrow>
          (if shared_cell c then bind_cell env i cellID p
           else (case adm_List env 2 p of
                   (as, q) \<Rightarrow>
                     (if accountOwnsCell as (ac_id acct) cellID (ac_provider acct)
                      then (refuse 400 ''invalid_request'' ''cell is already bound to another account of the same provider'', q)
                      else bind_cell env i cellID q))))"

definition handleBindAccountCell :: "admin_env \<Rightarrow> string \<Rightarrow> string \<Rightarrow> pool \<Rightarrow> admin_answer \<times> pool" where
  "handleBindAccountCell env i body p =
     (case adm_Get env 0 i p of
        (None, p1) \<Rightarrow> (account_missing, p1)
      | (Some acct, p1) \<Rightarrow>
          (case decode_body [(''cell_id'', string_field (\<lambda>x _. x))] body [] of
             None \<Rightarrow> (invalid_body, p1)
           | Some raw \<Rightarrow>
               (let cellID = trim_space raw in
                if cellID = [] then bind_cell env i cellID p1
                else (case adm_GetCell env 1 cellID p1 of
                        (None, p2) \<Rightarrow> (refuse 400 ''invalid_request'' ''cell not found'', p2)
                      | (Some c, p2) \<Rightarrow>
                          (if cellID \<noteq> ac_cell_id acct then bind_checked env acct i cellID c p2
                           else bind_cell env i cellID p2)))))"

text \<open>\<open>force\<close> is the refresh of the token manager, its error already printed.\<close>

definition handleRefreshAccount :: "admin_env \<Rightarrow> (string \<Rightarrow> pool \<Rightarrow> err option \<times> pool) \<Rightarrow> string \<Rightarrow> pool \<Rightarrow> admin_answer \<times> pool" where
  "handleRefreshAccount env force i p =
     (case adm_Get env 0 i p of
        (None, p1) \<Rightarrow> (account_missing, p1)
      | (Some _, p1) \<Rightarrow>
          (case force i p1 of
             (Some e, p2) \<Rightarrow> (refuse 500 ''internal_error'' (''token refresh failed: '' @ e), p2)
           | (None, p2) \<Rightarrow> (ok_members [(''id'', JStr i), (''status'', JStr ''refreshed'')], p2)))"

definition test_result :: "err option \<Rightarrow> int \<Rightarrow> admin_answer" where
  "test_result oe latency =
     ok_members ([(''ok'', JBool (oe = None))] @ omit_int ''latency_ms'' latency
                 @ (case oe of Some e \<Rightarrow> omit_blank ''error'' e | None \<Rightarrow> []))"

text \<open>A successful probe of a blocked account recovers its whole bucket.\<close>

definition handleTestAccount ::
  "admin_env \<Rightarrow> (account \<Rightarrow> pool \<Rightarrow> err option \<times> int \<times> pool) \<Rightarrow> string \<Rightarrow> pool \<Rightarrow> admin_answer \<times> pool" where
  "handleTestAccount env probe i p =
     (case adm_Get env 0 i p of
        (None, p1) \<Rightarrow> (account_missing, p1)
      | (Some acct, p1) \<Rightarrow>
          (case probe acct p1 of
             (oe, latency, p2) \<Rightarrow>
               (test_result oe latency,
                if oe = None \<and> ac_status acct = StatusBlocked
                then snd (RecoverBucket (av_order env) (av_now env 1) (mo_accounts (av_order env)) i p2) else p2)))"

definition handleUnbindSession :: "string \<Rightarrow> pool \<Rightarrow> admin_answer \<times> pool" where
  "handleUnbindSession uuid p =
     (if uuid = [] then (refuse 400 ''invalid_request'' ''uuid is required'', p)
      else (ok_members [(''unbound'', JStr uuid)], UnbindSession uuid p))"

section \<open>Cells\<close>

record cell_request =
  cq_id :: string
  cq_name :: string
  cq_status :: string
  cq_proxy :: "proxy_config option"
  cq_labels :: "str_map option"
  cq_create_only :: bool

definition proxy_field :: "('s \<Rightarrow> proxy_config option) \<Rightarrow> (proxy_config option \<Rightarrow> 's \<Rightarrow> 's) \<Rightarrow> 's field" where
  "proxy_field get upd v sb =
     (case v of
        JNull \<Rightarrow> (upd None (fst sb), snd sb)
      | JObj kvs \<Rightarrow>
          (case foldl decode_proxy_member (case get (fst sb) of Some x \<Rightarrow> x | None \<Rightarrow> empty_proxy, snd sb) kvs of
             (x, ok) \<Rightarrow> (upd (Some x) (fst sb), ok))
      | _ \<Rightarrow> fail sb)"

definition labels_field :: "('s \<Rightarrow> str_map option) \<Rightarrow> (str_map option \<Rightarrow> 's \<Rightarrow> 's) \<Rightarrow> 's field" where
  "labels_field get upd v sb =
     (case v of
        JNull \<Rightarrow> (upd None (fst sb), snd sb)
      | JObj kvs \<Rightarrow>
          (case foldl decode_str_member (case get (fst sb) of Some m \<Rightarrow> m | None \<Rightarrow> [], snd sb) kvs of
             (m, ok) \<Rightarrow> (upd (Some m) (fst sb), ok))
      | _ \<Rightarrow> fail sb)"

definition cell_request_fields :: "(string \<times> cell_request field) list" where
  "cell_request_fields =
     [(''id'', string_field (\<lambda>x q. q\<lparr>cq_id := x\<rparr>)), (''name'', string_field (\<lambda>x q. q\<lparr>cq_name := x\<rparr>)),
      (''status'', string_field (\<lambda>x q. q\<lparr>cq_status := x\<rparr>)), (''proxy'', proxy_field cq_proxy (\<lambda>x q. q\<lparr>cq_proxy := x\<rparr>)),
      (''labels'', labels_field cq_labels (\<lambda>x q. q\<lparr>cq_labels := x\<rparr>)),
      (''create_only'', bool_field (\<lambda>x q. q\<lparr>cq_create_only := x\<rparr>))]"

definition empty_cell_request :: cell_request where
  "empty_cell_request = \<lparr> cq_id = [], cq_name = [], cq_status = [], cq_proxy = None, cq_labels = None, cq_create_only = False \<rparr>"

definition bad_proxy :: "proxy_config option \<Rightarrow> bool" where
  "bad_proxy op \<longleftrightarrow> (case op of None \<Rightarrow> True | Some x \<Rightarrow> pc_host x = [] \<or> pc_port x \<le> 0)"

definition normal_cell_request :: "string \<Rightarrow> admin_answer + cell_request" where
  "normal_cell_request body =
     (case decode_body cell_request_fields body empty_cell_request of
        None \<Rightarrow> Inl invalid_body
      | Some q0 \<Rightarrow>
          (let status = trim_space (cq_status q0);
               q = q0\<lparr>cq_id := trim_space (cq_id q0), cq_name := trim_space (cq_name q0),
                      cq_status := (if status = [] then EgressCellActive else status)\<rparr>
           in if cq_id q = [] \<or> cq_name q = [] then Inl (refuse 400 ''invalid_request'' ''id and name are required'')
              else if cq_status q \<noteq> EgressCellActive \<and> cq_status q \<noteq> EgressCellDisabled \<and> cq_status q \<noteq> EgressCellError
              then Inl (refuse 400 ''invalid_request'' ''status must be active, disabled, or error'')
              else if cq_proxy q \<noteq> None \<and> bad_proxy (cq_proxy q)
              then Inl (refuse 400 ''invalid_request'' ''proxy host and port are required'')
              else Inr q))"

definition requested_cell :: "cell_request \<Rightarrow> egress_cell option \<Rightarrow> egress_cell" where
  "requested_cell q old =
     (let c = \<lparr> cl_id = cq_id q, cl_name = cq_name q, cl_status = cq_status q, cl_proxy_json = [], cl_labels_json = [],
                cl_state_json = [], cl_created_at = zero_time, cl_updated_at = zero_time, cl_cooldown_until = None,
                cl_proxy = cq_proxy q, cl_labels = cq_labels q \<rparr>
      in case old of
           None \<Rightarrow> c
         | Some o1 \<Rightarrow> c\<lparr>cl_created_at := cl_created_at o1, cl_cooldown_until := cl_cooldown_until o1,
                       cl_state_json := cl_state_json o1\<rparr>)"

text \<open>\<open>None\<close>: the saved cell is not found again, and the handler panics.\<close>

definition cell_answer :: "egress_cell option \<Rightarrow> admin_answer option" where
  "cell_answer oc = map_option CellAnswer oc"

definition handleUpsertEgressCell :: "admin_env \<Rightarrow> string \<Rightarrow> pool \<Rightarrow> admin_answer option \<times> pool" where
  "handleUpsertEgressCell env body p =
     (case normal_cell_request body of
        Inl a \<Rightarrow> (Some a, p)
      | Inr q \<Rightarrow>
          (case adm_GetCell env 0 (cq_id q) p of
             (old, p1) \<Rightarrow>
               (if old \<noteq> None \<and> cq_create_only q then (Some (refuse 409 ''conflict'' ''cell already exists''), p1)
                else (case SaveCell (av_order env) (av_now env 1) (Some (requested_cell q old)) p1 of
                        (Some e, p2) \<Rightarrow> (Some (refuse 500 ''internal_error'' ''failed to save cell''), p2)
                      | (None, p2) \<Rightarrow>
                          (case GetCell (av_order env) (av_now env 2) (cq_id q) (av_others env 1 p2) of
                             (saved, p3) \<Rightarrow> (cell_answer saved, p3))))))"

definition handleClearEgressCellCooldown :: "admin_env \<Rightarrow> string \<Rightarrow> pool \<Rightarrow> admin_answer option \<times> pool" where
  "handleClearEgressCellCooldown env raw p =
     (let i = trim_space raw in
      if i = [] then (Some (refuse 400 ''invalid_request'' ''cell id is required''), p)
      else (case adm_GetCell env 0 i p of
              (None, p1) \<Rightarrow> (Some (refuse 404 ''not_found'' ''cell not found''), p1)
            | (Some _, p1) \<Rightarrow>
                (case ClearCellCooldown (av_order env) (av_now env 1) i p1 of
                   (False, p2) \<Rightarrow> (Some (ok_members [(''cleared'', JBool False), (''id'', JStr i)]), p2)
                 | (True, p2) \<Rightarrow>
                     (case GetCell (av_order env) (av_now env 2) i (av_others env 1 p2) of
                        (saved, p3) \<Rightarrow> (cell_answer saved, p3)))))"

definition handleTestProxy :: "(proxy_config \<Rightarrow> err option \<times> int) \<Rightarrow> string \<Rightarrow> admin_answer" where
  "handleTestProxy dial body =
     (case decode_body [(''proxy'', proxy_field id (\<lambda>x _. x))] body None of
        None \<Rightarrow> invalid_body
      | Some op \<Rightarrow>
          (if bad_proxy op then refuse 400 ''invalid_request'' ''proxy host and port are required''
           else (case dial (the op) of (oe, latency) \<Rightarrow> test_result oe latency)))"

definition handleTestEgressCell ::
  "admin_env \<Rightarrow> (proxy_config \<Rightarrow> err option \<times> int) \<Rightarrow> string \<Rightarrow> pool \<Rightarrow> admin_answer \<times> pool" where
  "handleTestEgressCell env dial raw p =
     (let i = trim_space raw in
      if i = [] then (refuse 400 ''invalid_request'' ''cell id is required'', p)
      else (case adm_GetCell env 0 i p of
              (None, p1) \<Rightarrow> (refuse 404 ''not_found'' ''cell not found'', p1)
            | (Some c, p1) \<Rightarrow>
                (if bad_proxy (cl_proxy c) then (test_result (Some ''cell has no usable proxy'') 0, p1)
                 else (case dial (the (cl_proxy c)) of (oe, latency) \<Rightarrow> (test_result oe latency, p1)))))"

end
