(* ===== verification/AccountWrites.thy ===== *)
theory AccountWrites
  imports Effects
begin

text \<open>
  What the operations that write one account leave (\<open>Update\<close>, \<open>StoreTokens\<close>, \<open>Add\<close>): the other accounts and the
  cells as they were, the account itself in memory and, unless the store fails, in the store.
\<close>

lemma persistBucket_list_err [simp]: "ListAccountsErr (p_store (persistBucketLocked now k p)) = ListAccountsErr (p_store p)"
  by (simp add: persistBucketLocked_def Let_def split: option.split)

lemma refresh_key_frame:
  "refreshBucketKeyLocked now a st p = (a', q) \<Longrightarrow>
     a' = a\<lparr>ac_bucket_key := derivedBucketKeyLocked p a st\<rparr> \<and> p_accounts q = p_accounts p \<and> p_cells q = p_cells p
     \<and> s_accounts (p_store q) = s_accounts (p_store p) \<and> s_cells (p_store q) = s_cells (p_store p)
     \<and> SaveAccountErr (p_store q) = SaveAccountErr (p_store p) \<and> ListAccountsErr (p_store q) = ListAccountsErr (p_store p)"
  using refreshBucketKey_account [of now a st p]
  by (auto simp: refreshBucketKeyLocked_def Let_def split: option.splits if_splits)

lemma ensure_frame:
  "ensureBucketLocked now a p = (ob, q) \<Longrightarrow> p_accounts q = p_accounts p \<and> p_cells q = p_cells p
     \<and> s_accounts (p_store q) = s_accounts (p_store p) \<and> s_cells (p_store q) = s_cells (p_store p)
     \<and> SaveAccountErr (p_store q) = SaveAccountErr (p_store p) \<and> ListAccountsErr (p_store q) = ListAccountsErr (p_store p)"
  by (auto simp: ensureBucketLocked_def Let_def split: option.splits if_splits)

text \<open>The accounts and cells that the pool has after it was loaded from its store.\<close>

definition accounts_of :: "pool \<Rightarrow> string \<Rightarrow> account option" where
  "accounts_of p = map_option HydrateRuntime \<circ> s_accounts (p_store p)"

definition cells_of :: "pool \<Rightarrow> string \<Rightarrow> egress_cell option" where
  "cells_of p = map_option CellHydrateRuntime \<circ> s_cells (p_store p)"

text \<open>The accounts and the cells of the store can be loaded; a part of \<open>loadable\<close> that writing an account keeps.\<close>

definition rows_ok :: "map_order \<Rightarrow> pool \<Rightarrow> bool" where
  "rows_ok mo p \<longleftrightarrow> ListAccountsErr (p_store p) = None
     \<and> (\<forall>k a. s_accounts (p_store p) k = Some a \<longrightarrow> ac_id a = k) \<and> (\<forall>k c. s_cells (p_store p) k = Some c \<longrightarrow> cl_id c = k)
     \<and> ranges (s_accounts (p_store p)) (mo_accounts mo) \<and> ranges (s_cells (p_store p)) (mo_cells mo)"

lemma rows_ok_same: "p_store q = p_store p \<Longrightarrow> rows_ok mo p \<Longrightarrow> rows_ok mo q"
  by (simp add: rows_ok_def)

lemma loadable_rows: "loadable mo p \<Longrightarrow> rows_ok mo p"
  by (simp add: loadable_def rows_ok_def order_ok_def store_wf_def)

lemma accounts_of_id: "rows_ok mo p \<Longrightarrow> accounts_of p i = Some a \<Longrightarrow> ac_id a = i"
  by (auto simp: accounts_of_def rows_ok_def)

lemma reloaded:
  assumes "rows_ok mo p"
  shows "\<exists>r. reloadStateLocked mo now p = (None, r) \<and> p_accounts r = accounts_of p \<and> p_cells r = cells_of p
    \<and> p_store r = p_store p"
  using assms map_by_entries [of "s_accounts (p_store p)" "mo_accounts mo" ac_id HydrateRuntime]
    map_by_entries [of "s_cells (p_store p)" "mo_cells mo" cl_id CellHydrateRuntime]
  by (simp add: rows_ok_def reloadStateLocked_def Let_def ListAccounts_def ListEgressCells_def accounts_of_def cells_of_def)

text \<open>The account \<open>i\<close> was written as \<open>a\<close>.\<close>

definition wrote :: "pool \<Rightarrow> string \<Rightarrow> account \<Rightarrow> pool \<Rightarrow> bool" where
  "wrote p i a q \<longleftrightarrow> p_accounts q = (accounts_of p)(i \<mapsto> a) \<and> p_cells q = cells_of p
     \<and> s_cells (p_store q) = s_cells (p_store p) \<and> ListAccountsErr (p_store q) = ListAccountsErr (p_store p)
     \<and> (SaveAccountErr (p_store p) = None \<longrightarrow>
          s_accounts (p_store q) = (s_accounts (p_store p))(i \<mapsto> PersistRuntime a)
          \<and> SaveAccountErr (p_store q) = None)"

lemma persistLocked_wrote:
  assumes "p_accounts p5 = (accounts_of p)(i \<mapsto> a)" "p_cells p5 = cells_of p" "ac_id a = i"
    and "s_accounts (p_store p5) = s_accounts (p_store p)" "s_cells (p_store p5) = s_cells (p_store p)"
    and "SaveAccountErr (p_store p5) = SaveAccountErr (p_store p)" "ListAccountsErr (p_store p5) = ListAccountsErr (p_store p)"
  shows "wrote p i (PersistRuntime a) (persistLocked i p5)"
proof -
  have "s_cells (p_store (persistLocked i p5)) = s_cells (p_store p5)"
    "ListAccountsErr (p_store (persistLocked i p5)) = ListAccountsErr (p_store p5)"
    by (simp_all add: persistLocked_def Let_def SaveAccount_def split: option.split)
  then show ?thesis
    using assms persistLocked_saves [of p5 i a]
    by (auto simp: wrote_def persistLocked_account fun_eq_iff)
qed

lemma Update_writes:
  assumes "rows_ok mo p" and "Update mo now i fn p = (None, q)"
  obtains a a' k w where "accounts_of p i = Some a" "wrote p i a' q"
    "a' = PersistRuntime ((copy_back a (fn (projectAccountLocked w a)))\<lparr>ac_bucket_key := k\<rparr>)"
proof -
  obtain r where r: "reloadStateLocked mo now p = (None, r)" "p_accounts r = accounts_of p" "p_cells r = cells_of p"
    "p_store r = p_store p" using reloaded [OF assms(1)] by blast
  with assms(2) obtain a where a: "accounts_of p i = Some a" by (auto simp: Update_def split: option.splits)
  have i: "ac_id a = i" using accounts_of_id [OF assms(1) a] .
  define pr where "pr = fn (projectAccountLocked r a)"
  define a1 where "a1 = copy_back a pr"
  define st where "st = state_or_empty (ac_provider_state_json pr)"
  obtain a2 p2 where r2: "refreshBucketKeyLocked now a1 st (r\<lparr>p_accounts := (p_accounts r)(i \<mapsto> a1)\<rparr>) = (a2, p2)" by fastforce
  obtain ob p4 where r4: "ensureBucketLocked now a2 (p2\<lparr>p_accounts := (p_accounts p2)(i \<mapsto> a2)\<rparr>) = (ob, p4)" by fastforce
  define p5 where "p5 = (case ob of None \<Rightarrow> p4
      | Some b \<Rightarrow> if bk_state_json b \<noteq> st \<or> \<not> sameTime (bk_cooldown_until b) (ac_cooldown_until pr)
         then persistBucketLocked now (bucketKeyLocked a2) (write_bucket (bucketKeyLocked a2)
            (b\<lparr>bk_state_json := st, bk_cooldown_until := ac_cooldown_until pr, bk_updated_at := now\<rparr>) p4)
         else p4)"
  have q: "q = persistLocked i p5"
    using assms(2) r a r2 r4 unfolding a1_def st_def pr_def p5_def by (simp add: Update_def Let_def)
  obtain k where a2: "a2 = a1\<lparr>ac_bucket_key := k\<rparr>" using refresh_key_frame [OF r2] by blast
  have p5: "p_accounts p5 = (accounts_of p)(i \<mapsto> a2)" "p_cells p5 = cells_of p"
    "s_accounts (p_store p5) = s_accounts (p_store p)" "s_cells (p_store p5) = s_cells (p_store p)"
    "SaveAccountErr (p_store p5) = SaveAccountErr (p_store p)" "ListAccountsErr (p_store p5) = ListAccountsErr (p_store p)"
    using refresh_key_frame [OF r2] ensure_frame [OF r4] r by (auto simp: p5_def fun_eq_iff split: option.split)
  have "wrote p i (PersistRuntime a2) q"
    unfolding q by (rule persistLocked_wrote) (use p5 a2 i in \<open>simp_all add: a1_def copy_back_def\<close>)
  with a a2 show ?thesis using that unfolding a1_def pr_def by blast
qed

lemma Update_succeeds:
  assumes "rows_ok mo p" "accounts_of p i \<noteq> None"
  shows "fst (Update mo now i fn p) = None"
proof -
  obtain r where "reloadStateLocked mo now p = (None, r)" "p_accounts r = accounts_of p" using reloaded [OF assms(1)] by blast
  with assms(2) show ?thesis by (auto simp: Update_def Let_def split: option.split prod.split)
qed

text \<open>A written account can be loaded again.\<close>

lemma wrote_rows:
  assumes "wrote p i a q" "rows_ok mo p" "accounts_of p i \<noteq> None" "ac_id a = i" "SaveAccountErr (p_store p) = None"
  shows "rows_ok mo q" "accounts_of q = (accounts_of p)(i \<mapsto> HydrateRuntime (PersistRuntime a))"
proof -
  have "insert i (dom (s_accounts (p_store p))) = dom (s_accounts (p_store p))"
    using assms(3) by (auto simp: accounts_of_def)
  with assms show "rows_ok mo q" by (auto simp: wrote_def rows_ok_def ranges_def)
  show "accounts_of q = (accounts_of p)(i \<mapsto> HydrateRuntime (PersistRuntime a))"
    using assms(1,5) by (auto simp: wrote_def accounts_of_def fun_eq_iff)
qed

lemma StoreTokens_writes:
  assumes "rows_ok mo p" and "StoreTokens mo now i acc ref ex p = (None, q)"
  obtains a a' where "accounts_of p i = Some a" "wrote p i a' q"
    "a' = PersistRuntime (a\<lparr>ac_access_token_enc := acc, ac_refresh_token_enc := ref, ac_expires_at := ex,
       ac_last_refresh_at := Some now, ac_status := StatusActive, ac_error_message := []\<rparr>)"
proof -
  obtain r where r: "reloadStateLocked mo now p = (None, r)" "p_accounts r = accounts_of p" "p_cells r = cells_of p"
    "p_store r = p_store p" using reloaded [OF assms(1)] by blast
  with assms(2) obtain a where a: "accounts_of p i = Some a" by (auto simp: StoreTokens_def split: option.splits)
  have i: "ac_id a = i" using accounts_of_id [OF assms(1) a] .
  define a1 where "a1 = a\<lparr>ac_access_token_enc := acc, ac_refresh_token_enc := ref, ac_expires_at := ex,
    ac_last_refresh_at := Some now, ac_status := StatusActive, ac_error_message := []\<rparr>"
  obtain ob p2 where en: "ensureBucketLocked now a1 (r\<lparr>p_accounts := (p_accounts r)(i \<mapsto> a1)\<rparr>) = (ob, p2)" by fastforce
  define p3 where "p3 = (case ob of None \<Rightarrow> p2
      | Some b \<Rightarrow> if bk_cooldown_until b = None then p2 else clear_bucket_cooldown now (bucketKeyLocked a1) b p2)"
  have q: "q = persistLocked i p3"
    using assms(2) r a en by (simp add: StoreTokens_def a1_def [symmetric] p3_def Let_def)
  have p3: "p_accounts p3 = (accounts_of p)(i \<mapsto> a1)" "p_cells p3 = cells_of p"
    "s_accounts (p_store p3) = s_accounts (p_store p)" "s_cells (p_store p3) = s_cells (p_store p)"
    "SaveAccountErr (p_store p3) = SaveAccountErr (p_store p)" "ListAccountsErr (p_store p3) = ListAccountsErr (p_store p)"
    using ensure_frame [OF en] r by (auto simp: p3_def clear_bucket_cooldown_def fun_eq_iff split: option.split)
  have "wrote p i (PersistRuntime a1) q"
    unfolding q by (rule persistLocked_wrote) (use p3 i in \<open>simp_all add: a1_def\<close>)
  with a show ?thesis using that unfolding a1_def by blast
qed

lemma Add_writes:
  assumes "rows_ok mo p" and "Add mo now a0 p = (None, q)"
  obtains a k where "p_accounts q = (accounts_of p)(ac_id a0 \<mapsto> a)" "p_cells q = cells_of p"
    "a = (HydrateRuntime (PersistRuntime (a0\<lparr>ac_bucket_key := k\<rparr>)))\<lparr>ac_cooldown_until := None, ac_provider_state_json := []\<rparr>"
proof -
  obtain r where r: "reloadStateLocked mo now p = (None, r)" "p_accounts r = accounts_of p" "p_cells r = cells_of p"
    "p_store r = p_store p" using reloaded [OF assms(1)] by blast
  define st where "st = state_or_empty (ac_provider_state_json a0)"
  obtain a1 p1 where r1: "refreshBucketKeyLocked now a0 st r = (a1, p1)" by fastforce
  obtain ob p2 where r2: "ensureBucketLocked now a1 p1 = (ob, p2)" by fastforce
  define p3 where "p3 = (case ob of None \<Rightarrow> p2
      | Some b \<Rightarrow> persistBucketLocked now (bucketKeyLocked a1) (write_bucket (bucketKeyLocked a1)
           (b\<lparr>bk_state_json := st, bk_cooldown_until := ac_cooldown_until a1, bk_updated_at := now\<rparr>) p2))"
  obtain k where a1: "a1 = a0\<lparr>ac_bucket_key := k\<rparr>" using refresh_key_frame [OF r1] by blast
  have p3: "p_accounts p3 = accounts_of p" "p_cells p3 = cells_of p"
    using refresh_key_frame [OF r1] ensure_frame [OF r2] r by (auto simp: p3_def split: option.split)
  define a3 where "a3 = (HydrateRuntime (PersistRuntime a1))\<lparr>ac_cooldown_until := None, ac_provider_state_json := []\<rparr>"
  obtain s where "SaveAccount (PersistRuntime a1) (p_store p3) = (None, s)"
    and q: "q = p3\<lparr>p_store := s, p_accounts := (p_accounts p3)(ac_id a3 \<mapsto> a3)\<rparr>"
    using assms(2) r r1 r2
    by (simp add: Add_def Let_def st_def [symmetric] p3_def [symmetric] a3_def split: prod.splits option.splits)
  have "p_accounts q = (accounts_of p)(ac_id a0 \<mapsto> a3)" "p_cells q = cells_of p"
    using p3 by (simp_all add: q a3_def a1)
  with that show ?thesis unfolding a3_def a1 by blast
qed

end
