(* ===== verification/AdminProps.thy ===== *)
theory AdminProps
  imports AdminPool AccountWrites Samples
begin

text \<open>
  The properties of the administration of accounts and cells: what a successful binding of an account to a
  cell promises, and what happens when two of them run at once.
\<close>

section \<open>Binding\<close>

text \<open>No other request in between, and a store that can be loaded.\<close>

definition quiet :: "admin_env \<Rightarrow> bool" where
  "quiet env \<longleftrightarrow> (\<forall>k. av_others env k = id)"

lemma quiet_reads:
  assumes "quiet env" "rows_ok (av_order env) p"
  shows "adm_Get env k i p = (oa, q) \<Longrightarrow> p_store q = p_store p \<and> (\<forall>a. oa = Some a \<longrightarrow>
      (\<exists>b. accounts_of p i = Some b \<and> ac_id a = ac_id b \<and> ac_cell_id a = ac_cell_id b \<and> ac_provider a = ac_provider b))"
    and "adm_GetCell env k c p = (oc, q) \<Longrightarrow> p_store q = p_store p \<and> (\<forall>x. oc = Some x \<longrightarrow>
      (\<exists>y. c \<noteq> [] \<and> cells_of p c = Some y \<and> cl_status x = cl_status y \<and> cl_cooldown_until x = cl_cooldown_until y
           \<and> cl_proxy x = cl_proxy y))"
    and "adm_List env k p = (as, q) \<Longrightarrow> p_store q = p_store p
      \<and> (\<forall>j b. accounts_of p j = Some b \<longrightarrow> (\<exists>a \<in> set as. ac_id a = ac_id b \<and> ac_cell_id a = ac_cell_id b \<and> ac_provider a = ac_provider b))"
proof -
  have o: "av_others env k = id" using assms(1) by (simp add: quiet_def)
  let ?r = "snd (reloadStateLocked (av_order env) (av_now env k) p)"
  have acc: "p_accounts ?r = accounts_of p" and cells: "p_cells ?r = cells_of p"
    using reloaded [OF assms(2), of "av_now env k"] by auto
  have pr: "ac_id (projectAccountLocked w b) = ac_id b" "ac_cell_id (projectAccountLocked w b) = ac_cell_id b"
    "ac_provider (projectAccountLocked w b) = ac_provider b" for w b
    by (simp_all add: projectAccountLocked_def Let_def split: option.split)
  show "adm_Get env k i p = (oa, q) \<Longrightarrow> p_store q = p_store p \<and> (\<forall>a. oa = Some a \<longrightarrow>
      (\<exists>b. accounts_of p i = Some b \<and> ac_id a = ac_id b \<and> ac_cell_id a = ac_cell_id b \<and> ac_provider a = ac_provider b))"
    by (auto simp: adm_Get_def Get_def refreshState_def Let_def o acc pr)
  show "adm_GetCell env k c p = (oc, q) \<Longrightarrow> p_store q = p_store p \<and> (\<forall>x. oc = Some x \<longrightarrow>
      (\<exists>y. c \<noteq> [] \<and> cells_of p c = Some y \<and> cl_status x = cl_status y \<and> cl_cooldown_until x = cl_cooldown_until y
           \<and> cl_proxy x = cl_proxy y))"
    by (auto simp: adm_GetCell_def GetCell_def refreshState_def Let_def o cells cellLocked_def cloneCell_def split: if_splits)
  have mem: "b \<in> set (entries (accounts_of p) (mo_accounts (av_order env)))" if "accounts_of p j = Some b" for j b
    using that assms(2) by (auto simp: set_entries rows_ok_def ranges_def dom_def accounts_of_def)
  show "adm_List env k p = (as, q) \<Longrightarrow> p_store q = p_store p
      \<and> (\<forall>j b. accounts_of p j = Some b \<longrightarrow> (\<exists>a \<in> set as. ac_id a = ac_id b \<and> ac_cell_id a = ac_cell_id b \<and> ac_provider a = ac_provider b))"
    using mem by (fastforce simp: adm_List_def List_accounts_def refreshState_def Let_def o acc pr)
qed


lemma bind_cell_writes:
  assumes "rows_ok (av_order env) r" "bind_cell env i c r = (Plain (AnswerJSON 200 v), q)"
  obtains a a' where "accounts_of r i = Some a" "p_accounts q = (accounts_of r)(i \<mapsto> a')" "p_cells q = cells_of r"
    "ac_cell_id a' = c" "ac_provider a' = ac_provider a"
proof -
  from assms(2) have "Update (av_order env) (av_now env 3) i (\<lambda>a. a\<lparr>ac_cell_id := c\<rparr>) r = (None, q)"
    by (auto simp: bind_cell_def adm_Update_def account_missing_def refuse_def split: prod.splits option.splits)
  from Update_writes [OF assms(1) this] obtain a a' k w where w: "accounts_of r i = Some a" "wrote r i a' q"
    "a' = PersistRuntime ((copy_back a ((projectAccountLocked w a)\<lparr>ac_cell_id := c\<rparr>))\<lparr>ac_bucket_key := k\<rparr>)" .
  then show thesis
    by (intro that [of a a']) (simp_all add: wrote_def copy_back_def projectAccountLocked_def Let_def split: option.split)
qed



section \<open>Two administrators at once\<close>

definition sample_cell_row :: egress_cell where
  "sample_cell_row = \<lparr> cl_id = ''c'', cl_name = ''c'', cl_status = ''active'',
     cl_proxy_json = ''{\"type\":\"http\",\"host\":\"h\",\"port\":80}'', cl_labels_json = [], cl_state_json = ''{}'',
     cl_created_at = 1, cl_updated_at = 1, cl_cooldown_until = None, cl_proxy = None, cl_labels = None \<rparr>"

definition admin_store :: store where
  "admin_store = NewMockStore\<lparr> s_accounts := [''a'' \<mapsto> acct_a, ''b'' \<mapsto> acct_b], s_cells := [''c'' \<mapsto> sample_cell_row] \<rparr>"

definition admin_pool :: pool where
  "admin_pool = empty_pool admin_store (NewBus 4)"

definition admin_order :: map_order where
  "admin_order = \<lparr> mo_accounts = [''a'', ''b''], mo_cells = [''c''], mo_buckets = [] \<rparr>"

definition bind_body :: string where
  "bind_body = ''{\"cell_id\":\"c\"}''"

definition quiet_env :: admin_env where
  "quiet_env = \<lparr> av_order = admin_order, av_now = (\<lambda>_. 10), av_others = (\<lambda>_. id) \<rparr>"


lemma bind_body_decoded: "decode_body [(''cell_id'', string_field (\<lambda>x _. x))] bind_body [] = Some ''c''"
  by code_simp

lemma quiet_quiet: "quiet quiet_env"
  by (simp add: quiet_def quiet_env_def)

lemma admin_loadable: "loadable (av_order quiet_env) admin_pool"
proof -
  have "store_wf admin_store" unfolding store_wf_def admin_store_def NewMockStore_def by (simp add: acct_defs sample_cell_row_def)
  moreover have "order_ok admin_store admin_order"
    by (auto simp: order_ok_def ranges_def admin_order_def admin_store_def NewMockStore_def split: if_splits)
  ultimately show ?thesis
    by (simp add: loadable_def admin_pool_def empty_pool_def quiet_env_def) (simp add: admin_store_def NewMockStore_def)
qed

lemma sample_bind:
  "fst (handleBindAccountCell quiet_env ''a'' bind_body admin_pool)
     = Plain (AnswerJSON 200 (JObj [(''cell_id'', JStr ''c''), (''id'', JStr ''a'')]))"
  by code_simp


definition racing_env :: admin_env where
  "racing_env = quiet_env\<lparr>av_others := (\<lambda>k p. if k = 2 then snd (handleBindAccountCell quiet_env ''b'' bind_body p) else p)\<rparr>"

text \<open>
  The check and the write are two operations of the pool: when another binding to the same cell comes in between,
  both succeed, and two accounts of one provider share a cell that is not a shared one.
\<close>
theorem bind_race:
  "fst (handleBindAccountCell racing_env ''a'' bind_body admin_pool)
     = Plain (AnswerJSON 200 (JObj [(''cell_id'', JStr ''c''), (''id'', JStr ''a'')]))
   \<and> map_option (\<lambda>a. (ac_provider a, ac_cell_id a)) (p_accounts (snd (handleBindAccountCell racing_env ''a'' bind_body admin_pool)) ''a'')
     = Some (ProviderCodex, ''c'')
   \<and> map_option (\<lambda>a. (ac_provider a, ac_cell_id a)) (p_accounts (snd (handleBindAccountCell racing_env ''a'' bind_body admin_pool)) ''b'')
     = Some (ProviderCodex, ''c'')"
  by code_simp


definition upsert_body :: string where
  "upsert_body = ''{\"id\":\"c\",\"name\":\"new\",\"proxy\":{\"type\":\"http\",\"host\":\"h\",\"port\":80}}''"

definition cooling_env :: admin_env where
  "cooling_env = quiet_env\<lparr>av_others := (\<lambda>k p. if k = 0 then snd (CooldownCell admin_order 10 ''c'' 99 ''busy'' p) else p)\<rparr>"

text \<open>An update of a cell writes back the cooldown that it read: one that is set in between is lost.\<close>

theorem upsert_loses_cooldown:
  "map_option cl_cooldown_until (p_cells (snd (CooldownCell admin_order 10 ''c'' 99 ''busy'' admin_pool)) ''c'') = Some (Some 99)
   \<and> map_option cl_cooldown_until (p_cells (snd (handleUpsertEgressCell cooling_env upsert_body admin_pool)) ''c'') = Some None"
  by code_simp

end
