(* ===== verification/GoUrl.thy ===== *)
theory GoUrl
  imports GoHttp
begin

text \<open>
  What the OAuth login uses of \<open>net/url\<close> (\<open>url.Parse\<close> of Go 1.24: whether an address parses, its scheme and its
  raw query) and of \<open>encoding/base64\<close> (the URL alphabet, without padding when encoding and with padding when
  decoding).
\<close>

section \<open>Addresses\<close>

definition byte :: "char \<Rightarrow> nat" where
  "byte c = of_char c"

definition letter_char :: "char \<Rightarrow> bool" where
  "letter_char c \<longleftrightarrow> (65 \<le> byte c \<and> byte c \<le> 90) \<or> (97 \<le> byte c \<and> byte c \<le> 122)"

definition ctl_char :: "char \<Rightarrow> bool" where
  "ctl_char c \<longleftrightarrow> byte c < 32 \<or> byte c = 127"

definition scheme_char :: "char \<Rightarrow> bool" where
  "scheme_char c \<longleftrightarrow> letter_char c \<or> is_digit c \<or> c \<in> set ''+-.''"

text \<open>The scheme and the rest; \<open>None\<close> is the error for a missing scheme before a colon.\<close>

definition get_scheme :: "string \<Rightarrow> (string \<times> string) option" where
  "get_scheme s =
     (let p = takeWhile scheme_char s in
      case dropWhile scheme_char s of
        [] \<Rightarrow> Some ([], s)
      | c # rest \<Rightarrow>
          (if p \<noteq> [] \<and> \<not> letter_char (hd p) then Some ([], s)
           else if c \<noteq> CHR '':'' then Some ([], s)
           else if p = [] then None else Some (p, rest)))"

text \<open>The escapes of a path, a fragment or a user: two hexadecimal digits after each percent sign.\<close>

fun escapes_ok :: "string \<Rightarrow> bool" where
  "escapes_ok [] \<longleftrightarrow> True"
| "escapes_ok (c # cs) \<longleftrightarrow>
     (if c = CHR ''%'' then
        (case cs of a # b # r \<Rightarrow> hex_val a \<noteq> None \<and> hex_val b \<noteq> None \<and> escapes_ok r | _ \<Rightarrow> False)
      else escapes_ok cs)"

definition host_char :: "char \<Rightarrow> bool" where
  "host_char c \<longleftrightarrow> letter_char c \<or> is_digit c \<or> 128 \<le> byte c \<or> c \<in> set ''-_.~!$&()*+,;=:[]<>'' \<or> byte c = 39 \<or> c = quote_ch"

text \<open>The escapes of a host; in a zone, more bytes may be escaped.\<close>

fun host_ok :: "bool \<Rightarrow> string \<Rightarrow> bool" where
  "host_ok zone [] \<longleftrightarrow> True"
| "host_ok zone (c # cs) \<longleftrightarrow>
     (if c = CHR ''%'' then
        (case cs of
           a # b # r \<Rightarrow>
             (case (hex_val a, hex_val b) of
                (Some p, Some q) \<Rightarrow>
                  (if zone then [a, b] = ''25'' \<or> p * 16 + q = 32 \<or> host_char (char_of (p * 16 + q))
                   else 8 \<le> p \<or> [a, b] = ''25'')
                  \<and> host_ok zone r
              | _ \<Rightarrow> False)
         | _ \<Rightarrow> False)
      else host_char c \<and> host_ok zone cs)"

definition port_ok :: "string \<Rightarrow> bool" where
  "port_ok s \<longleftrightarrow> s = [] \<or> hd s = CHR '':'' \<and> list_all is_digit (tl s)"

definition parse_host :: "string \<Rightarrow> bool" where
  "parse_host h \<longleftrightarrow>
     (if has_prefix h ''['' then
        (case last_index h '']'' of
           None \<Rightarrow> False
         | Some i \<Rightarrow>
             port_ok (drop (i + 1) h)
             \<and> (case str_index (take i h) ''%25'' of
                  Some z \<Rightarrow> host_ok False (take z h) \<and> host_ok True (drop z (take i h)) \<and> host_ok False (drop i h)
                | None \<Rightarrow> host_ok False h))
      else (case last_index h '':'' of Some i \<Rightarrow> port_ok (drop i h) | None \<Rightarrow> True) \<and> host_ok False h)"

definition user_char :: "char \<Rightarrow> bool" where
  "user_char c \<longleftrightarrow> letter_char c \<or> is_digit c \<or> c \<in> set ''-._:~!$&()*+,;=%@'' \<or> byte c = 39"

definition parse_authority :: "string \<Rightarrow> bool" where
  "parse_authority a \<longleftrightarrow>
     (case last_index a ''@'' of
        None \<Rightarrow> parse_host a
      | Some i \<Rightarrow>
          parse_host (drop (i + 1) a) \<and> list_all user_char (take i a)
          \<and> (case cut_at CHR '':'' (take i a) of (user, password) \<Rightarrow> escapes_ok user \<and> escapes_ok password))"

text \<open>The authority and the path of what follows the scheme, without the query.\<close>

definition hierarchy_ok :: "string \<Rightarrow> string \<Rightarrow> bool" where
  "hierarchy_ok scheme rest \<longleftrightarrow>
     (if (scheme \<noteq> [] \<or> \<not> has_prefix rest ''///'') \<and> has_prefix rest ''//''
      then parse_authority (takeWhile (\<lambda>c. c \<noteq> CHR ''/'') (drop 2 rest))
           \<and> escapes_ok (dropWhile (\<lambda>c. c \<noteq> CHR ''/'') (drop 2 rest))
      else escapes_ok rest)"

text \<open>\<open>url.Parse\<close>: the scheme and the raw query, or an error.\<close>

definition parse_url :: "string \<Rightarrow> (string \<times> string) option" where
  "parse_url s =
     (case cut_at CHR ''#'' s of
        (u, frag) \<Rightarrow>
          (if list_ex ctl_char u \<or> \<not> escapes_ok frag then None
           else if u = ''*'' then Some ([], [])
           else (case get_scheme u of
                   None \<Rightarrow> None
                 | Some (scheme, rest0) \<Rightarrow>
                     (case cut_at CHR ''?'' rest0 of
                        (rest, rawQuery) \<Rightarrow>
                          (if \<not> has_prefix rest ''/'' \<and> scheme \<noteq> [] then Some (to_lower scheme, rawQuery)
                           else if \<not> has_prefix rest ''/'' \<and> CHR '':'' \<in> set (takeWhile (\<lambda>c. c \<noteq> CHR ''/'') rest) then None
                           else if hierarchy_ok scheme rest then Some (to_lower scheme, rawQuery) else None)))))"

text \<open>\<open>parsed.Query ().Get\<close>: the pairs that decode.\<close>

definition query_get :: "string \<Rightarrow> string \<Rightarrow> string" where
  "query_get rawQuery k = (case map_of (fst (parse_query rawQuery)) k of Some (v # _) \<Rightarrow> v | _ \<Rightarrow> [])"

section \<open>Base 64\<close>

definition b64_char :: "nat \<Rightarrow> char" where
  "b64_char n =
     (if n < 26 then char_of (65 + n) else if n < 52 then char_of (71 + n) else if n < 62 then char_of (n - 4)
      else if n = 62 then CHR ''-'' else CHR ''_'')"

definition b64_val :: "char \<Rightarrow> nat option" where
  "b64_val c =
     (let n = byte c in
      if 65 \<le> n \<and> n \<le> 90 then Some (n - 65) else if 97 \<le> n \<and> n \<le> 122 then Some (n - 71)
      else if 48 \<le> n \<and> n \<le> 57 then Some (n + 4)
      else if c = CHR ''-'' then Some 62 else if c = CHR ''_'' then Some 63 else None)"

text \<open>\<open>base64.RawURLEncoding.EncodeToString\<close>.\<close>

fun b64_encode :: "string \<Rightarrow> string" where
  "b64_encode [] = []"
| "b64_encode [a] = [b64_char (byte a div 4), b64_char (byte a mod 4 * 16)]"
| "b64_encode [a, b] =
     [b64_char (byte a div 4), b64_char (byte a mod 4 * 16 + byte b div 16), b64_char (byte b mod 16 * 4)]"
| "b64_encode (a # b # c # r) =
     [b64_char (byte a div 4), b64_char (byte a mod 4 * 16 + byte b div 16),
      b64_char (byte b mod 16 * 4 + byte c div 64), b64_char (byte c mod 64)] @ b64_encode r"

text \<open>\<open>base64.URLEncoding.DecodeString\<close>: line ends are skipped, the last group may be padded, and the unused bits of
  a padded group are not looked at.\<close>

definition byte_of :: "nat \<Rightarrow> char" where
  "byte_of n = char_of (n mod 256)"

fun b64_groups :: "string \<Rightarrow> string option" where
  "b64_groups [] = Some []"
| "b64_groups (a # b # c # d # r) =
     (case (b64_val a, b64_val b, b64_val c, b64_val d) of
        (Some p, Some q, Some s, Some t) \<Rightarrow>
          map_option (\<lambda>xs. byte_of (p * 4 + q div 16) # byte_of (q * 16 + s div 4) # byte_of (s * 64 + t) # xs) (b64_groups r)
      | (Some p, Some q, Some s, None) \<Rightarrow>
          (if d = CHR ''='' \<and> r = [] then Some [byte_of (p * 4 + q div 16), byte_of (q * 16 + s div 4)] else None)
      | (Some p, Some q, None, None) \<Rightarrow>
          (if c = CHR ''='' \<and> d = CHR ''='' \<and> r = [] then Some [byte_of (p * 4 + q div 16)] else None)
      | _ \<Rightarrow> None)"
| "b64_groups _ = None"

definition b64_decode :: "string \<Rightarrow> string option" where
  "b64_decode s = b64_groups (filter (\<lambda>c. byte c \<noteq> 10 \<and> byte c \<noteq> 13) s)"

text \<open>The padding that the drivers add themselves.\<close>

definition b64_pad :: "string \<Rightarrow> string" where
  "b64_pad s = s @ (if length s mod 4 = 0 then [] else replicate (4 - length s mod 4) CHR ''='')"

lemma byte_bound: "byte c < 256"
  unfolding byte_def using of_char_mod_256 [of c, where ?'a = nat] by (metis mod_less_divisor zero_less_numeral)

lemma byte_of_byte [simp]: "byte_of (byte c) = c"
  using byte_bound [of c] by (simp add: byte_of_def byte_def)

lemma b64_val_char [simp]: "n < 64 \<Longrightarrow> b64_val (b64_char n) = Some n"
proof -
  have "list_all (\<lambda>n. b64_val (b64_char n) = Some n) [0..<64]" by code_simp
  then show "n < 64 \<Longrightarrow> b64_val (b64_char n) = Some n" by (simp add: list_all_iff)
qed

lemma b64_char_plain: "n < 64 \<Longrightarrow> byte (b64_char n) \<noteq> 10 \<and> byte (b64_char n) \<noteq> 13 \<and> b64_char n \<noteq> CHR ''.''"
proof -
  have "list_all (\<lambda>n. byte (b64_char n) \<noteq> 10 \<and> byte (b64_char n) \<noteq> 13 \<and> b64_char n \<noteq> CHR ''.'') [0..<64]" by code_simp
  then show "n < 64 \<Longrightarrow> byte (b64_char n) \<noteq> 10 \<and> byte (b64_char n) \<noteq> 13 \<and> b64_char n \<noteq> CHR ''.''" by (simp add: list_all_iff)
qed

lemma b64_pieces:
  "byte a div 4 < 64" "byte a mod 4 * 16 < 64" "byte a mod 4 * 16 + byte b div 16 < 64" "byte b mod 16 * 4 < 64"
  "byte b mod 16 * 4 + byte c div 64 < 64" "byte c mod 64 < 64"
proof -
  have "byte b div 16 < 16" "byte c div 64 < 4" "byte a div 4 < 64" using byte_bound by (simp_all add: less_mult_imp_div_less)
  moreover have "byte a mod 4 < 4" "byte b mod 16 < 16" "byte c mod 64 < 64" by simp_all
  ultimately show "byte a div 4 < 64" "byte a mod 4 * 16 < 64" "byte a mod 4 * 16 + byte b div 16 < 64"
    "byte b mod 16 * 4 < 64" "byte b mod 16 * 4 + byte c div 64 < 64" "byte c mod 64 < 64" by linarith+
qed

lemma b64_encode_plain: "\<forall>c \<in> set (b64_encode s). byte c \<noteq> 10 \<and> byte c \<noteq> 13 \<and> c \<noteq> CHR ''.''"
proof (induction s rule: b64_encode.induct)
  case (2 a)
  show ?case using b64_char_plain [OF b64_pieces(1)] b64_char_plain [OF b64_pieces(2)] by simp
next
  case (3 a b)
  show ?case using b64_char_plain [OF b64_pieces(1)] b64_char_plain [OF b64_pieces(3)] b64_char_plain [OF b64_pieces(4)] by simp
next
  case (4 a b c r)
  show ?case
    using "4.IH" b64_char_plain [OF b64_pieces(1)] b64_char_plain [OF b64_pieces(3)] b64_char_plain [OF b64_pieces(5)]
      b64_char_plain [OF b64_pieces(6)] by simp
qed simp

lemma byte_of_mod: "n mod 256 = byte c \<Longrightarrow> byte_of n = c"
  using byte_of_byte [of c] by (simp add: byte_of_def)

lemma digits_join:
  fixes a b c :: nat
  assumes "a < 256" "b < 256" "c < 256"
  shows "(a div 4 * 4 + a mod 4 * 16 div 16) mod 256 = a"
    "(a div 4 * 4 + (a mod 4 * 16 + b div 16) div 16) mod 256 = a"
    "((a mod 4 * 16 + b div 16) * 16 + b mod 16 * 4 div 4) mod 256 = b"
    "((a mod 4 * 16 + b div 16) * 16 + (b mod 16 * 4 + c div 64) div 4) mod 256 = b"
    "((b mod 16 * 4 + c div 64) * 64 + c mod 64) mod 256 = c"
proof -
  have q: "b div 16 < 16" "c div 64 < 4" using assms by (simp_all add: less_mult_imp_div_less)
  have d: "(a mod 4 * 16 + b div 16) div 16 = a mod 4" "(b mod 16 * 4 + c div 64) div 4 = b mod 16" using q by simp_all
  show "(a div 4 * 4 + a mod 4 * 16 div 16) mod 256 = a" using assms by simp
  show "(a div 4 * 4 + (a mod 4 * 16 + b div 16) div 16) mod 256 = a" using assms by (simp add: d)
  have "(a mod 4 * 16 + b div 16) * 16 + b mod 16 = b + 256 * (a mod 4)"
    using div_mult_mod_eq [of b 16] by (simp add: algebra_simps)
  then show "((a mod 4 * 16 + b div 16) * 16 + b mod 16 * 4 div 4) mod 256 = b"
    "((a mod 4 * 16 + b div 16) * 16 + (b mod 16 * 4 + c div 64) div 4) mod 256 = b"
    using assms by (simp_all add: d)
  have "(b mod 16 * 4 + c div 64) * 64 + c mod 64 = c + 256 * (b mod 16)"
    using div_mult_mod_eq [of c 64] by (simp add: algebra_simps)
  then show "((b mod 16 * 4 + c div 64) * 64 + c mod 64) mod 256 = c" using assms by simp
qed

lemmas byte_parts = digits_join [OF byte_bound byte_bound byte_bound, THEN byte_of_mod]

lemma byte_wraps [simp]:
  "byte_of (byte c + 256 * k) = c" "byte_of (byte c + byte b div 16 div 16) = c" "byte_of (byte c + byte b div 64 div 4) = c"
  "byte_of (byte c + (256 * k + byte b div 64 div 4)) = c"
  using byte_bound [of b] byte_bound [of c] by (simp_all add: byte_of_mod div_mult2_eq [symmetric])

lemma b64_val_pad: "b64_val CHR ''='' = None"
  by code_simp

lemma b64_groups_encode: "b64_groups (b64_pad (b64_encode s)) = Some s"
proof (induction s rule: b64_encode.induct)
  case 1
  show ?case by (simp add: b64_pad_def)
next
  case (2 a)
  show ?case by (simp add: b64_pad_def numeral_2_eq_2 b64_pieces b64_val_pad byte_parts)
next
  case (3 a b)
  show ?case by (simp add: b64_pad_def b64_pieces b64_val_pad byte_parts)
next
  case (4 a b c r)
  have "b64_pad (b64_encode (a # b # c # r))
      = [b64_char (byte a div 4), b64_char (byte a mod 4 * 16 + byte b div 16),
         b64_char (byte b mod 16 * 4 + byte c div 64), b64_char (byte c mod 64)] @ b64_pad (b64_encode r)"
    by (simp add: b64_pad_def)
  with 4 show ?case by (simp add: b64_pieces byte_parts)
qed

text \<open>What \<open>RawURLEncoding\<close> encodes, the drivers decode after they have padded it.\<close>

theorem b64_roundtrip: "b64_decode (b64_pad (b64_encode s)) = Some s"
proof -
  have "filter (\<lambda>c. byte c \<noteq> 10 \<and> byte c \<noteq> 13) (b64_pad (b64_encode s)) = b64_pad (b64_encode s)"
    using b64_encode_plain [of s] by (auto simp: b64_pad_def filter_id_conv byte_def)
  then show ?thesis by (simp add: b64_decode_def b64_groups_encode)
qed

lemma b64_encode_nonempty: "s \<noteq> [] \<Longrightarrow> b64_encode s \<noteq> []"
  by (cases s rule: b64_encode.cases) simp_all

end
