(* ===== verification/OAuth.thy ===== *)
theory OAuth
  imports GoUrl Gemini Tokens
begin

text \<open>
  The OAuth side of the drivers (src/internal/driver: oauth_helpers.go, claude_oauth.go, codex_oauth.go,
  gemini_oauth.go, gemini_identity.go, gemini_codeassist.go, *_lifecycle.go): the address of the login page, the
  exchange of a code for tokens and an identity, the refresh of a token.  An HTTP call is a request with a name
  (\<open>call\<close>) and what it gets is an input; random bytes, SHA-256 and the clock are inputs too.  The details of a
  JSON error are left out of the messages.
\<close>

section \<open>Calls\<close>

record http_request =
  hr_method :: string
  hr_url :: string
  hr_headers :: header
  hr_body :: string

record http_answer =
  ha_status :: int
  ha_body :: "go_error + string"   \<comment> \<open>reading it may fail\<close>

datatype call = TokenCall | IdentityCall | LoadCall | OnboardCall | PollCall nat | QuotaCall

type_synonym transport = "call \<Rightarrow> http_request \<Rightarrow> go_error + http_answer"

definition text_error :: "string \<Rightarrow> go_error" where
  "text_error msg = \<lparr> ge_message = msg, ge_canceled = False, ge_deadline = False, ge_net = False \<rparr>"

definition wrap_error :: "string \<Rightarrow> go_error \<Rightarrow> go_error" where
  "wrap_error p e = e\<lparr>ge_message := p @ ge_message e\<rparr>"

definition wrapped :: "string \<Rightarrow> go_error + 'a \<Rightarrow> go_error + 'a" where
  "wrapped p r = (case r of Inl e \<Rightarrow> Inl (wrap_error p e) | Inr x \<Rightarrow> Inr x)"

text \<open>The body of an answer with status 200; the three prefixes are those of the messages.\<close>

definition body_of :: "string \<Rightarrow> string \<Rightarrow> string \<Rightarrow> (string \<Rightarrow> string) \<Rightarrow> go_error + http_answer \<Rightarrow> go_error + string" where
  "body_of call_prefix read_prefix status_prefix shorten r =
     and_then (wrapped call_prefix r) (\<lambda>a.
     and_then (wrapped read_prefix (ha_body a)) (\<lambda>body.
       if ha_status a = 200 then Inr body
       else Inl (text_error (status_prefix @ itoa (ha_status a) @ '': '' @ shorten body))))"

definition truncateBytes :: "string \<Rightarrow> string" where
  "truncateBytes b = truncate_with b 200"

definition parsed :: "string \<Rightarrow> 's option \<Rightarrow> go_error + 's" where
  "parsed msg os = (case os of None \<Rightarrow> Inl (text_error msg) | Some s \<Rightarrow> Inr s)"

section \<open>Proof keys and login addresses\<close>

definition generatePKCE :: "(string \<Rightarrow> string) \<Rightarrow> string \<Rightarrow> string \<times> string" where
  "generatePKCE sha256 random = (let verifier = b64_encode random in (verifier, b64_encode (sha256 verifier)))"

definition generateState :: "string \<Rightarrow> string" where
  "generateState random = b64_encode random"

record oauth_session =
  se_code_verifier :: string
  se_state :: string

text \<open>The random bytes of the verifier and of the state.\<close>

record oauth_random =
  rn_verifier :: string
  rn_state :: string

definition single :: "(string \<times> string) list \<Rightarrow> query" where
  "single kvs = map (\<lambda>kv. (fst kv, [snd kv])) kvs"

definition claude_client_id :: string where
  "claude_client_id = ''9d1c250a-e61b-44d9-88ed-5944d1962f5e''"

definition claude_redirect :: string where
  "claude_redirect = ''https://platform.claude.com/oauth/code/callback''"

definition generateClaudeAuthURL :: "(string \<Rightarrow> string) \<Rightarrow> oauth_random \<Rightarrow> string \<times> oauth_session" where
  "generateClaudeAuthURL sha256 rn =
     (case generatePKCE sha256 (rn_verifier rn) of
        (verifier, challenge) \<Rightarrow>
          (''https://claude.com/cai/oauth/authorize?''
             @ query_encode (single
                 [(''code'', ''true''), (''client_id'', claude_client_id), (''response_type'', ''code''),
                  (''redirect_uri'', claude_redirect),
                  (''scope'', ''org:create_api_key user:profile user:inference user:sessions:claude_code user:mcp_servers user:file_upload''),
                  (''state'', generateState (rn_state rn)), (''code_challenge'', challenge), (''code_challenge_method'', ''S256'')]),
           \<lparr> se_code_verifier = verifier, se_state = generateState (rn_state rn) \<rparr>))"

definition codex_client_id :: string where
  "codex_client_id = ''app_EMoamEEZ73f0CkXaXp7hrann''"

definition codex_redirect :: string where
  "codex_redirect = ''http://localhost:1455/auth/callback''"

definition generateCodexAuthURL :: "(string \<Rightarrow> string) \<Rightarrow> oauth_random \<Rightarrow> string \<times> oauth_session" where
  "generateCodexAuthURL sha256 rn =
     (case generatePKCE sha256 (rn_verifier rn) of
        (verifier, challenge) \<Rightarrow>
          (''https://auth.openai.com/oauth/authorize?''
             @ query_encode (single
                 [(''response_type'', ''code''), (''client_id'', codex_client_id), (''redirect_uri'', codex_redirect),
                  (''scope'', ''openid profile email offline_access''), (''state'', generateState (rn_state rn)),
                  (''code_challenge'', challenge), (''code_challenge_method'', ''S256''),
                  (''id_token_add_organizations'', ''true''), (''codex_cli_simplified_flow'', ''true'')]),
           \<lparr> se_code_verifier = verifier, se_state = generateState (rn_state rn) \<rparr>))"

record gemini_oauth_config =
  go_client_id :: string
  go_client_secret :: string
  go_redirect_uri :: string
  go_api_url :: string

definition generateGeminiAuthURL ::
  "(string \<Rightarrow> string) \<Rightarrow> gemini_oauth_config \<Rightarrow> oauth_random \<Rightarrow> err + string \<times> oauth_session" where
  "generateGeminiAuthURL sha256 cfg rn =
     (if go_client_id cfg = [] \<or> go_client_secret cfg = [] \<or> go_redirect_uri cfg = []
      then Inl ''gemini oauth is not configured''
      else (case generatePKCE sha256 (rn_verifier rn) of
              (verifier, challenge) \<Rightarrow>
                Inr (''https://accounts.google.com/o/oauth2/v2/auth?''
                       @ query_encode (single
                           [(''client_id'', go_client_id cfg), (''response_type'', ''code''), (''redirect_uri'', go_redirect_uri cfg),
                            (''scope'', ''openid email profile https://www.googleapis.com/auth/cloud-platform''),
                            (''state'', generateState (rn_state rn)), (''code_challenge'', challenge),
                            (''code_challenge_method'', ''S256''), (''access_type'', ''offline''),
                            (''prompt'', ''consent select_account'')]),
                     \<lparr> se_code_verifier = verifier, se_state = generateState (rn_state rn) \<rparr>)))"

section \<open>Answers of the token endpoints\<close>

record token_body =
  tb_access :: string
  tb_refresh :: string
  tb_expires :: int
  tb_scope :: string
  tb_id_token :: string

definition empty_token_body :: token_body where
  "empty_token_body = \<lparr> tb_access = [], tb_refresh = [], tb_expires = 0, tb_scope = [], tb_id_token = [] \<rparr>"

definition access_field :: "string \<times> token_body field" where
  "access_field = (''access_token'', string_field (\<lambda>x b. b\<lparr>tb_access := x\<rparr>))"

definition refresh_field :: "string \<times> token_body field" where
  "refresh_field = (''refresh_token'', string_field (\<lambda>x b. b\<lparr>tb_refresh := x\<rparr>))"

definition expires_field :: "string \<times> token_body field" where
  "expires_field = (''expires_in'', int_field (\<lambda>x b. b\<lparr>tb_expires := x\<rparr>))"

definition token_response_fields :: "(string \<times> token_body field) list" where
  "token_response_fields =
     [access_field, refresh_field, expires_field, (''scope'', string_field (\<lambda>x b. b\<lparr>tb_scope := x\<rparr>))]"

definition id_token_fields :: "(string \<times> token_body field) list" where
  "id_token_fields =
     [access_field, refresh_field, expires_field, (''id_token'', string_field (\<lambda>x b. b\<lparr>tb_id_token := x\<rparr>))]"

text \<open>A token answer that decodes and has an access token.\<close>

definition token_answer :: "(string \<times> token_body field) list \<Rightarrow> string \<Rightarrow> string \<Rightarrow> go_error + token_body" where
  "token_answer fs msg body =
     and_then (parsed msg (unmarshal_ok fs body empty_token_body)) (\<lambda>tb.
     and_then (ensure (tb_access tb \<noteq> []) (text_error ''empty access_token in response'')) (\<lambda>_. Inr tb))"

definition token_response_of :: "token_body \<Rightarrow> token_response" where
  "token_response_of tb =
     \<lparr> tr_access_token = tb_access tb, tr_refresh_token = tb_refresh tb, tr_expires_in = tb_expires tb \<rparr>"

text \<open>\<open>strings.Fields\<close>.\<close>

fun str_fields :: "string \<Rightarrow> string \<Rightarrow> string list" where
  "str_fields w [] = (if w = [] then [] else [rev w])"
| "str_fields w (c # cs) =
     (if is_space c then (if w = [] then [] else [rev w]) @ str_fields [] cs else str_fields (c # w) cs)"

definition requireClaudeOAuthScopes :: "string \<Rightarrow> string list \<Rightarrow> go_error + unit" where
  "requireClaudeOAuthScopes granted required =
     (case List.find (\<lambda>s. s \<notin> set (str_fields [] granted)) required of
        None \<Rightarrow> Inr ()
      | Some s \<Rightarrow> Inl (text_error (''granted scope missing '' @ s)))"

section \<open>Claude\<close>

definition claude_token_url :: string where
  "claude_token_url = ''https://platform.claude.com/v1/oauth/token''"

definition setClaudeOAuthControlPlaneHeaders :: "header \<Rightarrow> header" where
  "setClaudeOAuthControlPlaneHeaders h =
     h_set ''User-Agent'' ''axios/1.15.2'' (h_set ''Content-Type'' ''application/json''
       (h_set ''Accept'' ''application/json, text/plain, */*'' h))"

definition str_object :: "(string \<times> string) list \<Rightarrow> string" where
  "str_object kvs = json_print (JObj (map (\<lambda>kv. (fst kv, JStr (snd kv))) (sort_key fst kvs)))"

definition claude_token_request :: "(string \<times> string) list \<Rightarrow> http_request" where
  "claude_token_request kvs =
     \<lparr> hr_method = ''POST'', hr_url = claude_token_url, hr_headers = setClaudeOAuthControlPlaneHeaders [],
       hr_body = str_object kvs \<rparr>"

definition claude_code_request :: "string \<Rightarrow> string \<Rightarrow> string \<Rightarrow> http_request" where
  "claude_code_request code verifier state =
     claude_token_request
       [(''grant_type'', ''authorization_code''), (''client_id'', claude_client_id), (''code'', code),
        (''redirect_uri'', claude_redirect), (''code_verifier'', verifier), (''state'', state)]"

definition exchangeClaudeCode :: "transport \<Rightarrow> string \<Rightarrow> string \<Rightarrow> string \<Rightarrow> go_error + token_response" where
  "exchangeClaudeCode send code verifier state =
     and_then (body_of [] [] ''token API returned '' truncateBytes
        (send TokenCall (claude_code_request code verifier state))) (\<lambda>body.
     and_then (token_answer token_response_fields ''parse token response'' body) (\<lambda>tb.
     and_then (wrapped ''token exchange scope validation: ''
        (requireClaudeOAuthScopes (tb_scope tb) [''user:profile'', ''user:inference''])) (\<lambda>_.
       Inr (token_response_of tb))))"

record claude_profile =
  cp_email :: string
  cp_org_uuid :: string
  cp_org_name :: string

definition claude_profile_fields :: "(string \<times> claude_profile field) list" where
  "claude_profile_fields =
     [(''account'', decode_struct [(''uuid'', string_field (\<lambda>_ p. p)), (''email'', string_field (\<lambda>x p. p\<lparr>cp_email := x\<rparr>))]),
      (''organization'', decode_struct [(''uuid'', string_field (\<lambda>x p. p\<lparr>cp_org_uuid := x\<rparr>)),
                                        (''name'', string_field (\<lambda>x p. p\<lparr>cp_org_name := x\<rparr>))])]"

definition fetchClaudeOrgWithToken :: "transport \<Rightarrow> string \<Rightarrow> go_error + claude_profile" where
  "fetchClaudeOrgWithToken send accessToken =
     and_then (body_of ''fetch OAuth profile: '' ''read OAuth profile response: '' ''OAuth profile API returned '' truncateBytes
        (send IdentityCall
           \<lparr> hr_method = ''GET'', hr_url = ''https://api.anthropic.com/api/oauth/profile'',
             hr_headers = h_set ''Cache-Control'' ''no-cache''
               (h_set ''Authorization'' (''Bearer '' @ accessToken) (setClaudeOAuthControlPlaneHeaders [])),
             hr_body = [] \<rparr>)) (\<lambda>body.
     and_then (parsed ''parse OAuth profile response''
        (unmarshal_ok claude_profile_fields body \<lparr> cp_email = [], cp_org_uuid = [], cp_org_name = [] \<rparr>)) (\<lambda>p.
     and_then (ensure (cp_org_uuid p \<noteq> []) (text_error ''OAuth profile response missing organization UUID'')) (\<lambda>_. Inr p)))"

definition refreshClaudeToken :: "transport \<Rightarrow> string \<Rightarrow> go_error + token_response" where
  "refreshClaudeToken send refreshToken =
     and_then (body_of ''http request: '' ''read response: '' ''oauth returned '' id
        (send TokenCall (claude_token_request
           [(''grant_type'', ''refresh_token''), (''refresh_token'', refreshToken), (''client_id'', claude_client_id),
            (''scope'', ''user:profile user:inference user:sessions:claude_code user:mcp_servers user:file_upload'')]))) (\<lambda>body.
     and_then (token_answer token_response_fields ''parse response'' body) (\<lambda>tb.
     and_then (wrapped ''token refresh scope validation: ''
        (requireClaudeOAuthScopes (tb_scope tb) [''user:inference''])) (\<lambda>_.
       Inr (token_response_of tb))))"

record exchange_result =
  er_tokens :: token_response
  er_subject :: string
  er_email :: string
  er_identity :: str_map
  er_provider_state :: string   \<comment> \<open>empty: none\<close>

definition claude_ExchangeCode :: "transport \<Rightarrow> string \<Rightarrow> string \<Rightarrow> string \<Rightarrow> go_error + exchange_result" where
  "claude_ExchangeCode send code verifier state =
     and_then (exchangeClaudeCode send code verifier state) (\<lambda>tr.
     and_then (wrapped ''obtain Claude account identity: '' (fetchClaudeOrgWithToken send (tr_access_token tr))) (\<lambda>p.
       Inr \<lparr> er_tokens = tr, er_subject = cp_org_uuid p, er_email = cp_email p,
             er_identity = [(''orgUUID'', cp_org_uuid p), (''orgName'', cp_org_name p), (''email'', cp_email p)],
             er_provider_state = [] \<rparr>))"

section \<open>The claims of an identity token\<close>

definition token_claims :: "(string \<times> 's field) list \<Rightarrow> string \<Rightarrow> 's \<Rightarrow> 's option" where
  "token_claims fs idToken s =
     (case split_char CHR ''.'' idToken of
        _ # payload # _ \<Rightarrow>
          (case b64_decode (b64_pad payload) of None \<Rightarrow> None | Some text \<Rightarrow> unmarshal_ok fs text s)
      | _ \<Rightarrow> None)"

section \<open>Codex\<close>

definition form_request :: "string \<Rightarrow> (string \<times> string) list \<Rightarrow> http_request" where
  "form_request url kvs =
     \<lparr> hr_method = ''POST'', hr_url = url, hr_headers = h_set ''Content-Type'' ''application/x-www-form-urlencoded'' [],
       hr_body = query_encode (single kvs) \<rparr>"

record codex_id_info =
  ci_account_id :: string
  ci_email :: string
  ci_org_titles :: "string list"

definition codex_claim_fields :: "(string \<times> codex_id_info field) list" where
  "codex_claim_fields =
     [(''email'', string_field (\<lambda>x i. i\<lparr>ci_email := x\<rparr>)),
      (''https://api.openai.com/auth'',
       decode_struct
         [(''chatgpt_account_id'', string_field (\<lambda>x i. i\<lparr>ci_account_id := x\<rparr>)),
          (''organizations'', list_field ci_org_titles (\<lambda>x i. i\<lparr>ci_org_titles := x\<rparr>) []
                                [(''title'', string_field (\<lambda>x _. x))])])]"

definition parseCodexIDToken :: "string \<Rightarrow> codex_id_info option" where
  "parseCodexIDToken idToken =
     token_claims codex_claim_fields idToken \<lparr> ci_account_id = [], ci_email = [], ci_org_titles = [] \<rparr>"

definition codex_token_url :: string where
  "codex_token_url = ''https://auth.openai.com/oauth/token''"

definition codex_code_request :: "string \<Rightarrow> string \<Rightarrow> http_request" where
  "codex_code_request code verifier =
     form_request codex_token_url
       [(''grant_type'', ''authorization_code''), (''client_id'', codex_client_id), (''code'', code),
        (''redirect_uri'', codex_redirect), (''code_verifier'', verifier)]"

definition exchangeCodexCode :: "transport \<Rightarrow> string \<Rightarrow> string \<Rightarrow> go_error + token_response \<times> codex_id_info option" where
  "exchangeCodexCode send code verifier =
     and_then (body_of ''http request: '' ''read response: '' ''codex token API returned '' truncateBytes
        (send TokenCall (codex_code_request code verifier))) (\<lambda>body.
     and_then (token_answer id_token_fields ''parse token response'' body) (\<lambda>tb.
       Inr (token_response_of tb, if tb_id_token tb = [] then None else parseCodexIDToken (tb_id_token tb))))"

definition refreshCodexToken :: "transport \<Rightarrow> string \<Rightarrow> go_error + token_response" where
  "refreshCodexToken send refreshToken =
     and_then (body_of ''http request: '' ''read response: '' ''codex oauth returned '' id
        (send TokenCall (form_request codex_token_url
           [(''grant_type'', ''refresh_token''), (''refresh_token'', refreshToken), (''client_id'', codex_client_id),
            (''scope'', ''openid profile email'')]))) (\<lambda>body.
     and_then (token_answer token_response_fields ''parse response'' body) (\<lambda>tb. Inr (token_response_of tb)))"

text \<open>\<open>Format ("0102-1504")\<close> of a local time, given as the instant shifted by the offset of the zone.\<close>

definition local_stamp :: "gotime \<Rightarrow> string" where
  "local_stamp local =
     (let s = unix_sec local; sod = s mod 86400 in
      case civil_date (s div 86400) of
        (_, m, d) \<Rightarrow> pad_digits 2 m @ pad_digits 2 d @ ''-'' @ pad_digits 2 (sod div 3600) @ pad_digits 2 (sod div 60 mod 60))"

definition codex_ExchangeCode :: "transport \<Rightarrow> gotime \<Rightarrow> string \<Rightarrow> string \<Rightarrow> go_error + exchange_result" where
  "codex_ExchangeCode send local code verifier =
     and_then (exchangeCodexCode send code verifier) (\<lambda>(tr, info).
       (let subject = (case info of Some i \<Rightarrow> ci_account_id i | None \<Rightarrow> []);
            email = (case info of Some i \<Rightarrow> ci_email i | None \<Rightarrow> [])
        in and_then (ensure (subject \<noteq> []) (text_error ''could not obtain chatgptAccountId (subject) from ID token'')) (\<lambda>_.
             Inr \<lparr> er_tokens = tr, er_subject = subject,
                   er_email = (if email \<noteq> [] then email else ''codex-'' @ local_stamp local),
                   er_identity = (case info of
                                    Some i \<Rightarrow> [(''chatgptAccountId'', ci_account_id i), (''email'', ci_email i),
                                              (''orgTitle'', case ci_org_titles i of t # _ \<Rightarrow> t | [] \<Rightarrow> [])]
                                  | None \<Rightarrow> []),
                   er_provider_state = [] \<rparr>)))"

section \<open>Gemini\<close>

record gemini_identity =
  gi_subject :: string
  gi_email :: string
  gi_name :: string
  gi_picture :: string

definition gemini_identity_fields :: "(string \<times> gemini_identity field) list" where
  "gemini_identity_fields =
     [(''sub'', string_field (\<lambda>x i. i\<lparr>gi_subject := x\<rparr>)), (''email'', string_field (\<lambda>x i. i\<lparr>gi_email := x\<rparr>)),
      (''name'', string_field (\<lambda>x i. i\<lparr>gi_name := x\<rparr>)), (''picture'', string_field (\<lambda>x i. i\<lparr>gi_picture := x\<rparr>))]"

definition no_identity :: gemini_identity where
  "no_identity = \<lparr> gi_subject = [], gi_email = [], gi_name = [], gi_picture = [] \<rparr>"

definition parseGeminiIDToken :: "string \<Rightarrow> gemini_identity option" where
  "parseGeminiIDToken idToken =
     (case token_claims gemini_identity_fields idToken no_identity of
        Some i \<Rightarrow> (if gi_subject i = [] then None else Some i)
      | None \<Rightarrow> None)"

definition fetchGeminiUserInfo :: "transport \<Rightarrow> string \<Rightarrow> go_error + gemini_identity" where
  "fetchGeminiUserInfo send accessToken =
     and_then (body_of ''userinfo request: '' ''read userinfo: '' ''userinfo returned '' truncateBytes
        (send IdentityCall
           \<lparr> hr_method = ''GET'', hr_url = ''https://openidconnect.googleapis.com/v1/userinfo'',
             hr_headers = h_set ''Authorization'' (''Bearer '' @ accessToken) [], hr_body = [] \<rparr>)) (\<lambda>body.
     and_then (parsed ''parse userinfo'' (unmarshal_ok gemini_identity_fields body no_identity)) (\<lambda>i.
     and_then (ensure (gi_subject i \<noteq> []) (text_error ''userinfo missing sub'')) (\<lambda>_. Inr i)))"

definition gemini_token_url :: string where
  "gemini_token_url = ''https://oauth2.googleapis.com/token''"

definition gemini_code_request :: "gemini_oauth_config \<Rightarrow> string \<Rightarrow> string \<Rightarrow> http_request" where
  "gemini_code_request cfg code verifier =
     form_request gemini_token_url
       [(''grant_type'', ''authorization_code''), (''client_id'', go_client_id cfg), (''client_secret'', go_client_secret cfg),
        (''code'', code), (''redirect_uri'', go_redirect_uri cfg), (''code_verifier'', verifier)]"

definition exchangeGeminiCode ::
  "transport \<Rightarrow> gemini_oauth_config \<Rightarrow> string \<Rightarrow> string \<Rightarrow> go_error + token_response \<times> gemini_identity option" where
  "exchangeGeminiCode send cfg code verifier =
     and_then (body_of ''http request: '' ''read response: '' ''google token API returned '' truncateBytes
        (send TokenCall (gemini_code_request cfg code verifier))) (\<lambda>body.
     and_then (token_answer id_token_fields ''parse token response'' body) (\<lambda>tb.
     and_then (ensure (tb_refresh tb \<noteq> []) (text_error ''empty refresh_token in response'')) (\<lambda>_.
       Inr (token_response_of tb, if tb_id_token tb = [] then None else parseGeminiIDToken (tb_id_token tb)))))"

text \<open>A refresh keeps the refresh token: the answer of the provider has none.\<close>

definition refreshGeminiToken :: "transport \<Rightarrow> gemini_oauth_config \<Rightarrow> string \<Rightarrow> go_error + token_response" where
  "refreshGeminiToken send cfg refreshToken =
     and_then (body_of ''http request: '' ''read response: '' ''google oauth returned '' truncateBytes
        (send TokenCall (form_request gemini_token_url
           [(''grant_type'', ''refresh_token''), (''refresh_token'', refreshToken), (''client_id'', go_client_id cfg),
            (''client_secret'', go_client_secret cfg)]))) (\<lambda>body.
     and_then (token_answer [access_field, expires_field] ''parse response'' body) (\<lambda>tb. Inr (token_response_of tb)))"

definition json_headers :: "string \<Rightarrow> header" where
  "json_headers accessToken =
     h_set ''Content-Type'' ''application/json'' (h_set ''Authorization'' (''Bearer '' @ accessToken) [])"

text \<open>A call of the code assist API as the quota functions of the Gemini driver see it.\<close>

definition assist_post :: "transport \<Rightarrow> call \<Rightarrow> string \<Rightarrow> upstream" where
  "assist_post send c accessToken url body =
     (case send c \<lparr> hr_method = ''POST'', hr_url = url, hr_headers = json_headers accessToken, hr_body = body \<rparr> of
        Inl e \<Rightarrow> Inl (ge_message e)
      | Inr a \<Rightarrow> (case ha_body a of Inl e \<Rightarrow> Inl (ge_message e) | Inr b \<Rightarrow> Inr (ha_status a, b)))"

record onboard_operation =
  oo_name :: string
  oo_done :: bool
  oo_project :: string

definition onboard_fields :: "(string \<times> onboard_operation field) list" where
  "onboard_fields =
     [(''name'', string_field (\<lambda>x p. p\<lparr>oo_name := x\<rparr>)), (''done'', bool_field (\<lambda>x p. p\<lparr>oo_done := x\<rparr>)),
      (''response'', decode_struct [(''cloudaicompanionProject'', decode_struct [(''id'', string_field (\<lambda>x p. p\<lparr>oo_project := x\<rparr>))])])]"

definition onboarded :: "onboard_operation \<Rightarrow> go_error + string" where
  "onboarded p =
     (if oo_project p = [] then Inl (text_error ''onboardUser completed without project id'') else Inr (oo_project p))"

text \<open>The polls of the operation: \<open>n\<close> are left; every answer is decoded over the one before, whatever its status.\<close>

fun poll_operation ::
  "transport \<Rightarrow> (nat \<Rightarrow> go_error option) \<Rightarrow> string \<Rightarrow> string \<Rightarrow> onboard_operation \<Rightarrow> nat \<Rightarrow> nat \<Rightarrow> go_error + string" where
  "poll_operation send cancelled opURL accessToken p i 0 = Inl (text_error ''onboardUser timed out'')"
| "poll_operation send cancelled opURL accessToken p i (Suc n) =
     (case cancelled i of
        Some e \<Rightarrow> Inl e
      | None \<Rightarrow>
          and_then (wrapped ''getOperation failed: '' (send (PollCall i)
             \<lparr> hr_method = ''GET'', hr_url = opURL, hr_headers = h_set ''Authorization'' (''Bearer '' @ accessToken) [], hr_body = [] \<rparr>)) (\<lambda>a.
          and_then (wrapped ''read getOperation: '' (ha_body a)) (\<lambda>body.
          and_then (parsed ''parse getOperation'' (unmarshal_ok onboard_fields body p)) (\<lambda>p'.
            if oo_done p' then onboarded p'
            else poll_operation send cancelled opURL accessToken p' (i + 1) n))))"

definition onboardGeminiUser ::
  "transport \<Rightarrow> (nat \<Rightarrow> go_error option) \<Rightarrow> string \<Rightarrow> string \<Rightarrow> go_error + string" where
  "onboardGeminiUser send cancelled apiURL accessToken =
     and_then (body_of ''onboardUser request failed: '' ''read onboardUser: '' ''onboardUser returned '' truncateBytes
        (send OnboardCall
           \<lparr> hr_method = ''POST'', hr_url = apiURL @ ''/v1internal:onboardUser'', hr_headers = json_headers accessToken,
             hr_body = json_print (JObj [(''tierId'', JStr ''standard-tier''), (''metadata'', JObj [(''ideType'', JStr ''IDE_UNSPECIFIED''),
               (''platform'', JStr ''PLATFORM_UNSPECIFIED''), (''pluginType'', JStr ''GEMINI'')])]) \<rparr>)) (\<lambda>body.
     and_then (parsed ''parse onboardUser''
        (unmarshal_ok onboard_fields body \<lparr> oo_name = [], oo_done = False, oo_project = [] \<rparr>)) (\<lambda>p.
       if oo_done p then onboarded p
       else and_then (ensure (oo_name p \<noteq> []) (text_error ''onboardUser returned no operation name'')) (\<lambda>_.
              poll_operation send cancelled (apiURL @ ''/v1internal/'' @ oo_name p) accessToken p 0 12)))"

text \<open>\<open>now\<close> is read twice, for the state and for the quota; \<open>local\<close> as above.\<close>

definition gemini_login_state :: "transport \<Rightarrow> (nat \<Rightarrow> gotime) \<Rightarrow> string \<Rightarrow> string \<Rightarrow> string \<Rightarrow> gemini_state" where
  "gemini_login_state send now apiURL accessToken projectID =
     (let st = empty_gemini_state\<lparr> gs_project_id := projectID, gs_last_load_at := unix_sec (now 0) \<rparr> in
      case retrieveGeminiUserQuota (assist_post send QuotaCall accessToken) apiURL of
        Inr q \<Rightarrow> applyQuota (Some q) (now 1) st
      | Inl _ \<Rightarrow> st)"

definition gemini_identity_of :: "transport \<Rightarrow> string \<Rightarrow> gemini_identity option \<Rightarrow> go_error + gemini_identity" where
  "gemini_identity_of send accessToken oi =
     (case oi of Some i \<Rightarrow> if gi_subject i \<noteq> [] then Inr i else fetchGeminiUserInfo send accessToken
      | None \<Rightarrow> fetchGeminiUserInfo send accessToken)"

definition gemini_ExchangeCode ::
  "transport \<Rightarrow> (nat \<Rightarrow> go_error option) \<Rightarrow> gemini_oauth_config \<Rightarrow> (nat \<Rightarrow> gotime) \<Rightarrow> gotime \<Rightarrow> string \<Rightarrow> string
   \<Rightarrow> go_error + exchange_result" where
  "gemini_ExchangeCode send cancelled cfg now local code verifier =
     and_then (exchangeGeminiCode send cfg code verifier) (\<lambda>(tr, oi).
       (let access = tr_access_token tr in
     and_then (gemini_identity_of send access oi) (\<lambda>i.
     and_then (ensure (gi_subject i \<noteq> []) (text_error ''could not obtain google subject'')) (\<lambda>_.
     and_then (case loadGeminiCodeAssist (assist_post send LoadCall access) (go_api_url cfg) of
                 Inl e \<Rightarrow> Inl (text_error e) | Inr p \<Rightarrow> Inr p) (\<lambda>loaded.
     and_then (if loaded \<noteq> [] then Inr loaded else onboardGeminiUser send cancelled (go_api_url cfg) access) (\<lambda>project.
     and_then (ensure (project \<noteq> []) (text_error ''gemini project provisioning returned empty project id'')) (\<lambda>_.
       Inr \<lparr> er_tokens = tr, er_subject = gi_subject i,
             er_email = (if gi_email i \<noteq> [] then gi_email i else ''gemini-'' @ local_stamp local),
             er_identity = [(''sub'', gi_subject i), (''email'', gi_email i), (''name'', gi_name i), (''picture'', gi_picture i)],
             er_provider_state = encode_gemini (gemini_login_state send now (go_api_url cfg) access project) \<rparr>)))))))"

end
