(* ===== verification/OAuthAdmin.thy ===== *)
theory OAuthAdmin
  imports OAuth AdminPool
begin

text \<open>
  The login of accounts (src/internal/server: admin_oauth.go, admin_oauth_support.go): an address of a login page
  is made with a proof key that is kept in a session of ten minutes; the code that comes back is exchanged
  through the chosen cell, and the account of the provider's subject is created or updated.  A driver is a record
  of its functions; a client for an exchange is the route that it was made for.  Other requests may run after
  every call of the pool and during the exchange (\<open>av_others\<close> of the admin environment).
\<close>

datatype route = DirectRoute string | CellRoute string egress_cell

record oauth_driver =
  od_provider :: provider
  od_state_required :: bool
  od_login :: "oauth_random \<Rightarrow> err + string \<times> oauth_session"
  od_exchange :: "route \<Rightarrow> string \<Rightarrow> string \<Rightarrow> string \<Rightarrow> go_error + exchange_result"
  od_bucket_key :: "account \<Rightarrow> string"

record oauth_server =
  og_drivers :: "provider \<rightharpoonup> oauth_driver"
  og_tokens :: token_manager
  og_has_transport :: bool

record login_env =
  lg_admin :: admin_env
  lg_random :: oauth_random
  lg_uuid :: "nat \<Rightarrow> string"
  lg_iv :: "nat \<Rightarrow> string"

section \<open>Sessions\<close>

record login_request =
  lq_provider :: string
  lq_cell_id :: string

definition login_request_fields :: "(string \<times> login_request field) list" where
  "login_request_fields =
     [(''provider'', string_field (\<lambda>x q. q\<lparr>lq_provider := x\<rparr>)), (''cell_id'', string_field (\<lambda>x q. q\<lparr>lq_cell_id := x\<rparr>))]"

text \<open>The members of the body override the query; an empty body is allowed.\<close>

definition decodeGenerateAuthURLRequest :: "string \<Rightarrow> string \<Rightarrow> login_request option" where
  "decodeGenerateAuthURLRequest rawQuery body =
     (let q = \<lparr> lq_provider = trim_space (query_get rawQuery ''provider''), lq_cell_id = trim_space (query_get rawQuery ''cell_id'') \<rparr> in
      case (if list_all json_ws body then Some \<lparr> lq_provider = [], lq_cell_id = [] \<rparr>
            else decode_body login_request_fields body \<lparr> lq_provider = [], lq_cell_id = [] \<rparr>) of
        None \<Rightarrow> None
      | Some b \<Rightarrow>
          Some \<lparr> lq_provider = (if trim_space (lq_provider b) \<noteq> [] then trim_space (lq_provider b) else lq_provider q),
                 lq_cell_id = (if trim_space (lq_cell_id b) \<noteq> [] then trim_space (lq_cell_id b) else lq_cell_id q) \<rparr>)"

record session_envelope =
  sv_session :: oauth_session
  sv_provider :: string
  sv_cell_id :: string

definition envelope_fields :: "(string \<times> session_envelope field) list" where
  "envelope_fields =
     [(''code_verifier'', string_field (\<lambda>x e. e\<lparr>sv_session := (sv_session e)\<lparr>se_code_verifier := x\<rparr>\<rparr>)),
      (''state'', string_field (\<lambda>x e. e\<lparr>sv_session := (sv_session e)\<lparr>se_state := x\<rparr>\<rparr>)),
      (''provider'', string_field (\<lambda>x e. e\<lparr>sv_provider := x\<rparr>)), (''cell_id'', string_field (\<lambda>x e. e\<lparr>sv_cell_id := x\<rparr>))]"

definition empty_envelope :: session_envelope where
  "empty_envelope = \<lparr> sv_session = \<lparr> se_code_verifier = [], se_state = [] \<rparr>, sv_provider = [], sv_cell_id = [] \<rparr>"

definition envelope_json :: "session_envelope \<Rightarrow> json" where
  "envelope_json e =
     JObj ([(''code_verifier'', JStr (se_code_verifier (sv_session e))), (''state'', JStr (se_state (sv_session e))),
            (''provider'', JStr (sv_provider e))] @ omit_blank ''cell_id'' (sv_cell_id e))"

definition encode_envelope :: "session_envelope \<Rightarrow> string" where
  "encode_envelope e = json_print (envelope_json e)"

definition decode_envelope :: "string \<Rightarrow> session_envelope option" where
  "decode_envelope s = unmarshal_ok envelope_fields s empty_envelope"

definition session_ttl :: duration where
  "session_ttl = 10 * minute"

definition storeOAuthSession :: "gotime \<Rightarrow> string \<Rightarrow> string \<Rightarrow> string \<Rightarrow> oauth_session \<Rightarrow> pool \<Rightarrow> pool" where
  "storeOAuthSession now sessionID provider cellID session p =
     SetOAuthSession now sessionID
       (encode_envelope \<lparr> sv_session = session, sv_provider = provider, sv_cell_id = cellID \<rparr>) session_ttl p"

section \<open>The cell of a login\<close>

definition validateExchangeCellSelection ::
  "admin_env \<Rightarrow> nat \<Rightarrow> account option \<Rightarrow> string \<Rightarrow> provider \<Rightarrow> pool \<Rightarrow> err option \<times> pool" where
  "validateExchangeCellSelection env k existing requested prov p =
     (let c = trim_space requested;
          (accountID, cellID) = (case existing of Some a \<Rightarrow> (ac_id a, ac_cell_id a) | None \<Rightarrow> ([], []))
      in if c = [] \<or> c = cellID then (None, p)
         else (case adm_GetCell env k c p of
                 (None, p1) \<Rightarrow> (Some ''cell not found'', p1)
               | (Some x, p1) \<Rightarrow>
                   (case accountCellBindError x (av_now env k) of
                      Some reason \<Rightarrow> (Some reason, p1)
                    | None \<Rightarrow>
                        (if shared_cell x then (None, p1)
                         else (case adm_List env (k + 1) p1 of
                                 (as, p2) \<Rightarrow>
                                   (if accountOwnsCell as accountID c prov
                                    then (Some ''cell is already bound to another account of the same provider'', p2)
                                    else (None, p2)))))))"

definition oauthClientForRoute :: "oauth_server \<Rightarrow> login_env \<Rightarrow> nat \<Rightarrow> string \<Rightarrow> pool \<Rightarrow> (err + route) \<times> pool" where
  "oauthClientForRoute srv env k raw p =
     (let c = trim_space raw in
      if \<not> og_has_transport srv then (Inl ''oauth transport is unavailable'', p)
      else if c = [] then (Inr (DirectRoute (''oauth-direct:'' @ lg_uuid env 1)), p)
      else (case adm_GetCell (lg_admin env) k c p of
              (None, p1) \<Rightarrow> (Inl ''cell not found'', p1)
            | (Some x, p1) \<Rightarrow>
                (case accountCellBindError x (av_now (lg_admin env) k) of
                   Some reason \<Rightarrow> (Inl reason, p1)
                 | None \<Rightarrow> (Inr (CellRoute c x), p1))))"

definition handleGenerateAuthURL ::
  "oauth_server \<Rightarrow> login_env \<Rightarrow> string \<Rightarrow> string \<Rightarrow> pool \<Rightarrow> admin_answer \<times> pool" where
  "handleGenerateAuthURL srv env rawQuery body p =
     (case decodeGenerateAuthURLRequest rawQuery body of
        None \<Rightarrow> (invalid_body, p)
      | Some q \<Rightarrow>
          (if lq_provider q = [] then (refuse 400 ''invalid_request'' ''provider is required'', p)
           else (case og_drivers srv (lq_provider q) of
                   None \<Rightarrow> (refuse 400 ''invalid_request'' ''unknown provider'', p)
                 | Some drv \<Rightarrow>
                     (case od_login drv (lg_random env) of
                        Inl e \<Rightarrow> (refuse 500 ''internal_error'' e, p)
                      | Inr (url, session) \<Rightarrow>
                          (case validateExchangeCellSelection (lg_admin env) 0 None (lq_cell_id q) (od_provider drv) p of
                             (Some e, p1) \<Rightarrow> (refuse 400 ''invalid_request'' e, p1)
                           | (None, p1) \<Rightarrow>
                               (ok_members [(''auth_url'', JStr url), (''session_id'', JStr (lg_uuid env 0))],
                                storeOAuthSession (av_now (lg_admin env) 2) (lg_uuid env 0) (lq_provider q) (lq_cell_id q)
                                  session p1))))))"

section \<open>The code that comes back\<close>

definition before_first :: "char \<Rightarrow> string \<Rightarrow> string" where
  "before_first c s = takeWhile (\<lambda>x. x \<noteq> c) s"

definition extractCodeFromCallback :: "string \<Rightarrow> string" where
  "extractCodeFromCallback raw =
     (let s = trim_space raw in
      if s = [] then []
      else (case parse_url s of
              Some (scheme, rawQuery) \<Rightarrow>
                (if scheme = [] then trim_space (trim_prefix (before_first CHR ''?'' (before_first CHR ''&'' (before_first CHR ''#'' s))) ''code='')
                 else if query_get rawQuery ''code'' \<noteq> [] then query_get rawQuery ''code'' else trim_space s)
            | None \<Rightarrow> trim_space (trim_prefix (before_first CHR ''?'' (before_first CHR ''&'' (before_first CHR ''#'' s))) ''code='')))"

record code_request =
  xq_provider :: string
  xq_session_id :: string
  xq_cell_id :: string
  xq_callback_url :: string
  xq_code :: string
  xq_code_verifier :: string
  xq_state :: string

definition code_request_fields :: "(string \<times> code_request field) list" where
  "code_request_fields =
     [(''provider'', string_field (\<lambda>x q. q\<lparr>xq_provider := x\<rparr>)), (''session_id'', string_field (\<lambda>x q. q\<lparr>xq_session_id := x\<rparr>)),
      (''cell_id'', string_field (\<lambda>x q. q\<lparr>xq_cell_id := x\<rparr>)), (''callback_url'', string_field (\<lambda>x q. q\<lparr>xq_callback_url := x\<rparr>)),
      (''code'', string_field (\<lambda>x q. q\<lparr>xq_code := x\<rparr>)), (''code_verifier'', string_field (\<lambda>x q. q\<lparr>xq_code_verifier := x\<rparr>)),
      (''state'', string_field (\<lambda>x q. q\<lparr>xq_state := x\<rparr>))]"

definition empty_code_request :: code_request where
  "empty_code_request = \<lparr> xq_provider = [], xq_session_id = [], xq_cell_id = [], xq_callback_url = [], xq_code = [],
     xq_code_verifier = [], xq_state = [] \<rparr>"

definition decodeExchangeCodeRequest :: "string \<Rightarrow> code_request option" where
  "decodeExchangeCodeRequest body = decode_body code_request_fields body empty_code_request"

datatype session_error = InvalidSession | CorruptSession

text \<open>What the session says replaces the verifier, the state and the provider of the request.\<close>

definition with_session :: "session_envelope \<Rightarrow> code_request \<Rightarrow> code_request" where
  "with_session e q =
     q\<lparr> xq_code_verifier := se_code_verifier (sv_session e), xq_state := se_state (sv_session e),
        xq_provider := (if sv_provider e \<noteq> [] then sv_provider e else xq_provider q),
        xq_cell_id := (if xq_cell_id q = [] \<and> sv_cell_id e \<noteq> [] then sv_cell_id e else xq_cell_id q),
        xq_code := (if xq_callback_url q \<noteq> [] \<and> xq_code q = [] then extractCodeFromCallback (xq_callback_url q) else xq_code q) \<rparr>"

definition normal_code_request :: "code_request \<Rightarrow> code_request" where
  "normal_code_request q =
     q\<lparr> xq_provider := trim_space (xq_provider q), xq_session_id := trim_space (xq_session_id q),
        xq_cell_id := trim_space (xq_cell_id q), xq_callback_url := trim_space (xq_callback_url q),
        xq_code_verifier := trim_space (xq_code_verifier q), xq_state := trim_space (xq_state q),
        xq_code := (if xq_code q \<noteq> [] then extractCodeFromCallback (xq_code q) else xq_code q) \<rparr>"

definition hydrateExchangeCodeRequest :: "gotime \<Rightarrow> code_request \<Rightarrow> pool \<Rightarrow> session_error + code_request" where
  "hydrateExchangeCodeRequest now q p =
     (if xq_session_id q = [] then Inr (normal_code_request q)
      else (case p_GetOAuthSession now (xq_session_id q) p of
              None \<Rightarrow> Inl InvalidSession
            | Some text \<Rightarrow>
                (case decode_envelope text of
                   None \<Rightarrow> Inl CorruptSession
                 | Some e \<Rightarrow> Inr (normal_code_request (with_session e q)))))"

section \<open>The account of a login\<close>

definition encryptExchangeTokens ::
  "token_manager \<Rightarrow> (nat \<Rightarrow> string) \<Rightarrow> string \<Rightarrow> string \<Rightarrow> string \<Rightarrow> crypto_error + string \<times> string" where
  "encryptExchangeTokens tm iv accessToken refreshToken fallback =
     and_then (EncryptToken tm (iv 0) accessToken) (\<lambda>encAccess.
     and_then (if refreshToken \<noteq> [] \<or> fallback = [] then EncryptToken tm (iv 1) refreshToken else Inr fallback) (\<lambda>encRefresh.
       Inr (encAccess, encRefresh)))"

definition account_answer :: "string \<Rightarrow> string \<Rightarrow> admin_answer" where
  "account_answer i email = ok_members [(''id'', JStr i), (''email'', JStr email), (''status'', JStr StatusActive)]"

definition persist_failed :: admin_answer where
  "persist_failed = refuse 500 ''internal_error'' ''failed to persist exchanged account''"

definition expires_milli :: "gotime \<Rightarrow> exchange_result \<Rightarrow> int" where
  "expires_milli now r = unix_milli (now + wrap64 (tr_expires_in (er_tokens r) * second))"

definition relogin :: "exchange_result \<Rightarrow> string \<Rightarrow> account \<Rightarrow> account" where
  "relogin r cellID a =
     (let a1 = a\<lparr> ac_email := er_email r, ac_status := StatusActive, ac_identity := Some (er_identity r),
                  ac_subject := er_subject r, ac_cell_id := cellID \<rparr>
      in if er_provider_state r = [] then a1 else a1\<lparr> ac_provider_state_json := er_provider_state r \<rparr>)"

text \<open>\<open>None\<close> is a failure; the result of the update itself is not looked at.\<close>

definition updateExchangedAccount ::
  "oauth_server \<Rightarrow> login_env \<Rightarrow> account \<Rightarrow> exchange_result \<Rightarrow> string \<Rightarrow> pool \<Rightarrow> admin_answer option \<times> pool" where
  "updateExchangedAccount srv env existing r cellID p =
     (case encryptExchangeTokens (og_tokens srv) (lg_iv env) (tr_access_token (er_tokens r)) (tr_refresh_token (er_tokens r))
             (ac_refresh_token_enc existing) of
        Inl e \<Rightarrow> (None, p)
      | Inr (encAccess, encRefresh) \<Rightarrow>
          (let env' = lg_admin env in
           case StoreTokens (av_order env') (av_now env' 7) (ac_id existing) encAccess encRefresh
                  (expires_milli (av_now env' 7) r) p of
             (Some e, p1) \<Rightarrow> (None, p1)
           | (None, p1) \<Rightarrow>
               (Some (account_answer (ac_id existing) (er_email r)),
                snd (Update (av_order env') (av_now env' 8) (ac_id existing) (relogin r cellID) (av_others env' 7 p1)))))"

definition new_account ::
  "oauth_driver \<Rightarrow> string \<Rightarrow> exchange_result \<Rightarrow> string \<Rightarrow> string \<Rightarrow> string \<Rightarrow> gotime \<Rightarrow> account" where
  "new_account drv i r cellID encAccess encRefresh now =
     (let a = \<lparr> ac_id = i, ac_email = er_email r, ac_provider = od_provider drv, ac_status = StatusActive, ac_priority = 50,
                ac_priority_mode = ''auto'', ac_error_message = [], ac_bucket_key = [],
                ac_refresh_token_enc = encRefresh, ac_access_token_enc = encAccess, ac_expires_at = expires_milli now r,
                ac_created_at = now, ac_last_used_at = None, ac_last_refresh_at = Some now, ac_proxy_json = [],
                ac_cell_id = cellID, ac_identity_json = [], ac_subject = er_subject r, ac_cooldown_until = None,
                ac_provider_state_json = (if er_provider_state r = [] then ''{}'' else er_provider_state r),
                ac_proxy = None, ac_identity = Some (er_identity r), ac_cell = None \<rparr>
      in a\<lparr> ac_bucket_key := od_bucket_key drv a \<rparr>)"

definition createExchangedAccount ::
  "oauth_server \<Rightarrow> login_env \<Rightarrow> oauth_driver \<Rightarrow> exchange_result \<Rightarrow> string \<Rightarrow> pool \<Rightarrow> admin_answer option \<times> pool" where
  "createExchangedAccount srv env drv r cellID p =
     (case encryptExchangeTokens (og_tokens srv) (lg_iv env) (tr_access_token (er_tokens r)) (tr_refresh_token (er_tokens r)) [] of
        Inl e \<Rightarrow> (None, p)
      | Inr (encAccess, encRefresh) \<Rightarrow>
          (let env' = lg_admin env; i = lg_uuid env 2 in
           case Add (av_order env') (av_now env' 7) (new_account drv i r cellID encAccess encRefresh (av_now env' 7)) p of
             (Some e, p1) \<Rightarrow> (None, p1)
           | (None, p1) \<Rightarrow> (Some (account_answer i (er_email r)), av_others env' 7 p1)))"

definition find_subject :: "login_env \<Rightarrow> nat \<Rightarrow> oauth_driver \<Rightarrow> string \<Rightarrow> pool \<Rightarrow> account option \<times> pool" where
  "find_subject env k drv subject p =
     (let env' = lg_admin env in
      case FindBySubject (av_order env') (av_now env' k) (mo_accounts (av_order env')) (od_provider drv) subject p of
        (oa, q) \<Rightarrow> (oa, av_others env' k q))"

definition upsertExchangedAccount ::
  "oauth_server \<Rightarrow> login_env \<Rightarrow> oauth_driver \<Rightarrow> exchange_result \<Rightarrow> string \<Rightarrow> pool \<Rightarrow> admin_answer option \<times> pool" where
  "upsertExchangedAccount srv env drv r cellID p =
     (case find_subject env 6 drv (er_subject r) p of
        (Some existing, p1) \<Rightarrow> updateExchangedAccount srv env existing r cellID p1
      | (None, p1) \<Rightarrow> createExchangedAccount srv env drv r cellID p1)"

section \<open>The exchange\<close>

definition persist_login :: "oauth_server \<Rightarrow> login_env \<Rightarrow> oauth_driver \<Rightarrow> code_request \<Rightarrow> exchange_result \<Rightarrow> pool \<Rightarrow> admin_answer \<times> pool" where
  "persist_login srv env drv q r p =
     (case find_subject env 3 drv (er_subject r) p of
        (existing, p1) \<Rightarrow>
          (case validateExchangeCellSelection (lg_admin env) 4 existing (xq_cell_id q) (od_provider drv) p1 of
             (Some e, p2) \<Rightarrow> (refuse 400 ''invalid_request'' e, p2)
           | (None, p2) \<Rightarrow>
               (case upsertExchangedAccount srv env drv r (xq_cell_id q) p2 of
                  (None, p3) \<Rightarrow> (persist_failed, p3)
                | (Some ans, p3) \<Rightarrow>
                    (ans, if xq_session_id q = [] then p3 else DelOAuthSession (xq_session_id q) (av_others (lg_admin env) 8 p3)))))"

text \<open>The provider answers between the calls number 1 and 3 of the pool.\<close>

definition exchange_login :: "oauth_server \<Rightarrow> login_env \<Rightarrow> oauth_driver \<Rightarrow> code_request \<Rightarrow> pool \<Rightarrow> admin_answer \<times> pool" where
  "exchange_login srv env drv q p =
     (case oauthClientForRoute srv env 1 (xq_cell_id q) p of
        (Inl e, p1) \<Rightarrow> (refuse 400 ''invalid_request'' e, p1)
      | (Inr route, p1) \<Rightarrow>
          (let p2 = av_others (lg_admin env) 2 p1 in
           case od_exchange drv route (xq_code q) (xq_code_verifier q) (xq_state q) of
             Inl e \<Rightarrow> (refuse 502 ''oauth_error'' (ge_message e), p2)
           | Inr r \<Rightarrow>
               (if er_subject r = [] then (refuse 500 ''internal_error'' ''exchange returned empty subject'', p2)
                else persist_login srv env drv q r p2)))"

definition checked_login :: "oauth_server \<Rightarrow> login_env \<Rightarrow> code_request \<Rightarrow> pool \<Rightarrow> admin_answer \<times> pool" where
  "checked_login srv env q p =
     (if xq_code q = [] \<or> xq_code_verifier q = [] then (refuse 400 ''invalid_request'' ''code and code_verifier are required'', p)
      else if xq_provider q = [] then (refuse 400 ''invalid_request'' ''provider is required'', p)
      else (case og_drivers srv (xq_provider q) of
              None \<Rightarrow> (refuse 400 ''invalid_request'' ''unknown provider'', p)
            | Some drv \<Rightarrow>
                (if od_state_required drv \<and> xq_state q = [] then (refuse 400 ''invalid_request'' ''state is required'', p)
                 else exchange_login srv env drv q p)))"

definition handleExchangeCode :: "oauth_server \<Rightarrow> login_env \<Rightarrow> string \<Rightarrow> pool \<Rightarrow> admin_answer \<times> pool" where
  "handleExchangeCode srv env body p =
     (case decodeExchangeCodeRequest body of
        None \<Rightarrow> (invalid_body, p)
      | Some q0 \<Rightarrow>
          (case hydrateExchangeCodeRequest (av_now (lg_admin env) 0) q0 p of
             Inl InvalidSession \<Rightarrow> (refuse 400 ''invalid_request'' ''invalid or expired session_id'', p)
           | Inl CorruptSession \<Rightarrow> (refuse 500 ''internal_error'' ''corrupt session data'', p)
           | Inr q \<Rightarrow> checked_login srv env q (av_others (lg_admin env) 0 p)))"

text \<open>What \<open>writeAdminError\<close> prints: the message goes into the document as it is.\<close>

definition admin_error_body :: "string \<Rightarrow> string \<Rightarrow> string" where
  "admin_error_body kind msg =
     ''{\"type\":\"error\",\"error\":{\"type\":\"'' @ kind @ ''\",\"message\":\"'' @ msg @ ''\"}}''"

end
