(* ===== verification/OAuthLaws.thy ===== *)
theory OAuthLaws
  imports OAuth
begin

text \<open>
  Laws of the OAuth side of the drivers: query strings read back, a server that checks proof keys accepts the
  exchange of a session, and the contract of an exchange, the locale \<open>code_exchange\<close>, interpreted on the three
  drivers.
\<close>

section \<open>Query strings read back\<close>

definition plain_query_char :: "char \<Rightarrow> bool" where
  "plain_query_char c \<longleftrightarrow> c \<notin> {CHR ''&'', CHR '';'', CHR ''='', CHR ''#'', CHR ''?''}"

lemma upper_hex_val: "d < 16 \<Longrightarrow> hex_val (upper_hex d) = Some d \<and> plain_query_char (upper_hex d)"
proof -
  have "list_all (\<lambda>d. hex_val (upper_hex d) = Some d \<and> plain_query_char (upper_hex d)) [0..<16]" by code_simp
  then show "d < 16 \<Longrightarrow> hex_val (upper_hex d) = Some d \<and> plain_query_char (upper_hex d)" by (simp add: list_all_iff)
qed

definition escape_byte :: "char \<Rightarrow> string" where
  "escape_byte c = query_escape [c]"

lemma query_escape_Cons: "query_escape (c # cs) = escape_byte c @ query_escape cs"
  by (simp add: escape_byte_def query_escape_def)

lemma escape_byte_facts:
  "list_all plain_query_char (escape_byte c) \<and> query_unescape (escape_byte c @ s) = map_option ((#) c) (query_unescape s)"
proof -
  define n where "n = (of_char c :: nat)"
  have n: "n < 256" using of_char_mod_256 [of c, where ?'a = nat] unfolding n_def by (metis mod_less_divisor zero_less_numeral)
  consider (plain) "is_digit c \<or> (65 \<le> n \<and> n \<le> 90) \<or> (97 \<le> n \<and> n \<le> 122) \<or> c \<in> set ''-_.~''"
    | (space) "\<not> (is_digit c \<or> (65 \<le> n \<and> n \<le> 90) \<or> (97 \<le> n \<and> n \<le> 122) \<or> c \<in> set ''-_.~'')" "c = CHR '' ''"
    | (other) "\<not> (is_digit c \<or> (65 \<le> n \<and> n \<le> 90) \<or> (97 \<le> n \<and> n \<le> 122) \<or> c \<in> set ''-_.~'')" "c \<noteq> CHR '' ''" by blast
  then show ?thesis
  proof cases
    case plain
    then have "escape_byte c = [c]" by (simp add: escape_byte_def query_escape_def Let_def n_def)
    moreover have "c \<noteq> CHR ''%''" "c \<noteq> CHR ''+''" "plain_query_char c"
      using plain by (auto simp: n_def plain_query_char_def is_digit_def)
    ultimately show ?thesis by simp
  next
    case space
    then have "escape_byte c = ''+''" by (simp add: escape_byte_def query_escape_def Let_def n_def)
    then show ?thesis using space(2) by (simp add: plain_query_char_def)
  next
    case other
    then have e: "escape_byte c = [CHR ''%'', upper_hex (n div 16), upper_hex (n mod 16)]"
      by (simp add: escape_byte_def query_escape_def Let_def n_def)
    have d: "n div 16 < 16" "n mod 16 < 16" using n by (simp_all add: less_mult_imp_div_less)
    have "char_of (16 * (n div 16) + n mod 16) = c" by (simp add: n_def)
    with upper_hex_val [OF d(1)] upper_hex_val [OF d(2)] e show ?thesis by (simp add: plain_query_char_def)
  qed
qed

lemma query_unescape_escape [simp]: "query_unescape (query_escape s) = Some s"
proof (induction s)
  case (Cons c s)
  then show ?case using escape_byte_facts [of c "query_escape s"] by (simp add: query_escape_Cons)
qed (simp add: query_escape_def)

lemma query_escape_plain: "c \<in> set (query_escape s) \<Longrightarrow> plain_query_char c"
proof (induction s)
  case (Cons d s)
  then show ?case using escape_byte_facts [of d "[]"] by (auto simp: query_escape_Cons list_all_iff)
qed (simp add: query_escape_def)

lemma split_char_single: "d \<notin> set s \<Longrightarrow> split_char d s = [s]"
  by (induction s) auto

lemma split_char_append: "d \<notin> set s \<Longrightarrow> split_char d (s @ d # t) = s # split_char d t"
  by (induction s) auto

lemma split_join:
  "ss \<noteq> [] \<Longrightarrow> \<forall>s \<in> set ss. d \<notin> set s \<Longrightarrow> split_char d (join [d] ss) = ss"
  by (induction "[d]" ss rule: join.induct) (simp_all add: split_char_single split_char_append)

definition query_pair :: "string \<times> string \<Rightarrow> string" where
  "query_pair kv = query_escape (fst kv) @ ''='' @ query_escape (snd kv)"

lemma parse_query_pair: "parse_pair qb (query_pair kv) = (q_add (fst kv) (snd kv) (fst qb), snd qb)"
proof -
  obtain k v where kv: "kv = (k, v)" by fastforce
  have "CHR ''='' \<notin> set (query_escape k)" "CHR '';'' \<notin> set (query_escape k)" "CHR '';'' \<notin> set (query_escape v)"
    using query_escape_plain by (auto simp: plain_query_char_def)
  moreover from this(1) have "takeWhile (\<lambda>x. x \<noteq> CHR ''='') (query_escape k @ CHR ''='' # query_escape v) = query_escape k"
    "dropWhile (\<lambda>x. x \<noteq> CHR ''='') (query_escape k @ CHR ''='' # query_escape v) = CHR ''='' # query_escape v"
    by (auto simp: takeWhile_append dropWhile_append)
  ultimately show ?thesis by (simp add: kv parse_pair_def query_pair_def cut_at_def)
qed

lemma parse_query_pairs:
  "foldl parse_pair (q, b) (map query_pair kvs) = (foldl (\<lambda>q kv. q_add (fst kv) (snd kv) q) q kvs, b)"
  by (induction kvs arbitrary: q) (simp_all add: parse_query_pair)

lemma foldl_q_add_distinct:
  "distinct (map fst kvs) \<Longrightarrow> \<forall>kv \<in> set kvs. map_of q (fst kv) = None \<Longrightarrow>
     map_of (foldl (\<lambda>q kv. q_add (fst kv) (snd kv) q) q kvs) k
       = (case map_of kvs k of Some v \<Rightarrow> Some [v] | None \<Rightarrow> map_of q k)"
proof (induction kvs arbitrary: q)
  case (Cons kv kvs)
  have "\<forall>kv' \<in> set kvs. map_of (q_add (fst kv) (snd kv) q) (fst kv') = None"
    using Cons.prems by (auto simp: q_add_def update_conv' rev_image_eqI split: option.splits)
  with Cons.IH [of "q_add (fst kv) (snd kv) q"] Cons.prems show ?case
    by (auto simp: q_add_def update_conv' split: option.splits dest: map_of_SomeD)
qed simp

lemma insort_single: "insort_key fst (fst kv, [snd kv]) (single kvs) = single (insort_key fst kv kvs)"
  by (induction kvs) (simp_all add: single_def)

lemma sort_single: "sort_key fst (single kvs) = single (sort_key fst kvs)"
  by (induction kvs) (simp_all add: single_def insort_single [unfolded single_def])

lemma query_encode_single: "query_encode (single kvs) = join ''&'' (map query_pair (sort_key fst kvs))"
proof -
  have "concat (map (\<lambda>(k, vs). map (\<lambda>v. query_escape k @ ''='' @ query_escape v) vs) (single xs)) = map query_pair xs" for xs
    by (induction xs) (simp_all add: single_def query_pair_def)
  then show ?thesis by (simp add: query_encode_def sort_single)
qed

lemma query_pair_no_amp: "CHR ''&'' \<notin> set (query_pair kv)"
  using query_escape_plain by (auto simp: query_pair_def plain_query_char_def)

lemma map_of_sorted: "distinct (map fst kvs) \<Longrightarrow> map_of (sort_key fst kvs) = map_of kvs"
  by (rule map_of_inject_set [THEN iffD2]) (simp_all add: distinct_map inj_on_def)

text \<open>What a form or a query was made from can be read from it.\<close>

theorem query_roundtrip:
  assumes "distinct (map fst kvs)" "kvs \<noteq> []"
  shows "parse_query (query_encode (single kvs))
      = (foldl (\<lambda>q kv. q_add (fst kv) (snd kv) q) [] (sort_key fst kvs), True)
    \<and> query_get (query_encode (single kvs)) k = (case map_of kvs k of Some v \<Rightarrow> v | None \<Rightarrow> [])"
proof -
  have ne: "map query_pair (sort_key fst kvs) \<noteq> []" using assms(2) by (metis map_is_Nil_conv set_empty set_sort)
  have "split_char CHR ''&'' (query_encode (single kvs)) = map query_pair (sort_key fst kvs)"
    unfolding query_encode_single by (rule split_join [OF ne]) (use query_pair_no_amp in auto)
  then have p: "parse_query (query_encode (single kvs))
      = (foldl (\<lambda>q kv. q_add (fst kv) (snd kv) q) [] (sort_key fst kvs), True)"
    by (simp add: parse_query_def parse_query_pairs)
  have "distinct (map fst (sort_key fst kvs))" using assms(1) by (simp add: distinct_map)
  from foldl_q_add_distinct [OF this, of "[]" k] assms(1) p show ?thesis
    by (simp add: query_get_def map_of_sorted split: option.split)
qed

section \<open>Proof keys\<close>

text \<open>An authorization server that checks proof keys (RFC 7636): it knows the address of the login and refuses a token
  request with another client, another redirect address or a verifier that does not hash to the challenge.\<close>

definition login_value :: "string \<Rightarrow> string \<Rightarrow> string" where
  "login_value url k = query_get (snd (cut_at CHR ''?'' url)) k"

definition form_value :: "http_request \<Rightarrow> string \<Rightarrow> string" where
  "form_value req k = query_get (hr_body req) k"

definition json_value :: "http_request \<Rightarrow> string \<Rightarrow> string" where
  "json_value req k = (case json_parse (hr_body req) of Some v \<Rightarrow> jstring (jget k (jmembers v)) | None \<Rightarrow> [])"

definition pkce_server :: "(string \<Rightarrow> string) \<Rightarrow> (http_request \<Rightarrow> string \<Rightarrow> string) \<Rightarrow> string \<Rightarrow> transport \<Rightarrow> transport" where
  "pkce_server sha256 value url send c req =
     (if c = TokenCall
         \<and> \<not> (value req ''client_id'' = login_value url ''client_id'' \<and> value req ''redirect_uri'' = login_value url ''redirect_uri''
              \<and> login_value url ''code_challenge_method'' = ''S256''
              \<and> b64_encode (sha256 (value req ''code_verifier'')) = login_value url ''code_challenge'')
      then Inr \<lparr> ha_status = 400, ha_body = Inr ''invalid_grant'' \<rparr> else send c req)"

lemma cut_address: "CHR ''?'' \<notin> set a \<Longrightarrow> snd (cut_at CHR ''?'' (a @ CHR ''?'' # q)) = q"
  by (simp add: cut_at_def dropWhile_append)

lemma login_value_query:
  "CHR ''?'' \<notin> set a \<Longrightarrow> distinct (map fst kvs) \<Longrightarrow> kvs \<noteq> [] \<Longrightarrow>
     login_value (a @ CHR ''?'' # query_encode (single kvs)) k = (case map_of kvs k of Some v \<Rightarrow> v | None \<Rightarrow> [])"
  using query_roundtrip [of kvs k] by (simp add: login_value_def cut_address)

lemma form_value_request:
  "distinct (map fst kvs) \<Longrightarrow> kvs \<noteq> [] \<Longrightarrow> form_value (form_request url kvs) k = (case map_of kvs k of Some v \<Rightarrow> v | None \<Rightarrow> [])"
  using query_roundtrip [of kvs k] by (simp add: form_value_def form_request_def)

lemma json_value_request:
  assumes "distinct (map fst kvs)"
  shows "json_value (claude_token_request kvs) k = (case map_of kvs k of Some v \<Rightarrow> v | None \<Rightarrow> [])"
proof -
  have "json_parse (str_object kvs) = Some (JObj (map (\<lambda>kv. (fst kv, JStr (snd kv))) (sort_key fst kvs)))"
    unfolding str_object_def by (rule json_parse_print) simp
  moreover have "map_of (map (\<lambda>kv. (fst kv, JStr (snd kv))) xs) k = map_option JStr (map_of xs k)" for xs :: "(string \<times> string) list"
    by (induction xs) simp_all
  moreover have "map_of (rev (sort_key fst kvs)) = map_of kvs"
    by (rule map_of_inject_set [THEN iffD2]) (use assms in \<open>simp_all add: rev_map [symmetric] distinct_map\<close>)
  ultimately show ?thesis
    by (simp add: rev_map json_value_def claude_token_request_def jmembers_def jget_def jstring_def split: option.split)
qed

text \<open>C28: A login works against a server that checks proof keys. The address of the login page and the session made with it
  belong together for all three providers: with the verifier of the session, the exchange of any code at a server
  that checks client, redirect address and proof key answers as at a server that checks nothing, because the check
  of the token request never fails.\<close>
theorem proof_keys_accepted:
  "(case generateClaudeAuthURL sha256 rn of (url, se) \<Rightarrow>
      exchangeClaudeCode (pkce_server sha256 json_value url send) code (se_code_verifier se) state
        = exchangeClaudeCode send code (se_code_verifier se) state)
   \<and> (case generateCodexAuthURL sha256 rn of (url, se) \<Rightarrow>
      exchangeCodexCode (pkce_server sha256 form_value url send) code (se_code_verifier se)
        = exchangeCodexCode send code (se_code_verifier se))
   \<and> (case generateGeminiAuthURL sha256 cfg rn of Inl e \<Rightarrow> True | Inr (url, se) \<Rightarrow>
      exchangeGeminiCode (pkce_server sha256 form_value url send) cfg code (se_code_verifier se)
        = exchangeGeminiCode send cfg code (se_code_verifier se))"
proof (intro conjI)
  show "case generateClaudeAuthURL sha256 rn of (url, se) \<Rightarrow>
      exchangeClaudeCode (pkce_server sha256 json_value url send) code (se_code_verifier se) state
        = exchangeClaudeCode send code (se_code_verifier se) state"
    using login_value_query [of "''https://claude.com/cai/oauth/authorize''"]
    by (simp add: generateClaudeAuthURL_def generatePKCE_def Let_def exchangeClaudeCode_def pkce_server_def claude_code_request_def
        json_value_request)
  show "case generateCodexAuthURL sha256 rn of (url, se) \<Rightarrow>
      exchangeCodexCode (pkce_server sha256 form_value url send) code (se_code_verifier se)
        = exchangeCodexCode send code (se_code_verifier se)"
    using login_value_query [of "''https://auth.openai.com/oauth/authorize''"]
    by (simp add: generateCodexAuthURL_def generatePKCE_def Let_def exchangeCodexCode_def pkce_server_def codex_code_request_def
        form_value_request)
  show "case generateGeminiAuthURL sha256 cfg rn of Inl e \<Rightarrow> True | Inr (url, se) \<Rightarrow>
      exchangeGeminiCode (pkce_server sha256 form_value url send) cfg code (se_code_verifier se)
        = exchangeGeminiCode send cfg code (se_code_verifier se)"
    using login_value_query [of "''https://accounts.google.com/o/oauth2/v2/auth''"]
    by (simp add: generateGeminiAuthURL_def generatePKCE_def Let_def exchangeGeminiCode_def pkce_server_def gemini_code_request_def
        form_value_request)
qed

section \<open>The contract of an exchange\<close>

text \<open>What the server may rely on: a successful exchange has an access token and the subject of the account, and it
  asked the token endpoint with the code and the verifier it was given.\<close>

locale code_exchange =
  fixes exchange :: "transport \<Rightarrow> string \<Rightarrow> string \<Rightarrow> string \<Rightarrow> go_error + exchange_result"
    and request :: "string \<Rightarrow> string \<Rightarrow> string \<Rightarrow> http_request"
  assumes exchange_subject: "exchange send code verifier st = Inr r \<Longrightarrow> er_subject r \<noteq> [] \<and> tr_access_token (er_tokens r) \<noteq> []"
    and exchange_token: "exchange send code verifier st = Inr r \<Longrightarrow>
      \<exists>a body. send TokenCall (request code verifier st) = Inr a \<and> ha_status a = 200 \<and> ha_body a = Inr body"
begin

lemma refused_by_provider:
  assumes "send TokenCall (request code verifier st) = Inr a" "ha_status a \<noteq> 200"
  shows "\<exists>e. exchange send code verifier st = Inl e"
  using exchange_token [of send code verifier st] assms by (cases "exchange send code verifier st") auto

lemma unreachable_provider:
  assumes "send TokenCall (request code verifier st) = Inl e"
  shows "\<exists>e. exchange send code verifier st = Inl e"
  using exchange_token [of send code verifier st] assms by (cases "exchange send code verifier st") auto

end

lemma body_of_Inr:
  "body_of cp rp sp f r = Inr body \<longleftrightarrow> (\<exists>a. r = Inr a \<and> ha_status a = 200 \<and> ha_body a = Inr body)"
  by (auto simp: body_of_def wrapped_def and_then_Inr split: sum.splits if_splits)

lemma token_answer_Inr: "token_answer fs msg body = Inr tb \<Longrightarrow> tb_access tb \<noteq> []"
  by (auto simp: token_answer_def and_then_Inr)

lemma token_response_access [simp]: "tr_access_token (token_response_of tb) = tb_access tb"
  by (simp add: token_response_of_def)

definition token_granted :: "transport \<Rightarrow> http_request \<Rightarrow> bool" where
  "token_granted send req \<longleftrightarrow> (\<exists>a body. send TokenCall req = Inr a \<and> ha_status a = 200 \<and> ha_body a = Inr body)"

lemma exchangeClaudeCode_granted:
  "exchangeClaudeCode send code verifier st = Inr tr \<Longrightarrow>
     token_granted send (claude_code_request code verifier st) \<and> tr_access_token tr \<noteq> []"
  unfolding exchangeClaudeCode_def and_then_Inr body_of_Inr token_granted_def by (auto dest: token_answer_Inr)

lemma exchangeCodexCode_granted:
  "exchangeCodexCode send code verifier = Inr (tr, oi) \<Longrightarrow>
     token_granted send (codex_code_request code verifier) \<and> tr_access_token tr \<noteq> []"
  unfolding exchangeCodexCode_def and_then_Inr body_of_Inr token_granted_def by (auto dest: token_answer_Inr)

lemma exchangeGeminiCode_granted:
  "exchangeGeminiCode send cfg code verifier = Inr (tr, oi) \<Longrightarrow>
     token_granted send (gemini_code_request cfg code verifier) \<and> tr_access_token tr \<noteq> []"
  unfolding exchangeGeminiCode_def and_then_Inr body_of_Inr token_granted_def by (auto dest: token_answer_Inr)

lemma wrapped_Inr [simp]: "wrapped m r = Inr x \<longleftrightarrow> r = Inr x"
  by (simp add: wrapped_def split: sum.split)

lemma claude_profile_subject: "fetchClaudeOrgWithToken send tok = Inr p \<Longrightarrow> cp_org_uuid p \<noteq> []"
  unfolding fetchClaudeOrgWithToken_def and_then_Inr by auto

interpretation claude_exchange: code_exchange claude_ExchangeCode claude_code_request
proof
  fix send code verifier st r
  assume "claude_ExchangeCode send code verifier st = Inr r"
  then obtain tr p where "exchangeClaudeCode send code verifier st = Inr tr" "fetchClaudeOrgWithToken send (tr_access_token tr) = Inr p"
    "er_subject r = cp_org_uuid p" "er_tokens r = tr"
    unfolding claude_ExchangeCode_def by (auto simp: and_then_Inr)
  with exchangeClaudeCode_granted claude_profile_subject
  show "er_subject r \<noteq> [] \<and> tr_access_token (er_tokens r) \<noteq> []"
    "\<exists>a body. send TokenCall (claude_code_request code verifier st) = Inr a \<and> ha_status a = 200 \<and> ha_body a = Inr body"
    unfolding token_granted_def by auto
qed

interpretation codex_exchange: code_exchange "\<lambda>send code verifier st. codex_ExchangeCode send local code verifier"
  "\<lambda>code verifier st. codex_code_request code verifier" for local
proof
  fix send code verifier st r
  assume "codex_ExchangeCode send local code verifier = Inr r"
  then obtain tr oi where "exchangeCodexCode send code verifier = Inr (tr, oi)" "er_subject r \<noteq> []" "er_tokens r = tr"
    unfolding codex_ExchangeCode_def by (auto simp: and_then_Inr Let_def)
  with exchangeCodexCode_granted show "er_subject r \<noteq> [] \<and> tr_access_token (er_tokens r) \<noteq> []"
    "\<exists>a body. send TokenCall (codex_code_request code verifier) = Inr a \<and> ha_status a = 200 \<and> ha_body a = Inr body"
    unfolding token_granted_def by auto
qed

interpretation gemini_exchange: code_exchange
  "\<lambda>send code verifier st. gemini_ExchangeCode send cancelled cfg now local code verifier"
  "\<lambda>code verifier st. gemini_code_request cfg code verifier" for cancelled cfg now local
proof
  fix send code verifier st r
  assume "gemini_ExchangeCode send cancelled cfg now local code verifier = Inr r"
  then obtain tr oi where "exchangeGeminiCode send cfg code verifier = Inr (tr, oi)" "er_subject r \<noteq> []" "er_tokens r = tr"
    unfolding gemini_ExchangeCode_def by (auto simp: and_then_Inr Let_def)
  with exchangeGeminiCode_granted show "er_subject r \<noteq> [] \<and> tr_access_token (er_tokens r) \<noteq> []"
    "\<exists>a body. send TokenCall (gemini_code_request cfg code verifier) = Inr a \<and> ha_status a = 200 \<and> ha_body a = Inr body"
    unfolding token_granted_def by auto
qed

text \<open>A provider that refuses the token request, or cannot be reached, makes the exchange fail, whatever else it would
  answer.\<close>

theorem refusal_fails_login:
  assumes "\<And>req. case send TokenCall req of Inr a \<Rightarrow> ha_status a \<noteq> 200 | Inl e \<Rightarrow> True"
  shows "(\<exists>e. claude_ExchangeCode send code verifier st = Inl e) \<and> (\<exists>e. codex_ExchangeCode send local code verifier = Inl e)
    \<and> (\<exists>e. gemini_ExchangeCode send cancelled cfg now local code verifier = Inl e)"
proof -
  have "(\<exists>e. send TokenCall req = Inl e) \<or> (\<exists>a. send TokenCall req = Inr a \<and> ha_status a \<noteq> 200)" for req
    using assms [of req] by (cases "send TokenCall req") auto
  then show ?thesis
    by (meson claude_exchange.refused_by_provider claude_exchange.unreachable_provider codex_exchange.refused_by_provider
        codex_exchange.unreachable_provider gemini_exchange.refused_by_provider gemini_exchange.unreachable_provider)
qed

text \<open>The polls of the onboarding end: whatever the provider answers, at most twelve are made.\<close>

definition polled :: "transport \<Rightarrow> nat \<Rightarrow> transport" where
  "polled send n c req = (case c of PollCall k \<Rightarrow> if k < n then send c req else Inl (text_error []) | _ \<Rightarrow> send c req)"

lemma polls_bounded:
  "i + n \<le> m \<Longrightarrow> poll_operation (polled send m) cancelled url tok p i n = poll_operation send cancelled url tok p i n"
proof (induction n arbitrary: p i)
  case (Suc n)
  have "poll_operation (polled send m) cancelled url tok q (i + 1) n = poll_operation send cancelled url tok q (i + 1) n" for q
    using Suc.prems by (intro Suc.IH) simp
  moreover have "polled send m (PollCall i) req = send (PollCall i) req" for req
    using Suc.prems by (simp add: polled_def)
  ultimately show ?case by (simp only: poll_operation.simps)
qed simp

theorem onboarding_ends:
  "onboardGeminiUser (polled send 12) cancelled apiURL tok = onboardGeminiUser send cancelled apiURL tok"
proof -
  have "poll_operation (polled send 12) cancelled url tok p 0 12 = poll_operation send cancelled url tok p 0 12" for url p
    by (rule polls_bounded) simp
  moreover have "polled send 12 OnboardCall req = send OnboardCall req" for req by (simp add: polled_def)
  ultimately show ?thesis by (simp only: onboardGeminiUser_def)
qed

text \<open>An error page of the provider that mentions a refused connection is taken for a broken network path: the
  message of the error quotes the page, and \<open>IsTransport\<close> looks for words in the message.\<close>

theorem provider_page_blamed_on_network:
  "case refreshClaudeToken (\<lambda>_ _. Inr \<lparr> ha_status = 502, ha_body = Inr ''connect() failed: connection refused by upstream'' \<rparr>) tok of
     Inl e \<Rightarrow> IsTransport (Some e) | Inr r \<Rightarrow> False"
proof -
  have c: "list_ex (contains (to_lower (''oauth returned '' @ itoa 502 @ '': '' @ ''connect() failed: connection refused by upstream'')))
      transport_markers" by code_simp
  show ?thesis
    using c by (simp add: refreshClaudeToken_def body_of_def wrapped_def text_error_def IsTransport_def)
qed

end
