(* ===== verification/OAuthProps.thy ===== *)
theory OAuthProps
  imports OAuthAdmin OAuthLaws AdminProps TokenProps
begin

text \<open>
  The properties of the login of accounts: what a session pins of the exchange, which account a successful
  exchange leaves, and what a refused one leaves alone.
\<close>

section \<open>Sessions\<close>

lemma envelope_roundtrip: "decode_envelope (encode_envelope e) = Some e"
proof -
  have "json_parse (encode_envelope e) = Some (envelope_json e)"
    unfolding encode_envelope_def by (rule json_parse_print) (simp add: envelope_json_def omit_blank_def)
  then show ?thesis
    by (cases e; cases "sv_session e")
      (simp add: decode_envelope_def unmarshal_ok_def unmarshal_def envelope_json_def omit_blank_def decode_struct_def
        decode_member_def find_field_def envelope_fields_def string_field_def empty_envelope_def)
qed

lemma login_stored:
  assumes "handleGenerateAuthURL srv env rawQuery body p = (ok_members [(''auth_url'', JStr url), (''session_id'', JStr sid)], q)"
  obtains drv se pv cell where "og_drivers srv pv = Some drv" "od_login drv (lg_random env) = Inr (url, se)" "pv = trim_space pv" "pv \<noteq> []"
    "s_oauth (p_store q) sid = Some \<lparr> os_session_id = sid,
       os_data_json = encode_envelope \<lparr> sv_session = se, sv_provider = pv, sv_cell_id = cell \<rparr>,
       os_created_at = av_now (lg_admin env) 2, os_expires_at = av_now (lg_admin env) 2 + session_ttl \<rparr>"
proof -
  obtain lq where lq: "decodeGenerateAuthURLRequest rawQuery body = Some lq" "lq_provider lq \<noteq> []"
    using assms by (auto simp: handleGenerateAuthURL_def invalid_body_def refuse_def ok_members_def split: option.splits if_splits)
  then obtain drv where drv: "og_drivers srv (lq_provider lq) = Some drv"
    using assms by (auto simp: handleGenerateAuthURL_def refuse_def ok_members_def split: option.splits)
  then obtain u se where se: "od_login drv (lg_random env) = Inr (u, se)"
    using assms lq by (auto simp: handleGenerateAuthURL_def refuse_def ok_members_def split: sum.splits)
  obtain oe p1 where v: "validateExchangeCellSelection (lg_admin env) 0 None (lq_cell_id lq) (od_provider drv) p = (oe, p1)" by fastforce
  have "oe = None" using assms lq drv se v
    by (cases oe) (auto simp: handleGenerateAuthURL_def refuse_def ok_members_def)
  with assms lq drv se v have "u = url" "sid = lg_uuid env 0"
    "q = storeOAuthSession (av_now (lg_admin env) 2) (lg_uuid env 0) (lq_provider lq) (lq_cell_id lq) se p1"
    by (auto simp: handleGenerateAuthURL_def ok_members_def)
  moreover have "trim_space (lq_provider lq) = lq_provider lq"
    using lq(1) by (auto simp: decodeGenerateAuthURLRequest_def Let_def split: option.splits if_splits)
  ultimately show ?thesis
    using that [of "lq_provider lq" drv se "lq_cell_id lq"] drv se lq(2)
    by (simp add: storeOAuthSession_def SetOAuthSession_def SaveOAuthSession_def)
qed

text \<open>C25: A session pins the exchange to the login it was made for. As long as the session is stored and not older than ten
  minutes, a request that names it is exchanged by the driver of the provider that the login was for, with the
  verifier and the state made with the login address, whatever provider, verifier or state the request itself has.\<close>
theorem session_pins_exchange:
  assumes "handleGenerateAuthURL srv env rawQuery body p = (ok_members [(''auth_url'', JStr url), (''session_id'', JStr sid)], q)"
    and "sid \<noteq> []" and "s_oauth (p_store p') sid = s_oauth (p_store q) sid"
    and "av_now (lg_admin env') 0 < av_now (lg_admin env) 2 + session_ttl"
    and "decodeExchangeCodeRequest body' = Some q0" and "xq_session_id q0 = sid"
  shows "\<exists>drv se q'. og_drivers srv (xq_provider q') = Some drv \<and> od_login drv (lg_random env) = Inr (url, se)
    \<and> handleExchangeCode srv' env' body' p' = checked_login srv' env' q' (av_others (lg_admin env') 0 p')
    \<and> xq_code_verifier q' = trim_space (se_code_verifier se) \<and> xq_state q' = trim_space (se_state se)"
proof -
  obtain drv se pv cell where l: "og_drivers srv pv = Some drv" "od_login drv (lg_random env) = Inr (url, se)"
    "pv = trim_space pv" "pv \<noteq> []"
    "s_oauth (p_store q) sid = Some \<lparr> os_session_id = sid,
       os_data_json = encode_envelope \<lparr> sv_session = se, sv_provider = pv, sv_cell_id = cell \<rparr>,
       os_created_at = av_now (lg_admin env) 2, os_expires_at = av_now (lg_admin env) 2 + session_ttl \<rparr>"
    by (rule login_stored [OF assms(1)])
  define q' where "q' = normal_code_request (with_session \<lparr> sv_session = se, sv_provider = pv, sv_cell_id = cell \<rparr> q0)"
  have "p_GetOAuthSession (av_now (lg_admin env') 0) sid p'
      = Some (encode_envelope \<lparr> sv_session = se, sv_provider = pv, sv_cell_id = cell \<rparr>)"
    using assms(3,4) l(5) by (simp add: p_GetOAuthSession_def GetOAuthSession_def)
  then have h: "hydrateExchangeCodeRequest (av_now (lg_admin env') 0) q0 p' = Inr q'"
    using assms(2,6) by (simp add: hydrateExchangeCodeRequest_def envelope_roundtrip q'_def)
  have "xq_provider q' = pv" "xq_code_verifier q' = trim_space (se_code_verifier se)" "xq_state q' = trim_space (se_state se)"
    using l(3,4) by (simp_all add: q'_def normal_code_request_def with_session_def)
  with h l(1,2) assms(5) show ?thesis by (auto simp: handleExchangeCode_def)
qed

section \<open>A refused exchange\<close>

lemma quiet_others: "quiet env \<Longrightarrow> av_others env k p = p"
  by (simp add: quiet_def)

lemma validate_keeps:
  assumes "quiet env" "validateExchangeCellSelection env k existing c prov p = (oe, q)"
  shows "p_store q = p_store p"
  using assms(2) unfolding validateExchangeCellSelection_def adm_GetCell_def adm_List_def GetCell_def List_accounts_def refreshState_def Let_def
  by (auto simp: quiet_others [OF assms(1)] split: option.splits prod.splits if_splits)

lemma route_keeps:
  assumes "quiet (lg_admin env)" "oauthClientForRoute srv env k c p = (r, q)"
  shows "p_store q = p_store p"
  using assms(2) unfolding oauthClientForRoute_def adm_GetCell_def GetCell_def refreshState_def Let_def
  by (auto simp: quiet_others [OF assms(1)] split: option.splits prod.splits if_splits)

lemma find_subject_keeps:
  assumes "quiet (lg_admin env)" "find_subject env k drv s p = (oa, q)"
  shows "p_store q = p_store p"
  using assms(2) unfolding find_subject_def FindBySubject_def refreshState_def Let_def
  by (auto simp: quiet_others [OF assms(1)] split: if_splits)

text \<open>C27: A login that the provider refuses changes nothing. Without other requests in between, an answer with status 502
  or 400 leaves the store as it was: no account is touched, and the session stays, so the same login can be tried again.\<close>
theorem refused_login_keeps_store:
  assumes "quiet (lg_admin env)" "handleExchangeCode srv env body p = (Plain (AnswerError st kind msg), q)" "st = 502 \<or> st = 400"
  shows "p_store q = p_store p"
proof -
  have keep: "p_store q = p_store p0" if "persist_login srv env drv xq r p0 = (Plain (AnswerError st kind msg), q)" for drv xq r p0
    using that assms(3) find_subject_keeps [OF assms(1)] validate_keeps [OF assms(1)]
    by (auto simp: persist_login_def persist_failed_def refuse_def upsertExchangedAccount_def updateExchangedAccount_def
        createExchangedAccount_def account_answer_def ok_members_def Let_def split: prod.splits option.splits sum.splits)
  have "p_store q = p_store p0" if "exchange_login srv env drv xq p0 = (Plain (AnswerError st kind msg), q)" for drv xq p0
    using that assms(3) route_keeps [OF assms(1)] keep
    by (auto simp: exchange_login_def refuse_def quiet_others [OF assms(1)] Let_def split: prod.splits sum.splits if_splits)
  then have "p_store q = p_store p0" if "checked_login srv env xq p0 = (Plain (AnswerError st kind msg), q)" for xq p0
    using that by (auto simp: checked_login_def refuse_def split: option.splits if_splits)
  then show ?thesis
    using assms(2) by (auto simp: handleExchangeCode_def invalid_body_def refuse_def quiet_others [OF assms(1)]
        split: option.splits sum.splits session_error.splits)
qed

section \<open>The account of a login\<close>

definition one_per_subject :: "(string \<rightharpoonup> account) \<Rightarrow> bool" where
  "one_per_subject m \<longleftrightarrow>
     (\<forall>i j a b. m i = Some a \<and> m j = Some b \<and> ac_provider a = ac_provider b \<and> ac_subject a = ac_subject b
        \<and> ac_subject a \<noteq> [] \<longrightarrow> i = j)"

text \<open>The account \<open>i\<close> is the one of the subject, active and on the cell, and no other account was touched.\<close>

definition logged_in :: "(string \<rightharpoonup> account) \<Rightarrow> provider \<Rightarrow> string \<Rightarrow> string \<Rightarrow> string \<Rightarrow> account \<Rightarrow> (string \<rightharpoonup> account) \<Rightarrow> bool" where
  "logged_in m prov subject cell i a m' \<longleftrightarrow>
     m' = m(i \<mapsto> a) \<and> ac_provider a = prov \<and> ac_subject a = subject \<and> ac_status a = StatusActive \<and> ac_cell_id a = cell
     \<and> (m i = None \<longrightarrow> (\<forall>j b. m j = Some b \<longrightarrow> \<not> (ac_provider b = prov \<and> ac_subject b = subject)))
     \<and> (\<forall>b. m i = Some b \<longrightarrow> ac_provider b = prov \<and> ac_subject b = subject)"

lemma logged_in_unique:
  assumes "logged_in m prov subject cell i a m'" "one_per_subject m" "subject \<noteq> []"
  shows "one_per_subject m'"
    and "\<forall>j b. m' j = Some b \<and> ac_provider b = prov \<and> ac_subject b = subject \<longrightarrow> j = i"
proof -
  have new: "m' = m(i \<mapsto> a)" "ac_provider a = prov" "ac_subject a = subject" using assms(1) by (simp_all add: logged_in_def)
  have "j = i" if j: "m j = Some b" "ac_provider b = prov" "ac_subject b = subject" for j b
  proof (cases "m i")
    case None
    with assms(1) j show ?thesis by (auto simp: logged_in_def)
  next
    case (Some c)
    with assms(1) have "ac_provider c = prov" "ac_subject c = subject" by (auto simp: logged_in_def)
    with assms(2,3) j Some show ?thesis unfolding one_per_subject_def by metis
  qed
  note alone = this
  then show "\<forall>j b. m' j = Some b \<and> ac_provider b = prov \<and> ac_subject b = subject \<longrightarrow> j = i" by (auto simp: new)
  show "one_per_subject m'" unfolding one_per_subject_def
  proof (intro allI impI, elim conjE)
    fix j k b c
    assume h: "m' j = Some b" "m' k = Some c" "ac_provider b = ac_provider c" "ac_subject b = ac_subject c" "ac_subject b \<noteq> []"
    show "j = k"
    proof (cases "j = i \<or> k = i")
      case True
      with h alone new show ?thesis by (auto split: if_splits)
    next
      case False
      with h new assms(2) show ?thesis unfolding one_per_subject_def by (metis fun_upd_other)
    qed
  qed
qed

lemma project_frame [simp]:
  "ac_provider (projectAccountLocked w a) = ac_provider a" "ac_id (projectAccountLocked w a) = ac_id a"
  by (simp_all add: projectAccountLocked_def Let_def split: option.split)

lemma find_subject_result:
  assumes "quiet (lg_admin env)" "rows_ok (av_order (lg_admin env)) p" "s \<noteq> []" "find_subject env k drv s p = (oa, q)"
  shows "case oa of
      Some a \<Rightarrow> accounts_of p (ac_id a) = Some a \<and> ac_provider a = od_provider drv \<and> ac_subject a = s
    | None \<Rightarrow> \<forall>j b. accounts_of p j = Some b \<longrightarrow> \<not> (ac_provider b = od_provider drv \<and> ac_subject b = s)"
proof -
  let ?as = "entries (accounts_of p) (mo_accounts (av_order (lg_admin env)))"
  obtain r where r: "reloadStateLocked (av_order (lg_admin env)) (av_now (lg_admin env) k) p = (None, r)" "p_accounts r = accounts_of p"
    using reloaded [OF assms(2)] by blast
  with assms(3,4) have f: "List.find (\<lambda>a. ac_provider a = od_provider drv \<and> ac_subject a = s) ?as = oa"
    by (auto simp: find_subject_def FindBySubject_def refreshState_def Let_def)
  have "ranges (accounts_of p) (mo_accounts (av_order (lg_admin env)))"
    using assms(2) by (auto simp: rows_ok_def ranges_def accounts_of_def)
  then have ran: "set ?as = ran (accounts_of p)" by (rule set_entries_ranges)
  show ?thesis
  proof (cases oa)
    case None
    with f have "\<forall>a \<in> set ?as. \<not> (ac_provider a = od_provider drv \<and> ac_subject a = s)" by (auto simp: find_None_iff)
    with None ran show ?thesis by (auto simp: ran_def)
  next
    case (Some a)
    with f have a: "a \<in> set ?as" "ac_provider a = od_provider drv" "ac_subject a = s" by (auto simp: find_Some_iff)
    with ran obtain j where "accounts_of p j = Some a" by (auto simp: ran_def)
    with accounts_of_id [OF assms(2)] a Some show ?thesis by auto
  qed
qed

lemma update_logs_in:
  assumes "quiet (lg_admin env)" "rows_ok (av_order (lg_admin env)) p" "SaveAccountErr (p_store p) = None"
    and "accounts_of p (ac_id ex) = Some ex" "ac_provider ex = prov" "ac_subject ex = er_subject r"
    and "updateExchangedAccount srv env ex r cell p = (Some ans, q)"
  shows "\<exists>a. logged_in (accounts_of p) prov (er_subject r) cell (ac_id ex) a (p_accounts q)"
proof -
  let ?i = "ac_id ex" and ?mo = "av_order (lg_admin env)"
  obtain acc ref ex_at p1 where st: "StoreTokens ?mo (av_now (lg_admin env) 7) ?i acc ref ex_at p = (None, p1)"
    and q: "q = snd (Update ?mo (av_now (lg_admin env) 8) ?i (relogin r cell) p1)"
    using assms(7) by (auto simp: updateExchangedAccount_def Let_def quiet_others [OF assms(1)]
        split: sum.splits prod.splits option.splits)
  obtain a a1 where w1: "accounts_of p ?i = Some a" "wrote p ?i a1 p1"
    "a1 = PersistRuntime (a\<lparr>ac_access_token_enc := acc, ac_refresh_token_enc := ref, ac_expires_at := ex_at,
       ac_last_refresh_at := Some (av_now (lg_admin env) 7), ac_status := StatusActive, ac_error_message := []\<rparr>)"
    by (rule StoreTokens_writes [OF assms(2) st])
  have a: "a = ex" "accounts_of p ?i \<noteq> None" using w1(1) assms(4) by simp_all
  then have id: "ac_id a1 = ?i" using w1(3) by simp
  from wrote_rows [OF w1(2) assms(2) a(2) id assms(3)] have rows: "rows_ok ?mo p1"
    and acc1: "accounts_of p1 = (accounts_of p)(?i \<mapsto> HydrateRuntime (PersistRuntime a1))" .
  have "fst (Update ?mo (av_now (lg_admin env) 8) ?i (relogin r cell) p1) = None"
    by (rule Update_succeeds [OF rows]) (simp add: acc1)
  then have "Update ?mo (av_now (lg_admin env) 8) ?i (relogin r cell) p1 = (None, q)" by (simp add: q prod_eq_iff)
  from Update_writes [OF rows this] obtain a2 a3 k w where w2: "accounts_of p1 ?i = Some a2" "wrote p1 ?i a3 q"
    "a3 = PersistRuntime ((copy_back a2 (relogin r cell (projectAccountLocked w a2)))\<lparr>ac_bucket_key := k\<rparr>)" .
  have "ac_provider a2 = prov" using w2(1) acc1 w1(3) a assms(5) by auto
  with w2(3) have "ac_provider a3 = prov" "ac_subject a3 = er_subject r" "ac_status a3 = StatusActive" "ac_cell_id a3 = cell"
    by (simp_all add: copy_back_def relogin_def Let_def)
  moreover have "p_accounts q = (accounts_of p)(?i \<mapsto> a3)" using w2(2) acc1 by (simp add: wrote_def)
  ultimately have "logged_in (accounts_of p) prov (er_subject r) cell ?i a3 (p_accounts q)"
    using assms(4-6) by (simp add: logged_in_def)
  then show ?thesis by blast
qed

lemma create_logs_in:
  assumes "quiet (lg_admin env)" "rows_ok (av_order (lg_admin env)) p" "accounts_of p (lg_uuid env 2) = None"
    and "\<forall>j b. accounts_of p j = Some b \<longrightarrow> \<not> (ac_provider b = od_provider drv \<and> ac_subject b = er_subject r)"
    and "createExchangedAccount srv env drv r cell p = (Some ans, q)"
  shows "\<exists>a. logged_in (accounts_of p) (od_provider drv) (er_subject r) cell (lg_uuid env 2) a (p_accounts q)"
proof -
  obtain enc_a enc_r where ad: "Add (av_order (lg_admin env)) (av_now (lg_admin env) 7)
      (new_account drv (lg_uuid env 2) r cell enc_a enc_r (av_now (lg_admin env) 7)) p = (None, q)"
    using assms(5) by (auto simp: createExchangedAccount_def Let_def quiet_others [OF assms(1)]
        split: sum.splits prod.splits option.splits)
  obtain a k where w: "p_accounts q = (accounts_of p)(ac_id (new_account drv (lg_uuid env 2) r cell enc_a enc_r (av_now (lg_admin env) 7)) \<mapsto> a)"
    "a = (HydrateRuntime (PersistRuntime ((new_account drv (lg_uuid env 2) r cell enc_a enc_r (av_now (lg_admin env) 7))\<lparr>ac_bucket_key := k\<rparr>)))
       \<lparr>ac_cooldown_until := None, ac_provider_state_json := []\<rparr>"
    using Add_writes [OF assms(2) ad] by metis
  then have "logged_in (accounts_of p) (od_provider drv) (er_subject r) cell (lg_uuid env 2) a (p_accounts q)"
    using assms(3,4) by (simp add: logged_in_def new_account_def Let_def)
  then show ?thesis by blast
qed

lemma persist_login_result:
  assumes "quiet (lg_admin env)" "rows_ok (av_order (lg_admin env)) p" "SaveAccountErr (p_store p) = None"
    and "accounts_of p (lg_uuid env 2) = None" "er_subject r \<noteq> []"
    and "persist_login srv env drv xq r p = (Plain (AnswerJSON 200 v), q)"
  shows "\<exists>i a. logged_in (accounts_of p) (od_provider drv) (er_subject r) (xq_cell_id xq) i a (p_accounts q)"
proof -
  obtain e0 p1 where f1: "find_subject env 3 drv (er_subject r) p = (e0, p1)" by fastforce
  obtain oe p2 where v: "validateExchangeCellSelection (lg_admin env) 4 e0 (xq_cell_id xq) (od_provider drv) p1 = (oe, p2)" by fastforce
  obtain oa p3 where f2: "find_subject env 6 drv (er_subject r) p2 = (oa, p3)" by fastforce
  have s: "p_store p2 = p_store p" "p_store p3 = p_store p"
    using find_subject_keeps [OF assms(1)] validate_keeps [OF assms(1)] f1 v f2 by metis+
  then have rows: "rows_ok (av_order (lg_admin env)) p2" "rows_ok (av_order (lg_admin env)) p3" "accounts_of p2 = accounts_of p"
    "accounts_of p3 = accounts_of p" using rows_ok_same [OF _ assms(2)] by (simp_all add: accounts_of_def)
  obtain oans p4 where u: "upsertExchangedAccount srv env drv r (xq_cell_id xq) p2 = (oans, p4)" by fastforce
  then obtain ans where ans: "oans = Some ans" "p_accounts q = p_accounts p4"
    using assms(6) f1 v by (cases oe; cases oans)
      (auto simp: persist_login_def persist_failed_def refuse_def DelOAuthSession_def quiet_others [OF assms(1)] split: if_splits)
  note found = find_subject_result [OF assms(1) rows(1) assms(5) f2]
  show ?thesis
  proof (cases oa)
    case (Some ex)
    with u f2 ans have "updateExchangedAccount srv env ex r (xq_cell_id xq) p3 = (Some ans, p4)"
      by (simp add: upsertExchangedAccount_def)
    from update_logs_in [OF assms(1) rows(2) _ _ _ _ this] found Some rows s assms(3) ans show ?thesis by auto
  next
    case None
    with u f2 ans have "createExchangedAccount srv env drv r (xq_cell_id xq) p3 = (Some ans, p4)"
      by (simp add: upsertExchangedAccount_def)
    from create_logs_in [OF assms(1) rows(2) _ _ this] found None rows assms(4) ans show ?thesis by auto
  qed
qed

lemma route_of_login:
  assumes "oauthClientForRoute srv env k c p = (Inr route, q)" "trim_space c = c"
  shows "case route of CellRoute d x \<Rightarrow> d = c \<and> c \<noteq> [] \<and> accountCellBindError x (av_now (lg_admin env) k) = None | DirectRoute _ \<Rightarrow> c = []"
  using assms by (auto simp: oauthClientForRoute_def Let_def split: if_splits option.splits prod.splits)


section \<open>Sample logins\<close>

definition sample_login_driver :: oauth_driver where
  "sample_login_driver =
     \<lparr> od_provider = ProviderCodex, od_state_required = True,
       od_login = (\<lambda>rn. Inr (''https://login'', \<lparr> se_code_verifier = b64_encode (rn_verifier rn), se_state = b64_encode (rn_state rn) \<rparr>)),
       od_exchange = (\<lambda>route code verifier st.
         if code = ''bad'' then Inl (text_error ''invalid_grant'')
         else Inr \<lparr> er_tokens = \<lparr> tr_access_token = ''A'', tr_refresh_token = ''R'', tr_expires_in = 3600 \<rparr>,
                    er_subject = ''sa'', er_email = ''new'', er_identity = [], er_provider_state = [] \<rparr>),
       od_bucket_key = (\<lambda>a. ''codex:'' @ ac_subject a) \<rparr>"

definition sample_login_server :: oauth_server where
  "sample_login_server =
     \<lparr> og_drivers = [ProviderCodex \<mapsto> sample_login_driver], og_tokens = sample_manager (Inl sample_canceled), og_has_transport = True \<rparr>"

definition sample_login_env :: login_env where
  "sample_login_env =
     \<lparr> lg_admin = quiet_env, lg_random = \<lparr> rn_verifier = ''v'', rn_state = ''s'' \<rparr>,
       lg_uuid = (\<lambda>k. ''id'' @ itoa (int k)), lg_iv = (\<lambda>_. replicate 16 CHR ''v'') \<rparr>"

text \<open>The account \<open>a\<close> is on the cell \<open>c\<close>.\<close>

definition bound_pool :: pool where
  "bound_pool = empty_pool (admin_store\<lparr> s_accounts := [''a'' \<mapsto> acct_a\<lparr>ac_cell_id := ''c''\<rparr>, ''b'' \<mapsto> acct_b] \<rparr>) (NewBus 4)"

definition relogin_body :: string where
  "relogin_body = ''{\"provider\":\"codex\",\"code\":\"x\",\"code_verifier\":\"v\",\"state\":\"s\"}''"

definition refused_body :: string where
  "refused_body = ''{\"provider\":\"codex\",\"code\":\"bad\",\"code_verifier\":\"v\",\"state\":\"s\"}''"

lemma sample_relogin:
  "fst (handleExchangeCode sample_login_server sample_login_env relogin_body bound_pool) = account_answer ''a'' ''new''"
  by code_simp

text \<open>A new login of a bound account that names no cell takes the account off its cell: from then on its requests
  leave directly.\<close>

theorem relogin_drops_cell:
  "map_option ac_cell_id (accounts_of bound_pool ''a'') = Some ''c''
   \<and> map_option ac_cell_id (p_accounts (snd (handleExchangeCode sample_login_server sample_login_env relogin_body bound_pool)) ''a'') = Some []"
  by code_simp

lemma bound_pool_rows: "rows_ok (av_order (lg_admin sample_login_env)) bound_pool"
  by (auto simp: rows_ok_def bound_pool_def empty_pool_def admin_store_def NewMockStore_def sample_login_env_def quiet_env_def
      admin_order_def ranges_def acct_defs sample_cell_row_def split: if_splits)

lemma bound_pool_subjects: "one_per_subject (accounts_of bound_pool)"
proof -
  have "accounts_of bound_pool = [''a'' \<mapsto> acct_a\<lparr>ac_cell_id := ''c''\<rparr>, ''b'' \<mapsto> acct_b]"
    by (auto simp: accounts_of_def bound_pool_def empty_pool_def admin_store_def acct_defs HydrateRuntime_def fun_eq_iff)
  moreover have "ac_subject (acct_a\<lparr>ac_cell_id := ''c''\<rparr>) \<noteq> ac_subject acct_b" by (simp add: acct_defs)
  ultimately show ?thesis by (auto simp: one_per_subject_def split: if_splits)
qed

lemma sample_login_quiet: "quiet (lg_admin sample_login_env)"
  by (simp add: sample_login_env_def quiet_quiet)


theorem refused_login_keeps_store_witness:
  "p_store (snd (handleExchangeCode sample_login_server sample_login_env refused_body bound_pool)) = p_store bound_pool"
proof -
  let ?h = "handleExchangeCode sample_login_server sample_login_env refused_body bound_pool"
  have "fst ?h = Plain (AnswerError 502 ''oauth_error'' ''invalid_grant'')" by code_simp
  then have "?h = (Plain (AnswerError 502 ''oauth_error'' ''invalid_grant''), snd ?h)" by (simp add: prod_eq_iff)
  from refused_login_keeps_store [OF sample_login_quiet this] show ?thesis by simp
qed

definition sample_login :: "admin_answer \<times> pool" where
  "sample_login = handleGenerateAuthURL sample_login_server sample_login_env ''provider=codex'' [] bound_pool"

definition session_body :: string where
  "session_body = ''{\"session_id\":\"id0\",\"code\":\"x\",\"provider\":\"claude\",\"code_verifier\":\"w\",\"state\":\"t\"}''"

theorem session_pins_exchange_witness:
  "\<exists>q'. handleExchangeCode sample_login_server sample_login_env session_body (snd sample_login)
       = checked_login sample_login_server sample_login_env q' (snd sample_login)
     \<and> xq_code_verifier q' = b64_encode ''v''"
proof -
  have f: "fst sample_login = ok_members [(''auth_url'', JStr ''https://login''), (''session_id'', JStr ''id0'')]" by code_simp
  then have l: "handleGenerateAuthURL sample_login_server sample_login_env ''provider=codex'' [] bound_pool
      = (ok_members [(''auth_url'', JStr ''https://login''), (''session_id'', JStr ''id0'')], snd sample_login)"
    by (simp add: sample_login_def prod_eq_iff)
  have t: "av_now (lg_admin sample_login_env) 0 < av_now (lg_admin sample_login_env) 2 + session_ttl" by code_simp
  obtain q0 where q0: "decodeExchangeCodeRequest session_body = Some q0" "xq_session_id q0 = ''id0''"
  proof -
    have "map_option xq_session_id (decodeExchangeCodeRequest session_body) = Some ''id0''" by code_simp
    then show ?thesis using that by (cases "decodeExchangeCodeRequest session_body") auto
  qed
  from session_pins_exchange [where srv' = sample_login_server, OF l _ refl t q0] obtain drv se q' where
    d: "og_drivers sample_login_server (xq_provider q') = Some drv" "od_login drv (lg_random sample_login_env) = Inr (''https://login'', se)"
    and h: "handleExchangeCode sample_login_server sample_login_env session_body (snd sample_login)
       = checked_login sample_login_server sample_login_env q' (av_others (lg_admin sample_login_env) 0 (snd sample_login))"
      "xq_code_verifier q' = trim_space (se_code_verifier se)" by auto
  have "drv = sample_login_driver" using d(1) by (simp add: sample_login_server_def split: if_splits)
  then have "se_code_verifier se = b64_encode ''v''" using d(2) by (auto simp: sample_login_driver_def sample_login_env_def)
  moreover have "trim_space (b64_encode ''v'') = b64_encode ''v''" by code_simp
  ultimately show ?thesis using h quiet_others [OF sample_login_quiet] by auto
qed

text \<open>The message of a refused exchange quotes the provider's JSON, and the error answer is then no JSON.\<close>

theorem oauth_error_not_json:
  "json_parse (admin_error_body ''oauth_error'' ''token API returned 400: {\"error\":\"invalid_grant\"}'') = None"
  by code_simp

end
