(* ===== verification/Transport.thy ===== *)
theory Transport
  imports Domain GoTime
begin

text \<open>
  The cache of transports (src/internal/transport/pool.go): one round tripper for each account and proxy endpoint,
  dropped when it has been idle.  A round tripper is what it was built from and a number that stands for the
  object; dialling and TLS are not modelled.  The second half is the cache as a transition system.
\<close>

record round_tripper =
  rt_object :: nat
  rt_account :: string
  rt_proxy :: "proxy_config option"

record transport_pool =
  tp_entries :: "string \<rightharpoonup> round_tripper \<times> gotime"
  tp_built :: nat
  tp_closed :: "nat list"

definition NewPool :: transport_pool where
  "NewPool = \<lparr> tp_entries = Map.empty, tp_built = 0, tp_closed = [] \<rparr>"

definition proxy_key :: "string \<Rightarrow> proxy_config option \<Rightarrow> string" where
  "proxy_key accountID proxy =
     (case proxy of
        None \<Rightarrow> ''direct:'' @ accountID
      | Some p \<Rightarrow> pc_type p @ ''://'' @ pc_host p @ '':'' @ itoa (pc_port p) @ ''/'' @ accountID)"

definition transportKey :: "account \<Rightarrow> string" where
  "transportKey acct = proxy_key (ac_id acct) (TransportProxy (Some acct))"

definition buildRoundTripper :: "nat \<Rightarrow> account \<Rightarrow> round_tripper" where
  "buildRoundTripper n acct = \<lparr> rt_object = n, rt_account = ac_id acct, rt_proxy = TransportProxy (Some acct) \<rparr>"

definition getRoundTripper :: "gotime \<Rightarrow> account \<Rightarrow> transport_pool \<Rightarrow> round_tripper \<times> transport_pool" where
  "getRoundTripper now acct m =
     (let key = transportKey acct in
      case tp_entries m key of
        Some (rt, _) \<Rightarrow> (rt, m\<lparr>tp_entries := (tp_entries m)(key \<mapsto> (rt, now))\<rparr>)
      | None \<Rightarrow>
          (let rt = buildRoundTripper (tp_built m) acct in
           (rt, m\<lparr>tp_entries := (tp_entries m)(key \<mapsto> (rt, now)), tp_built := tp_built m + 1\<rparr>)))"

definition close_entry :: "(gotime \<Rightarrow> bool) \<Rightarrow> transport_pool \<Rightarrow> string \<Rightarrow> transport_pool" where
  "close_entry idle m key =
     (case tp_entries m key of
        Some (rt, t) \<Rightarrow>
          (if idle t then m\<lparr>tp_entries := (tp_entries m)(key := None), tp_closed := tp_closed m @ [rt_object rt]\<rparr> else m)
      | None \<Rightarrow> m)"

definition tp_cleanup :: "gotime \<Rightarrow> duration \<Rightarrow> string list \<Rightarrow> transport_pool \<Rightarrow> transport_pool" where
  "tp_cleanup now idleTimeout ord m = foldl (close_entry (\<lambda>t. t < now - idleTimeout)) m ord"

definition tp_Close :: "string list \<Rightarrow> transport_pool \<Rightarrow> transport_pool" where
  "tp_Close ord m = foldl (close_entry (\<lambda>_. True)) m ord"

definition idle_timeout :: duration where "idle_timeout = 5 * minute"

section \<open>The keys\<close>

text \<open>Where a transport connects to: the credentials of the proxy are not part of it.\<close>

definition endpoint :: "proxy_config option \<Rightarrow> (string \<times> string \<times> int) option" where
  "endpoint = map_option (\<lambda>p. (pc_type p, pc_host p, pc_port p))"

text \<open>Account ids without a slash, proxy types without a colon.\<close>

definition plain :: "string \<Rightarrow> proxy_config option \<Rightarrow> bool" where
  "plain accountID proxy \<longleftrightarrow>
     CHR ''/'' \<notin> set accountID
     \<and> (case proxy of Some p \<Rightarrow> CHR '':'' \<notin> set (pc_type p) \<and> fits64 (pc_port p) | None \<Rightarrow> True)"

lemma split_first_unique:
  "s @ c # x = t @ c # y \<Longrightarrow> c \<notin> set s \<Longrightarrow> c \<notin> set t \<Longrightarrow> s = t \<and> x = y"
proof (induction s arbitrary: t)
  case Nil
  then show ?case by (cases t) auto
next
  case (Cons a s)
  then show ?case by (cases t) auto
qed

lemma split_last_unique:
  assumes "x @ c # s = y @ c # t" "c \<notin> set s" "c \<notin> set t"
  shows "x = y \<and> s = t"
proof -
  have "rev s @ c # rev x = rev t @ c # rev y" using arg_cong [OF assms(1), of rev] by simp
  from split_first_unique [OF this] assms(2,3) show ?thesis by simp
qed

lemma itoa_no_colon: "CHR '':'' \<notin> set (itoa n)"
proof -
  have "list_all is_digit (nat_digits k)" for k by (rule nat_digits_all)
  moreover have "\<not> is_digit CHR '':''" by code_simp
  ultimately show ?thesis by (auto simp: itoa_def list_all_iff)
qed

lemma itoa_inj: "itoa m = itoa n \<Longrightarrow> fits64 m \<Longrightarrow> fits64 n \<Longrightarrow> m = n"
  by (metis lit_int_itoa option.inject)

lemma proxy_key_inj:
  assumes "proxy_key i p = proxy_key j q" "plain i p" "plain j q"
  shows "i = j \<and> endpoint p = endpoint q"
proof (cases p)
  case None
  show ?thesis
  proof (cases q)
    case (Some b)
    have "CHR ''/'' \<in> set (proxy_key j q)" by (simp add: Some proxy_key_def)
    moreover have "CHR ''/'' \<notin> set (proxy_key i p)" using assms(2) by (simp add: None proxy_key_def plain_def)
    ultimately show ?thesis using assms(1) by simp
  qed (use assms None in \<open>simp add: proxy_key_def\<close>)
next
  case (Some a)
  show ?thesis
  proof (cases q)
    case None
    have "CHR ''/'' \<in> set (proxy_key i p)" by (simp add: Some proxy_key_def)
    moreover have "CHR ''/'' \<notin> set (proxy_key j q)" using assms(3) by (simp add: None proxy_key_def plain_def)
    ultimately show ?thesis using assms(1) by simp
  next
    fix b assume q: "q = Some b"
    have "(pc_type a @ ''://'' @ pc_host a @ '':'' @ itoa (pc_port a)) @ CHR ''/'' # i
        = (pc_type b @ ''://'' @ pc_host b @ '':'' @ itoa (pc_port b)) @ CHR ''/'' # j"
      using assms(1) by (simp add: Some q proxy_key_def)
    from split_last_unique [OF this] assms(2,3) have i: "i = j"
      and u: "pc_type a @ ''://'' @ pc_host a @ '':'' @ itoa (pc_port a)
            = pc_type b @ ''://'' @ pc_host b @ '':'' @ itoa (pc_port b)" by (simp_all add: plain_def)
    have "(pc_type a @ ''://'' @ pc_host a) @ CHR '':'' # itoa (pc_port a)
        = (pc_type b @ ''://'' @ pc_host b) @ CHR '':'' # itoa (pc_port b)" using u by simp
    from split_last_unique [OF this itoa_no_colon itoa_no_colon]
    have v: "pc_type a @ ''://'' @ pc_host a = pc_type b @ ''://'' @ pc_host b" "itoa (pc_port a) = itoa (pc_port b)" by blast+
    have "pc_type a @ CHR '':'' # (''//'' @ pc_host a) = pc_type b @ CHR '':'' # (''//'' @ pc_host b)" using v(1) by simp
    from split_first_unique [OF this] assms(2,3) have "pc_type a = pc_type b" "pc_host a = pc_host b"
      by (simp_all add: Some q plain_def)
    with i itoa_inj [OF v(2)] assms(2,3) show ?thesis by (simp add: Some q endpoint_def plain_def)
  qed
qed

section \<open>The cache as a transition system\<close>

inductive transport_step :: "transport_pool \<Rightarrow> transport_pool \<Rightarrow> bool" where
  step_get: "plain (ac_id acct) (TransportProxy (Some acct)) \<Longrightarrow> transport_step m (snd (getRoundTripper now acct m))"
| step_cleanup: "transport_step m (tp_cleanup now idle ord m)"
| step_close: "transport_step m (tp_Close ord m)"

inductive transport_reach :: "transport_pool \<Rightarrow> bool" where
  reach_new: "transport_reach NewPool"
| reach_step: "transport_reach m \<Longrightarrow> transport_step m m' \<Longrightarrow> transport_reach m'"

inductive_cases transport_stepE: "transport_step m m'"

definition transport_inv :: "transport_pool \<Rightarrow> bool" where
  "transport_inv m \<longleftrightarrow>
     (\<forall>key rt t. tp_entries m key = Some (rt, t) \<longrightarrow>
        key = proxy_key (rt_account rt) (rt_proxy rt) \<and> plain (rt_account rt) (rt_proxy rt) \<and> rt_object rt < tp_built m)"

lemma inv_close_entry: "transport_inv m \<Longrightarrow> transport_inv (close_entry idle m key)"
  by (auto simp: transport_inv_def close_entry_def split: option.splits if_splits)

lemma inv_close_entries: "transport_inv m \<Longrightarrow> transport_inv (foldl (close_entry idle) m ord)"
  by (induction ord arbitrary: m) (simp_all add: inv_close_entry)

lemma inv_get:
  "transport_inv m \<Longrightarrow> plain (ac_id acct) (TransportProxy (Some acct)) \<Longrightarrow> transport_inv (snd (getRoundTripper now acct m))"
  by (auto simp: transport_inv_def getRoundTripper_def buildRoundTripper_def transportKey_def Let_def
      split: option.splits if_splits prod.splits) (metis less_SucI)+

lemma transport_reach_inv: "transport_reach m \<Longrightarrow> transport_inv m"
proof (induction rule: transport_reach.induct)
  case reach_new
  show ?case by (simp add: transport_inv_def NewPool_def)
next
  case (reach_step m m')
  from reach_step.hyps(2) reach_step.IH show ?case
    by (cases rule: transport_step.cases) (simp_all add: inv_get inv_close_entries tp_cleanup_def tp_Close_def)
qed



section \<open>Reuse\<close>

lemma key_of_endpoint:
  "endpoint (TransportProxy (Some a)) = endpoint (TransportProxy (Some b)) \<Longrightarrow> ac_id a = ac_id b \<Longrightarrow> transportKey a = transportKey b"
  by (cases "TransportProxy (Some a)"; cases "TransportProxy (Some b)")
    (simp_all add: endpoint_def transportKey_def proxy_key_def)

text \<open>
  A changed password of the proxy does not reach the connections: a request after the change gets the transport
  that was built with the old one, as long as the entry is in use.
\<close>

theorem changed_credentials_ignored:
  assumes "getRoundTripper t1 acct m = (rt, m1)" "ac_id acct' = ac_id acct"
    and "endpoint (TransportProxy (Some acct')) = endpoint (TransportProxy (Some acct))"
  shows "fst (getRoundTripper t2 acct' m1) = rt"
proof -
  have "transportKey acct' = transportKey acct" by (rule key_of_endpoint) (simp_all add: assms)
  moreover have "\<exists>t. tp_entries m1 (transportKey acct) = Some (rt, t)"
    using assms(1) by (auto simp: getRoundTripper_def Let_def split: option.splits)
  ultimately show ?thesis by (auto simp: getRoundTripper_def Let_def)
qed

lemma close_entries_keep:
  "tp_entries m key = Some (rt, t) \<Longrightarrow> \<not> idle t \<Longrightarrow> tp_entries (foldl (close_entry idle) m ord) key = Some (rt, t)"
proof (induction ord arbitrary: m)
  case (Cons k ord)
  have "tp_entries (close_entry idle m k) key = Some (rt, t)"
    using Cons.prems by (auto simp: close_entry_def split: option.split)
  with Cons show ?case by simp
qed simp

text \<open>A transport that was used within the idle time survives the clean-up and is used again.\<close>

theorem transport_reused:
  assumes "getRoundTripper t1 acct m = (rt, m1)" "t2 - idle_timeout \<le> t1"
  shows "fst (getRoundTripper t3 acct (tp_cleanup t2 idle_timeout ord m1)) = rt"
proof -
  have "tp_entries m1 (transportKey acct) = Some (rt, t1)"
    using assms(1) by (auto simp: getRoundTripper_def Let_def split: option.splits)
  then have "tp_entries (tp_cleanup t2 idle_timeout ord m1) (transportKey acct) = Some (rt, t1)"
    unfolding tp_cleanup_def by (rule close_entries_keep) (use assms(2) in simp)
  then show ?thesis by (simp add: getRoundTripper_def Let_def)
qed

definition sample_proxied :: "string \<Rightarrow> account" where
  "sample_proxied i =
     \<lparr> ac_id = i, ac_email = i, ac_provider = ProviderClaude, ac_status = StatusActive, ac_priority = 0,
       ac_priority_mode = ''manual'', ac_error_message = [], ac_bucket_key = [],
       ac_refresh_token_enc = [], ac_access_token_enc = [], ac_expires_at = 0,
       ac_created_at = 0, ac_last_used_at = None, ac_last_refresh_at = None, ac_proxy_json = [],
       ac_cell_id = [], ac_identity_json = [], ac_subject = i, ac_cooldown_until = None,
       ac_provider_state_json = [],
       ac_proxy = Some \<lparr> pc_type = ''socks5'', pc_host = ''10.0.0.1'', pc_port = 1080, pc_username = ''u'', pc_password = ''old'' \<rparr>,
       ac_identity = None, ac_cell = None \<rparr>"


end
