(* ===== verification/Watchdog.thy ===== *)
theory Watchdog
  imports Domain
begin

text \<open>
  The watchdog of the local egress cells (src/internal/localcellwatchdog/watchdog.go): it probes each local cell,
  repairs the address and the proxy service of one that fails, and clears the cooldown of one that works.  What
  it does to the broker and to the system is a list of actions in the order of the calls; what they answer is an
  input, the probes by their number.  Durations and the log are not modelled; the wait before a further
  probe either ends or is cancelled.
\<close>

record watched_cell =
  wc_id :: string
  wc_status :: string
  wc_proxy :: "proxy_config option"
  wc_labels :: "string \<rightharpoonup> string"
  wc_cooldown_until :: "gotime option"

definition label :: "watched_cell \<Rightarrow> string \<Rightarrow> string" where
  "label c k = trim_space (case wc_labels c k of Some v \<Rightarrow> v | None \<Rightarrow> [])"

definition isTargetCell :: "watched_cell \<Rightarrow> bool" where
  "isTargetCell c \<longleftrightarrow>
     trim_space (wc_status c) = ''active''
     \<and> (case wc_proxy c of
          None \<Rightarrow> False
        | Some p \<Rightarrow> trim_space (pc_type p) = ''socks5'' \<and> trim_space (pc_host p) = ''127.0.0.1'' \<and> 0 < pc_port p
                   \<and> label c ''transport'' = ''local-danted'' \<and> label c ''ipv6'' \<noteq> [])"

definition TargetCells :: "watched_cell list \<Rightarrow> watched_cell list" where
  "TargetCells cells = filter isTargetCell cells"

definition ServiceNameForPort :: "int \<Rightarrow> string option" where
  "ServiceNameForPort port =
     (if port = 11080 then Some ''danted-linda.service''
      else if port = 11082 then Some ''danted-cell-uk-linode-02-local.service''
      else if port = 11083 then Some ''danted-cell-uk-linode-03-local.service''
      else None)"

datatype watch_action =
    TestCell string
  | IPv6Present string
  | AddIPv6 string
  | RestartService string
  | WClearCooldown string

text \<open>The answers while one cell is looked after; \<open>we_probe n\<close> is the answer to its probe number \<open>n\<close>.\<close>

record watch_env =
  we_probe :: "nat \<Rightarrow> err + bool"
  we_present :: "err + bool"
  we_add :: "err option"
  we_restart :: "err option"
  we_clear :: "err option"
  we_cancelled :: "nat \<Rightarrow> err option"   \<comment> \<open>while it waits after the probe\<close>

definition repair_retries :: "int \<Rightarrow> nat" where
  "repair_retries n = (if n \<le> 0 then 5 else nat n)"

definition clearCooldownIfNeeded :: "watch_env \<Rightarrow> watched_cell \<Rightarrow> err option \<times> watch_action list" where
  "clearCooldownIfNeeded env c =
     (if wc_cooldown_until c = None then (None, []) else (we_clear env, [WClearCooldown (wc_id c)]))"

text \<open>The probes after a repair: \<open>n\<close> are left, the next one has the number \<open>i\<close>.\<close>

fun probeAfterRepair :: "watch_env \<Rightarrow> string \<Rightarrow> nat \<Rightarrow> nat \<Rightarrow> (err + bool) \<times> watch_action list" where
  "probeAfterRepair env cid i 0 = (Inr False, [])"
| "probeAfterRepair env cid i (Suc n) =
     (case we_probe env i of
        Inl e \<Rightarrow> (Inl e, [TestCell cid])
      | Inr ok \<Rightarrow>
          (if ok then (Inr True, [TestCell cid])
           else if n = 0 then (Inr False, [TestCell cid])
           else (case we_cancelled env i of
                   Some e \<Rightarrow> (Inl e, [TestCell cid])
                 | None \<Rightarrow> (case probeAfterRepair env cid (i + 1) n of (r, acts) \<Rightarrow> (r, TestCell cid # acts)))))"

definition after_restart :: "watch_env \<Rightarrow> nat \<Rightarrow> watched_cell \<Rightarrow> err option \<times> watch_action list" where
  "after_restart env retries c =
     (case probeAfterRepair env (wc_id c) 1 retries of
        (Inl e, acts) \<Rightarrow> (Some e, acts)
      | (Inr ok, acts) \<Rightarrow>
          (if ok then (case clearCooldownIfNeeded env c of (r, more_acts) \<Rightarrow> (r, acts @ more_acts)) else (None, acts)))"

definition restart_and_check :: "watch_env \<Rightarrow> nat \<Rightarrow> string \<Rightarrow> watched_cell \<Rightarrow> err option \<times> watch_action list" where
  "restart_and_check env retries service c =
     (case we_restart env of
        Some e \<Rightarrow> (Some e, [RestartService service])
      | None \<Rightarrow> (case after_restart env retries c of (r, acts) \<Rightarrow> (r, RestartService service # acts)))"

definition repair :: "watch_env \<Rightarrow> nat \<Rightarrow> string \<Rightarrow> string \<Rightarrow> watched_cell \<Rightarrow> err option \<times> watch_action list" where
  "repair env retries ipv6 service c =
     (case we_present env of
        Inl e \<Rightarrow> (Some e, [IPv6Present ipv6])
      | Inr present \<Rightarrow>
          (case (if present then None else we_add env) of
             Some e \<Rightarrow> (Some e, [IPv6Present ipv6, AddIPv6 ipv6])
           | None \<Rightarrow>
               (case restart_and_check env retries service c of
                  (r, acts) \<Rightarrow> (r, [IPv6Present ipv6] @ (if present then [] else [AddIPv6 ipv6]) @ acts))))"

definition reconcileCell :: "watch_env \<Rightarrow> nat \<Rightarrow> watched_cell \<Rightarrow> err option \<times> watch_action list" where
  "reconcileCell env retries c =
     (let ipv6 = label c ''ipv6'' in
      case (case wc_proxy c of Some p \<Rightarrow> ServiceNameForPort (pc_port p) | None \<Rightarrow> None) of
        None \<Rightarrow> (None, [])
      | Some service \<Rightarrow>
          (if ipv6 = [] then (None, [])
           else (case we_probe env 0 of
                   Inl e \<Rightarrow> (Some e, [TestCell (wc_id c)])
                 | Inr ok \<Rightarrow>
                     (case (if ok then clearCooldownIfNeeded env c else repair env retries ipv6 service c) of
                        (r, acts) \<Rightarrow> (r, TestCell (wc_id c) # acts)))))"

text \<open>One run: the answers of the cells by their position; the result is the first error.\<close>

definition run_cell ::
  "(nat \<Rightarrow> watch_env) \<Rightarrow> nat \<Rightarrow> err option \<times> watch_action list \<Rightarrow> nat \<times> watched_cell \<Rightarrow> err option \<times> watch_action list" where
  "run_cell envs retries s ic =
     (case reconcileCell (envs (fst ic)) retries (snd ic) of
        (r, acts) \<Rightarrow> (if fst s = None then r else fst s, snd s @ acts))"

definition RunOnce :: "(nat \<Rightarrow> watch_env) \<Rightarrow> nat \<Rightarrow> err + watched_cell list \<Rightarrow> err option \<times> watch_action list" where
  "RunOnce envs retries listed =
     (case listed of
        Inl e \<Rightarrow> (Some e, [])
      | Inr cells \<Rightarrow> foldl (run_cell envs retries) (None, []) (List.enumerate 0 (TargetCells cells)))"

section \<open>What one cell sees\<close>

definition probes :: "watch_action list \<Rightarrow> nat" where
  "probes acts = length (filter (\<lambda>a. case a of TestCell _ \<Rightarrow> True | _ \<Rightarrow> False) acts)"

lemma probes_simps [simp]:
  "probes [] = 0" "probes (TestCell i # acts) = Suc (probes acts)" "probes (IPv6Present a # acts) = probes acts"
  "probes (AddIPv6 a # acts) = probes acts" "probes (RestartService s # acts) = probes acts"
  "probes (WClearCooldown i # acts) = probes acts" "probes (xs @ ys) = probes xs + probes ys"
  by (simp_all add: probes_def)

lemma probe_loop:
  "probeAfterRepair env cid i n = (r, acts) \<Longrightarrow>
     acts = replicate (probes acts) (TestCell cid) \<and> probes acts \<le> n
     \<and> (r = Inr True \<longrightarrow> 0 < probes acts \<and> we_probe env (i + probes acts - 1) = Inr True)
     \<and> (\<forall>k. i \<le> k \<and> k + 1 < i + probes acts \<longrightarrow> we_probe env k = Inr False)"
proof (induction env cid i n arbitrary: r acts rule: probeAfterRepair.induct)
  case (1 env cid i)
  then show ?case by auto
next
  case (2 env cid i n)
  show ?case
  proof (cases "we_probe env i = Inr False \<and> n \<noteq> 0 \<and> we_cancelled env i = None")
    case True
    obtain r' acts' where rec: "probeAfterRepair env cid (i + 1) n = (r', acts')" by fastforce
    with 2 True have eq: "r = r'" "acts = TestCell cid # acts'" by auto
    from "2.IH" [OF _ _ _ _ rec] True have
      ih: "acts' = replicate (probes acts') (TestCell cid)" "probes acts' \<le> n"
        "r' = Inr True \<longrightarrow> 0 < probes acts' \<and> we_probe env (i + 1 + probes acts' - 1) = Inr True"
        "\<forall>k. i + 1 \<le> k \<and> k + 1 < i + 1 + probes acts' \<longrightarrow> we_probe env k = Inr False" by auto
    have last: "we_probe env k = Inr False" if "i \<le> k" "k + 1 < i + probes acts" for k
      using ih(4) True that eq by (cases "k = i") auto
    show ?thesis using ih(1-3) last eq by auto
  next
    case False
    with 2(2) have "acts = [TestCell cid]" "r = Inr True \<longrightarrow> we_probe env i = Inr True"
      by (auto split: sum.splits if_splits option.splits)
    then show ?thesis by auto
  qed
qed

lemma restart_actions:
  assumes "restart_and_check env retries service c = (r, acts)" "probeAfterRepair env (wc_id c) 1 retries = (r', probed)"
  shows "acts = [RestartService service]
    \<or> acts = RestartService service # probed
    \<or> acts = RestartService service # probed @ [WClearCooldown (wc_id c)] \<and> r' = Inr True \<and> wc_cooldown_until c \<noteq> None"
  using assms
  by (auto simp: restart_and_check_def after_restart_def clearCooldownIfNeeded_def
      split: option.splits sum.splits if_splits prod.splits)

lemma repair_actions:
  assumes "repair env retries ip service c = (r, acts)" "restart_and_check env retries service c = (r', restarted)"
  shows "acts = [IPv6Present ip] \<or> acts = [IPv6Present ip, AddIPv6 ip] \<and> we_present env = Inr False
    \<or> (\<exists>as. acts = IPv6Present ip # as @ restarted \<and> (as = [] \<or> as = [AddIPv6 ip] \<and> we_present env = Inr False))"
  using assms by (auto simp: repair_def split: sum.splits option.splits if_splits)

text \<open>The watchdog only intervenes with a reason. While it looks after a cell, it clears the cooldown only as its last
  action, only if there is one, and only when the probe just before succeeded; it touches addresses and
  services only after the first probe failed, restarts only the service of the cell's own port, and
  probes at most once more than the configured number of retries.\<close>
theorem watchdog_intervenes:
  "case reconcileCell env retries c of (r, acts) \<Rightarrow>
     probes acts \<le> retries + 1
     \<and> list_all (\<lambda>a. case a of
          TestCell i \<Rightarrow> i = wc_id c
        | WClearCooldown i \<Rightarrow> i = wc_id c \<and> wc_cooldown_until c \<noteq> None \<and> a = last acts
            \<and> we_probe env (probes acts - 1) = Inr True
        | RestartService s \<Rightarrow> we_probe env 0 = Inr False
            \<and> (case wc_proxy c of Some p \<Rightarrow> ServiceNameForPort (pc_port p) = Some s | None \<Rightarrow> False)
        | AddIPv6 ip \<Rightarrow> we_probe env 0 = Inr False \<and> we_present env = Inr False \<and> ip = label c ''ipv6''
        | IPv6Present ip \<Rightarrow> we_probe env 0 = Inr False) acts"
proof (cases "reconcileCell env retries c")
  case (Pair r acts)
  show ?thesis
  proof (cases "acts = []")
    case False
    with Pair obtain p service where p: "wc_proxy c = Some p" "ServiceNameForPort (pc_port p) = Some service" "label c ''ipv6'' \<noteq> []"
      by (auto simp: reconcileCell_def Let_def split: option.splits if_splits)
    show ?thesis
    proof (cases "we_probe env 0")
      case (Inl e)
      with Pair p show ?thesis by (auto simp: reconcileCell_def Let_def)
    next
      case (Inr ok)
      show ?thesis
      proof (cases ok)
        case True
        with Inr Pair p show ?thesis
          by (auto simp: reconcileCell_def Let_def clearCooldownIfNeeded_def split: if_splits)
      next
        case False
        obtain r1 acts1 where rep: "repair env retries (label c ''ipv6'') service c = (r1, acts1)" by fastforce
        have acts: "acts = TestCell (wc_id c) # acts1" using Inr Pair p False rep by (simp add: reconcileCell_def Let_def)
        obtain r2 acts2 where res: "restart_and_check env retries service c = (r2, acts2)" by fastforce
        obtain r3 acts3 where pr: "probeAfterRepair env (wc_id c) 1 retries = (r3, acts3)" by fastforce
        note loop = probe_loop [OF pr]
        have l3: "\<forall>a \<in> set acts3. a = TestCell (wc_id c)" using loop by (metis in_set_replicate)
        have f: "we_probe env 0 = Inr False" using Inr False by simp
        show ?thesis
          using repair_actions [OF rep res] restart_actions [OF res pr] acts l3 loop f p
          by (auto simp: Pair list_all_iff split: watch_action.split)
      qed
    qed
  qed (use Pair in simp)
qed


text \<open>One broken cell does not hide the others: every local cell is looked after, whatever the ones before it answered.\<close>

lemma run_cells:
  "snd (foldl (run_cell envs retries) (r, acts) ics)
     = acts @ concat (map (\<lambda>ic. snd (reconcileCell (envs (fst ic)) retries (snd ic))) ics)"
proof (induction ics arbitrary: r acts)
  case (Cons ic ics)
  obtain r1 a1 where "reconcileCell (envs (fst ic)) retries (snd ic) = (r1, a1)" by fastforce
  with Cons show ?case by (simp add: run_cell_def)
qed simp

theorem run_looks_after_all:
  "snd (RunOnce envs retries (Inr cells))
     = concat (map (\<lambda>ic. snd (reconcileCell (envs (fst ic)) retries (snd ic))) (List.enumerate 0 (TargetCells cells)))"
  by (simp add: RunOnce_def run_cells)


section \<open>The configuration of the command\<close>

text \<open>
  The command (src/cmd/local-cell-watchdog/main.go) takes its configuration from the environment, a file and the health
  check of the broker; \<open>env\<close> is the value of a variable (blank when unset), \<open>health\<close> the status that a
  base URL answers with, if it does.
\<close>

record watch_config =
  wf_base_url :: string
  wf_token :: string
  wf_iface :: string

definition envOr :: "(string \<Rightarrow> string) \<Rightarrow> string \<Rightarrow> string \<Rightarrow> string" where
  "envOr env key fallback = (if trim_space (env key) = [] then fallback else trim_space (env key))"

definition env_line :: "string \<Rightarrow> string \<Rightarrow> string option" where
  "env_line key line =
     (let l = trim_space line in
      if l = [] \<or> has_prefix l ''#'' \<or> \<not> has_prefix l (key @ ''='') then None
      else Some (trim_space (drop (length key + 1) l)))"

definition envFileValue :: "(string \<Rightarrow> err + string) \<Rightarrow> string \<Rightarrow> string \<Rightarrow> err + string" where
  "envFileValue read_file path key =
     (case read_file path of
        Inl e \<Rightarrow> Inl (''read '' @ path @ '': '' @ e)
      | Inr data \<Rightarrow>
          (case List.find (\<lambda>l. env_line key l \<noteq> None) (split_char (CHR 0x0A) data) of
             Some l \<Rightarrow> Inr (the (env_line key l))
           | None \<Rightarrow> Inl (key @ '' not found in '' @ path)))"

definition detectBrokerBaseURL :: "(string \<Rightarrow> int option) \<Rightarrow> err + string" where
  "detectBrokerBaseURL health =
     (case List.find (\<lambda>u. health u = Some 200)
             [''http://127.0.0.1:3002'', ''http://127.0.0.1:3001'', ''http://127.0.0.1:3000''] of
        Some u \<Rightarrow> Inr u
      | None \<Rightarrow> Inl ''failed to detect broker admin base URL'')"

definition config_token :: "(string \<Rightarrow> string) \<Rightarrow> (string \<Rightarrow> err + string) \<Rightarrow> err + string" where
  "config_token env read_file =
     (let token = trim_space (env ''BROKER_API_TOKEN'') in
      if token \<noteq> [] then Inr token
      else envFileValue read_file (envOr env ''BROKER_ENV_FILE'' ''/etc/llm-broker.env'') ''API_TOKEN'')"

definition loadConfig :: "(string \<Rightarrow> string) \<Rightarrow> (string \<Rightarrow> err + string) \<Rightarrow> (string \<Rightarrow> int option) \<Rightarrow> err + watch_config" where
  "loadConfig env read_file health =
     (case config_token env read_file of
        Inl e \<Rightarrow> Inl e
      | Inr token \<Rightarrow>
          (if token = [] then Inl ''missing broker API token''
           else (case (if trim_space (env ''BROKER_URL'') \<noteq> [] then Inr (trim_space (env ''BROKER_URL'')) else detectBrokerBaseURL health) of
                   Inl e \<Rightarrow> Inl e
                 | Inr baseURL \<Rightarrow>
                     Inr \<lparr> wf_base_url = rev (dropWhile (\<lambda>c. c = CHR ''/'') (rev baseURL)), wf_token = token,
                           wf_iface = envOr env ''WATCHDOG_IFACE'' ''eth0'' \<rparr>)))"

text \<open>A configuration has a token and a base URL to which a path can be appended.\<close>

lemma config_sound:
  assumes "loadConfig env read_file health = Inr c"
  shows "wf_token c \<noteq> [] \<and> (wf_base_url c = [] \<or> last (wf_base_url c) \<noteq> CHR ''/'')"
proof -
  have e: "rev (dropWhile (\<lambda>c. c = CHR ''/'') xs) = [] \<or> last (rev (dropWhile (\<lambda>c. c = CHR ''/'') xs)) \<noteq> CHR ''/''" for xs
    by (induction xs) auto
  from assms obtain u where "wf_base_url c = rev (dropWhile (\<lambda>c. c = CHR ''/'') (rev u))" "wf_token c \<noteq> []"
    unfolding loadConfig_def by (simp split: sum.splits if_splits) (auto simp del: rev.simps)
  with e [of "rev u"] show ?thesis by simp
qed

end
