(* ===== verification/LogHandler.thy ===== *)
theory LogHandler
  imports Events
begin

text \<open>
  The handler of structured logs (src/internal/events/loghandler.go): it passes a record on, keeps the last lines
  in a ring and offers every line to subscribers.  A derived handler (WithAttrs, WithGroup) copies the position, the
  count and the next id of its parent, but shares the ring and the map of subscribers; so the state is that of the
  whole family of a root handler, and a handler is its number in it.  The inner handler is what it answers.  The
  value of an attribute is opaque.  Each operation is atomic; that the handlers of a family have separate mutexes
  is not modelled.
\<close>

record 'v log_record =
  lr_level :: int
  lr_message :: string
  lr_time :: gotime
  lr_attrs :: "(string \<times> 'v) list"

record 'v log_line =
  ln_level :: string
  ln_message :: string
  ln_time :: gotime
  ln_attrs :: "(string \<rightharpoonup> 'v) option"

record 'v log_handler =
  lh_pos :: nat
  lh_count :: nat
  lh_next :: nat
  lh_attrs :: "(string \<times> 'v) list"
  lh_groups :: "string list"

text \<open>A channel is the list of the lines that wait in it, and whether it is closed.\<close>

record 'v log_family =
  lf_level :: int
  lf_ring :: "'v log_line list"
  lf_size :: nat
  lf_subs :: "(nat \<times> nat) list"
  lf_chans :: "('v log_line list \<times> bool) list"
  lf_handlers :: "'v log_handler list"

definition empty_line :: "'v log_line" where
  "empty_line = \<lparr> ln_level = [], ln_message = [], ln_time = zero_time, ln_attrs = None \<rparr>"

definition root_handler :: "'v log_handler" where
  "root_handler = \<lparr> lh_pos = 0, lh_count = 0, lh_next = 0, lh_attrs = [], lh_groups = [] \<rparr>"

definition log_capacity :: "int \<Rightarrow> nat" where
  "log_capacity sz = nat (if sz \<le> 0 then 1000 else sz)"

definition NewLogHandler :: "int \<Rightarrow> int \<Rightarrow> 'v log_family" where
  "NewLogHandler level sz =
     \<lparr> lf_level = level, lf_ring = replicate (log_capacity sz) empty_line, lf_size = log_capacity sz,
       lf_subs = [], lf_chans = [], lf_handlers = [root_handler] \<rparr>"

definition Enabled :: "'v log_family \<Rightarrow> int \<Rightarrow> bool" where
  "Enabled f level \<longleftrightarrow> lf_level f \<le> level"

text \<open>The name of a level in log/slog: the next lower named level and the distance to it.\<close>

definition level_from :: "string \<Rightarrow> int \<Rightarrow> string" where
  "level_from base d = (if d = 0 then base else if 0 < d then base @ ''+'' @ itoa d else base @ itoa d)"

definition level_string :: "int \<Rightarrow> string" where
  "level_string l =
     (if l < 0 then level_from ''DEBUG'' (l + 4) else if l < 4 then level_from ''INFO'' l
      else if l < 8 then level_from ''WARN'' (l - 4) else level_from ''ERROR'' (l - 8))"

definition groupPrefix :: "string list \<Rightarrow> string" where
  "groupPrefix groups = concat (map (\<lambda>g. g @ ''.'') groups)"

definition line_of :: "(string \<times> 'v) list \<Rightarrow> string list \<Rightarrow> 'v log_record \<Rightarrow> 'v log_line" where
  "line_of attrs groups r =
     (let m = foldl (\<lambda>m kv. m(groupPrefix groups @ fst kv \<mapsto> snd kv)) Map.empty (attrs @ lr_attrs r) in
      \<lparr> ln_level = level_string (lr_level r), ln_message = lr_message r, ln_time = lr_time r,
        ln_attrs = (if attrs @ lr_attrs r = [] then None else Some m) \<rparr>)"

definition deliver :: "'v log_line \<Rightarrow> ('v log_line list \<times> bool) list \<Rightarrow> nat \<Rightarrow> ('v log_line list \<times> bool) list" where
  "deliver line chans c =
     (if length (fst (chans ! c)) < 64 then chans[c := (fst (chans ! c) @ [line], snd (chans ! c))] else chans)"

definition Handle :: "err option \<Rightarrow> nat \<Rightarrow> 'v log_record \<Rightarrow> 'v log_family \<Rightarrow> err option \<times> 'v log_family" where
  "Handle inner n r f =
     (case inner of
        Some e \<Rightarrow> (Some e, f)
      | None \<Rightarrow>
          (let h = lf_handlers f ! n; line = line_of (lh_attrs h) (lh_groups h) r in
           (None,
            f\<lparr> lf_ring := (lf_ring f)[lh_pos h := line],
               lf_handlers := (lf_handlers f)[n := h\<lparr> lh_pos := (lh_pos h + 1) mod lf_size f,
                 lh_count := (if lh_count h < lf_size f then lh_count h + 1 else lh_count h) \<rparr>],
               lf_chans := foldl (deliver line) (lf_chans f) (map snd (lf_subs f)) \<rparr>)))"

definition derive :: "'v log_handler \<Rightarrow> 'v log_family \<Rightarrow> nat \<times> 'v log_family" where
  "derive h f = (length (lf_handlers f), f\<lparr>lf_handlers := lf_handlers f @ [h]\<rparr>)"

definition WithAttrs :: "nat \<Rightarrow> (string \<times> 'v) list \<Rightarrow> 'v log_family \<Rightarrow> nat \<times> 'v log_family" where
  "WithAttrs n attrs f = (let h = lf_handlers f ! n in derive (h\<lparr>lh_attrs := lh_attrs h @ attrs\<rparr>) f)"

definition WithGroup :: "nat \<Rightarrow> string \<Rightarrow> 'v log_family \<Rightarrow> nat \<times> 'v log_family" where
  "WithGroup n name f =
     (if name = [] then (n, f)
      else (let h = lf_handlers f ! n in derive (h\<lparr>lh_groups := lh_groups h @ [name]\<rparr>) f))"

definition recent_lines :: "nat \<Rightarrow> 'v log_family \<Rightarrow> 'v log_line list" where
  "recent_lines n f =
     (let h = lf_handlers f ! n in
      if lh_count h = 0 then [] else ring_view (lf_ring f) (lf_size f) (lh_pos h) (lh_count h))"

text \<open>Subscribe returns the id, the channel and the recent lines.\<close>

definition Subscribe_log :: "nat \<Rightarrow> 'v log_family \<Rightarrow> (nat \<times> nat \<times> 'v log_line list) \<times> 'v log_family" where
  "Subscribe_log n f =
     (let h = lf_handlers f ! n; c = length (lf_chans f) in
      ((lh_next h, c, recent_lines n f),
       f\<lparr> lf_handlers := (lf_handlers f)[n := h\<lparr>lh_next := lh_next h + 1\<rparr>],
          lf_chans := lf_chans f @ [([], False)],
          lf_subs := AList.update (lh_next h) c (lf_subs f) \<rparr>))"

definition Unsubscribe_log :: "nat \<Rightarrow> 'v log_family \<Rightarrow> 'v log_family" where
  "Unsubscribe_log i f =
     (case map_of (lf_subs f) i of
        None \<Rightarrow> f
      | Some c \<Rightarrow> f\<lparr> lf_subs := AList.delete i (lf_subs f), lf_chans := (lf_chans f)[c := (fst (lf_chans f ! c), True)] \<rparr>)"

section \<open>One handler\<close>

definition handler_ok :: "nat \<Rightarrow> (string \<times> 'v) list \<Rightarrow> string list \<Rightarrow> 'v log_family \<Rightarrow> bool" where
  "handler_ok n attrs groups f \<longleftrightarrow> n < length (lf_handlers f) \<and> length (lf_ring f) = lf_size f
     \<and> lh_pos (lf_handlers f ! n) < lf_size f \<and> lh_count (lf_handlers f ! n) \<le> lf_size f
     \<and> lh_attrs (lf_handlers f ! n) = attrs \<and> lh_groups (lf_handlers f ! n) = groups"

definition log_at :: "nat \<Rightarrow> 'v log_record \<Rightarrow> 'v log_family \<Rightarrow> 'v log_family" where
  "log_at n r f = snd (Handle None n r f)"

lemma recent_lines_view:
  "recent_lines n f = ring_view (lf_ring f) (lf_size f) (lh_pos (lf_handlers f ! n)) (lh_count (lf_handlers f ! n))"
  by (simp add: recent_lines_def Let_def)

lemma log_at_fields [simp]:
  "lf_size (log_at n r f) = lf_size f" "length (lf_handlers (log_at n r f)) = length (lf_handlers f)"
  "lf_subs (log_at n r f) = lf_subs f"
  by (simp_all add: log_at_def Handle_def Let_def)

interpretation lg: event_log "handler_ok n attrs groups" "log_at n" "line_of attrs groups" "recent_lines n" lf_size
  for n attrs groups
proof unfold_locales
  fix f :: "'a log_family" and r
  assume ok: "handler_ok n attrs groups f"
  then show "handler_ok n attrs groups (log_at n r f)"
    by (auto simp: handler_ok_def log_at_def Handle_def Let_def)
  show "recent_lines n (log_at n r f) = lastn (lf_size f) (recent_lines n f @ [line_of attrs groups r])"
    using ok ring_view_push [of "lf_ring f" "lf_size f" "lh_pos (lf_handlers f ! n)" "lh_count (lf_handlers f ! n)"]
    by (simp add: recent_lines_view handler_ok_def log_at_def Handle_def Let_def)
  show "length (recent_lines n f) \<le> lf_size f" using ok by (simp add: recent_lines_view handler_ok_def)
qed simp

lemma handler_ok_New: "handler_ok 0 [] [] (NewLogHandler level sz)"
  by (simp add: handler_ok_def NewLogHandler_def root_handler_def log_capacity_def)

text \<open>As long as only the root handler logs, it reports the last lines, in order.\<close>

theorem log_keeps_last:
  "recent_lines 0 (fold (log_at 0) rs (NewLogHandler level sz)) = lastn (log_capacity sz) (map (line_of [] []) rs)"
  by (subst lg.recent_fold [OF handler_ok_New])
    (simp add: recent_lines_view NewLogHandler_def root_handler_def)

section \<open>Subscribers\<close>

definition subs_open :: "'v log_family \<Rightarrow> bool" where
  "subs_open f \<longleftrightarrow> distinct (map snd (lf_subs f))
     \<and> (\<forall>s \<in> set (lf_subs f). snd s < length (lf_chans f) \<and> \<not> snd (lf_chans f ! snd s))"

lemma length_deliver [simp]: "length (deliver line cs c) = length cs"
  by (simp add: deliver_def)

lemma deliver_open [simp]: "snd (deliver line cs c ! d) = snd (cs ! d)"
  by (cases "c < length cs") (simp_all add: deliver_def nth_list_update list_update_beyond)

lemma deliver_other: "d \<noteq> c \<Longrightarrow> deliver line cs c ! d = cs ! d"
  by (simp add: deliver_def)

lemma foldl_deliver_parts [simp]:
  "length (foldl (deliver line) cs xs) = length cs" "snd (foldl (deliver line) cs xs ! d) = snd (cs ! d)"
  by (induction xs arbitrary: cs) simp_all

lemma foldl_deliver_other: "d \<notin> set xs \<Longrightarrow> foldl (deliver line) cs xs ! d = cs ! d"
  by (induction xs arbitrary: cs) (auto simp: deliver_other)

text \<open>No line is sent on a closed channel: the operations keep the channels of the subscribers open.\<close>

lemma subs_open_New: "subs_open (NewLogHandler level sz)"
  by (simp add: subs_open_def NewLogHandler_def)

lemma subs_open_Handle: "subs_open f \<Longrightarrow> subs_open (snd (Handle inner n r f))"
  by (cases inner) (auto simp: subs_open_def Handle_def Let_def)

lemma set_update_subset: "set (AList.update k v al) \<subseteq> insert (k, v) (set al)"
  by (induction al) auto

lemma distinct_update_fresh:
  "distinct (map snd al) \<Longrightarrow> v \<notin> snd ` set al \<Longrightarrow> distinct (map snd (AList.update k v al))"
proof (induction al)
  case (Cons a al)
  moreover have "snd ` set (AList.update k v al) \<subseteq> insert v (snd ` set al)" using set_update_subset [of k v al] by force
  ultimately show ?case by auto
qed simp

lemma subs_open_Subscribe:
  assumes "subs_open f"
  shows "subs_open (snd (Subscribe_log n f))"
proof -
  let ?i = "lh_next (lf_handlers f ! n)" and ?c = "length (lf_chans f)"
  have "?c \<notin> snd ` set (lf_subs f)" using assms by (auto simp: subs_open_def)
  then have "distinct (map snd (AList.update ?i ?c (lf_subs f)))"
    using assms by (simp add: subs_open_def distinct_update_fresh)
  moreover have "snd s < ?c + 1 \<and> \<not> snd ((lf_chans f @ [([], False)]) ! snd s)"
    if "s \<in> set (AList.update ?i ?c (lf_subs f))" for s
    using that assms set_update_subset [of ?i ?c "lf_subs f"] by (auto simp: subs_open_def nth_append)
  ultimately show ?thesis by (auto simp: subs_open_def Subscribe_log_def Let_def)
qed

lemma subs_open_Unsubscribe:
  assumes "subs_open f"
  shows "subs_open (Unsubscribe_log i f)"
proof (cases "map_of (lf_subs f) i")
  case (Some c)
  have mem: "(i, c) \<in> set (lf_subs f)" using Some by (rule map_of_SomeD)
  have "snd s \<noteq> c" if "s \<in> set (lf_subs f)" "i \<noteq> fst s" for s
  proof
    assume "snd s = c"
    then have "s = (i, c)" using assms mem that(1) inj_onD [of snd "set (lf_subs f)" s "(i, c)"]
      by (simp add: subs_open_def distinct_map)
    with that(2) show False by simp
  qed
  moreover have "distinct (map snd (AList.delete i (lf_subs f)))"
    using assms by (simp add: subs_open_def AList.delete_eq distinct_map_filter)
  ultimately show ?thesis
    using assms Some by (fastforce simp: subs_open_def Unsubscribe_log_def AList.delete_eq nth_list_update_neq)
qed (use assms in \<open>simp add: Unsubscribe_log_def\<close>)

section \<open>Derived handlers\<close>

lemma derived_fields:
  assumes "WithAttrs n attrs f = (m, f1)" "n < length (lf_handlers f)"
  shows "m \<noteq> n" "m < length (lf_handlers f1)" "n < length (lf_handlers f1)" "lf_handlers f1 ! n = lf_handlers f ! n"
    "lh_pos (lf_handlers f1 ! m) = lh_pos (lf_handlers f ! n)" "lh_next (lf_handlers f1 ! m) = lh_next (lf_handlers f ! n)"
    "lf_size f1 = lf_size f" "lf_ring f1 = lf_ring f" "lf_subs f1 = lf_subs f" "lf_chans f1 = lf_chans f"
  using assms by (auto simp: WithAttrs_def derive_def Let_def nth_append)

text \<open>A line of a derived handler vanishes from what its parent reports: the next line of the parent is written over it.\<close>

theorem derived_line_vanishes:
  assumes "WithAttrs n attrs f = (m, f1)" "n < length (lf_handlers f)"
  shows "recent_lines n (log_at n r' (log_at m r f1)) = recent_lines n (log_at n r' f1)"
  using derived_fields [OF assms] by (simp add: recent_lines_view log_at_def Handle_def Let_def)

text \<open>A subscription at a derived handler can take the id of a subscription at its parent, whose channel gets nothing any more.\<close>

theorem derived_subscription_replaces:
  assumes "WithAttrs n attrs f = (m, f1)" "n < length (lf_handlers f)" "subs_open f"
    and "Subscribe_log n f1 = ((i, c, ls), f2)" "Subscribe_log m f2 = ((j, d, ls'), f3)"
  shows "j = i" "lf_chans (log_at k r f3) ! c = ([], False)"
proof -
  note d = derived_fields [OF assms(1,2)]
  have ij: "i = lh_next (lf_handlers f ! n)" "c = length (lf_chans f)" "d = Suc c"
    "j = lh_next (lf_handlers f ! n)" "lf_chans f3 = lf_chans f @ [([], False), ([], False)]"
    "lf_subs f3 = AList.update i d (AList.update i c (lf_subs f))"
    using assms(4,5) d by (auto simp: Subscribe_log_def Let_def)
  then show "j = i" by simp
  have "c \<notin> snd ` set (AList.update i d (lf_subs f))"
    using set_update_subset [of i d "lf_subs f"] assms(3) ij(2,3) by (fastforce simp: subs_open_def)
  then have "c \<notin> set (map snd (lf_subs f3))" unfolding ij(6) by simp
  then show "lf_chans (log_at k r f3) ! c = ([], False)"
    using ij(2,5) by (simp add: log_at_def Handle_def Let_def foldl_deliver_other del: set_map)
qed

text \<open>A group also qualifies the attributes that were added before it.\<close>

theorem group_requalifies:
  assumes "WithAttrs 0 [(''job'', x)] (NewLogHandler level sz) = (m, f1)" "WithGroup m ''http'' f1 = (k, f2)" "lr_attrs r = []"
  shows "ln_attrs (line_of (lh_attrs (lf_handlers f2 ! k)) (lh_groups (lf_handlers f2 ! k)) r) = Some [''http.job'' \<mapsto> x]"
  using assms by (auto simp: WithAttrs_def WithGroup_def derive_def Let_def NewLogHandler_def root_handler_def line_of_def groupPrefix_def)

end
