(* ===== verification/RequestLog.thy ===== *)
theory RequestLog
  imports RelayAttempt GoTime
begin

text \<open>
  The files of the request log (src/internal/requestlog/artifact.go):
  which requests get one, what it holds, where it is written and when it is purged.  A directory is a tree; what
  the operating system refuses is an input.  The payload is the JSON value, before it is indented.
\<close>

section \<open>Rows and observations\<close>

text \<open>The row that the relay fills in (RelayAttempt), with the id that the store gives it.\<close>

record stored_log = request_log +
  sl_id :: int

record log_observation =
  lo_path :: string
  lo_bucket_key :: string
  lo_session_uuid :: string
  lo_binding_source :: string
  lo_upstream_url :: string
  lo_upstream_request_id :: string
  lo_upstream_error_message :: string
  lo_request_bytes :: int
  lo_attempt_count :: int
  lo_client_headers :: string
  lo_client_body_excerpt :: string
  lo_request_meta :: string
  lo_upstream_request_headers :: string
  lo_upstream_request_meta :: string
  lo_upstream_request_body_excerpt :: string
  lo_upstream_headers :: string
  lo_upstream_response_meta :: string
  lo_upstream_response_body_excerpt :: string
  lo_client_body :: string
  lo_upstream_request_body :: string
  lo_upstream_response_body :: string

section \<open>Which requests get a file\<close>

datatype blob_mode = BlobModeOff | BlobModeErrors | BlobModeAll

definition ParseBlobMode :: "string \<Rightarrow> blob_mode" where
  "ParseBlobMode raw =
     (let s = to_lower (trim_space raw) in
      if s \<in> {[], ''errors'', ''error''} then BlobModeErrors
      else if s \<in> {''off'', ''false'', ''0'', ''no'', ''none''} then BlobModeOff
      else if s \<in> {''all'', ''true'', ''1'', ''yes''} then BlobModeAll
      else BlobModeErrors)"

definition ShouldWrite :: "blob_mode \<Rightarrow> string \<Rightarrow> bool" where
  "ShouldWrite m st =
     (case m of BlobModeOff \<Rightarrow> False | BlobModeAll \<Rightarrow> True | BlobModeErrors \<Rightarrow> trim_space st \<noteq> ''ok'')"

text \<open>\<open>path/filepath\<close> on Unix: Clean, Dir and Join.\<close>

fun clean_parts :: "bool \<Rightarrow> string list \<Rightarrow> string list \<Rightarrow> string list" where
  "clean_parts rooted acc [] = rev acc"
| "clean_parts rooted acc (x # xs) =
     (if x = [] \<or> x = ''.'' then clean_parts rooted acc xs
      else if x = ''..'' then
        (case acc of
           [] \<Rightarrow> clean_parts rooted (if rooted then [] else [''..'']) xs
         | a # as \<Rightarrow> clean_parts rooted (if a = ''..'' then ''..'' # acc else as) xs)
      else clean_parts rooted (x # acc) xs)"

definition path_clean :: "string \<Rightarrow> string" where
  "path_clean p =
     (let rooted = has_prefix p ''/''; parts = clean_parts rooted [] (split_char CHR ''/'' p) in
      if rooted then ''/'' @ join ''/'' parts else if parts = [] then ''.'' else join ''/'' parts)"

definition path_dir :: "string \<Rightarrow> string" where
  "path_dir p = path_clean (rev (dropWhile (\<lambda>c. c \<noteq> CHR ''/'') (rev p)))"

definition path_join :: "string list \<Rightarrow> string" where
  "path_join xs = (let ys = filter (\<lambda>x. x \<noteq> []) xs in if ys = [] then [] else path_clean (join ''/'' ys))"

definition ResolveBlobDir :: "string \<Rightarrow> blob_mode \<Rightarrow> string" where
  "ResolveBlobDir db mode =
     (if mode = BlobModeOff then []
      else (let p = trim_space db in
            if p = [] \<or> p = '':memory:'' then [] else path_join [path_dir p, ''request-log-blobs'']))"

section \<open>What the file holds\<close>

text \<open>A value of Go's type \<open>any\<close>, as far as hasValue tells it apart; anything else is its JSON.\<close>

datatype go_any = GNil | GStr string | GList "json list" | GMap "(string \<times> json) list" | GOther json

fun any_json :: "go_any \<Rightarrow> json" where
  "any_json GNil = JNull"
| "any_json (GStr s) = JStr s"
| "any_json (GList xs) = JArr xs"
| "any_json (GMap kvs) = JObj kvs"
| "any_json (GOther v) = v"

fun any_of :: "json \<Rightarrow> go_any" where
  "any_of JNull = GNil"
| "any_of (JStr s) = GStr s"
| "any_of (JArr xs) = GList xs"
| "any_of (JObj kvs) = GMap kvs"
| "any_of v = GOther v"

definition hasValue :: "go_any \<Rightarrow> bool" where
  "hasValue v =
     (case v of GNil \<Rightarrow> False | GStr s \<Rightarrow> trim_space s \<noteq> [] | GList xs \<Rightarrow> xs \<noteq> [] | GMap kvs \<Rightarrow> kvs \<noteq> [] | GOther _ \<Rightarrow> True)"

definition compactMap :: "(string \<times> go_any) list \<Rightarrow> (string \<times> go_any) list" where
  "compactMap kvs = filter (\<lambda>kv. hasValue (snd kv)) kvs"

definition any_int :: "int \<Rightarrow> go_any" where
  "any_int n = GOther (JNum (itoa n))"

text \<open>Decoding into \<open>any\<close> fails on a number that no float64 is near to.\<close>

definition parse_any :: "string \<Rightarrow> go_any option" where
  "parse_any text =
     (case json_parse text of
        Some v \<Rightarrow> (if numbers_ok v then Some (any_of (any_norm v)) else None)
      | None \<Rightarrow> None)"

definition jsonValue :: "string \<Rightarrow> go_any" where
  "jsonValue raw =
     (let t = trim_space raw in
      if t = [] \<or> t = ''null'' \<or> t = ''{}'' then GNil
      else (case parse_any t of Some v \<Rightarrow> v | None \<Rightarrow> GStr t))"

definition bodyValue :: "string \<Rightarrow> go_any" where
  "bodyValue body =
     (let t = trim_space body in
      if t = [] then GNil else (case parse_any t of Some v \<Rightarrow> v | None \<Rightarrow> GStr body))"

definition json_object :: "(string \<times> go_any) list \<Rightarrow> json" where
  "json_object kvs = JObj (map (\<lambda>kv. (fst kv, any_json (snd kv))) (sort_key fst kvs))"

definition row_facts :: "stored_log \<Rightarrow> (string \<times> go_any) list" where
  "row_facts e =
     [(''user_id'', GStr (rl_user_id e)), (''account_id'', GStr (rl_account_id e)), (''provider'', GStr (rl_provider e)),
      (''surface'', GStr (rl_surface e)), (''model'', GStr (rl_model e)), (''cell_id'', GStr (rl_cell_id e)),
      (''status'', GStr (rl_status e)), (''effect_kind'', GStr (rl_effect_kind e)),
      (''upstream_status'', any_int (rl_upstream_status e)), (''upstream_error_type'', GStr (rl_upstream_error_type e)),
      (''input_tokens'', any_int (InputTokens (rl_usage e))), (''output_tokens'', any_int (OutputTokens (rl_usage e))),
      (''cache_read_tokens'', any_int (CacheReadTokens (rl_usage e))), (''cache_create_tokens'', any_int (CacheCreateTokens (rl_usage e))),
      (''cost_usd'', GOther (JNum (print_float (rl_cost e)))), (''duration_ms'', any_int (rl_duration_ms e))]"

definition observed_facts :: "log_observation \<Rightarrow> (string \<times> go_any) list" where
  "observed_facts o' =
     [(''path'', GStr (lo_path o')), (''bucket_key'', GStr (lo_bucket_key o')), (''session_uuid'', GStr (lo_session_uuid o')),
      (''binding_source'', GStr (lo_binding_source o')), (''upstream_url'', GStr (lo_upstream_url o')),
      (''upstream_request_id'', GStr (lo_upstream_request_id o')),
      (''upstream_error_message'', GStr (lo_upstream_error_message o')),
      (''request_bytes'', any_int (lo_request_bytes o')), (''attempt_count'', any_int (lo_attempt_count o'))]"

definition payload_part :: "string \<Rightarrow> (string \<times> go_any) list \<Rightarrow> (string \<times> go_any) list" where
  "payload_part name kvs =
     (let c = compactMap kvs in if c = [] then [] else [(name, GOther (json_object c))])"

text \<open>RFC 3339 with as many digits of the fraction as there are.\<close>

definition rfc3339_nano :: "gotime \<Rightarrow> string" where
  "rfc3339_nano t =
     (let frac = rev (dropWhile (\<lambda>c. c = CHR ''0'') (rev (pad_digits 9 (t mod second)))) in
      butlast (rfc3339 t) @ (if frac = [] then [] else CHR ''.'' # frac) @ ''Z'')"

definition buildLogPayload :: "stored_log \<Rightarrow> log_observation option \<Rightarrow> json" where
  "buildLogPayload e oo =
     json_object
       ([(''schema'', GStr ''llm-broker.request_log.v2''), (''id'', any_int (sl_id e)),
         (''created_at'', GStr (rfc3339_nano (rl_created_at e)))]
        @ (case oo of
             None \<Rightarrow> [(''facts'', GOther (json_object (compactMap (row_facts e))))]
           | Some obs \<Rightarrow>
               [(''facts'', GOther (json_object (compactMap (row_facts e) @ compactMap (observed_facts obs))))]
               @ payload_part ''client''
                   [(''headers'', jsonValue (lo_client_headers obs)), (''meta'', jsonValue (lo_request_meta obs)),
                    (''body_excerpt'', GStr (lo_client_body_excerpt obs)), (''body'', bodyValue (lo_client_body obs))]
               @ payload_part ''upstream_request''
                   [(''url'', GStr (lo_upstream_url obs)), (''headers'', jsonValue (lo_upstream_request_headers obs)),
                    (''meta'', jsonValue (lo_upstream_request_meta obs)),
                    (''body_excerpt'', GStr (lo_upstream_request_body_excerpt obs)),
                    (''body'', bodyValue (lo_upstream_request_body obs))]
               @ payload_part ''upstream_response''
                   [(''headers'', jsonValue (lo_upstream_headers obs)), (''meta'', jsonValue (lo_upstream_response_meta obs)),
                    (''body_excerpt'', GStr (lo_upstream_response_body_excerpt obs)),
                    (''body'', bodyValue (lo_upstream_response_body obs)),
                    (''error_type'', GStr (rl_upstream_error_type e)),
                    (''error_message'', GStr (lo_upstream_error_message obs))]))"

text \<open>A number that cannot be decoded leaves the nil value behind; MergeMeta ignores the error.\<close>

fun drop_bad_numbers :: "json \<Rightarrow> json" where
  "drop_bad_numbers (JNum l) = (if parse_float l = None then JNull else JNum l)"
| "drop_bad_numbers (JArr xs) = JArr (map drop_bad_numbers xs)"
| "drop_bad_numbers (JObj kvs) = JObj (map (\<lambda>kv. (fst kv, drop_bad_numbers (snd kv))) kvs)"
| "drop_bad_numbers v = v"

definition MergeMeta :: "string \<Rightarrow> (string \<times> go_any) list \<Rightarrow> string" where
  "MergeMeta raw extra =
     (if extra = [] then raw
      else (let base = (case json_parse (trim_space raw) of
                          Some (JObj kvs) \<Rightarrow> jmembers (any_norm (drop_bad_numbers (JObj kvs)))
                        | _ \<Rightarrow> []);
                merged = foldl (\<lambda>m kv. AList.update (fst kv) (any_json (snd kv)) m) base (compactMap extra)
            in if merged = [] then [] else json_print (JObj (sort_key fst merged))))"

section \<open>Where it is written and when it is purged\<close>

datatype node = Blob string | Folder bool "(string \<times> node) list"

text \<open>The flag of a folder says whether it can be listed.  A missing folder is created on the way.\<close>

fun write_at :: "string list \<Rightarrow> string \<Rightarrow> node option \<Rightarrow> node option" where
  "write_at [] content old = (case old of Some (Folder _ _) \<Rightarrow> None | _ \<Rightarrow> Some (Blob content))"
| "write_at (x # xs) content old =
     (case old of
        Some (Blob _) \<Rightarrow> None
      | Some (Folder r es) \<Rightarrow> map_option (\<lambda>n. Folder r (AList.update x n es)) (write_at xs content (map_of es x))
      | None \<Rightarrow> map_option (\<lambda>n. Folder True [(x, n)]) (write_at xs content None))"

fun node_at :: "string list \<Rightarrow> node option \<Rightarrow> node option" where
  "node_at [] n = n"
| "node_at (x # xs) n = (case n of Some (Folder _ es) \<Rightarrow> node_at xs (map_of es x) | _ \<Rightarrow> None)"

definition day_number :: "gotime \<Rightarrow> int" where
  "day_number t = unix_sec t div 86400"

definition day_path :: "gotime \<Rightarrow> string list" where
  "day_path t = (case civil_date (day_number t) of (y, m, d) \<Rightarrow> [pad_digits 4 y, pad_digits 2 m, pad_digits 2 d])"

definition log_path :: "stored_log \<Rightarrow> string list" where
  "log_path e = day_path (rl_created_at e) @ [itoa (sl_id e) @ ''.json'']"

text \<open>WriteLogFile on the tree of the log directory; \<open>render\<close> is the indentation of the payload.  The result says
  whether the call failed; a failure can leave new empty folders, which are not modelled.\<close>

definition WriteLogFile ::
  "(json \<Rightarrow> string) \<Rightarrow> string \<Rightarrow> stored_log option \<Rightarrow> log_observation option \<Rightarrow> node option \<Rightarrow> bool \<times> node option" where
  "WriteLogFile render logDir oe obs tree =
     (case oe of
        None \<Rightarrow> (True, tree)
      | Some e \<Rightarrow>
          (if logDir = [] \<or> sl_id e \<le> 0 then (True, tree)
           else (case write_at (log_path e) (render (buildLogPayload e obs)) tree of
                   None \<Rightarrow> (False, tree)
                 | Some n \<Rightarrow> (True, Some n))))"

text \<open>One level of the walk: the entries that are folders with a number in the range as name.  A folder that cannot
  be listed stays as it is.\<close>

definition numbered :: "int \<Rightarrow> int \<Rightarrow> string \<Rightarrow> int option" where
  "numbered lo hi name = (case parse_int name of Some n \<Rightarrow> (if lo \<le> n \<and> n \<le> hi then Some n else None) | None \<Rightarrow> None)"

definition is_folder :: "node \<Rightarrow> bool" where
  "is_folder n = (case n of Folder _ _ \<Rightarrow> True | Blob _ \<Rightarrow> False)"

definition walk_folder ::
  "int \<Rightarrow> int \<Rightarrow> (string \<times> int \<Rightarrow> (string \<times> node) list \<Rightarrow> (string \<times> node) list) \<Rightarrow> string \<times> node \<Rightarrow> string \<times> node" where
  "walk_folder lo hi f e =
     (case (numbered lo hi (fst e), snd e) of
        (Some n, Folder True es) \<Rightarrow> (fst e, Folder True (f (fst e, n) es))
      | _ \<Rightarrow> e)"

text \<open>\<open>left\<close> is what RemoveAll leaves of the folder of a day, nothing when it succeeds.\<close>

definition purge_day ::
  "(string list \<Rightarrow> node option) \<Rightarrow> int \<Rightarrow> string \<times> int \<Rightarrow> string \<times> int \<Rightarrow> string \<times> node \<Rightarrow> (string \<times> node) list" where
  "purge_day left cutoff y m e =
     (case numbered 1 31 (fst e) of
        Some d \<Rightarrow>
          (if is_folder (snd e) \<and> days_of_civil (snd y) (snd m) d < cutoff
           then (case left [fst y, fst m, fst e] of Some n \<Rightarrow> [(fst e, n)] | None \<Rightarrow> [])
           else [e])
      | None \<Rightarrow> [e])"

definition PurgeLogsBefore :: "(string list \<Rightarrow> node option) \<Rightarrow> string \<Rightarrow> gotime \<Rightarrow> node option \<Rightarrow> node option" where
  "PurgeLogsBefore left logDir before tree =
     (case tree of
        Some (Folder True years) \<Rightarrow>
          (if logDir = [] then tree
           else Some (Folder True
             (map (walk_folder 1970 9999 (\<lambda>y. map (walk_folder 1 12 (\<lambda>m es.
                concat (map (purge_day left (day_number before) y m) es))))) years)))
      | _ \<Rightarrow> tree)"

section \<open>The walk over the days\<close>

lemma node_at_append: "node_at (xs @ ys) n = node_at ys (node_at xs n)"
proof (induction xs arbitrary: n)
  case (Cons x xs)
  have "node_at zs None = None" for zs by (induction zs) simp_all
  moreover have "node_at zs (Some (Blob b)) = (if zs = [] then Some (Blob b) else None)" for zs b by (cases zs) simp_all
  ultimately show ?case using Cons by (simp split: option.split node.split)
qed simp

lemma node_at_written: "write_at p c old = Some n \<Longrightarrow> node_at p (Some n) = Some (Blob c)"
  by (induction p c old arbitrary: n rule: write_at.induct) (auto simp: update_conv split: option.splits node.splits)

lemma fst_walk_folder [simp]: "fst (walk_folder lo hi f e) = fst e"
  by (simp add: walk_folder_def split: option.split node.split bool.split)

lemma map_of_walk:
  "map_of (map (walk_folder lo hi f) es) x = map_option (\<lambda>n. snd (walk_folder lo hi f (x, n))) (map_of es x)"
proof (induction es)
  case (Cons e es)
  then show ?case using fst_walk_folder [of lo hi f e] by (cases e; cases "walk_folder lo hi f e") (auto simp del: fst_walk_folder)
qed simp

lemma map_of_purge_kept:
  assumes "map_of es x = Some n" "purge_day left cutoff y m (x, n) = [(x, n)]"
  shows "map_of (concat (map (purge_day left cutoff y m) es)) x = Some n"
  using assms(1)
proof (induction es)
  case (Cons e es)
  have k: "map_of (purge_day left cutoff y m e) x = None" if "fst e \<noteq> x"
    using that by (auto simp: purge_day_def split: option.split)
  show ?case
  proof (cases "fst e = x")
    case True
    with Cons.prems have "e = (x, n)" by (cases e) auto
    with assms(2) show ?thesis by simp
  next
    case False
    with Cons k show ?thesis by (cases e) (auto simp: map_add_def)
  qed
qed simp

lemma map_of_purge_gone:
  assumes "numbered 1 31 x = Some d" "days_of_civil (snd y) (snd m) d < cutoff" "left [fst y, fst m, x] = None"
    and "map_of (concat (map (purge_day left cutoff y m) es)) x = Some n"
  shows "\<not> is_folder n"
proof -
  from map_of_SomeD [OF assms(4)] obtain e where "e \<in> set es" "(x, n) \<in> set (purge_day left cutoff y m e)" by auto
  then show ?thesis using assms(1-3) by (cases e) (auto simp: purge_day_def split: option.splits if_splits)
qed

text \<open>What is not below a folder of an old day stays.\<close>

lemma purge_keeps:
  assumes "node_at ([y, m, d] @ rest) tree = Some x" "rest \<noteq> []"
    and "\<And>yn mn dn. numbered 1970 9999 y = Some yn \<Longrightarrow> numbered 1 12 m = Some mn \<Longrightarrow> numbered 1 31 d = Some dn
      \<Longrightarrow> day_number before \<le> days_of_civil yn mn dn"
  shows "node_at ([y, m, d] @ rest) (PurgeLogsBefore left logDir before tree) = Some x"
proof -
  from assms(1) obtain r ys where tree: "tree = Some (Folder r ys)" by (auto split: option.splits node.splits)
  with assms(1) obtain r1 ms where ym: "map_of ys y = Some (Folder r1 ms)" by (auto split: option.splits node.splits)
  with assms(1) tree obtain r2 ds where mm: "map_of ms m = Some (Folder r2 ds)" by (auto split: option.splits node.splits)
  with assms(1) tree ym obtain nd where dm: "map_of ds d = Some nd" "node_at rest (Some nd) = Some x"
    by (cases "map_of ds d"; cases rest) (auto split: option.splits node.splits)
  have day: "map_of (concat (map (purge_day left (day_number before) (y, yn) (m, mn)) ds)) d = Some nd"
    if "numbered 1970 9999 y = Some yn" "numbered 1 12 m = Some mn" for yn mn
    by (rule map_of_purge_kept [OF dm(1)]) (use assms(3) [OF that] in \<open>auto simp: purge_day_def split: option.split\<close>)
  show ?thesis
    using tree ym mm dm day
    by (cases r; cases r1; cases r2)
      (auto simp: PurgeLogsBefore_def map_of_walk walk_folder_def split: option.splits)
qed

text \<open>The folders along a path can be listed.\<close>

fun listable :: "string list \<Rightarrow> node option \<Rightarrow> bool" where
  "listable [] n = (case n of Some (Folder r _) \<Rightarrow> r | _ \<Rightarrow> False)"
| "listable (x # xs) n = (case n of Some (Folder r es) \<Rightarrow> r \<and> listable xs (map_of es x) | _ \<Rightarrow> False)"

lemma purge_removes:
  assumes "listable [y, m] tree" "logDir \<noteq> []" "rest \<noteq> []" "left [y, m, d] = None"
    and "numbered 1970 9999 y = Some yn" "numbered 1 12 m = Some mn" "numbered 1 31 d = Some dn"
    and "days_of_civil yn mn dn < day_number before"
  shows "node_at ([y, m, d] @ rest) (PurgeLogsBefore left logDir before tree) = None"
proof -
  from assms(1) obtain ys ms ds where t: "tree = Some (Folder True ys)" "map_of ys y = Some (Folder True ms)"
    "map_of ms m = Some (Folder True ds)" by (auto split: option.splits node.splits)
  define left_days where "left_days = concat (map (purge_day left (day_number before) (y, yn) (m, mn)) ds)"
  have "node_at ([y, m, d] @ rest) (PurgeLogsBefore left logDir before tree) = node_at rest (map_of left_days d)"
    using t assms(2,5,6) by (simp add: PurgeLogsBefore_def map_of_walk walk_folder_def left_days_def)
  moreover have "\<not> is_folder n" if "map_of left_days d = Some n" for n
    by (rule map_of_purge_gone [of d dn "(y, yn)" "(m, mn)" "day_number before" left ds])
      (use assms(4,7,8) that in \<open>simp_all add: left_days_def\<close>)
  ultimately show ?thesis
    using assms(3) by (cases rest; cases "map_of left_days d") (auto simp: is_folder_def split: node.splits)
qed

lemma parse_pad: "parse_int (pad_digits w n) = (if fits64 (int (nat n)) then Some (int (nat n)) else None)"
proof -
  let ?s = "replicate (w - length (nat_digits (nat n))) CHR ''0'' @ nat_digits (nat n)"
  have "list_all is_digit ?s" using nat_digits_all by simp
  moreover have "?s \<noteq> []" by simp
  ultimately have "hd ?s \<noteq> CHR ''-'' \<and> hd ?s \<noteq> CHR ''+''" by (cases ?s) (auto simp: is_digit_def)
  with \<open>list_all is_digit ?s\<close> show ?thesis
    by (simp add: parse_int_def pad_digits_def Let_def digits_val_append)
qed

lemma numbered_pad: "0 < lo \<Longrightarrow> numbered lo hi (pad_digits w n) = Some v \<Longrightarrow> v = n"
  by (auto simp: numbered_def parse_pad split: if_splits option.splits)

lemma numbered_pad_range: "0 < lo \<Longrightarrow> lo \<le> n \<Longrightarrow> n \<le> hi \<Longrightarrow> fits64 hi \<Longrightarrow> numbered lo hi (pad_digits w n) = Some n"
  by (auto simp: numbered_def parse_pad fits64_def)

section \<open>Retention\<close>

text \<open>C32: What WriteLogFile has written is found until a purge whose limit is on a later day, and such a purge removes
  it, if the year has four digits from 1970 on and the folders can be listed and removed.\<close>

theorem log_file_retention:
  assumes "WriteLogFile render logDir (Some e) obs tree = (True, tree')" "logDir \<noteq> []" "0 < sl_id e"
    and "civil_date (day_number (rl_created_at e)) = (y, m, d)"
  shows "(day_number before \<le> day_number (rl_created_at e) \<longrightarrow>
      node_at (log_path e) (PurgeLogsBefore left logDir before tree') = Some (Blob (render (buildLogPayload e obs))))
    \<and> (day_number (rl_created_at e) < day_number before \<and> 1970 \<le> y \<and> y \<le> 9999
        \<and> listable [pad_digits 4 y, pad_digits 2 m] tree' \<and> (\<forall>p. left p = None) \<longrightarrow>
      node_at (log_path e) (PurgeLogsBefore left logDir before tree') = None)"
proof -
  have path: "log_path e = [pad_digits 4 y, pad_digits 2 m, pad_digits 2 d] @ [itoa (sl_id e) @ ''.json'']"
    using assms(4) by (simp add: log_path_def day_path_def)
  have written: "node_at (log_path e) tree' = Some (Blob (render (buildLogPayload e obs)))"
    using assms(1-3)
    by (cases "write_at (log_path e) (render (buildLogPayload e obs)) tree") (auto simp: WriteLogFile_def node_at_written)
  note date = days_of_civil_date [OF assms(4)]
  have "node_at (log_path e) (PurgeLogsBefore left logDir before tree') = Some (Blob (render (buildLogPayload e obs)))"
    if "day_number before \<le> day_number (rl_created_at e)"
    unfolding path by (rule purge_keeps [OF written [unfolded path]]) (use that date(1) in \<open>auto dest!: numbered_pad [rotated]\<close>)
  moreover have "node_at (log_path e) (PurgeLogsBefore left logDir before tree') = None"
    if "day_number (rl_created_at e) < day_number before" "1970 \<le> y" "y \<le> 9999"
      "listable [pad_digits 4 y, pad_digits 2 m] tree'" "\<forall>p. left p = None"
    unfolding path
    by (rule purge_removes [where yn = y and mn = m and dn = d])
      (use that assms(2) date in \<open>auto intro!: numbered_pad_range simp: fits64_def\<close>)
  ultimately show ?thesis by blast
qed

definition sample_row :: stored_log where
  "sample_row =
     \<lparr> rl_user_id = ''u'', rl_account_id = ''a'', rl_provider = ''claude'', rl_surface = ''native'', rl_model = ''m'',
       rl_cell_id = [], rl_status = ''ok'', rl_effect_kind = [], rl_upstream_status = 200, rl_upstream_error_type = [],
       rl_usage = \<lparr> InputTokens = 1, OutputTokens = 2, CacheReadTokens = 0, CacheCreateTokens = 0 \<rparr>, rl_cost = 0,
       rl_duration_ms = 5, rl_created_at = 90000 * second, sl_id = 7 \<rparr>"

definition sample_logs :: node where
  "sample_logs = Folder True [(''1970'', Folder True [(''01'', Folder True [(''02'', Folder True [(''7.json'', Blob ''x'')])])])]"

lemma sample_day: "civil_date (day_number (90000 * second)) = (1970, 1, 2)" "pad_digits 4 1970 = ''1970''"
  "pad_digits 2 1 = ''01''" "pad_digits 2 2 = ''02''" "itoa 7 @ ''.json'' = ''7.json''"
  by code_simp+

lemma sample_path: "log_path sample_row = [''1970'', ''01'', ''02'', ''7.json'']"
  using sample_day by (simp add: log_path_def day_path_def sample_row_def)

lemma sample_written: "WriteLogFile (\<lambda>_. ''x'') ''logs'' (Some sample_row) None None = (True, Some sample_logs)"
  by (simp add: WriteLogFile_def sample_path) (simp add: sample_row_def sample_logs_def)

theorem log_file_retention_witness:
  "node_at (log_path sample_row) (PurgeLogsBefore (\<lambda>_. None) ''logs'' (100000 * second) (Some sample_logs)) = Some (Blob ''x'')
   \<and> node_at (log_path sample_row) (PurgeLogsBefore (\<lambda>_. None) ''logs'' (180000 * second) (Some sample_logs)) = None"
proof -
  have d: "day_number (100000 * second) = 1" "day_number (180000 * second) = 2" "day_number (90000 * second) = 1"
    by (simp_all add: day_number_def unix_sec_def second_def)
  have c: "rl_created_at sample_row = 90000 * second" "0 < sl_id sample_row" by (simp_all add: sample_row_def)
  have "listable [''1970'', ''01''] (Some sample_logs)" by (simp add: sample_logs_def)
  then show ?thesis
    using log_file_retention [OF sample_written _ c(2), of 1970 1 2 "100000 * second" "\<lambda>_. None"]
      log_file_retention [OF sample_written _ c(2), of 1970 1 2 "180000 * second" "\<lambda>_. None"] sample_day
    by (simp add: c(1) d)
qed

end
