(* ===== verification/Config.thy ===== *)
theory Config
  imports RequestLog ClaudeIdentity
begin

text \<open>
  The configuration of the relay (src/internal/config/config.go) and what src/cmd/relay/main.go makes of it.  The
  environment is a function from names to values; an unset variable is the empty string, which os.Getenv returns.
\<close>

type_synonym environment = "string \<Rightarrow> string"

section \<open>Variables\<close>

definition env_or :: "environment \<Rightarrow> string \<Rightarrow> string \<Rightarrow> string" where
  "env_or env key fallback = (if env key \<noteq> [] then env key else fallback)"

definition envInt :: "environment \<Rightarrow> string \<Rightarrow> int \<Rightarrow> int" where
  "envInt env key fallback =
     (if env key \<noteq> [] then (case parse_int (env key) of Some n \<Rightarrow> n | None \<Rightarrow> fallback) else fallback)"

definition millisecond :: duration where "millisecond = 1000000"

text \<open>The product of two int64 values wraps.\<close>

definition envDuration :: "environment \<Rightarrow> string \<Rightarrow> duration \<Rightarrow> duration" where
  "envDuration env key fallback =
     (if env key \<noteq> []
      then (case parse_int (env key) of Some ms \<Rightarrow> wrap64 (ms * millisecond) | None \<Rightarrow> fallback) else fallback)"

definition envBool :: "environment \<Rightarrow> string \<Rightarrow> bool \<Rightarrow> bool" where
  "envBool env key fallback =
     (if env key \<in> {''1'', ''true'', ''TRUE'', ''True'', ''yes'', ''YES'', ''on'', ''ON''} then True
      else if env key \<in> {''0'', ''false'', ''FALSE'', ''False'', ''no'', ''NO'', ''off'', ''OFF''} then False
      else fallback)"

section \<open>The configuration\<close>

record config =
  cf_host :: string
  cf_port :: int
  cf_db_path :: string
  cf_encryption_key :: string
  cf_static_token :: string
  cf_claude_api_url :: string
  cf_claude_api_version :: string
  cf_claude_beta_header :: string
  cf_codex_api_url :: string
  cf_codex_request_timeout :: duration
  cf_gemini_api_url :: string
  cf_gemini_client_id :: string
  cf_gemini_client_secret :: string
  cf_gemini_redirect_uri :: string
  cf_session_binding_ttl :: duration
  cf_token_refresh_advance :: duration
  cf_error_pause_401 :: duration
  cf_error_pause_401_refresh :: duration
  cf_error_pause_403 :: duration
  cf_error_pause_429 :: duration
  cf_error_pause_529 :: duration
  cf_cell_error_pause :: duration
  cf_request_timeout :: duration
  cf_max_request_body_mb :: int
  cf_max_retry_accounts :: int
  cf_max_cache_controls :: int
  cf_compat_max_requests_per_minute :: int
  cf_compat_max_concurrent :: int
  cf_log_level :: string
  cf_log_blobs_mode :: blob_mode
  cf_log_retention_days :: int
  cf_trace_compat :: bool
  cf_prompt_env_home :: string
  cf_background_jobs_mode :: string
  cf_leader_lock_path :: string

definition Load :: "environment \<Rightarrow> config" where
  "Load env =
     \<lparr> cf_host = env_or env ''HOST'' ''0.0.0.0'', cf_port = envInt env ''PORT'' 3000,
       cf_db_path = env_or env ''DB_PATH'' ''./llm-broker.db'',
       cf_encryption_key = env ''ENCRYPTION_KEY'', cf_static_token = env ''API_TOKEN'',
       cf_claude_api_url = env_or env ''CLAUDE_API_URL'' ''https://api.anthropic.com/v1/messages'',
       cf_claude_api_version = env_or env ''CLAUDE_API_VERSION'' ''2023-06-01'',
       cf_claude_beta_header = env_or env ''CLAUDE_BETA_HEADER''
         ''claude-code-20250219,oauth-2025-04-20,interleaved-thinking-2025-05-14,fine-grained-tool-streaming-2025-05-14'',
       cf_codex_api_url = env_or env ''CODEX_API_URL'' ''https://chatgpt.com/backend-api/codex/responses'',
       cf_codex_request_timeout = envDuration env ''CODEX_REQUEST_TIMEOUT'' (10 * minute),
       cf_gemini_api_url = env_or env ''GEMINI_API_URL'' ''https://cloudcode-pa.googleapis.com'',
       cf_gemini_client_id = env ''GEMINI_OAUTH_CLIENT_ID'', cf_gemini_client_secret = env ''GEMINI_OAUTH_CLIENT_SECRET'',
       cf_gemini_redirect_uri = env_or env ''GEMINI_OAUTH_REDIRECT_URI'' ''https://codeassist.google.com/authcode'',
       cf_session_binding_ttl = envDuration env ''SESSION_BINDING_TTL'' (24 * 60 * minute),
       cf_token_refresh_advance = envDuration env ''TOKEN_REFRESH_ADVANCE'' (60 * second),
       cf_error_pause_401 = envDuration env ''ERROR_PAUSE_401'' (30 * minute),
       cf_error_pause_401_refresh = envDuration env ''ERROR_PAUSE_401_REFRESH'' (30 * second),
       cf_error_pause_403 = envDuration env ''ERROR_PAUSE_403'' (10 * minute),
       cf_error_pause_429 = envDuration env ''ERROR_PAUSE_429'' (60 * second),
       cf_error_pause_529 = envDuration env ''ERROR_PAUSE_529'' (5 * minute),
       cf_cell_error_pause = envDuration env ''CELL_ERROR_PAUSE'' (60 * second),
       cf_request_timeout = envDuration env ''REQUEST_TIMEOUT'' (5 * minute),
       cf_max_request_body_mb = envInt env ''REQUEST_MAX_SIZE_MB'' 60,
       cf_max_retry_accounts = envInt env ''MAX_RETRY_ACCOUNTS'' 2,
       cf_max_cache_controls = envInt env ''MAX_CACHE_CONTROLS'' 4,
       cf_compat_max_requests_per_minute = envInt env ''COMPAT_MAX_REQUESTS_PER_MINUTE'' 0,
       cf_compat_max_concurrent = envInt env ''COMPAT_MAX_CONCURRENT'' 4,
       cf_log_level = env_or env ''LOG_LEVEL'' ''info'',
       cf_log_blobs_mode = ParseBlobMode (env ''LOG_BLOBS''),
       cf_log_retention_days = envInt env ''LOG_RETENTION_DAYS'' 3,
       cf_trace_compat = envBool env ''TRACE_COMPAT'' False,
       cf_prompt_env_home = env ''PROMPT_ENV_HOME'',
       cf_background_jobs_mode = env_or env ''BACKGROUND_JOBS_MODE'' ''all'',
       cf_leader_lock_path = env_or env ''BACKGROUND_LEADER_LOCK_PATH'' ''/var/run/llm-broker/background.lock'' \<rparr>"

definition errMissing :: "string \<Rightarrow> err" where
  "errMissing field = ''missing required env: '' @ field"

definition Validate :: "config \<Rightarrow> err option" where
  "Validate c =
     (if cf_encryption_key c = [] then Some (errMissing ''ENCRYPTION_KEY'')
      else if cf_static_token c = [] then Some (errMissing ''API_TOKEN'')
      else if (cf_gemini_client_id c = []) \<noteq> (cf_gemini_client_secret c = []) then
        (if cf_gemini_client_id c = [] then Some (errMissing ''GEMINI_OAUTH_CLIENT_ID'')
         else Some (errMissing ''GEMINI_OAUTH_CLIENT_SECRET''))
      else if cf_background_jobs_mode c \<in> {''all'', ''leader'', ''off''} then None
      else Some (errMissing ''BACKGROUND_JOBS_MODE (must be all, leader, or off)''))"

definition GeminiEnabled :: "config \<Rightarrow> bool" where
  "GeminiEnabled c \<longleftrightarrow> cf_gemini_client_id c \<noteq> [] \<and> cf_gemini_client_secret c \<noteq> []"

section \<open>What main makes of it\<close>

definition log_level_of :: "config \<Rightarrow> int" where
  "log_level_of c =
     (if cf_log_level c = ''debug'' then - 4 else if cf_log_level c = ''warn'' then 4
      else if cf_log_level c = ''error'' then 8 else 0)"

definition pauses_of :: "config \<Rightarrow> error_pauses" where
  "pauses_of c =
     \<lparr> Pause401 = cf_error_pause_401 c, Pause401Refresh = cf_error_pause_401_refresh c,
       Pause403 = cf_error_pause_403 c, Pause429 = cf_error_pause_429 c, Pause529 = cf_error_pause_529 c \<rparr>"

definition claude_driver_of :: "config \<Rightarrow> claude_driver" where
  "claude_driver_of c =
     NewClaudeDriver
       \<lparr> cl_api_url = cf_claude_api_url c, cl_api_version = cf_claude_api_version c,
         cl_beta_header = cf_claude_beta_header c, cl_prompt_env_home = cf_prompt_env_home c \<rparr>
       (cf_max_cache_controls c)"

definition relay_config_of :: "config \<Rightarrow> relay_config" where
  "relay_config_of c =
     \<lparr> rc_max_retry_accounts = cf_max_retry_accounts c, rc_session_binding_ttl = cf_session_binding_ttl c,
       rc_cell_error_pause = cf_cell_error_pause c, rc_trace_compat = cf_trace_compat c \<rparr>"

definition blob_dir_of :: "config \<Rightarrow> string" where
  "blob_dir_of c = ResolveBlobDir (cf_db_path c) (cf_log_blobs_mode c)"

section \<open>Properties\<close>

text \<open>A duration that is read is a whole number of milliseconds that fits, or it has wrapped.\<close>

lemma envDuration_exact:
  assumes "env key = itoa ms" "\<bar>ms\<bar> \<le> 9223372036854"
  shows "envDuration env key fallback = ms * millisecond"
proof -
  have "itoa ms \<noteq> []" by (simp add: itoa_def)
  moreover have "fits64 ms" "fits64 (ms * millisecond)" using assms(2) by (auto simp: fits64_def millisecond_def)
  ultimately show ?thesis by (simp add: envDuration_def assms(1))
qed

text \<open>A pause of 293 years is read as a negative one: the product with a millisecond wraps.\<close>

theorem long_pause_wraps:
  assumes "env ''CELL_ERROR_PAUSE'' = ''9223372036855''"
  shows "cf_cell_error_pause (Load env) = - 9223372036854551616"
proof -
  have "parse_int ''9223372036855'' = Some 9223372036855" by code_simp
  then show ?thesis by (simp add: Load_def envDuration_def assms wrap64_def millisecond_def)
qed

text \<open>A configuration passes exactly if both secrets are there, Gemini has both credentials or none, and the mode of
  the background jobs is known; the secrets alone are enough.\<close>

theorem validate_iff:
  "Validate c = None \<longleftrightarrow> cf_encryption_key c \<noteq> [] \<and> cf_static_token c \<noteq> []
     \<and> (GeminiEnabled c \<or> cf_gemini_client_id c = [] \<and> cf_gemini_client_secret c = [])
     \<and> cf_background_jobs_mode c \<in> {''all'', ''leader'', ''off''}"
  by (auto simp: Validate_def GeminiEnabled_def)

lemma secrets_suffice:
  assumes "\<And>k. k \<notin> {''ENCRYPTION_KEY'', ''API_TOKEN''} \<Longrightarrow> env k = []"
    and "env ''ENCRYPTION_KEY'' \<noteq> []" "env ''API_TOKEN'' \<noteq> []"
  shows "Validate (Load env) = None" "\<not> GeminiEnabled (Load env)"
  using assms by (simp_all add: validate_iff GeminiEnabled_def Load_def env_or_def)

text \<open>The files of the request log go next to the database, unless they are off or the database is in memory.\<close>

lemma blob_dir_default:
  "blob_dir_of (Load (\<lambda>_. [])) = ''request-log-blobs''"
  by code_simp

end
