(* ===== verification/Runtime.thy ===== *)
theory Runtime
  imports Config
begin

text \<open>
  The background jobs of the server (src/internal/server/server_runtime.go): which process runs them, from when on
  logs are purged, and the removal of old files.  The three workers are RunCleanup of the pool, the purge of logs
  and the refresh of stale accounts; they are modelled in PoolObserve, RequestLog and Probes, the tickers are not.
\<close>

section \<open>Who runs the jobs\<close>

text \<open>What one turn of the leader loop meets: cancellation (also while it sleeps after the turn before), an error at
  one of the three steps, a lock that another process holds, or the lock.\<close>

datatype lock_turn = TurnCanceled | MkdirFails | OpenFails | LockHeld | LockFails | LockTaken

datatype job_action = LogWaiting | RunWorkers | Unlock

fun leader_loop :: "bool \<Rightarrow> lock_turn list \<Rightarrow> job_action list" where
  "leader_loop waitLogged [] = []"
| "leader_loop waitLogged (TurnCanceled # ts) = []"
| "leader_loop waitLogged (MkdirFails # ts) = leader_loop waitLogged ts"
| "leader_loop waitLogged (OpenFails # ts) = leader_loop waitLogged ts"
| "leader_loop waitLogged (LockHeld # ts) = (if waitLogged then [] else [LogWaiting]) @ leader_loop True ts"
| "leader_loop waitLogged (LockFails # ts) = leader_loop waitLogged ts"
| "leader_loop waitLogged (LockTaken # ts) = [RunWorkers, Unlock]"

definition runBackgroundJobs :: "config \<Rightarrow> lock_turn list \<Rightarrow> job_action list" where
  "runBackgroundJobs c turns =
     (if cf_background_jobs_mode c = ''off'' then []
      else if cf_background_jobs_mode c = ''leader''
      then (if cf_leader_lock_path c = [] then [RunWorkers] else leader_loop False turns)
      else [RunWorkers])"

section \<open>When logs are purged\<close>

definition log_retention :: "config \<Rightarrow> duration" where
  "log_retention c =
     (let r = wrap64 (wrap64 (cf_log_retention_days c * 24) * (60 * minute)) in if r \<le> 0 then 3 * 24 * (60 * minute) else r)"

definition purge_limit :: "config \<Rightarrow> gotime \<Rightarrow> gotime" where
  "purge_limit c now = now - log_retention c"

text \<open>\<open>filepath.Join(filepath.Dir(DBPath), ...)\<close>, whatever the mode of the files is.\<close>

definition pruned_dir :: "config \<Rightarrow> string" where
  "pruned_dir c = path_join [path_dir (cf_db_path c), ''request-log-blobs'']"

text \<open>A file is its modification time; the flag of a directory says whether it can be listed.  \<open>rm\<close> says of a path
  whether os.Remove succeeds on a file or an empty directory there.\<close>

datatype file_tree = FFile gotime | FDir bool "(string \<times> file_tree) list"

fun prune_files :: "(string list \<Rightarrow> bool) \<Rightarrow> gotime \<Rightarrow> string list \<Rightarrow> file_tree \<Rightarrow> nat \<times> file_tree option" where
  "prune_files rm cutoff p (FFile t) = (if t < cutoff \<and> rm p then (1, None) else (0, Some (FFile t)))"
| "prune_files rm cutoff p (FDir r es) =
     (if r then
        (let rs = map (\<lambda>e. (fst e, prune_files rm cutoff (p @ [fst e]) (snd e))) es in
         (sum_list (map (\<lambda>e. fst (snd e)) rs),
          Some (FDir r (List.map_filter (\<lambda>e. map_option (Pair (fst e)) (snd (snd e))) rs))))
      else (0, Some (FDir r es)))"

text \<open>The second walk visits a directory before what is in it.\<close>

fun prune_empty :: "(string list \<Rightarrow> bool) \<Rightarrow> string list \<Rightarrow> file_tree \<Rightarrow> file_tree option" where
  "prune_empty rm p (FFile t) = Some (FFile t)"
| "prune_empty rm p (FDir r es) =
     (if p \<noteq> [] \<and> es = [] \<and> rm p then None
      else if r then
        Some (FDir r (List.map_filter (\<lambda>e. map_option (Pair (fst e)) (snd e))
                        (map (\<lambda>e. (fst e, prune_empty rm (p @ [fst e]) (snd e))) es)))
      else Some (FDir r es))"

definition pruneBlobDir :: "(string list \<Rightarrow> bool) \<Rightarrow> gotime \<Rightarrow> file_tree option \<Rightarrow> nat \<times> file_tree option" where
  "pruneBlobDir rm cutoff tree =
     (case tree of
        Some (FDir r es) \<Rightarrow>
          (case prune_files rm cutoff [] (FDir r es) of
             (n, Some t) \<Rightarrow> (n, prune_empty rm [] t)
           | (n, None) \<Rightarrow> (n, None))
      | _ \<Rightarrow> (0, tree))"

section \<open>Properties\<close>

lemma leader_loop_facts:
  "(RunWorkers \<in> set (leader_loop w ts) \<longleftrightarrow> LockTaken \<in> set (takeWhile (\<lambda>t. t \<noteq> TurnCanceled) ts))
   \<and> count_list (leader_loop w ts) LogWaiting \<le> (if w then 0 else 1)
   \<and> (RunWorkers \<in> set (leader_loop w ts) \<longrightarrow> last (leader_loop w ts) = Unlock)"
  by (induction w ts rule: leader_loop.induct) auto

text \<open>In leader mode a process runs the jobs exactly when it has taken the lock before it is cancelled, it gives the
  lock back, and it says at most once that it waits.\<close>

theorem jobs_under_lock:
  assumes "cf_background_jobs_mode c = ''leader''" "cf_leader_lock_path c \<noteq> []"
  shows "(RunWorkers \<in> set (runBackgroundJobs c turns) \<longleftrightarrow>
       LockTaken \<in> set (takeWhile (\<lambda>t. t \<noteq> TurnCanceled) turns))
     \<and> count_list (runBackgroundJobs c turns) LogWaiting \<le> 1
     \<and> (RunWorkers \<in> set (runBackgroundJobs c turns) \<longrightarrow> last (runBackgroundJobs c turns) = Unlock)"
  using leader_loop_facts [of False turns] assms by (simp add: runBackgroundJobs_def)

lemma log_retention_positive: "0 < log_retention c"
  by (simp add: log_retention_def Let_def minute_def second_def)

fun file_at :: "string list \<Rightarrow> file_tree \<Rightarrow> gotime option" where
  "file_at [] t = (case t of FFile m \<Rightarrow> Some m | FDir _ _ \<Rightarrow> None)"
| "file_at (x # xs) t =
     (case t of FFile _ \<Rightarrow> None | FDir _ es \<Rightarrow> (case map_of es x of Some s \<Rightarrow> file_at xs s | None \<Rightarrow> None))"

lemma map_of_kept:
  assumes "map_of es x = Some n" "f x n = Some m"
  shows "map_of (List.map_filter (\<lambda>e. map_option (Pair (fst e)) (f (fst e) (snd e))) es) x = Some m"
  using assms by (induction es) (auto simp: List.map_filter_simps split: option.splits if_splits)

lemma map_filter_map: "List.map_filter f (map g xs) = List.map_filter (\<lambda>x. f (g x)) xs"
  by (induction xs) (simp_all add: List.map_filter_simps split: option.split)

lemma prune_files_keeps:
  assumes "file_at q t = Some m" "cutoff \<le> m"
  shows "\<exists>u. snd (prune_files rm cutoff p t) = Some u \<and> file_at q u = Some m"
  using assms(1)
proof (induction q arbitrary: p t)
  case Nil
  then show ?case using assms(2) by (cases t) auto
next
  case (Cons x q)
  then obtain r es s where t: "t = FDir r es" "map_of es x = Some s" "file_at q s = Some m"
    by (auto split: file_tree.splits option.splits)
  from Cons.IH [OF t(3), of "p @ [x]"] obtain u where u: "snd (prune_files rm cutoff (p @ [x]) s) = Some u" "file_at q u = Some m"
    by blast
  show ?case
    using t u map_of_kept [of es x s "\<lambda>n y. snd (prune_files rm cutoff (p @ [n]) y)" u, OF t(2) u(1)]
    by (auto simp: Let_def map_filter_map)
qed

lemma prune_empty_keeps:
  assumes "file_at q t = Some m"
  shows "\<exists>u. prune_empty rm p t = Some u \<and> file_at q u = Some m"
  using assms
proof (induction q arbitrary: p t)
  case Nil
  then show ?case by (cases t) auto
next
  case (Cons x q)
  then obtain r es s where t: "t = FDir r es" "map_of es x = Some s" "file_at q s = Some m"
    by (auto split: file_tree.splits option.splits)
  from Cons.IH [OF t(3), of "p @ [x]"] obtain u where u: "prune_empty rm (p @ [x]) s = Some u" "file_at q u = Some m"
    by blast
  show ?case
    using t u map_of_kept [of es x s "\<lambda>n y. prune_empty rm (p @ [n]) y" u, OF t(2) u(1)]
    by (auto simp: map_filter_map)
qed

text \<open>Files that are younger than the limit survive the pruning, wherever they are.\<close>

theorem young_files_kept:
  assumes "file_at q t = Some m" "cutoff \<le> m"
  shows "\<exists>u. snd (pruneBlobDir rm cutoff (Some t)) = Some u \<and> file_at q u = Some m"
proof (cases t)
  case (FDir r es)
  obtain n u where p: "prune_files rm cutoff [] t = (n, Some u)" "file_at q u = Some m"
    using prune_files_keeps [OF assms, of rm "[]"] by (metis surjective_pairing)
  with prune_empty_keeps [OF p(2), of rm "[]"] show ?thesis by (simp add: pruneBlobDir_def FDir)
qed (use assms in \<open>auto simp: pruneBlobDir_def\<close>)

text \<open>The directories of a day, its month and its year go one at a time: a directory whose last entry is an empty
  directory is visited first, when it is not empty yet.\<close>

theorem empty_parent_stays:
  "pruneBlobDir (\<lambda>_. True) cutoff (Some (FDir True [(y, FDir True [(m, FDir True [(d, FDir True [])])])]))
    = (0, Some (FDir True [(y, FDir True [(m, FDir True [])])]))"
  by (simp add: pruneBlobDir_def List.map_filter_simps)

end
