(* ===== verification/Probes.thy ===== *)
theory Probes
  imports AdminPool Effects ClaudeIdentity Streams NetErr
begin

text \<open>
  Probes of accounts: Probe of the Claude and the Codex driver (src/internal/driver: claude_admin.go, codex_admin.go;
  that of Gemini is in Gemini), probeAccount (src/internal/server/server_runtime.go) and the refresh of accounts
  whose quota state is stale (admin_probe.go).  The HTTP exchange is an input: an error, also of a request that
  cannot be built, or a response whose body is read completely or not.
\<close>

section \<open>The probes of the drivers\<close>

type_synonym exchange = "upstream_request \<Rightarrow> go_error + http_response"

definition errorf :: "string \<Rightarrow> go_error" where
  "errorf msg = \<lparr> ge_message = msg, ge_canceled = False, ge_deadline = False, ge_net = False \<rparr>"

definition returned_status :: "int \<Rightarrow> go_error" where
  "returned_status status = errorf (''upstream returned '' @ itoa status)"

text \<open>The result that comes with an error, \<open>None\<close> for the zero value: nothing to observe, nothing to clear.\<close>

type_synonym probe_outcome = "probe_result option \<times> go_error option"

definition claude_probe_request :: "claude_config \<Rightarrow> string \<Rightarrow> upstream_request" where
  "claude_probe_request cfg token =
     \<lparr> ur_url = cl_api_url cfg,
       ur_body = ''{\"model\":\"claude-haiku-4-5-20251001\",\"max_tokens\":1,\"messages\":[{\"role\":\"user\",\"content\":\"hi\"}]}'',
       ur_headers = setClaudeRequiredHeaders token (cl_api_version cfg) (cl_beta_header cfg)
                      (h_set ''Content-Type'' ''application/json'' []) \<rparr>"

definition claude_Probe :: "error_pauses \<Rightarrow> claude_config \<Rightarrow> exchange \<Rightarrow> gotime \<Rightarrow> account \<Rightarrow> string \<Rightarrow> probe_outcome" where
  "claude_Probe pauses cfg send now acct token =
     (case send (claude_probe_request cfg token) of
        Inl e \<Rightarrow> (None, Some e)
      | Inr r \<Rightarrow>
          (case hr_end r of
             EndError e \<Rightarrow> (None, Some (errorf e))
           | EndOK \<Rightarrow>
               (let eff = claude_Interpret pauses now (hr_status r) (Some (hr_headers r)) (hr_body r) []
                            (ac_provider_state_json acct) in
                if 400 \<le> hr_status r
                then (Some \<lparr> pr_effect = eff, pr_observe = True, pr_clear_cooldown = False \<rparr>,
                      Some (returned_status (hr_status r)))
                else (Some \<lparr> pr_effect = eff, pr_observe = True, pr_clear_cooldown = True \<rparr>, None))))"

definition codex_probe_request :: "string \<Rightarrow> codex_driver \<Rightarrow> account \<Rightarrow> string \<Rightarrow> upstream_request" where
  "codex_probe_request apiURL d acct token =
     \<lparr> ur_url = apiURL,
       ur_body = ''{\"model\":'' @ go_quote (probeModel d)
         @ '',\"instructions\":\"Reply with OK only.\",\"input\":[{\"role\":\"user\",\"content\":\"test\"}],\"stream\":true,\"store\":false}'',
       ur_headers =
         h_set ''Chatgpt-Account-Id'' (ac_subject acct) (h_set ''Host'' ''chatgpt.com''
           (h_set ''Authorization'' (''Bearer '' @ token) (h_set ''Accept'' ''text/event-stream''
             (h_set ''Content-Type'' ''application/json'' [])))) \<rparr>"

text \<open>The scan of the stream, with its buffer of 256 KiB: output, an error event, a line that is too long, or the end.\<close>

datatype scan_end = ProbeOutput | ProbeStreamError | ProbeTooLong | ProbeNoOutput

fun probe_scan :: "string list \<Rightarrow> scan_end" where
  "probe_scan [] = ProbeNoOutput"
| "probe_scan (l # ls) =
     (if 256 * 1024 \<le> length l then ProbeTooLong
      else (let line = drop_cr l in
            if has_prefix line ''event: response.output_text.delta'' then ProbeOutput
            else if has_prefix line ''data: '' \<and> contains line ''\"error\":{'' then ProbeStreamError
            else probe_scan ls))"

definition codex_Probe ::
  "error_pauses \<Rightarrow> string \<Rightarrow> exchange \<Rightarrow> gotime \<Rightarrow> codex_driver \<Rightarrow> account \<Rightarrow> string \<Rightarrow> probe_outcome \<times> codex_driver" where
  "codex_Probe pauses apiURL send now d acct token =
     (if ac_subject acct = [] then ((None, Some (errorf ''codex account missing subject'')), d)
      else (case send (codex_probe_request apiURL d acct token) of
              Inl e \<Rightarrow> ((None, Some e), d)
            | Inr r \<Rightarrow>
                (case hr_end r of
                   EndError e \<Rightarrow> ((None, Some (errorf e)), d)
                 | EndOK \<Rightarrow>
                     (case codex_Interpret pauses now (hr_status r) (Some (hr_headers r)) (hr_body r) []
                             (ac_provider_state_json acct) d of
                        (eff, d') \<Rightarrow>
                          (let seen = \<lparr> pr_effect = eff, pr_observe = True, pr_clear_cooldown = False \<rparr> in
                           (if 400 \<le> hr_status r then (Some seen, Some (returned_status (hr_status r)))
                            else (case probe_scan (raw_lines (hr_body r)) of
                                    ProbeOutput \<Rightarrow> (Some (seen\<lparr>pr_clear_cooldown := True\<rparr>), None)
                                  | ProbeStreamError \<Rightarrow> (Some seen, Some (errorf ''upstream error in stream''))
                                  | ProbeTooLong \<Rightarrow> (Some seen, Some (errorf ''bufio.Scanner: token too long''))
                                  | ProbeNoOutput \<Rightarrow> (Some seen, Some (errorf ''stream ended without output'')))),
                            d')))))"

section \<open>The probe of an account\<close>

text \<open>
  \<open>pv_token\<close> is EnsureValidToken with its error printed, \<open>pv_probe\<close> the Probe of the driver of a provider.
  \<open>pv_now k\<close> is the time of the call number \<open>k\<close> of the pool, \<open>pv_others k\<close> what other requests do before it.
\<close>

record probe_env =
  pv_order :: map_order
  pv_now :: "nat \<Rightarrow> gotime"
  pv_others :: "nat \<Rightarrow> pool \<Rightarrow> pool"
  pv_token :: "string \<Rightarrow> pool \<Rightarrow> (err + string) \<times> pool"
  pv_probe :: "provider \<Rightarrow> (account \<Rightarrow> string \<Rightarrow> probe_outcome) option"
  pv_cell_pause :: duration
  pv_rekeyed :: "string list"
  pv_persisted :: "string list"

definition cool_probed_cell :: "probe_env \<Rightarrow> account \<Rightarrow> probe_outcome \<Rightarrow> pool \<Rightarrow> pool" where
  "cool_probed_cell env acct out p =
     (case out of
        (r, Some e) \<Rightarrow>
          (if \<not> (case r of Some x \<Rightarrow> pr_observe x | None \<Rightarrow> False) \<and> ac_cell_id acct \<noteq> [] \<and> 0 < pv_cell_pause env
              \<and> IsTransport (Some e)
           then snd (CooldownCell (pv_order env) (pv_now env 0) (ac_cell_id acct) (pv_now env 0 + pv_cell_pause env)
                  (''probe transport error on account '' @ ac_email acct @ '': '' @ ge_message e) (pv_others env 0 p))
           else p)
      | _ \<Rightarrow> p)"

definition apply_probe :: "probe_env \<Rightarrow> account \<Rightarrow> probe_result option \<Rightarrow> pool \<Rightarrow> pool" where
  "apply_probe env acct r p =
     (case r of
        None \<Rightarrow> p
      | Some x \<Rightarrow>
          (let q = (if pr_observe x
                    then Observe (pv_order env) (pv_now env 1) (pv_rekeyed env) (pv_persisted env) (ac_id acct) (pr_effect x)
                           (pv_others env 1 p)
                    else p)
           in if pr_clear_cooldown x then ClearCooldown (pv_order env) (pv_now env 2) (ac_id acct) (pv_others env 2 q) else q))"

definition probeAccount :: "probe_env \<Rightarrow> account \<Rightarrow> pool \<Rightarrow> (probe_result option \<times> err option) \<times> pool" where
  "probeAccount env acct p =
     (case pv_token env (ac_id acct) p of
        (Inl e, p1) \<Rightarrow> ((None, Some (''token unavailable: '' @ e)), p1)
      | (Inr token, p1) \<Rightarrow>
          (case pv_probe env (ac_provider acct) of
             None \<Rightarrow> ((None, Some ''unknown provider''), p1)
           | Some probe \<Rightarrow>
               (let out = probe acct token in
                ((fst out, map_option ge_message (snd out)),
                 apply_probe env acct (fst out) (cool_probed_cell env acct out p1)))))"

section \<open>The refresh of stale accounts\<close>

text \<open>Which accounts are probed: active ones that do not cool down for more than half an hour and whose state is stale.\<close>

definition stale_account :: "(provider \<Rightarrow> (string \<Rightarrow> gotime \<Rightarrow> bool) option) \<Rightarrow> gotime \<Rightarrow> account \<Rightarrow> bool" where
  "stale_account is_stale now a \<longleftrightarrow>
     ac_status a = StatusActive
     \<and> (case ac_cooldown_until a of Some t \<Rightarrow> t - now \<le> 30 * minute | None \<Rightarrow> True)
     \<and> (case is_stale (ac_provider a) of Some f \<Rightarrow> f (ac_provider_state_json a) now | None \<Rightarrow> False)"

text \<open>The probes run at the same time; \<open>sched\<close> is the order in which they start, and what they do to one another in
  between is in the environment of each.\<close>

definition refreshStaleAccounts ::
  "(string \<Rightarrow> probe_env) \<Rightarrow> (provider \<Rightarrow> (string \<Rightarrow> gotime \<Rightarrow> bool) option) \<Rightarrow> map_order \<Rightarrow> gotime
   \<Rightarrow> (account list \<Rightarrow> account list) \<Rightarrow> pool \<Rightarrow> pool" where
  "refreshStaleAccounts envs is_stale mo now sched p =
     (case List_accounts mo now (mo_accounts mo) p of
        (accounts, q) \<Rightarrow>
          foldl (\<lambda>q a. snd (probeAccount (envs (ac_id a)) a q)) q (sched (filter (stale_account is_stale now) accounts)))"

section \<open>Properties\<close>

text \<open>What the outcome of a probe says of the exchange: an unreachable provider leaves nothing to observe, a result
  is the classified response, and only a probe without an error clears the cooldown.\<close>

lemma claude_Probe_outcome:
  assumes "claude_Probe pauses cfg send now acct token = (ox, oe)"
  shows "case ox of
      None \<Rightarrow> oe \<noteq> None
    | Some x \<Rightarrow> pr_observe x \<and> (pr_clear_cooldown x \<longleftrightarrow> oe = None)
        \<and> (\<exists>r. send (claude_probe_request cfg token) = Inr r \<and> (oe = None \<longleftrightarrow> hr_status r < 400)
            \<and> pr_effect x = claude_Interpret pauses now (hr_status r) (Some (hr_headers r)) (hr_body r) [] (ac_provider_state_json acct))"
  using assms by (auto simp: claude_Probe_def Let_def split: sum.splits body_end.splits if_splits)

lemma codex_Probe_outcome:
  assumes "codex_Probe pauses apiURL send now d acct token = ((ox, oe), d')"
  shows "case ox of
      None \<Rightarrow> oe \<noteq> None
    | Some x \<Rightarrow> pr_observe x \<and> (pr_clear_cooldown x \<longleftrightarrow> oe = None)
        \<and> (\<exists>r. send (codex_probe_request apiURL d acct token) = Inr r \<and> hr_end r = EndOK
            \<and> (oe = None \<longleftrightarrow> hr_status r < 400 \<and> probe_scan (raw_lines (hr_body r)) = ProbeOutput))"
  using assms
  by (auto simp: codex_Probe_def Let_def split: sum.splits body_end.splits if_splits prod.splits scan_end.splits)

text \<open>A probe does one of two things: it cools down the cell of the account, or it reports what it saw to the pool.\<close>

lemma probe_cell_or_pool:
  assumes "ox = None \<or> (\<exists>x. ox = Some x \<and> pr_observe x)"
  shows "apply_probe env acct ox (cool_probed_cell env acct (ox, oe) p)
    = (case ox of None \<Rightarrow> cool_probed_cell env acct (None, oe) p | Some _ \<Rightarrow> apply_probe env acct ox p)"
  using assms by (auto simp: apply_probe_def cool_probed_cell_def split: option.split)

text \<open>A probe that meets a rate limit, an overload, a block or a refused token makes the account cool down like a
  relayed request does, and does not clear the cooldown, in memory and in the store.\<close>

theorem limited_probe_cools:
  assumes "pv_token env (ac_id acct) p = (Inr token, p1)" "pv_probe env (ac_provider acct) = Some probe"
    and "probe acct token = (Some x, Some e)" "pr_observe x" "\<not> pr_clear_cooldown x" "cooling (ef_kind (pr_effect x))"
    and "observable (pv_order env) (pv_now env 1) (pv_others env 1 p1) (ac_id acct) (pr_effect x) a b"
  shows "fst (probeAccount env acct p) = (Some x, Some (ge_message e))
    \<and> (let q = snd (probeAccount env acct p); k = bucketKeyLocked a in
       \<exists>b'. p_buckets q k = Some b' \<and> s_buckets (p_store q) k = Some b'
         \<and> bk_cooldown_until b' = Some (cooldown_join (bk_cooldown_until b) (ef_cooldown_until (pr_effect x))))"
proof -
  have "snd (probeAccount env acct p)
      = Observe (pv_order env) (pv_now env 1) (pv_rekeyed env) (pv_persisted env) (ac_id acct) (pr_effect x) (pv_others env 1 p1)"
    using assms(1-5) by (simp add: probeAccount_def Let_def cool_probed_cell_def apply_probe_def)
  moreover have "fst (probeAccount env acct p) = (Some x, Some (ge_message e))"
    using assms(1-3) by (simp add: probeAccount_def Let_def)
  ultimately show ?thesis using observe_cooling [OF assms(7,6)] by (simp add: Let_def)
qed

text \<open>The probe of Codex reports an unexpected status, 503 for instance, to the pool as a success although it fails.\<close>

theorem codex_probe_outage_observed:
  assumes "ac_subject acct \<noteq> []" "send (codex_probe_request apiURL d acct token) = Inr r" "hr_end r = EndOK" "hr_status r = 503"
  shows "\<exists>x. codex_Probe pauses apiURL send now d acct token = ((Some x, Some (returned_status 503)), d)
    \<and> pr_observe x \<and> ef_kind (pr_effect x) = EffectSuccess"
  using assms by (simp add: codex_Probe_def codex_Interpret_def Let_def new_effect_def)

text \<open>Accounts that an administrator disabled, that failed or that are blocked are never probed.\<close>

theorem only_active_probed:
  assumes "\<And>as. set (sched as) = set as" "List_accounts mo now (mo_accounts mo) p = (accounts, q)"
    and "\<And>a. a \<in> set accounts \<Longrightarrow> ac_status a \<noteq> StatusActive"
  shows "refreshStaleAccounts envs is_stale mo now sched p = q"
proof -
  have "filter (stale_account is_stale now) accounts = []" using assms(3) by (auto simp: filter_empty_conv stale_account_def)
  moreover have "sched [] = []" using assms(1) [of "[]"] by simp
  ultimately show ?thesis by (simp add: refreshStaleAccounts_def assms(2))
qed

end
