(* ===== verification/StatusPage.thy ===== *)
theory StatusPage
  imports AdminPool Claude PoolSchedule "HOL-Library.Product_Lexorder"
begin

text \<open>
  What the server shows of the accounts (src/internal/server: account_view.go, cell_view.go, public_status.go, the
  listing of admin_accounts.go): the projection of an account by its driver, the listing of the administration, and
  the status page that needs no authentication.  The methods of the admin drivers are a record of functions.
\<close>

section \<open>The projection of an account\<close>

record admin_views =
  aw_utilization :: "string \<Rightarrow> util_window list"
  aw_auto_priority :: "string \<Rightarrow> int"
  aw_probe_label :: string
  aw_describe :: "account \<Rightarrow> (string \<times> string) list"

type_synonym view_drivers = "provider \<Rightarrow> admin_views option"

text \<open>The methods of the Claude driver.\<close>

definition claude_views :: admin_views where
  "claude_views =
     \<lparr> aw_utilization = claude_GetUtilization, aw_auto_priority = claude_AutoPriority, aw_probe_label = ''haiku'',
       aw_describe = (\<lambda>a. claude_DescribeAccount (Some a)) \<rparr>"

text \<open>The second family of a window is there if it has a label.\<close>

record window_response =
  wr_label :: string
  wr_pct :: int
  wr_reset :: int
  wr_sub :: "(string \<times> int \<times> int) option"

record account_projection =
  aj_effective_weight :: int
  aj_auto_weight :: int
  aj_windows :: "window_response list"
  aj_probe_label :: string
  aj_provider_fields :: "(string \<times> string) list"

definition toWindowResponses :: "util_window list \<Rightarrow> window_response list" where
  "toWindowResponses ws =
     map (\<lambda>w. \<lparr> wr_label = uw_label w, wr_pct = uw_pct w, wr_reset = uw_reset w,
                wr_sub = (if uw_sub_label w \<noteq> [] then Some (uw_sub_label w, uw_sub_pct w, uw_sub_reset w) else None) \<rparr>) ws"

definition toFieldResponses :: "(string \<times> string) list \<Rightarrow> (string \<times> string) list" where
  "toFieldResponses fs = filter (\<lambda>f. fst f \<noteq> [] \<and> snd f \<noteq> []) fs"

definition projectAccount :: "view_drivers \<Rightarrow> account \<Rightarrow> account_projection" where
  "projectAccount views a =
     (case views (ac_provider a) of
        None \<Rightarrow> \<lparr> aj_effective_weight = ac_priority a, aj_auto_weight = 0, aj_windows = [],
                  aj_probe_label = ac_provider a, aj_provider_fields = [] \<rparr>
      | Some v \<Rightarrow>
          (let auto = (if ac_priority_mode a = ''auto'' then aw_auto_priority v (ac_provider_state_json a) else 0) in
           \<lparr> aj_effective_weight = (if ac_priority_mode a = ''auto'' then auto else ac_priority a), aj_auto_weight = auto,
             aj_windows = toWindowResponses (aw_utilization v (ac_provider_state_json a)),
             aj_probe_label = aw_probe_label v, aj_provider_fields = toFieldResponses (aw_describe v a) \<rparr>))"

section \<open>The listing of the administration\<close>

record cell_summary =
  cm_id :: string
  cm_name :: string
  cm_status :: string
  cm_labels :: str_map
  cm_cooldown_until :: "gotime option"
  cm_account_count :: nat

definition toCellSummary :: "egress_cell option \<Rightarrow> nat \<Rightarrow> cell_summary option" where
  "toCellSummary oc n =
     map_option (\<lambda>c. \<lparr> cm_id = cl_id c, cm_name = cl_name c, cm_status = cl_status c,
       cm_labels = (case cl_labels c of Some m \<Rightarrow> m | None \<Rightarrow> []),
       cm_cooldown_until = cl_cooldown_until c, cm_account_count = n \<rparr>) oc"

definition accountCountsByCell :: "account list \<Rightarrow> string \<Rightarrow> nat" where
  "accountCountsByCell accounts i = (if i = [] then 0 else length (filter (\<lambda>a. ac_cell_id a = i) accounts))"

record account_list_item =
  ai_id :: string
  ai_email :: string
  ai_provider :: string
  ai_status :: string
  ai_weight :: int
  ai_weight_mode :: string
  ai_last_used_at :: "gotime option"
  ai_cooldown_until :: "gotime option"
  ai_cell_id :: string
  ai_available_native :: bool
  ai_available_compat :: bool
  ai_cell :: "cell_summary option"
  ai_windows :: "window_response list"

definition list_item ::
  "view_drivers \<Rightarrow> (string \<Rightarrow> nat) \<Rightarrow> (string \<rightharpoonup> surface_availability) \<Rightarrow> account \<Rightarrow> account_list_item" where
  "list_item views counts availability a =
     (let j = projectAccount views a;
          s = (case availability (ac_id a) of Some s \<Rightarrow> s | None \<Rightarrow> \<lparr> sa_native = False, sa_compat = False \<rparr>) in
      \<lparr> ai_id = ac_id a, ai_email = ac_email a, ai_provider = ac_provider a, ai_status = ac_status a,
        ai_weight = aj_effective_weight j, ai_weight_mode = ac_priority_mode a, ai_last_used_at = ac_last_used_at a,
        ai_cooldown_until = ac_cooldown_until a, ai_cell_id = ac_cell_id a,
        ai_available_native = sa_native s, ai_available_compat = sa_compat s,
        ai_cell = toCellSummary (ac_cell a) (counts (ac_cell_id a)), ai_windows = aj_windows j \<rparr>)"

definition handleListAccounts :: "admin_env \<Rightarrow> view_drivers \<Rightarrow> pool \<Rightarrow> account_list_item list \<times> pool" where
  "handleListAccounts env views p =
     (case adm_List env 0 p of
        (accounts, p1) \<Rightarrow>
          (case SurfaceAvailabilityMap (av_order env) (av_now env 1) p1 of
             (availability, p2) \<Rightarrow> (map (list_item views (accountCountsByCell accounts) availability) accounts, p2)))"

section \<open>The public status page\<close>

definition public_providers :: "provider list" where
  "public_providers = [ProviderClaude, ProviderCodex]"

definition sort_accounts :: "account list \<Rightarrow> account list" where
  "sort_accounts = sort_key (\<lambda>a. (ac_provider a, ac_created_at a, ac_id a))"

definition shown :: "account \<Rightarrow> bool" where
  "shown a \<longleftrightarrow> ac_provider a \<in> set public_providers \<and> ac_status a \<noteq> StatusDisabled"

text \<open>One window and one account on the page.\<close>

definition limit_json :: "window_response \<Rightarrow> json" where
  "limit_json w =
     JObj ([(''name'', JStr (wr_label w)), (''remaining_pct'', JNum (itoa (100 - wr_pct w)))]
           @ omit_int ''reset_at'' (wr_reset w))"

definition public_account :: "view_drivers \<Rightarrow> gotime \<Rightarrow> account \<Rightarrow> json" where
  "public_account views now a =
     JObj ([(''status'', JStr (ac_status a))]
           @ (case ac_cooldown_until a of
                Some t \<Rightarrow> (if now < t then omit_int ''cooldown_until'' (unix_sec t) else [])
              | None \<Rightarrow> [])
           @ [(''limits'', JArr (map limit_json (aj_windows (projectAccount views a))))])"

definition add_public :: "view_drivers \<Rightarrow> gotime \<Rightarrow> (string \<times> json list) list \<Rightarrow> account \<Rightarrow> (string \<times> json list) list" where
  "add_public views now m a =
     (if shown a
      then AList.update (ac_provider a)
             ((case map_of m (ac_provider a) of Some xs \<Rightarrow> xs | None \<Rightarrow> []) @ [public_account views now a]) m
      else m)"

definition public_status :: "view_drivers \<Rightarrow> gotime \<Rightarrow> account list \<Rightarrow> json" where
  "public_status views now accounts =
     JObj (map (\<lambda>kv. (fst kv, JArr (snd kv)))
             (sort_key fst (foldl (add_public views now) [] (sort_accounts accounts))))"

definition handlePublicStatus :: "admin_env \<Rightarrow> view_drivers \<Rightarrow> response_writer \<Rightarrow> pool \<Rightarrow> response_writer \<times> pool" where
  "handlePublicStatus env views w p =
     (case adm_List env 0 p of
        (accounts, q) \<Rightarrow>
          (writeJSON 200 (public_status views (av_now env 1) accounts) (set_header ''Cache-Control'' ''no-store'' w), q))"

section \<open>Properties\<close>

text \<open>What the page may depend on.\<close>

definition public_view :: "account \<Rightarrow> provider \<times> status \<times> gotime option \<times> string" where
  "public_view a = (ac_provider a, ac_status a, ac_cooldown_until a, ac_provider_state_json a)"

lemma public_account_cong: "public_view a = public_view b \<Longrightarrow> public_account views now a = public_account views now b"
  by (auto simp: public_view_def public_account_def projectAccount_def Let_def split: option.split)

lemma add_public_cong: "public_view a = public_view b \<Longrightarrow> add_public views now m a = add_public views now m b"
  using public_account_cong [of a b views now] by (simp add: public_view_def add_public_def shown_def)

lemma foldl_public_cong:
  "map public_view as = map public_view bs \<Longrightarrow> foldl (add_public views now) m as = foldl (add_public views now) m bs"
proof (induction as arbitrary: bs m)
  case (Cons a as)
  then obtain b bs' where "bs = b # bs'" "public_view a = public_view b" "map public_view as = map public_view bs'"
    by (cases bs) auto
  with Cons.IH [of bs' "add_public views now m a"] show ?case using add_public_cong [of a b views now m] by simp
qed simp

text \<open>C31: The identity of an account never shows on the public page: as long as the accounts, in the order of provider, creation and id, have
  the same providers, states, cooldowns and quotas, the page is the same, whatever their ids, addresses, subjects,
  tokens, errors, weights and cells are.\<close>

theorem public_status_anonymous:
  assumes "map public_view (sort_accounts as) = map public_view (sort_accounts bs)"
  shows "public_status views now as = public_status views now bs"
  using foldl_public_cong [OF assms] by (simp add: public_status_def)

definition sample_shown :: account where
  "sample_shown =
     \<lparr> ac_id = ''a'', ac_email = ''a@x'', ac_provider = ProviderClaude, ac_status = StatusActive, ac_priority = 50,
       ac_priority_mode = ''auto'', ac_error_message = [], ac_bucket_key = [], ac_refresh_token_enc = ''r'',
       ac_access_token_enc = ''t'', ac_expires_at = 0, ac_created_at = 0, ac_last_used_at = None, ac_last_refresh_at = None,
       ac_proxy_json = [], ac_cell_id = ''c'', ac_identity_json = [], ac_subject = ''s'', ac_cooldown_until = Some 20,
       ac_provider_state_json = ''{}'', ac_proxy = None, ac_identity = None, ac_cell = None \<rparr>"

theorem public_status_anonymous_witness:
  "public_status [ProviderClaude \<mapsto> claude_views] 10 [sample_shown]
     = public_status [ProviderClaude \<mapsto> claude_views] 10 [sample_shown\<lparr>ac_id := ''b'', ac_email := ''b@x'', ac_subject := ''s2'', ac_access_token_enc := ''t2''\<rparr>]"
  by (rule public_status_anonymous) (simp add: sort_accounts_def public_view_def sample_shown_def)

lemma map_of_update [simp]: "map_of (AList.update k v m) = (map_of m)(k \<mapsto> v)"
  by (rule ext) (simp add: update_conv)

lemma public_entries:
  "map_of (foldl (add_public views now) m as) prov
   = (case filter (\<lambda>a. shown a \<and> ac_provider a = prov) as of
        [] \<Rightarrow> map_of m prov
      | xs \<Rightarrow> Some ((case map_of m prov of Some ys \<Rightarrow> ys | None \<Rightarrow> []) @ map (public_account views now) xs))"
  by (induction as arbitrary: m) (auto simp: add_public_def split: list.splits option.splits)

lemma distinct_add_public: "distinct (map fst m) \<Longrightarrow> distinct (map fst (foldl (add_public views now) m as))"
  by (induction as arbitrary: m) (auto simp: add_public_def distinct_update)

text \<open>The page lists every account of Claude and Codex that is not disabled, once, and no other.\<close>

theorem public_status_complete:
  "\<exists>m. public_status views now as = JObj (map (\<lambda>kv. (fst kv, JArr (snd kv))) m) \<and> distinct (map fst m)
     \<and> (\<forall>prov. map_of m prov =
           (case filter (\<lambda>a. shown a \<and> ac_provider a = prov) (sort_accounts as) of
              [] \<Rightarrow> None | x # xs \<Rightarrow> Some (map (public_account views now) (x # xs))))"
proof -
  let ?m = "foldl (add_public views now) [] (sort_accounts as)"
  have d: "distinct (map fst ?m)" by (rule distinct_add_public) simp
  then have "map_of (sort_key fst ?m) = map_of ?m"
    by (intro map_of_inject_set [THEN iffD2]) (simp_all add: distinct_map)
  then show ?thesis
    using d by (intro exI [of _ "sort_key fst ?m"]) (auto simp: public_status_def public_entries distinct_map split: list.split)
qed

text \<open>A utilization above one, which the header of the provider can report, shows as a percentage above 100, and as a
  negative remainder on the page.\<close>

theorem overused_window_negative:
  assumes "claude_state_of text = Some s" "cl5_util s = 3 / 2" "cl7_util s = 0" "cl7_reset s \<le> 0"
  shows "map (\<lambda>w. 100 - wr_pct w) (toWindowResponses (claude_GetUtilization text)) = [- 50]"
proof -
  have "fl (cl5_util s * 100) = 150" unfolding assms(2) using fl_of_int [of 150] by simp
  moreover have "0 < cl5_util s" using assms(2) by simp
  ultimately show ?thesis
    using assms(1,3,4) go_trunc_of_int [of 150] by (simp add: claude_GetUtilization_def claude_window_def toWindowResponses_def)
qed

end
