(* ===== verification/Spec2Isabelle.thy ===== *)
theory Spec2Isabelle
  imports RouteProps EffectProps StoreProps PoolRuntime TtlMap RateLimit RelayProps TokenProps ClaudeProps StreamProps AccessProps CompatChatProps AdminProps OAuthProps Transport Watchdog LogHandler Runtime Probes StatusPage
begin

text \<open>
  A model of the core of llm-broker, a relay that shares a pool of OAuth accounts of several language
  model providers between many users.

  Parts and how they interact.  The server authenticates a request and hands it to the relay
  (src/internal/relay), which asks the provider's driver (src/internal/driver) to parse it, asks the
  pool (src/internal/pool) for a route (an account and a lease on it), sends the request upstream,
  lets the driver interpret the outcome as an effect, and reports the effect to the pool.  The pool
  keeps accounts, egress cells and quota buckets in memory, reloads them from the store
  (src/internal/store) at the start of every operation, writes through to the store, and publishes
  events on a bus (src/internal/events).  Several accounts can share one bucket; cooldowns and the
  provider's opaque quota state belong to the bucket.

  Theories.
  Prelude: Go scalars (byte strings, 64-bit wrap-around, times), decimal printing and parsing, map
  loops.  GoJson: the parser and printer of encoding/json that the JSON columns need, with the round
  trip of the printer and a proof that the fuel of the parser is enough for every input.
  Domain: src/internal/domain, the records and their JSON columns, surfaces.
  DriverApi: src/internal/driver/types.go and the scheduler interface, as a record of functions.
  Events: src/internal/events/bus.go; the locale \<open>event_log\<close> is the contract of a bounded log and is
  interpreted on the ring buffer, and in LogHandler on the ring of the handler of structured logs
  (src/internal/events/loghandler.go), whose derived handlers share it.
  Store: src/internal/store/mock_store.go; the locales \<open>expiring_table\<close>, \<open>nx_table\<close> and \<open>lease_lock\<close>
  are the contracts of session bindings and OAuth sessions, of stainless bindings, and of the refresh
  lock, each interpreted on the store's operations.
  Pool (pool.go, pool_buckets.go), PoolAccounts, PoolCells, PoolObserve, PoolSchedule: one definition
  per operation of the files of the same name.
  PoolWf and PoolInvariant: well-formedness; the locale \<open>pool_invariant\<close> shows that what the primitive
  writes keep, every operation keeps; its interpretations give the well-formedness invariant and the
  frame of the routing state.
  Leases: the pool together with the leases held by relays as a transition system, with the
  accounting invariant of loads and affinity claims.  Scheduling: what the scan for a route returns.
  Effects: what Observe and the clean-up do to buckets and accounts.
  Samples: concrete states on which the properties are exercised.
  GoFloat, GoStruct, GoTime, GoHttp: what the drivers use of strconv, encoding/json (decoding into
  structs), time and net/http: doubles with IEEE rounding and their shortest decimals, field tables,
  RFC 3339 and RFC 1123 times, durations, headers, query strings.
  Codex, CodexState, CodexRelay, CodexStream, Claude, Gemini, DriverState: the three drivers of
  src/internal/driver (models and prices, quota state and its JSON document, classification of
  responses, scheduling, requests, the preflight of Codex streams).  DriverApi holds their common
  vocabulary and the locale \<open>scheduler\<close>, the contract that the pool needs of a driver; each driver
  theory interprets it.  DriverState and CodexState show that a stored quota state reads back,
  CodexStream that the preflight does not depend on the sizes of network reads.
  PoolRuntime, TtlMap, RateLimit: pool_runtime.go, store/mem.go, server/compat_rate_limit.go.
  NetErr, RelayAttempt, RelayRequest: the relay (relay_flow.go, relay_request.go, relay_attempt.go,
  relay_count_tokens.go) and src/internal/neterr.  What the relay does to the other parts and to the
  client is a list of actions in the order of the calls; what it gets from them is an input of each
  attempt, so that the actions of other requests may come in between.  RelayTrace shows the shape of
  that list: one answer, nothing sent upstream after it, and one attempt more than the configured
  retries at most; \<open>attempts_loop\<close> recurses on exactly this number, so no fuel is involved.
  ClaudeBody, ClaudeWalk, PromptEnv, ClaudeIdentity: the request of the Claude driver (claude_envelope.go,
  claude_identity.go, BuildRequest of claude.go); ClaudeWalk holds the laws of the walk over the content
  blocks of a body, PromptEnv the masking of prompts with its regular expressions.
  Streams: what the three drivers write to the client (StreamResponse, ForwardResponse, WriteError,
  WriteUpstreamError) with the line scanner they read event streams with.
  Access: src/internal/auth, the gates and routes of src/internal/server, the administration of users; the
  locale \<open>user_update\<close> of AccessProps is what an update of one user promises, interpreted on the
  operations of the store.
  Crypto, Tokens: src/internal/crypto and src/internal/tokens, on the operations of the pool.
  Compat, CompatStream, CompatMeta, CompatChat: the compat surface of src/internal/server (compat_openai_types.go,
  compat_openai_utils.go, compat_openai_claude.go, compat_openai_gemini.go, compat_openai_stream.go,
  compat_observe.go, compat_openai_chat.go).  A chat completion request of the OpenAI API becomes a request of
  Claude or Gemini, is relayed, and the answer is translated back, complete or as an event stream.  CompatLines
  holds the laws of the two stream writers: its locale \<open>line_handler\<close> is what the loop over the buffered lines
  needs of the handler of one line (that it only looks at the line, keeps the invariant of the writer, and adds
  the text of the line), and is interpreted on the handlers of Claude and of Gemini.  The relay behind the
  handler is a parameter of CompatChat, the calls it makes on the response writer; so are the time of creation,
  the number of the downstream write that fails, and what other requests do to the rate limiter meanwhile.
  AdminPool: the handlers of admin_accounts.go and admin_cells.go that change the pool; a handler that calls the
  pool several times lets other requests run after each call (\<open>av_others\<close>).  AccountWrites: what the operations
  that the admin handlers call (Update, StoreTokens, Add) leave in the pool and in the table of accounts.
  GoUrl: url.Parse and base64, with the round trip of the unpadded encoding.  OAuth: the login addresses, the
  exchange of a code, the refresh of tokens and the identity tokens of the three drivers (claude_oauth.go,
  codex_oauth.go, gemini_oauth.go, gemini_identity.go, gemini_codeassist.go and the lifecycle files); what the
  provider answers is an input.  OAuthLaws: the locale \<open>code_exchange\<close> is what a login relies on (an
  exchange that succeeds returns a subject and an access token, and the token endpoint answered it with 200), interpreted on the three drivers.
  OAuthAdmin: the login handlers (admin_oauth.go, admin_oauth_support.go), on the pool and the store.  Transport: the cache of round trippers of
  src/internal/transport/pool.go.  Watchdog: src/internal/localcellwatchdog and the configuration of its command;
  what it does is a list of actions, what it gets is an input.
  RequestLog: the files of the request log (src/internal/requestlog/artifact.go); that a file stays until the purge
  reaches its day rests on the calendar of GoTime being invertible.  Config: src/internal/config/config.go and what
  src/cmd/relay/main.go passes on.  Runtime and Probes: src/internal/server/server_runtime.go and admin_probe.go, the
  background jobs, the pruning of files, and the probes of accounts with those of the Claude and the Codex driver.
  StatusPage: account_view.go, cell_view.go, the listing of admin_accounts.go and public_status.go.
  RouteProps, EffectProps, StoreProps, DriverProps, RelayProps, TokenProps, ClaudeProps, StreamProps, AdminProps,
  OAuthLaws, OAuthProps, AccessProps, CompatRequest, CompatAnswers, CompatChatProps: the properties.

  Correspondence.  An exported operation of the pool holds the mutex for its whole body, so it is one
  atomic function from the state to the state; \<open>time.Now\<close> is an argument (one reading per locked
  section), and the visit order of each map loop is an argument.  A pointer to a bucket, account or
  cell in the pool's maps is the entry under its key.  An affinity claim (a pointer to a struct with a
  channel) is a number; \<open>p_closed\<close> lists the closed channels.  The waiting loop of AcquireRoute is
  modelled turn by turn: \<open>AcquireRoute_turn\<close> returns a lease, an error, or the claim it waits for.
  Times are integers (nanoseconds), a float64 is a rational rounded to double precision, errors are values.
  The store is the in-memory one; the SQLite store is not modelled.  The calls \<open>go onAuthFailure\<close> are a
  trace.  \<open>Accept\<close> writes the session binding and releases the claim in one step.

  Not modelled: the SQLite store and its schema (its contract is modelled on the in-memory store), the serving of
  HTTP, most admin pages that only read, what the relay and the compat surface observe for the request log, the
  dialling of TLS transports and proxies, the command line tools except the watchdog, the web user interface.
\<close>

end
